(* ===== verification/Prelude.thy ===== *)
theory Prelude
  imports Main "HOL-Library.Word" "HOL-Library.Signed_Division"
begin

section \<open>Shared vocabulary of the development\<close>

text \<open>
  What every component uses: bytes and C strings, C integer division, undefined behaviour
  as a value, the allocator, and the interface \<open>codec\<close> that the readers and writers of
  \<^verbatim>\<open>src/include/MQTTPacket.c\<close> and \<^verbatim>\<open>MQTTProperties.c\<close> share.

  Conventions. A C \<^verbatim>\<open>int\<close> that only counts bytes of one packet is an \<open>int\<close>, a
  \<^verbatim>\<open>size_t\<close> or a pointer into a buffer is a \<open>nat\<close>; an integer whose width matters
  (a \<^verbatim>\<open>uint32_t\<close>, the remaining length of a property list, a time stamp) is a word of
  that width. A pointer into a buffer is the buffer, a list of bytes, and a position in it.
\<close>

unbundle bit_operations_syntax

type_synonym byte = "8 word"
type_synonym bytes = "byte list"

named_theorems c_simps \<open>unfolding rules of the modelled operations, used for evaluation\<close>

subsection \<open>Undefined behaviour as a value\<close>

text \<open>
  The C code has branches whose behaviour the language leaves undefined. A model that used
  an unspecified HOL value there would hide them, so each is a value of \<open>ub\<close> and every
  operation that can reach one returns \<open>ub + 'a\<close>.
\<close>

datatype ub =
    OverRead          \<comment> \<open>a read past the end of a buffer\<close>
  | OverWrite         \<comment> \<open>a write past the end of an allocated buffer\<close>
  | UninitRead        \<comment> \<open>use of memory that was never initialised\<close>
  | WrongMember       \<comment> \<open>a union member read that is not the one stored\<close>
  | NullDeref         \<comment> \<open>a NULL pointer dereferenced\<close>
  | DivByZero         \<comment> \<open>an integer division by zero\<close>
  | IntOverflow       \<comment> \<open>a signed overflow\<close>
  | UseAfterFree      \<comment> \<open>use of memory that was released\<close>

definition ub_bind :: "ub + 'a \<Rightarrow> ('a \<Rightarrow> ub + 'b) \<Rightarrow> ub + 'b" where
  "ub_bind m f = (case m of Inl e \<Rightarrow> Inl e | Inr x \<Rightarrow> f x)"

lemma ub_bind_simps [simp, c_simps]:
  "ub_bind (Inl e) f = Inl e"
  "ub_bind (Inr x) f = f x"
  by (simp_all add: ub_bind_def)

lemma ub_bind_Inr_iff: "ub_bind m f = Inr y \<longleftrightarrow> (\<exists>x. m = Inr x \<and> f x = Inr y)"
  by (cases m) auto

lemma ub_bind_InrE:
  assumes "ub_bind m f = Inr y"
  obtains x where "m = Inr x" "f x = Inr y"
  using assms by (auto simp: ub_bind_Inr_iff)

lemma ub_bind_cong [fundef_cong]:
  "m = m' \<Longrightarrow> (\<And>x. m' = Inr x \<Longrightarrow> f x = f' x) \<Longrightarrow> ub_bind m f = ub_bind m' f'"
  by (cases m') auto

subsection \<open>The allocator\<close>

text \<open>
  \<^verbatim>\<open>malloc\<close> may return NULL and the code has a branch for it almost everywhere. Which
  requests succeed is an argument of the model: a \<open>heap\<close> says it for every kind of request
  the code makes, a struct by its name, a buffer by its length and a property array by its
  number of entries.
\<close>

datatype request = ReqStruct string | ReqBuffer nat | ReqPropArray int

type_synonym heap = "request \<Rightarrow> bool"

definition heap_total :: "heap \<Rightarrow> bool" where
  "heap_total H \<longleftrightarrow> (\<forall>r. H r)"

lemma heap_totalD [simp]: "heap_total H \<Longrightarrow> H r"
  by (simp add: heap_total_def)

lemma heap_total_top [simp]: "heap_total (\<lambda>_. True)"
  by (simp add: heap_total_def)

subsection \<open>C division and C strings\<close>

lemma sdiv_nonneg [simp]: "0 \<le> (a::int) \<Longrightarrow> 0 < b \<Longrightarrow> a sdiv b = a div b"
  by (cases "a = 0") (auto simp: signed_divide_int_def)

lemma smod_nonneg [simp]: "0 \<le> (a::int) \<Longrightarrow> 0 < b \<Longrightarrow> a smod b = a mod b"
  by (cases "a = 0") (auto simp: signed_modulo_int_def)

lemma sdiv_minus: "0 \<le> (a::int) \<Longrightarrow> 0 < b \<Longrightarrow> (- a) sdiv b = - (a div b)"
  by (cases "a = 0") (auto simp: signed_divide_int_def)

lemma smod_minus: "0 \<le> (a::int) \<Longrightarrow> 0 < b \<Longrightarrow> (- a) smod b = - (a mod b)"
  by (cases "a = 0") (auto simp: signed_modulo_int_def)

text \<open>A C string is the bytes before the first zero byte of the memory it points to.\<close>

definition c_str :: "bytes \<Rightarrow> bytes" where
  "c_str s = takeWhile (\<lambda>c. c \<noteq> 0) s"

definition strlen :: "bytes \<Rightarrow> nat" where
  "strlen s = length (c_str s)"

lemma c_str_id [simp]: "0 \<notin> set s \<Longrightarrow> c_str s = s"
  unfolding c_str_def by (subst takeWhile_eq_all_conv) auto

lemma strlen_id [simp]: "0 \<notin> set s \<Longrightarrow> strlen s = length s"
  by (simp add: strlen_def)

lemma c_str_append_zero [simp]: "c_str (s @ 0 # t) = c_str s"
  by (induction s) (auto simp: c_str_def)

lemma zero_notin_c_str [simp]: "0 \<notin> set (c_str s)"
  unfolding c_str_def by (auto dest: set_takeWhileD)

subsection \<open>Bytes as numbers\<close>

lemma uint_byte_of_mod [simp]: "uint (word_of_int (n mod 256) :: byte) = n mod 256"
  by (simp add: uint_word_of_int)

lemma uint_byte_of_int: "uint (word_of_int n :: byte) = n mod 256"
  by (simp add: uint_word_of_int)

lemma uint_byte_small: "0 \<le> n \<Longrightarrow> n < 256 \<Longrightarrow> uint (word_of_int n :: byte) = n"
  by (simp add: uint_word_of_int)

lemma unat_byte_small: "n < 256 \<Longrightarrow> unat (word_of_nat n :: byte) = n"
  by (simp add: unat_of_nat)

lemma unat_byte_of_nat: "unat (word_of_nat n :: byte) = n mod 256"
  by (simp add: unat_of_nat)

lemma uint_byte_lt [simp]: "uint (b :: byte) < 256"
  using uint_bounded [of b] by simp

lemma unat_byte_lt [simp]: "unat (b :: byte) < 256"
  using unsigned_less [of b] by simp

lemma unat_byte_le: "unat (b :: byte) \<le> 255"
  using unat_byte_lt [of b] by linarith

lemma byte_split_int:
  assumes "0 \<le> n" "n < 65536"
  shows "256 * uint (word_of_int (n div 256) :: byte) + uint (word_of_int (n mod 256) :: byte) = (n :: int)"
proof -
  have "n div 256 mod 256 = n div 256" using assms by (intro mod_pos_pos_trivial) simp_all
  then show ?thesis by (simp add: uint_byte_of_int)
qed

text \<open>Positions relative to the input pointer.\<close>

lemma nth_at_pointer [simp]:
  "(pre @ xs) ! (length pre + k) = xs ! k"
  "(pre @ x # xs) ! Suc (length pre) = xs ! 0"
  by (simp_all add: nth_append)

lemma unat_word32_of_nat: "n < 2 ^ 32 \<Longrightarrow> unat (word_of_nat n :: 32 word) = n"
  by (simp add: unat_of_nat)

lemma sint_word32_small:
  assumes "unat (w :: 32 word) < 2147483648"
  shows "sint w = int (unat w)"
proof -
  have "int (unat w) < 2147483648" using assms by linarith
  then have "uint w < 2147483648" by simp
  moreover have "- 2147483648 \<le> uint w" using uint_nonnegative [of w] by linarith
  ultimately show ?thesis by (simp add: sint_uint signed_take_bit_int_eq_self)
qed

subsection \<open>Readers and writers of a byte format\<close>

text \<open>
  The interface between the packet code and the fields it is made of: \<open>wr\<close> writes a value
  at the output pointer, \<open>rd\<close> reads one at a position of a buffer and returns the next
  position. The one law is that reading what was written returns the value and stops where
  the writer stopped, whatever surrounds it.
\<close>

locale codec =
  fixes wr :: "'a \<Rightarrow> bytes"
    and rd :: "bytes \<Rightarrow> nat \<Rightarrow> ub + ('a \<times> nat)"
    and ok :: "'a \<Rightarrow> bool"
  assumes rd_wr: "ok x \<Longrightarrow> rd (pre @ wr x @ post) (length pre) = Inr (x, length pre + length (wr x))"
begin

text \<open>Reading at the start, and of two consecutive values.\<close>

lemma rd_wr_start: "ok x \<Longrightarrow> rd (wr x @ post) 0 = Inr (x, length (wr x))"
  using rd_wr [of x "[]" post] by simp

lemma rd_wr_second:
  assumes "ok x" "ok y"
  shows "rd (pre @ wr x @ wr y @ post) (length pre + length (wr x)) =
           Inr (y, length pre + length (wr x) + length (wr y))"
  using rd_wr [OF assms(2), of "pre @ wr x" post] by simp

text \<open>The format is uniquely decodable: no encoding is a proper prefix of another.\<close>

lemma wr_prefix_free:
  assumes "ok x" "ok y" "wr x @ s = wr y @ t"
  shows "x = y \<and> s = t"
proof -
  from rd_wr_start [OF assms(1), of s] rd_wr_start [OF assms(2), of t] assms(3)
  have "x = y" by simp
  with assms(3) show ?thesis by simp
qed

lemma wr_inj: "ok x \<Longrightarrow> ok y \<Longrightarrow> wr x = wr y \<Longrightarrow> x = y"
  using wr_prefix_free [of x y "[]" "[]"] by simp

text \<open>A sequence of values is uniquely decodable too, when no value is written as nothing.\<close>

lemma wr_seq_inj:
  assumes "\<forall>x\<in>set xs. ok x" "\<forall>y\<in>set ys. ok y" "\<And>x. ok x \<Longrightarrow> wr x \<noteq> []"
    and "concat (map wr xs) = concat (map wr ys)"
  shows "xs = ys"
  using assms(1,2,4)
proof (induction xs arbitrary: ys)
  case Nil
  then show ?case using assms(3) by (cases ys) auto
next
  case (Cons x xs)
  have x: "ok x" and xs: "\<forall>x\<in>set xs. ok x" using Cons.prems(1) by simp_all
  from assms(3) [OF x] Cons.prems(3) obtain y ys' where ys: "ys = y # ys'"
    by (cases ys) simp_all
  have y: "ok y" and ys': "\<forall>y\<in>set ys'. ok y" using Cons.prems(2) ys by simp_all
  from Cons.prems(3) ys have "wr x @ concat (map wr xs) = wr y @ concat (map wr ys')" by simp
  from wr_prefix_free [OF x y this] have "x = y" "concat (map wr xs) = concat (map wr ys')"
    by simp_all
  with Cons.IH [OF xs ys'] ys show ?case by simp
qed

end

end
