(* ===== verification/Sorting.thy ===== *)
theory Sorting
  imports Main "HOL-Library.Multiset"
begin

section \<open>The sorting function of the C library\<close>

text \<open>
  \<^verbatim>\<open>qsort\<close> is a parameter of the code that calls it: \<open>qsort_ok\<close> says what is documented of it, and
  \<open>insertion_qsort\<close> is a function that behaves so.
\<close>

text \<open>
  The documented behaviour of \<^verbatim>\<open>qsort\<close>: for a comparison that is a consistent total order on the
  elements, the result is a sorted permutation.
\<close>

definition cmp_order :: "('a \<Rightarrow> 'a \<Rightarrow> int) \<Rightarrow> 'a set \<Rightarrow> bool" where
  "cmp_order cmp A \<longleftrightarrow> (\<forall>a\<in>A. \<forall>b\<in>A. cmp a b \<le> 0 \<or> cmp b a \<le> 0) \<and>
     (\<forall>a\<in>A. \<forall>b\<in>A. \<forall>c\<in>A. cmp a b \<le> 0 \<longrightarrow> cmp b c \<le> 0 \<longrightarrow> cmp a c \<le> 0)"

definition qsort_ok :: "(('a \<Rightarrow> 'a \<Rightarrow> int) \<Rightarrow> 'a list \<Rightarrow> 'a list) \<Rightarrow> bool" where
  "qsort_ok qsort \<longleftrightarrow> (\<forall>cmp xs. cmp_order cmp (set xs) \<longrightarrow>
     mset (qsort cmp xs) = mset xs \<and> sorted_wrt (\<lambda>a b. cmp a b \<le> 0) (qsort cmp xs))"

lemma sorted_wrt_key: "sorted_wrt (\<lambda>a b. (f a :: int) - f b \<le> 0) xs \<longleftrightarrow> sorted (map f xs)"
  by (simp add: sorted_map)

text \<open>A \<^verbatim>\<open>qsort\<close> that behaves as documented.\<close>

fun insert_by :: "('a \<Rightarrow> 'a \<Rightarrow> int) \<Rightarrow> 'a \<Rightarrow> 'a list \<Rightarrow> 'a list" where
  "insert_by cmp x [] = [x]"
| "insert_by cmp x (y # ys) = (if cmp x y \<le> 0 then x # y # ys else y # insert_by cmp x ys)"

definition insertion_qsort :: "('a \<Rightarrow> 'a \<Rightarrow> int) \<Rightarrow> 'a list \<Rightarrow> 'a list" where
  "insertion_qsort cmp xs = foldr (insert_by cmp) xs []"

lemma mset_insert_by [simp]: "mset (insert_by cmp x ys) = add_mset x (mset ys)"
  by (induction ys) auto

lemma set_insert_by [simp]: "set (insert_by cmp x ys) = insert x (set ys)"
  by (induction ys) auto

lemma sorted_insert_by:
  assumes "cmp_order cmp A" "insert x (set ys) \<subseteq> A" "sorted_wrt (\<lambda>a b. cmp a b \<le> 0) ys"
  shows "sorted_wrt (\<lambda>a b. cmp a b \<le> 0) (insert_by cmp x ys)"
  using assms(2,3)
proof (induction ys)
  case (Cons y ys)
  have tot: "cmp x y \<le> 0 \<or> cmp y x \<le> 0" using assms(1) Cons.prems(1) by (simp add: cmp_order_def)
  have tr: "cmp x z \<le> 0" if "cmp x y \<le> 0" "z \<in> set ys" for z
  proof -
    have "cmp y z \<le> 0" "x \<in> A" "y \<in> A" "z \<in> A" using Cons.prems that by auto
    with assms(1) that(1) show ?thesis unfolding cmp_order_def by blast
  qed
  show ?case using Cons tot tr by auto
qed simp

lemma insertion_qsort_ok: "qsort_ok insertion_qsort"
proof -
  have "mset (insertion_qsort cmp xs) = mset xs" for cmp and xs :: "'a list"
    by (induction xs) (simp_all add: insertion_qsort_def)
  moreover have "sorted_wrt (\<lambda>a b. cmp a b \<le> 0) (insertion_qsort cmp xs)"
    if "cmp_order cmp (set xs)" for cmp and xs :: "'a list"
  proof -
    have "set ys \<subseteq> set xs \<Longrightarrow> sorted_wrt (\<lambda>a b. cmp a b \<le> 0) (foldr (insert_by cmp) ys []) \<and>
        set (foldr (insert_by cmp) ys []) = set ys" for ys
      by (induction ys) (auto intro!: sorted_insert_by [OF that])
    then show ?thesis by (simp add: insertion_qsort_def)
  qed
  ultimately show ?thesis by (auto simp: qsort_ok_def)
qed

end
