(* ===== verification/Codec.thy ===== *)
theory Codec
  imports Prelude
begin

section \<open>Fields of a packet: \<^verbatim>\<open>src/include/MQTTPacket.c\<close>\<close>

text \<open>
  The readers and writers of single fields (bytes, 2 and 4 byte integers, length-delimited
  strings, the variable byte integer of the remaining length) and the fixed header byte. A
  writer returns the bytes it stores at the output pointer, a reader takes the buffer and the
  position of the input pointer and returns the value and the next position; a read outside
  the buffer is \<open>OverRead\<close>. Every reader/writer pair is an interpretation of \<open>codec\<close>.
\<close>

subsection \<open>The fixed header byte\<close>

text \<open>\<^verbatim>\<open>enum msgTypes\<close>.\<close>

definition CONNECT :: nat where "CONNECT = 1"
definition CONNACK :: nat where "CONNACK = 2"
definition PUBLISH :: nat where "PUBLISH = 3"
definition PUBACK :: nat where "PUBACK = 4"
definition PUBREC :: nat where "PUBREC = 5"
definition PUBREL :: nat where "PUBREL = 6"
definition PUBCOMP :: nat where "PUBCOMP = 7"
definition SUBSCRIBE :: nat where "SUBSCRIBE = 8"
definition SUBACK :: nat where "SUBACK = 9"
definition UNSUBSCRIBE :: nat where "UNSUBSCRIBE = 10"
definition UNSUBACK :: nat where "UNSUBACK = 11"
definition PINGREQ :: nat where "PINGREQ = 12"
definition PINGRESP :: nat where "PINGRESP = 13"
definition DISCONNECT :: nat where "DISCONNECT = 14"
definition AUTH :: nat where "AUTH = 15"

lemmas msgTypes_defs = CONNECT_def CONNACK_def PUBLISH_def PUBACK_def PUBREC_def PUBREL_def
  PUBCOMP_def SUBSCRIBE_def SUBACK_def UNSUBSCRIBE_def UNSUBACK_def PINGREQ_def PINGRESP_def
  DISCONNECT_def AUTH_def

definition MQTTVERSION_3_1 :: int where "MQTTVERSION_3_1 = 3"
definition MQTTVERSION_3_1_1 :: int where "MQTTVERSION_3_1_1 = 4"
definition MQTTVERSION_5 :: int where "MQTTVERSION_5 = 5"

lemmas version_defs = MQTTVERSION_3_1_def MQTTVERSION_3_1_1_def MQTTVERSION_5_def

text \<open>
  The bit-field union \<^verbatim>\<open>Header\<close> (little-endian layout): the four members of the byte, and
  the byte made by assigning all four. Assigning to a bit-field keeps the low bits.
\<close>

definition hd_type :: "byte \<Rightarrow> nat" where "hd_type b = unat (drop_bit 4 b)"
definition hd_dup :: "byte \<Rightarrow> nat" where "hd_dup b = unat (drop_bit 3 b) mod 2"
definition hd_qos :: "byte \<Rightarrow> nat" where "hd_qos b = unat (drop_bit 1 b) mod 4"
definition hd_retain :: "byte \<Rightarrow> nat" where "hd_retain b = unat b mod 2"

definition mk_header :: "nat \<Rightarrow> nat \<Rightarrow> nat \<Rightarrow> nat \<Rightarrow> byte" where
  "mk_header type dup qos retain =
     word_of_nat (16 * (type mod 16) + 8 * (dup mod 2) + 2 * (qos mod 4) + retain mod 2)"

lemma hd_unat:
  "hd_type b = unat b div 16" "hd_dup b = unat b div 8 mod 2" "hd_qos b = unat b div 2 mod 4"
  "hd_retain b = unat b mod 2"
  unfolding hd_type_def hd_dup_def hd_qos_def hd_retain_def unat_drop_bit_eq
  by (simp_all add: drop_bit_eq_div)

lemma unat_mk_header:
  "unat (mk_header t d q r) = 16 * (t mod 16) + 8 * (d mod 2) + 2 * (q mod 4) + r mod 2"
  unfolding mk_header_def
  using mod_less_divisor [of 16 t] mod_less_divisor [of 2 d] mod_less_divisor [of 4 q]
    mod_less_divisor [of 2 r] by (intro unat_byte_small) linarith

lemma header_digits:
  assumes "b < 2" "c < 4" "e < (2::nat)"
  shows "(16 * a + 8 * b + 2 * c + e) div 16 = a" "(16 * a + 8 * b + 2 * c + e) div 8 mod 2 = b"
    "(16 * a + 8 * b + 2 * c + e) div 2 mod 4 = c" "(16 * a + 8 * b + 2 * c + e) mod 2 = e"
proof -
  let ?n = "2 * (4 * (2 * a + b) + c) + e"
  have n: "16 * a + 8 * b + 2 * c + e = ?n" by simp
  have d1: "(2 * k + e) mod 2 = e" for k using assms by simp
  have d2: "?n div 2 = 4 * (2 * a + b) + c" using assms by simp
  have d8: "?n div 8 = 2 * a + b"
    using assms by (simp add: d2 div_mult2_eq [of _ 2 4, simplified])
  have d16: "?n div 16 = a"
    using assms by (simp add: d8 div_mult2_eq [of _ 8 2, simplified])
  show "(16 * a + 8 * b + 2 * c + e) div 16 = a" by (simp only: n d16)
  show "(16 * a + 8 * b + 2 * c + e) div 8 mod 2 = b" unfolding n d8 using assms by simp
  have "(4 * k + c) mod 4 = c" for k using assms by simp
  then show "(16 * a + 8 * b + 2 * c + e) div 2 mod 4 = c" unfolding n d2 .
  show "(16 * a + 8 * b + 2 * c + e) mod 2 = e" unfolding n by (rule d1)
qed

lemma mk_header_fields:
  "hd_type (mk_header t d q r) = t mod 16"
  "hd_dup (mk_header t d q r) = d mod 2"
  "hd_qos (mk_header t d q r) = q mod 4"
  "hd_retain (mk_header t d q r) = r mod 2"
  unfolding hd_unat unat_mk_header by (rule header_digits; simp)+

lemma hd_bounds: "hd_type b < 16" "hd_dup b < 2" "hd_qos b < 4" "hd_retain b < 2"
  using unat_byte_lt [of b] by (simp_all add: hd_unat less_mult_imp_div_less del: unat_byte_lt)

lemma unat_hd: "unat b = 16 * hd_type b + 8 * hd_dup b + 2 * hd_qos b + hd_retain b"
proof -
  have "x = 16 * (x div 16) + 8 * (x div 8 mod 2) + 2 * (x div 2 mod 4) + x mod 2" for x :: nat
  proof -
    have 1: "x div 8 = x div 2 div 4" "x div 16 = x div 2 div 4 div 2"
      by (simp_all add: div_mult2_eq [symmetric])
    have "x = 2 * (x div 2) + x mod 2" by simp
    moreover have "x div 2 = 4 * (x div 2 div 4) + x div 2 mod 4" by simp
    moreover have "x div 2 div 4 = 2 * (x div 2 div 4 div 2) + x div 2 div 4 mod 2"
      by (rule mult_div_mod_eq [symmetric])
    ultimately show ?thesis unfolding 1 by linarith
  qed
  then show ?thesis unfolding hd_unat .
qed

lemma header_eqI:
  assumes "hd_type a = hd_type b" "hd_dup a = hd_dup b" "hd_qos a = hd_qos b"
    "hd_retain a = hd_retain b"
  shows "a = b"
  using assms by (simp add: word_unat_eq_iff unat_hd)

text \<open>\<^verbatim>\<open>packet_names\<close> and \<^verbatim>\<open>MQTTPacket_name\<close>.\<close>

definition packet_names :: "string list" where
  "packet_names = [''RESERVED'', ''CONNECT'', ''CONNACK'', ''PUBLISH'', ''PUBACK'', ''PUBREC'',
     ''PUBREL'', ''PUBCOMP'', ''SUBSCRIBE'', ''SUBACK'', ''UNSUBSCRIBE'', ''UNSUBACK'',
     ''PINGREQ'', ''PINGRESP'', ''DISCONNECT'', ''AUTH'']"

definition MQTTPacket_name :: "int \<Rightarrow> string" where
  "MQTTPacket_name ptype =
     (if 0 \<le> ptype \<and> ptype \<le> int AUTH then packet_names ! nat ptype else ''UNKNOWN'')"

lemma MQTTPacket_name_inj:
  "0 \<le> a \<Longrightarrow> a \<le> 15 \<Longrightarrow> 0 \<le> b \<Longrightarrow> b \<le> 15 \<Longrightarrow> MQTTPacket_name a = MQTTPacket_name b \<Longrightarrow> a = b"
proof -
  have d: "distinct packet_names" by (simp add: packet_names_def)
  have l: "length packet_names = 16" by (simp add: packet_names_def)
  assume "0 \<le> a" "a \<le> 15" "0 \<le> b" "b \<le> 15" "MQTTPacket_name a = MQTTPacket_name b"
  then have "packet_names ! nat a = packet_names ! nat b" "nat a < 16" "nat b < 16"
    by (auto simp: MQTTPacket_name_def AUTH_def)
  with d l have "nat a = nat b" by (simp add: nth_eq_iff_index_eq)
  with \<open>0 \<le> a\<close> \<open>0 \<le> b\<close> show "a = b" by simp
qed

subsection \<open>Bytes and integers\<close>

definition readChar :: "bytes \<Rightarrow> nat \<Rightarrow> ub + (byte \<times> nat)" where
  "readChar buf p = (if p < length buf then Inr (buf ! p, p + 1) else Inl OverRead)"

definition writeChar :: "byte \<Rightarrow> bytes" where
  "writeChar c = [c]"

definition readInt :: "bytes \<Rightarrow> nat \<Rightarrow> ub + (int \<times> nat)" where
  "readInt buf p =
     (if p + 1 < length buf then Inr (256 * uint (buf ! p) + uint (buf ! (p + 1)), p + 2)
      else Inl OverRead)"

definition writeInt :: "int \<Rightarrow> bytes" where
  "writeInt anInt = [word_of_int (anInt sdiv 256), word_of_int (anInt smod 256)]"

text \<open>
  \<^verbatim>\<open>readInt4\<close> computes in \<^verbatim>\<open>int\<close>; the caller stores the result in an \<^verbatim>\<open>unsigned int\<close>, so
  the model returns the 32-bit pattern (two's complement wrap-around).
\<close>

definition readInt4 :: "bytes \<Rightarrow> nat \<Rightarrow> ub + (32 word \<times> nat)" where
  "readInt4 buf p =
     (if p + 3 < length buf
      then Inr (word_of_int (16777216 * uint (buf ! p) + 65536 * uint (buf ! (p + 1))
                  + 256 * uint (buf ! (p + 2)) + uint (buf ! (p + 3))), p + 4)
      else Inl OverRead)"

definition writeInt4 :: "int \<Rightarrow> bytes" where
  "writeInt4 anInt =
     (let b0 = word_of_int (anInt sdiv 16777216);
          n1 = anInt smod 16777216;
          b1 = word_of_int (n1 sdiv 65536);
          n2 = n1 smod 65536
      in [b0, b1, word_of_int (n2 sdiv 256), word_of_int (n2 smod 256)])"

lemma length_writes [simp]:
  "length (writeChar c) = 1" "length (writeInt n) = 2" "length (writeInt4 n) = 4"
  by (simp_all add: writeChar_def writeInt_def writeInt4_def Let_def)

interpretation char: codec writeChar readChar "\<lambda>_. True"
  by unfold_locales (simp add: readChar_def writeChar_def)

interpretation int2: codec writeInt readInt "\<lambda>n. 0 \<le> n \<and> n < 65536"
proof
  fix n :: int and pre post
  assume n: "0 \<le> n \<and> n < 65536"
  then have "256 * uint (word_of_int (n div 256) :: byte) + uint (word_of_int (n mod 256) :: byte) = n"
    by (intro byte_split_int) simp_all
  with n show "readInt (pre @ writeInt n @ post) (length pre) = Inr (n, length pre + length (writeInt n))"
    by (simp add: readInt_def writeInt_def del: uint_byte_of_mod)
qed

text \<open>
  The 4-byte writer takes an \<^verbatim>\<open>int\<close>: an \<^verbatim>\<open>unsigned int\<close> property value is converted
  first, so values with the top bit set are written as negative numbers.
\<close>

lemma int4_digits:
  assumes "0 \<le> n" "n < 2147483648"
  shows "16777216 * (n div 16777216 mod 256) + 65536 * (n mod 16777216 div 65536 mod 256)
    + 256 * (n mod 16777216 mod 65536 div 256 mod 256) + n mod 16777216 mod 65536 mod 256 = (n::int)"
proof -
  have "n div 16777216 mod 256 = n div 16777216" using assms by simp
  moreover have "n mod 16777216 div 65536 mod 256 = n mod 16777216 div 65536"
    by (intro mod_pos_pos_trivial) simp_all
  moreover have "n mod 16777216 mod 65536 div 256 mod 256 = n mod 16777216 mod 65536 div 256"
    by (intro mod_pos_pos_trivial) simp_all
  moreover have "n = 16777216 * (n div 16777216) + n mod 16777216" by simp
  moreover have "n mod 16777216 = 65536 * (n mod 16777216 div 65536) + n mod 16777216 mod 65536"
    by (rule mult_div_mod_eq [symmetric])
  moreover have "n mod 16777216 mod 65536 =
      256 * (n mod 16777216 mod 65536 div 256) + n mod 16777216 mod 65536 mod 256"
    by (rule mult_div_mod_eq [symmetric])
  ultimately show ?thesis by linarith
qed

lemma readInt4_bytes:
  "readInt4 (pre @ a # b # c # d # post) (length pre) =
     Inr (word_of_int (16777216 * uint a + 65536 * uint b + 256 * uint c + uint d), length pre + 4)"
  by (simp add: readInt4_def nth_append)

lemma readInt4_writeInt4:
  assumes "0 \<le> sint w"
  shows "readInt4 (pre @ writeInt4 (sint w) @ post) (length pre) = Inr (w, length pre + 4)"
proof -
  define n where "n = sint w"
  have n: "0 \<le> n" "n < 2147483648"
    using assms sint_range_size [of w] by (simp_all add: word_size n_def)
  have wr: "writeInt4 n = [word_of_int (n div 16777216), word_of_int (n mod 16777216 div 65536),
      word_of_int (n mod 16777216 mod 65536 div 256), word_of_int (n mod 16777216 mod 65536 mod 256)]"
    using n by (simp add: writeInt4_def Let_def)
  have "readInt4 (pre @ writeInt4 n @ post) (length pre) = Inr (word_of_int n, length pre + 4)"
    unfolding wr append_Cons append_Nil readInt4_bytes uint_byte_of_int mod_mod_trivial
      int4_digits [OF n] ..
  then show ?thesis by (simp add: n_def)
qed

lemma writeInt4_neg:
  assumes "0 \<le> m"
  shows "writeInt4 (- m) = [word_of_int (- (m div 16777216)), word_of_int (- (m mod 16777216 div 65536)),
    word_of_int (- (m mod 16777216 mod 65536 div 256)), word_of_int (- (m mod 16777216 mod 65536 mod 256))]"
  using assms by (simp add: writeInt4_def Let_def sdiv_minus smod_minus)

lemma neg_digit_mod: "0 \<le> d \<Longrightarrow> d < 256 \<Longrightarrow> (- d) mod 256 = (if d = 0 then 0 else 256 - (d::int))"
  by (simp add: zmod_zminus1_eq_if)

lemma neg_digits_iff:
  fixes d3 d2 d1 d0 :: int
  assumes "0 \<le> d3" "d3 < 256" "0 \<le> d2" "d2 < 256" "0 \<le> d1" "d1 < 256" "0 \<le> d0" "d0 < 256"
    "m = 16777216 * d3 + (65536 * d2 + (256 * d1 + d0))" "0 < m"
  shows "16777216 * ((- d3) mod 256) + 65536 * ((- d2) mod 256) + 256 * ((- d1) mod 256) + (- d0) mod 256
      = 4294967296 - m \<longleftrightarrow> 65536 * d2 + (256 * d1 + d0) = 0" (is "?V = _ \<longleftrightarrow> ?r = 0")
proof -
  define c :: "int \<Rightarrow> int" where "c d = (if d = 0 then 0 else 1)" for d
  have c: "(- d) mod 256 = 256 * c d - d" if "0 \<le> d" "d < 256" for d
    using neg_digit_mod [OF that] by (simp add: c_def)
  have "?V = 4294967296 * c d3 + 16777216 * c d2 + 65536 * c d1 + 256 * c d0 - m"
    using assms c [of d3] c [of d2] c [of d1] c [of d0] by simp
  then have "?V = 4294967296 - m \<longleftrightarrow>
      4294967296 * c d3 + 16777216 * c d2 + 65536 * c d1 + 256 * c d0 = 4294967296" by linarith
  also have "\<dots> \<longleftrightarrow> d3 \<noteq> 0 \<and> d2 = 0 \<and> d1 = 0 \<and> d0 = 0" by (auto simp: c_def)
  also have "\<dots> \<longleftrightarrow> ?r = 0" using assms(3,5,7,9,10) by (auto simp: add_nonneg_eq_0_iff)
  finally show ?thesis .
qed

lemma readInt4_writeInt4_neg:
  assumes "sint w < 0"
  shows "readInt4 (pre @ writeInt4 (sint w) @ post) (length pre) = Inr (w, length pre + 4) \<longleftrightarrow>
    16777216 dvd sint w"
proof -
  define m where "m = - sint w"
  have m: "0 < m" "m \<le> 2147483648"
    using assms sint_range_size [of w] by (simp_all add: word_size m_def)
  have uw: "uint w = 4294967296 - m"
  proof -
    have "uint w = sint w mod 4294967296"
      using uint_sint [of w] by (simp add: take_bit_eq_mod)
    also have "\<dots> = (sint w + 4294967296) mod 4294967296" by simp
    also have "\<dots> = 4294967296 - m"
      using m unfolding m_def by (subst mod_pos_pos_trivial) simp_all
    finally show ?thesis .
  qed
  define d3 d2 d1 d0 where d: "d3 = m div 16777216" "d2 = m mod 16777216 div 65536"
    "d1 = m mod 16777216 mod 65536 div 256" "d0 = m mod 16777216 mod 65536 mod 256"
  define r1 r2 where r: "r1 = m mod 16777216" "r2 = r1 mod 65536"
  have rb: "0 \<le> r1" "r1 < 16777216" "0 \<le> r2" "r2 < 65536" by (simp_all add: r)
  have split: "m = 16777216 * d3 + r1" "r1 = 65536 * d2 + r2" "r2 = 256 * d1 + d0"
    by (simp_all add: d r)
  have db: "0 \<le> d0" "d0 < 256" by (simp_all add: d)
  have db3: "0 \<le> d3" "d3 < 256" "0 \<le> d2" "d2 < 256" "0 \<le> d1" "d1 < 256"
    using split rb db m by linarith+
  define V where "V = 16777216 * ((- d3) mod 256) + 65536 * ((- d2) mod 256) + 256 * ((- d1) mod 256)
    + (- d0) mod 256"
  have V: "0 \<le> V" "V < 4294967296"
    using pos_mod_bound [of 256 "- d3"] pos_mod_bound [of 256 "- d2"] pos_mod_bound [of 256 "- d1"]
      pos_mod_bound [of 256 "- d0"] pos_mod_sign [of 256 "- d3"] pos_mod_sign [of 256 "- d2"]
      pos_mod_sign [of 256 "- d1"] pos_mod_sign [of 256 "- d0"] unfolding V_def by linarith+
  have "writeInt4 (sint w) = [word_of_int (- d3), word_of_int (- d2), word_of_int (- d1), word_of_int (- d0)]"
    using writeInt4_neg [of m] m by (simp add: m_def d)
  then have "readInt4 (pre @ writeInt4 (sint w) @ post) (length pre) = Inr (w, length pre + 4) \<longleftrightarrow>
      word_of_int V = w"
    by (simp only: append_Cons append_Nil readInt4_bytes uint_byte_of_int V_def) simp
  also have "\<dots> \<longleftrightarrow> V = uint w"
    using V by (auto simp: word_eq_iff_unsigned uint_word_of_int)
  also have "\<dots> \<longleftrightarrow> r1 = 0"
    using neg_digits_iff [OF db3 db, of m] split m by (simp only: uw V_def)
  also have "\<dots> \<longleftrightarrow> 16777216 dvd m" by (simp add: r dvd_eq_mod_eq_0)
  also have "\<dots> \<longleftrightarrow> 16777216 dvd sint w" by (simp add: m_def)
  finally show ?thesis .
qed

interpretation int4: codec "\<lambda>w. writeInt4 (sint w)" readInt4 "\<lambda>w. 0 \<le> sint w"
  by unfold_locales (simp add: readInt4_writeInt4)


subsection \<open>The variable byte integer\<close>

text \<open>
  \<^verbatim>\<open>MQTTPacket_encode(buf, length)\<close> stores 7 bits a byte, least significant first, and returns
  the number of bytes; with a NULL \<open>buf\<close> it only counts them. The model returns the bytes
  stored and the count.
\<close>

fun MQTTPacket_encode :: "bool \<Rightarrow> nat \<Rightarrow> bytes \<times> nat" where
  "MQTTPacket_encode buf n =
     (let d = (word_of_nat (n mod 128) :: byte);
          n' = n div 128;
          d' = (if n' > 0 then d OR 0x80 else d);
          rest = (if n' > 0 then MQTTPacket_encode buf n' else ([], 0))
      in (if buf then d' # fst rest else fst rest, Suc (snd rest)))"

declare MQTTPacket_encode.simps [simp del]

text \<open>The bytes and the count the callers use.\<close>

abbreviation vbi :: "nat \<Rightarrow> bytes" where
  "vbi n \<equiv> fst (MQTTPacket_encode True n)"

lemma vbi_unfold:
  "vbi n = (if n div 128 > 0 then (word_of_nat (n mod 128) OR 0x80) # vbi (n div 128)
            else [word_of_nat (n mod 128)])"
  by (subst MQTTPacket_encode.simps) (simp add: Let_def)

lemma encode_count: "snd (MQTTPacket_encode buf n) = length (vbi n)"
proof (induction n rule: less_induct)
  case (less n)
  show ?case
  proof (cases "n div 128 > 0")
    case True
    then have "n div 128 < n" by simp
    from less [OF this] True show ?thesis
      by (subst MQTTPacket_encode.simps, subst vbi_unfold) (simp add: Let_def)
  next
    case False
    then show ?thesis by (subst MQTTPacket_encode.simps, subst vbi_unfold) (simp add: Let_def)
  qed
qed

lemma encode_null: "fst (MQTTPacket_encode False n) = []"
proof (induction n rule: less_induct)
  case (less n)
  then show ?case by (subst MQTTPacket_encode.simps) (simp add: Let_def)
qed

lemma vbi_nonempty [simp]: "vbi n \<noteq> []"
  by (subst vbi_unfold) simp

lemma length_vbi_le_iff: "0 < k \<Longrightarrow> length (vbi n) \<le> k \<longleftrightarrow> n < 128 ^ k"
proof (induction k arbitrary: n)
  case 0
  then show ?case by simp
next
  case (Suc k)
  show ?case
  proof (cases "n div 128 > 0")
    case False
    then have "n < 128 * 1" by simp
    also have "\<dots> \<le> 128 * (128 ^ k :: nat)" by (intro mult_le_mono) simp_all
    finally have "n < 128 ^ Suc k" by simp
    with False show ?thesis by (subst vbi_unfold) simp
  next
    case True
    show ?thesis
    proof (cases "k = 0")
      case k: True
      have "vbi (n div 128) \<noteq> []" by simp
      then have "\<not> length (vbi n) \<le> Suc k" using True k by (subst vbi_unfold) simp
      with True k show ?thesis by (auto simp: div_greater_zero_iff)
    next
      case k: False
      have "length (vbi n) \<le> Suc k \<longleftrightarrow> length (vbi (n div 128)) \<le> k"
        using True by (subst vbi_unfold) simp
      also have "\<dots> \<longleftrightarrow> n div 128 < 128 ^ k" using k Suc.IH by simp
      also have "\<dots> \<longleftrightarrow> n < 128 ^ Suc k"
        by (simp add: div_less_iff_less_mult mult.commute)
      finally show ?thesis .
    qed
  qed
qed

text \<open>\<^verbatim>\<open>MQTTPacket_VBIlen\<close> counts the same bytes by comparing with the four limits.\<close>

definition MQTTPacket_VBIlen :: "int \<Rightarrow> int" where
  "MQTTPacket_VBIlen rem_len =
     (if rem_len < 128 then 1 else if rem_len < 16384 then 2
      else if rem_len < 2097152 then 3 else 4)"

text \<open>
  \<^verbatim>\<open>MQTTPacket_VBIdecode\<close> reads through a function pointer; \<open>s\<close> is the state that function
  keeps (\<^verbatim>\<open>bufptr\<close>), \<open>len\<close> and \<open>multiplier\<close> the loop variables. It gives up after four
  bytes with \<open>len\<close> 5, and when the function does not return 1.
\<close>

function VBIdecode_loop :: "('s \<Rightarrow> ub + (int \<times> byte \<times> 's)) \<Rightarrow> nat \<Rightarrow> 32 word \<Rightarrow> int \<Rightarrow> 's
    \<Rightarrow> ub + (nat \<times> 32 word \<times> 's)" where
  "VBIdecode_loop getcharfn len value multiplier s =
     (if Suc len > 4 then Inr (Suc len, value, s)
      else ub_bind (getcharfn s) (\<lambda>(rc, c, s').
        if rc \<noteq> 1 then Inr (Suc len, value, s')
        else let value' = value + word_of_int (uint (c AND 127) * multiplier) in
          if c AND 128 \<noteq> 0 then VBIdecode_loop getcharfn (Suc len) value' (multiplier * 128) s'
          else Inr (Suc len, value', s')))"
  by pat_completeness auto
termination by (relation "measure (\<lambda>(_, len, _). 4 - len)") auto

declare VBIdecode_loop.simps [simp del]

definition MQTTPacket_VBIdecode ::
    "('s \<Rightarrow> ub + (int \<times> byte \<times> 's)) \<Rightarrow> 's \<Rightarrow> ub + (nat \<times> 32 word \<times> 's)" where
  "MQTTPacket_VBIdecode getcharfn s = VBIdecode_loop getcharfn 0 0 1 s"

text \<open>\<^verbatim>\<open>bufchar\<close> copies \<open>count\<close> bytes over one another, so \<open>c\<close> holds the last one.\<close>

fun bufchar_loop :: "bytes \<Rightarrow> nat \<Rightarrow> byte \<Rightarrow> nat \<Rightarrow> ub + (byte \<times> nat)" where
  "bufchar_loop buf 0 c bufptr = Inr (c, bufptr)"
| "bufchar_loop buf (Suc i) c bufptr =
     ub_bind (readChar buf bufptr) (\<lambda>(c', bufptr'). bufchar_loop buf i c' bufptr')"

definition bufchar :: "bytes \<Rightarrow> nat \<Rightarrow> nat \<Rightarrow> ub + (int \<times> byte \<times> nat)" where
  "bufchar buf count bufptr =
     ub_bind (bufchar_loop buf count 0 bufptr) (\<lambda>(c, bufptr'). Inr (int count, c, bufptr'))"

definition MQTTPacket_decodeBuf :: "bytes \<Rightarrow> nat \<Rightarrow> ub + (nat \<times> 32 word)" where
  "MQTTPacket_decodeBuf buf p =
     ub_bind (MQTTPacket_VBIdecode (bufchar buf 1) p) (\<lambda>(len, value, _). Inr (len, value))"

text \<open>
  \<^verbatim>\<open>MQTTPacket_decode\<close> is the same loop over a network handle. Reading one byte from it,
  \<^verbatim>\<open>WebSocket_getch\<close>, is not part of the sources and is an argument: it returns a completion
  code, the byte and the network state after the read.
\<close>

definition TCPSOCKET_COMPLETE :: int where "TCPSOCKET_COMPLETE = 0"
definition SOCKET_ERROR :: int where "SOCKET_ERROR = -1"
definition TCPSOCKET_INTERRUPTED :: int where "TCPSOCKET_INTERRUPTED = -22"

lemmas socket_defs = TCPSOCKET_COMPLETE_def SOCKET_ERROR_def TCPSOCKET_INTERRUPTED_def

function decode_loop :: "('n \<Rightarrow> int \<times> byte \<times> 'n) \<Rightarrow> nat \<Rightarrow> nat \<Rightarrow> nat \<Rightarrow> 'n \<Rightarrow> int \<times> nat \<times> 'n" where
  "decode_loop getch len value multiplier net =
     (if Suc len > 4 then (SOCKET_ERROR, value, net)
      else case getch net of (rc, c, net') \<Rightarrow>
        if rc \<noteq> TCPSOCKET_COMPLETE then (rc, value, net')
        else let value' = value + unat (c AND 127) * multiplier in
          if c AND 128 \<noteq> 0 then decode_loop getch (Suc len) value' (multiplier * 128) net'
          else (rc, value', net'))"
  by pat_completeness auto
termination by (relation "measure (\<lambda>(_, len, _). 4 - len)") auto

declare decode_loop.simps [simp del]

definition MQTTPacket_decode :: "('n \<Rightarrow> int \<times> byte \<times> 'n) \<Rightarrow> 'n \<Rightarrow> int \<times> nat \<times> 'n" where
  "MQTTPacket_decode getch net = decode_loop getch 0 0 1 net"

text \<open>The low seven bits and the continuation bit of an encoded byte.\<close>

lemma unat_and_127: "unat ((x :: byte) AND 127) = unat x mod 128"
proof -
  have "x AND 127 = take_bit 7 x" by (simp add: take_bit_eq_mask mask_eq_exp_minus_1)
  then show ?thesis by (simp add: take_bit_eq_mod unat_mod)
qed

lemma uint_and_127: "uint ((x :: byte) AND 127) = int (unat x mod 128)"
  by (simp add: uint_nat unat_and_127)

lemma bit_7_iff: "bit (x :: byte) 7 \<longleftrightarrow> odd (unat x div 128)"
proof -
  have "bit (unat x) 7 = bit x 7" by (simp add: bit_unsigned_iff)
  then show ?thesis by (simp add: bit_iff_odd)
qed

lemma and_128_iff: "(x :: byte) AND 128 = 0 \<longleftrightarrow> \<not> bit x 7"
  using and_exp_eq_0_iff_not_bit [of x 7] by simp

lemma vbi_byte:
  fixes m :: nat
  assumes "m < 128"
  shows "unat ((word_of_nat m :: byte) AND 127) = m" "(word_of_nat m :: byte) AND 128 = 0"
    "unat ((word_of_nat m OR 128 :: byte) AND 127) = m" "(word_of_nat m OR 128 :: byte) AND 128 \<noteq> 0"
proof -
  have u: "unat (word_of_nat m :: byte) = m" using assms by (simp add: unat_byte_small)
  then show "unat ((word_of_nat m :: byte) AND 127) = m" using assms by (simp add: unat_and_127)
  show "(word_of_nat m :: byte) AND 128 = 0"
    unfolding and_128_iff bit_7_iff u using assms by simp
  have "(word_of_nat m OR 128 :: byte) AND 127 = (word_of_nat m AND 127) OR (128 AND 127)"
    by (rule bit.conj_disj_distrib2)
  then show "unat ((word_of_nat m OR 128 :: byte) AND 127) = m"
    using assms u by (simp add: unat_and_127)
  have "bit (128 :: byte) 7" by (simp add: bit_7_iff)
  then show "(word_of_nat m OR 128 :: byte) AND 128 \<noteq> 0"
    unfolding and_128_iff by (simp add: bit_or_iff)
qed

lemma bufchar_one:
  "bufchar buf (Suc 0) p = (if p < length buf then Inr (1, buf ! p, p + 1) else Inl OverRead)"
  by (simp add: bufchar_def readChar_def)

text \<open>One round of either loop, when a byte was read.\<close>

lemma VBIdecode_loop_step:
  assumes "len < 4" "g s = Inr (1, c, s')"
  shows "VBIdecode_loop g len v m s =
    (if c AND 128 \<noteq> 0 then VBIdecode_loop g (Suc len) (v + word_of_int (uint (c AND 127) * m)) (m * 128) s'
     else Inr (Suc len, v + word_of_int (uint (c AND 127) * m), s'))"
  using assms by (subst VBIdecode_loop.simps) (simp add: Let_def)

lemma decode_loop_step:
  assumes "len < 4" "g net = (TCPSOCKET_COMPLETE, c, net1)"
  shows "decode_loop g len v m net =
    (if c AND 128 \<noteq> 0 then decode_loop g (Suc len) (v + unat (c AND 127) * m) (m * 128) net1
     else (TCPSOCKET_COMPLETE, v + unat (c AND 127) * m, net1))"
  using assms by (subst decode_loop.simps) (simp add: Let_def)

lemma vbi_split: "n * 128 ^ k = n mod 128 * 128 ^ k + n div 128 * (128::nat) ^ Suc k"
proof -
  have d: "(a * 128 + b) * c = b * c + a * (128 * c)" for a b c :: nat by (simp add: algebra_simps)
  have "n * 128 ^ k = (n div 128 * 128 + n mod 128) * 128 ^ k" by simp
  then show ?thesis by (simp only: d power_Suc)
qed

lemma VBIdecode_loop_vbi:
  assumes "len + length (vbi n) \<le> 4"
  shows "VBIdecode_loop (bufchar (pre @ vbi n @ post) (Suc 0)) len v (128 ^ len) (length pre) =
           Inr (len + length (vbi n), v + word_of_nat (n * 128 ^ len), length pre + length (vbi n))"
  using assms
proof (induction n arbitrary: len v pre rule: less_induct)
  case (less n)
  have m: "n mod 128 < 128" by simp
  show ?case
  proof (cases "n div 128 > 0")
    case False
    then have n: "n < 128" by (simp add: div_greater_zero_iff)
    then have vb: "vbi n = [word_of_nat n]" by (subst vbi_unfold) simp
    with less.prems have len: "len < 4" by simp
    have "bufchar (pre @ vbi n @ post) (Suc 0) (length pre) = Inr (1, word_of_nat n, Suc (length pre))"
      by (simp add: bufchar_one vb)
    from VBIdecode_loop_step [where g = "bufchar (pre @ vbi n @ post) (Suc 0)", OF len this] show ?thesis
      using vbi_byte [OF n] by (simp add: vb uint_nat)
  next
    case True
    let ?b = "word_of_nat (n mod 128) OR 128 :: byte"
    from True have vb: "vbi n = ?b # vbi (n div 128)" by (subst vbi_unfold) simp
    from True have lt: "n div 128 < n" by simp
    have len: "Suc len + length (vbi (n div 128)) \<le> 4" using less.prems vb by simp
    then have len4: "len < 4" by simp
    have "bufchar (pre @ vbi n @ post) (Suc 0) (length pre) = Inr (1, ?b, Suc (length pre))"
      by (simp add: bufchar_one vb)
    from VBIdecode_loop_step [where g = "bufchar (pre @ vbi n @ post) (Suc 0)", OF len4 this]
    have "VBIdecode_loop (bufchar (pre @ vbi n @ post) (Suc 0)) len v (128 ^ len) (length pre) =
        VBIdecode_loop (bufchar ((pre @ [?b]) @ vbi (n div 128) @ post) (Suc 0)) (Suc len)
          (v + word_of_nat (n mod 128 * 128 ^ len)) (128 ^ Suc len) (length (pre @ [?b]))"
      using vbi_byte [OF m] by (simp add: vb uint_nat mult.commute)
    also have "\<dots> = Inr (Suc len + length (vbi (n div 128)),
        v + word_of_nat (n mod 128 * 128 ^ len) + word_of_nat (n div 128 * 128 ^ Suc len),
        length (pre @ [?b]) + length (vbi (n div 128)))"
      by (rule less.IH [OF lt len])
    also have "v + word_of_nat (n mod 128 * 128 ^ len) + word_of_nat (n div 128 * 128 ^ Suc len) =
        v + word_of_nat (n * 128 ^ len)"
      unfolding vbi_split [of n len] by simp
    finally show ?thesis by (simp add: vb)
  qed
qed

lemma length_vbi_4: "n < 268435456 \<Longrightarrow> length (vbi n) \<le> 4"
  using length_vbi_le_iff [of 4 n] by simp

lemma MQTTPacket_decodeBuf_vbi:
  assumes "n < 268435456"
  shows "MQTTPacket_decodeBuf (pre @ vbi n @ post) (length pre) = Inr (length (vbi n), word_of_nat n)"
  using VBIdecode_loop_vbi [of 0 n pre post 0] length_vbi_4 [OF assms]
  by (simp add: MQTTPacket_decodeBuf_def MQTTPacket_VBIdecode_def)

text \<open>Reading a variable byte integer and moving the input pointer past it, as every caller does.\<close>

definition read_vbi :: "bytes \<Rightarrow> nat \<Rightarrow> ub + (32 word \<times> nat)" where
  "read_vbi buf p = ub_bind (MQTTPacket_decodeBuf buf p) (\<lambda>(len, v). Inr (v, p + len))"

interpretation vbi: codec "\<lambda>v. vbi (unat v)" read_vbi "\<lambda>v. unat v < 268435456"
  by unfold_locales (simp add: read_vbi_def MQTTPacket_decodeBuf_vbi)

lemma vbi_length_VBIlen:
  assumes "n < 268435456"
  shows "MQTTPacket_VBIlen (int n) = int (length (vbi n))"
proof -
  have k: "length (vbi n) \<le> 1 \<longleftrightarrow> n < 128" "length (vbi n) \<le> 2 \<longleftrightarrow> n < 16384"
    "length (vbi n) \<le> 3 \<longleftrightarrow> n < 2097152" "length (vbi n) \<le> 4"
    using length_vbi_le_iff [of 1 n] length_vbi_le_iff [of 2 n] length_vbi_le_iff [of 3 n]
      length_vbi_4 [OF assms] by simp_all
  have p: "1 \<le> length (vbi n)" using vbi_nonempty [of n] by (simp add: Suc_le_eq del: vbi_nonempty)
  consider "n < 128" | "128 \<le> n" "n < 16384" | "16384 \<le> n" "n < 2097152" | "2097152 \<le> n"
    by linarith
  then show ?thesis 
  proof cases
    case 1
    then have "length (vbi n) = 1" using k p by linarith
    with 1 show ?thesis by (simp add: MQTTPacket_VBIlen_def)
  next
    case 2
    then have "length (vbi n) = 2" using k p by linarith
    with 2 show ?thesis by (simp add: MQTTPacket_VBIlen_def)
  next
    case 3
    then have "length (vbi n) = 3" using k p by linarith
    with 3 show ?thesis by (simp add: MQTTPacket_VBIlen_def)
  next
    case 4
    then have "length (vbi n) = 4" using k p by linarith
    with 4 show ?thesis by (simp add: MQTTPacket_VBIlen_def)
  qed
qed

text \<open>The loop variables stay within their types: at most four bytes are read.\<close>

lemma VBIdecode_loop_len:
  "VBIdecode_loop g len v m s = Inr (n, v', s') \<Longrightarrow> len \<le> 4 \<Longrightarrow> len < n \<and> n \<le> 5"
proof (induction g len v m s rule: VBIdecode_loop.induct)
  case (1 g len v m s)
  show ?case
  proof (cases "len < 4")
    case False
    with "1.prems" show ?thesis by (subst (asm) VBIdecode_loop.simps) simp
  next
    case True
    with "1.prems"(1) obtain rc c s1 where g: "g s = Inr (rc, c, s1)"
      by (subst (asm) VBIdecode_loop.simps) (auto simp: ub_bind_Inr_iff)
    show ?thesis
    proof (cases "rc = 1")
      case False
      with "1.prems"(1) g True show ?thesis by (subst (asm) VBIdecode_loop.simps) simp
    next
      case rc: True
      from "1.prems"(1) VBIdecode_loop_step [where g = g, OF True g [unfolded rc]]
        "1.IH" [OF _ g refl refl _ refl] True rc
      show ?thesis by (auto split: if_splits)
    qed
  qed
qed

lemma decodeBuf_len: "MQTTPacket_decodeBuf buf p = Inr (len, v) \<Longrightarrow> 0 < len \<and> len \<le> 5"
  by (fastforce simp: MQTTPacket_decodeBuf_def MQTTPacket_VBIdecode_def elim!: ub_bind_InrE
      dest: VBIdecode_loop_len split: prod.splits)

lemma decode_loop_bound:
  "decode_loop g len v (128 ^ len) net = (rc, v', net') \<Longrightarrow> v < 128 ^ len \<Longrightarrow> len \<le> 4 \<Longrightarrow> v' < 128 ^ 4"
proof (induction "4 - len" arbitrary: len v net)
  case 0
  then have "len = 4" by simp
  moreover from this have "decode_loop g len v (128 ^ len) net = (SOCKET_ERROR, v, net)"
    by (subst decode_loop.simps) simp
  ultimately show ?case using 0 by simp
next
  case (Suc k)
  have len: "len < 4" using Suc.hyps(2) by simp
  obtain rc1 c net1 where g: "g net = (rc1, c, net1)" by (cases "g net") auto
  let ?v = "v + unat (c AND 127) * 128 ^ len"
  have "unat (c AND 127) \<le> 127" by (simp add: unat_and_127 less_Suc_eq_le [symmetric])
  then have "unat (c AND 127) * 128 ^ len \<le> 127 * 128 ^ len" by (rule mult_le_mono1)
  moreover have "127 * 128 ^ len + 128 ^ len = (128 ^ Suc len :: nat)" by simp
  ultimately have v: "?v < 128 ^ Suc len" using Suc.prems(2) by linarith
  have up: "x < 128 ^ j \<Longrightarrow> j \<le> 4 \<Longrightarrow> x < (128 ^ 4 :: nat)" for x j
    by (erule less_le_trans) (rule power_increasing; simp)
  show ?case
  proof (cases "rc1 = TCPSOCKET_COMPLETE")
    case False
    with Suc.prems(1) len g have "v' = v" by (subst (asm) decode_loop.simps) simp
    with up [OF Suc.prems(2)] len show ?thesis by simp
  next
    case True
    note step = decode_loop_step [where g = g, OF len g [unfolded True], of v "128 ^ len"]
    show ?thesis
    proof (cases "c AND 128 = 0")
      case True
      with Suc.prems(1) step have "v' = ?v" by simp
      with up [OF v] len show ?thesis by simp
    next
      case False
      with Suc.prems(1) step have "decode_loop g (Suc len) ?v (128 ^ Suc len) net1 = (rc, v', net')"
        by (simp add: mult.commute)
      from Suc.hyps(1) [OF _ this v] Suc.hyps(2) len show ?thesis by simp
    qed
  qed
qed

lemma MQTTPacket_decode_bound:
  "MQTTPacket_decode getch net = (rc, v, net') \<Longrightarrow> v < 268435456"
  using decode_loop_bound [of getch 0 0 net rc v net'] by (simp add: MQTTPacket_decode_def)

text \<open>A network that delivers the given bytes, each with a complete read.\<close>

fun net_serves :: "('n \<Rightarrow> int \<times> byte \<times> 'n) \<Rightarrow> 'n \<Rightarrow> bytes \<Rightarrow> 'n \<Rightarrow> bool" where
  "net_serves getch net [] net' \<longleftrightarrow> net' = net"
| "net_serves getch net (b # bs) net' \<longleftrightarrow>
     (case getch net of (rc, c, net1) \<Rightarrow>
        rc = TCPSOCKET_COMPLETE \<and> c = b \<and> net_serves getch net1 bs net')"

lemma decode_loop_vbi:
  assumes "len + length (vbi n) \<le> 4" "net_serves g net (vbi n) net'"
  shows "decode_loop g len v (128 ^ len) net = (TCPSOCKET_COMPLETE, v + n * 128 ^ len, net')"
  using assms
proof (induction n arbitrary: len v net rule: less_induct)
  case (less n)
  have m: "n mod 128 < 128" by simp
  show ?case
  proof (cases "n div 128 > 0")
    case False
    then have n: "n < 128" by (simp add: div_greater_zero_iff)
    then have vb: "vbi n = [word_of_nat n]" by (subst vbi_unfold) simp
    with less.prems have "len < 4" "g net = (TCPSOCKET_COMPLETE, word_of_nat n, net')"
      by (auto split: prod.splits)
    from decode_loop_step [where g = g, OF this] show ?thesis using vbi_byte [OF n] by simp
  next
    case True
    let ?b = "word_of_nat (n mod 128) OR 128 :: byte"
    from True have vb: "vbi n = ?b # vbi (n div 128)" by (subst vbi_unfold) simp
    from True have lt: "n div 128 < n" by simp
    have len: "Suc len + length (vbi (n div 128)) \<le> 4" using less.prems vb by simp
    then have len4: "len < 4" by simp
    from less.prems(2) vb obtain net1 where g: "g net = (TCPSOCKET_COMPLETE, ?b, net1)"
      and s: "net_serves g net1 (vbi (n div 128)) net'" by (cases "g net") auto
    from decode_loop_step [where g = g, OF len4 g] vbi_byte [OF m]
    have "decode_loop g len v (128 ^ len) net =
        decode_loop g (Suc len) (v + n mod 128 * 128 ^ len) (128 ^ Suc len) net1"
      by (simp add: mult.commute)
    also have "\<dots> = (TCPSOCKET_COMPLETE, v + n mod 128 * 128 ^ len + n div 128 * 128 ^ Suc len, net')"
      by (rule less.IH [OF lt len s])
    finally show ?thesis by (simp only: vbi_split [of n len] add.assoc)
  qed
qed

lemma MQTTPacket_decode_vbi:
  assumes "n < 268435456" "net_serves getch net (vbi n) net'"
  shows "MQTTPacket_decode getch net = (TCPSOCKET_COMPLETE, n, net')"
  using decode_loop_vbi [of 0 n getch net net' 0] assms length_vbi_4 [OF assms(1)]
  by (simp add: MQTTPacket_decode_def)

subsection \<open>Length-delimited strings\<close>

text \<open>
  \<^verbatim>\<open>MQTTLenString\<close> is a length and a pointer to at least that many bytes. The writers copy
  with \<^verbatim>\<open>memcpy\<close>: a length that is negative or beyond the data reads outside it.
\<close>

record MQTTLenString =
  ls_len :: int
  ls_data :: bytes

definition memcpy_src :: "bytes \<Rightarrow> int \<Rightarrow> ub + bytes" where
  "memcpy_src data n =
     (if 0 \<le> n \<and> nat n \<le> length data then Inr (take (nat n) data) else Inl OverRead)"

definition writeUTF :: "bytes \<Rightarrow> bytes" where
  "writeUTF string = writeInt (int (strlen string)) @ c_str string"

definition writeData :: "bytes \<Rightarrow> int \<Rightarrow> ub + bytes" where
  "writeData data datalen =
     ub_bind (memcpy_src data datalen) (\<lambda>d. Inr (writeInt datalen @ d))"

definition writeMQTTLenString :: "MQTTLenString \<Rightarrow> ub + bytes" where
  "writeMQTTLenString lenstring =
     ub_bind (memcpy_src (ls_data lenstring) (ls_len lenstring))
       (\<lambda>d. Inr (writeInt (ls_len lenstring) @ d))"

text \<open>
  \<^verbatim>\<open>MQTTLenStringRead\<close> returns -1 when the length does not fit before \<open>enddata\<close>, having moved
  the pointer past the length field if there was room for it.
\<close>

definition MQTTLenStringRead ::
    "bytes \<Rightarrow> nat \<Rightarrow> nat \<Rightarrow> ub + (int \<times> MQTTLenString option \<times> nat)" where
  "MQTTLenStringRead buf p enddata =
     (if int enddata - int p > 1
      then ub_bind (readInt buf p) (\<lambda>(len, p1).
        if p1 + nat len \<le> enddata
        then Inr (2 + len, Some \<lparr>ls_len = len, ls_data = take (nat len) (drop p1 buf)\<rparr>, p1 + nat len)
        else Inr (-1, None, p1))
      else Inr (-1, None, p))"

text \<open>
  \<^verbatim>\<open>readUTFlen\<close> allocates the string: NULL (\<open>None\<close>) when the field is truncated or the
  allocation fails. \<open>len0\<close> is the old value of \<open>*len\<close>, kept when there is no length field.
\<close>

definition readUTFlen ::
    "heap \<Rightarrow> bytes \<Rightarrow> nat \<Rightarrow> nat \<Rightarrow> int \<Rightarrow> ub + (bytes option \<times> int \<times> nat)" where
  "readUTFlen H buf p enddata len0 =
     (if int enddata - int p > 1
      then ub_bind (readInt buf p) (\<lambda>(len, p1).
        if p1 + nat len \<le> enddata
        then (if H (ReqBuffer (nat len + 1))
              then Inr (Some (take (nat len) (drop p1 buf)), len, p1 + nat len)
              else Inr (None, len, p1))
        else Inr (None, len, p1))
      else Inr (None, len0, p))"

definition readUTF :: "heap \<Rightarrow> bytes \<Rightarrow> nat \<Rightarrow> nat \<Rightarrow> ub + (bytes option \<times> nat)" where
  "readUTF H buf p enddata =
     ub_bind (readUTFlen H buf p enddata 0) (\<lambda>(string, _, p'). Inr (string, p'))"

definition lenstring_ok :: "MQTTLenString \<Rightarrow> bool" where
  "lenstring_ok s \<longleftrightarrow> ls_len s = int (length (ls_data s)) \<and> ls_len s < 65536"

definition lenstring_bytes :: "MQTTLenString \<Rightarrow> bytes" where
  "lenstring_bytes s = writeInt (ls_len s) @ ls_data s"

lemma memcpy_src_all: "n = int (length d) \<Longrightarrow> memcpy_src d n = Inr d"
  by (simp add: memcpy_src_def)

lemma writeMQTTLenString_ok:
  "lenstring_ok s \<Longrightarrow> writeMQTTLenString s = Inr (lenstring_bytes s)"
  by (simp add: writeMQTTLenString_def lenstring_ok_def memcpy_src_all lenstring_bytes_def)

lemma length_lenstring_bytes:
  "lenstring_ok s \<Longrightarrow> int (length (lenstring_bytes s)) = ls_len s + 2"
  by (simp add: lenstring_bytes_def lenstring_ok_def)

lemma readInt_before:
  "0 \<le> n \<Longrightarrow> n < 65536 \<Longrightarrow> readInt (pre @ writeInt n @ post) (length pre) = Inr (n, length pre + 2)"
  using int2.rd_wr [of n pre post] by simp

lemma MQTTLenStringRead_lenstring:
  assumes "lenstring_ok s"
  shows "MQTTLenStringRead (pre @ lenstring_bytes s @ post) (length pre)
           (length (pre @ lenstring_bytes s @ post)) =
         Inr (ls_len s + 2, Some s, length pre + length (lenstring_bytes s))"
  using assms readInt_before [of "ls_len s" pre "ls_data s @ post"]
  by (simp add: MQTTLenStringRead_def lenstring_bytes_def lenstring_ok_def)

text \<open>The length-delimited string as an instance of the interface.\<close>

definition read_lenstring :: "bytes \<Rightarrow> nat \<Rightarrow> ub + (MQTTLenString \<times> nat)" where
  "read_lenstring buf p =
     ub_bind (MQTTLenStringRead buf p (length buf)) (\<lambda>(_, s, p').
       case s of None \<Rightarrow> Inl OverRead | Some s \<Rightarrow> Inr (s, p'))"

interpretation lenstr: codec lenstring_bytes read_lenstring lenstring_ok
  by unfold_locales (simp only: read_lenstring_def MQTTLenStringRead_lenstring, simp)

lemma readUTFlen_writeUTF:
  assumes "0 \<notin> set s" "length s < 65536" "H (ReqBuffer (length s + 1))"
  shows "readUTFlen H (pre @ writeUTF s @ post) (length pre) (length (pre @ writeUTF s @ post)) len0 =
           Inr (Some s, int (length s), length pre + length (writeUTF s))"
  using assms readInt_before [of "int (length s)" pre "s @ post"]
  by (simp add: readUTFlen_def writeUTF_def)

text \<open>The string field never reads outside the packet and never moves past \<open>enddata\<close>.\<close>

lemma readUTFlen_bounds:
  assumes "readUTFlen H buf p enddata len0 = Inr (r, len, p')" "p \<le> enddata"
  shows "p' \<le> enddata \<and> p \<le> p'"
  using assms by (auto simp: readUTFlen_def readInt_def ub_bind_Inr_iff split: if_splits)

lemma readUTFlen_safe:
  "enddata \<le> length buf \<Longrightarrow> readUTFlen H buf p enddata len0 \<noteq> Inl e"
  by (auto simp: readUTFlen_def readInt_def)

lemma readInt_Inr:
  assumes "readInt buf p = Inr (n, p')"
  shows "0 \<le> n \<and> n < 65536 \<and> p' = p + 2 \<and> p + 1 < length buf"
proof -
  have "0 \<le> 256 * uint (x :: byte) + uint (y :: byte)"
    "256 * uint (x :: byte) + uint (y :: byte) < 65536" for x y
    using uint_byte_lt [of x] uint_byte_lt [of y] by (simp, linarith)
  with assms show ?thesis by (auto simp: readInt_def split: if_splits)
qed

lemma readUTFlen_Some:
  assumes "readUTFlen H buf p enddata len0 = Inr (Some s, len, p')" "enddata \<le> length buf"
  shows "len = int (length s) \<and> length s < 65536 \<and> s = take (length s) (drop (p + 2) buf)
    \<and> p' = p + 2 + length s \<and> p' \<le> enddata"
proof -
  from assms(1) obtain n p1 where n: "readInt buf p = Inr (n, p1)" "p1 + nat n \<le> enddata"
    and s: "s = take (nat n) (drop p1 buf)" "len = n" "p' = p1 + nat n"
    by (auto simp: readUTFlen_def ub_bind_Inr_iff split: if_splits)
  from readInt_Inr [OF n(1)] have "0 \<le> n" "n < 65536" "p1 = p + 2" by simp_all
  moreover from this n(2) assms(2) s have "length s = nat n" by simp
  ultimately show ?thesis using n s by simp
qed

lemma MQTTLenStringRead_safe:
  "enddata \<le> length buf \<Longrightarrow> MQTTLenStringRead buf p enddata \<noteq> Inl e"
  by (auto simp: MQTTLenStringRead_def readInt_def)

lemma MQTTLenStringRead_Inr:
  assumes "MQTTLenStringRead buf p enddata = Inr (len, s, p')"
  shows "(len = -1 \<and> s = None \<and> p \<le> p') \<or>
    (2 \<le> len \<and> p' = p + nat len \<and> p' \<le> enddata \<and> s \<noteq> None \<and> p + 1 < length buf)"
  using assms by (auto simp: MQTTLenStringRead_def readInt_def ub_bind_Inr_iff nat_add_distrib split: if_splits)

subsection \<open>Claims\<close>

text \<open>
  Decoding from the network what \<^verbatim>\<open>MQTTPacket_encode\<close> produced gives the length back: for
  every length a packet may have, if the network delivers the encoded bytes,
  \<^verbatim>\<open>MQTTPacket_decode\<close> completes with that length and has consumed exactly those bytes.
\<close>

theorem remaining_length_roundtrip:
  assumes "n < 268435456" "net_serves getch net (fst (MQTTPacket_encode True n)) net'"
  shows "MQTTPacket_decode getch net = (TCPSOCKET_COMPLETE, n, net')"
  using assms by (rule MQTTPacket_decode_vbi)

text \<open>The network whose state is the bytes still to come.\<close>

fun list_getch :: "bytes \<Rightarrow> int \<times> byte \<times> bytes" where
  "list_getch [] = (SOCKET_ERROR, 0, [])"
| "list_getch (b # bs) = (TCPSOCKET_COMPLETE, b, bs)"

theorem remaining_length_roundtrip_witness:
  "MQTTPacket_decode list_getch [193, 2, 7] = (TCPSOCKET_COMPLETE, 321, [7])"
proof -
  have "fst (MQTTPacket_encode True 321) = [193, 2]"
    by (subst vbi_unfold, subst vbi_unfold) (simp add: word_eq_iff_unsigned)
  then have "net_serves list_getch [193, 2, 7] (fst (MQTTPacket_encode True 321)) [7]" by simp
  from remaining_length_roundtrip [OF _ this] show ?thesis by simp
qed

text \<open>
  Whatever the network delivers, the remaining length \<^verbatim>\<open>MQTTPacket_decode\<close> computes is below
  \<open>2 ^ 28\<close>, so neither \<open>*value\<close> nor \<open>multiplier\<close> overflows its type.
\<close>

theorem remaining_length_bound:
  "case MQTTPacket_decode getch net of (rc, v, net') \<Rightarrow> v < 268435456"
  by (cases "MQTTPacket_decode getch net") (auto dest: MQTTPacket_decode_bound)

text \<open>
  The three ways of measuring a variable byte integer agree below \<open>2 ^ 28\<close>: the count with a
  NULL buffer, the bytes written, and \<^verbatim>\<open>MQTTPacket_VBIlen\<close>; and \<^verbatim>\<open>MQTTPacket_decodeBuf\<close> finds
  the same number of bytes and the value.
\<close>

theorem vbi_measures_agree:
  assumes "n < 268435456"
  shows "snd (MQTTPacket_encode False n) = length (fst (MQTTPacket_encode True n)) \<and>
    MQTTPacket_VBIlen (int n) = int (length (fst (MQTTPacket_encode True n))) \<and>
    MQTTPacket_decodeBuf (pre @ fst (MQTTPacket_encode True n) @ post) (length pre) =
      Inr (length (fst (MQTTPacket_encode True n)), word_of_nat n)"
  using assms by (simp add: encode_count vbi_length_VBIlen MQTTPacket_decodeBuf_vbi)

theorem vbi_measures_agree_witness: "MQTTPacket_VBIlen (int 16384) = 3"
proof -
  have "length (fst (MQTTPacket_encode True 16384)) = 3"
    by (subst vbi_unfold, subst vbi_unfold, subst vbi_unfold) simp
  with vbi_measures_agree [of 16384] show ?thesis by simp
qed

text \<open>
  A four-byte integer survives \<^verbatim>\<open>writeInt4\<close> and \<^verbatim>\<open>readInt4\<close> exactly when, as a signed number,
  it is not negative or is a multiple of \<open>2 ^ 24\<close>. So a property value of \<open>2 ^ 31\<close> or more, such
  as the session expiry 0xFFFFFFFF (never expire), is sent as another number.
\<close>

theorem int4_roundtrip_iff:
  "readInt4 (pre @ writeInt4 (sint w) @ post) (length pre) = Inr (w, length pre + 4) \<longleftrightarrow>
   0 \<le> sint w \<or> 16777216 dvd sint w"
  using readInt4_writeInt4 [of w pre post] readInt4_writeInt4_neg [of w pre post] by (cases "0 \<le> sint w") auto

text \<open>
  A string field of a packet is read only within the packet: \<^verbatim>\<open>readUTFlen\<close> never reads past
  \<open>enddata\<close>, never moves the pointer past it, and the string it returns is exactly the declared
  number of bytes after the length field.
\<close>

theorem utf_field_within_packet:
  assumes "enddata \<le> length buf" "p \<le> enddata"
  shows "case readUTFlen H buf p enddata len0 of
      Inl e \<Rightarrow> False
    | Inr (None, _, p') \<Rightarrow> p \<le> p' \<and> p' \<le> enddata
    | Inr (Some s, len, p') \<Rightarrow> len = int (length s) \<and> s = take (length s) (drop (p + 2) buf) \<and>
        p' = p + 2 + length s \<and> p' \<le> enddata"
proof (cases "readUTFlen H buf p enddata len0")
  case (Inl e)
  with readUTFlen_safe [OF assms(1)] show ?thesis by blast
next
  case (Inr r)
  then show ?thesis
    using readUTFlen_bounds [of H buf p enddata len0] readUTFlen_Some [of H buf p enddata len0] assms
    by (auto split: option.splits prod.splits)
qed

theorem utf_field_within_packet_witness:
  "readUTFlen (\<lambda>_. True) [0, 1, 65, 9] 0 4 0 = Inr (Some [65], 1, 3)"
  using utf_field_within_packet [of 4 "[0, 1, 65, 9]" 0 "\<lambda>_. True" 0]
  by (simp add: readUTFlen_def readInt_def)

end
