(* ===== verification/Properties.thy ===== *)
theory Properties
  imports Codec
begin

section \<open>MQTT 5 properties: \<^verbatim>\<open>src/include/MQTTProperties.c\<close>\<close>

text \<open>
  The property list of an MQTT 5 packet: the table from property codes to types, adding a
  property, serialising and parsing a list, and the queries. A property is its identifier and
  the union of its values; the union is a datatype with one constructor per member the code
  uses, so reading another member than the one stored is \<open>WrongMember\<close>. The array of a
  property list is \<open>None\<close> for the NULL pointer and otherwise the initialised entries.
\<close>

subsection \<open>Codes and types\<close>

datatype MQTTPropertyTypes =
    MQTTPROPERTY_TYPE_BYTE
  | MQTTPROPERTY_TYPE_TWO_BYTE_INTEGER
  | MQTTPROPERTY_TYPE_FOUR_BYTE_INTEGER
  | MQTTPROPERTY_TYPE_VARIABLE_BYTE_INTEGER
  | MQTTPROPERTY_TYPE_BINARY_DATA
  | MQTTPROPERTY_TYPE_UTF_8_ENCODED_STRING
  | MQTTPROPERTY_TYPE_UTF_8_STRING_PAIR

definition MQTT_INVALID_PROPERTY_ID :: int where "MQTT_INVALID_PROPERTY_ID = -2"
definition PAHO_MEMORY_ERROR :: int where "PAHO_MEMORY_ERROR = -99"

text \<open>The tables have the numbers the names of the enumeration stand for.\<close>

definition MQTTPropertyCodes :: "(string \<times> int) list" where
  "MQTTPropertyCodes =
    [(''MQTTPROPERTY_CODE_PAYLOAD_FORMAT_INDICATOR'', 1), (''MQTTPROPERTY_CODE_MESSAGE_EXPIRY_INTERVAL'', 2),
     (''MQTTPROPERTY_CODE_CONTENT_TYPE'', 3), (''MQTTPROPERTY_CODE_RESPONSE_TOPIC'', 8),
     (''MQTTPROPERTY_CODE_CORRELATION_DATA'', 9), (''MQTTPROPERTY_CODE_SUBSCRIPTION_IDENTIFIER'', 11),
     (''MQTTPROPERTY_CODE_SESSION_EXPIRY_INTERVAL'', 17), (''MQTTPROPERTY_CODE_ASSIGNED_CLIENT_IDENTIFER'', 18),
     (''MQTTPROPERTY_CODE_SERVER_KEEP_ALIVE'', 19), (''MQTTPROPERTY_CODE_AUTHENTICATION_METHOD'', 21),
     (''MQTTPROPERTY_CODE_AUTHENTICATION_DATA'', 22), (''MQTTPROPERTY_CODE_REQUEST_PROBLEM_INFORMATION'', 23),
     (''MQTTPROPERTY_CODE_WILL_DELAY_INTERVAL'', 24), (''MQTTPROPERTY_CODE_REQUEST_RESPONSE_INFORMATION'', 25),
     (''MQTTPROPERTY_CODE_RESPONSE_INFORMATION'', 26), (''MQTTPROPERTY_CODE_SERVER_REFERENCE'', 28),
     (''MQTTPROPERTY_CODE_REASON_STRING'', 31), (''MQTTPROPERTY_CODE_RECEIVE_MAXIMUM'', 33),
     (''MQTTPROPERTY_CODE_TOPIC_ALIAS_MAXIMUM'', 34), (''MQTTPROPERTY_CODE_TOPIC_ALIAS'', 35),
     (''MQTTPROPERTY_CODE_MAXIMUM_QOS'', 36), (''MQTTPROPERTY_CODE_RETAIN_AVAILABLE'', 37),
     (''MQTTPROPERTY_CODE_USER_PROPERTY'', 38), (''MQTTPROPERTY_CODE_MAXIMUM_PACKET_SIZE'', 39),
     (''MQTTPROPERTY_CODE_WILDCARD_SUBSCRIPTION_AVAILABLE'', 40),
     (''MQTTPROPERTY_CODE_SUBSCRIPTION_IDENTIFIERS_AVAILABLE'', 41),
     (''MQTTPROPERTY_CODE_SHARED_SUBSCRIPTION_AVAILABLE'', 42)]"

definition nameToString :: "(int \<times> string) list" where
  "nameToString =
    [(1, ''PAYLOAD_FORMAT_INDICATOR''), (2, ''MESSAGE_EXPIRY_INTERVAL''), (3, ''CONTENT_TYPE''),
     (8, ''RESPONSE_TOPIC''), (9, ''CORRELATION_DATA''), (11, ''SUBSCRIPTION_IDENTIFIER''),
     (17, ''SESSION_EXPIRY_INTERVAL''), (18, ''ASSIGNED_CLIENT_IDENTIFER''),
     (19, ''SERVER_KEEP_ALIVE''), (21, ''AUTHENTICATION_METHOD''), (22, ''AUTHENTICATION_DATA''),
     (23, ''REQUEST_PROBLEM_INFORMATION''), (24, ''WILL_DELAY_INTERVAL''),
     (25, ''REQUEST_RESPONSE_INFORMATION''), (26, ''RESPONSE_INFORMATION''),
     (28, ''SERVER_REFERENCE''), (31, ''REASON_STRING''), (33, ''RECEIVE_MAXIMUM''),
     (34, ''TOPIC_ALIAS_MAXIMUM''), (35, ''TOPIC_ALIAS''), (36, ''MAXIMUM_QOS''),
     (37, ''RETAIN_AVAILABLE''), (38, ''USER_PROPERTY''), (39, ''MAXIMUM_PACKET_SIZE''),
     (40, ''WILDCARD_SUBSCRIPTION_AVAILABLE''), (41, ''SUBSCRIPTION_IDENTIFIERS_AVAILABLE''),
     (42, ''SHARED_SUBSCRIPTION_AVAILABLE'')]"

definition namesToTypes :: "(int \<times> MQTTPropertyTypes) list" where
  "namesToTypes =
    [(1, MQTTPROPERTY_TYPE_BYTE), (2, MQTTPROPERTY_TYPE_FOUR_BYTE_INTEGER),
     (3, MQTTPROPERTY_TYPE_UTF_8_ENCODED_STRING), (8, MQTTPROPERTY_TYPE_UTF_8_ENCODED_STRING),
     (9, MQTTPROPERTY_TYPE_BINARY_DATA), (11, MQTTPROPERTY_TYPE_VARIABLE_BYTE_INTEGER),
     (17, MQTTPROPERTY_TYPE_FOUR_BYTE_INTEGER), (18, MQTTPROPERTY_TYPE_UTF_8_ENCODED_STRING),
     (19, MQTTPROPERTY_TYPE_TWO_BYTE_INTEGER), (21, MQTTPROPERTY_TYPE_UTF_8_ENCODED_STRING),
     (22, MQTTPROPERTY_TYPE_BINARY_DATA), (23, MQTTPROPERTY_TYPE_BYTE),
     (24, MQTTPROPERTY_TYPE_FOUR_BYTE_INTEGER), (25, MQTTPROPERTY_TYPE_BYTE),
     (26, MQTTPROPERTY_TYPE_UTF_8_ENCODED_STRING), (28, MQTTPROPERTY_TYPE_UTF_8_ENCODED_STRING),
     (31, MQTTPROPERTY_TYPE_UTF_8_ENCODED_STRING), (33, MQTTPROPERTY_TYPE_TWO_BYTE_INTEGER),
     (34, MQTTPROPERTY_TYPE_TWO_BYTE_INTEGER), (35, MQTTPROPERTY_TYPE_TWO_BYTE_INTEGER),
     (36, MQTTPROPERTY_TYPE_BYTE), (37, MQTTPROPERTY_TYPE_BYTE),
     (38, MQTTPROPERTY_TYPE_UTF_8_STRING_PAIR), (39, MQTTPROPERTY_TYPE_FOUR_BYTE_INTEGER),
     (40, MQTTPROPERTY_TYPE_BYTE), (41, MQTTPROPERTY_TYPE_BYTE), (42, MQTTPROPERTY_TYPE_BYTE)]"

text \<open>Both tables are searched from the front; \<open>None\<close> is the result -1 or NULL.\<close>

definition MQTTProperty_getType :: "int \<Rightarrow> MQTTPropertyTypes option" where
  "MQTTProperty_getType v = map_of namesToTypes v"

definition MQTTPropertyName :: "int \<Rightarrow> string option" where
  "MQTTPropertyName v = map_of nameToString v"

lemma getType_range: "MQTTProperty_getType v = Some t \<Longrightarrow> 0 < v \<and> v < 128"
  by (auto simp: MQTTProperty_getType_def namesToTypes_def split: if_splits)

lemma codes_agree: "map fst namesToTypes = map fst nameToString"
  by (simp add: namesToTypes_def nameToString_def)

lemma property_codes_in_order: "map snd MQTTPropertyCodes = map fst namesToTypes"
  by (simp add: MQTTPropertyCodes_def namesToTypes_def)

lemma property_code_typed: "(n, v) \<in> set MQTTPropertyCodes \<Longrightarrow> MQTTProperty_getType v \<noteq> None"
proof -
  assume "(n, v) \<in> set MQTTPropertyCodes"
  then have "v \<in> set (map fst namesToTypes)" by (force simp flip: property_codes_in_order)
  then show ?thesis by (simp add: MQTTProperty_getType_def map_of_eq_None_iff)
qed

subsection \<open>Properties and property lists\<close>

datatype pvalue =
    PByte byte
  | PInteger2 "16 word"
  | PInteger4 "32 word"
  | PData MQTTLenString
  | PPair MQTTLenString MQTTLenString

record MQTTProperty =
  prop_id :: int
  prop_value :: pvalue

record MQTTProperties =
  p_count :: int
  p_max_count :: int
  p_length :: int
  p_array :: "MQTTProperty list option"

definition MQTTProperties_initializer :: MQTTProperties where
  "MQTTProperties_initializer = \<lparr>p_count = 0, p_max_count = 0, p_length = 0, p_array = None\<rparr>"

text \<open>The members of the union.\<close>

definition get_byte :: "pvalue \<Rightarrow> ub + byte" where
  "get_byte v = (case v of PByte b \<Rightarrow> Inr b | _ \<Rightarrow> Inl WrongMember)"
definition get_integer2 :: "pvalue \<Rightarrow> ub + 16 word" where
  "get_integer2 v = (case v of PInteger2 w \<Rightarrow> Inr w | _ \<Rightarrow> Inl WrongMember)"
definition get_integer4 :: "pvalue \<Rightarrow> ub + 32 word" where
  "get_integer4 v = (case v of PInteger4 w \<Rightarrow> Inr w | _ \<Rightarrow> Inl WrongMember)"
definition get_data :: "pvalue \<Rightarrow> ub + MQTTLenString" where
  "get_data v = (case v of PData d \<Rightarrow> Inr d | PPair d _ \<Rightarrow> Inr d | _ \<Rightarrow> Inl WrongMember)"
definition get_value :: "pvalue \<Rightarrow> ub + MQTTLenString" where
  "get_value v = (case v of PPair _ d \<Rightarrow> Inr d | _ \<Rightarrow> Inl WrongMember)"

lemmas member_defs = get_byte_def get_integer2_def get_integer4_def get_data_def get_value_def

text \<open>The initialised entries of the array, and storing at an index of it.\<close>

definition entries :: "MQTTProperties \<Rightarrow> ub + MQTTProperty list" where
  "entries props =
     (if p_count props \<le> 0 then Inr []
      else case p_array props of None \<Rightarrow> Inl NullDeref
        | Some arr \<Rightarrow> if nat (p_count props) \<le> length arr then Inr (take (nat (p_count props)) arr)
                      else Inl UninitRead)"

definition array_store :: "'a list \<Rightarrow> nat \<Rightarrow> 'a \<Rightarrow> 'a list" where
  "array_store arr i x = take i arr @ x # drop (Suc i) arr"

definition MQTTProperties_len :: "MQTTProperties option \<Rightarrow> int" where
  "MQTTProperties_len props =
     (case props of None \<Rightarrow> 1 | Some ps \<Rightarrow> p_length ps + MQTTPacket_VBIlen (p_length ps))"

subsection \<open>Adding a property\<close>

text \<open>\<^verbatim>\<open>datadup\<close> copies a string; NULL, when the allocation fails, is \<open>None\<close>.\<close>

definition datadup :: "heap \<Rightarrow> MQTTLenString \<Rightarrow> ub + bytes option" where
  "datadup H str =
     (if H (ReqBuffer (nat (ls_len str)))
      then ub_bind (memcpy_src (ls_data str) (ls_len str)) (\<lambda>d. Inr (Some d))
      else Inr None)"

text \<open>
  \<^verbatim>\<open>MQTTProperties_add\<close> does not look at the result of \<open>datadup\<close>: on failure the entry keeps its
  length with a NULL pointer, here the empty memory.
\<close>

definition dup_into :: "heap \<Rightarrow> MQTTLenString \<Rightarrow> ub + MQTTLenString" where
  "dup_into H str =
     ub_bind (datadup H str) (\<lambda>r. Inr (str\<lparr>ls_data := (case r of None \<Rightarrow> [] | Some d \<Rightarrow> d)\<rparr>))"

text \<open>The growth of the array before an entry is stored; \<open>None\<close> when it could not be allocated.\<close>

definition add_grow :: "heap \<Rightarrow> MQTTProperties \<Rightarrow> MQTTProperties" where
  "add_grow H props =
     (if p_array props = None
      then props\<lparr>p_max_count := 10, p_array := (if H (ReqPropArray 10) then Some [] else None)\<rparr>
      else if p_count props = p_max_count props
      then let m = p_max_count props + 10 in
           props\<lparr>p_max_count := m, p_array := (if H (ReqPropArray m) then p_array props else None)\<rparr>
      else props)"

text \<open>The serialised length of the value and the stored copy, by type.\<close>

definition add_value :: "heap \<Rightarrow> MQTTPropertyTypes \<Rightarrow> pvalue \<Rightarrow> ub + (int \<times> pvalue)" where
  "add_value H type v =
     (case type of
        MQTTPROPERTY_TYPE_BYTE \<Rightarrow> Inr (1, v)
      | MQTTPROPERTY_TYPE_TWO_BYTE_INTEGER \<Rightarrow> Inr (2, v)
      | MQTTPROPERTY_TYPE_FOUR_BYTE_INTEGER \<Rightarrow> Inr (4, v)
      | MQTTPROPERTY_TYPE_VARIABLE_BYTE_INTEGER \<Rightarrow>
          ub_bind (get_integer4 v) (\<lambda>w. Inr (MQTTPacket_VBIlen (sint w), v))
      | MQTTPROPERTY_TYPE_UTF_8_STRING_PAIR \<Rightarrow>
          ub_bind (get_data v) (\<lambda>d. ub_bind (dup_into H d) (\<lambda>d'.
          ub_bind (get_value v) (\<lambda>w. ub_bind (dup_into H w) (\<lambda>w'.
            Inr (2 + ls_len d + (2 + ls_len w), PPair d' w')))))
      | _ \<Rightarrow> ub_bind (get_data v) (\<lambda>d. ub_bind (dup_into H d) (\<lambda>d'.
            Inr (2 + ls_len d, PData d'))))"

definition MQTTProperties_add ::
    "heap \<Rightarrow> MQTTProperties \<Rightarrow> MQTTProperty \<Rightarrow> ub + (int \<times> MQTTProperties)" where
  "MQTTProperties_add H props prop =
     (case MQTTProperty_getType (prop_id prop) of
        None \<Rightarrow> Inr (MQTT_INVALID_PROPERTY_ID, props)
      | Some type \<Rightarrow>
          let props1 = add_grow H props in
          (case p_array props1 of
             None \<Rightarrow> Inr (PAHO_MEMORY_ERROR, props1)
           | Some arr \<Rightarrow>
               ub_bind (add_value H type (prop_value prop)) (\<lambda>(len, v).
                 Inr (0, props1\<lparr>p_array := Some (array_store arr (nat (p_count props1)) (prop\<lparr>prop_value := v\<rparr>)),
                                p_count := p_count props1 + 1,
                                p_length := p_length props1 + (len + 1)\<rparr>))))"

subsection \<open>Serialising\<close>

definition write_value :: "MQTTPropertyTypes \<Rightarrow> pvalue \<Rightarrow> ub + (int \<times> bytes)" where
  "write_value type v =
     (case type of
        MQTTPROPERTY_TYPE_BYTE \<Rightarrow> ub_bind (get_byte v) (\<lambda>b. Inr (1, writeChar b))
      | MQTTPROPERTY_TYPE_TWO_BYTE_INTEGER \<Rightarrow> ub_bind (get_integer2 v) (\<lambda>w. Inr (2, writeInt (uint w)))
      | MQTTPROPERTY_TYPE_FOUR_BYTE_INTEGER \<Rightarrow> ub_bind (get_integer4 v) (\<lambda>w. Inr (4, writeInt4 (sint w)))
      | MQTTPROPERTY_TYPE_VARIABLE_BYTE_INTEGER \<Rightarrow>
          ub_bind (get_integer4 v) (\<lambda>w. Inr (int (snd (MQTTPacket_encode True (unat w))), vbi (unat w)))
      | MQTTPROPERTY_TYPE_UTF_8_STRING_PAIR \<Rightarrow>
          ub_bind (get_data v) (\<lambda>d. ub_bind (writeMQTTLenString d) (\<lambda>bs.
          ub_bind (get_value v) (\<lambda>w. ub_bind (writeMQTTLenString w) (\<lambda>bs'.
            Inr (ls_len d + ls_len w + 4, bs @ bs')))))
      | _ \<Rightarrow> ub_bind (get_data v) (\<lambda>d. ub_bind (writeMQTTLenString d) (\<lambda>bs. Inr (ls_len d + 2, bs))))"

definition MQTTProperty_write :: "MQTTProperty \<Rightarrow> ub + (int \<times> bytes)" where
  "MQTTProperty_write prop =
     (case MQTTProperty_getType (prop_id prop) of
        None \<Rightarrow> Inr (-1 + 1, [])
      | Some type \<Rightarrow> ub_bind (write_value type (prop_value prop)) (\<lambda>(rc, bs).
          Inr (rc + 1, writeChar (word_of_int (prop_id prop)) @ bs)))"

fun write_loop :: "MQTTProperty list \<Rightarrow> int \<Rightarrow> int \<Rightarrow> ub + (int \<times> int \<times> bytes)" where
  "write_loop [] rc len = Inr (rc, len, [])"
| "write_loop (p # ps) rc len =
     ub_bind (MQTTProperty_write p) (\<lambda>(rc1, bs).
       if rc1 < 0 then Inr (rc1, len, bs)
       else ub_bind (write_loop ps rc1 (len + rc1)) (\<lambda>(rc2, len2, bs2). Inr (rc2, len2, bs @ bs2)))"

text \<open>The list length is an \<^verbatim>\<open>int\<close> converted to \<^verbatim>\<open>size_t\<close> for \<open>MQTTPacket_encode\<close>.\<close>

definition size_t_of :: "int \<Rightarrow> nat" where
  "size_t_of n = nat (n mod 2 ^ 64)"

definition MQTTProperties_write :: "MQTTProperties option \<Rightarrow> ub + (int \<times> bytes)" where
  "MQTTProperties_write properties =
     (case properties of
        None \<Rightarrow> Inr (1, vbi 0)
      | Some ps \<Rightarrow>
          ub_bind (entries ps) (\<lambda>arr. ub_bind (write_loop arr 1 1) (\<lambda>(rc, len, bs).
            Inr (if rc \<ge> 0 then len else rc, vbi (size_t_of (p_length ps)) @ bs))))"

subsection \<open>Parsing\<close>

text \<open>
  \<^verbatim>\<open>MQTTProperty_read\<close>: the strings are checked against \<open>enddata\<close>, the identifier and the
  integers are not. The result is the return code, the property (\<open>None\<close> when it was not
  completed) and the input pointer.
\<close>

definition read_dup :: "heap \<Rightarrow> bytes \<Rightarrow> nat \<Rightarrow> nat \<Rightarrow> ub + (int \<times> MQTTLenString option \<times> nat)" where
  "read_dup H buf p enddata =
     ub_bind (MQTTLenStringRead buf p enddata) (\<lambda>(len, s, p').
       if len = -1 then Inr (-1, None, p')
       else case s of None \<Rightarrow> Inr (-1, None, p')
         | Some s \<Rightarrow> ub_bind (datadup H s) (\<lambda>d. case d of
             None \<Rightarrow> Inr (-1, None, p')
           | Some d \<Rightarrow> Inr (len, Some (s\<lparr>ls_data := d\<rparr>), p')))"

definition read_value ::
    "heap \<Rightarrow> bytes \<Rightarrow> nat \<Rightarrow> MQTTPropertyTypes \<Rightarrow> nat \<Rightarrow> ub + (int \<times> pvalue option \<times> nat)" where
  "read_value H buf enddata type p =
     (case type of
        MQTTPROPERTY_TYPE_BYTE \<Rightarrow>
          ub_bind (readChar buf p) (\<lambda>(b, p'). Inr (1, Some (PByte b), p'))
      | MQTTPROPERTY_TYPE_TWO_BYTE_INTEGER \<Rightarrow>
          ub_bind (readInt buf p) (\<lambda>(n, p'). Inr (2, Some (PInteger2 (word_of_int n)), p'))
      | MQTTPROPERTY_TYPE_FOUR_BYTE_INTEGER \<Rightarrow>
          ub_bind (readInt4 buf p) (\<lambda>(w, p'). Inr (4, Some (PInteger4 w), p'))
      | MQTTPROPERTY_TYPE_VARIABLE_BYTE_INTEGER \<Rightarrow>
          ub_bind (MQTTPacket_decodeBuf buf p) (\<lambda>(len, w). Inr (int len, Some (PInteger4 w), p + len))
      | MQTTPROPERTY_TYPE_UTF_8_STRING_PAIR \<Rightarrow>
          ub_bind (read_dup H buf p enddata) (\<lambda>(len, d, p1).
            case d of None \<Rightarrow> Inr (-1, None, p1)
            | Some d \<Rightarrow> ub_bind (read_dup H buf p1 enddata) (\<lambda>(proplen, v, p2).
                case v of None \<Rightarrow> Inr (-1, None, p2)
                | Some v \<Rightarrow> Inr (len + proplen, Some (PPair d v), p2)))
      | _ \<Rightarrow> ub_bind (read_dup H buf p enddata) (\<lambda>(len, d, p1). Inr (len, map_option PData d, p1)))"

definition MQTTProperty_read ::
    "heap \<Rightarrow> bytes \<Rightarrow> nat \<Rightarrow> nat \<Rightarrow> ub + (int \<times> MQTTProperty option \<times> nat)" where
  "MQTTProperty_read H buf p enddata =
     ub_bind (readChar buf p) (\<lambda>(c, p1).
       case MQTTProperty_getType (uint c) of
         None \<Rightarrow> Inr (-1, None, p1)
       | Some type \<Rightarrow> ub_bind (read_value H buf enddata type p1) (\<lambda>(len, v, p2).
           Inr (if len = -1 then -1 else len + 1,
                map_option (\<lambda>v. \<lparr>prop_id = uint c, prop_value = v\<rparr>) v, p2)))"

text \<open>The pointer never moves back, and the identifier byte was inside the buffer.\<close>

lemma readChar_Inr: "readChar buf p = Inr (c, p') \<Longrightarrow> p < length buf \<and> p' = p + 1 \<and> c = buf ! p"
  by (auto simp: readChar_def split: if_splits)

lemma readInt4_Inr: "readInt4 buf p = Inr (w, p') \<Longrightarrow> p + 3 < length buf \<and> p' = p + 4"
  by (auto simp: readInt4_def split: if_splits)

lemma datadup_Some: "datadup H s = Inr (Some d) \<Longrightarrow> d = take (nat (ls_len s)) (ls_data s)"
  by (auto simp: datadup_def memcpy_src_def split: if_splits)

lemma read_dup_Inr:
  assumes "read_dup H buf p enddata = Inr (len, s, p')"
  shows "(len = -1 \<and> s = None \<and> p \<le> p') \<or>
    (2 \<le> len \<and> p' = p + nat len \<and> p' \<le> enddata \<and> s \<noteq> None \<and> p + 1 < length buf)"
proof -
  from assms obtain len1 s1 p1 where m: "MQTTLenStringRead buf p enddata = Inr (len1, s1, p1)"
    by (auto simp: read_dup_def ub_bind_Inr_iff)
  from MQTTLenStringRead_Inr [OF m] assms m show ?thesis
    by (auto simp: read_dup_def ub_bind_Inr_iff split: if_splits option.splits)
qed

lemma read_value_Inr:
  assumes "read_value H buf enddata type p = Inr (len, v, p')"
  shows "(len = -1 \<and> v = None \<and> p \<le> p') \<or> (0 < len \<and> v \<noteq> None \<and> p' = p + nat len)"
proof (cases type)
  case MQTTPROPERTY_TYPE_UTF_8_STRING_PAIR
  with assms show ?thesis
    by (auto simp: read_value_def ub_bind_Inr_iff nat_add_distrib split: option.splits
        dest!: read_dup_Inr)
qed (use assms in \<open>auto simp: read_value_def ub_bind_Inr_iff
       dest!: read_dup_Inr readChar_Inr readInt_Inr readInt4_Inr decodeBuf_len\<close>)

lemma MQTTProperty_read_Inr:
  assumes "MQTTProperty_read H buf p enddata = Inr (rc, prop, p')"
  shows "p < length buf \<and> p < p' \<and> (rc = -1 \<and> prop = None \<or> 1 < rc \<and> prop \<noteq> None \<and> p' = p + nat rc)"
proof -
  from assms obtain c p1 where c: "readChar buf p = Inr (c, p1)"
    by (auto simp: MQTTProperty_read_def ub_bind_Inr_iff)
  from readChar_Inr [OF c] have p1: "p < length buf" "p1 = p + 1" by simp_all
  show ?thesis
  proof (cases "MQTTProperty_getType (uint c)")
    case None
    with assms c p1 show ?thesis by (simp add: MQTTProperty_read_def)
  next
    case (Some t)
    with assms c obtain len v p2 where v: "read_value H buf enddata t p1 = Inr (len, v, p2)"
      and r: "rc = (if len = -1 then -1 else len + 1)" "p' = p2"
        "prop = map_option (\<lambda>v. \<lparr>prop_id = uint c, prop_value = v\<rparr>) v"
      by (auto simp: MQTTProperty_read_def ub_bind_Inr_iff)
    from read_value_Inr [OF v] r p1 show ?thesis by (auto simp: nat_add_distrib)
  qed
qed

text \<open>The growth of the array in the reading loop: \<^verbatim>\<open>malloc\<close> the first time, \<^verbatim>\<open>realloc\<close> after.\<close>

definition read_grow :: "heap \<Rightarrow> MQTTProperties \<Rightarrow> MQTTProperties" where
  "read_grow H props =
     (if p_count props = p_max_count props
      then let m = p_max_count props + 10 in
           props\<lparr>p_max_count := m,
                 p_array := (if \<not> H (ReqPropArray m) then None
                             else if m = 10 then Some [] else p_array props)\<rparr>
      else props)"

text \<open>
  The loop over the properties. \<open>remlength\<close> is an \<^verbatim>\<open>unsigned int\<close>: a property longer than what
  remains wraps it around. The first component of the result is true when the loop was left
  by the \<^verbatim>\<open>goto exit\<close> of a failed allocation.
\<close>

function read_loop :: "heap \<Rightarrow> bytes \<Rightarrow> nat \<Rightarrow> MQTTProperties \<Rightarrow> 32 word \<Rightarrow> nat
    \<Rightarrow> ub + (bool \<times> MQTTProperties \<times> 32 word \<times> nat)" where
  "read_loop H buf enddata props remlength p =
     (if remlength = 0 then Inr (False, props, remlength, p)
      else let props1 = read_grow H props in
        case p_array props1 of
          None \<Rightarrow> Inr (True, props1, remlength, p)
        | Some arr \<Rightarrow>
            ub_bind (MQTTProperty_read H buf p enddata) (\<lambda>(proplen, prop, p').
              case prop of
                Some pr \<Rightarrow>
                  if proplen > 0
                  then read_loop H buf enddata
                         (props1\<lparr>p_array := Some (array_store arr (nat (p_count props1)) pr),
                                 p_count := p_count props1 + 1\<rparr>)
                         (remlength - word_of_int proplen) p'
                  else Inr (False, props1, remlength, p')
              | None \<Rightarrow> Inr (False, props1, remlength, p')))"
  by pat_completeness auto
termination
  by (relation "measure (\<lambda>(_, buf, _, _, _, p). length buf - p)")
    (auto dest!: MQTTProperty_read_Inr)

declare read_loop.simps [simp del]

text \<open>
  \<^verbatim>\<open>MQTTProperties_free\<close> releases the strings of the string properties, then zeroes the
  structure. The model returns the released memory with it.
\<close>

definition owned :: "MQTTProperty \<Rightarrow> ub + bytes list" where
  "owned p =
     (case MQTTProperty_getType (prop_id p) of
        Some MQTTPROPERTY_TYPE_BINARY_DATA \<Rightarrow> ub_bind (get_data (prop_value p)) (\<lambda>d. Inr [ls_data d])
      | Some MQTTPROPERTY_TYPE_UTF_8_ENCODED_STRING \<Rightarrow>
          ub_bind (get_data (prop_value p)) (\<lambda>d. Inr [ls_data d])
      | Some MQTTPROPERTY_TYPE_UTF_8_STRING_PAIR \<Rightarrow>
          ub_bind (get_data (prop_value p)) (\<lambda>d. ub_bind (get_value (prop_value p)) (\<lambda>v.
            Inr [ls_data d, ls_data v]))
      | _ \<Rightarrow> Inr [])"

fun free_loop :: "MQTTProperty list \<Rightarrow> ub + bytes list" where
  "free_loop [] = Inr []"
| "free_loop (p # ps) = ub_bind (owned p) (\<lambda>f. ub_bind (free_loop ps) (\<lambda>fs. Inr (f @ fs)))"

definition MQTTProperties_free ::
    "MQTTProperties option \<Rightarrow> ub + (bytes list \<times> MQTTProperties option)" where
  "MQTTProperties_free props =
     (case props of
        None \<Rightarrow> Inr ([], None)
      | Some ps \<Rightarrow> ub_bind (entries ps) (\<lambda>arr. ub_bind (free_loop arr) (\<lambda>fs.
          Inr (fs, Some MQTTProperties_initializer))))"

definition MQTTProperties_read ::
    "heap \<Rightarrow> MQTTProperties \<Rightarrow> bytes \<Rightarrow> nat \<Rightarrow> nat \<Rightarrow> ub + (int \<times> MQTTProperties \<times> nat)" where
  "MQTTProperties_read H properties buf p enddata =
     ub_bind
       (if int enddata - int p > 0
        then ub_bind (MQTTPacket_decodeBuf buf p) (\<lambda>(len, remlength).
          ub_bind (read_loop H buf enddata (properties\<lparr>p_length := sint remlength\<rparr>) remlength (p + len))
            (\<lambda>(no_mem, props', rem', p').
               Inr (no_mem, if no_mem then PAHO_MEMORY_ERROR else if rem' = 0 then 1 else 0, props', p')))
        else Inr (False, 0, properties, p))
       (\<lambda>(no_mem, rc, props', p').
          if \<not> no_mem \<and> rc \<noteq> 1 \<and> p_array props' \<noteq> None
          then ub_bind (MQTTProperties_free (Some props')) (\<lambda>_. Inr (rc, MQTTProperties_initializer, p'))
          else Inr (rc, props', p'))"

subsection \<open>Copying and queries\<close>

text \<open>\<^verbatim>\<open>MQTTProperties_copy\<close>: an entry that cannot be added is logged and left out.\<close>

fun copy_loop :: "heap \<Rightarrow> MQTTProperty list \<Rightarrow> MQTTProperties \<Rightarrow> ub + MQTTProperties" where
  "copy_loop H [] result = Inr result"
| "copy_loop H (p # ps) result =
     ub_bind (MQTTProperties_add H result p) (\<lambda>(rc, result'). copy_loop H ps result')"

definition MQTTProperties_copy :: "heap \<Rightarrow> MQTTProperties \<Rightarrow> ub + MQTTProperties" where
  "MQTTProperties_copy H props =
     ub_bind (entries props) (\<lambda>arr. copy_loop H arr MQTTProperties_initializer)"

fun has_loop :: "MQTTProperty list \<Rightarrow> int \<Rightarrow> bool" where
  "has_loop [] propid = False"
| "has_loop (p # ps) propid = (if propid = prop_id p then True else has_loop ps propid)"

definition MQTTProperties_hasProperty :: "MQTTProperties \<Rightarrow> int \<Rightarrow> ub + bool" where
  "MQTTProperties_hasProperty props propid =
     ub_bind (entries props) (\<lambda>arr. Inr (has_loop arr propid))"

fun count_loop :: "MQTTProperty list \<Rightarrow> int \<Rightarrow> int \<Rightarrow> int" where
  "count_loop [] propid n = n"
| "count_loop (p # ps) propid n = count_loop ps propid (if propid = prop_id p then n + 1 else n)"

definition MQTTProperties_propertyCount :: "MQTTProperties \<Rightarrow> int \<Rightarrow> ub + int" where
  "MQTTProperties_propertyCount props propid =
     ub_bind (entries props) (\<lambda>arr. Inr (count_loop arr propid 0))"

definition numeric_value :: "MQTTProperty \<Rightarrow> ub + int" where
  "numeric_value p =
     (case MQTTProperty_getType (prop_id p) of
        Some MQTTPROPERTY_TYPE_BYTE \<Rightarrow> ub_bind (get_byte (prop_value p)) (\<lambda>b. Inr (uint b))
      | Some MQTTPROPERTY_TYPE_TWO_BYTE_INTEGER \<Rightarrow>
          ub_bind (get_integer2 (prop_value p)) (\<lambda>w. Inr (uint w))
      | Some MQTTPROPERTY_TYPE_FOUR_BYTE_INTEGER \<Rightarrow>
          ub_bind (get_integer4 (prop_value p)) (\<lambda>w. Inr (sint w))
      | Some MQTTPROPERTY_TYPE_VARIABLE_BYTE_INTEGER \<Rightarrow>
          ub_bind (get_integer4 (prop_value p)) (\<lambda>w. Inr (sint w))
      | _ \<Rightarrow> Inr (-999999))"

fun numeric_loop :: "MQTTProperty list \<Rightarrow> int \<Rightarrow> int \<Rightarrow> int \<Rightarrow> ub + int" where
  "numeric_loop [] propid index cur_index = Inr (-9999999)"
| "numeric_loop (p # ps) propid index cur_index =
     (if prop_id p = propid
      then if cur_index < index then numeric_loop ps propid index (cur_index + 1)
           else numeric_value p
      else numeric_loop ps propid index cur_index)"

definition MQTTProperties_getNumericValueAt :: "MQTTProperties \<Rightarrow> int \<Rightarrow> int \<Rightarrow> ub + int" where
  "MQTTProperties_getNumericValueAt props propid index =
     ub_bind (entries props) (\<lambda>arr. numeric_loop arr propid index 0)"

definition MQTTProperties_getNumericValue :: "MQTTProperties \<Rightarrow> int \<Rightarrow> ub + int" where
  "MQTTProperties_getNumericValue props propid = MQTTProperties_getNumericValueAt props propid 0"

fun property_loop :: "MQTTProperty list \<Rightarrow> int \<Rightarrow> int \<Rightarrow> int \<Rightarrow> MQTTProperty option" where
  "property_loop [] propid index cur_index = None"
| "property_loop (p # ps) propid index cur_index =
     (if prop_id p = propid
      then if cur_index = index then Some p else property_loop ps propid index (cur_index + 1)
      else property_loop ps propid index cur_index)"

definition MQTTProperties_getPropertyAt ::
    "MQTTProperties \<Rightarrow> int \<Rightarrow> int \<Rightarrow> ub + MQTTProperty option" where
  "MQTTProperties_getPropertyAt props propid index =
     ub_bind (entries props) (\<lambda>arr. Inr (property_loop arr propid index 0))"

definition MQTTProperties_getProperty :: "MQTTProperties \<Rightarrow> int \<Rightarrow> ub + MQTTProperty option" where
  "MQTTProperties_getProperty props propid = MQTTProperties_getPropertyAt props propid 0"

subsection \<open>Well-formed properties and what is written for them\<close>

text \<open>
  A property is well formed when the stored member is the one its code selects and the value
  fits its encoding; the four-byte integers are those the writer handles (see \<open>writeInt4\<close>).
\<close>

definition value_ok :: "MQTTPropertyTypes \<Rightarrow> pvalue \<Rightarrow> bool" where
  "value_ok type v =
     (case v of
        PByte b \<Rightarrow> type = MQTTPROPERTY_TYPE_BYTE
      | PInteger2 w \<Rightarrow> type = MQTTPROPERTY_TYPE_TWO_BYTE_INTEGER
      | PInteger4 w \<Rightarrow> type = MQTTPROPERTY_TYPE_FOUR_BYTE_INTEGER \<and> 0 \<le> sint w
          \<or> type = MQTTPROPERTY_TYPE_VARIABLE_BYTE_INTEGER \<and> unat w < 268435456
      | PData d \<Rightarrow> lenstring_ok d \<and>
          (type = MQTTPROPERTY_TYPE_BINARY_DATA \<or> type = MQTTPROPERTY_TYPE_UTF_8_ENCODED_STRING)
      | PPair d w \<Rightarrow> lenstring_ok d \<and> lenstring_ok w \<and> type = MQTTPROPERTY_TYPE_UTF_8_STRING_PAIR)"

definition value_bytes :: "MQTTPropertyTypes \<Rightarrow> pvalue \<Rightarrow> bytes" where
  "value_bytes type v =
     (case v of
        PByte b \<Rightarrow> writeChar b
      | PInteger2 w \<Rightarrow> writeInt (uint w)
      | PInteger4 w \<Rightarrow> if type = MQTTPROPERTY_TYPE_FOUR_BYTE_INTEGER then writeInt4 (sint w) else vbi (unat w)
      | PData d \<Rightarrow> lenstring_bytes d
      | PPair d w \<Rightarrow> lenstring_bytes d @ lenstring_bytes w)"

definition prop_ok :: "MQTTProperty \<Rightarrow> bool" where
  "prop_ok p = (case MQTTProperty_getType (prop_id p) of None \<Rightarrow> False
     | Some type \<Rightarrow> value_ok type (prop_value p))"

definition prop_bytes :: "MQTTProperty \<Rightarrow> bytes" where
  "prop_bytes p = word_of_int (prop_id p) #
     (case MQTTProperty_getType (prop_id p) of None \<Rightarrow> [] | Some type \<Rightarrow> value_bytes type (prop_value p))"

lemma uint16_range: "0 \<le> uint (w :: 16 word)" "uint (w :: 16 word) < 65536"
  using uint_bounded [of w] by simp_all

lemma value_okE:
  assumes "value_ok type v"
  obtains
    (byte) b where "v = PByte b" "type = MQTTPROPERTY_TYPE_BYTE"
  | (int2) w where "v = PInteger2 w" "type = MQTTPROPERTY_TYPE_TWO_BYTE_INTEGER"
  | (int4) w where "v = PInteger4 w" "type = MQTTPROPERTY_TYPE_FOUR_BYTE_INTEGER" "0 \<le> sint w"
  | (vbi) w where "v = PInteger4 w" "type = MQTTPROPERTY_TYPE_VARIABLE_BYTE_INTEGER" "unat w < 268435456"
  | (data) d where "v = PData d" "lenstring_ok d"
      "type = MQTTPROPERTY_TYPE_BINARY_DATA \<or> type = MQTTPROPERTY_TYPE_UTF_8_ENCODED_STRING"
  | (pair) d w where "v = PPair d w" "lenstring_ok d" "lenstring_ok w"
      "type = MQTTPROPERTY_TYPE_UTF_8_STRING_PAIR"
  using assms by (cases v) (auto simp: value_ok_def)

lemma write_value_ok:
  assumes "value_ok type v"
  shows "write_value type v = Inr (int (length (value_bytes type v)), value_bytes type v)"
  using assms
proof (cases rule: value_okE)
  case data
  then show ?thesis
    by (auto simp: write_value_def value_bytes_def member_defs writeMQTTLenString_ok length_lenstring_bytes)
next
  case pair
  then show ?thesis
    by (simp add: write_value_def value_bytes_def member_defs writeMQTTLenString_ok length_lenstring_bytes)
qed (simp_all add: write_value_def value_bytes_def member_defs encode_count)

lemma MQTTProperty_write_ok:
  assumes "prop_ok p"
  shows "MQTTProperty_write p = Inr (int (length (prop_bytes p)), prop_bytes p)"
  using assms
  by (auto simp: prop_ok_def MQTTProperty_write_def prop_bytes_def write_value_ok writeChar_def
      split: option.splits)

lemma write_loop_ok:
  assumes "\<forall>p\<in>set ps. prop_ok p" "0 \<le> rc"
  shows "\<exists>rc'. 0 \<le> rc' \<and> write_loop ps rc len =
    Inr (rc', len + int (length (concat (map prop_bytes ps))), concat (map prop_bytes ps))"
  using assms
proof (induction ps arbitrary: rc len)
  case Nil
  then show ?case by simp
next
  case (Cons p ps)
  have "0 \<le> int (length (prop_bytes p))" by simp
  from Cons.IH [OF _ this] Cons.prems obtain rc' where "0 \<le> rc'"
    "write_loop ps (int (length (prop_bytes p))) (len + int (length (prop_bytes p))) =
     Inr (rc', len + int (length (prop_bytes p)) + int (length (concat (map prop_bytes ps))),
          concat (map prop_bytes ps))"
    by auto
  with Cons.prems show ?case by (simp add: MQTTProperty_write_ok)
qed

subsection \<open>Reading back one property\<close>

lemma datadup_ok: "H (ReqBuffer (length (ls_data s))) \<Longrightarrow> lenstring_ok s \<Longrightarrow> datadup H s = Inr (Some (ls_data s))"
  by (simp add: datadup_def lenstring_ok_def memcpy_src_all)

lemma read_dup_ok:
  assumes "heap_total H" "lenstring_ok s"
  shows "read_dup H (pre @ lenstring_bytes s @ post) (length pre) (length (pre @ lenstring_bytes s @ post)) =
    Inr (int (length (lenstring_bytes s)), Some s, length pre + length (lenstring_bytes s))"
proof -
  have "0 \<le> ls_len s" using assms(2) by (simp add: lenstring_ok_def)
  then show ?thesis
    using assms length_lenstring_bytes [OF assms(2)]
    by (simp only: read_dup_def MQTTLenStringRead_lenstring) (simp add: datadup_ok)
qed

lemma read_value_ok:
  assumes "heap_total H" "value_ok type v"
  shows "read_value H (pre @ value_bytes type v @ post) (length (pre @ value_bytes type v @ post)) type
      (length pre) =
    Inr (int (length (value_bytes type v)), Some v, length pre + length (value_bytes type v))"
  using assms(2)
proof (cases rule: value_okE)
  case (byte b)
  then show ?thesis using char.rd_wr [where x = b and pre = pre and post = post] by (simp add: read_value_def value_bytes_def)
next
  case (int2 w)
  then show ?thesis using int2.rd_wr [of "uint w" pre post] uint16_range [of w]
    by (simp add: read_value_def value_bytes_def)
next
  case (int4 w)
  then show ?thesis using int4.rd_wr [of w pre post] by (simp add: read_value_def value_bytes_def)
next
  case (vbi w)
  then show ?thesis using MQTTPacket_decodeBuf_vbi [of "unat w" pre post]
    by (simp add: read_value_def value_bytes_def)
next
  case (data d)
  then show ?thesis using read_dup_ok [OF assms(1), of d pre post]
    by (auto simp: read_value_def value_bytes_def)
next
  case (pair d w)
  then show ?thesis
    using read_dup_ok [OF assms(1), of d pre "lenstring_bytes w @ post"]
      read_dup_ok [OF assms(1), of w "pre @ lenstring_bytes d" post]
    by (simp add: read_value_def value_bytes_def)
qed

lemma MQTTProperty_read_ok:
  assumes "heap_total H" "prop_ok p"
  shows "MQTTProperty_read H (pre @ prop_bytes p @ post) (length pre) (length (pre @ prop_bytes p @ post)) =
    Inr (int (length (prop_bytes p)), Some p, length pre + length (prop_bytes p))"
proof -
  from assms(2) obtain type where t: "MQTTProperty_getType (prop_id p) = Some type"
    and v: "value_ok type (prop_value p)" by (auto simp: prop_ok_def split: option.splits)
  from getType_range [OF t] have id: "uint (word_of_int (prop_id p) :: byte) = prop_id p"
    by (intro uint_byte_small) simp_all
  have len: "(if int n = -1 then -1 else int n + 1) = int n + 1" for n by simp
  from read_value_ok [OF assms(1) v, of "pre @ [word_of_int (prop_id p)]" post] t id show ?thesis
    by (simp add: MQTTProperty_read_def prop_bytes_def readChar_def len del: of_nat_Suc)
qed

text \<open>A property is an instance of the interface, for any heap that serves every request.\<close>

definition read_prop :: "bytes \<Rightarrow> nat \<Rightarrow> ub + (MQTTProperty \<times> nat)" where
  "read_prop buf p = ub_bind (MQTTProperty_read (\<lambda>_. True) buf p (length buf)) (\<lambda>(_, prop, p').
     case prop of None \<Rightarrow> Inl OverRead | Some pr \<Rightarrow> Inr (pr, p'))"

interpretation property: codec prop_bytes read_prop prop_ok
  by unfold_locales (simp only: read_prop_def MQTTProperty_read_ok heap_total_top, simp)

text \<open>The bytes of a property list determine the list.\<close>

lemma prop_list_inj:
  assumes "\<forall>p\<in>set ps. prop_ok p" "\<forall>p\<in>set qs. prop_ok p"
    and "concat (map prop_bytes ps) = concat (map prop_bytes qs)"
  shows "ps = qs"
  by (rule property.wr_seq_inj [OF assms(1,2) _ assms(3)]) (simp add: prop_bytes_def)

subsection \<open>Property lists\<close>

definition props_inv :: "MQTTProperties \<Rightarrow> bool" where
  "props_inv props \<longleftrightarrow> 0 \<le> p_count props \<and> p_count props \<le> p_max_count props \<and>
     (case p_array props of
        None \<Rightarrow> p_max_count props = 0
      | Some arr \<Rightarrow> int (length arr) = p_count props \<and> 10 \<le> p_max_count props)"

definition prop_list :: "MQTTProperties \<Rightarrow> MQTTProperty list" where
  "prop_list props = (case p_array props of None \<Rightarrow> [] | Some arr \<Rightarrow> arr)"

definition list_bytes :: "MQTTProperty list \<Rightarrow> bytes" where
  "list_bytes ps = concat (map prop_bytes ps)"

definition props_ok :: "MQTTProperties \<Rightarrow> bool" where
  "props_ok props \<longleftrightarrow> props_inv props \<and> (\<forall>p\<in>set (prop_list props). prop_ok p) \<and>
     p_length props = int (length (list_bytes (prop_list props)))"

lemma props_inv_init [simp]: "props_inv MQTTProperties_initializer"
  by (simp add: props_inv_def MQTTProperties_initializer_def)

lemma prop_list_init [simp]: "prop_list MQTTProperties_initializer = []"
  by (simp add: prop_list_def MQTTProperties_initializer_def)

lemma props_ok_init: "props_ok MQTTProperties_initializer"
  by (simp add: props_ok_def list_bytes_def) (simp add: MQTTProperties_initializer_def)

lemma props_inv_count: "props_inv props \<Longrightarrow> p_count props = int (length (prop_list props))"
  by (auto simp: props_inv_def prop_list_def split: option.splits)

lemma entries_inv: "props_inv props \<Longrightarrow> entries props = Inr (prop_list props)"
  by (cases "p_count props = 0") (auto simp: props_inv_def prop_list_def entries_def split: option.splits)

lemma list_bytes_simps [simp]:
  "list_bytes [] = []" "list_bytes (ps @ qs) = list_bytes ps @ list_bytes qs"
  "list_bytes (p # ps) = prop_bytes p @ list_bytes ps"
  by (simp_all add: list_bytes_def)

lemma MQTTProperties_write_ok:
  assumes "props_ok props" "p_length props < 268435456"
  shows "MQTTProperties_write (Some props) =
    Inr (1 + p_length props, vbi (nat (p_length props)) @ list_bytes (prop_list props))"
proof -
  from assms have inv: "props_inv props" and ok: "\<forall>p\<in>set (prop_list props). prop_ok p"
    and len: "p_length props = int (length (list_bytes (prop_list props)))"
    by (simp_all add: props_ok_def)
  from write_loop_ok [OF ok, of 1 1] obtain rc where "0 \<le> rc" "write_loop (prop_list props) 1 1 =
      Inr (rc, 1 + p_length props, list_bytes (prop_list props))"
    by (auto simp: len list_bytes_def)
  moreover have "size_t_of (p_length props) = nat (p_length props)"
    using assms(2) len by (simp add: size_t_of_def)
  ultimately show ?thesis by (simp add: MQTTProperties_write_def entries_inv [OF inv])
qed

lemma MQTTProperties_len_ok:
  assumes "props_ok props" "p_length props < 268435456"
  shows "MQTTProperties_len (Some props) =
    int (length (vbi (nat (p_length props)) @ list_bytes (prop_list props)))"
proof -
  have len: "p_length props = int (length (list_bytes (prop_list props)))"
    using assms(1) by (simp add: props_ok_def)
  with assms(2) vbi_length_VBIlen [of "nat (p_length props)"]
  show ?thesis by (simp add: MQTTProperties_len_def)
qed

lemma array_store_end [simp]: "array_store arr (length arr) x = arr @ [x]"
  by (simp add: array_store_def)

lemma read_grow_ok:
  assumes "heap_total H" "props_inv props"
  shows "p_array (read_grow H props) = Some (prop_list props) \<and>
    p_count (read_grow H props) = p_count props \<and> p_length (read_grow H props) = p_length props \<and>
    p_count props < p_max_count (read_grow H props) \<and> 10 \<le> p_max_count (read_grow H props)"
  using assms by (auto simp: read_grow_def props_inv_def prop_list_def Let_def split: option.splits)

lemma read_grow_inv:
  assumes "props_inv props" "p_array (read_grow H props) = Some arr"
  shows "arr = prop_list props \<and> p_count (read_grow H props) = int (length arr) \<and>
    p_length (read_grow H props) = p_length props \<and>
    p_count props < p_max_count (read_grow H props) \<and> 10 \<le> p_max_count (read_grow H props)"
  using assms by (auto simp: read_grow_def props_inv_def prop_list_def Let_def split: option.splits if_splits)

text \<open>One round of the reading loop.\<close>

lemma read_loop_0 [simp]: "read_loop H buf e props 0 p = Inr (False, props, 0, p)"
  by (subst read_loop.simps) simp

definition read_store :: "heap \<Rightarrow> MQTTProperties \<Rightarrow> MQTTProperty \<Rightarrow> MQTTProperties" where
  "read_store H props pr = (read_grow H props)
     \<lparr>p_array := Some (array_store (prop_list (read_grow H props)) (nat (p_count (read_grow H props))) pr),
      p_count := p_count (read_grow H props) + 1\<rparr>"

lemma read_loop_step:
  assumes "remlength \<noteq> 0" "p_array (read_grow H props) \<noteq> None"
    and "MQTTProperty_read H buf p e = Inr (proplen, Some pr, p')" "0 < proplen"
  shows "read_loop H buf e props remlength p =
    read_loop H buf e (read_store H props pr) (remlength - word_of_int proplen) p'"
  using assms by (subst read_loop.simps) (auto simp: Let_def read_store_def prop_list_def)

lemma read_store_inv:
  assumes "props_inv props" "p_array (read_grow H props) \<noteq> None"
  shows "props_inv (read_store H props pr) \<and> prop_list (read_store H props pr) = prop_list props @ [pr]
    \<and> p_length (read_store H props pr) = p_length props"
proof -
  from assms(2) obtain arr where arr: "p_array (read_grow H props) = Some arr" by auto
  from read_grow_inv [OF assms(1) arr] props_inv_count [OF assms(1)] show ?thesis
    by (auto simp: read_store_def props_inv_def prop_list_def arr)
qed

lemma read_loop_ok:
  assumes "heap_total H" "props_inv props" "\<forall>p\<in>set ps. prop_ok p" "length (list_bytes ps) < 2 ^ 32"
  shows "\<exists>props'. read_loop H (pre @ list_bytes ps @ post) (length (pre @ list_bytes ps @ post)) props
      (word_of_nat (length (list_bytes ps))) (length pre) =
      Inr (False, props', 0, length pre + length (list_bytes ps)) \<and>
    props_inv props' \<and> prop_list props' = prop_list props @ ps \<and> p_length props' = p_length props"
  using assms(2-)
proof (induction ps arbitrary: pre props)
  case Nil
  then show ?case by simp
next
  case (Cons p ps)
  let ?buf = "pre @ list_bytes (p # ps) @ post"
  let ?n = "length (list_bytes (p # ps))"
  have ok: "prop_ok p" and oks: "\<forall>p\<in>set ps. prop_ok p" and len: "length (list_bytes ps) < 2 ^ 32"
    using Cons.prems by simp_all
  have pos: "0 < length (prop_bytes p)" by (simp add: prop_bytes_def)
  have "?n \<noteq> 0" using pos by simp
  then have rem: "(word_of_nat ?n :: 32 word) \<noteq> 0"
    using unat_word32_of_nat [OF Cons.prems(3)] unat_0 by metis
  have arr: "p_array (read_grow H props) \<noteq> None"
    using read_grow_ok [OF assms(1) Cons.prems(1)] by simp
  have rd: "MQTTProperty_read H ?buf (length pre) (length ?buf) =
      Inr (int (length (prop_bytes p)), Some p, length (pre @ prop_bytes p))"
    using MQTTProperty_read_ok [OF assms(1) ok, of pre "list_bytes ps @ post"] by simp
  have sub: "word_of_nat ?n - word_of_int (int (length (prop_bytes p))) =
      (word_of_nat (length (list_bytes ps)) :: 32 word)" by simp
  have buf: "?buf = (pre @ prop_bytes p) @ list_bytes ps @ post" by simp
  from Cons.IH [of "read_store H props p" "pre @ prop_bytes p"] read_store_inv [OF Cons.prems(1) arr] oks len
  obtain props' where "read_loop H ?buf (length ?buf) (read_store H props p)
      (word_of_nat (length (list_bytes ps))) (length (pre @ prop_bytes p)) =
      Inr (False, props', 0, length (pre @ prop_bytes p) + length (list_bytes ps))"
    "props_inv props'" "prop_list props' = prop_list props @ p # ps" "p_length props' = p_length props"
    unfolding buf by auto
  moreover have "read_loop H ?buf (length ?buf) props (word_of_nat ?n) (length pre) =
      read_loop H ?buf (length ?buf) (read_store H props p)
        (word_of_nat (length (list_bytes ps))) (length (pre @ prop_bytes p))"
    using read_loop_step [OF rem arr rd] pos unfolding sub by simp
  ultimately show ?case by simp
qed

text \<open>Serialising a list and reading the bytes back gives the same list.\<close>

lemma MQTTProperties_read_ok:
  assumes "heap_total H" "props_ok props" "p_length props < 268435456"
  defines "bs \<equiv> vbi (nat (p_length props)) @ list_bytes (prop_list props)"
  shows "\<exists>props'. MQTTProperties_read H MQTTProperties_initializer (pre @ bs @ post) (length pre)
      (length (pre @ bs @ post)) = Inr (1, props', length pre + length bs) \<and>
    props_ok props' \<and> prop_list props' = prop_list props"
proof -
  let ?ps = "prop_list props"
  let ?n = "length (list_bytes ?ps)"
  let ?i = "MQTTProperties_initializer\<lparr>p_length := int ?n\<rparr>"
  have len: "p_length props = int ?n" and oks: "\<forall>p\<in>set ?ps. prop_ok p"
    using assms(2) by (simp_all add: props_ok_def)
  with assms(3) have n: "?n < 268435456" by simp
  have dec: "MQTTPacket_decodeBuf (pre @ bs @ post) (length pre) = Inr (length (vbi ?n), word_of_nat ?n)"
    using MQTTPacket_decodeBuf_vbi [OF n, of pre "list_bytes ?ps @ post"] by (simp add: bs_def len)
  have sint: "sint (word_of_nat ?n :: 32 word) = int ?n"
    using n by (simp add: signed_of_nat signed_take_bit_int_eq_self)
  have "props_inv ?i" by (simp add: props_inv_def MQTTProperties_initializer_def)
  from read_loop_ok [OF assms(1) this oks, of "pre @ vbi ?n" post] n
  obtain props' where loop: "read_loop H (pre @ bs @ post) (length (pre @ bs @ post)) ?i (word_of_nat ?n)
      (length pre + length (vbi ?n)) = Inr (False, props', 0, length pre + length bs)"
    and p: "props_inv props'" "prop_list props' = prop_list ?i @ ?ps" "p_length props' = int ?n"
    by (auto simp: bs_def len add.assoc)
  have "prop_list ?i = []" by (simp add: prop_list_def MQTTProperties_initializer_def)
  with p oks have "props_ok props'" "prop_list props' = ?ps" by (simp_all add: props_ok_def)
  moreover have "bs \<noteq> []" by (simp add: bs_def)
  then have "0 < int (length bs) + int (length post)" by (simp add: add_pos_nonneg)
  ultimately show ?thesis
    using loop by (simp add: MQTTProperties_read_def dec sint)
qed

subsection \<open>What a successful read has consumed\<close>

text \<open>
  The loop ends with \<open>remlength\<close> 0 only by subtracting the lengths of the properties it read,
  modulo \<open>2 ^ 32\<close>; the list it built extends the old one and keeps the invariant.
\<close>

lemma read_loop_accounts:
  assumes "read_loop H buf e props remlength p = Inr (no_mem, props', rem', p')" "props_inv props"
  shows "p \<le> p' \<and> (\<not> no_mem \<longrightarrow> props_inv props' \<and> p_length props' = p_length props \<and>
     (\<exists>qs. prop_list props' = prop_list props @ qs) \<and>
     (rem' = 0 \<longrightarrow> word_of_nat (p' - p) = remlength))"
  using assms
proof (induction H buf e props remlength p rule: read_loop.induct)
  case (1 H buf e props remlength p)
  show ?case
  proof (cases "remlength = 0")
    case True
    with "1.prems" show ?thesis by simp
  next
    case rem: False
    show ?thesis
    proof (cases "p_array (read_grow H props)")
      case None
      with "1.prems"(1) rem show ?thesis by (subst (asm) read_loop.simps) (simp add: Let_def)
    next
      case (Some arr)
      then have grow: "p_array (read_grow H props) \<noteq> None" by simp
      note g = read_grow_inv [OF "1.prems"(2) Some]
      have inv1: "props_inv (read_grow H props)" "prop_list (read_grow H props) = prop_list props"
        using g props_inv_count [OF "1.prems"(2)] by (auto simp: props_inv_def prop_list_def Some)
      from "1.prems"(1) rem Some obtain rc pr p1 where rd: "MQTTProperty_read H buf p e = Inr (rc, pr, p1)"
        by (subst (asm) read_loop.simps) (auto simp: Let_def ub_bind_Inr_iff)
      note rdp = MQTTProperty_read_Inr [OF rd]
      show ?thesis
      proof (cases pr)
        case None
        with "1.prems"(1) rem Some rd rdp have "no_mem = False" "props' = read_grow H props" "rem' = remlength" "p' = p1"
          by (subst (asm) read_loop.simps; simp add: Let_def)+
        with inv1 g rem rdp show ?thesis by simp
      next
        case pr: (Some pp)
        with rdp have rc: "0 < rc" "p1 = p + nat rc" by auto
        have "read_loop H buf e (read_store H props pp) (remlength - word_of_int rc) p1 =
            Inr (no_mem, props', rem', p')"
          using "1.prems"(1) read_loop_step [OF rem grow rd [unfolded pr] rc(1)] by simp
        note loop = this
        have eq: "(read_grow H props)\<lparr>p_array := Some (array_store arr (nat (p_count (read_grow H props))) pp),
            p_count := p_count (read_grow H props) + 1\<rparr> = read_store H props pp"
          by (simp add: read_store_def prop_list_def Some)
        note st = read_store_inv [OF "1.prems"(2) grow, of pp]
        note IH = "1.IH" [OF rem refl Some rd refl refl pr rc(1), unfolded eq, OF loop]
        from IH st have le: "p1 \<le> p'" by blast
        have "word_of_nat (p' - p) = (word_of_nat (p' - p1) + word_of_int rc :: 32 word)" 
        proof -
          have "p' - p = (p' - p1) + nat rc" using le rc by simp
          then show ?thesis using rc(1) by (simp only: of_nat_add) simp
        qed
        moreover from IH st have "\<not> no_mem \<longrightarrow> rem' = 0 \<longrightarrow> word_of_nat (p' - p1) = remlength - word_of_int rc"
          by blast
        ultimately have "\<not> no_mem \<longrightarrow> rem' = 0 \<longrightarrow> word_of_nat (p' - p) = remlength" by auto
        moreover from IH st have "\<not> no_mem \<longrightarrow> props_inv props' \<and> p_length props' = p_length props \<and>
            (\<exists>qs. prop_list props' = prop_list props @ qs)" by (metis append_assoc)
        moreover have "p \<le> p'" using le rc by simp
        ultimately show ?thesis by blast
      qed
    qed
  qed
qed

lemma MQTTLenStringRead_end:
  assumes "MQTTLenStringRead buf p e = Inr (len, s, p')"
  shows "p' \<le> max (length buf) (max p e)"
proof (cases "int e - int p > 1")
  case True
  with assms obtain n p1 where r: "readInt buf p = Inr (n, p1)" "p' = p1 \<or> p' \<le> e"
    by (auto simp: MQTTLenStringRead_def ub_bind_Inr_iff split: if_splits)
  with readInt_Inr [OF r(1)] show ?thesis by auto
next
  case False
  with assms show ?thesis by (simp add: MQTTLenStringRead_def)
qed

lemma read_dup_end:
  assumes "read_dup H buf p e = Inr (len, s, p')"
  shows "p' \<le> max (length buf) (max p e)"
proof -
  from assms obtain len1 s1 where "MQTTLenStringRead buf p e = Inr (len1, s1, p')"
    by (auto simp: read_dup_def ub_bind_Inr_iff split: if_splits option.splits)
  then show ?thesis by (rule MQTTLenStringRead_end)
qed

lemma read_value_end:
  assumes "read_value H buf e type p = Inr (len, v, p')" "p \<le> length buf"
  shows "p' \<le> max (length buf + 5) e"
proof (cases type)
  case MQTTPROPERTY_TYPE_UTF_8_STRING_PAIR
  with assms(1) obtain len1 d p1 where 1: "read_dup H buf p e = Inr (len1, d, p1)"
    and 2: "p' = p1 \<or> (\<exists>len2 v2. read_dup H buf p1 e = Inr (len2, v2, p'))"
    by (auto simp: read_value_def ub_bind_Inr_iff split: option.splits)
  from read_dup_end [OF 1] assms(2) have "p1 \<le> max (length buf) e" by simp
  with 2 show ?thesis by (auto dest!: read_dup_end)
next
  case MQTTPROPERTY_TYPE_VARIABLE_BYTE_INTEGER
  with assms show ?thesis by (auto simp: read_value_def ub_bind_Inr_iff dest!: decodeBuf_len)
qed (use assms in \<open>auto simp: read_value_def ub_bind_Inr_iff
       dest!: read_dup_end readChar_Inr readInt_Inr readInt4_Inr\<close>)

lemma MQTTProperty_read_end:
  assumes "MQTTProperty_read H buf p e = Inr (rc, pr, p')"
  shows "p' \<le> max (length buf + 5) e"
proof -
  from assms obtain c p1 where c: "readChar buf p = Inr (c, p1)"
    by (auto simp: MQTTProperty_read_def ub_bind_Inr_iff)
  then have p1: "p1 \<le> length buf" by (auto dest: readChar_Inr)
  show ?thesis
  proof (cases "MQTTProperty_getType (uint c)")
    case None
    with assms c p1 show ?thesis by (simp add: MQTTProperty_read_def)
  next
    case (Some t)
    with assms c obtain len v where "read_value H buf e t p1 = Inr (len, v, p')"
      by (auto simp: MQTTProperty_read_def ub_bind_Inr_iff)
    from read_value_end [OF this p1] show ?thesis .
  qed
qed

lemma read_loop_end:
  assumes "read_loop H buf e props remlength p = Inr (no_mem, props', rem', p')" "p \<le> max (length buf + 5) e"
  shows "p' \<le> max (length buf + 5) e"
  using assms
proof (induction H buf e props remlength p rule: read_loop.induct)
  case (1 H buf e props remlength p)
  consider (zero) "remlength = 0" | (null) "remlength \<noteq> 0" "p_array (read_grow H props) = None"
    | (read) "remlength \<noteq> 0" "p_array (read_grow H props) \<noteq> None" by blast
  then show ?case
  proof cases
    case read
    then obtain arr where arr: "p_array (read_grow H props) = Some arr" by auto
    from "1.prems"(1) read arr obtain rc pr p1 where rd: "MQTTProperty_read H buf p e = Inr (rc, pr, p1)"
      by (subst (asm) read_loop.simps) (auto simp: Let_def ub_bind_Inr_iff)
    then have p1: "p1 \<le> max (length buf + 5) e" by (rule MQTTProperty_read_end)
    show ?thesis
    proof (cases "pr = None \<or> rc \<le> 0")
      case True
      with "1.prems"(1) read arr rd have "p' = p1"
        by (subst (asm) read_loop.simps) (auto simp: Let_def split: option.splits if_splits)
      with p1 show ?thesis by simp
    next
      case False
      then obtain pp where pr: "pr = Some pp" and rc: "rc > 0" by auto
      have eq: "(read_grow H props)\<lparr>p_array := Some (array_store arr (nat (p_count (read_grow H props))) pp),
          p_count := p_count (read_grow H props) + 1\<rparr> = read_store H props pp"
        by (simp add: read_store_def prop_list_def arr)
      from "1.prems"(1) read_loop_step [OF read rd [unfolded pr] rc]
      have loop: "read_loop H buf e (read_store H props pp) (remlength - word_of_int rc) p1 =
        Inr (no_mem, props', rem', p')" by simp
      from "1.IH" [OF read(1) refl arr rd refl refl pr rc, unfolded eq, OF loop p1] show ?thesis .
    qed
  next
    case zero
    with "1.prems" show ?thesis by simp
  next
    case null
    with "1.prems"(1) have "p' = p" by (subst (asm) read_loop.simps) (simp add: Let_def)
    with "1.prems"(2) show ?thesis by simp
  qed
qed

lemma MQTTProperties_read_1:
  assumes "MQTTProperties_read H MQTTProperties_initializer buf p e = Inr (1, props, p')"
    and "length buf < 2 ^ 31" "e \<le> length buf"
  shows "\<exists>len rem. MQTTPacket_decodeBuf buf p = Inr (len, rem) \<and> p' = p + len + unat rem \<and>
    props_inv props \<and> p_length props = sint rem"
proof -
  have pe: "PAHO_MEMORY_ERROR \<noteq> 1" by (simp add: PAHO_MEMORY_ERROR_def)
  from assms(1) obtain len rem where pos: "int e - int p > 0"
    and dec: "MQTTPacket_decodeBuf buf p = Inr (len, rem)"
    and loop: "read_loop H buf e (MQTTProperties_initializer\<lparr>p_length := sint rem\<rparr>) rem (p + len) =
      Inr (False, props, 0, p')"
    by (auto simp: MQTTProperties_read_def ub_bind_Inr_iff pe split: if_splits)
  have inv: "props_inv (MQTTProperties_initializer\<lparr>p_length := sint rem\<rparr>)"
    by (simp add: props_inv_def MQTTProperties_initializer_def)
  from read_loop_accounts [OF loop inv] have acc: "p + len \<le> p'" "props_inv props"
    "p_length props = sint rem" "word_of_nat (p' - (p + len)) = rem" by simp_all
  from decodeBuf_len [OF dec] pos assms(3) have "p + len \<le> max (length buf + 5) e" by simp
  from read_loop_end [OF loop this] assms(2,3) have "p' - (p + len) < 2 ^ 32" by simp
  with acc have "unat rem = p' - (p + len)" using unat_word32_of_nat by metis
  with acc dec show ?thesis by auto
qed

subsection \<open>Adding and copying\<close>

lemma dup_into_ok: "heap_total H \<Longrightarrow> lenstring_ok d \<Longrightarrow> dup_into H d = Inr d"
  by (simp add: dup_into_def datadup_ok)

lemma add_value_ok:
  assumes "heap_total H" "value_ok type v"
  shows "add_value H type v = Inr (int (length (value_bytes type v)), v)"
  using assms(2)
proof (cases rule: value_okE)
  case (vbi w)
  moreover from vbi(3) have "sint w = int (unat w)" by (intro sint_word32_small) simp
  ultimately show ?thesis
    using vbi_length_VBIlen [of "unat w"] by (simp add: add_value_def value_bytes_def member_defs)
next
  case (data d)
  then show ?thesis using assms(1)
    by (auto simp: add_value_def value_bytes_def member_defs dup_into_ok length_lenstring_bytes)
next
  case (pair d w)
  then show ?thesis using assms(1)
    by (simp add: add_value_def value_bytes_def member_defs dup_into_ok length_lenstring_bytes)
qed (simp_all add: add_value_def value_bytes_def member_defs)

lemma add_grow_ok:
  assumes "heap_total H" "props_inv props"
  shows "p_array (add_grow H props) = Some (prop_list props) \<and>
    p_count (add_grow H props) = p_count props \<and> p_length (add_grow H props) = p_length props \<and>
    p_count props < p_max_count (add_grow H props) \<and> 10 \<le> p_max_count (add_grow H props)"
  using assms by (auto simp: add_grow_def props_inv_def prop_list_def Let_def split: option.splits)

lemma MQTTProperties_add_ok:
  assumes "heap_total H" "props_ok props" "prop_ok p"
  shows "\<exists>props'. MQTTProperties_add H props p = Inr (0, props') \<and> props_ok props' \<and>
    prop_list props' = prop_list props @ [p] \<and>
    p_length props' = p_length props + int (length (prop_bytes p))"
proof -
  from assms(3) obtain type where t: "MQTTProperty_getType (prop_id p) = Some type"
    and v: "value_ok type (prop_value p)" by (auto simp: prop_ok_def split: option.splits)
  have inv: "props_inv props" using assms(2) by (simp add: props_ok_def)
  note g = add_grow_ok [OF assms(1) inv]
  have cnt: "nat (p_count props) = length (prop_list props)" using props_inv_count [OF inv] by simp
  let ?p' = "(add_grow H props)\<lparr>p_array := Some (prop_list props @ [p]), p_count := p_count props + 1,
       p_length := p_length props + int (length (prop_bytes p))\<rparr>"
  have "MQTTProperties_add H props p = Inr (0, ?p')"
    using t g cnt add_value_ok [OF assms(1) v]
    by (simp add: MQTTProperties_add_def Let_def prop_bytes_def)
  moreover have "prop_list ?p' = prop_list props @ [p]" by (simp add: prop_list_def)
  moreover have "props_inv ?p'"
    using g props_inv_count [OF inv] inv by (auto simp: props_inv_def)
  ultimately show ?thesis using assms(2,3) by (auto simp: props_ok_def list_bytes_def)
qed

lemma MQTTProperties_add_unknown:
  "MQTTProperty_getType (prop_id p) = None \<Longrightarrow>
   MQTTProperties_add H props p = Inr (MQTT_INVALID_PROPERTY_ID, props)"
  by (simp add: MQTTProperties_add_def)

lemma copy_loop_ok:
  assumes "heap_total H" "props_ok props" "\<forall>p\<in>set ps. prop_ok p"
  shows "\<exists>props'. copy_loop H ps props = Inr props' \<and> props_ok props' \<and>
    prop_list props' = prop_list props @ ps"
  using assms(2,3)
proof (induction ps arbitrary: props)
  case Nil
  then show ?case by simp
next
  case (Cons p ps)
  then obtain props1 where "MQTTProperties_add H props p = Inr (0, props1)" "props_ok props1"
    "prop_list props1 = prop_list props @ [p]"
    using MQTTProperties_add_ok [OF assms(1), of props p] by auto
  with Cons.IH [of props1] Cons.prems show ?case by auto
qed

lemma MQTTProperties_copy_ok:
  assumes "heap_total H" "props_ok props"
  shows "\<exists>props'. MQTTProperties_copy H props = Inr props' \<and> props_ok props' \<and>
    prop_list props' = prop_list props"
  using copy_loop_ok [OF assms(1) props_ok_init, of "prop_list props"] assms(2)
  by (auto simp: MQTTProperties_copy_def props_ok_def entries_inv)

subsection \<open>The queries\<close>

definition matches :: "MQTTProperties \<Rightarrow> int \<Rightarrow> MQTTProperty list" where
  "matches props propid = filter (\<lambda>p. prop_id p = propid) (prop_list props)"

lemma has_loop_iff: "has_loop ps i \<longleftrightarrow> filter (\<lambda>p. prop_id p = i) ps \<noteq> []"
  by (induction ps) (auto simp: filter_empty_conv)

lemma count_loop_eq: "count_loop ps i n = n + int (length (filter (\<lambda>p. prop_id p = i) ps))"
  by (induction ps arbitrary: n) auto

lemma property_loop_eq:
  "property_loop ps i index cur =
     (let m = filter (\<lambda>p. prop_id p = i) ps in
      if cur \<le> index \<and> index - cur < int (length m) then Some (m ! nat (index - cur)) else None)"
proof (induction ps arbitrary: cur)
  case (Cons p ps)
  show ?case
  proof (cases "prop_id p = i \<and> cur < index")
    case True
    then have "nat (index - cur) = Suc (nat (index - (cur + 1)))"
      by (subst Suc_nat_eq_nat_zadd1) simp_all
    with True Cons.IH [of "cur + 1"] show ?thesis by (simp add: Let_def)
  next
    case False
    with Cons.IH [of cur] Cons.IH [of "cur + 1"] show ?thesis by (auto simp: Let_def)
  qed
qed simp

lemma numeric_loop_eq:
  "numeric_loop ps i index cur =
     (let m = filter (\<lambda>p. prop_id p = i) ps; k = max 0 (index - cur) in
      if k < int (length m) then numeric_value (m ! nat k) else Inr (-9999999))"
proof (induction ps arbitrary: cur)
  case (Cons p ps)
  show ?case
  proof (cases "prop_id p = i \<and> cur < index")
    case True
    then have "nat (index - cur) = Suc (nat (index - (cur + 1)))"
      by (subst Suc_nat_eq_nat_zadd1) simp_all
    with True Cons.IH [of "cur + 1"] show ?thesis by (simp add: Let_def)
  next
    case False
    with Cons.IH [of cur] show ?thesis by (auto simp: Let_def)
  qed
qed simp

subsection \<open>Claims\<close>

text \<open>
  C22: Serialising a property list and parsing the bytes gives the same list. For every
  well-formed list whose length fits a variable byte integer, \<^verbatim>\<open>MQTTProperties_write\<close> produces
  bytes that \<^verbatim>\<open>MQTTProperties_read\<close>, placed anywhere in a buffer, reads back with result 1,
  consuming exactly those bytes and yielding a well-formed list with the same entries.
\<close>

theorem properties_roundtrip:
  assumes "heap_total H" "props_ok props" "p_length props < 268435456"
    and "MQTTProperties_write (Some props) = Inr (rc, bs)"
  shows "\<exists>props'. MQTTProperties_read H MQTTProperties_initializer (pre @ bs @ post) (length pre)
      (length (pre @ bs @ post)) = Inr (1, props', length pre + length bs) \<and>
    props_ok props' \<and> prop_list props' = prop_list props"
  using assms(4) MQTTProperties_read_ok [OF assms(1-3), of pre post]
    MQTTProperties_write_ok [OF assms(2,3)] by simp

definition sample_props :: MQTTProperties where
  "sample_props = \<lparr>p_count = 2, p_max_count = 10, p_length = 12,
     p_array = Some [\<lparr>prop_id = 17, prop_value = PInteger4 3600\<rparr>,
       \<lparr>prop_id = 38, prop_value = PPair \<lparr>ls_len = 1, ls_data = [107]\<rparr> \<lparr>ls_len = 1, ls_data = [118]\<rparr>\<rparr>]\<rparr>"

lemma sample_props_ok: "props_ok sample_props"
  by (simp add: sample_props_def props_ok_def props_inv_def prop_list_def prop_ok_def value_ok_def
      MQTTProperty_getType_def namesToTypes_def lenstring_ok_def prop_bytes_def value_bytes_def
      lenstring_bytes_def)

theorem properties_roundtrip_witness:
  "\<exists>props'. MQTTProperties_read (\<lambda>_. True) MQTTProperties_initializer
      (vbi 12 @ list_bytes (prop_list sample_props)) 0 (length (vbi 12 @ list_bytes (prop_list sample_props)))
      = Inr (1, props', length (vbi 12 @ list_bytes (prop_list sample_props))) \<and>
    props_ok props' \<and> prop_list props' = prop_list sample_props"
proof -
  have l: "p_length sample_props = 12" by (simp add: sample_props_def)
  have w: "MQTTProperties_write (Some sample_props) =
      Inr (13, vbi 12 @ list_bytes (prop_list sample_props))"
    using MQTTProperties_write_ok [OF sample_props_ok] by (simp add: l)
  show ?thesis
    using properties_roundtrip [OF heap_total_top sample_props_ok _ w, of "[]" "[]"] by (simp add: l)
qed

text \<open>
  \<^verbatim>\<open>MQTTProperties_len\<close>, by which every sender sizes its buffer, is exactly the number of
  bytes \<^verbatim>\<open>MQTTProperties_write\<close> stores, for every well-formed list.
\<close>

theorem properties_len_exact:
  assumes "props_ok props" "p_length props < 268435456"
  shows "\<exists>rc bs. MQTTProperties_write (Some props) = Inr (rc, bs) \<and>
    int (length bs) = MQTTProperties_len (Some props)"
  using MQTTProperties_write_ok [OF assms] MQTTProperties_len_ok [OF assms] by simp

theorem properties_len_exact_witness:
  "\<exists>rc bs. MQTTProperties_write (Some sample_props) = Inr (rc, bs) \<and>
    int (length bs) = MQTTProperties_len (Some sample_props)"
  by (rule properties_len_exact [OF sample_props_ok]) (simp add: sample_props_def)

text \<open>
  \<^verbatim>\<open>MQTTProperties_add\<close> on a well-formed list appends exactly the given well-formed property,
  keeps the array invariant (count, capacity, allocation) and adds its serialised size to the
  length; a property whose code is not in the table is refused with -2 and changes nothing.
\<close>

theorem properties_add_contract:
  assumes "heap_total H" "props_ok props"
  shows "if MQTTProperty_getType (prop_id p) = None
    then MQTTProperties_add H props p = Inr (-2, props)
    else \<not> prop_ok p \<or> (\<exists>props'. MQTTProperties_add H props p = Inr (0, props') \<and> props_ok props' \<and>
      prop_list props' = prop_list props @ [p] \<and>
      p_length props' = p_length props + int (length (prop_bytes p)))"
  using MQTTProperties_add_ok [OF assms, of p] MQTTProperties_add_unknown [of p H props]
  by (auto simp: MQTT_INVALID_PROPERTY_ID_def)

theorem properties_add_contract_witness:
  "\<exists>props'. MQTTProperties_add (\<lambda>_. True) sample_props \<lparr>prop_id = 35, prop_value = PInteger2 7\<rparr> =
      Inr (0, props') \<and> props_ok props' \<and> p_length props' = 15"
proof -
  let ?p = "\<lparr>prop_id = 35, prop_value = PInteger2 7\<rparr>"
  have "prop_ok ?p" "MQTTProperty_getType (prop_id ?p) \<noteq> None" "length (prop_bytes ?p) = 3"
    by (simp_all add: prop_ok_def MQTTProperty_getType_def namesToTypes_def value_ok_def
        prop_bytes_def value_bytes_def)
  with properties_add_contract [OF heap_total_top sample_props_ok, of ?p] show ?thesis
    by (auto simp: sample_props_def)
qed

text \<open>
  \<^verbatim>\<open>MQTTProperties_copy\<close> yields a well-formed list with the same entries in the same order.
\<close>

theorem properties_copy_same:
  assumes "heap_total H" "props_ok props"
  shows "\<exists>props'. MQTTProperties_copy H props = Inr props' \<and> props_ok props' \<and>
    prop_list props' = prop_list props \<and> p_length props' = p_length props"
  using MQTTProperties_copy_ok [OF assms] assms(2) by (auto simp: props_ok_def)

theorem properties_copy_same_witness:
  "\<exists>props'. MQTTProperties_copy (\<lambda>_. True) sample_props = Inr props' \<and> props_ok props' \<and>
    prop_list props' = prop_list sample_props \<and> p_length props' = 12"
  using properties_copy_same [OF heap_total_top sample_props_ok] by (simp add: sample_props_def)

text \<open>
  C34: When \<^verbatim>\<open>MQTTProperties_read\<close> reports success on a received buffer, however malformed, it has
  consumed exactly the declared number of bytes after the length field (the unsigned remaining
  length never wrapped round), and the list it built satisfies the array invariant.
\<close>

theorem properties_read_exact:
  assumes "MQTTProperties_read H MQTTProperties_initializer buf p e = Inr (1, props, p')"
    and "length buf < 2 ^ 31" "e \<le> length buf"
  shows "\<exists>len rem. MQTTPacket_decodeBuf buf p = Inr (len, rem) \<and> p' = p + len + unat rem \<and>
    props_inv props \<and> p_length props = sint rem"
  using assms by (rule MQTTProperties_read_1)

theorem properties_read_exact_witness:
  "\<exists>props p'. MQTTProperties_read (\<lambda>_. True) MQTTProperties_initializer
      (vbi 12 @ list_bytes (prop_list sample_props)) 0 13 = Inr (1, props, p') \<and>
    p' = 13 \<and> props_inv props \<and> p_length props = 12"
proof -
  let ?buf = "vbi 12 @ list_bytes (prop_list sample_props)"
  have v: "length (vbi 12) = 1" by (subst vbi_unfold) simp
  have p: "p_length sample_props = 12" by (simp add: sample_props_def)
  then have l: "length ?buf = 13" using sample_props_ok by (simp add: v props_ok_def)
  from MQTTProperties_read_ok [OF heap_total_top sample_props_ok, of "[]" "[]"]
  obtain props p' where r: "MQTTProperties_read (\<lambda>_. True) MQTTProperties_initializer ?buf 0 13 = Inr (1, props, p')"
    using l by (auto simp: p)
  have "MQTTPacket_decodeBuf ?buf 0 = Inr (1, 12)"
    using MQTTPacket_decodeBuf_vbi [of 12 "[]"] v by simp
  with properties_read_exact [OF r] r l show ?thesis by auto
qed

text \<open>
  The numeric query returns the value of the property's occurrence number \<open>index\<close> (a negative
  index is 0), and -9999999 exactly when there is no such occurrence; the property count is
  the number of occurrences and the presence query is true when it is not 0.
\<close>

theorem properties_queries:
  assumes "props_inv props"
  shows "MQTTProperties_getNumericValueAt props i index =
      (if max 0 index < int (length (matches props i))
       then numeric_value (matches props i ! nat (max 0 index)) else Inr (-9999999)) \<and>
    MQTTProperties_propertyCount props i = Inr (int (length (matches props i))) \<and>
    MQTTProperties_hasProperty props i = Inr (matches props i \<noteq> []) \<and>
    MQTTProperties_getPropertyAt props i index =
      Inr (if 0 \<le> index \<and> index < int (length (matches props i))
           then Some (matches props i ! nat index) else None)"
  by (simp add: MQTTProperties_getNumericValueAt_def MQTTProperties_propertyCount_def
      MQTTProperties_hasProperty_def MQTTProperties_getPropertyAt_def entries_inv [OF assms]
      matches_def has_loop_iff count_loop_eq property_loop_eq numeric_loop_eq Let_def)

theorem properties_queries_witness:
  "MQTTProperties_getNumericValueAt sample_props 17 0 = Inr 3600 \<and>
   MQTTProperties_propertyCount sample_props 17 = Inr 1"
proof -
  have inv: "props_inv sample_props" using sample_props_ok by (simp add: props_ok_def)
  have m: "matches sample_props 17 = [\<lparr>prop_id = 17, prop_value = PInteger4 3600\<rparr>]"
    by (simp add: matches_def sample_props_def prop_list_def)
  have n: "numeric_value \<lparr>prop_id = 17, prop_value = PInteger4 3600\<rparr> = Inr 3600"
    by (simp add: numeric_value_def MQTTProperty_getType_def namesToTypes_def get_integer4_def)
  show ?thesis using properties_queries [OF inv, of 17 0] by (simp add: m n)
qed

text \<open>
  The integer readers of \<^verbatim>\<open>MQTTProperty_read\<close> do not look at \<open>enddata\<close>: a list that ends
  inside a four-byte property makes the parser read past the end of the packet, whatever its
  declared length, instead of reporting a malformed packet.
\<close>

theorem properties_truncated_overread:
  assumes "length rest < 4" "0 < n" "n < 128"
  shows "MQTTProperties_read (\<lambda>_. True) MQTTProperties_initializer
    (word_of_nat n # 17 # rest) 0 (length (word_of_nat n # 17 # rest)) = Inl OverRead"
proof -
  let ?buf = "word_of_nat n # 17 # rest"
  have v: "vbi n = [word_of_nat n]" using assms(3) by (subst vbi_unfold) simp
  have dec: "MQTTPacket_decodeBuf ?buf 0 = Inr (1, word_of_nat n)"
    using MQTTPacket_decodeBuf_vbi [of n "[]" "17 # rest"] assms(3) by (simp add: v)
  have "unat (word_of_nat n :: 32 word) = n" using assms(3) by (intro unat_word32_of_nat) simp
  then have "(word_of_nat n :: 32 word) \<noteq> 0" using assms(2) unat_0 by (metis less_not_refl)
  moreover have "MQTTProperty_read (\<lambda>_. True) ?buf 1 (length ?buf) = Inl OverRead"
    using assms(1) by (simp add: MQTTProperty_read_def readChar_def MQTTProperty_getType_def
        namesToTypes_def read_value_def readInt4_def)
  ultimately show ?thesis
    by (simp add: MQTTProperties_read_def dec read_loop.simps [of _ _ _ _ "word_of_nat n"]
        MQTTProperties_initializer_def read_grow_def Let_def)
qed

theorem properties_truncated_overread_witness:
  "MQTTProperties_read (\<lambda>_. True) MQTTProperties_initializer [5, 17, 0, 0] 0 4 = Inl OverRead"
  using properties_truncated_overread [of "[0, 0]" 5] by (simp add: numeral_eq_Suc)

end
