(* ===== verification/Packets.thy ===== *)
theory Packets
  imports Properties
begin

section \<open>Received packets: \<^verbatim>\<open>src/include/MQTTPacket.c\<close>, \<^verbatim>\<open>MQTTPacketOut.c\<close>\<close>

text \<open>
  The functions of the table \<^verbatim>\<open>new_packets\<close>: each builds a packet structure from the bytes
  after the fixed header. \<open>data\<close> is the memory at the data pointer, \<open>datalen\<close> the remaining
  length of the packet, the result \<open>None\<close> is NULL. A member the code leaves unset in some
  version is an option, \<open>None\<close> when it is indeterminate. Memory released on the error paths is
  not tracked.
\<close>

subsection \<open>Linked lists\<close>

text \<open>
  \<^verbatim>\<open>LinkedList.c\<close> is not part of the sources. A list is the sequence of the contents of its
  elements, and the functions the code calls are an argument: appending, inserting before an
  element (given by its position; \<open>None\<close>, the index NULL, is the end), finding the position of
  the first content that satisfies a callback, and removing the content at a position.
  \<open>list_lib_ok\<close> is what the code relies on.
\<close>

record 'a list_lib =
  ListAppend :: "'a list \<Rightarrow> 'a \<Rightarrow> 'a list"
  ListInsert :: "'a list \<Rightarrow> 'a \<Rightarrow> nat option \<Rightarrow> 'a list"
  ListFindItem :: "'a list \<Rightarrow> ('a \<Rightarrow> bool) \<Rightarrow> nat option"
  ListRemove :: "'a list \<Rightarrow> nat \<Rightarrow> 'a list"

definition list_lib_ok :: "'a list_lib \<Rightarrow> bool" where
  "list_lib_ok L \<longleftrightarrow>
     (\<forall>xs x. ListAppend L xs x = xs @ [x]) \<and>
     (\<forall>xs x. ListInsert L xs x None = xs @ [x]) \<and>
     (\<forall>xs x i. i < length xs \<longrightarrow> ListInsert L xs x (Some i) = take i xs @ x # drop i xs) \<and>
     (\<forall>xs P. (ListFindItem L xs P = None \<longleftrightarrow> (\<forall>x\<in>set xs. \<not> P x))) \<and>
     (\<forall>xs P i. ListFindItem L xs P = Some i \<longrightarrow> i < length xs \<and> P (xs ! i) \<and> (\<forall>j<i. \<not> P (xs ! j))) \<and>
     (\<forall>xs i. i < length xs \<longrightarrow> ListRemove L xs i = take i xs @ drop (Suc i) xs)"

lemma list_libD:
  assumes "list_lib_ok L"
  shows "ListAppend L xs x = xs @ [x]" "ListInsert L xs x None = xs @ [x]"
    "i < length xs \<Longrightarrow> ListInsert L xs x (Some i) = take i xs @ x # drop i xs"
    "ListFindItem L xs P = None \<longleftrightarrow> (\<forall>x\<in>set xs. \<not> P x)"
    "i < length xs \<Longrightarrow> ListRemove L xs i = take i xs @ drop (Suc i) xs"
  using assms by (simp_all add: list_lib_ok_def)

lemma list_lib_find:
  assumes "list_lib_ok L" "ListFindItem L xs P = Some i"
  shows "i < length xs" "P (xs ! i)" "j < i \<Longrightarrow> \<not> P (xs ! j)"
  using assms unfolding list_lib_ok_def by metis+

text \<open>A list library that behaves so; the one the examples use.\<close>

fun find_index :: "('a \<Rightarrow> bool) \<Rightarrow> 'a list \<Rightarrow> nat option" where
  "find_index P [] = None"
| "find_index P (x # xs) = (if P x then Some 0 else map_option Suc (find_index P xs))"

definition std_lists :: "'a list_lib" where
  "std_lists = \<lparr>ListAppend = \<lambda>xs x. xs @ [x],
     ListInsert = \<lambda>xs x i. (case i of None \<Rightarrow> xs @ [x] | Some i \<Rightarrow> take i xs @ x # drop i xs),
     ListFindItem = \<lambda>xs P. find_index P xs,
     ListRemove = \<lambda>xs i. take i xs @ drop (Suc i) xs\<rparr>"

lemma find_index_None: "find_index P xs = None \<longleftrightarrow> (\<forall>x\<in>set xs. \<not> P x)"
  by (induction xs) auto

lemma find_index_Some:
  "find_index P xs = Some i \<Longrightarrow> i < length xs \<and> P (xs ! i) \<and> (\<forall>j<i. \<not> P (xs ! j))"
proof (induction xs arbitrary: i)
  case (Cons x xs)
  show ?case
  proof (cases "P x")
    case False
    with Cons.prems obtain k where k: "find_index P xs = Some k" "i = Suc k" by auto
    with Cons.IH [OF k(1)] False show ?thesis by (auto simp: less_Suc_eq_0_disj)
  qed (use Cons.prems in auto)
qed simp

lemma std_lists_ok [simp]: "list_lib_ok std_lists"
  by (simp add: list_lib_ok_def std_lists_def find_index_None find_index_Some)

subsection \<open>Packet structures\<close>

record Publish =
  pb_header :: byte
  pb_topic :: "bytes option"
  pb_topiclen :: int
  pb_msgId :: int
  pb_payload :: bytes            \<comment> \<open>the memory at the payload pointer\<close>
  pb_payloadlen :: int
  pb_MQTTVersion :: int
  pb_properties :: MQTTProperties
  pb_mask :: bytes               \<comment> \<open>the four bytes of the websocket mask\<close>

record Ack =
  ak_header :: byte
  ak_msgId :: "int option"
  ak_rc :: "byte option"
  ak_MQTTVersion :: int
  ak_properties :: "MQTTProperties option"

record Connack =
  ca_header :: byte
  ca_flags :: byte
  ca_rc :: byte
  ca_MQTTVersion :: int
  ca_properties :: "MQTTProperties option"

record Suback =
  sa_header :: byte
  sa_msgId :: int
  sa_MQTTVersion :: int
  sa_properties :: "MQTTProperties option"
  sa_qoss :: "nat list"

record Unsuback =
  ua_header :: byte
  ua_msgId :: int
  ua_MQTTVersion :: int
  ua_properties :: "MQTTProperties option"
  ua_reasonCodes :: "nat list option"     \<comment> \<open>\<open>None\<close> is NULL\<close>

datatype packet =
    PkConnack Connack
  | PkPublish Publish
  | PkAck Ack
  | PkSuback Suback
  | PkUnsuback Unsuback
  | PkHeader byte

subsection \<open>Building the packets\<close>

text \<open>Reading the properties of a packet of version 5; \<open>None\<close> when they are malformed.\<close>

definition read_props :: "heap \<Rightarrow> bytes \<Rightarrow> nat \<Rightarrow> nat \<Rightarrow> ub + (MQTTProperties \<times> nat) option" where
  "read_props H data p enddata =
     ub_bind (MQTTProperties_read H MQTTProperties_initializer data p enddata)
       (\<lambda>(rc, props, p'). Inr (if rc = 1 then Some (props, p') else None))"

definition MQTTPacket_connack :: "heap \<Rightarrow> int \<Rightarrow> byte \<Rightarrow> bytes \<Rightarrow> nat \<Rightarrow> ub + Connack option" where
  "MQTTPacket_connack H MQTTVersion aHeader data datalen =
     (if \<not> H (ReqStruct ''Connack'') \<or> datalen < 2 then Inr None
      else ub_bind (readChar data 0) (\<lambda>(flags, p). ub_bind (readChar data p) (\<lambda>(rc, p).
        let pack = \<lparr>ca_header = aHeader, ca_flags = flags, ca_rc = rc, ca_MQTTVersion = MQTTVersion,
              ca_properties = None\<rparr> in
        if MQTTVersion \<ge> MQTTVERSION_5 \<and> datalen > 2
        then ub_bind (read_props H data p datalen) (\<lambda>r. case r of
            None \<Rightarrow> Inr None
          | Some (props, _) \<Rightarrow> Inr (Some (pack\<lparr>ca_properties := Some props\<rparr>)))
        else Inr (Some pack))))"

definition MQTTPacket_header_only :: "byte \<Rightarrow> byte" where
  "MQTTPacket_header_only aHeader = aHeader"

text \<open>
  \<^verbatim>\<open>MQTTPacket_publish\<close>. The payload is what is left of the packet; its length is a
  \<^verbatim>\<open>size_t\<close> difference cast to \<^verbatim>\<open>int\<close>, which is the signed difference for packets below \<open>2 ^ 31\<close>
  bytes.
\<close>

definition MQTTPacket_publish :: "heap \<Rightarrow> int \<Rightarrow> byte \<Rightarrow> bytes \<Rightarrow> nat \<Rightarrow> ub + Publish option" where
  "MQTTPacket_publish H MQTTVersion aHeader data datalen =
     (if \<not> H (ReqStruct ''Publish'') then Inr None
      else ub_bind (readUTFlen H data 0 datalen 0) (\<lambda>(topic, topiclen, p). case topic of
        None \<Rightarrow> Inr None
      | Some t \<Rightarrow>
          if hd_qos aHeader > 0 \<and> int datalen - int p < 2 then Inr None
          else ub_bind (if hd_qos aHeader > 0 then readInt data p else Inr (0, p)) (\<lambda>(msgId, p).
            ub_bind (if MQTTVersion \<ge> MQTTVERSION_5 then read_props H data p datalen
                     else Inr (Some (MQTTProperties_initializer, p)))
              (\<lambda>r. case r of None \<Rightarrow> Inr None
                | Some (props, p) \<Rightarrow> Inr (Some
                    \<lparr>pb_header = aHeader, pb_topic = Some t, pb_topiclen = topiclen, pb_msgId = msgId,
                     pb_payload = drop p data, pb_payloadlen = int datalen - int p,
                     pb_MQTTVersion = MQTTVersion, pb_properties = props, pb_mask = [0, 0, 0, 0]\<rparr>)))))"

definition MQTTPacket_ack :: "heap \<Rightarrow> int \<Rightarrow> byte \<Rightarrow> bytes \<Rightarrow> nat \<Rightarrow> ub + Ack option" where
  "MQTTPacket_ack H MQTTVersion aHeader data datalen =
     (let disc = (hd_type aHeader = DISCONNECT) in
      if \<not> H (ReqStruct ''Ack'') \<or> (\<not> disc \<and> datalen < 2) then Inr None
      else ub_bind (if disc then Inr (None, 0)
                    else ub_bind (readInt data 0) (\<lambda>(m, p). Inr (Some m, p))) (\<lambda>(msgId, p).
        let pack = \<lparr>ak_header = aHeader, ak_msgId = msgId, ak_rc = None, ak_MQTTVersion = MQTTVersion,
              ak_properties = None\<rparr> in
        if MQTTVersion < MQTTVERSION_5 then Inr (Some pack)
        else ub_bind (if datalen > 2 \<or> disc \<and> datalen > 0 then readChar data p else Inr (0, p))
          (\<lambda>(rc, p).
            let pack = pack\<lparr>ak_rc := Some rc, ak_properties := Some MQTTProperties_initializer\<rparr> in
            if datalen > 3 \<or> disc \<and> datalen > 1
            then ub_bind (read_props H data p datalen) (\<lambda>r. case r of None \<Rightarrow> Inr None
              | Some (props, _) \<Rightarrow> Inr (Some (pack\<lparr>ak_properties := Some props\<rparr>)))
            else Inr (Some pack))))"

text \<open>
  The loop of \<^verbatim>\<open>MQTTPacket_suback\<close> and \<^verbatim>\<open>MQTTPacket_unsuback\<close> over the rest of the packet:
  \<open>n\<close> bytes are left; \<open>None\<close> when an allocation fails.
\<close>

fun codes_loop :: "nat list_lib \<Rightarrow> heap \<Rightarrow> bytes \<Rightarrow> nat \<Rightarrow> nat \<Rightarrow> nat list \<Rightarrow> ub + nat list option" where
  "codes_loop L H data p 0 codes = Inr (Some codes)"
| "codes_loop L H data p (Suc n) codes =
     (if \<not> H (ReqStruct ''code'') then Inr None
      else ub_bind (readChar data p) (\<lambda>(c, p'). codes_loop L H data p' n (ListAppend L codes (unat c))))"

text \<open>
  When there are no codes, or no memory, both functions look at \<^verbatim>\<open>pack->properties.array\<close>, which
  \<^verbatim>\<open>MQTTPacket_suback\<close> has not set before version 5.
\<close>

definition check_props :: "MQTTProperties option \<Rightarrow> ub + 'a option" where
  "check_props props = (case props of None \<Rightarrow> Inl UninitRead | Some _ \<Rightarrow> Inr None)"

definition MQTTPacket_suback ::
    "nat list_lib \<Rightarrow> heap \<Rightarrow> int \<Rightarrow> byte \<Rightarrow> bytes \<Rightarrow> nat \<Rightarrow> ub + Suback option" where
  "MQTTPacket_suback L H MQTTVersion aHeader data datalen =
     (if \<not> H (ReqStruct ''Suback'') \<or> datalen < 2 then Inr None
      else ub_bind (readInt data 0) (\<lambda>(msgId, p).
        ub_bind (if MQTTVersion \<ge> MQTTVERSION_5
                 then ub_bind (read_props H data p datalen) (\<lambda>r. Inr (map_option (\<lambda>(ps, p). (Some ps, p)) r))
                 else Inr (Some (None, p)))
          (\<lambda>r. case r of None \<Rightarrow> Inr None
            | Some (props, p) \<Rightarrow> ub_bind (codes_loop L H data p (datalen - p) []) (\<lambda>c. case c of
                None \<Rightarrow> check_props props
              | Some codes \<Rightarrow> if codes = [] then check_props props
                  else Inr (Some \<lparr>sa_header = aHeader, sa_msgId = msgId, sa_MQTTVersion = MQTTVersion,
                    sa_properties = props, sa_qoss = codes\<rparr>)))))"

definition MQTTPacket_unsuback ::
    "nat list_lib \<Rightarrow> heap \<Rightarrow> int \<Rightarrow> byte \<Rightarrow> bytes \<Rightarrow> nat \<Rightarrow> ub + Unsuback option" where
  "MQTTPacket_unsuback L H MQTTVersion aHeader data datalen =
     (if \<not> H (ReqStruct ''Unsuback'') \<or> datalen < 2 then Inr None
      else ub_bind (readInt data 0) (\<lambda>(msgId, p).
        let pack = \<lparr>ua_header = aHeader, ua_msgId = msgId, ua_MQTTVersion = MQTTVersion,
              ua_properties = None, ua_reasonCodes = None\<rparr> in
        if MQTTVersion \<ge> MQTTVERSION_5
        then ub_bind (read_props H data p datalen) (\<lambda>r. case r of None \<Rightarrow> Inr None
          | Some (props, p) \<Rightarrow> ub_bind (codes_loop L H data p (datalen - p) []) (\<lambda>c. case c of
              None \<Rightarrow> check_props (Some props)
            | Some codes \<Rightarrow> if codes = [] then Inr None
                else Inr (Some (pack\<lparr>ua_properties := Some props, ua_reasonCodes := Some codes\<rparr>))))
        else Inr (Some pack)))"

text \<open>The table \<^verbatim>\<open>new_packets\<close>, indexed by the packet type, and the call through it.\<close>

datatype pf = F_connack | F_publish | F_ack | F_suback | F_unsuback | F_header_only

definition new_packets :: "pf option list" where
  "new_packets = [None, None, Some F_connack, Some F_publish, Some F_ack, Some F_ack, Some F_ack,
     Some F_ack, None, Some F_suback, None, Some F_unsuback, Some F_header_only, Some F_header_only,
     Some F_ack, Some F_ack]"

definition call_pf ::
    "pf \<Rightarrow> nat list_lib \<Rightarrow> heap \<Rightarrow> int \<Rightarrow> byte \<Rightarrow> bytes \<Rightarrow> nat \<Rightarrow> ub + packet option" where
  "call_pf f L H MQTTVersion aHeader data datalen =
     (case f of
        F_connack \<Rightarrow> ub_bind (MQTTPacket_connack H MQTTVersion aHeader data datalen)
          (\<lambda>r. Inr (map_option PkConnack r))
      | F_publish \<Rightarrow> ub_bind (MQTTPacket_publish H MQTTVersion aHeader data datalen)
          (\<lambda>r. Inr (map_option PkPublish r))
      | F_ack \<Rightarrow> ub_bind (MQTTPacket_ack H MQTTVersion aHeader data datalen)
          (\<lambda>r. Inr (map_option PkAck r))
      | F_suback \<Rightarrow> ub_bind (MQTTPacket_suback L H MQTTVersion aHeader data datalen)
          (\<lambda>r. Inr (map_option PkSuback r))
      | F_unsuback \<Rightarrow> ub_bind (MQTTPacket_unsuback L H MQTTVersion aHeader data datalen)
          (\<lambda>r. Inr (map_option PkUnsuback r))
      | F_header_only \<Rightarrow> Inr (Some (PkHeader (MQTTPacket_header_only aHeader))))"

subsection \<open>Freeing packets\<close>

text \<open>Each returns the strings of the property list it releases.\<close>

definition free_props :: "int \<Rightarrow> MQTTProperties option \<Rightarrow> ub + bytes list" where
  "free_props version props =
     (if version \<ge> MQTTVERSION_5
      then case props of None \<Rightarrow> Inl UninitRead
        | Some ps \<Rightarrow> ub_bind (MQTTProperties_free (Some ps)) (\<lambda>(fs, _). Inr fs)
      else Inr [])"

definition MQTTPacket_freePublish :: "Publish \<Rightarrow> ub + bytes list" where
  "MQTTPacket_freePublish pack =
     ub_bind (free_props (pb_MQTTVersion pack) (Some (pb_properties pack)))
       (\<lambda>fs. Inr ((case pb_topic pack of None \<Rightarrow> [] | Some t \<Rightarrow> [t]) @ fs))"

definition MQTTPacket_freeAck :: "Ack \<Rightarrow> ub + bytes list" where
  "MQTTPacket_freeAck pack = free_props (ak_MQTTVersion pack) (ak_properties pack)"

definition MQTTPacket_freeConnack :: "Connack \<Rightarrow> ub + bytes list" where
  "MQTTPacket_freeConnack pack = free_props (ca_MQTTVersion pack) (ca_properties pack)"

definition MQTTPacket_freeSuback :: "Suback \<Rightarrow> ub + bytes list" where
  "MQTTPacket_freeSuback pack = free_props (sa_MQTTVersion pack) (sa_properties pack)"

definition MQTTPacket_freeUnsuback :: "Unsuback \<Rightarrow> ub + bytes list" where
  "MQTTPacket_freeUnsuback pack = free_props (ua_MQTTVersion pack) (ua_properties pack)"

text \<open>\<^verbatim>\<open>MQTTPacket_free_packet\<close>: only a PUBLISH has more than the structure released.\<close>

definition MQTTPacket_free_packet :: "packet \<Rightarrow> ub + bytes list" where
  "MQTTPacket_free_packet pack =
     (case pack of PkPublish p \<Rightarrow> MQTTPacket_freePublish p | _ \<Rightarrow> Inr [])"

subsection \<open>What the parsers guarantee\<close>

lemma codes_loop_ok:
  assumes "list_lib_ok L" "H (ReqStruct ''code'')" "p + n \<le> length data"
  shows "codes_loop L H data p n codes = Inr (Some (codes @ map unat (take n (drop p data))))"
  using assms(3)
proof (induction n arbitrary: p codes)
  case (Suc n)
  then have "take (Suc n) (drop p data) = data ! p # take n (drop (Suc p) data)"
    by (simp add: take_Suc_conv_app_nth Cons_nth_drop_Suc [symmetric])
  with Suc assms(2) show ?case by (simp add: readChar_def list_libD [OF assms(1)])
qed simp

lemma codes_loop_safe:
  "p + n \<le> length data \<Longrightarrow> \<exists>r. codes_loop L H data p n codes = Inr r"
  by (induction L H data p n codes rule: codes_loop.induct) (auto simp: readChar_def)

lemma readInt_safe: "p + 1 < length buf \<Longrightarrow> \<exists>n. readInt buf p = Inr (n, p + 2) \<and> 0 \<le> n \<and> n < 65536"
  using readInt_Inr [of buf p] by (auto simp: readInt_def)

lemma MQTTPacket_publish_v3:
  assumes "MQTTVersion < MQTTVERSION_5" "datalen \<le> length data"
  shows "\<exists>r. MQTTPacket_publish H MQTTVersion aHeader data datalen = Inr r \<and>
    (\<forall>pack. r = Some pack \<longrightarrow> (\<exists>t n. pb_topic pack = Some t \<and> pb_topiclen pack = int (length t) \<and>
      t = take (length t) (drop 2 data) \<and> pb_payloadlen pack = int n \<and>
      2 + length t + (if hd_qos aHeader > 0 then 2 else 0) + n = datalen \<and>
      pb_payload pack = drop (datalen - n) data))"
proof (cases "H (ReqStruct ''Publish'')")
  case True
  obtain topic len p where u: "readUTFlen H data 0 datalen 0 = Inr (topic, len, p)"
    using readUTFlen_safe [OF assms(2), of H 0 0] by (cases "readUTFlen H data 0 datalen 0") auto
  show ?thesis
  proof (cases topic)
    case None
    with u True show ?thesis by (simp add: MQTTPacket_publish_def)
  next
    case (Some t)
    from readUTFlen_Some [OF u [unfolded Some] assms(2)]
    have t: "len = int (length t)" "t = take (length t) (drop 2 data)" "p = 2 + length t" "p \<le> datalen"
      by (auto simp: numeral_2_eq_2)
    show ?thesis
    proof (cases "hd_qos aHeader > 0")
      case q: True
      show ?thesis
      proof (cases "int datalen - int p < 2")
        case False
        with assms(2) obtain m where m: "readInt data p = Inr (m, p + 2)"
          using readInt_safe [of p data] by auto
        from False q u Some True assms(1) m t show ?thesis
          by (auto simp: MQTTPacket_publish_def numeral_eq_Suc intro!: exI [of _ "datalen - (p + 2)"])
      qed (use q u Some True in \<open>simp add: MQTTPacket_publish_def\<close>)
    next
      case q: False
      with u Some True assms(1) t show ?thesis
        by (auto simp: MQTTPacket_publish_def intro!: exI [of _ "datalen - p"])
    qed
  qed
qed (simp add: MQTTPacket_publish_def)

lemma MQTTPacket_connack_v3:
  "MQTTVersion < MQTTVERSION_5 \<Longrightarrow> datalen \<le> length data \<Longrightarrow>
    \<exists>r. MQTTPacket_connack H MQTTVersion aHeader data datalen = Inr r"
  by (auto simp: MQTTPacket_connack_def readChar_def Let_def)

lemma MQTTPacket_ack_v3:
  assumes "MQTTVersion < MQTTVERSION_5" "datalen \<le> length data"
  shows "\<exists>r. MQTTPacket_ack H MQTTVersion aHeader data datalen = Inr r"
  using assms by (auto simp: MQTTPacket_ack_def readInt_def Let_def)

lemma MQTTPacket_unsuback_v3:
  "MQTTVersion < MQTTVERSION_5 \<Longrightarrow> datalen \<le> length data \<Longrightarrow>
    \<exists>r. MQTTPacket_unsuback L H MQTTVersion aHeader data datalen = Inr r"
  by (auto simp: MQTTPacket_unsuback_def readInt_def Let_def)

lemma MQTTPacket_suback_v3:
  assumes "list_lib_ok L" "heap_total H" "MQTTVersion < MQTTVERSION_5" "datalen \<le> length data"
  shows "MQTTPacket_suback L H MQTTVersion aHeader data datalen =
    (if datalen < 2 then Inr None else if datalen = 2 then Inl UninitRead
     else Inr (Some \<lparr>sa_header = aHeader, sa_msgId = 256 * uint (data ! 0) + uint (data ! 1),
       sa_MQTTVersion = MQTTVersion, sa_properties = None,
       sa_qoss = map unat (take (datalen - 2) (drop 2 data))\<rparr>))"
proof (cases "datalen < 2")
  case True
  with assms show ?thesis by (simp add: MQTTPacket_suback_def)
next
  case False
  then have "codes_loop L H data 2 (datalen - 2) [] = Inr (Some (map unat (take (datalen - 2) (drop 2 data))))"
    using codes_loop_ok [OF assms(1), of H 2 "datalen - 2" data "[]"] assms(2,4) by simp
  with False assms show ?thesis
    by (simp add: MQTTPacket_suback_def readInt_def check_props_def numeral_2_eq_2)
qed

lemma call_pf_v3:
  assumes "list_lib_ok L" "heap_total H" "MQTTVersion < MQTTVERSION_5" "datalen \<le> length data"
  shows "call_pf f L H MQTTVersion aHeader data datalen = Inl e \<longleftrightarrow>
    f = F_suback \<and> datalen = 2 \<and> e = UninitRead"
proof -
  obtain r1 r2 r3 r4 where r: "MQTTPacket_connack H MQTTVersion aHeader data datalen = Inr r1"
    "MQTTPacket_publish H MQTTVersion aHeader data datalen = Inr r2"
    "MQTTPacket_ack H MQTTVersion aHeader data datalen = Inr r3"
    "MQTTPacket_unsuback L H MQTTVersion aHeader data datalen = Inr r4"
    using MQTTPacket_connack_v3 [OF assms(3,4)] MQTTPacket_publish_v3 [OF assms(3,4)]
      MQTTPacket_ack_v3 [OF assms(3,4)] MQTTPacket_unsuback_v3 [OF assms(3,4)] by metis
  show ?thesis
  proof (cases f)
    case F_suback
    then show ?thesis by (auto simp: call_pf_def MQTTPacket_suback_v3 [OF assms])
  qed (simp_all add: call_pf_def r)
qed

subsection \<open>Claims\<close>

text \<open>
  Parsing a PUBLISH of a version before 5 stays within the packet and accounts for every
  byte of it: the topic is the declared bytes after its length, the payload is the rest of the
  packet after the topic and, for QoS 1 and 2, the message id, and its length is never negative.
\<close>

theorem publish_accounts_for_packet:
  assumes "MQTTVersion < MQTTVERSION_5" "datalen \<le> length data"
  shows "\<exists>r. MQTTPacket_publish H MQTTVersion aHeader data datalen = Inr r \<and>
    (\<forall>pack. r = Some pack \<longrightarrow> (\<exists>t n. pb_topic pack = Some t \<and> pb_topiclen pack = int (length t) \<and>
      t = take (length t) (drop 2 data) \<and> pb_payloadlen pack = int n \<and>
      2 + length t + (if hd_qos aHeader > 0 then 2 else 0) + n = datalen \<and>
      pb_payload pack = drop (datalen - n) data))"
  using assms by (rule MQTTPacket_publish_v3)

theorem publish_accounts_for_packet_witness:
  "\<exists>t. MQTTPacket_publish (\<lambda>_. True) 4 50 [0, 1, 97, 0, 9, 104, 105] 7 = Inr (Some
     \<lparr>pb_header = 50, pb_topic = Some t, pb_topiclen = 1, pb_msgId = 9, pb_payload = [104, 105],
      pb_payloadlen = 2, pb_MQTTVersion = 4, pb_properties = MQTTProperties_initializer,
      pb_mask = [0, 0, 0, 0]\<rparr>) \<and> t = [97]"
  using publish_accounts_for_packet [of 4 7 "[0, 1, 97, 0, 9, 104, 105]" "\<lambda>_. True" 50]
  by (simp add: MQTTPacket_publish_def readUTFlen_def readInt_def version_defs hd_unat)

text \<open>
  Before version 5 the packet builders are safe on every received packet, whatever its
  bytes: the only undefined behaviour is a SUBACK that carries no return code, for which
  \<^verbatim>\<open>MQTTPacket_suback\<close> looks at a property list it has not initialised.
\<close>

theorem builders_safe_before_v5:
  assumes "list_lib_ok L" "heap_total H" "MQTTVersion < MQTTVERSION_5" "datalen \<le> length data"
  shows "call_pf f L H MQTTVersion aHeader data datalen = Inl e \<longleftrightarrow>
    f = F_suback \<and> datalen = 2 \<and> e = UninitRead"
  using assms by (rule call_pf_v3)

theorem builders_safe_before_v5_witness:
  "call_pf F_suback std_lists (\<lambda>_. True) 4 144 [0, 7] 2 = Inl UninitRead"
  using builders_safe_before_v5 [OF std_lists_ok heap_total_top, of 4 2 "[0, 7]" F_suback 144 UninitRead]
  by (simp add: version_defs)

text \<open>
  The return codes of a SUBACK before version 5 are exactly the bytes after its message id,
  in order.
\<close>

theorem suback_codes:
  assumes "list_lib_ok L" "heap_total H" "MQTTVersion < MQTTVERSION_5" "2 < datalen" "datalen \<le> length data"
  shows "MQTTPacket_suback L H MQTTVersion aHeader data datalen = Inr (Some
    \<lparr>sa_header = aHeader, sa_msgId = 256 * uint (data ! 0) + uint (data ! 1),
     sa_MQTTVersion = MQTTVersion, sa_properties = None,
     sa_qoss = map unat (take (datalen - 2) (drop 2 data))\<rparr>)"
  using MQTTPacket_suback_v3 [OF assms(1,2,3,5)] assms(4) by simp

theorem suback_codes_witness:
  "MQTTPacket_suback std_lists (\<lambda>_. True) 4 144 [1, 2, 0, 128] 4 = Inr (Some
    \<lparr>sa_header = 144, sa_msgId = 258, sa_MQTTVersion = 4, sa_properties = None, sa_qoss = [0, 128]\<rparr>)"
  using suback_codes [OF std_lists_ok heap_total_top, of 4 4 "[1, 2, 0, 128]" 144]
  by (simp add: version_defs)

text \<open>
  Two packets of version 5 the parsers accept although they are malformed. A PUBLISH whose
  property length is four continuation bytes gets the payload length -1, and a CONNACK without
  properties leaves the property list of the structure uninitialised, which freeing it reads.
\<close>

theorem v5_malformed_accepted:
  "(\<exists>pack. MQTTPacket_publish (\<lambda>_. True) 5 48 [0, 0, 128, 128, 128, 128] 6 = Inr (Some pack) \<and>
     pb_payloadlen pack = -1) \<and>
   (\<exists>pack. MQTTPacket_connack (\<lambda>_. True) 5 32 [0, 0] 2 = Inr (Some pack) \<and>
     MQTTPacket_freeConnack pack = Inl UninitRead)"
proof
  have "MQTTPacket_decodeBuf [0, 0, 128, 128, 128, 128] 2 = Inr (5, 0)"
    by (simp add: MQTTPacket_decodeBuf_def MQTTPacket_VBIdecode_def VBIdecode_loop.simps bufchar_def
        readChar_def Let_def)
  then have d: "MQTTPacket_decodeBuf [0, 0, 128, 128, 128, 128] (Suc (Suc 0)) = Inr (5, 0)"
    by (simp add: numeral_2_eq_2)
  show "\<exists>pack. MQTTPacket_publish (\<lambda>_. True) 5 48 [0, 0, 128, 128, 128, 128] 6 = Inr (Some pack) \<and>
     pb_payloadlen pack = -1"
    by (simp add: MQTTPacket_publish_def readUTFlen_def readInt_def version_defs hd_unat read_props_def
        MQTTProperties_read_def d MQTTProperties_initializer_def)
  show "\<exists>pack. MQTTPacket_connack (\<lambda>_. True) 5 32 [0, 0] 2 = Inr (Some pack) \<and>
     MQTTPacket_freeConnack pack = Inl UninitRead"
    by (simp add: MQTTPacket_connack_def readChar_def Let_def version_defs MQTTPacket_freeConnack_def
        free_props_def)
qed

end
