(* ===== verification/Timing.thy ===== *)
theory Timing
  imports Prelude
begin

section \<open>Time and reason codes: \<^verbatim>\<open>src/include/MQTTTime.c\<close>, \<^verbatim>\<open>MQTTReasonCodes.c\<close>\<close>

text \<open>
  The clock of the Unix build (\<^verbatim>\<open>START_TIME_TYPE\<close> is \<^verbatim>\<open>struct timeval\<close>) and the table of reason
  code names. The monotonic clock itself is outside the program: the functions that read it
  take its reading as an argument.
\<close>

subsection \<open>Time\<close>

record timeval =
  tv_sec :: int
  tv_usec :: int

record timespec =
  ts_sec :: int
  ts_nsec :: int

definition START_TIME_ZERO :: timeval where
  "START_TIME_ZERO = \<lparr>tv_sec = 0, tv_usec = 0\<rparr>"

definition MQTTTime_start_clock :: "timespec \<Rightarrow> timeval" where
  "MQTTTime_start_clock ts = \<lparr>tv_sec = ts_sec ts, tv_usec = ts_nsec ts sdiv 1000\<rparr>"

definition MQTTTime_now :: "timespec \<Rightarrow> timeval" where
  "MQTTTime_now ts = MQTTTime_start_clock ts"

text \<open>\<^verbatim>\<open>timersub\<close> of the C library borrows one second when the microseconds are negative.\<close>

definition timersub :: "timeval \<Rightarrow> timeval \<Rightarrow> timeval" where
  "timersub a b =
     (let sec = tv_sec a - tv_sec b; usec = tv_usec a - tv_usec b in
      if usec < 0 then \<lparr>tv_sec = sec - 1, tv_usec = usec + 1000000\<rparr>
      else \<lparr>tv_sec = sec, tv_usec = usec\<rparr>)"

definition MQTTTime_difftime :: "timeval \<Rightarrow> timeval \<Rightarrow> int" where
  "MQTTTime_difftime t_new t_old =
     (let result = timersub t_new t_old in tv_sec result * 1000 + tv_usec result sdiv 1000)"

text \<open>\<^verbatim>\<open>ELAPSED_TIME_TYPE\<close> is unsigned.\<close>

definition MQTTTime_elapsed :: "timespec \<Rightarrow> timeval \<Rightarrow> 64 word" where
  "MQTTTime_elapsed ts start = word_of_int (MQTTTime_difftime (MQTTTime_now ts) start)"

text \<open>The argument \<^verbatim>\<open>MQTTTime_sleep\<close> passes to \<^verbatim>\<open>usleep\<close>, an unsigned 32-bit number.\<close>

definition MQTTTime_sleep :: "64 word \<Rightarrow> 32 word" where
  "MQTTTime_sleep milliseconds = ucast (milliseconds * 1000)"

definition timeval_ok :: "timeval \<Rightarrow> bool" where
  "timeval_ok t \<longleftrightarrow> 0 \<le> tv_usec t \<and> tv_usec t < 1000000"

definition microseconds :: "timeval \<Rightarrow> int" where
  "microseconds t = tv_sec t * 1000000 + tv_usec t"

lemma timersub_ok:
  assumes "timeval_ok a" "timeval_ok b"
  shows "timeval_ok (timersub a b) \<and> microseconds (timersub a b) = microseconds a - microseconds b"
  using assms by (auto simp: timersub_def timeval_ok_def microseconds_def Let_def)

lemma MQTTTime_difftime_floor:
  assumes "timeval_ok a" "timeval_ok b"
  shows "MQTTTime_difftime a b = (microseconds a - microseconds b) div 1000"
proof -
  define r where "r = timersub a b"
  have r: "timeval_ok r" "microseconds a - microseconds b = microseconds r"
    using timersub_ok [OF assms] by (simp_all add: r_def)
  have "microseconds r div 1000 = (tv_usec r + (tv_sec r * 1000) * 1000) div 1000"
    by (simp add: microseconds_def)
  also have "\<dots> = tv_sec r * 1000 + tv_usec r div 1000" by (subst div_mult_self1) simp_all
  finally show ?thesis
    using r by (simp add: MQTTTime_difftime_def Let_def timeval_ok_def flip: r_def)
qed

subsection \<open>Reason codes\<close>

definition reason_names :: "(int \<times> string) list" where
  "reason_names =
    [(0, ''SUCCESS''), (0, ''Normal disconnection''), (0, ''Granted QoS 0''),
     (1, ''Granted QoS 1''), (2, ''Granted QoS 2''), (4, ''Disconnect with Will Message''),
     (16, ''No matching subscribers''), (17, ''No subscription found''),
     (24, ''Continue authentication''), (25, ''Re-authenticate''), (128, ''Unspecified error''),
     (129, ''Malformed Packet''), (130, ''Protocol error''),
     (131, ''Implementation specific error''), (132, ''Unsupported Protocol Version''),
     (133, ''Client Identifier not valid''), (134, ''Bad User Name or Password''),
     (135, ''Not authorized''), (136, ''Server unavailable''), (137, ''Server busy''),
     (138, ''Banned''), (139, ''Server shutting down''), (140, ''Bad authentication method''),
     (141, ''Keep Alive timeout''), (142, ''Session taken over''), (143, ''Topic filter invalid''),
     (144, ''Topic name invalid''), (145, ''Packet Identifier in use''),
     (146, ''Packet Identifier not found''), (147, ''Receive Maximum exceeded''),
     (148, ''Topic Alias invalid''), (149, ''Packet too large''), (150, ''Message rate too high''),
     (151, ''Quota exceeded''), (152, ''Administrative action''),
     (153, ''Payload format invalid''), (154, ''Retain not supported''),
     (155, ''QoS not supported''), (156, ''Use another server''), (157, ''Server moved''),
     (158, ''Shared subscriptions not supported''), (159, ''Connection rate exceeded''),
     (160, ''Maximum connect time''), (161, ''Subscription Identifiers not supported''),
     (162, ''Wildcard Subscriptions not supported'')]"

text \<open>The search from the front returns the first of the names that share a code.\<close>

definition MQTTReasonCode_toString :: "int \<Rightarrow> string option" where
  "MQTTReasonCode_toString v = map_of reason_names v"

text \<open>The codes of the enumeration, in its order, are those of the table: every code has a name.\<close>

definition MQTTReasonCodes :: "(string \<times> int) list" where
  "MQTTReasonCodes =
    [(''MQTTREASONCODE_SUCCESS'', 0), (''MQTTREASONCODE_NORMAL_DISCONNECTION'', 0),
     (''MQTTREASONCODE_GRANTED_QOS_0'', 0), (''MQTTREASONCODE_GRANTED_QOS_1'', 1),
     (''MQTTREASONCODE_GRANTED_QOS_2'', 2), (''MQTTREASONCODE_DISCONNECT_WITH_WILL_MESSAGE'', 4),
     (''MQTTREASONCODE_NO_MATCHING_SUBSCRIBERS'', 16), (''MQTTREASONCODE_NO_SUBSCRIPTION_FOUND'', 17),
     (''MQTTREASONCODE_CONTINUE_AUTHENTICATION'', 24), (''MQTTREASONCODE_RE_AUTHENTICATE'', 25),
     (''MQTTREASONCODE_UNSPECIFIED_ERROR'', 128), (''MQTTREASONCODE_MALFORMED_PACKET'', 129),
     (''MQTTREASONCODE_PROTOCOL_ERROR'', 130), (''MQTTREASONCODE_IMPLEMENTATION_SPECIFIC_ERROR'', 131),
     (''MQTTREASONCODE_UNSUPPORTED_PROTOCOL_VERSION'', 132),
     (''MQTTREASONCODE_CLIENT_IDENTIFIER_NOT_VALID'', 133), (''MQTTREASONCODE_BAD_USER_NAME_OR_PASSWORD'', 134),
     (''MQTTREASONCODE_NOT_AUTHORIZED'', 135), (''MQTTREASONCODE_SERVER_UNAVAILABLE'', 136),
     (''MQTTREASONCODE_SERVER_BUSY'', 137), (''MQTTREASONCODE_BANNED'', 138),
     (''MQTTREASONCODE_SERVER_SHUTTING_DOWN'', 139), (''MQTTREASONCODE_BAD_AUTHENTICATION_METHOD'', 140),
     (''MQTTREASONCODE_KEEP_ALIVE_TIMEOUT'', 141), (''MQTTREASONCODE_SESSION_TAKEN_OVER'', 142),
     (''MQTTREASONCODE_TOPIC_FILTER_INVALID'', 143), (''MQTTREASONCODE_TOPIC_NAME_INVALID'', 144),
     (''MQTTREASONCODE_PACKET_IDENTIFIER_IN_USE'', 145), (''MQTTREASONCODE_PACKET_IDENTIFIER_NOT_FOUND'', 146),
     (''MQTTREASONCODE_RECEIVE_MAXIMUM_EXCEEDED'', 147), (''MQTTREASONCODE_TOPIC_ALIAS_INVALID'', 148),
     (''MQTTREASONCODE_PACKET_TOO_LARGE'', 149), (''MQTTREASONCODE_MESSAGE_RATE_TOO_HIGH'', 150),
     (''MQTTREASONCODE_QUOTA_EXCEEDED'', 151), (''MQTTREASONCODE_ADMINISTRATIVE_ACTION'', 152),
     (''MQTTREASONCODE_PAYLOAD_FORMAT_INVALID'', 153), (''MQTTREASONCODE_RETAIN_NOT_SUPPORTED'', 154),
     (''MQTTREASONCODE_QOS_NOT_SUPPORTED'', 155), (''MQTTREASONCODE_USE_ANOTHER_SERVER'', 156),
     (''MQTTREASONCODE_SERVER_MOVED'', 157), (''MQTTREASONCODE_SHARED_SUBSCRIPTIONS_NOT_SUPPORTED'', 158),
     (''MQTTREASONCODE_CONNECTION_RATE_EXCEEDED'', 159), (''MQTTREASONCODE_MAXIMUM_CONNECT_TIME'', 160),
     (''MQTTREASONCODE_SUBSCRIPTION_IDENTIFIERS_NOT_SUPPORTED'', 161),
     (''MQTTREASONCODE_WILDCARD_SUBSCRIPTIONS_NOT_SUPPORTED'', 162)]"

lemma reason_codes_in_order: "map snd MQTTReasonCodes = map fst reason_names"
  by (simp add: MQTTReasonCodes_def reason_names_def)

lemma reason_named: "(n, v) \<in> set MQTTReasonCodes \<Longrightarrow> MQTTReasonCode_toString v \<noteq> None"
proof -
  assume "(n, v) \<in> set MQTTReasonCodes"
  then have "v \<in> set (map fst reason_names)" by (force simp flip: reason_codes_in_order)
  then show ?thesis by (simp add: MQTTReasonCode_toString_def map_of_eq_None_iff)
qed

lemma reason_zero: "MQTTReasonCode_toString 0 = Some ''SUCCESS''"
  by (simp add: MQTTReasonCode_toString_def reason_names_def)

end
