(* ===== verification/State.thy ===== *)
theory State
  imports Packets Timing
begin

section \<open>The state of the client library\<close>

text \<open>
  The structures that the library keeps between calls: clients, their message lists and queues,
  stored publications. \<^verbatim>\<open>Clients.h\<close> is not part of the sources; a structure has the fields the
  code uses. A pointer to a client is its position in \<open>bstate->clients\<close>; a pointer to a stored
  publication is an address in \<open>state.publications\<close>. What is outside the program, the network,
  the clock and the persistent storage, is a state of its own (\<open>'n\<close>, \<open>'f\<close>) with operations that
  are arguments of the model.
\<close>

subsection \<open>Strings, decimal numbers and \<open>snprintf\<close>\<close>

text \<open>Decimal numbers as \<^verbatim>\<open>%u\<close> and \<^verbatim>\<open>%d\<close> print them, and as \<^verbatim>\<open>atoi\<close> reads them.\<close>

definition digit_char :: "nat \<Rightarrow> char" where
  "digit_char d = char_of (48 + d)"

fun show_nat :: "nat \<Rightarrow> string" where
  "show_nat n = (if n < 10 then [digit_char n] else show_nat (n div 10) @ [digit_char (n mod 10)])"

declare show_nat.simps [simp del]

definition show_int :: "int \<Rightarrow> string" where
  "show_int i = (if i < 0 then CHR ''-'' # show_nat (nat (- i)) else show_nat (nat i))"

definition is_digit :: "char \<Rightarrow> bool" where
  "is_digit c \<longleftrightarrow> 48 \<le> (of_char c :: nat) \<and> (of_char c :: nat) \<le> 57"

fun digits_value :: "nat \<Rightarrow> string \<Rightarrow> nat" where
  "digits_value v [] = v"
| "digits_value v (c # cs) = (if is_digit c then digits_value (10 * v + (of_char c - 48)) cs else v)"

text \<open>\<^verbatim>\<open>atoi\<close> on a string without leading white space.\<close>

definition atoi :: "string \<Rightarrow> int" where
  "atoi s = (case s of c # cs \<Rightarrow>
       if c = CHR ''-'' then - int (digits_value 0 cs)
       else if c = CHR ''+'' then int (digits_value 0 cs) else int (digits_value 0 s)
     | [] \<Rightarrow> 0)"

text \<open>
  \<^verbatim>\<open>atoi\<close> on the bytes of a C string: white space is skipped; a number that is not an \<^verbatim>\<open>int\<close> is
  undefined behaviour.
\<close>

definition is_space :: "char \<Rightarrow> bool" where
  "is_space c \<longleftrightarrow> (of_char c :: nat) = 32 \<or> 9 \<le> (of_char c :: nat) \<and> (of_char c :: nat) \<le> 13"

definition c_atoi :: "bytes \<Rightarrow> ub + int" where
  "c_atoi s =
     (let v = atoi (dropWhile is_space (map (\<lambda>b. char_of (unat b)) (c_str s))) in
      if v < - 2147483648 \<or> 2147483648 \<le> v then Inl IntOverflow else Inr v)"

text \<open>
  \<^verbatim>\<open>snprintf(buf, n, ...)\<close> stores at most \<open>n - 1\<close> characters and returns the length of the
  whole text.
\<close>

definition snprintf :: "nat \<Rightarrow> string \<Rightarrow> string \<times> nat" where
  "snprintf n text = (take (n - 1) text, length text)"

lemma of_char_digit [simp]: "d < 10 \<Longrightarrow> (of_char (digit_char d) :: nat) = 48 + d"
  by (simp add: digit_char_def)

lemma is_digit_digit [simp]: "d < 10 \<Longrightarrow> is_digit (digit_char d)"
  by (simp add: is_digit_def)

lemma digits_value_append:
  "\<forall>c\<in>set cs. is_digit c \<Longrightarrow> digits_value v (cs @ ds) = digits_value (digits_value v cs) ds"
  by (induction cs arbitrary: v) auto

lemma show_nat_digits: "c \<in> set (show_nat n) \<Longrightarrow> is_digit c"
proof (induction n rule: show_nat.induct)
  case (1 n)
  then show ?case by (subst (asm) (2) show_nat.simps) (auto split: if_splits)
qed

lemma show_nat_nonempty [simp]: "show_nat n \<noteq> []"
  by (subst show_nat.simps) simp

lemma digits_value_show: "digits_value 0 (show_nat n) = n"
proof (induction n rule: show_nat.induct)
  case (1 n)
  show ?case
  proof (cases "n < 10")
    case True
    then show ?thesis by (simp add: show_nat.simps)
  next
    case False
    then show ?thesis
      by (subst show_nat.simps) (use 1 show_nat_digits in \<open>simp add: digits_value_append\<close>)
  qed
qed

lemma show_nat_length: "0 < k \<Longrightarrow> n < 10 ^ k \<Longrightarrow> length (show_nat n) \<le> k"
proof (induction k arbitrary: n)
  case (Suc k)
  show ?case
  proof (cases "n < 10")
    case True
    then show ?thesis by (simp add: show_nat.simps)
  next
    case False
    with Suc.prems have "0 < k" by (cases k) simp_all
    moreover have "n div 10 < 10 ^ k" using Suc.prems by (simp add: less_mult_imp_div_less)
    ultimately show ?thesis using Suc.IH [of "n div 10"] False
      by (subst show_nat.simps) simp
  qed
qed simp

lemma show_nat_inj: "show_nat a = show_nat b \<Longrightarrow> a = b"
  by (metis digits_value_show)

lemma not_digit_sign [simp]: "\<not> is_digit CHR ''-''" "\<not> is_digit CHR ''+''"
  by (simp_all add: is_digit_def)

lemma atoi_show_nat: "atoi (show_nat n) = int n"
proof -
  obtain c cs where s: "show_nat n = c # cs" by (cases "show_nat n") simp_all
  then have "is_digit c" using show_nat_digits [of c n] by simp
  then have "c \<noteq> CHR ''-''" "c \<noteq> CHR ''+''" by auto
  then show ?thesis using s digits_value_show [of n] by (simp add: atoi_def)
qed

text \<open>The bytes of a decimal number, and \<^verbatim>\<open>atoi\<close> on them.\<close>

definition decimal :: "nat \<Rightarrow> bytes" where
  "decimal n = map (\<lambda>c. word_of_nat (of_char c)) (show_nat n)"

lemma char_of_decimal [simp]: "map (\<lambda>b. char_of (unat b)) (decimal n) = show_nat n"
  by (simp add: decimal_def comp_def unat_of_nat map_idI)

lemma decimal_bytes: "b \<in> set (decimal n) \<Longrightarrow> 48 \<le> unat b \<and> unat b \<le> 57"
  using show_nat_digits [of _ n] by (auto simp: decimal_def is_digit_def unat_of_nat)

lemma decimal_no_zero [simp]: "0 \<notin> set (decimal n)"
  using decimal_bytes [of 0 n] by auto

lemma digits_value_stop: "cs = [] \<or> \<not> is_digit (hd cs) \<Longrightarrow> digits_value v cs = v"
  by (cases cs) simp_all

lemma c_atoi_decimal:
  assumes "n < 2147483648" "rest = [] \<or> unat (hd rest) < 48 \<or> 57 < unat (hd rest)"
  shows "c_atoi (decimal n @ rest) = Inr (int n)"
proof -
  let ?t = "map (\<lambda>b. char_of (unat b)) (c_str rest)"
  have t: "?t = [] \<or> \<not> is_digit (hd ?t)"
    using assms(2) by (cases rest) (auto simp: c_str_def is_digit_def)
  have "c_str (decimal n @ rest) = decimal n @ c_str rest"
    using decimal_no_zero [of n] unfolding c_str_def by (subst takeWhile_append2) auto
  then have m: "map (\<lambda>b. char_of (unat b)) (c_str (decimal n @ rest)) = show_nat n @ ?t" by simp
  obtain c cs where s: "show_nat n = c # cs" by (cases "show_nat n") simp_all
  then have d: "is_digit c" using show_nat_digits [of c n] by simp
  have v: "digits_value 0 (show_nat n @ ?t) = n"
    using t show_nat_digits [of _ n] by (subst digits_value_append) (auto simp: digits_value_stop digits_value_show)
  have "\<not> is_space c" using d by (auto simp: is_digit_def is_space_def)
  then have dw: "dropWhile is_space (show_nat n @ ?t) = show_nat n @ ?t" by (simp add: s)
  have "c \<noteq> CHR ''-''" "c \<noteq> CHR ''+''" using d by auto
  then have "atoi (show_nat n @ ?t) = int n" using v by (simp add: atoi_def s)
  then show ?thesis using assms(1) unfolding c_atoi_def m dw by simp
qed

lemma show_int_nonneg: "0 \<le> i \<Longrightarrow> show_int i = show_nat (nat i)"
  by (simp add: show_int_def)

lemma show_int_inj: "show_int a = show_int b \<Longrightarrow> a = b"
proof -
  assume e: "show_int a = show_int b"
  have h: "show_nat n \<noteq> CHR ''-'' # cs" for n cs
    using show_nat_digits [of "CHR ''-''" n] by (cases "show_nat n") auto
  from e h h [symmetric] show "a = b"
    by (auto simp: show_int_def split: if_splits dest!: show_nat_inj)
qed

subsection \<open>Messages and publications\<close>

record Publications =
  pu_topic :: "bytes option"
  pu_topiclen :: int
  pu_payload :: "bytes option"
  pu_payloadlen :: int
  pu_refcount :: int
  pu_mask :: bytes

record Messages =
  ms_qos :: int
  ms_retain :: int
  ms_msgid :: int
  ms_MQTTVersion :: int
  ms_properties :: "MQTTProperties option"    \<comment> \<open>set from version 5 on\<close>
  ms_publish :: "nat option"                  \<comment> \<open>address in \<open>state.publications\<close>, or NULL\<close>
  ms_lastTouch :: timeval
  ms_nextMessageType :: "nat option"          \<comment> \<open>set for QoS 2\<close>

record willMessages =
  w_topic :: bytes
  w_payloadlen :: int
  w_payload :: bytes
  w_retained :: int
  w_qos :: int

record AckRequest =
  ar_messageId :: int
  ar_ackType :: nat

record MQTTPersistence_message =
  pm_struct_version :: int
  pm_payloadlen :: int
  pm_payload :: bytes
  pm_qos :: int
  pm_retained :: int
  pm_dup :: int
  pm_msgid :: int
  pm_properties :: MQTTProperties

record MQTTPersistence_qEntry =
  qe_msg :: MQTTPersistence_message
  qe_topicName :: bytes
  qe_topicLen :: int
  qe_seqno :: nat                              \<comment> \<open>an unsigned int\<close>

subsection \<open>Persistence implementations\<close>

text \<open>
  \<^verbatim>\<open>MQTTClient_persistence\<close>, the structure of functions of a persistence implementation over a
  storage \<open>'f\<close>. A handle is the directory string of the default implementation, a key a
  string; a result other than 0 is an error.
\<close>

type_synonym handle = string
type_synonym key = string

record 'f MQTTClient_persistence =
  pcontext :: string
  popen :: "bytes \<Rightarrow> bytes \<Rightarrow> string \<Rightarrow> 'f \<Rightarrow> int \<times> handle option \<times> 'f"
  pclose :: "handle option \<Rightarrow> 'f \<Rightarrow> int \<times> 'f"
  pput :: "handle option \<Rightarrow> key \<Rightarrow> bytes list \<Rightarrow> 'f \<Rightarrow> int \<times> 'f"
  pget :: "handle option \<Rightarrow> key \<Rightarrow> 'f \<Rightarrow> int \<times> bytes \<times> 'f"
  premove :: "handle option \<Rightarrow> key \<Rightarrow> 'f \<Rightarrow> int \<times> 'f"
  pkeys :: "handle option \<Rightarrow> 'f \<Rightarrow> int \<times> key list \<times> 'f"
  pclear :: "handle option \<Rightarrow> 'f \<Rightarrow> int \<times> 'f"
  pcontainskey :: "handle option \<Rightarrow> key \<Rightarrow> 'f \<Rightarrow> int \<times> 'f"

subsection \<open>Clients\<close>

record networkHandles =
  nh_socket :: int
  nh_lastSent :: timeval
  nh_lastReceived :: timeval
  nh_lastPing :: timeval
  nh_http_proxy :: "bytes option"
  nh_http_proxy_auth :: "bytes option"
  nh_httpHeaders :: "(bytes \<times> bytes) list option"

record 'f Clients =
  c_clientID :: bytes
  c_username :: "bytes option"
  c_passwordlen :: int
  c_password :: "bytes option"
  c_cleansession :: int
  c_cleanstart :: int
  c_connected :: bool
  c_good :: bool
  c_ping_outstanding :: bool
  c_ping_due :: bool
  c_ping_due_time :: timeval
  c_connect_state :: int
  c_net :: networkHandles
  c_msgID :: int
  c_keepAliveInterval :: int
  c_retryInterval :: int
  c_will :: "willMessages option"
  c_inboundMsgs :: "Messages list"
  c_outboundMsgs :: "Messages list"
  c_connect_count :: int
  c_connect_sent :: int
  c_messageQueue :: "MQTTPersistence_qEntry list"
  c_outboundQueue :: "AckRequest list"
  c_qentry_seqno :: nat
  c_phandle :: "handle option"
  c_persistence :: "'f MQTTClient_persistence option"
  c_beforeWrite :: "(bytes list \<Rightarrow> 'f \<Rightarrow> int \<times> bytes list \<times> 'f) option"
  c_afterRead :: "(bytes \<Rightarrow> 'f \<Rightarrow> int \<times> bytes \<times> 'f) option"
  c_httpProxy :: "bytes option"
  c_httpsProxy :: "bytes option"
  c_maxInflightMessages :: int
  c_MQTTVersion :: int
  c_sessionExpiry :: int

definition clientSocketCompare :: "int \<Rightarrow> 'f Clients \<Rightarrow> bool" where
  "clientSocketCompare socket client \<longleftrightarrow> nh_socket (c_net client) = socket"

definition messageIDCompare :: "int \<Rightarrow> Messages \<Rightarrow> bool" where
  "messageIDCompare msgid m \<longleftrightarrow> ms_msgid m = msgid"

subsection \<open>The environment and the global state\<close>

text \<open>
  The functions of \<^verbatim>\<open>Socket.c\<close>, \<^verbatim>\<open>SocketBuffer.c\<close> and \<^verbatim>\<open>WebSocket.c\<close> that are called, and the
  monotonic clock. \<open>WebSocket_putdatas\<close> takes the fixed header, the buffers and the mask, and
  returns the completion code and the new mask.
\<close>

record 'n net_lib =
  WebSocket_getch :: "int \<Rightarrow> 'n \<Rightarrow> int \<times> byte \<times> 'n"
  WebSocket_getdata :: "int \<Rightarrow> nat \<Rightarrow> 'n \<Rightarrow> bytes option \<times> nat \<times> 'n"
  WebSocket_framePos :: "'n \<Rightarrow> nat"
  WebSocket_framePosSeekTo :: "nat \<Rightarrow> 'n \<Rightarrow> 'n"
  WebSocket_putdatas :: "int \<Rightarrow> bytes \<Rightarrow> bytes list \<Rightarrow> bytes \<Rightarrow> 'n \<Rightarrow> int \<times> bytes \<times> 'n"
  Socket_noPendingWrites :: "int \<Rightarrow> 'n \<Rightarrow> bool"
  WebSocket_close :: "int \<Rightarrow> 'n \<Rightarrow> 'n"
  Socket_close :: "int \<Rightarrow> 'n \<Rightarrow> 'n"
  SocketBuffer_updateWrite :: "int \<Rightarrow> bytes option \<Rightarrow> bytes option \<Rightarrow> 'n \<Rightarrow> 'n"
  clock_gettime :: "'n \<Rightarrow> timespec \<times> 'n"

record 'f lists =
  l_codes :: "nat list_lib"
  l_clients :: "'f Clients list_lib"
  l_msgs :: "Messages list_lib"
  l_pubs :: "(nat \<times> Publications) list_lib"
  l_queue :: "MQTTPersistence_qEntry list_lib"
  l_acks :: "AckRequest list_lib"
  l_pending :: "(int \<times> nat) list_lib"

definition lists_ok :: "'f lists \<Rightarrow> bool" where
  "lists_ok L \<longleftrightarrow> list_lib_ok (l_codes L) \<and> list_lib_ok (l_clients L) \<and> list_lib_ok (l_msgs L) \<and>
     list_lib_ok (l_pubs L) \<and> list_lib_ok (l_queue L) \<and> list_lib_ok (l_acks L) \<and> list_lib_ok (l_pending L)"

definition all_std_lists :: "'f lists" where
  "all_std_lists = \<lparr>l_codes = std_lists, l_clients = std_lists, l_msgs = std_lists, l_pubs = std_lists,
     l_queue = std_lists, l_acks = std_lists, l_pending = std_lists\<rparr>"

lemma all_std_lists_ok [simp]: "lists_ok all_std_lists"
  by (simp add: lists_ok_def all_std_lists_def)

record ('n, 'f) env =
  e_heap :: heap
  e_lists :: "'f lists"
  e_net :: "'n net_lib"

record ('n, 'f) sys =
  g_net :: 'n
  g_fs :: 'f
  g_clients :: "'f Clients list"                     \<comment> \<open>\<open>bstate->clients\<close>\<close>
  g_publications :: "(nat \<times> Publications) list"      \<comment> \<open>\<open>state.publications\<close>\<close>
  g_fresh :: nat                                      \<comment> \<open>the next address\<close>
  g_pending_writes :: "(int \<times> nat) list"             \<comment> \<open>\<open>state.pending_writes\<close>\<close>
  g_msgs_received :: "32 word"
  g_msgs_sent :: "32 word"

definition set_client :: "nat \<Rightarrow> 'f Clients \<Rightarrow> ('n, 'f, 'z) sys_scheme \<Rightarrow> ('n, 'f, 'z) sys_scheme" where
  "set_client i c s = s\<lparr>g_clients := (g_clients s)[i := c]\<rparr>"

text \<open>A network that delivers nothing and accepts everything, and a client, for the examples.\<close>

definition null_net :: "unit net_lib" where
  "null_net = \<lparr>WebSocket_getch = \<lambda>_ n. (SOCKET_ERROR, 0, n), WebSocket_getdata = \<lambda>_ _ n. (None, 0, n),
     WebSocket_framePos = \<lambda>_. 0, WebSocket_framePosSeekTo = \<lambda>_ n. n,
     WebSocket_putdatas = \<lambda>_ _ _ m n. (TCPSOCKET_COMPLETE, m, n), Socket_noPendingWrites = \<lambda>_ _. True,
     WebSocket_close = \<lambda>_ n. n, Socket_close = \<lambda>_ n. n, SocketBuffer_updateWrite = \<lambda>_ _ _ n. n,
     clock_gettime = \<lambda>n. (\<lparr>ts_sec = 0, ts_nsec = 0\<rparr>, n)\<rparr>"

definition blank_client :: "'f Clients" where
  "blank_client = \<lparr>c_clientID = [99], c_username = None, c_passwordlen = 0, c_password = None,
     c_cleansession = 1, c_cleanstart = 1, c_connected = True, c_good = True, c_ping_outstanding = False,
     c_ping_due = False, c_ping_due_time = START_TIME_ZERO, c_connect_state = 0,
     c_net = \<lparr>nh_socket = 5, nh_lastSent = START_TIME_ZERO, nh_lastReceived = START_TIME_ZERO,
       nh_lastPing = START_TIME_ZERO, nh_http_proxy = None, nh_http_proxy_auth = None,
       nh_httpHeaders = None\<rparr>,
     c_msgID = 0, c_keepAliveInterval = 60, c_retryInterval = 0, c_will = None, c_inboundMsgs = [],
     c_outboundMsgs = [], c_connect_count = 0, c_connect_sent = 0, c_messageQueue = [],
     c_outboundQueue = [], c_qentry_seqno = 0, c_phandle = None, c_persistence = None,
     c_beforeWrite = None, c_afterRead = None, c_httpProxy = None, c_httpsProxy = None,
     c_maxInflightMessages = 10, c_MQTTVersion = 4, c_sessionExpiry = 0\<rparr>"

definition blank_sys :: "'f Clients \<Rightarrow> 'f \<Rightarrow> (unit, 'f) sys" where
  "blank_sys c fs = \<lparr>g_net = (), g_fs = fs, g_clients = [c], g_publications = [], g_fresh = 0,
     g_pending_writes = [], g_msgs_received = 0, g_msgs_sent = 0\<rparr>"

definition std_env :: "(unit, 'f) env" where
  "std_env = \<lparr>e_heap = \<lambda>_. True, e_lists = all_std_lists, e_net = null_net\<rparr>"

text \<open>The client of a socket; the callers dereference the result without a test.\<close>

definition find_client :: "('n, 'f) env \<Rightarrow> int \<Rightarrow> ('n, 'f, 'z) sys_scheme \<Rightarrow> ub + nat" where
  "find_client E socket s =
     (case ListFindItem (l_clients (e_lists E)) (g_clients s) (clientSocketCompare socket) of
        None \<Rightarrow> Inl NullDeref | Some i \<Rightarrow> Inr i)"

lemma blank_sys_simps [simp]:
  "g_net (blank_sys c fs) = ()" "g_fs (blank_sys c fs) = fs" "g_clients (blank_sys c fs) = [c]"
  "g_publications (blank_sys c fs) = []" "g_pending_writes (blank_sys c fs) = []"
  by (simp_all add: blank_sys_def)

lemma std_env_simps [simp]:
  "e_heap std_env = (\<lambda>_. True)" "e_lists std_env = all_std_lists" "e_net std_env = null_net"
  by (simp_all add: std_env_def)

lemma find_client_blank [simp]:
  "nh_socket (c_net c) = socket \<Longrightarrow> find_client std_env socket (blank_sys c fs) = Inr 0"
  by (simp add: find_client_def std_env_def all_std_lists_def std_lists_def blank_sys_def
      clientSocketCompare_def)

definition time_now :: "('n, 'f) env \<Rightarrow> ('n, 'f, 'z) sys_scheme \<Rightarrow> timeval \<times> ('n, 'f, 'z) sys_scheme" where
  "time_now E s = (let (ts, n) = clock_gettime (e_net E) (g_net s) in (MQTTTime_now ts, s\<lparr>g_net := n\<rparr>))"

end
