(* ===== verification/DefaultStore.thy ===== *)
theory DefaultStore
  imports State "HOL-Library.AList"
begin

section \<open>File system persistence: \<^verbatim>\<open>src/include/MQTTPersistenceDefault.c\<close>\<close>

text \<open>
  The Unix branch of the default persistence: a directory for each client, a file
  \<^verbatim>\<open>key.msg\<close> for each record. The file system the POSIX calls work on is a list of directories
  and of files by their path; paths are compared as they are written, and a name without
  \<open>/\<close> is in the working directory. \<open>fs_quota\<close> is the most a file can hold: a write beyond it is
  short. The directory entries come in the order of the list.
\<close>

definition MQTTCLIENT_PERSISTENCE_ERROR :: int where "MQTTCLIENT_PERSISTENCE_ERROR = -2"
definition MESSAGE_FILENAME_EXTENSION :: string where "MESSAGE_FILENAME_EXTENSION = ''.msg''"

record filesys =
  fs_dirs :: "string list"
  fs_files :: "(string \<times> bytes) list"
  fs_quota :: nat

subsection \<open>POSIX calls\<close>

definition parent_dir :: "string \<Rightarrow> string" where
  "parent_dir p =
     (if CHR ''/'' \<notin> set p then ''.''
      else let d = rev (tl (dropWhile (\<lambda>c. c \<noteq> CHR ''/'') (rev p))) in if d = [] then ''/'' else d)"

text \<open>\<^verbatim>\<open>mkdir\<close>: 0, or the reason of the failure.\<close>

datatype errno = EEXIST | ENOENT | ENOTEMPTY | ENOTDIR | EISDIR

definition mkdir :: "string \<Rightarrow> filesys \<Rightarrow> errno option \<times> filesys" where
  "mkdir p fs =
     (if p \<in> set (fs_dirs fs) \<or> map_of (fs_files fs) p \<noteq> None then (Some EEXIST, fs)
      else if parent_dir p \<in> set (fs_dirs fs) then (None, fs\<lparr>fs_dirs := fs_dirs fs @ [p]\<rparr>)
      else (Some ENOENT, fs))"

definition fopen_write :: "string \<Rightarrow> filesys \<Rightarrow> filesys option" where
  "fopen_write p fs =
     (if p \<in> set (fs_dirs fs) \<or> parent_dir p \<notin> set (fs_dirs fs) then None
      else Some (fs\<lparr>fs_files := AList.update p [] (fs_files fs)\<rparr>))"

text \<open>\<^verbatim>\<open>fwrite\<close> at the end of the open file; the result is the number of bytes written.\<close>

definition fwrite :: "string \<Rightarrow> bytes \<Rightarrow> filesys \<Rightarrow> nat \<times> filesys" where
  "fwrite p b fs =
     (let old = (case map_of (fs_files fs) p of None \<Rightarrow> [] | Some c \<Rightarrow> c); w = take (fs_quota fs - length old) b
      in (length w, fs\<lparr>fs_files := AList.update p (old @ w) (fs_files fs)\<rparr>))"

definition unlink :: "string \<Rightarrow> filesys \<Rightarrow> errno option \<times> filesys" where
  "unlink p fs =
     (if map_of (fs_files fs) p \<noteq> None then (None, fs\<lparr>fs_files := AList.delete p (fs_files fs)\<rparr>)
      else (Some (if p \<in> set (fs_dirs fs) then EISDIR else ENOENT), fs))"

definition entry_of :: "string \<Rightarrow> string \<Rightarrow> string option" where
  "entry_of dir p =
     (let n = drop (length dir + 1) p in
      if p = dir @ ''/'' @ n \<and> n \<noteq> [] \<and> CHR ''/'' \<notin> set n then Some n else None)"

text \<open>The entries of a directory, with a flag for the regular files.\<close>

definition readdir :: "string \<Rightarrow> filesys \<Rightarrow> (string \<times> bool) list" where
  "readdir dir fs =
     [(''.'', False), (''..'', False)] @ map (\<lambda>n. (n, False)) (List.map_filter (entry_of dir) (fs_dirs fs))
       @ map (\<lambda>n. (n, True)) (List.map_filter (entry_of dir \<circ> fst) (fs_files fs))"

definition opendir :: "string \<Rightarrow> filesys \<Rightarrow> (string \<times> bool) list option" where
  "opendir dir fs = (if dir \<in> set (fs_dirs fs) then Some (readdir dir fs) else None)"

definition rmdir :: "string \<Rightarrow> filesys \<Rightarrow> errno option \<times> filesys" where
  "rmdir dir fs =
     (if dir \<notin> set (fs_dirs fs)
      then (Some (if map_of (fs_files fs) dir \<noteq> None then ENOTDIR else ENOENT), fs)
      else if length (readdir dir fs) > 2 then (Some ENOTEMPTY, fs)
      else (None, fs\<lparr>fs_dirs := removeAll dir (fs_dirs fs)\<rparr>))"

text \<open>The first occurrence of a string in another, as \<^verbatim>\<open>strstr\<close> finds it.\<close>

fun strstr :: "string \<Rightarrow> string \<Rightarrow> nat option" where
  "strstr [] needle = (if needle = [] then Some 0 else None)"
| "strstr (c # cs) needle =
     (if take (length needle) (c # cs) = needle then Some 0 else map_option Suc (strstr cs needle))"

text \<open>The name of a file cut at the first extension in it.\<close>

definition cut_extension :: "string \<Rightarrow> string" where
  "cut_extension n =
     (case strstr n MESSAGE_FILENAME_EXTENSION of None \<Rightarrow> n | Some i \<Rightarrow> take i n)"

subsection \<open>Opening\<close>

definition pstmkdir :: "string \<Rightarrow> filesys \<Rightarrow> int \<times> filesys" where
  "pstmkdir path fs =
     (let (e, fs') = mkdir path fs in
      (if e = None \<or> e = Some EEXIST then 0 else MQTTCLIENT_PERSISTENCE_ERROR, fs'))"

text \<open>The tokens that successive calls of \<^verbatim>\<open>strtok_r\<close> with the separators return.\<close>

definition is_sep :: "char \<Rightarrow> bool" where
  "is_sep c \<longleftrightarrow> c = CHR ''/'' \<or> c = CHR 92"

fun strtok :: "string \<Rightarrow> string \<Rightarrow> string list" where
  "strtok acc [] = (if acc = [] then [] else [rev acc])"
| "strtok acc (c # cs) =
     (if is_sep c then (if acc = [] then strtok [] cs else rev acc # strtok [] cs)
      else strtok (c # acc) cs)"

text \<open>The directory is made level by level, until a level fails.\<close>

fun mkdir_loop :: "string \<Rightarrow> string list \<Rightarrow> int \<Rightarrow> filesys \<Rightarrow> int \<times> filesys" where
  "mkdir_loop dirName [] rc fs = (rc, fs)"
| "mkdir_loop dirName (t # ts) rc fs =
     (if rc = 0 then let dirName' = dirName @ ''/'' @ t; (rc', fs') = pstmkdir dirName' fs
        in mkdir_loop dirName' ts rc' fs'
      else (rc, fs))"

definition chars_of :: "bytes \<Rightarrow> string" where
  "chars_of s = map (\<lambda>b. char_of (unat b)) (c_str s)"

text \<open>
  \<^verbatim>\<open>pstopen\<close>. The loop over the colons of the URI replaces them one at a time. A path of
  separators only has no token, and the code copies from a NULL pointer.
\<close>

definition pstopen ::
    "heap \<Rightarrow> bytes \<Rightarrow> bytes \<Rightarrow> string \<Rightarrow> filesys \<Rightarrow> ub + (int \<times> handle option \<times> filesys)" where
  "pstopen H clientID serverURI dataDir fs =
     (if \<not> H (ReqBuffer (strlen serverURI + 1)) then Inr (PAHO_MEMORY_ERROR, None, fs)
      else
       let perserverURI = map (\<lambda>c. if c = CHR '':'' then CHR ''-'' else c) (chars_of serverURI);
           clientID = chars_of clientID;
           alloclen = length dataDir + length clientID + length perserverURI + 3;
           (clientDir, n) = snprintf alloclen (dataDir @ ''/'' @ clientID @ ''-'' @ perserverURI)
       in
       if \<not> H (ReqBuffer alloclen) then Inr (PAHO_MEMORY_ERROR, None, fs)
       else if n \<ge> alloclen then Inr (MQTTCLIENT_PERSISTENCE_ERROR, None, fs)
       else if \<not> H (ReqBuffer (length clientDir + 1)) then Inr (PAHO_MEMORY_ERROR, None, fs)
       else
        let (lead, tokens) =
              (case clientDir of [] \<Rightarrow> ([], [])
               | c # cs \<Rightarrow> if is_sep c then ([c], strtok [] cs) else ([], strtok [] clientDir))
        in case tokens of
             [] \<Rightarrow> Inl NullDeref
           | t # ts \<Rightarrow>
              let dirName = lead @ t;
                  (rc, fs1) = pstmkdir dirName fs;
                  (rc2, fs2) = mkdir_loop dirName ts rc fs1
              in Inr (rc2, Some clientDir, fs2))"

subsection \<open>Records\<close>

definition message_path :: "string \<Rightarrow> key \<Rightarrow> string" where
  "message_path clientDir key = clientDir @ ''/'' @ key @ MESSAGE_FILENAME_EXTENSION"

text \<open>The allocation and the printing of the path, the same in three functions.\<close>

definition path_alloc :: "string \<Rightarrow> key \<Rightarrow> nat" where
  "path_alloc clientDir key = length clientDir + length key + length MESSAGE_FILENAME_EXTENSION + 2"

definition pstremove :: "heap \<Rightarrow> handle option \<Rightarrow> key \<Rightarrow> filesys \<Rightarrow> int \<times> filesys" where
  "pstremove H handle key fs =
     (case handle of
        None \<Rightarrow> (MQTTCLIENT_PERSISTENCE_ERROR, fs)
      | Some clientDir \<Rightarrow>
         let alloclen = path_alloc clientDir key;
             (file, n) = snprintf alloclen (message_path clientDir key) in
         if \<not> H (ReqBuffer alloclen) then (PAHO_MEMORY_ERROR, fs)
         else if n \<ge> alloclen then (MQTTCLIENT_PERSISTENCE_ERROR, fs)
         else let (e, fs') = unlink file fs in
           (if e = None \<or> e = Some ENOENT then 0 else MQTTCLIENT_PERSISTENCE_ERROR, fs'))"

fun fwrite_loop :: "string \<Rightarrow> bytes list \<Rightarrow> nat \<Rightarrow> nat \<Rightarrow> filesys \<Rightarrow> nat \<times> nat \<times> filesys" where
  "fwrite_loop file [] written tot fs = (written, tot, fs)"
| "fwrite_loop file (b # bs) written tot fs =
     (let (w, fs') = fwrite file b fs in fwrite_loop file bs (written + w) (tot + length b) fs')"

definition pstput :: "heap \<Rightarrow> handle option \<Rightarrow> key \<Rightarrow> bytes list \<Rightarrow> filesys \<Rightarrow> int \<times> filesys" where
  "pstput H handle key buffers fs =
     (case handle of
        None \<Rightarrow> (MQTTCLIENT_PERSISTENCE_ERROR, fs)
      | Some clientDir \<Rightarrow>
         let alloclen = path_alloc clientDir key;
             (file, n) = snprintf alloclen (message_path clientDir key) in
         if \<not> H (ReqBuffer alloclen) then (PAHO_MEMORY_ERROR, fs)
         else if n \<ge> alloclen then (MQTTCLIENT_PERSISTENCE_ERROR, fs)
         else
          let (rc, bytesWritten, bytesTotal, fs1) =
                (case fopen_write file fs of
                   None \<Rightarrow> (MQTTCLIENT_PERSISTENCE_ERROR, 0, 0, fs)
                 | Some fs' \<Rightarrow> (0, fwrite_loop file buffers 0 0 fs'))
          in if bytesWritten \<noteq> bytesTotal
             then (MQTTCLIENT_PERSISTENCE_ERROR, snd (pstremove H handle key fs1))
             else (rc, fs1))"

definition pstget :: "heap \<Rightarrow> handle option \<Rightarrow> key \<Rightarrow> filesys \<Rightarrow> int \<times> bytes \<times> filesys" where
  "pstget H handle key fs =
     (case handle of
        None \<Rightarrow> (MQTTCLIENT_PERSISTENCE_ERROR, [], fs)
      | Some clientDir \<Rightarrow>
         let alloclen = path_alloc clientDir key;
             (file, n) = snprintf alloclen (message_path clientDir key) in
         if \<not> H (ReqBuffer alloclen) then (PAHO_MEMORY_ERROR, [], fs)
         else if n \<ge> alloclen then (MQTTCLIENT_PERSISTENCE_ERROR, [], fs)
         else case map_of (fs_files fs) file of
             None \<Rightarrow> (MQTTCLIENT_PERSISTENCE_ERROR, [], fs)
           | Some content \<Rightarrow> if \<not> H (ReqBuffer (length content)) then (PAHO_MEMORY_ERROR, [], fs)
               else (0, content, fs))"

definition pstclose :: "handle option \<Rightarrow> filesys \<Rightarrow> int \<times> filesys" where
  "pstclose handle fs =
     (case handle of
        None \<Rightarrow> (MQTTCLIENT_PERSISTENCE_ERROR, fs)
      | Some clientDir \<Rightarrow>
         let (e, fs') = rmdir clientDir fs in
         (if e = None \<or> e = Some ENOENT \<or> e = Some ENOTEMPTY then 0
          else MQTTCLIENT_PERSISTENCE_ERROR, fs'))"

text \<open>
  \<^verbatim>\<open>containskeyUnix\<close>: 0 as soon as the name of a regular file, cut at the extension, is the
  key. The buffers for the names are allocated one at a time.
\<close>

fun contains_loop :: "heap \<Rightarrow> string \<Rightarrow> key \<Rightarrow> (string \<times> bool) list \<Rightarrow> int \<Rightarrow> int" where
  "contains_loop H dirname key [] notFound = notFound"
| "contains_loop H dirname key ((d_name, isreg) # es) notFound =
     (if notFound = 0 then notFound
      else let allocsize = length dirname + length d_name + 2 in
        if \<not> H (ReqBuffer allocsize) then PAHO_MEMORY_ERROR
        else if snd (snprintf allocsize (dirname @ ''/'' @ d_name)) \<ge> allocsize
        then MQTTCLIENT_PERSISTENCE_ERROR
        else if \<not> isreg then contains_loop H dirname key es notFound
        else if \<not> H (ReqBuffer (length d_name + 1)) then PAHO_MEMORY_ERROR
        else contains_loop H dirname key es (if cut_extension d_name = key then 0 else notFound))"

definition containskeyUnix :: "heap \<Rightarrow> string \<Rightarrow> key \<Rightarrow> filesys \<Rightarrow> int" where
  "containskeyUnix H dirname key fs =
     (case opendir dirname fs of
        None \<Rightarrow> MQTTCLIENT_PERSISTENCE_ERROR
      | Some es \<Rightarrow> contains_loop H dirname key es MQTTCLIENT_PERSISTENCE_ERROR)"

definition pstcontainskey :: "heap \<Rightarrow> handle option \<Rightarrow> key \<Rightarrow> filesys \<Rightarrow> int \<times> filesys" where
  "pstcontainskey H handle key fs =
     (case handle of None \<Rightarrow> (MQTTCLIENT_PERSISTENCE_ERROR, fs)
      | Some clientDir \<Rightarrow> (containskeyUnix H clientDir key fs, fs))"

text \<open>
  \<^verbatim>\<open>clearUnix\<close> examines and removes the name of each entry as it is, without the directory in
  front: it works on the files of that name in the working directory.
\<close>

fun clear_loop :: "(string \<times> bool) list \<Rightarrow> int \<Rightarrow> filesys \<Rightarrow> int \<times> filesys" where
  "clear_loop [] rc fs = (rc, fs)"
| "clear_loop ((d_name, isreg) # es) rc fs =
     (if rc \<noteq> 0 then (rc, fs)
      else if map_of (fs_files fs) d_name \<noteq> None
      then (let (e, fs') = unlink d_name fs in
            clear_loop es (if e \<noteq> None \<and> e \<noteq> Some ENOENT then MQTTCLIENT_PERSISTENCE_ERROR else rc) fs')
      else clear_loop es rc fs)"

definition clearUnix :: "string \<Rightarrow> filesys \<Rightarrow> int \<times> filesys" where
  "clearUnix dirname fs =
     (case opendir dirname fs of None \<Rightarrow> (MQTTCLIENT_PERSISTENCE_ERROR, fs)
      | Some es \<Rightarrow> clear_loop es 0 fs)"

definition pstclear :: "handle option \<Rightarrow> filesys \<Rightarrow> int \<times> filesys" where
  "pstclear handle fs =
     (case handle of None \<Rightarrow> (MQTTCLIENT_PERSISTENCE_ERROR, fs)
      | Some clientDir \<Rightarrow> clearUnix clientDir fs)"

text \<open>\<^verbatim>\<open>keysUnix\<close>: one pass counts the regular files, a second one copies their names.\<close>

fun count_keys :: "heap \<Rightarrow> string \<Rightarrow> (string \<times> bool) list \<Rightarrow> nat \<Rightarrow> int + nat" where
  "count_keys H dirname [] nfkeys = Inr nfkeys"
| "count_keys H dirname ((d_name, isreg) # es) nfkeys =
     (let allocsize = length dirname + length d_name + 2 in
      if \<not> H (ReqBuffer allocsize) then Inl PAHO_MEMORY_ERROR
      else if snd (snprintf allocsize (dirname @ ''/'' @ d_name)) \<ge> allocsize
      then Inl MQTTCLIENT_PERSISTENCE_ERROR
      else count_keys H dirname es (if isreg then nfkeys + 1 else nfkeys))"

fun copy_keys :: "heap \<Rightarrow> string \<Rightarrow> (string \<times> bool) list \<Rightarrow> key list \<Rightarrow> int + key list" where
  "copy_keys H dirname [] fkeys = Inr fkeys"
| "copy_keys H dirname ((d_name, isreg) # es) fkeys =
     (let allocsize = length dirname + length d_name + 2 in
      if \<not> H (ReqBuffer allocsize) then Inl PAHO_MEMORY_ERROR
      else if snd (snprintf allocsize (dirname @ ''/'' @ d_name)) \<ge> allocsize
      then Inl MQTTCLIENT_PERSISTENCE_ERROR
      else if \<not> isreg then copy_keys H dirname es fkeys
      else if \<not> H (ReqBuffer (length d_name + 1)) then Inl PAHO_MEMORY_ERROR
      else copy_keys H dirname es (fkeys @ [cut_extension d_name]))"

definition keysUnix :: "heap \<Rightarrow> string \<Rightarrow> filesys \<Rightarrow> int \<times> key list" where
  "keysUnix H dirname fs =
     (case opendir dirname fs of
        None \<Rightarrow> (MQTTCLIENT_PERSISTENCE_ERROR, [])
      | Some es \<Rightarrow> (case count_keys H dirname es 0 of
          Inl e \<Rightarrow> (e, [])
        | Inr nfkeys \<Rightarrow>
            if nfkeys = 0 then (0, [])
            else if \<not> H (ReqStruct ''keys'') then (PAHO_MEMORY_ERROR, [])
            else case copy_keys H dirname es [] of Inl e \<Rightarrow> (e, []) | Inr fkeys \<Rightarrow> (0, fkeys)))"

definition pstkeys :: "heap \<Rightarrow> handle option \<Rightarrow> filesys \<Rightarrow> int \<times> key list \<times> filesys" where
  "pstkeys H handle fs =
     (case handle of None \<Rightarrow> (MQTTCLIENT_PERSISTENCE_ERROR, [], fs)
      | Some clientDir \<Rightarrow> let (rc, ks) = keysUnix H clientDir fs in (rc, ks, fs))"

subsection \<open>The store behind a handle\<close>

definition good_key :: "key \<Rightarrow> bool" where
  "good_key k \<longleftrightarrow> CHR ''/'' \<notin> set k \<and> CHR ''.'' \<notin> set k"

text \<open>
  What the functions keep: the directory of the client exists, a path names one file, the files
  in the directory are records, and no directory has the name of a record.
\<close>

definition is_record :: "string \<Rightarrow> string \<Rightarrow> bool" where
  "is_record dir p =
     (case entry_of dir p of None \<Rightarrow> True
      | Some n \<Rightarrow> good_key (cut_extension n) \<and> n = cut_extension n @ MESSAGE_FILENAME_EXTENSION)"

definition store_ok :: "string \<Rightarrow> filesys \<Rightarrow> bool" where
  "store_ok dir fs \<longleftrightarrow> dir \<noteq> [] \<and> dir \<in> set (fs_dirs fs) \<and> distinct (map fst (fs_files fs)) \<and>
     (\<forall>p\<in>fst ` set (fs_files fs). is_record dir p) \<and>
     (\<forall>p\<in>set (fs_dirs fs). strstr p MESSAGE_FILENAME_EXTENSION = None)"

definition stored :: "string \<Rightarrow> filesys \<Rightarrow> key \<Rightarrow> bytes option" where
  "stored dir fs k = map_of (fs_files fs) (message_path dir k)"

lemma ext_simp: "MESSAGE_FILENAME_EXTENSION = [CHR ''.'', CHR ''m'', CHR ''s'', CHR ''g'']"
  by (simp add: MESSAGE_FILENAME_EXTENSION_def)

lemma strstr_key: "CHR ''.'' \<notin> set k \<Longrightarrow> strstr (k @ MESSAGE_FILENAME_EXTENSION) MESSAGE_FILENAME_EXTENSION = Some (length k)"
  by (induction k) (auto simp: ext_simp)

lemma strstr_suffix: "strstr (p @ needle) needle \<noteq> None"
proof (induction p)
  case Nil
  show ?case by (cases needle) auto
qed auto

lemma cut_extension_key [simp]: "good_key k \<Longrightarrow> cut_extension (k @ MESSAGE_FILENAME_EXTENSION) = k"
  by (simp add: cut_extension_def strstr_key good_key_def)

lemma message_path_inj [simp]: "message_path dir k = message_path dir k' \<longleftrightarrow> k = k'"
  by (simp add: message_path_def)

lemma parent_dir_message [simp]:
  assumes "good_key k" "dir \<noteq> []"
  shows "parent_dir (message_path dir k) = dir"
proof -
  let ?n = "k @ MESSAGE_FILENAME_EXTENSION"
  have "CHR ''/'' \<notin> set ?n" using assms(1) by (auto simp: good_key_def ext_simp)
  then have "dropWhile (\<lambda>c. c \<noteq> CHR ''/'') (rev ?n @ CHR ''/'' # rev dir) = CHR ''/'' # rev dir"
    by (subst dropWhile_append2) auto
  then show ?thesis using assms(2) by (simp add: parent_dir_def message_path_def)
qed

lemma entry_of_message [simp]:
  "good_key k \<Longrightarrow> entry_of dir (message_path dir k) = Some (k @ MESSAGE_FILENAME_EXTENSION)"
  by (auto simp: entry_of_def message_path_def good_key_def ext_simp)

lemma is_record_message: "good_key k \<Longrightarrow> is_record dir (message_path dir k)"
  by (simp add: is_record_def)

lemma message_path_no_dir:
  assumes "store_ok dir fs" shows "message_path dir k \<notin> set (fs_dirs fs)"
proof
  assume "message_path dir k \<in> set (fs_dirs fs)"
  with assms have "strstr (message_path dir k) MESSAGE_FILENAME_EXTENSION = None"
    by (auto simp: store_ok_def)
  then show False
    using strstr_suffix [of "dir @ ''/'' @ k" MESSAGE_FILENAME_EXTENSION] by (simp add: message_path_def)
qed

lemma message_path_length [simp]:
  "length (message_path dir k) < path_alloc dir k" "\<not> path_alloc dir k \<le> length (message_path dir k)"
  by (simp_all add: message_path_def path_alloc_def)

lemma snprintf_fits: "length t < n \<Longrightarrow> snprintf n t = (t, length t)"
  by (simp add: snprintf_def)

lemma fwrite_loop_ok:
  assumes "map_of (fs_files fs) p = Some old" "length old + length (concat bs) \<le> fs_quota fs"
  shows "\<exists>fs'. fwrite_loop p bs w t fs = (w + length (concat bs), t + length (concat bs), fs') \<and>
    (\<forall>q. map_of (fs_files fs') q = (if q = p then Some (old @ concat bs) else map_of (fs_files fs) q)) \<and>
    fs_dirs fs' = fs_dirs fs \<and> fs_quota fs' = fs_quota fs \<and>
    fst ` set (fs_files fs') = fst ` set (fs_files fs) \<and>
    (distinct (map fst (fs_files fs)) \<longrightarrow> distinct (map fst (fs_files fs')))"
  using assms
proof (induction bs arbitrary: fs old w t)
  case Nil
  then show ?case by auto
next
  case (Cons b bs)
  define fs1 where "fs1 = fs\<lparr>fs_files := AList.update p (old @ b) (fs_files fs)\<rparr>"
  have wr: "fwrite p b fs = (length b, fs1)"
    using Cons.prems by (simp add: fwrite_def fs1_def)
  have k: "fst ` set (fs_files fs1) = fst ` set (fs_files fs)"
    using Cons.prems(1) by (auto simp: fs1_def dom_update
        dest: map_of_SomeD intro: rev_image_eqI)
  have 1: "map_of (fs_files fs1) p = Some (old @ b)"
    "length (old @ b) + length (concat bs) \<le> fs_quota fs1"
    "distinct (map fst (fs_files fs)) \<longrightarrow> distinct (map fst (fs_files fs1))"
    using Cons.prems by (simp_all add: fs1_def update_conv' distinct_update)
  from Cons.IH [OF 1(1,2), of "w + length b" "t + length b"] wr 1(3) k show ?case
    by (auto simp: fs1_def update_conv' add.assoc split: if_splits)
qed

lemma pstput_ok:
  assumes "heap_total H" "store_ok dir fs" "good_key k" "length (concat bufs) \<le> fs_quota fs"
  shows "\<exists>fs'. pstput H (Some dir) k bufs fs = (0, fs') \<and> store_ok dir fs' \<and>
    (\<forall>k'. stored dir fs' k' = (if k' = k then Some (concat bufs) else stored dir fs k')) \<and>
    fs_quota fs' = fs_quota fs"
proof -
  let ?p = "message_path dir k"
  have dir: "dir \<noteq> []" "dir \<in> set (fs_dirs fs)" and d: "distinct (map fst (fs_files fs))"
    using assms(2) by (simp_all add: store_ok_def)
  define fs0 where "fs0 = fs\<lparr>fs_files := AList.update ?p [] (fs_files fs)\<rparr>"
  have open_ok: "fopen_write ?p fs = Some fs0"
    using message_path_no_dir [OF assms(2), of k] dir assms(3) by (simp add: fopen_write_def fs0_def)
  have keys0: "fst ` set (fs_files fs0) = insert ?p (fst ` set (fs_files fs))"
    by (simp add: fs0_def dom_update)
  have "map_of (fs_files fs0) ?p = Some []" "distinct (map fst (fs_files fs0))"
    using d by (simp_all add: fs0_def update_conv' distinct_update)
  with fwrite_loop_ok [of fs0 ?p "[]" bufs 0 0] assms(4) obtain fs' where
    w: "fwrite_loop ?p bufs 0 0 fs0 = (length (concat bufs), length (concat bufs), fs')"
    and m: "\<And>q. map_of (fs_files fs') q = (if q = ?p then Some (concat bufs) else map_of (fs_files fs0) q)"
    and r: "fs_dirs fs' = fs_dirs fs0" "fs_quota fs' = fs_quota fs0" "distinct (map fst (fs_files fs'))"
      "fst ` set (fs_files fs') = fst ` set (fs_files fs0)"
    by (auto simp: fs0_def)
  have "pstput H (Some dir) k bufs fs = (0, fs')"
    using assms(1) open_ok w by (simp add: pstput_def snprintf_fits not_le)
  moreover have "store_ok dir fs'"
    using assms(2,3) r keys0 by (simp add: store_ok_def is_record_message) (simp add: fs0_def)
  moreover have "stored dir fs' k' = (if k' = k then Some (concat bufs) else stored dir fs k')" for k'
    by (simp add: stored_def m fs0_def update_conv')
  ultimately show ?thesis using r(2) by (simp add: fs0_def)
qed

lemma pstget_ok:
  assumes "heap_total H"
  shows "pstget H (Some dir) k fs =
    (case stored dir fs k of None \<Rightarrow> (MQTTCLIENT_PERSISTENCE_ERROR, [], fs) | Some b \<Rightarrow> (0, b, fs))"
  using assms by (simp add: pstget_def snprintf_fits stored_def not_le split: option.split)

lemma pstremove_ok:
  assumes "heap_total H" "store_ok dir fs"
  shows "\<exists>fs'. pstremove H (Some dir) k fs = (0, fs') \<and> store_ok dir fs' \<and>
    (\<forall>k'. stored dir fs' k' = (if k' = k then None else stored dir fs k')) \<and> fs_quota fs' = fs_quota fs"
proof (cases "stored dir fs k = None")
  case True
  then have u: "unlink (message_path dir k) fs = (Some ENOENT, fs)"
    using message_path_no_dir [OF assms(2), of k] by (simp add: unlink_def stored_def)
  have "pstremove H (Some dir) k fs = (0, fs)"
    using assms(1) u by (simp add: pstremove_def snprintf_fits not_le)
  then show ?thesis using assms(2) True by auto
next
  case False
  define fs' where "fs' = fs\<lparr>fs_files := AList.delete (message_path dir k) (fs_files fs)\<rparr>"
  have u: "unlink (message_path dir k) fs = (None, fs')"
    using False by (simp add: unlink_def stored_def fs'_def)
  have "pstremove H (Some dir) k fs = (0, fs')"
    using assms(1) u by (simp add: pstremove_def snprintf_fits not_le)
  moreover have "store_ok dir fs'"
  proof -
    have "\<forall>p\<in>fst ` set (fs_files fs'). is_record dir p"
    proof
      fix p assume "p \<in> fst ` set (fs_files fs')"
      then have "p \<in> fst ` set (fs_files fs)"
        unfolding fs'_def using dom_delete_subset [of "message_path dir k" "fs_files fs"] by auto
      with assms(2) show "is_record dir p" by (auto simp: store_ok_def)
    qed
    moreover have "distinct (map fst (fs_files fs'))"
      using assms(2) by (simp add: store_ok_def fs'_def distinct_delete)
    ultimately show ?thesis using assms(2) by (simp add: store_ok_def fs'_def)
  qed
  ultimately show ?thesis by (auto simp: stored_def fs'_def delete_conv')
qed

lemma set_map_filter: "set (List.map_filter f xs) = {y. \<exists>x\<in>set xs. f x = Some y}"
  by (force simp: List.map_filter_def)

text \<open>The entries that are regular files, and the records among them.\<close>

lemma regular_entry_iff:
  assumes "store_ok dir fs"
  shows "(n, True) \<in> set (readdir dir fs) \<longleftrightarrow>
    (\<exists>k. good_key k \<and> n = k @ MESSAGE_FILENAME_EXTENSION \<and> stored dir fs k \<noteq> None)"
proof
  assume "(n, True) \<in> set (readdir dir fs)"
  then obtain p c where p: "(p, c) \<in> set (fs_files fs)" "entry_of dir p = Some n"
    by (auto simp: readdir_def set_map_filter)
  have "is_record dir p" using assms p(1) by (force simp: store_ok_def)
  with p(2) have n: "good_key (cut_extension n)" "n = cut_extension n @ MESSAGE_FILENAME_EXTENSION"
    by (simp_all add: is_record_def)
  from p(2) have "p = dir @ ''/'' @ n" by (simp add: entry_of_def Let_def split: if_splits)
  with n(2) have pk: "p = message_path dir (cut_extension n)" by (simp add: message_path_def)
  from p(1) have "map_of (fs_files fs) p \<noteq> None" unfolding map_of_eq_None_iff by force
  with pk have "stored dir fs (cut_extension n) \<noteq> None" by (simp add: stored_def)
  with n show "\<exists>k. good_key k \<and> n = k @ MESSAGE_FILENAME_EXTENSION \<and> stored dir fs k \<noteq> None" by blast
next
  assume "\<exists>k. good_key k \<and> n = k @ MESSAGE_FILENAME_EXTENSION \<and> stored dir fs k \<noteq> None"
  then obtain k where k: "good_key k" "n = k @ MESSAGE_FILENAME_EXTENSION" "stored dir fs k \<noteq> None" by blast
  then obtain c where "(message_path dir k, c) \<in> set (fs_files fs)"
    by (auto simp: stored_def dest: map_of_SomeD)
  with k show "(n, True) \<in> set (readdir dir fs)"
    by (auto simp: readdir_def set_map_filter intro!: bexI [of _ "(message_path dir k, c)"])
qed

lemma regular_key_iff:
  assumes "store_ok dir fs"
  shows "(\<exists>n. (n, True) \<in> set (readdir dir fs) \<and> cut_extension n = k) \<longleftrightarrow>
    good_key k \<and> stored dir fs k \<noteq> None"
proof
  assume "\<exists>n. (n, True) \<in> set (readdir dir fs) \<and> cut_extension n = k"
  then show "good_key k \<and> stored dir fs k \<noteq> None"
    by (auto simp: regular_entry_iff [OF assms])
next
  assume "good_key k \<and> stored dir fs k \<noteq> None"
  then show "\<exists>n. (n, True) \<in> set (readdir dir fs) \<and> cut_extension n = k"
    by (intro exI [of _ "k @ MESSAGE_FILENAME_EXTENSION"]) (auto simp: regular_entry_iff [OF assms])
qed

lemma snd_snprintf [simp]: "snd (snprintf n t) = length t"
  by (simp add: snprintf_def)

lemma contains_loop_0 [simp]: "contains_loop H dirname key es 0 = 0"
  by (cases es) auto

lemma contains_loop_ok:
  assumes "heap_total H" "notFound \<noteq> 0"
  shows "contains_loop H dirname key es notFound =
    (if \<exists>n. (n, True) \<in> set es \<and> cut_extension n = key then 0 else notFound)"
  using assms(1)
proof (induction es)
  case Nil
  then show ?case by simp
next
  case (Cons e es)
  obtain n r where e: "e = (n, r)" by force
  with Cons assms(2) show ?case by (auto simp: Let_def)
qed

lemma pstcontainskey_ok:
  assumes "heap_total H" "store_ok dir fs" "good_key k"
  shows "pstcontainskey H (Some dir) k fs =
    (if stored dir fs k \<noteq> None then 0 else MQTTCLIENT_PERSISTENCE_ERROR, fs)"
proof -
  have "(\<exists>n. (n, True) \<in> set (readdir dir fs) \<and> cut_extension n = k) \<longleftrightarrow> stored dir fs k \<noteq> None"
    using assms(3) by (simp add: regular_key_iff [OF assms(2)])
  moreover have "dir \<in> set (fs_dirs fs)" using assms(2) by (simp add: store_ok_def)
  ultimately show ?thesis
    using assms(1) by (simp add: pstcontainskey_def containskeyUnix_def opendir_def contains_loop_ok
        MQTTCLIENT_PERSISTENCE_ERROR_def)
qed

lemma count_keys_ok:
  "heap_total H \<Longrightarrow> count_keys H dirname es c = Inr (c + length (filter snd es))"
  by (induction es arbitrary: c) (auto simp: Let_def)

lemma copy_keys_ok:
  "heap_total H \<Longrightarrow> copy_keys H dirname es ks = Inr (ks @ map (cut_extension \<circ> fst) (filter snd es))"
  by (induction es arbitrary: ks) (auto simp: Let_def)

text \<open>No key is listed twice: an entry of the directory determines its path.\<close>

lemma distinct_keys:
  assumes "store_ok dir fs"
  shows "distinct (map (cut_extension \<circ> fst) (filter snd (readdir dir fs)))"
proof -
  let ?es = "filter (\<lambda>e. entry_of dir (fst e) \<noteq> None) (fs_files fs)"
  let ?f = "\<lambda>e. cut_extension (the (entry_of dir (fst e)))"
  have path: "fst e = message_path dir (?f e)" if "e \<in> set ?es" for e
  proof -
    from that obtain n where n: "entry_of dir (fst e) = Some n" and e: "e \<in> set (fs_files fs)" by auto
    from e assms have "is_record dir (fst e)" by (force simp: store_ok_def)
    with n have "n = cut_extension n @ MESSAGE_FILENAME_EXTENSION" by (simp add: is_record_def)
    moreover from n have "fst e = dir @ ''/'' @ n" by (simp add: entry_of_def Let_def split: if_splits)
    ultimately show ?thesis using n by (simp add: message_path_def)
  qed
  have d: "distinct (map fst (fs_files fs))" using assms by (simp add: store_ok_def)
  have "inj_on ?f (set ?es)"
  proof (rule inj_onI)
    fix x y assume xy: "x \<in> set ?es" "y \<in> set ?es" "?f x = ?f y"
    then have "fst x = fst y" using path [of x] path [of y] by metis
    moreover from this have "snd x = snd y"
      using xy(1,2) d by (cases x; cases y) (auto dest: eq_key_imp_eq_value)
    ultimately show "x = y" by (rule prod_eqI)
  qed
  moreover have "distinct ?es" using d by (simp add: distinct_map)
  ultimately have "distinct (map ?f ?es)" by (simp add: distinct_map)
  then show ?thesis by (simp add: readdir_def List.map_filter_def comp_def filter_map)
qed

lemma pstkeys_ok:
  assumes "heap_total H" "store_ok dir fs"
  shows "\<exists>ks. pstkeys H (Some dir) fs = (0, ks, fs) \<and> distinct ks \<and>
    set ks = {k. good_key k \<and> stored dir fs k \<noteq> None}"
proof -
  define ks where "ks = map (cut_extension \<circ> fst) (filter snd (readdir dir fs))"
  have "pstkeys H (Some dir) fs = (0, ks, fs)"
    using assms by (auto simp: pstkeys_def keysUnix_def opendir_def store_ok_def count_keys_ok
        copy_keys_ok ks_def)
  moreover have "k \<in> set ks \<longleftrightarrow> good_key k \<and> stored dir fs k \<noteq> None" for k
  proof -
    have "k \<in> set ks \<longleftrightarrow> (\<exists>n. (n, True) \<in> set (readdir dir fs) \<and> cut_extension n = k)"
      by (force simp: ks_def)
    then show ?thesis by (simp add: regular_key_iff [OF assms(2)])
  qed
  moreover have "distinct ks" unfolding ks_def by (rule distinct_keys [OF assms(2)])
  ultimately show ?thesis by auto
qed

text \<open>Clearing works on the names in the working directory: no path with a slash is touched.\<close>

lemma clear_loop_slash:
  assumes "clear_loop es rc fs = (rc', fs')" "\<forall>(n, r)\<in>set es. CHR ''/'' \<notin> set n" "CHR ''/'' \<in> set p"
  shows "map_of (fs_files fs') p = map_of (fs_files fs) p \<and> (rc = 0 \<longrightarrow> rc' = 0)"
  using assms
proof (induction es rc fs rule: clear_loop.induct)
  case (2 n r es rc fs)
  show ?case
  proof (cases "rc = 0 \<and> map_of (fs_files fs) n \<noteq> None")
    case True
    obtain e fs1 where u: "unlink n fs = (e, fs1)" by force
    with True have e: "e = None" "fs1 = fs\<lparr>fs_files := AList.delete n (fs_files fs)\<rparr>"
      by (simp_all add: unlink_def)
    have np: "n \<noteq> p" using "2.prems" by auto
    from "2.prems" True u e have c: "clear_loop es 0 fs1 = (rc', fs')" by simp
    have "map_of (fs_files fs') p = map_of (fs_files fs1) p \<and> rc' = 0"
      using "2.IH"(1) [of "(e, fs1)" e fs1] True u e c "2.prems" by auto
    then show ?thesis using e np by simp
  next
    case False
    then show ?thesis using "2.prems" "2.IH"(2) by (cases "rc = 0") auto
  qed
qed simp

lemma entry_of_no_slash: "entry_of dir p = Some n \<Longrightarrow> CHR ''/'' \<notin> set n"
  by (auto simp: entry_of_def Let_def split: if_splits)

lemma readdir_no_slash: "(n, r) \<in> set (readdir dir fs) \<Longrightarrow> CHR ''/'' \<notin> set n"
  by (auto simp: readdir_def set_map_filter dest: entry_of_no_slash)

lemma pstclear_stored:
  assumes "store_ok dir fs"
  shows "\<exists>fs'. pstclear (Some dir) fs = (0, fs') \<and> (\<forall>k. stored dir fs' k = stored dir fs k)"
proof -
  obtain rc fs' where c: "clear_loop (readdir dir fs) 0 fs = (rc, fs')" by force
  have "stored dir fs' k = stored dir fs k \<and> rc = 0" for k
    using clear_loop_slash [OF c, of "message_path dir k"] readdir_no_slash [of _ _ dir fs]
    by (auto simp: stored_def message_path_def)
  then show ?thesis
    using assms c by (simp add: pstclear_def clearUnix_def opendir_def store_ok_def)
qed

subsection \<open>The interface of a persistence implementation\<close>

text \<open>
  What the library relies on of the functions of an \<open>MQTTClient_persistence\<close>, for one handle:
  \<open>content\<close> is the record of a key, \<open>ok\<close> the invariant of the store and \<open>fits\<close> what a put needs.
\<close>

locale persistent_store =
  fixes put :: "key \<Rightarrow> bytes list \<Rightarrow> 's \<Rightarrow> int \<times> 's"
    and get :: "key \<Rightarrow> 's \<Rightarrow> int \<times> bytes \<times> 's"
    and remove :: "key \<Rightarrow> 's \<Rightarrow> int \<times> 's"
    and contains :: "key \<Rightarrow> 's \<Rightarrow> int \<times> 's"
    and keys :: "'s \<Rightarrow> int \<times> key list \<times> 's"
    and ok :: "'s \<Rightarrow> bool"
    and fits :: "bytes list \<Rightarrow> 's \<Rightarrow> bool"
    and content :: "'s \<Rightarrow> key \<Rightarrow> bytes option"
  assumes put_law: "ok s \<Longrightarrow> good_key k \<Longrightarrow> fits bufs s \<Longrightarrow>
      \<exists>s'. put k bufs s = (0, s') \<and> ok s' \<and>
        (\<forall>k'. content s' k' = (if k' = k then Some (concat bufs) else content s k'))"
    and get_law: "ok s \<Longrightarrow> good_key k \<Longrightarrow>
      (case content s k of None \<Rightarrow> fst (get k s) \<noteq> 0 \<and> snd (snd (get k s)) = s
       | Some b \<Rightarrow> get k s = (0, b, s))"
    and remove_law: "ok s \<Longrightarrow> good_key k \<Longrightarrow>
      \<exists>s'. remove k s = (0, s') \<and> ok s' \<and>
        (\<forall>k'. content s' k' = (if k' = k then None else content s k'))"
    and contains_law: "ok s \<Longrightarrow> good_key k \<Longrightarrow>
      fst (contains k s) = 0 \<longleftrightarrow> content s k \<noteq> None" "ok s \<Longrightarrow> snd (contains k s) = s"
    and keys_law: "ok s \<Longrightarrow>
      \<exists>ks. keys s = (0, ks, s) \<and> distinct ks \<and> set ks = {k. good_key k \<and> content s k \<noteq> None}"
begin

lemma put_get:
  assumes "ok s" "good_key k" "fits bufs s"
  shows "\<exists>s'. put k bufs s = (0, s') \<and> ok s' \<and> get k s' = (0, concat bufs, s')"
  using put_law [OF assms] get_law [OF _ assms(2)] by fastforce

lemma put_get_other:
  assumes "ok s" "good_key k" "fits bufs s" "good_key k'" "k' \<noteq> k" "content s k' = Some b"
  shows "get k' (snd (put k bufs s)) = (0, b, snd (put k bufs s))"
proof -
  from put_law [OF assms(1-3)] obtain s' where s': "put k bufs s = (0, s')" "ok s'"
    "content s' k' = Some b" using assms(5,6) by auto
  from get_law [OF s'(2) assms(4)] s' show ?thesis by simp
qed

lemma put_contains_keys:
  assumes "ok s" "good_key k" "fits bufs s"
  shows "\<exists>s' ks. put k bufs s = (0, s') \<and> fst (contains k s') = 0 \<and> keys s' = (0, ks, s') \<and> k \<in> set ks"
proof -
  from put_law [OF assms] obtain s' where s': "put k bufs s = (0, s')" "ok s'"
    "content s' k = Some (concat bufs)" by auto
  from keys_law [OF s'(2)] obtain ks where "keys s' = (0, ks, s')"
    "set ks = {k. good_key k \<and> content s' k \<noteq> None}" by blast
  with s' contains_law(1) [OF s'(2) assms(2)] assms(2) show ?thesis by auto
qed

lemma remove_gone:
  assumes "ok s" "good_key k"
  shows "\<exists>s'. remove k s = (0, s') \<and> ok s' \<and> fst (get k s') \<noteq> 0 \<and> fst (contains k s') \<noteq> 0"
proof -
  from remove_law [OF assms] obtain s' where s': "remove k s = (0, s')" "ok s'" "content s' k = None"
    by auto
  from get_law [OF s'(2) assms(2)] contains_law(1) [OF s'(2) assms(2)] s' show ?thesis by simp
qed

lemma put_remove_content:
  assumes "ok s" "good_key k" "fits bufs s" "content s k = None"
  shows "\<exists>s1 s2. put k bufs s = (0, s1) \<and> remove k s1 = (0, s2) \<and> content s2 = content s"
proof -
  from put_law [OF assms(1-3)] obtain s1 where s1: "put k bufs s = (0, s1)" "ok s1"
    "\<And>k'. content s1 k' = (if k' = k then Some (concat bufs) else content s k')" by auto
  from remove_law [OF s1(2) assms(2)] obtain s2 where s2: "remove k s1 = (0, s2)"
    "\<And>k'. content s2 k' = (if k' = k then None else content s1 k')" by auto
  have "content s2 = content s" by (rule ext) (simp add: s1(3) s2(2) assms(4))
  with s1 s2 show ?thesis by auto
qed

end

interpretation pst: persistent_store "pstput (\<lambda>_. True) (Some dir)" "pstget (\<lambda>_. True) (Some dir)"
  "pstremove (\<lambda>_. True) (Some dir)" "pstcontainskey (\<lambda>_. True) (Some dir)" "pstkeys (\<lambda>_. True) (Some dir)"
  "store_ok dir" "\<lambda>bufs fs. length (concat bufs) \<le> fs_quota fs" "stored dir" for dir
proof unfold_locales
  fix s :: filesys and k :: key and bufs :: "bytes list"
  assume "store_ok dir s" "good_key k" "length (concat bufs) \<le> fs_quota s"
  from pstput_ok [OF heap_total_top this]
  show "\<exists>s'. pstput (\<lambda>_. True) (Some dir) k bufs s = (0, s') \<and> store_ok dir s' \<and>
      (\<forall>k'. stored dir s' k' = (if k' = k then Some (concat bufs) else stored dir s k'))" by blast
next
  fix s :: filesys and k :: key
  assume s: "store_ok dir s" and k: "good_key k"
  show "case stored dir s k of
      None \<Rightarrow> fst (pstget (\<lambda>_. True) (Some dir) k s) \<noteq> 0 \<and> snd (snd (pstget (\<lambda>_. True) (Some dir) k s)) = s
    | Some b \<Rightarrow> pstget (\<lambda>_. True) (Some dir) k s = (0, b, s)"
    by (simp add: pstget_ok MQTTCLIENT_PERSISTENCE_ERROR_def split: option.split)
  show "\<exists>s'. pstremove (\<lambda>_. True) (Some dir) k s = (0, s') \<and> store_ok dir s' \<and>
      (\<forall>k'. stored dir s' k' = (if k' = k then None else stored dir s k'))"
    using pstremove_ok [OF heap_total_top s, of k] by blast
  show "fst (pstcontainskey (\<lambda>_. True) (Some dir) k s) = 0 \<longleftrightarrow> stored dir s k \<noteq> None"
    by (simp add: pstcontainskey_ok [OF heap_total_top s k] MQTTCLIENT_PERSISTENCE_ERROR_def)
next
  fix s :: filesys and k :: key
  show "snd (pstcontainskey (\<lambda>_. True) (Some dir) k s) = s" by (simp add: pstcontainskey_def)
next
  fix s :: filesys
  assume "store_ok dir s"
  then show "\<exists>ks. pstkeys (\<lambda>_. True) (Some dir) s = (0, ks, s) \<and> distinct ks \<and>
      set ks = {k. good_key k \<and> stored dir s k \<noteq> None}"
    by (rule pstkeys_ok [OF heap_total_top])
qed

text \<open>The structure \<open>MQTTPersistence_create\<close> fills in.\<close>

definition default_persistence :: "heap \<Rightarrow> string \<Rightarrow> filesys MQTTClient_persistence" where
  "default_persistence H ctx =
     \<lparr>pcontext = ctx,
      popen = (\<lambda>clientID serverURI dir fs. case pstopen H clientID serverURI dir fs of
         Inl _ \<Rightarrow> (MQTTCLIENT_PERSISTENCE_ERROR, None, fs) | Inr r \<Rightarrow> r),
      pclose = pstclose, pput = pstput H, pget = pstget H, premove = pstremove H, pkeys = pstkeys H,
      pclear = pstclear, pcontainskey = pstcontainskey H\<rparr>"

lemma strtok_nonempty: "acc \<noteq> [] \<or> (\<exists>c\<in>set s. \<not> is_sep c) \<Longrightarrow> strtok acc s \<noteq> []"
  by (induction acc s rule: strtok.induct) auto

text \<open>The directory name contains a hyphen, so opening never meets a NULL token.\<close>

lemma pstopen_no_null: "\<exists>r. pstopen H clientID serverURI dataDir fs = Inr r"
proof -
  define uri where "uri = map (\<lambda>c. if c = CHR '':'' then CHR ''-'' else c) (chars_of serverURI)"
  define d where "d = dataDir @ ''/'' @ chars_of clientID @ ''-'' @ uri"
  have fits: "snprintf (length dataDir + length (chars_of clientID) + length uri + 3) d = (d, length d)"
    by (intro snprintf_fits) (simp add: d_def)
  obtain c cs where cs: "d = c # cs" by (cases d) (simp_all add: d_def)
  have "\<not> is_sep CHR ''-''" by (simp add: is_sep_def)
  moreover have "CHR ''-'' \<in> set d" by (simp add: d_def)
  ultimately have "(if is_sep c then strtok [] cs else strtok [] d) \<noteq> []"
    using strtok_nonempty [of "[]" cs] strtok_nonempty [of "[]" d] cs by auto
  then obtain lead t ts where tok:
    "(case d of [] \<Rightarrow> ([], []) | c # cs \<Rightarrow> if is_sep c then ([c], strtok [] cs) else ([], strtok [] d))
      = (lead, t # ts)"
    unfolding cs list.case by (metis neq_Nil_conv)
  show ?thesis
    unfolding pstopen_def Let_def uri_def [symmetric] d_def [symmetric] fits prod.case tok list.case
    by (auto split: prod.splits)
qed

subsection \<open>Claims\<close>

text \<open>
  C35: In the directory of a client, a record that \<^verbatim>\<open>pstput\<close> stores is what \<^verbatim>\<open>pstget\<close> returns: the
  concatenation of the buffers, under its key only, every other record unchanged; the key is
  found by \<^verbatim>\<open>pstcontainskey\<close> and listed by \<^verbatim>\<open>pstkeys\<close>.
\<close>

theorem default_store_put_get:
  assumes "store_ok dir fs" "good_key k" "length (concat bufs) \<le> fs_quota fs"
  shows "\<exists>fs' ks. pstput (\<lambda>_. True) (Some dir) k bufs fs = (0, fs') \<and> store_ok dir fs' \<and>
    pstget (\<lambda>_. True) (Some dir) k fs' = (0, concat bufs, fs') \<and>
    fst (pstcontainskey (\<lambda>_. True) (Some dir) k fs') = 0 \<and>
    pstkeys (\<lambda>_. True) (Some dir) fs' = (0, ks, fs') \<and> k \<in> set ks \<and>
    (\<forall>k'. k' \<noteq> k \<longrightarrow> stored dir fs' k' = stored dir fs k')"
  using pst.put_get [OF assms] pst.put_contains_keys [OF assms] pst.put_law [OF assms] by fastforce

definition sample_fs :: filesys where
  "sample_fs = \<lparr>fs_dirs = [''.'', ''./c-h''], fs_files = [(''./c-h/s-1.msg'', [7])], fs_quota = 1000\<rparr>"

lemma sample_fs_ok: "store_ok ''./c-h'' sample_fs"
  by (simp add: store_ok_def sample_fs_def is_record_def entry_of_def good_key_def cut_extension_def
      ext_simp Let_def)

theorem default_store_put_get_witness:
  "\<exists>fs'. pstput (\<lambda>_. True) (Some ''./c-h'') ''s-2'' [[1, 2], [3]] sample_fs = (0, fs') \<and>
    pstget (\<lambda>_. True) (Some ''./c-h'') ''s-2'' fs' = (0, [1, 2, 3], fs') \<and>
    stored ''./c-h'' fs' ''s-1'' = Some [7]"
proof -
  have "stored ''./c-h'' sample_fs ''s-1'' = Some [7]"
    by (simp add: stored_def sample_fs_def message_path_def ext_simp)
  with default_store_put_get [OF sample_fs_ok, of "''s-2''" "[[1, 2], [3]]"] show ?thesis
    by (auto simp: good_key_def sample_fs_def)
qed

text \<open>
  \<^verbatim>\<open>pstremove\<close> removes exactly the record of its key: it succeeds whether or not there is
  one, afterwards the key is neither found nor readable, and the other records are unchanged.
\<close>

theorem default_store_remove:
  assumes "store_ok dir fs" "good_key k"
  shows "\<exists>fs'. pstremove (\<lambda>_. True) (Some dir) k fs = (0, fs') \<and> store_ok dir fs' \<and>
    fst (pstget (\<lambda>_. True) (Some dir) k fs') \<noteq> 0 \<and>
    fst (pstcontainskey (\<lambda>_. True) (Some dir) k fs') \<noteq> 0 \<and>
    (\<forall>k'. k' \<noteq> k \<longrightarrow> stored dir fs' k' = stored dir fs k')"
  using pst.remove_gone [OF assms] pst.remove_law [OF assms] by fastforce

theorem default_store_remove_witness:
  "\<exists>fs'. pstremove (\<lambda>_. True) (Some ''./c-h'') ''s-1'' sample_fs = (0, fs') \<and>
    fst (pstget (\<lambda>_. True) (Some ''./c-h'') ''s-1'' fs') \<noteq> 0"
  using default_store_remove [OF sample_fs_ok, of "''s-1''"] by (auto simp: good_key_def)

text \<open>
  \<^verbatim>\<open>pstclear\<close> reports success and deletes nothing of the client's store: it looks the names of
  the entries up in the working directory, so every record is still there afterwards.
\<close>

theorem default_clear_keeps_records:
  assumes "store_ok dir fs"
  shows "\<exists>fs'. pstclear (Some dir) fs = (0, fs') \<and> (\<forall>k. stored dir fs' k = stored dir fs k)"
  using assms by (rule pstclear_stored)

theorem default_clear_keeps_records_witness:
  "\<exists>fs'. pstclear (Some ''./c-h'') sample_fs = (0, fs') \<and>
    stored ''./c-h'' fs' ''s-1'' = Some [7]"
proof -
  have "stored ''./c-h'' sample_fs ''s-1'' = Some [7]"
    by (simp add: stored_def sample_fs_def message_path_def ext_simp)
  with default_clear_keeps_records [OF sample_fs_ok] show ?thesis by auto
qed

end
