(* ===== verification/Store.thy ===== *)
theory Store
  imports DefaultStore "HOL-Library.Multiset"
begin

section \<open>Message persistence: \<^verbatim>\<open>src/include/MQTTPersistence.c\<close>\<close>

text \<open>
  Records of messages and queue entries in the persistent store of a client: the keys, writing
  and removing records, reading a packet or a queue entry back, and the order of restored
  messages. Restoring all packets of a client needs the message functions and is in theory \<open>Restore\<close>.
  Buffers are byte lists; a C \<^verbatim>\<open>int\<close> in a record is four bytes, least significant first.
\<close>

subsection \<open>Keys\<close>

definition PERSISTENCE_PUBLISH_SENT :: string where "PERSISTENCE_PUBLISH_SENT = ''s-''"
definition PERSISTENCE_PUBREL :: string where "PERSISTENCE_PUBREL = ''sc-''"
definition PERSISTENCE_PUBLISH_RECEIVED :: string where "PERSISTENCE_PUBLISH_RECEIVED = ''r-''"
definition PERSISTENCE_V5_PUBLISH_SENT :: string where "PERSISTENCE_V5_PUBLISH_SENT = ''s5-''"
definition PERSISTENCE_V5_PUBREL :: string where "PERSISTENCE_V5_PUBREL = ''sc5-''"
definition PERSISTENCE_V5_PUBLISH_RECEIVED :: string where "PERSISTENCE_V5_PUBLISH_RECEIVED = ''r5-''"
definition PERSISTENCE_COMMAND_KEY :: string where "PERSISTENCE_COMMAND_KEY = ''c-''"
definition PERSISTENCE_V5_COMMAND_KEY :: string where "PERSISTENCE_V5_COMMAND_KEY = ''c5-''"
definition PERSISTENCE_QUEUE_KEY :: string where "PERSISTENCE_QUEUE_KEY = ''q-''"
definition PERSISTENCE_V5_QUEUE_KEY :: string where "PERSISTENCE_V5_QUEUE_KEY = ''q5-''"
definition PERSISTENCE_MAX_KEY_LENGTH :: nat where "PERSISTENCE_MAX_KEY_LENGTH = 10"
definition PERSISTENCE_SEQNO_LIMIT :: nat where "PERSISTENCE_SEQNO_LIMIT = 1000000"
definition MAX_MSG_ID :: int where "MAX_MSG_ID = 65535"

lemmas stem_defs = PERSISTENCE_PUBLISH_SENT_def PERSISTENCE_PUBREL_def PERSISTENCE_PUBLISH_RECEIVED_def
  PERSISTENCE_V5_PUBLISH_SENT_def PERSISTENCE_V5_PUBREL_def PERSISTENCE_V5_PUBLISH_RECEIVED_def
  PERSISTENCE_COMMAND_KEY_def PERSISTENCE_V5_COMMAND_KEY_def PERSISTENCE_QUEUE_KEY_def
  PERSISTENCE_V5_QUEUE_KEY_def

definition keysize :: nat where
  "keysize = PERSISTENCE_MAX_KEY_LENGTH + 1"

text \<open>\<^verbatim>\<open>snprintf(key, keysize, "%s%d", stem, msgId)\<close>.\<close>

definition print_key :: "string \<Rightarrow> int \<Rightarrow> key \<times> nat" where
  "print_key stem msgId = snprintf keysize (stem @ show_int msgId)"

text \<open>\<^verbatim>\<open>strncmp(key, stem, strlen(stem)) == 0\<close>.\<close>

definition has_stem :: "key \<Rightarrow> string \<Rightarrow> bool" where
  "has_stem key stem \<longleftrightarrow> take (length stem) key = stem"

subsection \<open>Creating, closing and clearing\<close>

definition MQTTCLIENT_PERSISTENCE_DEFAULT :: int where "MQTTCLIENT_PERSISTENCE_DEFAULT = 0"
definition MQTTCLIENT_PERSISTENCE_NONE :: int where "MQTTCLIENT_PERSISTENCE_NONE = 1"
definition MQTTCLIENT_PERSISTENCE_USER :: int where "MQTTCLIENT_PERSISTENCE_USER = 2"

text \<open>
  What the untyped context pointer can be: NULL, a directory, or a structure of functions with
  a flag that says whether all its members are set.
\<close>

datatype context_ptr = CtxNull | CtxDir string | CtxUser bool "filesys MQTTClient_persistence"

definition MQTTPersistence_create ::
    "heap \<Rightarrow> int \<Rightarrow> context_ptr \<Rightarrow> int \<times> filesys MQTTClient_persistence option option" where
  "MQTTPersistence_create H type ctx =
     (if type = MQTTCLIENT_PERSISTENCE_NONE then (0, Some None)
      else if type = MQTTCLIENT_PERSISTENCE_DEFAULT then
        (if \<not> H (ReqStruct ''MQTTClient_persistence'') then (PAHO_MEMORY_ERROR, Some None)
         else let dir = (case ctx of CtxDir d \<Rightarrow> d | _ \<Rightarrow> ''.'') in
           if \<not> H (ReqBuffer (length dir + 1)) then (PAHO_MEMORY_ERROR, None)
           else (0, Some (Some (default_persistence H dir))))
      else if type = MQTTCLIENT_PERSISTENCE_USER then
        (case ctx of
           CtxUser complete per \<Rightarrow> (if complete then 0 else MQTTCLIENT_PERSISTENCE_ERROR, Some (Some per))
         | _ \<Rightarrow> (MQTTCLIENT_PERSISTENCE_ERROR, Some None))
      else (MQTTCLIENT_PERSISTENCE_ERROR, Some None))"

definition MQTTPersistence_close :: "'f Clients \<Rightarrow> 'f \<Rightarrow> int \<times> 'f Clients \<times> 'f" where
  "MQTTPersistence_close c fs =
     (case c_persistence c of
        None \<Rightarrow> (0, c, fs)
      | Some per \<Rightarrow> let (rc, fs') = pclose per (c_phandle c) fs in
          (rc, c\<lparr>c_phandle := None, c_persistence := None\<rparr>, fs'))"

definition MQTTPersistence_clear :: "'f Clients \<Rightarrow> 'f \<Rightarrow> int \<times> 'f" where
  "MQTTPersistence_clear c fs =
     (case c_persistence c of None \<Rightarrow> (0, fs) | Some per \<Rightarrow> pclear per (c_phandle c) fs)"

subsection \<open>Restoring one packet\<close>

text \<open>
  The length is decoded without a limit on the number of bytes: a fifth byte overflows the
  \<^verbatim>\<open>int\<close> multiplier, and the bytes are read whatever the length of the record is.
\<close>

function restore_len_loop :: "bytes \<Rightarrow> nat \<Rightarrow> int \<Rightarrow> int \<Rightarrow> int \<Rightarrow> ub + (nat \<times> int \<times> int)" where
  "restore_len_loop buf i rem multiplier hlen =
     (if length buf \<le> i + 1 then Inl OverRead
      else let c = buf ! (i + 1); rem' = rem + uint (c AND 127) * multiplier; multiplier' = multiplier * 128 in
        if rem' \<ge> 2 ^ 31 \<or> multiplier' \<ge> 2 ^ 31 then Inl IntOverflow
        else if c AND 128 \<noteq> 0 then restore_len_loop buf (i + 1) rem' multiplier' (hlen + 1)
        else Inr (i + 1, rem', hlen + 1))"
  by pat_completeness auto
termination by (relation "measure (\<lambda>(buf, i, _). length buf - i)") auto

declare restore_len_loop.simps [simp del]

definition MQTTPersistence_restorePacket ::
    "nat list_lib \<Rightarrow> heap \<Rightarrow> int \<Rightarrow> bytes \<Rightarrow> nat \<Rightarrow> ub + packet option" where
  "MQTTPersistence_restorePacket L H MQTTVersion buffer buflen =
     (if buffer = [] then Inl OverRead
      else ub_bind (restore_len_loop buffer 0 0 1 1) (\<lambda>(i, remaining_length, fixed_header_length).
        if fixed_header_length + remaining_length = int buflen
        then let ptype = hd_type (buffer ! 0) in
          if CONNECT \<le> ptype \<and> ptype \<le> DISCONNECT
          then (case new_packets ! ptype of
                  None \<Rightarrow> Inr None
                | Some f \<Rightarrow> call_pf f L H MQTTVersion (buffer ! 0) (drop (i + 1) buffer) (nat remaining_length))
          else Inr None
        else Inr None))"

subsection \<open>Order of messages\<close>

definition MQTTPersistence_insertInOrder :: "Messages list_lib \<Rightarrow> Messages list \<Rightarrow> Messages \<Rightarrow> Messages list" where
  "MQTTPersistence_insertInOrder L list content =
     ListInsert L list content (find_index (\<lambda>m. ms_msgid content < ms_msgid m) list)"

text \<open>
  \<^verbatim>\<open>MQTTPersistence_wrapMsgID\<close> looks for the largest gap between two consecutive ids; \<open>i\<close> is
  the position of the current element, \<open>prev\<close> the id before it.
\<close>

fun wrap_loop :: "int \<Rightarrow> int list \<Rightarrow> nat \<Rightarrow> int \<Rightarrow> nat option \<Rightarrow> nat option" where
  "wrap_loop prev [] i gap wrapel = wrapel"
| "wrap_loop prev (cur # ids) i gap wrapel =
     (if cur - prev > gap then wrap_loop cur ids (i + 1) (cur - prev) (Some i)
      else wrap_loop cur ids (i + 1) gap wrapel)"

definition MQTTPersistence_wrapMsgID :: "Messages list \<Rightarrow> Messages list" where
  "MQTTPersistence_wrapMsgID msgs =
     (case map ms_msgid msgs of
        [] \<Rightarrow> msgs
      | first # ids \<Rightarrow>
          (case wrap_loop first ids 1 (MAX_MSG_ID - last (first # ids) + first) None of
             None \<Rightarrow> msgs
           | Some w \<Rightarrow> drop w msgs @ take w msgs))"

definition MQTTPersistence_insertInSeqOrder ::
    "MQTTPersistence_qEntry list_lib \<Rightarrow> MQTTPersistence_qEntry list \<Rightarrow> MQTTPersistence_qEntry
      \<Rightarrow> MQTTPersistence_qEntry list" where
  "MQTTPersistence_insertInSeqOrder L list qEntry =
     ListInsert L list qEntry (find_index (\<lambda>q. qe_seqno qEntry < qe_seqno q) list)"

subsection \<open>Writing and removing records\<close>

text \<open>
  \<^verbatim>\<open>MQTTPersistence_putPacket\<close>: \<open>scr\<close> is 0 for the sending and 1 for the receiving direction; with
  another value the key would be used without being set.
\<close>

definition packet_stem :: "int \<Rightarrow> nat \<Rightarrow> int \<Rightarrow> string option" where
  "packet_stem scr htype MQTTVersion =
     (if scr = 0 then
        Some (if htype = PUBLISH
              then (if MQTTVersion \<ge> MQTTVERSION_5 then PERSISTENCE_V5_PUBLISH_SENT
                    else PERSISTENCE_PUBLISH_SENT)
              else if htype = PUBREL
              then (if MQTTVersion \<ge> MQTTVERSION_5 then PERSISTENCE_V5_PUBREL else PERSISTENCE_PUBREL)
              else PERSISTENCE_PUBLISH_SENT)
      else if scr = 1 then
        Some (if MQTTVersion \<ge> MQTTVERSION_5 then PERSISTENCE_V5_PUBLISH_RECEIVED
              else PERSISTENCE_PUBLISH_RECEIVED)
      else None)"

definition MQTTPersistence_putPacket ::
    "('n, 'f) env \<Rightarrow> int \<Rightarrow> bytes \<Rightarrow> bytes list \<Rightarrow> nat \<Rightarrow> int \<Rightarrow> int \<Rightarrow> int \<Rightarrow> ('n, 'f, 'z) sys_scheme
      \<Rightarrow> ub + (int \<times> ('n, 'f, 'z) sys_scheme)" where
  "MQTTPersistence_putPacket E socket buf0 buffers htype msgId scr MQTTVersion s =
     ub_bind (find_client E socket s) (\<lambda>i. let client = g_clients s ! i in
       case c_persistence client of
         None \<Rightarrow> Inr (0, s)
       | Some per \<Rightarrow>
          if \<not> e_heap E (ReqBuffer keysize) \<or> \<not> e_heap E (ReqStruct ''lens'') \<or> \<not> e_heap E (ReqStruct ''bufs'')
          then Inr (PAHO_MEMORY_ERROR, s)
          else (case packet_stem scr htype MQTTVersion of
             None \<Rightarrow> Inl UninitRead
           | Some stem \<Rightarrow>
              let (key, n) = print_key stem msgId;
                  bufs = buf0 # buffers;
                  rc = (if n \<ge> keysize then MQTTCLIENT_PERSISTENCE_ERROR else 0);
                  (rc, bufs, fs) = (case c_beforeWrite client of
                      Some cb \<Rightarrow> if rc = 0 then cb bufs (g_fs s) else (rc, bufs, g_fs s)
                    | None \<Rightarrow> (rc, bufs, g_fs s));
                  (rc, fs) = (if rc = 0 then pput per (c_phandle client) key bufs fs else (rc, fs))
              in Inr (rc, s\<lparr>g_fs := fs\<rparr>)))"

text \<open>
  \<^verbatim>\<open>MQTTPersistence_remove\<close> removes the keys of a list in turn, adding the results; a key that is
  too long ends it.
\<close>

fun remove_keys :: "'f MQTTClient_persistence \<Rightarrow> handle option \<Rightarrow> string list \<Rightarrow> int \<Rightarrow> int \<Rightarrow> 'f \<Rightarrow> int \<times> 'f" where
  "remove_keys per h [] msgId rc fs = (rc, fs)"
| "remove_keys per h (stem # stems) msgId rc fs =
     (let (key, n) = print_key stem msgId in
      if n \<ge> keysize then (MQTTCLIENT_PERSISTENCE_ERROR, fs)
      else let (r, fs') = premove per h key fs in remove_keys per h stems msgId (rc + r) fs')"

definition MQTTPersistence_remove :: "heap \<Rightarrow> 'f Clients \<Rightarrow> string \<Rightarrow> int \<Rightarrow> 'f \<Rightarrow> int \<times> 'f" where
  "MQTTPersistence_remove H c type msgId fs =
     (case c_persistence c of
        None \<Rightarrow> (0, fs)
      | Some per \<Rightarrow>
         if \<not> H (ReqBuffer keysize) then (PAHO_MEMORY_ERROR, fs)
         else if type = PERSISTENCE_PUBLISH_SENT \<or> type = PERSISTENCE_V5_PUBLISH_SENT
         then remove_keys per (c_phandle c) [PERSISTENCE_V5_PUBLISH_SENT, PERSISTENCE_V5_PUBREL,
                PERSISTENCE_PUBLISH_SENT, PERSISTENCE_PUBREL] msgId 0 fs
         else remove_keys per (c_phandle c) [PERSISTENCE_V5_PUBLISH_RECEIVED,
                PERSISTENCE_PUBLISH_RECEIVED] msgId 0 fs)"

subsection \<open>The message queue\<close>

text \<open>An \<^verbatim>\<open>int\<close> in memory.\<close>

definition int_bytes :: "int \<Rightarrow> bytes" where
  "int_bytes v =
     [word_of_int v, word_of_int (v div 256), word_of_int (v div 65536), word_of_int (v div 16777216)]"

definition read_int_mem :: "bytes \<Rightarrow> nat \<Rightarrow> ub + (int \<times> nat)" where
  "read_int_mem buf p =
     (if p + 3 < length buf
      then let v = uint (buf ! p) + 256 * uint (buf ! (p + 1)) + 65536 * uint (buf ! (p + 2))
             + 16777216 * uint (buf ! (p + 3))
           in Inr (if v < 2147483648 then v else v - 4294967296, p + 4)
      else Inl OverRead)"

text \<open>\<^verbatim>\<open>snprintf(key, KEYSIZE, "%s%u", stem, seqno)\<close>.\<close>

definition print_queue_key :: "string \<Rightarrow> nat \<Rightarrow> key \<times> nat" where
  "print_queue_key stem seqno = snprintf keysize (stem @ show_nat seqno)"

definition MQTTPersistence_unpersistQueueEntry ::
    "'f Clients \<Rightarrow> MQTTPersistence_qEntry \<Rightarrow> 'f \<Rightarrow> ub + (int \<times> 'f)" where
  "MQTTPersistence_unpersistQueueEntry client qe fs =
     (let (key, chars) = print_queue_key (if c_MQTTVersion client \<ge> MQTTVERSION_5
            then PERSISTENCE_V5_QUEUE_KEY else PERSISTENCE_QUEUE_KEY) (qe_seqno qe) in
      if chars \<ge> keysize then Inr (MQTTCLIENT_PERSISTENCE_ERROR, fs)
      else case c_persistence client of
          None \<Rightarrow> Inl NullDeref
        | Some per \<Rightarrow> Inr (premove per (c_phandle client) key fs))"

text \<open>The buffers of an entry before the properties.\<close>

definition entry_buffers :: "MQTTPersistence_qEntry \<Rightarrow> ub + bytes list" where
  "entry_buffers qe =
     (let m = qe_msg qe in
      ub_bind (memcpy_src (pm_payload m) (pm_payloadlen m)) (\<lambda>payload.
        Inr [int_bytes (pm_payloadlen m), payload, int_bytes (pm_qos m), int_bytes (pm_retained m),
             int_bytes (pm_dup m), int_bytes (pm_msgid m), c_str (qe_topicName qe) @ [0],
             int_bytes (qe_topicLen qe)]))"

text \<open>
  \<^verbatim>\<open>MQTTPersistence_persistQueueEntry\<close>. In version 5 the result of \<^verbatim>\<open>MQTTProperties_write\<close> is left
  in \<open>rc\<close>; the number of bytes it writes has to be the size of the buffer.
\<close>

definition entry_props ::
    "heap \<Rightarrow> MQTTPersistence_qEntry \<Rightarrow> ub + (int \<times> bytes) option" where
  "entry_props H qe =
     (let props = (if pm_struct_version (qe_msg qe) \<ge> 1 then pm_properties (qe_msg qe)
            else MQTTProperties_initializer);
          temp_len = size_t_of (MQTTProperties_len (Some props)) in
      if \<not> H (ReqBuffer temp_len) then Inr None
      else ub_bind (MQTTProperties_write (Some props)) (\<lambda>(rc, b).
        if temp_len < length b then Inl OverWrite
        else if length b < temp_len then Inl UninitRead
        else Inr (Some (rc, b))))"

definition next_seqno :: "'f Clients \<Rightarrow> nat" where
  "next_seqno client =
     (let seqno = (c_qentry_seqno client + 1) mod 2 ^ 32 in
      if seqno = PERSISTENCE_SEQNO_LIMIT then 0 else seqno)"

definition MQTTPersistence_persistQueueEntry ::
    "heap \<Rightarrow> 'f Clients \<Rightarrow> MQTTPersistence_qEntry \<Rightarrow> 'f
      \<Rightarrow> ub + (int \<times> 'f Clients \<times> MQTTPersistence_qEntry \<times> 'f)" where
  "MQTTPersistence_persistQueueEntry H client qe fs =
     ub_bind (entry_buffers qe) (\<lambda>bufs.
       let seqno = next_seqno client;
           client = client\<lparr>c_qentry_seqno := seqno\<rparr>;
           v5 = (c_MQTTVersion client \<ge> MQTTVERSION_5)
       in
       ub_bind (if v5 then entry_props H qe else Inr (Some (0, []))) (\<lambda>r. case r of
         None \<Rightarrow> Inr (PAHO_MEMORY_ERROR, client, qe, fs)
       | Some (rc, props) \<Rightarrow>
          let bufs = (if v5 then bufs @ [props] else bufs);
              (key, chars) = print_queue_key (if v5 then PERSISTENCE_V5_QUEUE_KEY
                else PERSISTENCE_QUEUE_KEY) seqno
          in
          if chars \<ge> keysize then Inr (MQTTCLIENT_PERSISTENCE_ERROR, client, qe, fs)
          else
           let qe = qe\<lparr>qe_seqno := seqno\<rparr>;
               (rc, bufs, fs) = (case c_beforeWrite client of
                   None \<Rightarrow> (rc, bufs, fs) | Some cb \<Rightarrow> cb bufs fs)
           in
           if rc \<noteq> 0 then Inr (rc, client, qe, fs)
           else (case c_persistence client of
               None \<Rightarrow> Inl NullDeref
             | Some per \<Rightarrow> let (rc, fs) = pput per (c_phandle client) key bufs fs
                 in Inr (rc, client, qe, fs))))"

text \<open>
  \<^verbatim>\<open>MQTTPersistence_restoreQueueEntry\<close> trusts the record: every read is checked against the
  buffer here. A payload length that is negative asks for a size that \<^verbatim>\<open>size_t_of\<close> gives.
\<close>

definition read_c_string :: "bytes \<Rightarrow> nat \<Rightarrow> ub + (bytes \<times> nat)" where
  "read_c_string buf p =
     (let s = c_str (drop p buf) in
      if p + length s < length buf then Inr (s, p + length s + 1) else Inl OverRead)"

definition MQTTPersistence_restoreQueueEntry ::
    "heap \<Rightarrow> bytes \<Rightarrow> nat \<Rightarrow> int \<Rightarrow> ub + MQTTPersistence_qEntry option" where
  "MQTTPersistence_restoreQueueEntry H buffer buflen MQTTVersion =
     (if \<not> H (ReqStruct ''qEntry'') \<or> \<not> H (ReqStruct ''message'') then Inr None
      else ub_bind (read_int_mem buffer 0) (\<lambda>(payloadlen, p).
        let data_size = size_t_of payloadlen in
        if \<not> H (ReqBuffer data_size) then Inr None
        else ub_bind (memcpy_src (drop p buffer) (int data_size)) (\<lambda>payload. let p = p + data_size in
        ub_bind (read_int_mem buffer p) (\<lambda>(qos, p).
        ub_bind (read_int_mem buffer p) (\<lambda>(retained, p).
        ub_bind (read_int_mem buffer p) (\<lambda>(dup, p).
        ub_bind (read_int_mem buffer p) (\<lambda>(msgid, p).
        ub_bind (read_c_string buffer p) (\<lambda>(topicName, p).
        if \<not> H (ReqBuffer (length topicName + 1)) then Inr None
        else ub_bind (read_int_mem buffer p) (\<lambda>(topicLen, p).
        ub_bind (if MQTTVersion \<ge> MQTTVERSION_5
                 then MQTTProperties_read H MQTTProperties_initializer buffer p buflen
                 else Inr (1, MQTTProperties_initializer, p)) (\<lambda>(_, props, _).
          Inr (Some \<lparr>qe_msg = \<lparr>pm_struct_version = 1, pm_payloadlen = payloadlen, pm_payload = payload,
              pm_qos = qos, pm_retained = retained, pm_dup = dup, pm_msgid = msgid, pm_properties = props\<rparr>,
            qe_topicName = topicName, qe_topicLen = topicLen, qe_seqno = 0\<rparr>)))))))))))"

text \<open>\<^verbatim>\<open>strchr(key, '-') + 1\<close>.\<close>

definition after_hyphen :: "key \<Rightarrow> string option" where
  "after_hyphen key =
     (case dropWhile (\<lambda>c. c \<noteq> CHR ''-'') key of [] \<Rightarrow> None | _ # cs \<Rightarrow> Some cs)"

text \<open>
  The loop of \<^verbatim>\<open>MQTTPersistence_restoreMessageQueue\<close> over the keys; a key that is not of a queue
  entry is skipped, an error ends the loop.
\<close>

fun restore_queue_loop ::
    "MQTTPersistence_qEntry list_lib \<Rightarrow> heap \<Rightarrow> 'f MQTTClient_persistence \<Rightarrow> key list \<Rightarrow> int \<Rightarrow> 'f Clients
      \<Rightarrow> 'f \<Rightarrow> ub + (int \<times> 'f Clients \<times> 'f)" where
  "restore_queue_loop L H per [] rc c fs = Inr (rc, c, fs)"
| "restore_queue_loop L H per (key # keys) rc c fs =
     (if rc \<noteq> 0 then Inr (rc, c, fs)
      else if \<not> has_stem key PERSISTENCE_QUEUE_KEY \<and> \<not> has_stem key PERSISTENCE_V5_QUEUE_KEY
      then restore_queue_loop L H per keys rc c fs
      else
       let (rc, buffer, fs) = pget per (c_phandle c) key fs;
           (rc, buffer, fs) = (if rc \<noteq> 0 then (rc, buffer, fs) else case c_afterRead c of
               None \<Rightarrow> (rc, buffer, fs) | Some cb \<Rightarrow> cb buffer fs)
       in
       if rc \<noteq> 0 then restore_queue_loop L H per keys rc c fs
       else ub_bind (MQTTPersistence_restoreQueueEntry H buffer (length buffer)
              (if has_stem key PERSISTENCE_V5_QUEUE_KEY then MQTTVERSION_5 else MQTTVERSION_3_1_1))
         (\<lambda>r. case r of
            None \<Rightarrow> restore_queue_loop L H per keys rc c fs
          | Some qe \<Rightarrow> (case after_hyphen key of
              None \<Rightarrow> Inl NullDeref
            | Some digits \<Rightarrow>
               let qe = qe\<lparr>qe_seqno := nat (atoi digits mod 2 ^ 32)\<rparr> in
               restore_queue_loop L H per keys rc
                 (c\<lparr>c_messageQueue := MQTTPersistence_insertInSeqOrder L (c_messageQueue c) qe,
                    c_qentry_seqno := max (c_qentry_seqno c) (qe_seqno qe)\<rparr>) fs)))"

definition MQTTPersistence_restoreMessageQueue ::
    "MQTTPersistence_qEntry list_lib \<Rightarrow> heap \<Rightarrow> 'f Clients \<Rightarrow> 'f \<Rightarrow> ub + (int \<times> 'f Clients \<times> 'f)" where
  "MQTTPersistence_restoreMessageQueue L H c fs =
     (case c_persistence c of
        None \<Rightarrow> Inr (0, c, fs)
      | Some per \<Rightarrow>
         let (rc, keys, fs) = pkeys per (c_phandle c) fs in
         if rc \<noteq> 0 then Inr (rc, c, fs) else restore_queue_loop L H per keys rc c fs)"

subsection \<open>Facts about keys\<close>

definition stems :: "string list" where
  "stems = [PERSISTENCE_PUBLISH_SENT, PERSISTENCE_PUBREL, PERSISTENCE_PUBLISH_RECEIVED,
     PERSISTENCE_V5_PUBLISH_SENT, PERSISTENCE_V5_PUBREL, PERSISTENCE_V5_PUBLISH_RECEIVED,
     PERSISTENCE_COMMAND_KEY, PERSISTENCE_V5_COMMAND_KEY, PERSISTENCE_QUEUE_KEY,
     PERSISTENCE_V5_QUEUE_KEY]"

lemma has_stem_iff: "a \<in> set stems \<Longrightarrow> b \<in> set stems \<Longrightarrow> has_stem (a @ cs) b \<longleftrightarrow> a = b"
  by (auto simp: stems_def stem_defs has_stem_def)

lemma stem_facts: "a \<in> set stems \<Longrightarrow> length a \<le> 4 \<and> good_key a"
  by (auto simp: stems_def stem_defs good_key_def)

lemma good_key_append [simp]: "good_key (a @ b) \<longleftrightarrow> good_key a \<and> good_key b"
  by (auto simp: good_key_def)

lemma good_key_show_nat [simp]: "good_key (show_nat n)"
  using show_nat_digits [of "CHR ''/''" n] show_nat_digits [of "CHR ''.''" n]
  by (auto simp: good_key_def is_digit_def)

lemma good_key_show_int [simp]: "good_key (show_int n)"
proof -
  have "good_key [CHR ''-'']" by (simp add: good_key_def)
  then show ?thesis
    using good_key_append [of "[CHR ''-'']" "show_nat (nat (- n))"] by (simp add: show_int_def)
qed

lemma msgId_length: "0 \<le> msgId \<Longrightarrow> msgId \<le> MAX_MSG_ID \<Longrightarrow> length (show_int msgId) \<le> 5"
  using show_nat_length [of 5 "nat msgId"] by (simp add: show_int_nonneg MAX_MSG_ID_def)

lemma print_key_ok:
  assumes "stem \<in> set stems" "0 \<le> msgId" "msgId \<le> MAX_MSG_ID"
  shows "print_key stem msgId = (stem @ show_int msgId, length (stem @ show_int msgId))"
    "length (stem @ show_int msgId) < keysize" "good_key (stem @ show_int msgId)"
  using stem_facts [OF assms(1)] msgId_length [OF assms(2,3)]
  by (simp_all add: print_key_def snprintf_fits keysize_def PERSISTENCE_MAX_KEY_LENGTH_def)

lemma key_inj:
  assumes "a \<in> set stems" "b \<in> set stems" "a @ show_int m = b @ show_int n"
  shows "a = b \<and> m = n"
proof -
  have "has_stem (b @ show_int n) b" by (simp add: has_stem_def)
  with assms have "a = b" using has_stem_iff [OF assms(1,2), of "show_int m"] by simp
  with assms(3) show ?thesis by (auto dest: show_int_inj)
qed

lemma packet_stem_in: "packet_stem scr htype v = Some stem \<Longrightarrow> stem \<in> set stems"
  by (auto simp: packet_stem_def stems_def split: if_splits)

subsection \<open>Facts about the order of messages\<close>

lemma insertInOrder_eq:
  assumes "list_lib_ok L"
  shows "MQTTPersistence_insertInOrder L xs m =
    takeWhile (\<lambda>x. ms_msgid x \<le> ms_msgid m) xs @ m # dropWhile (\<lambda>x. ms_msgid x \<le> ms_msgid m) xs"
proof (cases "find_index (\<lambda>x. ms_msgid m < ms_msgid x) xs")
  case None
  then have a: "\<forall>x\<in>set xs. ms_msgid x \<le> ms_msgid m" by (auto simp: find_index_None)
  then have t: "takeWhile (\<lambda>x. ms_msgid x \<le> ms_msgid m) xs = xs"
    "dropWhile (\<lambda>x. ms_msgid x \<le> ms_msgid m) xs = []"
    by (simp_all add: takeWhile_eq_all_conv dropWhile_eq_Nil_conv)
  show ?thesis unfolding MQTTPersistence_insertInOrder_def None list_libD(2) [OF assms] t ..
next
  case (Some i)
  from find_index_Some [OF this] have i: "i < length xs" "ms_msgid m < ms_msgid (xs ! i)"
    "\<forall>j<i. ms_msgid (xs ! j) \<le> ms_msgid m" by auto
  then have "takeWhile (\<lambda>x. ms_msgid x \<le> ms_msgid m) xs = take i xs"
    by (intro takeWhile_eq_take_P_nth) auto
  moreover from this have "dropWhile (\<lambda>x. ms_msgid x \<le> ms_msgid m) xs = drop i xs"
    using i(1) by (metis dropWhile_eq_drop length_take min.absorb2 less_imp_le)
  ultimately show ?thesis
    using Some i(1) by (simp add: MQTTPersistence_insertInOrder_def list_libD [OF assms])
qed

lemma sorted_insert_key:
  assumes "sorted (map f xs)"
  shows "sorted (map f (takeWhile (\<lambda>x. f x \<le> f m) xs @ m # dropWhile (\<lambda>x. f x \<le> f m) xs))"
  using assms
proof (induction xs)
  case (Cons x xs)
  then show ?case
    by (cases "f x \<le> f m") (fastforce dest: set_takeWhileD set_dropWhileD)+
qed simp

text \<open>The gap before the element at position \<open>i\<close>, going round at the start.\<close>

definition gap_before :: "int list \<Rightarrow> nat \<Rightarrow> int" where
  "gap_before ids i = (if i = 0 then MAX_MSG_ID - last ids + hd ids else ids ! i - ids ! (i - 1))"

lemma wrap_loop_max:
  assumes "i = length done" "ids = done @ rest" "done \<noteq> []"
    and "w < i" "\<forall>j<i. gap_before ids j \<le> gap_before ids w"
    and "wrapel = (if w = 0 then None else Some w)"
  shows "\<exists>v<length ids. wrap_loop (last done) rest i (gap_before ids w) wrapel = (if v = 0 then None else Some v)
    \<and> (\<forall>j<length ids. gap_before ids j \<le> gap_before ids v)"
  using assms
proof (induction rest arbitrary: "done" i w wrapel)
  case Nil
  then show ?case by auto
next
  case (Cons cur rest)
  have prev: "ids ! (i - 1) = last done" and cur: "ids ! i = cur" and i: "0 < i"
    using Cons.prems(1-3) by (auto simp: last_conv_nth nth_append)
  then have g: "gap_before ids i = cur - last done" by (simp add: gap_before_def)
  show ?case
  proof (cases "cur - last done > gap_before ids w")
    case True
    have "\<forall>j<i + 1. gap_before ids j \<le> gap_before ids i"
      using Cons.prems(5) True g by (auto simp: less_Suc_eq)
    with Cons.IH [of "i + 1" "done @ [cur]" i "Some i"] Cons.prems(1-3) i True g
    show ?thesis by simp
  next
    case False
    have "\<forall>j<i + 1. gap_before ids j \<le> gap_before ids w"
      using Cons.prems(5) False g by (auto simp: less_Suc_eq)
    with Cons.IH [of "i + 1" "done @ [cur]" w wrapel] Cons.prems(1-4,6) False
    show ?thesis by simp
  qed
qed

lemma wrapMsgID_rotates:
  assumes "msgs \<noteq> []"
  shows "\<exists>w<length msgs. MQTTPersistence_wrapMsgID msgs = drop w msgs @ take w msgs \<and>
    (\<forall>j<length msgs. gap_before (map ms_msgid msgs) j \<le> gap_before (map ms_msgid msgs) w)"
proof -
  obtain first ids where ids: "map ms_msgid msgs = first # ids" using assms by (cases msgs) auto
  define all where "all = first # ids"
  have len: "length msgs = length all" using ids by (simp add: all_def flip: length_map [of ms_msgid])
  have g0: "gap_before all 0 = MAX_MSG_ID - last (first # ids) + first" by (simp add: gap_before_def all_def)
  from wrap_loop_max [of 1 "[first]" all ids 0 None] obtain v where
    v: "v < length all" "wrap_loop first ids 1 (gap_before all 0) None = (if v = 0 then None else Some v)"
      "\<forall>j<length all. gap_before all j \<le> gap_before all v" by (auto simp: all_def)
  have "MQTTPersistence_wrapMsgID msgs = drop v msgs @ take v msgs"
    using v(2) by (simp add: MQTTPersistence_wrapMsgID_def ids g0)
  with v len show ?thesis unfolding ids all_def [symmetric] by auto
qed

subsection \<open>Facts about packets and entries\<close>

lemma restore_len_step:
  assumes "i + 1 < length buf" "c = buf ! (i + 1)" "rem + uint (c AND 127) * multiplier < 2 ^ 31" "multiplier * 128 < 2 ^ 31"
  shows "restore_len_loop buf i rem multiplier hlen =
    (if c AND 128 \<noteq> 0 then restore_len_loop buf (i + 1) (rem + uint (c AND 127) * multiplier) (multiplier * 128) (hlen + 1)
     else Inr (i + 1, rem + uint (c AND 127) * multiplier, hlen + 1))"
  using assms by (subst restore_len_loop.simps) (simp add: Let_def)

lemma restore_len_vbi:
  assumes "k + length (vbi n) \<le> 4" "rem + int (n * 128 ^ k) < 2 ^ 31"
  shows "restore_len_loop (pre @ x # vbi n @ post) (length pre) rem (128 ^ k) hlen =
    Inr (length pre + length (vbi n), rem + int (n * 128 ^ k), hlen + int (length (vbi n)))"
  using assms
proof (induction n arbitrary: k rem pre x hlen rule: less_induct)
  case (less n)
  let ?buf = "pre @ x # vbi n @ post"
  have "1 \<le> length (vbi n)" using vbi_nonempty [of n] by (cases "vbi n") auto
  then have k: "k < 4" using less.prems(1) by simp
  then have "(128::int) ^ Suc k \<le> 128 ^ 4" by (intro power_increasing) simp_all
  then have multiplier: "(128::int) ^ k * 128 < 2 ^ 31" by simp
  have m: "n mod 128 < 128" by simp
  show ?case
  proof (cases "n div 128 > 0")
    case False
    then have n: "n < 128" by (simp add: div_greater_zero_iff)
    then have vb: "vbi n = [word_of_nat n]" by (subst vbi_unfold) simp
    have c: "?buf ! (length pre + 1) = word_of_nat n" "length pre + 1 < length ?buf"
      by (simp_all add: vb nth_append)
    have u: "uint ((word_of_nat n :: byte) AND 127) = int n" using vbi_byte(1) [OF n] by (simp add: uint_nat)
    from restore_len_step [OF c(2) c(1) [symmetric], of rem "128 ^ k" hlen] multiplier less.prems(2)
    show ?thesis using vbi_byte(2) [OF n] by (simp add: u vb)
  next
    case True
    let ?b = "word_of_nat (n mod 128) OR 128 :: byte"
    from True have vb: "vbi n = ?b # vbi (n div 128)" by (subst vbi_unfold) simp
    from True have lt: "n div 128 < n" by simp
    have u: "uint (?b AND 127) = int (n mod 128)" using vbi_byte(3) [OF m] by (simp add: uint_nat)
    have split: "int (n mod 128 * 128 ^ k) + int (n div 128 * 128 ^ Suc k) = int (n * 128 ^ k)"
      using vbi_split [of n k] by (metis of_nat_add)
    have c: "?buf ! (length pre + 1) = ?b" "length pre + 1 < length ?buf"
      by (simp_all add: vb nth_append)
    have small: "rem + int (n mod 128 * 128 ^ k) < 2 ^ 31"
      using less.prems(2) split by (smt (verit) of_nat_0_le_iff)
    have "restore_len_loop ?buf (length pre) rem (128 ^ k) hlen =
        restore_len_loop ((pre @ [x]) @ ?b # vbi (n div 128) @ post) (length (pre @ [x]))
          (rem + int (n mod 128 * 128 ^ k)) (128 ^ Suc k) (hlen + 1)"
      using restore_len_step [OF c(2) c(1) [symmetric], of rem "128 ^ k" hlen] multiplier small vbi_byte(4) [OF m]
      by (simp add: u vb mult.commute)
    also have "\<dots> = Inr (length (pre @ [x]) + length (vbi (n div 128)),
        rem + int (n mod 128 * 128 ^ k) + int (n div 128 * 128 ^ Suc k),
        hlen + 1 + int (length (vbi (n div 128))))"
      using less.prems split by (intro less.IH [OF lt]) (simp_all add: vb del: power_Suc)
    finally show ?thesis using split by (simp add: vb del: power_Suc)
  qed
qed

lemma restorePacket_frame:
  assumes "length body < 268435456"
  shows "MQTTPersistence_restorePacket L H v (header # vbi (length body) @ body)
      (length (header # vbi (length body) @ body)) =
    (if CONNECT \<le> hd_type header \<and> hd_type header \<le> DISCONNECT
     then case new_packets ! hd_type header of None \<Rightarrow> Inr None
       | Some f \<Rightarrow> call_pf f L H v header body (length body)
     else Inr None)"
proof -
  let ?b = "vbi (length body)"
  have r: "restore_len_loop (header # ?b @ body) 0 0 1 1 =
      Inr (length ?b, int (length body), 1 + int (length ?b))"
    using restore_len_vbi [of 0 "length body" 0 "[]" header body 1] length_vbi_4 [OF assms] assms by simp
  show ?thesis
    unfolding MQTTPersistence_restorePacket_def r ub_bind_simps by (simp add: Let_def split: option.split)
qed

lemma remove_keys_default:
  assumes "store_ok dir fs" "set ss \<subseteq> set stems" "0 \<le> msgId" "msgId \<le> MAX_MSG_ID"
  shows "\<exists>fs'. remove_keys (default_persistence (\<lambda>_. True) ctx) (Some dir) ss msgId rc fs = (rc, fs') \<and>
    store_ok dir fs' \<and> (\<forall>k. stored dir fs' k =
      (if \<exists>st\<in>set ss. k = st @ show_int msgId then None else stored dir fs k))"
  using assms(1,2)
proof (induction ss arbitrary: fs)
  case (Cons st ss)
  from print_key_ok [OF _ assms(3,4), of st] Cons.prems(2) have
    pk: "print_key st msgId = (st @ show_int msgId, length (st @ show_int msgId))"
      "\<not> length (st @ show_int msgId) \<ge> keysize" and g: "good_key (st @ show_int msgId)" by auto
  from pst.remove_law [OF Cons.prems(1) g] obtain fs1 where
    1: "pstremove (\<lambda>_. True) (Some dir) (st @ show_int msgId) fs = (0, fs1)" "store_ok dir fs1"
      "\<And>k. stored dir fs1 k = (if k = st @ show_int msgId then None else stored dir fs k)" by auto
  from Cons.IH [OF 1(2)] Cons.prems(2) obtain fs' where
    2: "remove_keys (default_persistence (\<lambda>_. True) ctx) (Some dir) ss msgId rc fs1 = (rc, fs')"
      "store_ok dir fs'"
      "\<And>k. stored dir fs' k = (if \<exists>st\<in>set ss. k = st @ show_int msgId then None else stored dir fs1 k)"
    by auto
  show ?case
    using pk 1 2 by (auto simp: default_persistence_def)
qed auto

lemma int_bytes_value:
  "uint (word_of_int v :: byte) + 256 * uint (word_of_int (v div 256) :: byte)
     + 65536 * uint (word_of_int (v div 65536) :: byte) + 16777216 * uint (word_of_int (v div 16777216) :: byte)
   = v mod 4294967296"
proof -
  have a: "v mod 4294967296 = 16777216 * (v div 16777216 mod 256) + v mod 16777216"
    using mod_mult2_eq' [of v 16777216 256] by simp
  have b: "v mod 16777216 = 65536 * (v div 65536 mod 256) + v mod 65536"
    using mod_mult2_eq' [of v 65536 256] by simp
  have c: "v mod 65536 = 256 * (v div 256 mod 256) + v mod 256"
    using mod_mult2_eq' [of v 256 256] by simp
  show ?thesis unfolding uint_byte_of_int a b c by simp
qed

lemma read_int_bytes:
  assumes "- 2147483648 \<le> v" "v < 2147483648"
  shows "read_int_mem (pre @ int_bytes v @ post) (length pre) = Inr (v, length pre + 4)"
proof -
  let ?u = "v mod 4294967296"
  have nth: "(pre @ int_bytes v @ post) ! length pre = word_of_int v"
    "(pre @ int_bytes v @ post) ! (length pre + 1) = word_of_int (v div 256)"
    "(pre @ int_bytes v @ post) ! (length pre + 2) = word_of_int (v div 65536)"
    "(pre @ int_bytes v @ post) ! (length pre + 3) = word_of_int (v div 16777216)"
    by (simp_all add: int_bytes_def nth_append)
  have l: "length pre + 3 < length (pre @ int_bytes v @ post)" by (simp add: int_bytes_def)
  have "(if ?u < 2147483648 then ?u else ?u - 4294967296) = v"
  proof (cases "0 \<le> v")
    case True
    with assms show ?thesis by simp
  next
    case False
    have "?u = (v + 4294967296) mod 4294967296" by simp
    also have "\<dots> = v + 4294967296" using assms False by (intro mod_pos_pos_trivial) simp_all
    finally show ?thesis using assms by simp
  qed
  with l show ?thesis by (simp only: read_int_mem_def nth int_bytes_value Let_def if_True)
qed

interpretation cint: codec int_bytes read_int_mem "\<lambda>v. - 2147483648 \<le> v \<and> v < 2147483648"
  by unfold_locales (use read_int_bytes in \<open>simp add: int_bytes_def\<close>)

lemma length_int_bytes [simp]: "length (int_bytes v) = 4"
  by (simp add: int_bytes_def)

lemma read_c_string_at:
  "0 \<notin> set s \<Longrightarrow> read_c_string (pre @ s @ 0 # post) (length pre) = Inr (s, length pre + length s + 1)"
  by (simp add: read_c_string_def)

text \<open>An entry as it is stored, and what reading it back gives.\<close>

definition entry_ok :: "MQTTPersistence_qEntry \<Rightarrow> bool" where
  "entry_ok qe \<longleftrightarrow>
     (let m = qe_msg qe; int_ok = (\<lambda>v. - 2147483648 \<le> v \<and> v < 2147483648) in
      pm_payloadlen m = int (length (pm_payload m)) \<and> int_ok (pm_payloadlen m) \<and> int_ok (pm_qos m) \<and>
      int_ok (pm_retained m) \<and> int_ok (pm_dup m) \<and> int_ok (pm_msgid m) \<and> int_ok (qe_topicLen qe) \<and>
      0 \<notin> set (qe_topicName qe))"

lemma entry_buffers_ok:
  "entry_ok qe \<Longrightarrow> entry_buffers qe = Inr [int_bytes (pm_payloadlen (qe_msg qe)), pm_payload (qe_msg qe),
     int_bytes (pm_qos (qe_msg qe)), int_bytes (pm_retained (qe_msg qe)), int_bytes (pm_dup (qe_msg qe)),
     int_bytes (pm_msgid (qe_msg qe)), qe_topicName qe @ [0], int_bytes (qe_topicLen qe)]"
  by (simp add: entry_buffers_def entry_ok_def memcpy_src_def Let_def)

lemma restoreQueueEntry_ok:
  assumes "heap_total H" "entry_ok qe" "entry_buffers qe = Inr bufs" "v < MQTTVERSION_5"
  shows "MQTTPersistence_restoreQueueEntry H (concat bufs) (length (concat bufs)) v =
    Inr (Some (qe\<lparr>qe_msg := (qe_msg qe)\<lparr>pm_struct_version := 1, pm_properties := MQTTProperties_initializer\<rparr>,
      qe_seqno := 0\<rparr>))"
proof -
  define m where "m = qe_msg qe"
  have oks: "pm_payloadlen m = int (length (pm_payload m))" "int (length (pm_payload m)) < 2147483648"
    "- 2147483648 \<le> pm_qos m" "pm_qos m < 2147483648"
    "- 2147483648 \<le> pm_retained m" "pm_retained m < 2147483648"
    "- 2147483648 \<le> pm_dup m" "pm_dup m < 2147483648"
    "- 2147483648 \<le> pm_msgid m" "pm_msgid m < 2147483648"
    "- 2147483648 \<le> qe_topicLen qe" "qe_topicLen qe < 2147483648" "0 \<notin> set (qe_topicName qe)"
    using assms(2) by (auto simp: entry_ok_def m_def Let_def)
  define pl where "pl = pm_payload m"
  let ?i = int_bytes
  define buf where "buf = ?i (pm_payloadlen m) @ pl @ ?i (pm_qos m) @ ?i (pm_retained m) @ ?i (pm_dup m) @
    ?i (pm_msgid m) @ qe_topicName qe @ 0 # ?i (qe_topicLen qe)"
  have cb: "concat bufs = buf"
    using assms(3) entry_buffers_ok [OF assms(2)] by (auto simp: m_def buf_def pl_def)
  have sz: "size_t_of (pm_payloadlen m) = length pl"
    using oks(1,2) by (simp add: size_t_of_def pl_def)
  have r0: "read_int_mem buf 0 = Inr (pm_payloadlen m, 4)"
    using read_int_bytes [of "pm_payloadlen m" "[]"] oks(1,2) by (simp add: buf_def)
  have mc: "memcpy_src (drop 4 buf) (int (length pl)) = Inr pl"
    by (simp add: buf_def memcpy_src_def)
  have r: "read_int_mem buf (4 + length pl) = Inr (pm_qos m, 8 + length pl)"
    "read_int_mem buf (8 + length pl) = Inr (pm_retained m, 12 + length pl)"
    "read_int_mem buf (12 + length pl) = Inr (pm_dup m, 16 + length pl)"
    "read_int_mem buf (16 + length pl) = Inr (pm_msgid m, 20 + length pl)"
    using read_int_bytes [of "pm_qos m" "?i (pm_payloadlen m) @ pl"]
      read_int_bytes [of "pm_retained m" "?i (pm_payloadlen m) @ pl @ ?i (pm_qos m)"]
      read_int_bytes [of "pm_dup m" "?i (pm_payloadlen m) @ pl @ ?i (pm_qos m) @ ?i (pm_retained m)"]
      read_int_bytes [of "pm_msgid m" "?i (pm_payloadlen m) @ pl @ ?i (pm_qos m) @ ?i (pm_retained m) @ ?i (pm_dup m)"]
      oks by (simp_all add: buf_def)
  have rs: "read_c_string buf (20 + length pl) = Inr (qe_topicName qe, 21 + length pl + length (qe_topicName qe))"
    using read_c_string_at [OF oks(13), of "?i (pm_payloadlen m) @ pl @ ?i (pm_qos m) @ ?i (pm_retained m) @ ?i (pm_dup m) @ ?i (pm_msgid m)" "?i (qe_topicLen qe)"]
    by (simp add: buf_def)
  have rl: "read_int_mem buf (21 + length pl + length (qe_topicName qe)) =
      Inr (qe_topicLen qe, 25 + length pl + length (qe_topicName qe))"
    using read_int_bytes [of "qe_topicLen qe" "?i (pm_payloadlen m) @ pl @ ?i (pm_qos m) @ ?i (pm_retained m) @ ?i (pm_dup m) @
      ?i (pm_msgid m) @ qe_topicName qe @ [0]" "[]"] oks by (simp add: buf_def add.assoc)
  have "MQTTPersistence_restoreQueueEntry H buf (length buf) v =
      Inr (Some \<lparr>qe_msg = \<lparr>pm_struct_version = 1, pm_payloadlen = pm_payloadlen m, pm_payload = pl,
        pm_qos = pm_qos m, pm_retained = pm_retained m, pm_dup = pm_dup m, pm_msgid = pm_msgid m,
        pm_properties = MQTTProperties_initializer\<rparr>, qe_topicName = qe_topicName qe,
        qe_topicLen = qe_topicLen qe, qe_seqno = 0\<rparr>)"
    using assms(1,4) by (simp add: MQTTPersistence_restoreQueueEntry_def r0 sz mc r rs rl Let_def)
  then show ?thesis by (simp add: cb m_def pl_def)
qed

subsection \<open>Claims\<close>

lemma putPacket_stored:
  assumes "find_client E socket s = Inr i" "heap_total (e_heap E)" "store_ok dir (g_fs s)"
    and "c_persistence (g_clients s ! i) = Some (default_persistence (\<lambda>_. True) ctx)"
    and "c_phandle (g_clients s ! i) = Some dir" "c_beforeWrite (g_clients s ! i) = None"
    and "packet_stem scr htype v = Some stem" "0 \<le> msgId" "msgId \<le> MAX_MSG_ID"
    and "length (concat (buf0 # buffers)) \<le> fs_quota (g_fs s)"
  shows "\<exists>fs'. MQTTPersistence_putPacket E socket buf0 buffers htype msgId scr v s = Inr (0, s\<lparr>g_fs := fs'\<rparr>) \<and>
    store_ok dir fs' \<and> (\<forall>k. stored dir fs' k =
      (if k = stem @ show_int msgId then Some (concat (buf0 # buffers)) else stored dir (g_fs s) k))"
proof -
  note pk = print_key_ok [OF packet_stem_in [OF assms(7)] assms(8,9)]
  from pst.put_law [OF assms(3) pk(3) assms(10)] obtain fs' where
    "pstput (\<lambda>_. True) (Some dir) (stem @ show_int msgId) (buf0 # buffers) (g_fs s) = (0, fs')"
    "store_ok dir fs'" "\<forall>k. stored dir fs' k =
      (if k = stem @ show_int msgId then Some (concat (buf0 # buffers)) else stored dir (g_fs s) k)" by auto
  with assms pk(1,2) show ?thesis
    by (intro exI [of _ fs']) (simp add: MQTTPersistence_putPacket_def default_persistence_def Let_def)
qed

text \<open>
  C24: A packet that \<^verbatim>\<open>MQTTPersistence_putPacket\<close> stores in the file system (fixed header and any
  split of the rest into buffers) is read back under its key byte for byte (the fixed header, the
  remaining length and the buffers one after the other), and \<^verbatim>\<open>MQTTPersistence_restorePacket\<close> on these bytes does what the packet's builder does on its
  body.
\<close>

theorem persisted_packet_recovered:
  assumes "find_client E socket s = Inr i" "heap_total (e_heap E)" "store_ok dir (g_fs s)"
    and "c_persistence (g_clients s ! i) = Some (default_persistence (\<lambda>_. True) ctx)"
    and "c_phandle (g_clients s ! i) = Some dir" "c_beforeWrite (g_clients s ! i) = None"
    and "packet_stem scr htype v = Some stem" "0 \<le> msgId" "msgId \<le> MAX_MSG_ID"
    and "length (concat buffers) < 268435456"
      "length (header # vbi (length (concat buffers)) @ concat buffers) \<le> fs_quota (g_fs s)"
    and "new_packets ! hd_type header = Some f" "CONNECT \<le> hd_type header" "hd_type header \<le> DISCONNECT"
  shows "\<exists>s' b. MQTTPersistence_putPacket E socket (header # vbi (length (concat buffers))) buffers htype
      msgId scr v s = Inr (0, s') \<and>
    b = header # vbi (length (concat buffers)) @ concat buffers \<and>
    pstget (\<lambda>_. True) (Some dir) (stem @ show_int msgId) (g_fs s') = (0, b, g_fs s') \<and>
    MQTTPersistence_restorePacket L H v b (length b) =
      call_pf f L H v header (concat buffers) (length (concat buffers))"
proof -
  let ?b = "header # vbi (length (concat buffers)) @ concat buffers"
  have c: "concat ((header # vbi (length (concat buffers))) # buffers) = ?b" by simp
  from putPacket_stored [OF assms(1-9), of "header # vbi (length (concat buffers))" buffers]
    assms(11) obtain fs' where
    put: "MQTTPersistence_putPacket E socket (header # vbi (length (concat buffers))) buffers htype
      msgId scr v s = Inr (0, s\<lparr>g_fs := fs'\<rparr>)" "store_ok dir fs'"
    "stored dir fs' (stem @ show_int msgId) = Some ?b" unfolding c by auto
  have "good_key (stem @ show_int msgId)"
    using stem_facts [OF packet_stem_in [OF assms(7)]] by simp
  from pst.get_law [OF put(2) this] put(3)
  have get: "pstget (\<lambda>_. True) (Some dir) (stem @ show_int msgId) fs' = (0, ?b, fs')" by simp
  have "MQTTPersistence_restorePacket L H v ?b (length ?b) =
      call_pf f L H v header (concat buffers) (length (concat buffers))"
    using restorePacket_frame [OF assms(10), of L H v header] assms(12-14) by simp
  with put(1) get show ?thesis by (intro exI [of _ "s\<lparr>g_fs := fs'\<rparr>"] exI [of _ ?b]) simp
qed

definition stored_client :: "filesys Clients" where
  "stored_client = blank_client\<lparr>c_persistence := Some (default_persistence (\<lambda>_. True) ''.''),
     c_phandle := Some ''./c-h''\<rparr>"

theorem persisted_packet_recovered_witness:
  "\<exists>s' b. MQTTPersistence_putPacket std_env 5 [98, 2] [[0, 9]] PUBREL 9 0 4 (blank_sys stored_client sample_fs)
      = Inr (0, s') \<and> b = [98, 2, 0, 9] \<and>
    pstget (\<lambda>_. True) (Some ''./c-h'') ''sc-9'' (g_fs s') = (0, b, g_fs s') \<and>
    MQTTPersistence_restorePacket std_lists (\<lambda>_. True) 4 b (length b) =
      call_pf F_ack std_lists (\<lambda>_. True) 4 98 [0, 9] 2"
proof -
  let ?bs = "[[0, 9]] :: bytes list"
  have v: "vbi 2 = [2]" by (subst vbi_unfold) simp
  have q: "fs_quota sample_fs = 1000" by (simp add: sample_fs_def)
  have k: "show_int 9 = ''9''" by code_simp
  have "packet_stem 0 PUBREL 4 = Some PERSISTENCE_PUBREL"
    by (simp add: packet_stem_def msgTypes_defs version_defs)
  moreover have "find_client std_env 5 (blank_sys stored_client sample_fs) = Inr 0"
    by (simp add: stored_client_def blank_client_def)
  ultimately have "\<exists>s' b. MQTTPersistence_putPacket std_env 5 (98 # vbi (length (concat ?bs))) ?bs PUBREL
      9 0 4 (blank_sys stored_client sample_fs) = Inr (0, s') \<and>
    b = 98 # vbi (length (concat ?bs)) @ concat ?bs \<and>
    pstget (\<lambda>_. True) (Some ''./c-h'') (PERSISTENCE_PUBREL @ show_int 9) (g_fs s') = (0, b, g_fs s') \<and>
    MQTTPersistence_restorePacket std_lists (\<lambda>_. True) 4 b (length b) =
      call_pf F_ack std_lists (\<lambda>_. True) 4 98 (concat ?bs) (length (concat ?bs))"
    by (intro persisted_packet_recovered [where i = 0 and ctx = "''.''"])
      (simp_all add: v [unfolded numeral_2_eq_2] sample_fs_ok stored_client_def blank_client_def q
        MAX_MSG_ID_def new_packets_def hd_unat msgTypes_defs)
  then show ?thesis by (simp add: v [unfolded numeral_2_eq_2] k PERSISTENCE_PUBREL_def numeral_2_eq_2)
qed

text \<open>
  C36: Removing the record of a sent message, \<^verbatim>\<open>MQTTPersistence_remove\<close> with the key type of a sent
  PUBLISH, leaves neither the PUBLISH nor the PUBREL of that message id, of any version, and no
  other record is changed.
\<close>

theorem remove_clears_sent_message:
  assumes "c_persistence c = Some (default_persistence (\<lambda>_. True) ctx)" "c_phandle c = Some dir"
    and "store_ok dir fs" "heap_total H" "0 \<le> msgId" "msgId \<le> MAX_MSG_ID"
    and "type \<in> {PERSISTENCE_PUBLISH_SENT, PERSISTENCE_V5_PUBLISH_SENT}"
  shows "\<exists>fs'. MQTTPersistence_remove H c type msgId fs = (0, fs') \<and> store_ok dir fs' \<and>
    (\<forall>st\<in>set stems. \<forall>m. stored dir fs' (st @ show_int m) =
      (if m = msgId \<and> st \<in> {PERSISTENCE_PUBLISH_SENT, PERSISTENCE_V5_PUBLISH_SENT, PERSISTENCE_PUBREL,
          PERSISTENCE_V5_PUBREL} then None else stored dir fs (st @ show_int m)))"
proof -
  let ?ss = "[PERSISTENCE_V5_PUBLISH_SENT, PERSISTENCE_V5_PUBREL, PERSISTENCE_PUBLISH_SENT, PERSISTENCE_PUBREL]"
  have ss: "set ?ss \<subseteq> set stems" by (auto simp: stems_def)
  from remove_keys_default [OF assms(3) ss assms(5,6), of ctx 0] obtain fs' where
    f: "remove_keys (default_persistence (\<lambda>_. True) ctx) (Some dir) ?ss msgId 0 fs = (0, fs')" "store_ok dir fs'"
    "\<And>k. stored dir fs' k = (if \<exists>st\<in>set ?ss. k = st @ show_int msgId then None else stored dir fs k)" by blast
  have "stored dir fs' (st @ show_int m) = (if m = msgId \<and> st \<in> set ?ss then None
      else stored dir fs (st @ show_int m))" if "st \<in> set stems" for st m
  proof -
    have "(\<exists>st'\<in>set ?ss. st @ show_int m = st' @ show_int msgId) \<longleftrightarrow> m = msgId \<and> st \<in> set ?ss"
      using ss that key_inj by blast
    then show ?thesis by (simp only: f(3))
  qed
  then show ?thesis
    using assms f(1,2) by (auto simp: MQTTPersistence_remove_def)
qed

theorem remove_clears_sent_message_witness:
  "\<exists>fs'. MQTTPersistence_remove (\<lambda>_. True) stored_client PERSISTENCE_PUBLISH_SENT 1 sample_fs = (0, fs') \<and>
    stored ''./c-h'' fs' (PERSISTENCE_PUBLISH_SENT @ show_int 1) = None"
proof -
  have c: "c_persistence stored_client = Some (default_persistence (\<lambda>_. True) ''.'')"
    "c_phandle stored_client = Some ''./c-h''" by (simp_all add: stored_client_def)
  have "PERSISTENCE_PUBLISH_SENT \<in> set stems" by (simp add: stems_def)
  with remove_clears_sent_message [OF c sample_fs_ok heap_total_top, of 1 PERSISTENCE_PUBLISH_SENT]
  show ?thesis by (auto simp: MAX_MSG_ID_def)
qed

text \<open>
  Inserting a restored message keeps the list sorted by message id and adds exactly that
  message.
\<close>

theorem insertInOrder_sorted:
  assumes "list_lib_ok L" "sorted (map ms_msgid xs)"
  shows "sorted (map ms_msgid (MQTTPersistence_insertInOrder L xs m)) \<and>
    mset (MQTTPersistence_insertInOrder L xs m) = add_mset m (mset xs)"
proof -
  let ?P = "\<lambda>x. ms_msgid x \<le> ms_msgid m"
  have "mset (takeWhile ?P xs @ m # dropWhile ?P xs) = add_mset m (mset (takeWhile ?P xs @ dropWhile ?P xs))"
    by (simp del: takeWhile_dropWhile_id)
  then show ?thesis
    using sorted_insert_key [OF assms(2), of m] by (simp add: insertInOrder_eq [OF assms(1)])
qed

definition sample_msg :: "int \<Rightarrow> Messages" where
  "sample_msg i = \<lparr>ms_qos = 1, ms_retain = 0, ms_msgid = i, ms_MQTTVersion = 4, ms_properties = None,
     ms_publish = None, ms_lastTouch = START_TIME_ZERO, ms_nextMessageType = None\<rparr>"

theorem insertInOrder_sorted_witness:
  "sorted (map ms_msgid (MQTTPersistence_insertInOrder std_lists [sample_msg 1, sample_msg 7] (sample_msg 4)))"
  using insertInOrder_sorted [OF std_lists_ok, of "[sample_msg 1, sample_msg 7]" "sample_msg 4"]
  by (simp add: sample_msg_def)

text \<open>
  After restoring, \<^verbatim>\<open>MQTTPersistence_wrapMsgID\<close> rotates the queue so that it starts after the
  largest gap between neighbouring message ids, the gap from the last id round to the first
  included: the order in which the messages were sent when the ids have wrapped.
\<close>

theorem wrapMsgID_starts_after_largest_gap:
  assumes "msgs \<noteq> []"
  shows "\<exists>w<length msgs. MQTTPersistence_wrapMsgID msgs = drop w msgs @ take w msgs \<and>
    (\<forall>j<length msgs. gap_before (map ms_msgid msgs) j \<le> gap_before (map ms_msgid msgs) w)"
  using assms by (rule wrapMsgID_rotates)

theorem wrapMsgID_starts_after_largest_gap_witness:
  "MQTTPersistence_wrapMsgID [sample_msg 1, sample_msg 2, sample_msg 65534, sample_msg 65535] =
    [sample_msg 65534, sample_msg 65535, sample_msg 1, sample_msg 2]"
proof -
  let ?ms = "[sample_msg 1, sample_msg 2, sample_msg 65534, sample_msg 65535]"
  from wrapMsgID_starts_after_largest_gap [of ?ms] obtain w where
    w: "w < 4" "MQTTPersistence_wrapMsgID ?ms = drop w ?ms @ take w ?ms"
      "\<forall>j<4. gap_before (map ms_msgid ?ms) j \<le> gap_before (map ms_msgid ?ms) w" by (auto simp: numeral_eq_Suc)
  have "gap_before (map ms_msgid ?ms) 2 \<le> gap_before (map ms_msgid ?ms) w" using w(3) by simp
  then have "65532 \<le> gap_before [1, 2, 65534, 65535] w" by (simp add: gap_before_def sample_msg_def)
  moreover from w(1) have "w = 0 \<or> w = 1 \<or> w = 2 \<or> w = 3" by auto
  ultimately have "w = 2" by (auto simp: gap_before_def MAX_MSG_ID_def)
  with w(2) show ?thesis by simp
qed

lemma next_seqno_less:
  "c_qentry_seqno c < PERSISTENCE_SEQNO_LIMIT \<Longrightarrow> next_seqno c < PERSISTENCE_SEQNO_LIMIT"
  by (simp add: next_seqno_def PERSISTENCE_SEQNO_LIMIT_def Let_def)

lemma queue_key_fits:
  assumes "n < PERSISTENCE_SEQNO_LIMIT" "stem \<in> set stems" "length stem \<le> 3"
  shows "print_queue_key stem n = (stem @ show_nat n, length (stem @ show_nat n))"
    "length (stem @ show_nat n) < keysize" "good_key (stem @ show_nat n)"
proof -
  show l: "length (stem @ show_nat n) < keysize"
    using show_nat_length [of 6 n] assms(1,3)
    by (simp add: keysize_def PERSISTENCE_MAX_KEY_LENGTH_def PERSISTENCE_SEQNO_LIMIT_def)
  then show "print_queue_key stem n = (stem @ show_nat n, length (stem @ show_nat n))"
    unfolding print_queue_key_def by (rule snprintf_fits)
  show "good_key (stem @ show_nat n)" using stem_facts [OF assms(2)] by simp
qed

lemma queue_stems:
  "PERSISTENCE_QUEUE_KEY \<in> set stems" "length PERSISTENCE_QUEUE_KEY \<le> 3"
  "PERSISTENCE_V5_QUEUE_KEY \<in> set stems" "length PERSISTENCE_V5_QUEUE_KEY \<le> 3"
  by (simp_all add: stems_def PERSISTENCE_QUEUE_KEY_def PERSISTENCE_V5_QUEUE_KEY_def)

lemma persistQueueEntry_v3:
  assumes "c_persistence c = Some (default_persistence (\<lambda>_. True) ctx)" "c_phandle c = Some dir"
    "c_beforeWrite c = None" "c_MQTTVersion c < MQTTVERSION_5" "c_qentry_seqno c < PERSISTENCE_SEQNO_LIMIT"
    "store_ok dir fs" "entry_buffers qe = Inr bufs" "length (concat bufs) \<le> fs_quota fs"
  defines "n \<equiv> next_seqno c"
  shows "\<exists>fs'. MQTTPersistence_persistQueueEntry H c qe fs =
      Inr (0, c\<lparr>c_qentry_seqno := n\<rparr>, qe\<lparr>qe_seqno := n\<rparr>, fs') \<and> store_ok dir fs' \<and>
    stored dir fs' (PERSISTENCE_QUEUE_KEY @ show_nat n) = Some (concat bufs)"
proof -
  have n: "n < PERSISTENCE_SEQNO_LIMIT" using next_seqno_less [OF assms(5)] by (simp add: n_def)
  note key = queue_key_fits [OF n queue_stems(1,2)]
  from pst.put_law [OF assms(6) key(3) assms(8)] obtain fs' where
    put: "pstput (\<lambda>_. True) (Some dir) (PERSISTENCE_QUEUE_KEY @ show_nat n) bufs fs = (0, fs')"
    "store_ok dir fs'" "stored dir fs' (PERSISTENCE_QUEUE_KEY @ show_nat n) = Some (concat bufs)" by auto
  have "MQTTPersistence_persistQueueEntry H c qe fs =
      Inr (0, c\<lparr>c_qentry_seqno := n\<rparr>, qe\<lparr>qe_seqno := n\<rparr>, fs')"
    using assms(1-4,7) put(1) key(1,2)
    by (simp add: MQTTPersistence_persistQueueEntry_def Let_def default_persistence_def n_def [symmetric])
  with put show ?thesis by blast
qed

text \<open>
  Before version 5, a queue entry that \<^verbatim>\<open>MQTTPersistence_persistQueueEntry\<close> writes to the
  file system is found under its sequence number, and \<^verbatim>\<open>MQTTPersistence_restoreQueueEntry\<close>
  rebuilds the same message from it: payload, QoS, flags, id and topic.
\<close>

theorem queue_entry_roundtrip:
  assumes "c_persistence c = Some (default_persistence (\<lambda>_. True) ctx)" "c_phandle c = Some dir"
    "c_beforeWrite c = None" "c_MQTTVersion c < MQTTVERSION_5" "c_qentry_seqno c < PERSISTENCE_SEQNO_LIMIT"
    "store_ok dir fs" "entry_ok qe" "length (pm_payload (qe_msg qe)) + length (qe_topicName qe) + 25 \<le> fs_quota fs"
    "heap_total H" "v < MQTTVERSION_5"
  shows "\<exists>c' qe' fs' b. MQTTPersistence_persistQueueEntry H c qe fs = Inr (0, c', qe', fs') \<and>
    qe_seqno qe' = c_qentry_seqno c' \<and> qe_seqno qe' < PERSISTENCE_SEQNO_LIMIT \<and>
    pstget (\<lambda>_. True) (Some dir) (PERSISTENCE_QUEUE_KEY @ show_nat (qe_seqno qe')) fs' = (0, b, fs') \<and>
    MQTTPersistence_restoreQueueEntry H b (length b) v = Inr (Some
      (qe\<lparr>qe_msg := (qe_msg qe)\<lparr>pm_struct_version := 1, pm_properties := MQTTProperties_initializer\<rparr>,
          qe_seqno := 0\<rparr>))"
proof -
  obtain bufs where b: "entry_buffers qe = Inr bufs"
    "length (concat bufs) = length (pm_payload (qe_msg qe)) + length (qe_topicName qe) + 25"
    using entry_buffers_ok [OF assms(7)] by (auto simp: algebra_simps)
  define n where "n = next_seqno c"
  from persistQueueEntry_v3 [OF assms(1-6) b(1), of H] b(2) assms(8) obtain fs' where
    p: "MQTTPersistence_persistQueueEntry H c qe fs =
      Inr (0, c\<lparr>c_qentry_seqno := n\<rparr>, qe\<lparr>qe_seqno := n\<rparr>, fs')" "store_ok dir fs'"
      "stored dir fs' (PERSISTENCE_QUEUE_KEY @ show_nat n) = Some (concat bufs)" by (auto simp: n_def)
  have n: "n < PERSISTENCE_SEQNO_LIMIT" using next_seqno_less [OF assms(5)] by (simp add: n_def)
  then have "good_key (PERSISTENCE_QUEUE_KEY @ show_nat n)" by (rule queue_key_fits(3) [OF _ queue_stems(1,2)])
  from pst.get_law [OF p(2) this] p(3)
  have "pstget (\<lambda>_. True) (Some dir) (PERSISTENCE_QUEUE_KEY @ show_nat n) fs' = (0, concat bufs, fs')" by simp
  then show ?thesis using n p(1) restoreQueueEntry_ok [OF assms(9,7) b(1) assms(10)] by simp
qed

definition sample_entry :: MQTTPersistence_qEntry where
  "sample_entry = \<lparr>qe_msg = \<lparr>pm_struct_version = 1, pm_payloadlen = 2, pm_payload = [104, 105], pm_qos = 1,
     pm_retained = 0, pm_dup = 0, pm_msgid = 3, pm_properties = MQTTProperties_initializer\<rparr>,
     qe_topicName = [97], qe_topicLen = 1, qe_seqno = 0\<rparr>"

theorem queue_entry_roundtrip_witness:
  "\<exists>c' qe' fs' b. MQTTPersistence_persistQueueEntry (\<lambda>_. True) stored_client sample_entry sample_fs =
      Inr (0, c', qe', fs') \<and>
    pstget (\<lambda>_. True) (Some ''./c-h'') (PERSISTENCE_QUEUE_KEY @ show_nat (qe_seqno qe')) fs' = (0, b, fs') \<and>
    MQTTPersistence_restoreQueueEntry (\<lambda>_. True) b (length b) 4 = Inr (Some sample_entry)"
proof -
  have c: "c_persistence stored_client = Some (default_persistence (\<lambda>_. True) ''.'')"
    "c_phandle stored_client = Some ''./c-h''" "c_beforeWrite stored_client = None"
    "c_MQTTVersion stored_client < MQTTVERSION_5" "c_qentry_seqno stored_client < PERSISTENCE_SEQNO_LIMIT"
    by (simp_all add: stored_client_def blank_client_def version_defs PERSISTENCE_SEQNO_LIMIT_def)
  have e: "entry_ok sample_entry" by (simp add: entry_ok_def sample_entry_def)
  have q: "length (pm_payload (qe_msg sample_entry)) + length (qe_topicName sample_entry) + 25 \<le> fs_quota sample_fs"
    by (simp add: sample_entry_def sample_fs_def)
  have i: "sample_entry\<lparr>qe_msg := (qe_msg sample_entry)\<lparr>pm_struct_version := 1,
      pm_properties := MQTTProperties_initializer\<rparr>, qe_seqno := 0\<rparr> = sample_entry"
    by (simp add: sample_entry_def)
  from queue_entry_roundtrip [OF c sample_fs_ok e q heap_total_top, of 4] show ?thesis
    unfolding i by (auto simp: version_defs)
qed

text \<open>
  In version 5, without a \<^verbatim>\<open>beforeWrite\<close> callback, \<^verbatim>\<open>MQTTPersistence_persistQueueEntry\<close> never
  writes the entry: the number of property bytes is left in the return code and taken for an
  error, so the store is unchanged and the result is that positive number.
\<close>

theorem v5_queue_entry_not_persisted:
  assumes "MQTTVERSION_5 \<le> c_MQTTVersion c" "c_beforeWrite c = None" "c_qentry_seqno c < PERSISTENCE_SEQNO_LIMIT"
    and "entry_buffers qe = Inr bufs" "heap_total H" "1 \<le> pm_struct_version (qe_msg qe)"
    and "props_ok (pm_properties (qe_msg qe))" "p_length (pm_properties (qe_msg qe)) < 268435456"
  shows "\<exists>c' qe'. MQTTPersistence_persistQueueEntry H c qe fs =
      Inr (1 + p_length (pm_properties (qe_msg qe)), c', qe', fs) \<and>
    0 < 1 + p_length (pm_properties (qe_msg qe))"
proof -
  let ?ps = "pm_properties (qe_msg qe)"
  let ?b = "vbi (nat (p_length ?ps)) @ list_bytes (prop_list ?ps)"
  have l: "0 \<le> p_length ?ps" using assms(7) by (simp add: props_ok_def)
  have "length (vbi (nat (p_length ?ps))) \<le> 4" using assms(8) by (intro length_vbi_4) simp
  then have "int (length ?b) < 2 ^ 64" using assms(7,8) by (simp add: props_ok_def)
  then have sz: "size_t_of (MQTTProperties_len (Some ?ps)) = length ?b"
    unfolding MQTTProperties_len_ok [OF assms(7,8)] size_t_of_def by simp
  have e: "entry_props H qe = Inr (Some (1 + p_length ?ps, ?b))"
    using assms(5,6) sz by (simp add: entry_props_def MQTTProperties_write_ok [OF assms(7,8)] Let_def)
  note key = queue_key_fits [OF next_seqno_less [OF assms(3)] queue_stems(3,4)]
  have "MQTTPersistence_persistQueueEntry H c qe fs =
      Inr (1 + p_length ?ps, c\<lparr>c_qentry_seqno := next_seqno c\<rparr>, qe\<lparr>qe_seqno := next_seqno c\<rparr>, fs)"
    using assms(1,2,4) e key(1,2) l by (simp add: MQTTPersistence_persistQueueEntry_def Let_def)
  with l show ?thesis by simp
qed

theorem v5_queue_entry_not_persisted_witness:
  "\<exists>c' qe'. MQTTPersistence_persistQueueEntry (\<lambda>_. True) (stored_client\<lparr>c_MQTTVersion := 5\<rparr>) sample_entry
      sample_fs = Inr (1, c', qe', sample_fs)"
proof -
  have e: "entry_ok sample_entry" by (simp add: entry_ok_def sample_entry_def)
  have p: "p_length (pm_properties (qe_msg sample_entry)) = 0"
    by (simp add: sample_entry_def MQTTProperties_initializer_def)
  have "props_ok (pm_properties (qe_msg sample_entry))"
    by (simp add: sample_entry_def props_ok_init)
  with v5_queue_entry_not_persisted [OF _ _ _ entry_buffers_ok [OF e] heap_total_top,
      of "stored_client\<lparr>c_MQTTVersion := 5\<rparr>" sample_fs] p
  show ?thesis
    by (auto simp: stored_client_def blank_client_def version_defs PERSISTENCE_SEQNO_LIMIT_def sample_entry_def)
qed

end
