(* ===== verification/PacketIO.thy ===== *)
theory PacketIO
  imports Store
begin

section \<open>Sending and receiving packets: \<^verbatim>\<open>src/include/MQTTPacket.c\<close>, \<^verbatim>\<open>MQTTPacketOut.c\<close>\<close>

text \<open>
  The functions that put a packet on the network or take one off it. \<open>i\<close> is the position of the
  client whose network handles are used. A buffer is allocated with a computed size and then
  filled: when what is written is longer, the result is \<open>OverWrite\<close>; when it is shorter, bytes
  that were never written would be sent, which is \<open>UninitRead\<close>.
\<close>

subsection \<open>Buffers and network handles\<close>

definition fill :: "nat \<Rightarrow> bytes \<Rightarrow> ub + bytes" where
  "fill alloc b =
     (if alloc < length b then Inl OverWrite else if length b < alloc then Inl UninitRead else Inr b)"

lemma fill_exact [simp]: "fill (length b) b = Inr b"
  by (simp add: fill_def)

definition upd_client :: "nat \<Rightarrow> ('f Clients \<Rightarrow> 'f Clients) \<Rightarrow> ('n, 'f, 'z) sys_scheme \<Rightarrow> ('n, 'f, 'z) sys_scheme" where
  "upd_client i f s = s\<lparr>g_clients := (g_clients s)[i := f (g_clients s ! i)]\<rparr>"

definition socket_of :: "nat \<Rightarrow> ('n, 'f, 'z) sys_scheme \<Rightarrow> int" where
  "socket_of i s = nh_socket (c_net (g_clients s ! i))"

definition touch_sent :: "('n, 'f) env \<Rightarrow> nat \<Rightarrow> ('n, 'f, 'z) sys_scheme \<Rightarrow> ('n, 'f, 'z) sys_scheme" where
  "touch_sent E i s =
     (let (t, s) = time_now E s in upd_client i (\<lambda>c. c\<lparr>c_net := (c_net c)\<lparr>nh_lastSent := t\<rparr>\<rparr>) s)"

definition touch_received :: "('n, 'f) env \<Rightarrow> nat \<Rightarrow> ('n, 'f, 'z) sys_scheme \<Rightarrow> ('n, 'f, 'z) sys_scheme" where
  "touch_received E i s =
     (let (t, s) = time_now E s in upd_client i (\<lambda>c. c\<lparr>c_net := (c_net c)\<lparr>nh_lastReceived := t\<rparr>\<rparr>) s)"

subsection \<open>Framing\<close>

text \<open>
  \<^verbatim>\<open>MQTTPacket_send\<close>: the fixed header, then one buffer. A PUBREL is persisted first; the result
  of that is overwritten by the result of the write.
\<close>

definition MQTTPacket_send ::
    "('n, 'f) env \<Rightarrow> nat \<Rightarrow> byte \<Rightarrow> bytes \<Rightarrow> int \<Rightarrow> ('n, 'f, 'z) sys_scheme \<Rightarrow> ub + (int \<times> ('n, 'f, 'z) sys_scheme)" where
  "MQTTPacket_send E i header buffer MQTTVersion s =
     (let buf0len = 1 + snd (MQTTPacket_encode False (length buffer)) in
      if \<not> e_heap E (ReqBuffer buf0len) then Inr (SOCKET_ERROR, s)
      else ub_bind (fill buf0len (header # fst (MQTTPacket_encode True (length buffer)))) (\<lambda>buf.
        ub_bind (if hd_type header = PUBREL
                 then ub_bind (readInt buffer 0) (\<lambda>(msgId, _).
                   ub_bind (MQTTPersistence_putPacket E (socket_of i s) buf [buffer] PUBREL msgId 0 MQTTVersion s)
                     (\<lambda>(_, s). Inr s))
                 else Inr s)
          (\<lambda>s. let (rc, _, n) = WebSocket_putdatas (e_net E) (socket_of i s) buf [buffer] [0, 0, 0, 0] (g_net s);
                   s = s\<lparr>g_net := n\<rparr>
               in Inr (rc, if rc = TCPSOCKET_COMPLETE then touch_sent E i s else s))))"

definition MQTTPacket_sends ::
    "('n, 'f) env \<Rightarrow> nat \<Rightarrow> byte \<Rightarrow> bytes list \<Rightarrow> bytes \<Rightarrow> int \<Rightarrow> ('n, 'f, 'z) sys_scheme
      \<Rightarrow> ub + (int \<times> bytes \<times> ('n, 'f, 'z) sys_scheme)" where
  "MQTTPacket_sends E i header buffers msk MQTTVersion s =
     (let tot = sum_list (map length buffers);
          buf0len = 1 + snd (MQTTPacket_encode False tot) in
      if \<not> e_heap E (ReqBuffer buf0len) then Inr (SOCKET_ERROR, msk, s)
      else ub_bind (fill buf0len (header # fst (MQTTPacket_encode True tot))) (\<lambda>buf.
        ub_bind (if hd_type header = PUBLISH \<and> hd_qos header \<noteq> 0
                 then if length buffers \<le> 2 then Inl OverRead
                   else ub_bind (readInt (buffers ! 2) 0) (\<lambda>(msgId, _).
                     ub_bind (MQTTPersistence_putPacket E (socket_of i s) buf buffers PUBLISH msgId 0 MQTTVersion s)
                       (\<lambda>(_, s). Inr s))
                 else Inr s)
          (\<lambda>s. let (rc, msk, n) = WebSocket_putdatas (e_net E) (socket_of i s) buf buffers msk (g_net s);
                   s = s\<lparr>g_net := n\<rparr>
               in Inr (rc, msk, if rc = TCPSOCKET_COMPLETE then touch_sent E i s else s))))"

subsection \<open>Acknowledgements, PUBLISH, DISCONNECT, PINGREQ\<close>

definition MQTTPacket_send_ack ::
    "('n, 'f) env \<Rightarrow> int \<Rightarrow> nat \<Rightarrow> int \<Rightarrow> nat \<Rightarrow> nat \<Rightarrow> ('n, 'f, 'z) sys_scheme \<Rightarrow> ub + (int \<times> ('n, 'f, 'z) sys_scheme)" where
  "MQTTPacket_send_ack E MQTTVersion type msgid dup i s =
     (if \<not> e_heap E (ReqBuffer 2) then Inr (SOCKET_ERROR, s)
      else ub_bind (fill 2 (writeInt msgid)) (\<lambda>buf.
        MQTTPacket_send E i (mk_header type dup (if type = PUBREL then 1 else 0) 0) buf MQTTVersion s))"

definition MQTTPacket_send_puback ::
    "('n, 'f) env \<Rightarrow> int \<Rightarrow> int \<Rightarrow> nat \<Rightarrow> ('n, 'f, 'z) sys_scheme \<Rightarrow> ub + (int \<times> ('n, 'f, 'z) sys_scheme)" where
  "MQTTPacket_send_puback E MQTTVersion msgid i s = MQTTPacket_send_ack E MQTTVersion PUBACK msgid 0 i s"

definition MQTTPacket_send_pubrec ::
    "('n, 'f) env \<Rightarrow> int \<Rightarrow> int \<Rightarrow> nat \<Rightarrow> ('n, 'f, 'z) sys_scheme \<Rightarrow> ub + (int \<times> ('n, 'f, 'z) sys_scheme)" where
  "MQTTPacket_send_pubrec E MQTTVersion msgid i s = MQTTPacket_send_ack E MQTTVersion PUBREC msgid 0 i s"

definition MQTTPacket_send_pubrel ::
    "('n, 'f) env \<Rightarrow> int \<Rightarrow> int \<Rightarrow> nat \<Rightarrow> nat \<Rightarrow> ('n, 'f, 'z) sys_scheme \<Rightarrow> ub + (int \<times> ('n, 'f, 'z) sys_scheme)" where
  "MQTTPacket_send_pubrel E MQTTVersion msgid dup i s = MQTTPacket_send_ack E MQTTVersion PUBREL msgid dup i s"

definition MQTTPacket_send_pubcomp ::
    "('n, 'f) env \<Rightarrow> int \<Rightarrow> int \<Rightarrow> nat \<Rightarrow> ('n, 'f, 'z) sys_scheme \<Rightarrow> ub + (int \<times> ('n, 'f, 'z) sys_scheme)" where
  "MQTTPacket_send_pubcomp E MQTTVersion msgid i s = MQTTPacket_send_ack E MQTTVersion PUBCOMP msgid 0 i s"

text \<open>
  \<^verbatim>\<open>MQTTPacket_send_publish\<close> gathers the length of the topic, the topic, the message id with
  the properties, and the payload, in four buffers or three. It returns the packet with the
  mask the write has set.
\<close>

definition topic_and_payload :: "Publish \<Rightarrow> ub + (bytes \<times> bytes)" where
  "topic_and_payload pack =
     (case pb_topic pack of None \<Rightarrow> Inl NullDeref
      | Some t \<Rightarrow> ub_bind (memcpy_src (pb_payload pack) (pb_payloadlen pack)) (\<lambda>d. Inr (c_str t, d)))"

definition MQTTPacket_send_publish ::
    "('n, 'f) env \<Rightarrow> Publish \<Rightarrow> nat \<Rightarrow> nat \<Rightarrow> nat \<Rightarrow> nat \<Rightarrow> ('n, 'f, 'z) sys_scheme
      \<Rightarrow> ub + (int \<times> Publish \<times> ('n, 'f, 'z) sys_scheme)" where
  "MQTTPacket_send_publish E pack dup qos retained i s =
     (if \<not> e_heap E (ReqBuffer 2) then Inr (SOCKET_ERROR, pack, s)
      else
       let header = mk_header PUBLISH dup qos retained;
           v5 = (pb_MQTTVersion pack \<ge> 5);
           finish = (\<lambda>(rc, msk, s). Inr (rc, pack\<lparr>pb_mask := msk\<rparr>, s))
       in ub_bind (topic_and_payload pack) (\<lambda>(topic, payload).
         if qos > 0 \<or> v5 then
           let buflen = size_t_of ((if qos > 0 then 2 else 0) +
                 (if v5 then MQTTProperties_len (Some (pb_properties pack)) else 0)) in
           if \<not> e_heap E (ReqBuffer buflen) then Inr (SOCKET_ERROR, pack, s)
           else ub_bind (if v5 then ub_bind (MQTTProperties_write (Some (pb_properties pack))) (\<lambda>(_, b). Inr b)
                         else Inr []) (\<lambda>props.
             ub_bind (fill buflen ((if qos > 0 then writeInt (pb_msgId pack) else []) @ props)) (\<lambda>buf2.
             ub_bind (MQTTPacket_sends E i header [writeInt (int (length topic)), topic, buf2, payload]
                 (pb_mask pack) (pb_MQTTVersion pack) s) finish))
         else
           ub_bind (MQTTPacket_sends E i header [writeInt (int (length topic)), topic, payload]
               (pb_mask pack) (pb_MQTTVersion pack) s) finish))"

definition MQTTPacket_send_disconnect ::
    "('n, 'f) env \<Rightarrow> nat \<Rightarrow> int \<Rightarrow> MQTTProperties option \<Rightarrow> ('n, 'f, 'z) sys_scheme \<Rightarrow> ub + (int \<times> ('n, 'f, 'z) sys_scheme)" where
  "MQTTPacket_send_disconnect E i reason props s =
     (let header = mk_header DISCONNECT 0 0 0; version = c_MQTTVersion (g_clients s ! i) in
      if version \<ge> 5 \<and> (props \<noteq> None \<or> reason \<noteq> 0) then
        let buflen = size_t_of (1 + (if props = None then 0 else MQTTProperties_len props)) in
        if \<not> e_heap E (ReqBuffer buflen) then Inr (SOCKET_ERROR, s)
        else ub_bind (if props = None then Inr []
                      else ub_bind (MQTTProperties_write props) (\<lambda>(_, b). Inr b)) (\<lambda>b.
          ub_bind (fill buflen (writeChar (word_of_int reason) @ b)) (\<lambda>buf.
            MQTTPacket_send E i header buf version s))
      else MQTTPacket_send E i header [] version s)"

definition MQTTPacket_send_pingreq ::
    "('n, 'f) env \<Rightarrow> nat \<Rightarrow> ('n, 'f, 'z) sys_scheme \<Rightarrow> ub + (int \<times> ('n, 'f, 'z) sys_scheme)" where
  "MQTTPacket_send_pingreq E i s = MQTTPacket_send E i (mk_header PINGREQ 0 0 0) [] MQTTVERSION_3_1_1 s"

subsection \<open>CONNECT\<close>

text \<open>The union of connect flags, little-endian layout.\<close>

definition connect_flags :: "int \<Rightarrow> 'f Clients \<Rightarrow> byte" where
  "connect_flags MQTTVersion client =
     (let cleanstart = (if MQTTVersion \<ge> MQTTVERSION_5 then c_cleanstart client else c_cleansession client);
          (will, willQoS, willRetain) = (case c_will client of None \<Rightarrow> (0, 0, 0)
            | Some w \<Rightarrow> (1, w_qos w mod 4, w_retained w mod 2));
          username = (if c_username client = None then 0 else 1);
          password = (if c_password client = None then 0 else 1)
      in word_of_int (2 * (cleanstart mod 2) + 4 * will + 8 * willQoS + 32 * willRetain
           + 64 * password + 128 * username))"

text \<open>
  The length is an \<^verbatim>\<open>int\<close>, and so are the conversions of \<^verbatim>\<open>strlen\<close>: a string that is longer wraps, a sum
  that does not fit is undefined. \<open>int_sum\<close> adds from the left, as C does.
\<close>

definition c_int :: "int \<Rightarrow> ub + int" where
  "c_int n = (if n < - 2147483648 \<or> 2147483648 \<le> n then Inl IntOverflow else Inr n)"

fun int_sum :: "int \<Rightarrow> int list \<Rightarrow> ub + int" where
  "int_sum acc [] = Inr acc"
| "int_sum acc (x # xs) = ub_bind (c_int (acc + x)) (\<lambda>a. int_sum a xs)"

definition int_strlen :: "bytes \<Rightarrow> int" where
  "int_strlen s = sint (word_of_nat (strlen s) :: 32 word)"

definition add_opt :: "('a \<Rightarrow> ub + int) \<Rightarrow> 'a option \<Rightarrow> int \<Rightarrow> ub + int" where
  "add_opt f x len = (case x of None \<Rightarrow> Inr len | Some v \<Rightarrow> ub_bind (f v) (\<lambda>n. c_int (len + n)))"

definition connect_len ::
    "int \<Rightarrow> MQTTProperties option \<Rightarrow> MQTTProperties option \<Rightarrow> 'f Clients \<Rightarrow> ub + int" where
  "connect_len MQTTVersion connectProperties willProperties client =
     ub_bind (int_sum (if MQTTVersion = MQTTVERSION_3_1 then 12 else 10) [int_strlen (c_clientID client), 2]) (\<lambda>len.
     ub_bind (add_opt (\<lambda>w. int_sum (int_strlen (w_topic w)) [2, w_payloadlen w, 2]) (c_will client) len) (\<lambda>len.
     ub_bind (add_opt (\<lambda>u. int_sum (int_strlen u) [2]) (c_username client) len) (\<lambda>len.
     ub_bind (add_opt (\<lambda>_. int_sum (c_passwordlen client) [2]) (c_password client) len) (\<lambda>len.
       if MQTTVersion \<ge> MQTTVERSION_5
       then ub_bind (c_int (len + MQTTProperties_len connectProperties)) (\<lambda>len.
         add_opt (\<lambda>_. Inr (MQTTProperties_len willProperties)) (c_will client) len)
       else Inr len))))"

definition write_opt :: "('a \<Rightarrow> ub + bytes) \<Rightarrow> 'a option \<Rightarrow> ub + bytes" where
  "write_opt f x = (case x of None \<Rightarrow> Inr [] | Some v \<Rightarrow> f v)"

definition write_props :: "int \<Rightarrow> MQTTProperties option \<Rightarrow> ub + bytes" where
  "write_props MQTTVersion props =
     (if MQTTVersion \<ge> MQTTVERSION_5
      then ub_bind (MQTTProperties_write props) (\<lambda>(_, b). Inr b) else Inr [])"

definition connect_body ::
    "int \<Rightarrow> MQTTProperties option \<Rightarrow> MQTTProperties option \<Rightarrow> 'f Clients \<Rightarrow> bytes \<Rightarrow> ub + bytes" where
  "connect_body MQTTVersion connectProperties willProperties client start =
     ub_bind (write_props MQTTVersion connectProperties) (\<lambda>b1.
     ub_bind (write_opt (\<lambda>w. ub_bind (write_props MQTTVersion willProperties) (\<lambda>wp.
         ub_bind (writeData (w_payload w) (w_payloadlen w)) (\<lambda>d. Inr (wp @ writeUTF (w_topic w) @ d))))
       (c_will client)) (\<lambda>b2.
     ub_bind (write_opt (\<lambda>p. writeData p (c_passwordlen client)) (c_password client)) (\<lambda>b4.
       Inr (start @ writeChar (connect_flags MQTTVersion client) @ writeInt (c_keepAliveInterval client)
         @ b1 @ writeUTF (c_clientID client) @ b2
         @ (case c_username client of None \<Rightarrow> [] | Some u \<Rightarrow> writeUTF u) @ b4))))"

definition ascii :: "string \<Rightarrow> bytes" where
  "ascii = map (\<lambda>c. word_of_nat (of_char c))"

definition MQTTPacket_send_connect ::
    "('n, 'f) env \<Rightarrow> nat \<Rightarrow> int \<Rightarrow> MQTTProperties option \<Rightarrow> MQTTProperties option \<Rightarrow> ('n, 'f, 'z) sys_scheme
      \<Rightarrow> ub + (int \<times> ('n, 'f, 'z) sys_scheme)" where
  "MQTTPacket_send_connect E i MQTTVersion connectProperties willProperties s =
     (let client = g_clients s ! i in
      ub_bind (connect_len MQTTVersion connectProperties willProperties client) (\<lambda>n.
      let len = size_t_of n in
      if \<not> e_heap E (ReqBuffer len) then Inr (SOCKET_ERROR, s)
      else if MQTTVersion = MQTTVERSION_3_1 \<or> MQTTVersion = MQTTVERSION_3_1_1 \<or> MQTTVersion = MQTTVERSION_5
      then
       let start = writeUTF (ascii (if MQTTVersion = MQTTVERSION_3_1 then ''MQIsdp'' else ''MQTT''))
             @ writeChar (word_of_int MQTTVersion) in
       ub_bind (connect_body MQTTVersion connectProperties willProperties client start) (\<lambda>b.
         ub_bind (fill len b) (\<lambda>buf.
           MQTTPacket_send E i (mk_header CONNECT 0 0 0) buf MQTTVersion s))
      else Inr (SOCKET_ERROR, s)))"

subsection \<open>SUBSCRIBE and UNSUBSCRIBE\<close>

record MQTTSubscribe_options =
  so_noLocal :: byte
  so_retainAsPublished :: byte
  so_retainHandling :: byte

text \<open>
  The loop over the topics: each has the next element of the list of QoS values, and in
  version 5 the options with its index. \<open>None\<close> for the options is a NULL pointer.
\<close>

fun subscribe_loop ::
    "int \<Rightarrow> bytes list \<Rightarrow> int list \<Rightarrow> MQTTSubscribe_options list option \<Rightarrow> nat \<Rightarrow> ub + bytes" where
  "subscribe_loop MQTTVersion [] qoss opts i = Inr []"
| "subscribe_loop MQTTVersion (t # ts) qoss opts i =
     (case qoss of [] \<Rightarrow> Inl NullDeref
      | q # qs \<Rightarrow>
         ub_bind
           (case opts of
              None \<Rightarrow> Inr (word_of_int q)
            | Some os \<Rightarrow>
               if MQTTVersion \<ge> MQTTVERSION_5
               then if i < length os
                 then Inr (word_of_int q OR push_bit 2 (so_noLocal (os ! i))
                   OR push_bit 3 (so_retainAsPublished (os ! i)) OR push_bit 4 (so_retainHandling (os ! i)))
                 else Inl OverRead
               else Inr (word_of_int q))
           (\<lambda>subopts. ub_bind (subscribe_loop MQTTVersion ts qs opts (i + 1)) (\<lambda>b.
             Inr (writeUTF t @ writeChar subopts @ b))))"

definition MQTTPacket_send_subscribe ::
    "('n, 'f) env \<Rightarrow> bytes list \<Rightarrow> int list \<Rightarrow> MQTTSubscribe_options list option \<Rightarrow> MQTTProperties option
      \<Rightarrow> int \<Rightarrow> nat \<Rightarrow> nat \<Rightarrow> ('n, 'f, 'z) sys_scheme \<Rightarrow> ub + (int \<times> ('n, 'f, 'z) sys_scheme)" where
  "MQTTPacket_send_subscribe E topics qoss opts props msgid dup i s =
     (let version = c_MQTTVersion (g_clients s ! i);
          datalen = size_t_of (2 + int (length topics) * 3 + int (sum_list (map strlen topics))
            + (if version \<ge> MQTTVERSION_5 then MQTTProperties_len props else 0)) in
      if \<not> e_heap E (ReqBuffer datalen) then Inr (-1, s)
      else ub_bind (write_props version props) (\<lambda>b1.
        ub_bind (subscribe_loop version topics qoss opts 0) (\<lambda>b2.
        ub_bind (fill datalen (writeInt msgid @ b1 @ b2)) (\<lambda>data.
          MQTTPacket_send E i (mk_header SUBSCRIBE dup 1 0) data version s))))"

definition MQTTPacket_send_unsubscribe ::
    "('n, 'f) env \<Rightarrow> bytes list \<Rightarrow> MQTTProperties option \<Rightarrow> int \<Rightarrow> nat \<Rightarrow> nat \<Rightarrow> ('n, 'f, 'z) sys_scheme
      \<Rightarrow> ub + (int \<times> ('n, 'f, 'z) sys_scheme)" where
  "MQTTPacket_send_unsubscribe E topics props msgid dup i s =
     (let version = c_MQTTVersion (g_clients s ! i);
          datalen = size_t_of (2 + int (length topics) * 2 + int (sum_list (map strlen topics))
            + (if version \<ge> MQTTVERSION_5 then MQTTProperties_len props else 0)) in
      if \<not> e_heap E (ReqBuffer datalen) then Inr (SOCKET_ERROR, s)
      else ub_bind (write_props version props) (\<lambda>b1.
        ub_bind (fill datalen (writeInt msgid @ b1 @ concat (map writeUTF topics))) (\<lambda>data.
          MQTTPacket_send E i (mk_header UNSUBSCRIBE dup 1 0) data version s)))"

subsection \<open>Receiving a packet\<close>

text \<open>
  \<^verbatim>\<open>MQTTPacket_Factory\<close> returns the error code and the packet (\<open>None\<close> is NULL). A PUBLISH with
  QoS 2 is persisted when it has been built.
\<close>

definition factory_build ::
    "('n, 'f) env \<Rightarrow> int \<Rightarrow> nat \<Rightarrow> byte \<Rightarrow> bytes \<Rightarrow> nat \<Rightarrow> int \<Rightarrow> ('n, 'f, 'z) sys_scheme
      \<Rightarrow> ub + (int \<times> packet option \<times> ('n, 'f, 'z) sys_scheme)" where
  "factory_build E MQTTVersion i header data remaining_length error s =
     (let ptype = hd_type header in
      if ptype < CONNECT \<or> (MQTTVersion < MQTTVERSION_5 \<and> ptype \<ge> DISCONNECT) \<or>
         (MQTTVersion \<ge> MQTTVERSION_5 \<and> ptype > AUTH) \<or> new_packets ! ptype = None
      then Inr (error, None, s)
      else ub_bind (call_pf (the (new_packets ! ptype)) (l_codes (e_lists E)) (e_heap E) MQTTVersion header
             data remaining_length) (\<lambda>r. case r of
          None \<Rightarrow> Inr (SOCKET_ERROR, None, s)
        | Some pack \<Rightarrow>
           (case pack of
              PkPublish p \<Rightarrow>
                if ptype = PUBLISH \<and> hd_qos header = 2 then
                  if \<not> e_heap E (ReqBuffer 10) then Inr (SOCKET_ERROR, Some pack, s)
                  else
                   let buf = header # fst (MQTTPacket_encode True remaining_length) in
                   if 10 < length buf then Inl OverWrite
                   else ub_bind (memcpy_src data (int remaining_length)) (\<lambda>d.
                     ub_bind (MQTTPersistence_putPacket E (socket_of i s) buf [d] ptype (pb_msgId p) 1
                         MQTTVersion s)
                       (\<lambda>(rc, s). Inr (rc, Some pack, touch_received E i s)))
                else Inr (error, Some pack, touch_received E i s)
            | _ \<Rightarrow> Inr (error, Some pack, touch_received E i s))))"

definition MQTTPacket_Factory ::
    "('n, 'f) env \<Rightarrow> int \<Rightarrow> nat \<Rightarrow> ('n, 'f, 'z) sys_scheme \<Rightarrow> ub + (int \<times> packet option \<times> ('n, 'f, 'z) sys_scheme)" where
  "MQTTPacket_Factory E MQTTVersion i s =
     (let headerWsFramePos = WebSocket_framePos (e_net E) (g_net s);
          seek = (\<lambda>(error, pack, s :: ('n, 'f, 'z) sys_scheme).
            (error, pack, if error = TCPSOCKET_INTERRUPTED
              then s\<lparr>g_net := WebSocket_framePosSeekTo (e_net E) headerWsFramePos (g_net s)\<rparr> else s));
          socket = socket_of i s;
          (error, header, n) = WebSocket_getch (e_net E) socket (g_net s);
          s = s\<lparr>g_net := n\<rparr>
      in
      if error \<noteq> TCPSOCKET_COMPLETE then Inr (seek (error, None, s))
      else
       let (error, remaining_length, n) = MQTTPacket_decode (WebSocket_getch (e_net E) socket) (g_net s);
           s = s\<lparr>g_net := n\<rparr>
       in
       if error \<noteq> TCPSOCKET_COMPLETE then Inr (seek (error, None, s))
       else
        let (data, actual_len, n) = WebSocket_getdata (e_net E) socket remaining_length (g_net s);
            s = s\<lparr>g_net := n\<rparr>
        in
        if remaining_length \<noteq> 0 \<and> data = None then Inr (seek (SOCKET_ERROR, None, s))
        else if actual_len < remaining_length
        then Inr (seek (TCPSOCKET_INTERRUPTED, None, touch_received E i s))
        else ub_bind (factory_build E MQTTVersion i header
               (case data of None \<Rightarrow> [] | Some d \<Rightarrow> d) remaining_length error s)
             (\<lambda>r. Inr (seek r)))"

subsection \<open>What is put on the network\<close>

lemma fill_header [simp]:
  "fill (Suc (length (vbi n))) (h # vbi n) = Inr (h # vbi n)"
  using fill_exact [of "h # vbi n"] by simp

text \<open>The write both framing functions end with.\<close>

definition put_frame ::
    "('n, 'f) env \<Rightarrow> nat \<Rightarrow> bytes \<Rightarrow> bytes list \<Rightarrow> bytes \<Rightarrow> ('n, 'f, 'z) sys_scheme \<Rightarrow> int \<times> bytes \<times> ('n, 'f, 'z) sys_scheme" where
  "put_frame E i buf buffers m s =
     (let (rc, m, n) = WebSocket_putdatas (e_net E) (socket_of i s) buf buffers m (g_net s);
          s = s\<lparr>g_net := n\<rparr>
      in (rc, m, if rc = TCPSOCKET_COMPLETE then touch_sent E i s else s))"

lemma MQTTPacket_send_frame:
  assumes "heap_total (e_heap E)" "hd_type header \<noteq> PUBREL"
  shows "MQTTPacket_send E i header buffer v s =
    Inr (case put_frame E i (header # vbi (length buffer)) [buffer] [0, 0, 0, 0] s of (rc, _, s) \<Rightarrow> (rc, s))"
  using assms by (simp add: MQTTPacket_send_def encode_count put_frame_def Let_def split: prod.split)

lemma MQTTPacket_sends_publish:
  assumes "heap_total (e_heap E)" "hd_type header = PUBLISH" "hd_qos header \<noteq> 0" "length buffers > 2"
    "readInt (buffers ! 2) 0 = Inr (msgId, p)"
  shows "MQTTPacket_sends E i header buffers m v s =
    ub_bind (MQTTPersistence_putPacket E (socket_of i s) (header # vbi (length (concat buffers))) buffers PUBLISH msgId 0 v s)
      (\<lambda>(_, s). Inr (put_frame E i (header # vbi (length (concat buffers))) buffers m s))"
  using assms by (auto simp: MQTTPacket_sends_def encode_count put_frame_def length_concat Let_def ub_bind_def
      split: prod.split sum.split)

lemma MQTTPacket_sends_frame:
  assumes "heap_total (e_heap E)" "hd_type header \<noteq> PUBLISH \<or> hd_qos header = 0"
  shows "MQTTPacket_sends E i header buffers m v s =
    Inr (put_frame E i (header # vbi (length (concat buffers))) buffers m s)"
  using assms by (auto simp: MQTTPacket_sends_def encode_count put_frame_def length_concat Let_def
      split: prod.split)

lemma header_type_PUBLISH [simp]: "hd_type (mk_header PUBLISH d q r) = PUBLISH"
  by (simp add: mk_header_fields PUBLISH_def)

subsection \<open>PUBLISH: what is sent is what is received\<close>

definition publish_ok :: "Publish \<Rightarrow> bool" where
  "publish_ok pack \<longleftrightarrow> (\<exists>t. pb_topic pack = Some t \<and> 0 \<notin> set t \<and> length t < 65536) \<and>
     0 \<le> pb_msgId pack \<and> pb_msgId pack < 65536 \<and>
     0 \<le> pb_payloadlen pack \<and> nat (pb_payloadlen pack) \<le> length (pb_payload pack) \<and>
     (5 \<le> pb_MQTTVersion pack \<longrightarrow> props_ok (pb_properties pack) \<and> p_length (pb_properties pack) < 268435456)"

definition publish_payload :: "Publish \<Rightarrow> bytes" where
  "publish_payload pack = take (nat (pb_payloadlen pack)) (pb_payload pack)"

definition publish_props :: "Publish \<Rightarrow> bytes" where
  "publish_props pack = (if 5 \<le> pb_MQTTVersion pack
     then vbi (nat (p_length (pb_properties pack))) @ list_bytes (prop_list (pb_properties pack)) else [])"

definition publish_body :: "nat \<Rightarrow> Publish \<Rightarrow> bytes" where
  "publish_body qos pack = writeUTF (the (pb_topic pack)) @
     (if qos > 0 then writeInt (pb_msgId pack) else []) @ publish_props pack @ publish_payload pack"

lemma size_t_of_nat: "n < 2 ^ 64 \<Longrightarrow> size_t_of (int n) = n"
  unfolding size_t_of_def by (metis mod_less nat_int of_nat_mod of_nat_numeral of_nat_power)

lemma publish_props_small:
  "publish_ok pack \<Longrightarrow> length (publish_props pack) < 1000000000"
proof (cases "5 \<le> pb_MQTTVersion pack")
  case True
  assume "publish_ok pack"
  with True have ok: "props_ok (pb_properties pack)" "p_length (pb_properties pack) < 268435456"
    by (auto simp: publish_ok_def)
  then have "length (list_bytes (prop_list (pb_properties pack))) < 268435456"
    by (simp add: props_ok_def)
  moreover have "length (vbi (nat (p_length (pb_properties pack)))) \<le> 4"
    using ok(2) by (intro length_vbi_4) linarith
  ultimately show ?thesis by (simp add: publish_props_def)
qed (simp add: publish_props_def)

lemma MQTTPacket_send_publish_eq:
  assumes "heap_total (e_heap E)" "publish_ok pack"
  shows "\<exists>bufs. concat bufs = publish_body qos pack \<and>
    (qos > 0 \<longrightarrow> length bufs > 2 \<and> bufs ! 2 = writeInt (pb_msgId pack) @ publish_props pack) \<and>
    MQTTPacket_send_publish E pack dup qos retained i s =
      ub_bind (MQTTPacket_sends E i (mk_header PUBLISH dup qos retained) bufs (pb_mask pack)
        (pb_MQTTVersion pack) s) (\<lambda>(rc, m, s). Inr (rc, pack\<lparr>pb_mask := m\<rparr>, s))"
proof -
  from assms(2) obtain t where t: "pb_topic pack = Some t" "0 \<notin> set t" by (auto simp: publish_ok_def)
  then have tp: "topic_and_payload pack = Inr (t, publish_payload pack)"
    using assms(2) by (auto simp: topic_and_payload_def memcpy_src_def publish_payload_def publish_ok_def)
  let ?two = "if qos > 0 then writeInt (pb_msgId pack) else []"
  have pw: "(if 5 \<le> pb_MQTTVersion pack then ub_bind (MQTTProperties_write (Some (pb_properties pack)))
       (\<lambda>(_, b). Inr b) else Inr []) = (Inr (publish_props pack) :: ub + bytes)"
    using assms(2) by (auto simp: publish_ok_def publish_props_def MQTTProperties_write_ok)
  have len: "(if qos > 0 then 2 else 0) + (if 5 \<le> pb_MQTTVersion pack
       then MQTTProperties_len (Some (pb_properties pack)) else 0) = int (length (?two @ publish_props pack))"
    using assms(2) by (auto simp: publish_ok_def publish_props_def MQTTProperties_len_ok)
  have small: "length (?two @ publish_props pack) < 2 ^ 64"
    using publish_props_small [OF assms(2)] by (auto intro: less_trans)
  show ?thesis
  proof (cases "qos > 0 \<or> 5 \<le> pb_MQTTVersion pack")
    case True
    then show ?thesis
      by (intro exI [of _ "[writeInt (int (length t)), t, ?two @ publish_props pack, publish_payload pack]"])
        (use assms(1) t in \<open>simp add: MQTTPacket_send_publish_def Let_def tp pw len size_t_of_nat [OF small]
          publish_body_def writeUTF_def del: length_append\<close>)
  next
    case False
    then show ?thesis
      by (intro exI [of _ "[writeInt (int (length t)), t, publish_payload pack]"])
        (use assms(1) t in \<open>simp add: MQTTPacket_send_publish_def tp publish_body_def writeUTF_def publish_props_def\<close>)
  qed
qed

lemma MQTTPacket_publish_body:
  assumes "heap_total H" "publish_ok pack" "hd_qos header = qos"
  shows "\<exists>pack'. MQTTPacket_publish H (pb_MQTTVersion pack) header (publish_body qos pack)
      (length (publish_body qos pack)) = Inr (Some pack') \<and>
    pb_header pack' = header \<and> pb_topic pack' = pb_topic pack \<and>
    pb_topiclen pack' = int (length (the (pb_topic pack))) \<and>
    pb_msgId pack' = (if qos > 0 then pb_msgId pack else 0) \<and>
    pb_payload pack' = publish_payload pack \<and> pb_payloadlen pack' = int (length (publish_payload pack)) \<and>
    (5 \<le> pb_MQTTVersion pack \<longrightarrow> props_ok (pb_properties pack') \<and>
       prop_list (pb_properties pack') = prop_list (pb_properties pack))"
proof -
  from assms(2) obtain t where t: "pb_topic pack = Some t" "0 \<notin> set t" "length t < 65536"
    and m: "0 \<le> pb_msgId pack" "pb_msgId pack < 65536" by (auto simp: publish_ok_def)
  define two where "two = (if qos > 0 then writeInt (pb_msgId pack) else [])"
  define rest where "rest = publish_props pack @ publish_payload pack"
  define data where "data = publish_body qos pack"
  have data: "data = writeUTF t @ two @ rest" by (simp add: data_def publish_body_def two_def rest_def t(1))
  have u: "readUTFlen H data 0 (length data) 0 = Inr (Some t, int (length t), length (writeUTF t))"
    using readUTFlen_writeUTF [OF t(2,3), of H "[]" "two @ rest" 0] assms(1) by (simp add: data)
  have i2: "qos > 0 \<Longrightarrow> readInt data (length (writeUTF t)) = Inr (pb_msgId pack, length (writeUTF t) + 2)"
    using readInt_before [OF m, of "writeUTF t" rest] by (simp add: data two_def)
  have l2: "qos > 0 \<Longrightarrow> 2 + length (writeUTF t) \<le> length data" by (simp add: data two_def)
  let ?p = "length (writeUTF t) + length two"
  show ?thesis
  proof (cases "5 \<le> pb_MQTTVersion pack")
    case True
    then have ok: "props_ok (pb_properties pack)" "p_length (pb_properties pack) < 268435456"
      using assms(2) by (auto simp: publish_ok_def)
    from MQTTProperties_read_ok [OF assms(1) ok, of "writeUTF t @ two" "publish_payload pack"] True
    obtain props' where r: "MQTTProperties_read H MQTTProperties_initializer data ?p (length data) =
        Inr (1, props', ?p + length (publish_props pack))" "props_ok props'"
      "prop_list props' = prop_list (pb_properties pack)"
      by (auto simp: data rest_def publish_props_def add.assoc)
    show ?thesis unfolding data_def [symmetric]
      by (cases "qos > 0") (use u i2 l2 r True assms(1,3) t in
        \<open>auto simp: MQTTPacket_publish_def two_def version_defs read_props_def data rest_def Let_def\<close>)
  next
    case False
    show ?thesis unfolding data_def [symmetric]
      by (cases "qos > 0") (use u i2 l2 False assms(1,3) t in
        \<open>auto simp: MQTTPacket_publish_def two_def version_defs data rest_def publish_props_def\<close>)
  qed
qed

subsection \<open>Receiving a frame\<close>

lemma MQTTPacket_Factory_frame:
  assumes "net_serves (WebSocket_getch (e_net E) (socket_of i s)) (g_net s) (header # vbi (length body)) n1"
    and "WebSocket_getdata (e_net E) (socket_of i s) (length body) n1 = (Some body, length body, n2)"
    and "length body < 268435456"
  shows "MQTTPacket_Factory E v i s =
    ub_bind (factory_build E v i header body (length body) TCPSOCKET_COMPLETE (s\<lparr>g_net := n2\<rparr>))
      (\<lambda>(error, pack, s1). Inr (error, pack, if error = TCPSOCKET_INTERRUPTED
         then s1\<lparr>g_net := WebSocket_framePosSeekTo (e_net E)
           (WebSocket_framePos (e_net E) (g_net s)) (g_net s1)\<rparr> else s1))"
proof -
  from assms(1) obtain n0 where h: "WebSocket_getch (e_net E) (socket_of i s) (g_net s) = (TCPSOCKET_COMPLETE, header, n0)"
    and r: "net_serves (WebSocket_getch (e_net E) (socket_of i s)) n0 (vbi (length body)) n1"
    by auto
  from MQTTPacket_decode_vbi [OF assms(3) r]
  have d: "MQTTPacket_decode (WebSocket_getch (e_net E) (socket_of i s)) n0 = (TCPSOCKET_COMPLETE, length body, n1)" .
  show ?thesis
    by (simp add: MQTTPacket_Factory_def h d assms(2) Let_def)
      (auto simp: split_beta cong: ub_bind_cong)
qed

lemma time_now_sys: "snd (time_now E s) = s\<lparr>g_net := g_net (snd (time_now E s))\<rparr>"
  by (simp add: time_now_def Let_def split: prod.split)

lemma factory_build_publish:
  assumes "hd_type header = PUBLISH" "hd_qos header \<noteq> 2"
    and "MQTTPacket_publish (e_heap E) v header body n = Inr (Some pack)"
  shows "factory_build E v i header body n error s = Inr (error, Some (PkPublish pack), touch_received E i s)"
  using assms by (simp add: factory_build_def msgTypes_defs version_defs new_packets_def call_pf_def
      numeral_eq_Suc)

subsection \<open>CONNECT, SUBSCRIBE, UNSUBSCRIBE: the sizes computed are the sizes written\<close>

definition props_small :: "int \<Rightarrow> MQTTProperties option \<Rightarrow> bool" where
  "props_small v p \<longleftrightarrow> (v \<ge> 5 \<longrightarrow> (case p of None \<Rightarrow> True | Some ps \<Rightarrow> props_ok ps \<and> p_length ps < 268435456))"

definition client_strings_ok :: "'f Clients \<Rightarrow> bool" where
  "client_strings_ok c \<longleftrightarrow>
     (case c_will c of None \<Rightarrow> True
      | Some w \<Rightarrow> 0 \<le> w_payloadlen w \<and> nat (w_payloadlen w) \<le> length (w_payload w)) \<and>
     (case c_password c of None \<Rightarrow> True
      | Some p \<Rightarrow> 0 \<le> c_passwordlen c \<and> nat (c_passwordlen c) \<le> length p)"

lemma vbi_0 [simp]: "vbi 0 = [0]"
  by (simp add: vbi_unfold)

lemma write_props_len:
  assumes "props_small v p"
  shows "\<exists>b. write_props v p = Inr b \<and> int (length b) = (if v \<ge> 5 then MQTTProperties_len p else 0)"
proof (cases "v \<ge> 5")
  case True
  show ?thesis
  proof (cases p)
    case None
    with True show ?thesis by (simp add: write_props_def version_defs MQTTProperties_write_def MQTTProperties_len_def)
  next
    case (Some ps)
    with True assms have "props_ok ps" "p_length ps < 268435456" by (auto simp: props_small_def)
    with True Some show ?thesis
      by (simp add: write_props_def version_defs MQTTProperties_write_ok MQTTProperties_len_ok)
  qed
qed (simp add: write_props_def version_defs)

lemma write_props_small:
  assumes "props_small v p" "write_props v p = Inr b"
  shows "length b < 1000000000"
proof (cases p)
  case None
  with assms(2) show ?thesis
    by (auto simp: write_props_def MQTTProperties_write_def split: if_splits)
next
  case (Some ps)
  show ?thesis
  proof (cases "v \<ge> 5")
    case True
    with assms Some have ok: "props_ok ps" "p_length ps < 268435456" by (auto simp: props_small_def)
    with True Some assms(2) have "b = vbi (nat (p_length ps)) @ list_bytes (prop_list ps)"
      by (simp add: write_props_def version_defs MQTTProperties_write_ok)
    moreover have "length (list_bytes (prop_list ps)) < 268435456" using ok by (simp add: props_ok_def)
    moreover have "length (vbi (nat (p_length ps))) \<le> 4" using ok(2) by (intro length_vbi_4) linarith
    ultimately show ?thesis by simp
  qed (use assms(2) in \<open>simp add: write_props_def version_defs\<close>)
qed

lemma length_writeUTF [simp]: "length (writeUTF s) = 2 + strlen s"
  by (simp add: writeUTF_def strlen_def)

lemma writeData_len:
  "0 \<le> n \<Longrightarrow> nat n \<le> length d \<Longrightarrow> \<exists>b. writeData d n = Inr b \<and> int (length b) = n + 2"
  by (auto simp: writeData_def memcpy_src_def)

text \<open>The length that is needed, a number, and what the code computes.\<close>

definition opt_len :: "('a \<Rightarrow> int) \<Rightarrow> 'a option \<Rightarrow> int" where
  "opt_len f x = (case x of None \<Rightarrow> 0 | Some v \<Rightarrow> f v)"

definition connect_size ::
    "int \<Rightarrow> MQTTProperties option \<Rightarrow> MQTTProperties option \<Rightarrow> 'f Clients \<Rightarrow> int" where
  "connect_size v cp wp client =
     (if v = 3 then 12 else 10) + int (strlen (c_clientID client)) + 2
     + opt_len (\<lambda>w. int (strlen (w_topic w)) + 2 + w_payloadlen w + 2) (c_will client)
     + opt_len (\<lambda>u. int (strlen u) + 2) (c_username client)
     + opt_len (\<lambda>_. c_passwordlen client + 2) (c_password client)
     + (if v \<ge> 5 then MQTTProperties_len cp + opt_len (\<lambda>_. MQTTProperties_len wp) (c_will client) else 0)"

definition client_strings_short :: "'f Clients \<Rightarrow> bool" where
  "client_strings_short c \<longleftrightarrow> strlen (c_clientID c) < 2147483648 \<and>
     (case c_will c of None \<Rightarrow> True | Some w \<Rightarrow> strlen (w_topic w) < 2147483648) \<and>
     (case c_username c of None \<Rightarrow> True | Some u \<Rightarrow> strlen u < 2147483648)"

definition int_or_overflow :: "int \<Rightarrow> ub + int" where
  "int_or_overflow n = (if n < 2147483648 then Inr n else Inl IntOverflow)"

lemma int_strlen_short: "strlen s < 2147483648 \<Longrightarrow> int_strlen s = int (strlen s)"
  by (simp add: int_strlen_def signed_of_nat signed_take_bit_int_eq_self)

lemma int_sum_nonneg:
  "0 \<le> acc \<Longrightarrow> acc < 2147483648 \<or> xs \<noteq> [] \<Longrightarrow> \<forall>x\<in>set xs. 0 \<le> x \<Longrightarrow> int_sum acc xs = int_or_overflow (acc + sum_list xs)"
proof (induction xs arbitrary: acc)
  case (Cons x xs)
  have "0 \<le> sum_list xs" using Cons.prems(3) by (intro sum_list_nonneg) auto
  then show ?case using Cons.prems Cons.IH [of "acc + x"] by (auto simp: c_int_def int_or_overflow_def add.assoc)
qed (simp add: int_or_overflow_def)

lemma add_opt_nonneg:
  assumes "\<And>v. x = Some v \<Longrightarrow> f v = int_or_overflow (m v) \<and> 0 \<le> m v" "0 \<le> len" "len < 2147483648"
  shows "add_opt f x len = int_or_overflow (len + opt_len m x) \<and> 0 \<le> opt_len m x"
  using assms by (auto simp: add_opt_def opt_len_def int_or_overflow_def c_int_def split: option.splits)

lemma int_or_overflow_bind:
  assumes "\<And>len. 0 \<le> len \<Longrightarrow> len < 2147483648 \<Longrightarrow> k len = int_or_overflow (len + m)" "0 \<le> m" "0 \<le> n"
  shows "ub_bind (int_or_overflow n) k = int_or_overflow (n + m)"
  using assms by (auto simp: int_or_overflow_def)

lemma connect_len_size:
  assumes "client_strings_ok c" "client_strings_short c" "props_small v cp" "c_will c \<noteq> None \<Longrightarrow> props_small v wp"
  shows "connect_len v cp wp c = int_or_overflow (connect_size v cp wp c)"
proof -
  let ?w = "opt_len (\<lambda>w. int (strlen (w_topic w)) + 2 + w_payloadlen w + 2) (c_will c)"
  let ?u = "opt_len (\<lambda>u. int (strlen u) + 2) (c_username c)" and ?p = "opt_len (\<lambda>_. c_passwordlen c + 2) (c_password c)"
  let ?q = "if v \<ge> 5 then MQTTProperties_len cp + opt_len (\<lambda>_. MQTTProperties_len wp) (c_will c) else 0"
  have first: "int_sum (if v = MQTTVERSION_3_1 then 12 else 10) [int_strlen (c_clientID c), 2] =
      int_or_overflow ((if v = 3 then 12 else 10) + int (strlen (c_clientID c)) + 2)"
    using assms(2) by (subst int_sum_nonneg) (simp_all add: client_strings_short_def int_strlen_short version_defs)
  have will: "add_opt (\<lambda>w. int_sum (int_strlen (w_topic w)) [2, w_payloadlen w, 2]) (c_will c) len =
      int_or_overflow (len + ?w) \<and> 0 \<le> ?w" if "0 \<le> len" "len < 2147483648" for len
    by (rule add_opt_nonneg [OF _ that]) (use assms(1,2) in \<open>simp add: client_strings_ok_def client_strings_short_def
      int_strlen_short int_sum_nonneg add.assoc del: int_sum.simps\<close>)
  have user: "add_opt (\<lambda>u. int_sum (int_strlen u) [2]) (c_username c) len = int_or_overflow (len + ?u) \<and> 0 \<le> ?u"
    if "0 \<le> len" "len < 2147483648" for len
    by (rule add_opt_nonneg [OF _ that]) (use assms(2) in \<open>simp add: client_strings_short_def int_strlen_short
      int_sum_nonneg del: int_sum.simps\<close>)
  have pass: "add_opt (\<lambda>_. int_sum (c_passwordlen c) [2]) (c_password c) len = int_or_overflow (len + ?p) \<and> 0 \<le> ?p"
    if "0 \<le> len" "len < 2147483648" for len
    by (rule add_opt_nonneg [OF _ that]) (use assms(1) in \<open>simp add: client_strings_ok_def int_sum_nonneg del: int_sum.simps\<close>)
  have len: "v \<ge> 5 \<Longrightarrow> 0 \<le> MQTTProperties_len cp" "v \<ge> 5 \<Longrightarrow> c_will c \<noteq> None \<Longrightarrow> 0 \<le> MQTTProperties_len wp"
    using write_props_len [OF assms(3)] write_props_len [OF assms(4)] by fastforce+
  have props: "(if v \<ge> MQTTVERSION_5
       then ub_bind (c_int (len + MQTTProperties_len cp)) (\<lambda>len. add_opt (\<lambda>_. Inr (MQTTProperties_len wp)) (c_will c) len)
       else Inr len) = int_or_overflow (len + ?q)" "0 \<le> ?q" if "0 \<le> len" "len < 2147483648" for len
    using len that
    by (auto simp: version_defs c_int_def int_or_overflow_def add_opt_def opt_len_def split: option.splits)
  have n: "0 \<le> ?w" "0 \<le> ?u" "0 \<le> ?p" "0 \<le> ?q"
    using will [of 0] user [of 0] pass [of 0] props(2) [of 0] by simp_all
  show ?thesis
    unfolding connect_len_def first connect_size_def
    using will user pass props(1) n by (auto simp: int_or_overflow_def)
qed

lemma connect_body_len:
  assumes "client_strings_ok c" "props_small v cp" "c_will c \<noteq> None \<Longrightarrow> props_small v wp"
    and "length start = (if v = 3 then 9 else 7)"
  shows "\<exists>b. connect_body v cp wp c start = Inr b \<and> int (length b) = connect_size v cp wp c"
proof -
  obtain b1 where b1: "write_props v cp = Inr b1" "int (length b1) = (if v \<ge> 5 then MQTTProperties_len cp else 0)"
    using write_props_len [OF assms(2)] by blast
  obtain b2 where b2: "write_opt (\<lambda>w. ub_bind (write_props v wp) (\<lambda>p.
      ub_bind (writeData (w_payload w) (w_payloadlen w)) (\<lambda>d. Inr (p @ writeUTF (w_topic w) @ d)))) (c_will c) = Inr b2"
    "int (length b2) = opt_len (\<lambda>w. int (strlen (w_topic w)) + 2 + w_payloadlen w + 2) (c_will c)
      + (if v \<ge> 5 then opt_len (\<lambda>_. MQTTProperties_len wp) (c_will c) else 0)"
  proof (cases "c_will c")
    case (Some w)
    with assms(3) obtain p where "write_props v wp = Inr p"
      "int (length p) = (if v \<ge> 5 then MQTTProperties_len wp else 0)" using write_props_len by blast
    moreover obtain d where "writeData (w_payload w) (w_payloadlen w) = Inr d"
      "int (length d) = w_payloadlen w + 2"
      using Some assms(1) writeData_len [of "w_payloadlen w" "w_payload w"] by (auto simp: client_strings_ok_def)
    ultimately show thesis using that Some by (simp add: write_opt_def opt_len_def)
  qed (use that in \<open>simp add: write_opt_def opt_len_def\<close>)
  obtain b4 where b4: "write_opt (\<lambda>p. writeData p (c_passwordlen c)) (c_password c) = Inr b4"
    "int (length b4) = opt_len (\<lambda>_. c_passwordlen c + 2) (c_password c)"
  proof (cases "c_password c")
    case (Some p)
    with assms(1) writeData_len [of "c_passwordlen c" p] show thesis
      using that by (auto simp: client_strings_ok_def write_opt_def opt_len_def)
  qed (use that in \<open>simp add: write_opt_def opt_len_def\<close>)
  have b3: "int (length (case c_username c of None \<Rightarrow> [] | Some u \<Rightarrow> writeUTF u)) =
      opt_len (\<lambda>u. int (strlen u) + 2) (c_username c)"
    by (simp add: opt_len_def split: option.split)
  show ?thesis
    by (simp add: connect_body_def b1(1) b2(1) b4(1) connect_size_def b3 b2(2) b4(2) assms(4) b1(2) version_defs)
qed

lemma subscribe_loop_len:
  "length ts \<le> length qs \<Longrightarrow> (\<And>os. opts = Some os \<Longrightarrow> i + length ts \<le> length os) \<Longrightarrow>
    \<exists>b. subscribe_loop v ts qs opts i = Inr b \<and> length b = length ts * 3 + sum_list (map strlen ts)"
proof (induction ts arbitrary: qs i)
  case (Cons t ts)
  then obtain q qs' where qs: "qs = q # qs'" by (cases qs) auto
  from Cons.prems(2) have "\<And>os. opts = Some os \<Longrightarrow> i + 1 + length ts \<le> length os" by simp
  from Cons.IH [OF _ this, of qs'] Cons.prems(1) qs obtain b where
    "subscribe_loop v ts qs' opts (i + 1) = Inr b" "length b = length ts * 3 + sum_list (map strlen ts)" by auto
  with qs Cons.prems(2) show ?case by (cases opts) fastforce+
qed simp

lemma fill_size_t:
  assumes "int (length b) = n" "length b < 2 ^ 64"
  shows "fill (size_t_of n) b = Inr b"
  using size_t_of_nat [OF assms(2)] assms(1) by auto

subsection \<open>Claims\<close>

text \<open>
  C26: \<^verbatim>\<open>MQTTPacket_send_publish\<close> puts a PUBLISH on the network as one frame. For a packet whose
  topic is a C string, whose message id and lengths are in range and whose property list is well
  formed, every buffer it allocates is exactly filled (no overflow, no byte sent that was not
  written), and the buffers together are the body of the packet: topic, message id when the QoS
  is not 0, properties in version 5, payload. What is given to the network, in one call and for every
  QoS, is the fixed header, the remaining length and those buffers; with QoS 1 and 2 the same frame is
  given to the store first, under the message id, whatever the store says of it.
\<close>

theorem publish_sent_as_frame:
  fixes dup retained :: nat
  assumes "heap_total (e_heap E)" "publish_ok pack" "qos \<le> 2"
  defines "frame \<equiv> mk_header PUBLISH dup qos retained # vbi (length (publish_body qos pack))"
  shows "\<exists>bufs. concat bufs = publish_body qos pack \<and>
     MQTTPacket_send_publish E pack dup qos retained i s =
       ub_bind (if qos = 0 then Inr s
         else ub_bind (MQTTPersistence_putPacket E (socket_of i s) frame bufs PUBLISH (pb_msgId pack) 0
           (pb_MQTTVersion pack) s) (\<lambda>(_, s). Inr s)) (\<lambda>s.
       Inr (case put_frame E i frame bufs (pb_mask pack) s of (rc, m, s) \<Rightarrow> (rc, pack\<lparr>pb_mask := m\<rparr>, s)))"
proof -
  let ?h = "mk_header PUBLISH dup qos retained"
  from MQTTPacket_send_publish_eq [OF assms(1,2)] obtain bufs where
    b: "concat bufs = publish_body qos pack" "qos > 0 \<longrightarrow> length bufs > 2 \<and> bufs ! 2 = writeInt (pb_msgId pack) @ publish_props pack"
    "MQTTPacket_send_publish E pack dup qos retained i s =
      ub_bind (MQTTPacket_sends E i ?h bufs (pb_mask pack) (pb_MQTTVersion pack) s) (\<lambda>(rc, m, s). Inr (rc, pack\<lparr>pb_mask := m\<rparr>, s))"
    by blast
  have h: "hd_type ?h = PUBLISH" "hd_qos ?h = qos" using assms(3) by (simp_all add: mk_header_fields PUBLISH_def)
  show ?thesis
  proof (cases "qos = 0")
    case True
    then show ?thesis using MQTTPacket_sends_frame [OF assms(1), of ?h i bufs "pb_mask pack" "pb_MQTTVersion pack" s] b h
      by (intro exI [of _ bufs]) (auto simp: frame_def split: prod.split)
  next
    case False
    have r: "readInt (bufs ! 2) 0 = Inr (pb_msgId pack, 2)"
      using b(2) False assms(2) readInt_before [of "pb_msgId pack" "[]" "publish_props pack"] by (simp add: publish_ok_def)
    show ?thesis
      using MQTTPacket_sends_publish [OF assms(1) h(1) _ _ r, of i "pb_mask pack" "pb_MQTTVersion pack" s] b h(2) False
      by (intro exI [of _ bufs]) (auto simp: frame_def ub_bind_def split: prod.split sum.split)
  qed
qed

definition sample_publish :: Publish where
  "sample_publish = \<lparr>pb_header = 0, pb_topic = Some [116], pb_topiclen = 1, pb_msgId = 7,
     pb_payload = [104, 105, 0], pb_payloadlen = 2, pb_MQTTVersion = 5, pb_properties = sample_props,
     pb_mask = [0, 0, 0, 0]\<rparr>"

lemma sample_publish_ok: "publish_ok sample_publish"
  using sample_props_ok by (simp add: publish_ok_def sample_publish_def) (simp add: sample_props_def)

theorem publish_sent_as_frame_witness:
  "\<exists>bufs. concat bufs = publish_body 1 sample_publish \<and>
     MQTTPacket_send_publish std_env sample_publish 0 1 0 0 (blank_sys blank_client ()) =
       Inr (case put_frame std_env 0 (50 # vbi (length (publish_body 1 sample_publish))) bufs [0, 0, 0, 0]
         (blank_sys blank_client ()) of (rc, m, s) \<Rightarrow> (rc, sample_publish\<lparr>pb_mask := m\<rparr>, s))"
proof -
  have m: "pb_mask sample_publish = [0, 0, 0, 0]" "mk_header PUBLISH 0 1 0 = 50"
    by (simp_all add: sample_publish_def mk_header_def PUBLISH_def)
  have so: "socket_of 0 (blank_sys blank_client ()) = 5" by (simp add: socket_of_def blank_client_def)
  have np: "c_persistence (blank_client :: unit Clients) = None" by (simp add: blank_client_def)
  have fc: "find_client std_env 5 (blank_sys blank_client ()) = Inr 0"
    by (rule find_client_blank) (simp add: blank_client_def)
  have p: "MQTTPersistence_putPacket std_env (socket_of 0 (blank_sys blank_client ())) f bufs PUBLISH msgid 0 v
      (blank_sys blank_client ()) = Inr (0, blank_sys blank_client ())" for f bufs msgid v
    unfolding so MQTTPersistence_putPacket_def by (simp add: np fc)
  have "heap_total (e_heap std_env)" by simp
  from publish_sent_as_frame [OF this sample_publish_ok, of 1 0 0 0 "blank_sys blank_client ()"]
  show ?thesis unfolding m by (auto simp: p split: prod.splits)
qed

text \<open>
  C23: A PUBLISH of any version is received as it was sent. When the fixed header, the remaining
  length and the body of a well-formed packet arrive on a connection, \<^verbatim>\<open>MQTTPacket_Factory\<close>
  returns without error a PUBLISH with the same topic, message id (0 for QoS 0), payload and, in
  version 5, the same properties in the same order. For QoS 0 and 1; a PUBLISH with QoS 2 is
  parsed by the same code but persisted before it is returned.
\<close>

theorem publish_received_as_sent:
  assumes "heap_total (e_heap E)" "publish_ok pack" "qos \<le> 1" "length (publish_body qos pack) < 268435456"
    and "header = mk_header PUBLISH dup qos retained"
    and "net_serves (WebSocket_getch (e_net E) (socket_of i s)) (g_net s)
      (header # vbi (length (publish_body qos pack))) n1"
    and "WebSocket_getdata (e_net E) (socket_of i s) (length (publish_body qos pack)) n1 =
      (Some (publish_body qos pack), length (publish_body qos pack), n2)"
  shows "\<exists>pack'. MQTTPacket_Factory E (pb_MQTTVersion pack) i s =
      Inr (TCPSOCKET_COMPLETE, Some (PkPublish pack'), touch_received E i (s\<lparr>g_net := n2\<rparr>)) \<and>
    pb_header pack' = header \<and> pb_topic pack' = pb_topic pack \<and>
    pb_msgId pack' = (if qos > 0 then pb_msgId pack else 0) \<and> pb_payload pack' = publish_payload pack \<and>
    (5 \<le> pb_MQTTVersion pack \<longrightarrow> props_ok (pb_properties pack') \<and>
       prop_list (pb_properties pack') = prop_list (pb_properties pack))"
proof -
  have q: "hd_qos header = qos" using assms(3,5) by (simp add: mk_header_fields)
  from MQTTPacket_publish_body [OF assms(1,2) q] obtain pack' where
    p: "MQTTPacket_publish (e_heap E) (pb_MQTTVersion pack) header (publish_body qos pack)
      (length (publish_body qos pack)) = Inr (Some pack')"
    and eqs: "pb_header pack' = header" "pb_topic pack' = pb_topic pack"
      "pb_msgId pack' = (if qos > 0 then pb_msgId pack else 0)" "pb_payload pack' = publish_payload pack"
      "5 \<le> pb_MQTTVersion pack \<longrightarrow> props_ok (pb_properties pack') \<and>
          prop_list (pb_properties pack') = prop_list (pb_properties pack)"
    by auto
  have "factory_build E (pb_MQTTVersion pack) i header (publish_body qos pack) (length (publish_body qos pack))
      TCPSOCKET_COMPLETE (s\<lparr>g_net := n2\<rparr>) =
      Inr (TCPSOCKET_COMPLETE, Some (PkPublish pack'), touch_received E i (s\<lparr>g_net := n2\<rparr>))"
    by (rule factory_build_publish [OF _ _ p]) (use q assms(3,5) in auto)
  with MQTTPacket_Factory_frame [OF assms(6,7,4)] eqs show ?thesis
    by (intro exI [of _ pack']) (simp add: socket_defs)
qed

text \<open>A network whose state is the bytes still to come.\<close>

definition byte_net :: "bytes net_lib" where
  "byte_net = \<lparr>WebSocket_getch = \<lambda>_ n. list_getch n,
     WebSocket_getdata = \<lambda>_ k n. (Some (take k n), min k (length n), drop k n),
     WebSocket_framePos = \<lambda>_. 0, WebSocket_framePosSeekTo = \<lambda>_ n. n,
     WebSocket_putdatas = \<lambda>_ h bs m n. (TCPSOCKET_COMPLETE, m, n @ h @ concat bs),
     Socket_noPendingWrites = \<lambda>_ _. True, WebSocket_close = \<lambda>_ n. n, Socket_close = \<lambda>_ n. n,
     SocketBuffer_updateWrite = \<lambda>_ _ _ n. n,
     clock_gettime = \<lambda>n. (\<lparr>ts_sec = 0, ts_nsec = 0\<rparr>, n)\<rparr>"

definition byte_env :: "(bytes, 'f) env" where
  "byte_env = \<lparr>e_heap = \<lambda>_. True, e_lists = all_std_lists, e_net = byte_net\<rparr>"

definition byte_sys :: "'f Clients \<Rightarrow> 'f \<Rightarrow> bytes \<Rightarrow> (bytes, 'f) sys" where
  "byte_sys c fs n = \<lparr>g_net = n, g_fs = fs, g_clients = [c], g_publications = [], g_fresh = 0,
     g_pending_writes = [], g_msgs_received = 0, g_msgs_sent = 0\<rparr>"

lemma byte_net_simps [simp]:
  "e_heap byte_env = (\<lambda>_. True)" "WebSocket_getch (e_net byte_env) k = list_getch" "g_net (byte_sys c fs n) = n"
  "WebSocket_getdata (e_net byte_env) k l n = (Some (take l n), min l (length n), drop l n)"
  by (simp_all add: byte_env_def byte_net_def byte_sys_def)

lemma byte_net_serves [simp]: "net_serves list_getch (xs @ ys) xs ys"
  by (induction xs) (simp_all add: socket_defs)

theorem publish_received_as_sent_witness:
  "\<exists>pack' s'. MQTTPacket_Factory byte_env 5 0 (byte_sys blank_client ()
      ((50 # vbi (length (publish_body 1 sample_publish))) @ publish_body 1 sample_publish)) =
      Inr (TCPSOCKET_COMPLETE, Some (PkPublish pack'), s') \<and>
    pb_topic pack' = Some [116] \<and> pb_msgId pack' = 7 \<and> pb_payload pack' = [104, 105] \<and>
    prop_list (pb_properties pack') = prop_list sample_props"
proof -
  let ?s = "byte_sys blank_client () ((50 # vbi (length (publish_body 1 sample_publish))) @ publish_body 1 sample_publish)"
  have l: "length (publish_body 1 sample_publish) < 268435456"
    by (simp add: publish_body_def sample_publish_def publish_props_def publish_payload_def writeUTF_def
        sample_props_def prop_list_def prop_bytes_def value_bytes_def MQTTProperty_getType_def namesToTypes_def
        lenstring_bytes_def vbi_unfold)
  have h: "50 = mk_header PUBLISH 0 1 0" by (simp add: mk_header_def PUBLISH_def)
  have f: "pb_MQTTVersion sample_publish = 5" "pb_topic sample_publish = Some [116]"
    "pb_msgId sample_publish = 7" "publish_payload sample_publish = [104, 105]"
    "pb_properties sample_publish = sample_props"
    by (simp_all add: sample_publish_def publish_payload_def)
  have "heap_total (e_heap byte_env)" "(1::nat) \<le> 1" by simp_all
  from publish_received_as_sent [OF this(1) sample_publish_ok this(2) l h, of 0 ?s
      "publish_body 1 sample_publish" "[]", unfolded byte_net_simps f, OF byte_net_serves]
  show ?thesis by (simp only: length_take length_append append_Cons take_all_iff) auto
qed

text \<open>
  C27: \<^verbatim>\<open>MQTTPacket_send_connect\<close> fills its buffer exactly, in every supported version and for every
  combination of will, user name, password and property lists, as long as the packet is shorter than
  \<open>2 ^ 31\<close> bytes: the \<^verbatim>\<open>int\<close> computed beforehand is the number of bytes written, so that nothing is
  written past the buffer and no byte is sent that was not written, and one frame goes to the network.
  For a longer packet (no single string being that long) the addition overflows.
\<close>

theorem connect_sent_exact:
  assumes "heap_total (e_heap E)" "v = 3 \<or> v = 4 \<or> v = 5" "client_strings_ok (g_clients s ! i)"
    and "client_strings_short (g_clients s ! i)" "props_small v cp" "props_small v wp"
  shows "if connect_size v cp wp (g_clients s ! i) < 2147483648
    then \<exists>b. connect_body v cp wp (g_clients s ! i)
       (writeUTF (ascii (if v = 3 then ''MQIsdp'' else ''MQTT'')) @ [word_of_int v]) = Inr b \<and>
     int (length b) = connect_size v cp wp (g_clients s ! i) \<and>
     connect_len v cp wp (g_clients s ! i) = Inr (int (length b)) \<and>
     MQTTPacket_send_connect E i v cp wp s = Inr (case put_frame E i
       (mk_header CONNECT 0 0 0 # vbi (length b)) [b] [0, 0, 0, 0] s of (rc, _, s) \<Rightarrow> (rc, s))
    else MQTTPacket_send_connect E i v cp wp s = Inl IntOverflow"
proof -
  note size = connect_len_size [OF assms(3,4,5), of wp] assms(6)
  let ?start = "writeUTF (ascii (if v = 3 then ''MQIsdp'' else ''MQTT'')) @ [word_of_int v]"
  have "strlen (ascii (if v = 3 then ''MQIsdp'' else ''MQTT'')) = (if v = 3 then 6 else 4)"
    by (simp add: ascii_def of_char_def strlen_def c_str_def)
  then have "length ?start = (if v = 3 then 9 else 7)" by simp
  from connect_body_len [OF assms(3,5,6) this] obtain b where
    b: "connect_body v cp wp (g_clients s ! i) ?start = Inr b" "int (length b) = connect_size v cp wp (g_clients s ! i)"
    by blast
  have t: "hd_type (mk_header CONNECT 0 0 0) \<noteq> PUBREL" by (simp add: mk_header_fields CONNECT_def PUBREL_def)
  show ?thesis
  proof (cases "connect_size v cp wp (g_clients s ! i) < 2147483648")
    case True
    then have n: "connect_len v cp wp (g_clients s ! i) = Inr (int (length b))" "length b < 2 ^ 64"
      using size b(2) by (simp_all add: int_or_overflow_def)
    have "\<exists>b. connect_body v cp wp (g_clients s ! i) ?start = Inr b \<and>
        int (length b) = connect_size v cp wp (g_clients s ! i) \<and> connect_len v cp wp (g_clients s ! i) = Inr (int (length b)) \<and>
        MQTTPacket_send_connect E i v cp wp s = Inr (case put_frame E i
          (mk_header CONNECT 0 0 0 # vbi (length b)) [b] [0, 0, 0, 0] s of (rc, _, s) \<Rightarrow> (rc, s))"
      by (intro exI [of _ b]) (use assms(1,2) b n in \<open>auto simp: MQTTPacket_send_connect_def Let_def version_defs
        fill_size_t [OF b(2) n(2)] MQTTPacket_send_frame [OF assms(1) t] writeChar_def\<close>)
    then show ?thesis using True by simp
  next
    case False
    then show ?thesis using size by (simp add: MQTTPacket_send_connect_def Let_def int_or_overflow_def)
  qed
qed

theorem connect_sent_exact_witness:
  "\<exists>b. int (length b) = 16 \<and>
     MQTTPacket_send_connect std_env 0 4 None None (blank_sys (blank_client\<lparr>c_username := Some [117]\<rparr>) ()) =
     Inr (case put_frame std_env 0 (mk_header CONNECT 0 0 0 # vbi (length b)) [b] [0, 0, 0, 0]
       (blank_sys (blank_client\<lparr>c_username := Some [117]\<rparr>) ()) of (rc, _, s) \<Rightarrow> (rc, s))"
proof -
  let ?c = "(blank_client :: unit Clients)\<lparr>c_username := Some [117]\<rparr>"
  have l: "connect_size 4 None None ?c = 16"
    by (simp add: connect_size_def blank_client_def opt_len_def)
  have "client_strings_ok ?c" "client_strings_short ?c"
    by (simp_all add: client_strings_ok_def client_strings_short_def blank_client_def)
  with connect_sent_exact [of std_env 4 "blank_sys ?c ()" 0 None None] l show ?thesis
    by (auto simp: props_small_def)
qed

text \<open>
  \<^verbatim>\<open>MQTTPacket_send_subscribe\<close> and \<^verbatim>\<open>MQTTPacket_send_unsubscribe\<close> fill their buffers exactly for
  any topics: a SUBSCRIBE is the message id, the properties in version 5 and, for each topic in
  order, its string and the byte of its QoS and options, provided there are as many QoS values
  (and options) as topics; an UNSUBSCRIBE has the topics alone.
\<close>

theorem subscribe_sent_exact:
  assumes "heap_total (e_heap E)" "props_small v props" "v = c_MQTTVersion (g_clients s ! i)"
    and "length topics \<le> length qoss" "\<forall>os. opts = Some os \<longrightarrow> length topics \<le> length os"
    and "length topics * 3 + sum_list (map strlen topics) < 2 ^ 62"
  shows "\<exists>ps b b'. write_props v props = Inr ps \<and> subscribe_loop v topics qoss opts 0 = Inr b \<and>
     b' = concat (map writeUTF topics) \<and>
     MQTTPacket_send_subscribe E topics qoss opts props msgid dup i s = Inr (case put_frame E i
       (mk_header SUBSCRIBE dup 1 0 # vbi (2 + length ps + length b)) [writeInt msgid @ ps @ b] [0, 0, 0, 0] s
       of (rc, _, s) \<Rightarrow> (rc, s)) \<and>
     MQTTPacket_send_unsubscribe E topics props msgid dup i s = Inr (case put_frame E i
       (mk_header UNSUBSCRIBE dup 1 0 # vbi (2 + length ps + length b')) [writeInt msgid @ ps @ b'] [0, 0, 0, 0] s
       of (rc, _, s) \<Rightarrow> (rc, s))"
proof -
  obtain ps where ps: "write_props v props = Inr ps"
    "int (length ps) = (if v \<ge> 5 then MQTTProperties_len props else 0)" using write_props_len [OF assms(2)] by blast
  have psl: "length ps < 2 ^ 60" using write_props_small [OF assms(2) ps(1)] by simp
  obtain b where b: "subscribe_loop v topics qoss opts 0 = Inr b"
    "length b = length topics * 3 + sum_list (map strlen topics)"
    using subscribe_loop_len [OF assms(4), of opts 0 v] assms(5) by auto
  have u: "length (concat (map writeUTF topics)) = length topics * 2 + sum_list (map strlen topics)"
    by (induction topics) auto
  have t: "hd_type (mk_header SUBSCRIBE dup 1 0) \<noteq> PUBREL" "hd_type (mk_header UNSUBSCRIBE dup 1 0) \<noteq> PUBREL"
    by (simp_all add: mk_header_fields SUBSCRIBE_def UNSUBSCRIBE_def PUBREL_def)
  have f1: "fill (size_t_of (2 + int (length topics) * 3 + int (sum_list (map strlen topics))
      + (if v \<ge> MQTTVERSION_5 then MQTTProperties_len props else 0))) (writeInt msgid @ ps @ b) =
      Inr (writeInt msgid @ ps @ b)"
    by (rule fill_size_t) (use ps(2) b(2) psl assms(6) in \<open>simp_all add: version_defs\<close>)
  have f2: "fill (size_t_of (2 + int (length topics) * 2 + int (sum_list (map strlen topics))
      + (if v \<ge> MQTTVERSION_5 then MQTTProperties_len props else 0)))
      (writeInt msgid @ ps @ concat (map writeUTF topics)) = Inr (writeInt msgid @ ps @ concat (map writeUTF topics))"
    by (rule fill_size_t) (use ps(2) u psl assms(6) in \<open>simp_all add: version_defs\<close>)
  show ?thesis
    by (rule exI [of _ ps], rule exI [of _ b], rule exI [of _ "concat (map writeUTF topics)"])
      (simp add: ps(1) b(1) MQTTPacket_send_subscribe_def MQTTPacket_send_unsubscribe_def f1 f2
        assms(1) MQTTPacket_send_frame [OF assms(1) t(1)] MQTTPacket_send_frame [OF assms(1) t(2)] Let_def
        assms(3) [symmetric] del: One_nat_def)
qed

theorem subscribe_sent_exact_witness:
  "MQTTPacket_send_subscribe std_env [[97], [98]] [0, 1] None None 9 0 0 (blank_sys blank_client ()) =
     Inr (case put_frame std_env 0 [130, 10] [[0, 9, 0, 1, 97, 0, 0, 1, 98, 1]] [0, 0, 0, 0]
       (blank_sys blank_client ()) of (rc, _, s) \<Rightarrow> (rc, s))"
proof -
  have h: "heap_total (e_heap (std_env :: (unit, unit) env))" "props_small 4 None"
    "4 = c_MQTTVersion (g_clients (blank_sys blank_client ()) ! 0)" "length [[97], [98 :: byte]] \<le> length [0, 1 :: int]"
    "length [[97], [98 :: byte]] * 3 + sum_list (map strlen [[97], [98]]) < 2 ^ 62"
    by (simp_all add: props_small_def blank_client_def)
  have w: "write_props 4 None = Inr []" by (simp add: write_props_def version_defs)
  have l: "subscribe_loop 4 [[97], [98]] [0, 1] None 0 = Inr [0, 1, 97, 0, 0, 1, 98, 1]"
    by (simp add: writeUTF_def writeInt_def writeChar_def)
  have v: "mk_header SUBSCRIBE 0 1 0 # vbi (2 + length ([] :: bytes) + length [0, 1, 97, 0, 0, 1, 98, 1 :: byte]) = [130, 10]"
    "writeInt 9 @ [] @ [0, 1, 97, 0, 0, 1, 98, 1] = [0, 9, 0, 1, 97, 0, 0, 1, 98, 1]"
    by (simp_all add: vbi_unfold mk_header_def SUBSCRIBE_def writeInt_def)
  have n: "\<forall>os. None = Some os \<longrightarrow> length [[97], [98 :: byte]] \<le> length (os :: MQTTSubscribe_options list)"
    by simp
  from subscribe_sent_exact [OF h(1-4) n h(5), of 9 0] w l v show ?thesis
    by (auto simp only: sum.inject option.distinct simp_thms)
qed

text \<open>
  The acknowledgements. A PUBACK, PUBREC or PUBCOMP is sent as the type in the fixed header, the
  remaining length 2 and the message id; a PUBREL has the flag bit 0010 and is persisted before it
  is written. Whatever acknowledgement is sent, \<^verbatim>\<open>MQTTPacket_ack\<close> of any version below 5 reads the
  message id back.
\<close>

theorem ack_roundtrip:
  assumes "heap_total (e_heap E)" "type \<in> {PUBACK, PUBREC, PUBREL, PUBCOMP}" "0 \<le> msgid" "msgid < 65536" "v < 5"
  shows "(type \<noteq> PUBREL \<longrightarrow> MQTTPacket_send_ack E v type msgid dup i s = Inr (case put_frame E i
       [mk_header type dup 0 0, 2] [writeInt msgid] [0, 0, 0, 0] s of (rc, _, s) \<Rightarrow> (rc, s))) \<and>
     MQTTPacket_send_ack E v type msgid dup i s =
       MQTTPacket_send E i (mk_header type dup (if type = PUBREL then 1 else 0) 0) (writeInt msgid) v s \<and>
     MQTTPacket_ack (e_heap E) v header (writeInt msgid @ rest) 2 = Inr (if hd_type header = DISCONNECT
       then Some \<lparr>ak_header = header, ak_msgId = None, ak_rc = None, ak_MQTTVersion = v, ak_properties = None\<rparr>
       else Some \<lparr>ak_header = header, ak_msgId = Some msgid, ak_rc = None, ak_MQTTVersion = v, ak_properties = None\<rparr>)"
proof -
  have f: "fill 2 (writeInt msgid) = Inr (writeInt msgid)" using fill_exact [of "writeInt msgid"] by simp
  have a: "MQTTPacket_send_ack E v type msgid dup i s =
      MQTTPacket_send E i (mk_header type dup (if type = PUBREL then 1 else 0) 0) (writeInt msgid) v s"
    using assms(1) f by (simp add: MQTTPacket_send_ack_def)
  have t: "type \<noteq> PUBREL \<Longrightarrow> hd_type (mk_header type dup 0 0) \<noteq> PUBREL"
    using assms(2) by (auto simp: mk_header_fields msgTypes_defs)
  show ?thesis
    using a assms MQTTPacket_send_frame [OF assms(1) t, of i "writeInt msgid" v s]
      readInt_before [OF assms(3,4), of "[]" rest]
    by (auto simp: vbi_unfold MQTTPacket_ack_def version_defs Let_def)
qed

theorem ack_roundtrip_witness:
  "MQTTPacket_send_ack std_env 4 PUBACK 258 0 0 (blank_sys blank_client ()) = Inr (case put_frame std_env 0
     [64, 2] [[1, 2]] [0, 0, 0, 0] (blank_sys blank_client ()) of (rc, _, s) \<Rightarrow> (rc, s))"
  using ack_roundtrip [of std_env PUBACK 258 4 0 0 "blank_sys blank_client ()"]
  by (simp add: msgTypes_defs mk_header_def writeInt_def)

end
