(* ===== verification/Protocol.thy ===== *)
theory Protocol
  imports PacketIO
begin

section \<open>The protocol engine: \<^verbatim>\<open>src/include/MQTTProtocolClient.c\<close>\<close>

text \<open>
  Message ids, the publish exchanges of QoS 0, 1 and 2 in both directions, keep-alive and retry;
  with the parts of \<^verbatim>\<open>MQTTClient.c\<close> they call: handing a publication to the application
  (\<^verbatim>\<open>Protocol_processPublication\<close>) and closing a session.

  \<open>i\<close> is the position of the client in \<^verbatim>\<open>bstate->clients\<close>. A message refers to its publication
  by an address in \<^verbatim>\<open>state.publications\<close>; an address that is not in the list is a pointer to
  released memory. \<open>None\<close> is a NULL pointer.
\<close>

text \<open>
  The module is linked with one of two clients, which provide \<^verbatim>\<open>MQTTProtocol_closeSession\<close> and
  \<^verbatim>\<open>Protocol_processPublication\<close>. A function that calls one of them, directly or not, has it as an
  argument and a name ending in \<open>_with\<close>; the name without it is the function linked with the
  synchronous client. The state has room (\<open>'z\<close>) for the variables of the other one.
\<close>

type_synonym ('n, 'f, 'z) closer = "nat \<Rightarrow> ('n, 'f, 'z) sys_scheme \<Rightarrow> ub + ('n, 'f, 'z) sys_scheme"
type_synonym ('n, 'f, 'z) processor =
  "Publish \<Rightarrow> nat \<Rightarrow> bool \<Rightarrow> ('n, 'f, 'z) sys_scheme \<Rightarrow> ub + (Publish \<times> ('n, 'f, 'z) sys_scheme)"

subsection \<open>Message ids\<close>

definition next_id :: "int \<Rightarrow> int" where
  "next_id msgid = (if msgid = MAX_MSG_ID then 1 else msgid + 1)"

text \<open>
  The loop of \<^verbatim>\<open>MQTTProtocol_assignMsgId\<close>; \<open>None\<close> when it does not end, which it does not when
  every id is in use and the start is 0.
\<close>

partial_function (option) assign_loop ::
    "Messages list_lib \<Rightarrow> Messages list \<Rightarrow> int \<Rightarrow> int \<Rightarrow> int option" where
  "assign_loop L outboundMsgs start_msgid msgid =
     (if ListFindItem L outboundMsgs (messageIDCompare msgid) = None then Some msgid
      else let msgid = next_id msgid in
        if msgid = start_msgid then Some 0 else assign_loop L outboundMsgs start_msgid msgid)"

definition MQTTProtocol_assignMsgId :: "Messages list_lib \<Rightarrow> 'f Clients \<Rightarrow> (int \<times> 'f Clients) option" where
  "MQTTProtocol_assignMsgId L client =
     (let start_msgid = c_msgID client in
      case assign_loop L (c_outboundMsgs client) start_msgid (next_id start_msgid) of
        None \<Rightarrow> None
      | Some msgid \<Rightarrow> Some (msgid, if msgid \<noteq> 0 then client\<lparr>c_msgID := msgid\<rparr> else client))"

subsection \<open>Stored publications\<close>

definition find_pub :: "('n, 'f) env \<Rightarrow> nat \<Rightarrow> ('n, 'f, 'z) sys_scheme \<Rightarrow> nat option" where
  "find_pub E a s = ListFindItem (l_pubs (e_lists E)) (g_publications s) (\<lambda>(b, _). b = a)"

definition get_pub :: "('n, 'f) env \<Rightarrow> nat \<Rightarrow> ('n, 'f, 'z) sys_scheme \<Rightarrow> ub + Publications" where
  "get_pub E a s =
     (case find_pub E a s of None \<Rightarrow> Inl UseAfterFree | Some k \<Rightarrow> Inr (snd (g_publications s ! k)))"

definition set_pub :: "('n, 'f) env \<Rightarrow> nat \<Rightarrow> Publications \<Rightarrow> ('n, 'f, 'z) sys_scheme \<Rightarrow> ub + ('n, 'f, 'z) sys_scheme" where
  "set_pub E a p s =
     (case find_pub E a s of None \<Rightarrow> Inl UseAfterFree
      | Some k \<Rightarrow> Inr (s\<lparr>g_publications := (g_publications s)[k := (a, p)]\<rparr>))"

text \<open>\<^verbatim>\<open>ListRemove(&(state.publications), p)\<close>.\<close>

definition drop_pub :: "('n, 'f) env \<Rightarrow> nat \<Rightarrow> ('n, 'f, 'z) sys_scheme \<Rightarrow> ('n, 'f, 'z) sys_scheme" where
  "drop_pub E a s =
     (case find_pub E a s of None \<Rightarrow> s
      | Some k \<Rightarrow> s\<lparr>g_publications := ListRemove (l_pubs (e_lists E)) (g_publications s) k\<rparr>)"

definition null_bytes :: "bytes option \<Rightarrow> bytes" where
  "null_bytes p = (case p of None \<Rightarrow> [] | Some b \<Rightarrow> b)"

text \<open>
  The publication takes over the topic and the payload of the packet. The length reported for the
  accounting of the lists is left out.
\<close>

definition MQTTProtocol_storePublication ::
    "('n, 'f) env \<Rightarrow> Publish \<Rightarrow> ('n, 'f, 'z) sys_scheme \<Rightarrow> ub + (nat option \<times> Publish \<times> ('n, 'f, 'z) sys_scheme)" where
  "MQTTProtocol_storePublication E publish s =
     (if \<not> e_heap E (ReqStruct ''Publications'') then Inr (None, publish, s)
      else case pb_topic publish of None \<Rightarrow> Inl NullDeref
      | Some t \<Rightarrow>
         let a = g_fresh s;
             p = \<lparr>pu_topic = Some t, pu_topiclen = pb_topiclen publish, pu_payload = Some (pb_payload publish),
                  pu_payloadlen = pb_payloadlen publish, pu_refcount = 1, pu_mask = pb_mask publish\<rparr>
         in Inr (Some a, publish\<lparr>pb_topic := None, pb_payload := []\<rparr>,
              s\<lparr>g_publications := ListAppend (l_pubs (e_lists E)) (g_publications s) (a, p), g_fresh := a + 1\<rparr>))"

definition MQTTProtocol_removePublication ::
    "('n, 'f) env \<Rightarrow> nat option \<Rightarrow> ('n, 'f, 'z) sys_scheme \<Rightarrow> ub + ('n, 'f, 'z) sys_scheme" where
  "MQTTProtocol_removePublication E p s =
     (case p of None \<Rightarrow> Inr s
      | Some a \<Rightarrow> ub_bind (get_pub E a s) (\<lambda>p.
          let p = p\<lparr>pu_refcount := pu_refcount p - 1\<rparr> in
          if pu_refcount p = 0 then Inr (drop_pub E a s) else set_pub E a p s))"

text \<open>The payload of a stored publication moved to memory of its own; \<open>False\<close> without memory.\<close>

definition own_payload :: "('n, 'f) env \<Rightarrow> nat \<Rightarrow> ('n, 'f, 'z) sys_scheme \<Rightarrow> ub + (bool \<times> ('n, 'f, 'z) sys_scheme)" where
  "own_payload E a s =
     ub_bind (get_pub E a s) (\<lambda>p.
       if \<not> e_heap E (ReqBuffer (size_t_of (pu_payloadlen p)))
       then ub_bind (set_pub E a (p\<lparr>pu_payload := None\<rparr>) s) (\<lambda>s. Inr (False, s))
       else ub_bind (memcpy_src (null_bytes (pu_payload p)) (pu_payloadlen p)) (\<lambda>d.
         ub_bind (set_pub E a (p\<lparr>pu_payload := Some d\<rparr>) s) (\<lambda>s. Inr (True, s))))"

text \<open>
  \<^verbatim>\<open>MQTTProtocol_createMessage\<close> returns the pointer it has released when the publication or its
  payload cannot be stored, and its callers dereference the result; that is \<open>UseAfterFree\<close> here.
\<close>

definition MQTTProtocol_createMessage ::
    "('n, 'f) env \<Rightarrow> Publish \<Rightarrow> Messages option \<Rightarrow> nat \<Rightarrow> nat \<Rightarrow> bool \<Rightarrow> ('n, 'f, 'z) sys_scheme
      \<Rightarrow> ub + (Messages option \<times> Publish \<times> ('n, 'f, 'z) sys_scheme)" where
  "MQTTProtocol_createMessage E publish mm qos retained allocatePayload s =
     (if \<not> e_heap E (ReqStruct ''Messages'') then Inr (None, publish, s)
      else ub_bind
        (case Option.bind mm ms_publish of
           Some a \<Rightarrow> ub_bind (get_pub E a s) (\<lambda>p.
             ub_bind (set_pub E a (p\<lparr>pu_refcount := pu_refcount p + 1\<rparr>) s) (\<lambda>s. Inr (a, publish, s)))
         | None \<Rightarrow> ub_bind (MQTTProtocol_storePublication E publish s) (\<lambda>(r, publish, s). case r of
             None \<Rightarrow> Inl UseAfterFree
           | Some a \<Rightarrow>
              if allocatePayload
              then ub_bind (own_payload E a s) (\<lambda>(ok, s). if ok then Inr (a, publish, s) else Inl UseAfterFree)
              else Inr (a, publish, s)))
        (\<lambda>(a, publish, s).
          ub_bind (if pb_MQTTVersion publish \<ge> 5
                   then ub_bind (MQTTProperties_copy (e_heap E) (pb_properties publish)) (\<lambda>ps. Inr (Some ps))
                   else Inr None) (\<lambda>props.
            let (t, s) = time_now E s in
            Inr (Some \<lparr>ms_qos = int qos, ms_retain = int retained, ms_msgid = pb_msgId publish,
                ms_MQTTVersion = pb_MQTTVersion publish, ms_properties = props, ms_publish = Some a,
                ms_lastTouch = t, ms_nextMessageType = (if qos = 2 then Some PUBREC else None)\<rparr>,
              publish, s))))"

subsection \<open>Starting a publish exchange\<close>

definition MQTTProtocol_storeQoS0 ::
    "('n, 'f) env \<Rightarrow> nat \<Rightarrow> Publish \<Rightarrow> ('n, 'f, 'z) sys_scheme \<Rightarrow> ub + (Publish \<times> ('n, 'f, 'z) sys_scheme)" where
  "MQTTProtocol_storeQoS0 E i publish s =
     (if \<not> e_heap E (ReqStruct ''pending_write'') then Inr (publish, s)
      else ub_bind (MQTTProtocol_storePublication E publish s) (\<lambda>(r, publish, s). case r of
        None \<Rightarrow> Inr (publish, s)
      | Some a \<Rightarrow>
         let s = s\<lparr>g_pending_writes := ListAppend (l_pending (e_lists E)) (g_pending_writes s) (socket_of i s, a)\<rparr> in
         ub_bind (get_pub E a s) (\<lambda>p.
           Inr (publish\<lparr>pb_topic := None, pb_payload := []\<rparr>, s\<lparr>g_net := SocketBuffer_updateWrite (e_net E)
             (socket_of i s) (pu_topic p) (pu_payload p) (g_net s)\<rparr>))))"

definition MQTTProtocol_startPublishCommon ::
    "('n, 'f) env \<Rightarrow> nat \<Rightarrow> Publish \<Rightarrow> nat \<Rightarrow> nat \<Rightarrow> ('n, 'f, 'z) sys_scheme \<Rightarrow> ub + (int \<times> Publish \<times> ('n, 'f, 'z) sys_scheme)" where
  "MQTTProtocol_startPublishCommon E i publish qos retained s =
     ub_bind (MQTTPacket_send_publish E publish 0 qos retained i s) (\<lambda>(rc, publish, s).
       if qos = 0 \<and> rc = TCPSOCKET_INTERRUPTED
       then ub_bind (MQTTProtocol_storeQoS0 E i publish s) (\<lambda>(publish, s). Inr (rc, publish, s))
       else Inr (rc, publish, s))"

text \<open>The result has the caller's packet and the message \<open>*mm\<close> points to.\<close>

definition MQTTProtocol_startPublish ::
    "('n, 'f) env \<Rightarrow> nat \<Rightarrow> Publish \<Rightarrow> nat \<Rightarrow> nat \<Rightarrow> Messages option \<Rightarrow> ('n, 'f, 'z) sys_scheme
      \<Rightarrow> ub + (int \<times> Publish \<times> Messages option \<times> ('n, 'f, 'z) sys_scheme)" where
  "MQTTProtocol_startPublish E i publish qos retained mm s =
     (if qos > 0
      then ub_bind (MQTTProtocol_createMessage E publish mm qos retained False s) (\<lambda>(r, publish1, s). case r of
        None \<Rightarrow> Inl NullDeref
      | Some m \<Rightarrow>
         let s = upd_client i (\<lambda>c. c\<lparr>c_outboundMsgs := ListAppend (l_msgs (e_lists E)) (c_outboundMsgs c) m\<rparr>) s in
         (case ms_publish m of None \<Rightarrow> Inl NullDeref
          | Some a \<Rightarrow> ub_bind (get_pub E a s) (\<lambda>p.
              let qos12pub = publish\<lparr>pb_payload := null_bytes (pu_payload p), pb_topic := pu_topic p,
                    pb_properties := (case ms_properties m of None \<Rightarrow> MQTTProperties_initializer | Some ps \<Rightarrow> ps),
                    pb_MQTTVersion := ms_MQTTVersion m\<rparr> in
              ub_bind (MQTTProtocol_startPublishCommon E i qos12pub qos retained s) (\<lambda>(rc, qos12pub, s).
                ub_bind (get_pub E a s) (\<lambda>p.
                  ub_bind (set_pub E a (p\<lparr>pu_mask := pb_mask qos12pub\<rparr>) s) (\<lambda>s.
                    Inr (rc, publish1, Some m, s)))))))
      else ub_bind (MQTTProtocol_startPublishCommon E i publish qos retained s) (\<lambda>(rc, publish, s).
        Inr (rc, publish, mm, s)))"

subsection \<open>Handing a publication to the application\<close>

text \<open>
  \<^verbatim>\<open>Protocol_processPublication\<close> of \<^verbatim>\<open>MQTTClient.c\<close> appends an entry to the message queue of the
  client and persists it. The sequence number is set only when it is persisted.
\<close>

definition Protocol_processPublication ::
    "('n, 'f) env \<Rightarrow> Publish \<Rightarrow> nat \<Rightarrow> bool \<Rightarrow> ('n, 'f, 'z) sys_scheme \<Rightarrow> ub + (Publish \<times> ('n, 'f, 'z) sys_scheme)" where
  "Protocol_processPublication E publish i allocatePayload s =
     (if \<not> e_heap E (ReqStruct ''qEntry'') \<or> \<not> e_heap E (ReqStruct ''MQTTClient_message'') then Inr (publish, s)
      else
       let topic = pb_topic publish; publish = publish\<lparr>pb_topic := None\<rparr> in
       if allocatePayload \<and> \<not> e_heap E (ReqBuffer (size_t_of (pb_payloadlen publish))) then Inr (publish, s)
       else ub_bind (if allocatePayload then memcpy_src (pb_payload publish) (pb_payloadlen publish)
                     else Inr (pb_payload publish)) (\<lambda>payload.
         ub_bind (if pb_MQTTVersion publish \<ge> 5 then MQTTProperties_copy (e_heap E) (pb_properties publish)
                  else Inr MQTTProperties_initializer) (\<lambda>props.
         case topic of None \<Rightarrow> Inl NullDeref
         | Some t \<Rightarrow>
            let mm = \<lparr>pm_struct_version = 1, pm_payloadlen = pb_payloadlen publish, pm_payload = payload,
                  pm_qos = int (hd_qos (pb_header publish)), pm_retained = int (hd_retain (pb_header publish)),
                  pm_dup = (if hd_qos (pb_header publish) = 2 then 0 else int (hd_dup (pb_header publish))),
                  pm_msgid = pb_msgId publish, pm_properties = props\<rparr>;
                qe = \<lparr>qe_msg = mm, qe_topicName = t, qe_topicLen = pb_topiclen publish, qe_seqno = 0\<rparr>;
                old = c_messageQueue (g_clients s ! i);
                s = upd_client i (\<lambda>c. c\<lparr>c_messageQueue := ListAppend (l_queue (e_lists E)) (c_messageQueue c) qe\<rparr>) s
            in
            (case c_persistence (g_clients s ! i) of None \<Rightarrow> Inr (publish, s)
             | Some _ \<Rightarrow>
                ub_bind (MQTTPersistence_persistQueueEntry (e_heap E) (g_clients s ! i) qe (g_fs s)) (\<lambda>(_, c, qe, fs).
                  Inr (publish, set_client i (c\<lparr>c_messageQueue := (c_messageQueue c)[length old := qe]\<rparr>) (s\<lparr>g_fs := fs\<rparr>)))))))"

subsection \<open>Acknowledgements\<close>

definition MQTTProtocol_queueAck ::
    "('n, 'f) env \<Rightarrow> nat \<Rightarrow> nat \<Rightarrow> int \<Rightarrow> ('n, 'f, 'z) sys_scheme \<Rightarrow> int \<times> ('n, 'f, 'z) sys_scheme" where
  "MQTTProtocol_queueAck E i ackType msgId s =
     (if \<not> e_heap E (ReqStruct ''AckRequest'') then (PAHO_MEMORY_ERROR, s)
      else (0, upd_client i (\<lambda>c. c\<lparr>c_outboundQueue := ListAppend (l_acks (e_lists E)) (c_outboundQueue c)
                 \<lparr>ar_messageId = msgId, ar_ackType = ackType\<rparr>\<rparr>) s))"

text \<open>How every handler answers: queued when the socket has pending writes, else sent.\<close>

definition answer ::
    "('n, 'f) env \<Rightarrow> bool \<Rightarrow> int \<Rightarrow> nat \<Rightarrow> int \<Rightarrow> nat \<Rightarrow> ('n, 'f, 'z) sys_scheme \<Rightarrow> ub + (int \<times> ('n, 'f, 'z) sys_scheme)" where
  "answer E socketHasPendingWrites version type msgId i s =
     (if socketHasPendingWrites then Inr (MQTTProtocol_queueAck E i type msgId s)
      else if type = PUBACK then MQTTPacket_send_puback E version msgId i s
      else if type = PUBREC then MQTTPacket_send_pubrec E version msgId i s
      else if type = PUBREL then MQTTPacket_send_pubrel E version msgId 0 i s
      else MQTTPacket_send_pubcomp E version msgId i s)"

text \<open>
  \<^verbatim>\<open>MQTTProtocol_writeAvailable\<close> sends the queued answers; after the first that fails the rest is
  dropped.
\<close>

fun ack_loop ::
    "('n, 'f) env \<Rightarrow> nat \<Rightarrow> int \<Rightarrow> AckRequest list \<Rightarrow> int \<Rightarrow> ('n, 'f, 'z) sys_scheme \<Rightarrow> ub + (int \<times> ('n, 'f, 'z) sys_scheme)" where
  "ack_loop E i version [] rc s = Inr (rc, s)"
| "ack_loop E i version (a # as) rc s =
     (if rc \<noteq> 0 then Inr (rc, s)
      else ub_bind (if ar_ackType a \<in> {PUBACK, PUBREC, PUBREL, PUBCOMP}
                    then answer E False version (ar_ackType a) (ar_messageId a) i s
                    else Inr (rc, s))
        (\<lambda>(rc, s). ack_loop E i version as rc s))"

definition MQTTProtocol_writeAvailable ::
    "('n, 'f) env \<Rightarrow> int \<Rightarrow> ('n, 'f, 'z) sys_scheme \<Rightarrow> ub + ('n, 'f, 'z) sys_scheme" where
  "MQTTProtocol_writeAvailable E socket s =
     ub_bind (find_client E socket s) (\<lambda>i. let client = g_clients s ! i in
       ub_bind (ack_loop E i (c_MQTTVersion client) (c_outboundQueue client) 0 s) (\<lambda>(_, s).
         Inr (upd_client i (\<lambda>c. c\<lparr>c_outboundQueue := []\<rparr>) s)))"

subsection \<open>Receiving a PUBLISH\<close>

text \<open>A packet structure filled from a stored message; members the code leaves unset are zero.\<close>

definition publish_of :: "Messages \<Rightarrow> Publications option \<Rightarrow> Publish" where
  "publish_of m p =
     \<lparr>pb_header = mk_header 0 0 (nat (ms_qos m)) (nat (ms_retain m)),
      pb_topic = Option.bind p pu_topic, pb_topiclen = (case p of None \<Rightarrow> 0 | Some p \<Rightarrow> pu_topiclen p),
      pb_msgId = ms_msgid m, pb_payload = (case p of None \<Rightarrow> [] | Some p \<Rightarrow> null_bytes (pu_payload p)),
      pb_payloadlen = (case p of None \<Rightarrow> 0 | Some p \<Rightarrow> pu_payloadlen p), pb_MQTTVersion = ms_MQTTVersion m,
      pb_properties = (case ms_properties m of None \<Rightarrow> MQTTProperties_initializer | Some ps \<Rightarrow> ps),
      pb_mask = [0, 0, 0, 0]\<rparr>"

text \<open>
  QoS 2: the message goes to the inbound list, in the place of one with the same id. In version 5
  a message that is not a repetition is delivered now, before version 5 with its PUBREL. The last
  touch of an inbound message is never set, nor read.
\<close>

definition inbound_message :: "('n, 'f) env \<Rightarrow> Publish \<Rightarrow> nat option \<Rightarrow> ub + Messages" where
  "inbound_message E publish p =
     ub_bind (if pb_MQTTVersion publish \<ge> MQTTVERSION_5
              then ub_bind (MQTTProperties_copy (e_heap E) (pb_properties publish)) (\<lambda>ps. Inr (Some ps))
              else Inr None) (\<lambda>props.
       Inr \<lparr>ms_qos = int (hd_qos (pb_header publish)), ms_retain = int (hd_retain (pb_header publish)),
         ms_msgid = pb_msgId publish, ms_MQTTVersion = pb_MQTTVersion publish, ms_properties = props,
         ms_publish = p, ms_lastTouch = START_TIME_ZERO, ms_nextMessageType = Some PUBREL\<rparr>)"

text \<open>The result is the position of the message and whether there was one with its id.\<close>

definition store_inbound ::
    "('n, 'f) env \<Rightarrow> nat \<Rightarrow> Messages \<Rightarrow> ('n, 'f, 'z) sys_scheme \<Rightarrow> ub + (nat \<times> bool \<times> ('n, 'f, 'z) sys_scheme)" where
  "store_inbound E i m s =
     (let L = l_msgs (e_lists E); inbound = c_inboundMsgs (g_clients s ! i);
          put = (\<lambda>l. upd_client i (\<lambda>c. c\<lparr>c_inboundMsgs := l\<rparr>)) in
      case ListFindItem L inbound (messageIDCompare (ms_msgid m)) of
        Some k \<Rightarrow> let msg = inbound ! k in
          ub_bind (MQTTProtocol_removePublication E (ms_publish msg) s) (\<lambda>s.
          ub_bind (free_props (ms_MQTTVersion msg) (ms_properties msg)) (\<lambda>_.
            Inr (k, True, put (ListRemove L (ListInsert L inbound m (Some k)) (Suc k)) s)))
      | None \<Rightarrow> Inr (length inbound, False, put (ListAppend L inbound m) s))"

definition handle_publish_qos2_with ::
    "('n, 'f, 'z) processor \<Rightarrow> ('n, 'f) env \<Rightarrow> nat \<Rightarrow> bool \<Rightarrow> Publish \<Rightarrow> ('n, 'f, 'z) sys_scheme \<Rightarrow> ub + (int \<times> Publish \<times> ('n, 'f, 'z) sys_scheme)" where
  "handle_publish_qos2_with process E i socketHasPendingWrites publish s =
     (if \<not> e_heap E (ReqStruct ''Messages'') then Inr (PAHO_MEMORY_ERROR, publish, s)
      else ub_bind (MQTTProtocol_storePublication E publish s) (\<lambda>(p, publish, s).
        ub_bind (inbound_message E publish p) (\<lambda>m.
        ub_bind (store_inbound E i m s) (\<lambda>(k, already_received, s).
        case p of None \<Rightarrow> Inl NullDeref
        | Some a \<Rightarrow>
          ub_bind
            (if ms_MQTTVersion m \<ge> MQTTVERSION_5 \<and> \<not> already_received
             then ub_bind (get_pub E a s) (\<lambda>q.
               ub_bind (process (publish_of m (Some q)) i True s) (\<lambda>(_, s).
                 Inr (True, upd_client i (\<lambda>c. c\<lparr>c_inboundMsgs := (c_inboundMsgs c)[k := m\<lparr>ms_publish := None\<rparr>]\<rparr>)
                   (drop_pub E a s))))
             else own_payload E a s)
            (\<lambda>(ok, s).
              if \<not> ok then Inr (PAHO_MEMORY_ERROR, publish, s)
              else ub_bind (answer E socketHasPendingWrites (pb_MQTTVersion publish) PUBREC (pb_msgId publish) i s)
                (\<lambda>(rc, s). Inr (rc, publish\<lparr>pb_topic := None\<rparr>, s)))))))"

abbreviation handle_publish_qos2 where
  "handle_publish_qos2 E \<equiv> handle_publish_qos2_with (Protocol_processPublication E) E"

definition MQTTProtocol_handlePublishes_with ::
    "('n, 'f, 'z) processor \<Rightarrow> ('n, 'f) env \<Rightarrow> Publish \<Rightarrow> int \<Rightarrow> ('n, 'f, 'z) sys_scheme \<Rightarrow> ub + (int \<times> ('n, 'f, 'z) sys_scheme)" where
  "MQTTProtocol_handlePublishes_with process E publish sock s =
     ub_bind (find_client E sock s) (\<lambda>i.
       let qos = hd_qos (pb_header publish);
           socketHasPendingWrites = (\<not> Socket_noPendingWrites (e_net E) sock (g_net s)) in
       ub_bind
         (if qos = 0
          then ub_bind (process publish i True s) (\<lambda>(publish, s).
            Inr (TCPSOCKET_COMPLETE, publish, s))
          else if qos = 1
          then ub_bind (process publish i True s) (\<lambda>(publish, s).
            ub_bind (answer E socketHasPendingWrites (pb_MQTTVersion publish) PUBACK (pb_msgId publish) i s)
              (\<lambda>(rc, s). Inr (rc, publish, s)))
          else if qos = 2 then handle_publish_qos2_with process E i socketHasPendingWrites publish s
          else Inr (TCPSOCKET_COMPLETE, publish, s))
         (\<lambda>(rc, publish, s). ub_bind (MQTTPacket_freePublish publish) (\<lambda>_. Inr (rc, s))))"

abbreviation MQTTProtocol_handlePublishes where
  "MQTTProtocol_handlePublishes E \<equiv> MQTTProtocol_handlePublishes_with (Protocol_processPublication E) E"

subsection \<open>Receiving acknowledgements\<close>

definition ack_id :: "Ack \<Rightarrow> ub + int" where
  "ack_id ack = (case ak_msgId ack of None \<Rightarrow> Inl UninitRead | Some m \<Rightarrow> Inr m)"

definition next_type :: "Messages \<Rightarrow> ub + nat" where
  "next_type m = (case ms_nextMessageType m of None \<Rightarrow> Inl UninitRead | Some t \<Rightarrow> Inr t)"

text \<open>
  The end of an outgoing exchange: the record is removed from the store, the publication released
  or, when the caller asks for it (\<open>pubToRemove\<close> is not NULL), handed back, the message removed.
\<close>

definition finish_outbound ::
    "('n, 'f) env \<Rightarrow> nat \<Rightarrow> nat \<Rightarrow> Messages \<Rightarrow> int \<Rightarrow> int \<Rightarrow> bool \<Rightarrow> ('n, 'f, 'z) sys_scheme
      \<Rightarrow> ub + (int \<times> nat option \<times> ('n, 'f, 'z) sys_scheme)" where
  "finish_outbound E i k m version msgId pubToRemove s =
     (let (rc, fs) = MQTTPersistence_remove (e_heap E) (g_clients s ! i)
            (if version \<ge> MQTTVERSION_5 then PERSISTENCE_V5_PUBLISH_SENT else PERSISTENCE_PUBLISH_SENT)
            msgId (g_fs s);
          s = s\<lparr>g_fs := fs\<rparr>
      in ub_bind (if pubToRemove then Inr (ms_publish m, s)
                  else ub_bind (MQTTProtocol_removePublication E (ms_publish m) s) (\<lambda>s. Inr (None, s)))
        (\<lambda>(removed, s). ub_bind (free_props (ms_MQTTVersion m) (ms_properties m)) (\<lambda>_.
          Inr (rc, removed, upd_client i (\<lambda>c. c\<lparr>c_outboundMsgs :=
            ListRemove (l_msgs (e_lists E)) (c_outboundMsgs c) k\<rparr>) s))))"

definition MQTTProtocol_handlePubacks ::
    "('n, 'f) env \<Rightarrow> Ack \<Rightarrow> int \<Rightarrow> bool \<Rightarrow> ('n, 'f, 'z) sys_scheme \<Rightarrow> ub + (int \<times> nat option \<times> ('n, 'f, 'z) sys_scheme)" where
  "MQTTProtocol_handlePubacks E puback sock pubToRemove s =
     ub_bind (find_client E sock s) (\<lambda>i. ub_bind (ack_id puback) (\<lambda>msgId.
       let out = c_outboundMsgs (g_clients s ! i) in
       ub_bind (case ListFindItem (l_msgs (e_lists E)) out (messageIDCompare msgId) of
           None \<Rightarrow> Inr (TCPSOCKET_COMPLETE, None, s)
         | Some k \<Rightarrow>
             if ms_qos (out ! k) \<noteq> 1 then Inr (TCPSOCKET_COMPLETE, None, s)
             else finish_outbound E i k (out ! k) (ms_MQTTVersion (out ! k)) msgId pubToRemove s)
         (\<lambda>(rc, removed, s). ub_bind (free_props (ak_MQTTVersion puback) (ak_properties puback)) (\<lambda>_.
           Inr (rc, removed, s)))))"

definition pubrec_error :: "Ack \<Rightarrow> ub + bool" where
  "pubrec_error pubrec =
     (if ak_MQTTVersion pubrec \<ge> MQTTVERSION_5
      then case ak_rc pubrec of None \<Rightarrow> Inl UninitRead | Some rc \<Rightarrow> Inr (unat rc \<ge> 128)
      else Inr False)"

definition MQTTProtocol_handlePubrecs ::
    "('n, 'f) env \<Rightarrow> Ack \<Rightarrow> int \<Rightarrow> bool \<Rightarrow> ('n, 'f, 'z) sys_scheme \<Rightarrow> ub + (int \<times> nat option \<times> ('n, 'f, 'z) sys_scheme)" where
  "MQTTProtocol_handlePubrecs E pubrec sock pubToRemove s =
     ub_bind (find_client E sock s) (\<lambda>i. ub_bind (ack_id pubrec) (\<lambda>msgId.
       let out = c_outboundMsgs (g_clients s ! i);
           ignored = Inr (True, TCPSOCKET_COMPLETE, None, s) in
       ub_bind (case ListFindItem (l_msgs (e_lists E)) out (messageIDCompare msgId) of
           None \<Rightarrow> ignored
         | Some k \<Rightarrow> let m = out ! k in
             if ms_qos m \<noteq> 2 then ignored
             else ub_bind (next_type m) (\<lambda>next.
               if next \<noteq> PUBREC then ignored
               else ub_bind (pubrec_error pubrec) (\<lambda>err.
                 if err
                 then ub_bind (finish_outbound E i k m (ak_MQTTVersion pubrec) msgId pubToRemove s)
                   (\<lambda>(rc, removed, s). Inr (False, rc, removed, s\<lparr>g_msgs_sent := g_msgs_sent s + 1\<rparr>))
                 else let (t, s) = time_now E s in
                   Inr (True, TCPSOCKET_COMPLETE, None, upd_client i (\<lambda>c. c\<lparr>c_outboundMsgs := (c_outboundMsgs c)
                     [k := m\<lparr>ms_nextMessageType := Some PUBCOMP, ms_lastTouch := t\<rparr>]\<rparr>) s))))
         (\<lambda>(send_pubrel, rc, removed, s).
           ub_bind (if \<not> send_pubrel then Inr (rc, s)
                    else answer E (\<not> Socket_noPendingWrites (e_net E) sock (g_net s)) (ak_MQTTVersion pubrec)
                      PUBREL msgId i s) (\<lambda>(rc, s).
             ub_bind (free_props (ak_MQTTVersion pubrec) (ak_properties pubrec)) (\<lambda>_. Inr (rc, removed, s))))))"

definition deliver_inbound_with ::
    "('n, 'f, 'z) processor \<Rightarrow> ('n, 'f) env \<Rightarrow> nat \<Rightarrow> nat \<Rightarrow> Messages \<Rightarrow> int \<Rightarrow> ('n, 'f, 'z) sys_scheme \<Rightarrow> ub + (int \<times> ('n, 'f, 'z) sys_scheme)" where
  "deliver_inbound_with process E i k m msgId s =
     ub_bind (case ms_publish m of None \<Rightarrow> Inr None | Some a \<Rightarrow> ub_bind (get_pub E a s) (\<lambda>p. Inr (Some p))) (\<lambda>p.
     ub_bind (if ms_MQTTVersion m \<ge> MQTTVERSION_5 then Inr s
              else ub_bind (process (publish_of m p) i False s) (\<lambda>(_, s). Inr s)) (\<lambda>s.
       let (rc, fs) = MQTTPersistence_remove (e_heap E) (g_clients s ! i)
             (if ms_MQTTVersion m \<ge> MQTTVERSION_5 then PERSISTENCE_V5_PUBLISH_RECEIVED
              else PERSISTENCE_PUBLISH_RECEIVED) msgId (g_fs s);
           s = s\<lparr>g_fs := fs\<rparr>
       in ub_bind (free_props (ms_MQTTVersion m) (ms_properties m)) (\<lambda>_.
         let s = (case ms_publish m of None \<Rightarrow> s | Some a \<Rightarrow> drop_pub E a s);
             s = upd_client i (\<lambda>c. c\<lparr>c_inboundMsgs := ListRemove (l_msgs (e_lists E)) (c_inboundMsgs c) k\<rparr>) s
         in Inr (rc, s\<lparr>g_msgs_received := g_msgs_received s + 1\<rparr>))))"

abbreviation deliver_inbound where
  "deliver_inbound E \<equiv> deliver_inbound_with (Protocol_processPublication E) E"

definition MQTTProtocol_handlePubrels_with ::
    "('n, 'f, 'z) processor \<Rightarrow> ('n, 'f) env \<Rightarrow> Ack \<Rightarrow> int \<Rightarrow> ('n, 'f, 'z) sys_scheme \<Rightarrow> ub + (int \<times> ('n, 'f, 'z) sys_scheme)" where
  "MQTTProtocol_handlePubrels_with process E pubrel sock s =
     ub_bind (find_client E sock s) (\<lambda>i. ub_bind (ack_id pubrel) (\<lambda>msgId.
       let inb = c_inboundMsgs (g_clients s ! i); ignored = Inr (TCPSOCKET_COMPLETE, s) in
       ub_bind (case ListFindItem (l_msgs (e_lists E)) inb (messageIDCompare msgId) of
           None \<Rightarrow> ignored
         | Some k \<Rightarrow> let m = inb ! k in
             if ms_qos m \<noteq> 2 then ignored
             else ub_bind (next_type m) (\<lambda>next.
               if next \<noteq> PUBREL then ignored else deliver_inbound_with process E i k m msgId s))
         (\<lambda>(_, s). ub_bind (answer E (\<not> Socket_noPendingWrites (e_net E) sock (g_net s)) (ak_MQTTVersion pubrel)
             PUBCOMP msgId i s) (\<lambda>(rc, s).
           ub_bind (free_props (ak_MQTTVersion pubrel) (ak_properties pubrel)) (\<lambda>_. Inr (rc, s))))))"

abbreviation MQTTProtocol_handlePubrels where
  "MQTTProtocol_handlePubrels E \<equiv> MQTTProtocol_handlePubrels_with (Protocol_processPublication E) E"

definition MQTTProtocol_handlePubcomps ::
    "('n, 'f) env \<Rightarrow> Ack \<Rightarrow> int \<Rightarrow> bool \<Rightarrow> ('n, 'f, 'z) sys_scheme \<Rightarrow> ub + (int \<times> nat option \<times> ('n, 'f, 'z) sys_scheme)" where
  "MQTTProtocol_handlePubcomps E pubcomp sock pubToRemove s =
     ub_bind (find_client E sock s) (\<lambda>i. ub_bind (ack_id pubcomp) (\<lambda>msgId.
       let out = c_outboundMsgs (g_clients s ! i); ignored = Inr (TCPSOCKET_COMPLETE, None, s) in
       ub_bind (case ListFindItem (l_msgs (e_lists E)) out (messageIDCompare msgId) of
           None \<Rightarrow> ignored
         | Some k \<Rightarrow> let m = out ! k in
             if ms_qos m \<noteq> 2 then ignored
             else ub_bind (next_type m) (\<lambda>next.
               if next \<noteq> PUBCOMP then ignored
               else ub_bind (finish_outbound E i k m (ms_MQTTVersion m) msgId pubToRemove s)
                 (\<lambda>(rc, removed, s). Inr (rc, removed, s\<lparr>g_msgs_sent := g_msgs_sent s + 1\<rparr>))))
         (\<lambda>(rc, removed, s). ub_bind (free_props (ak_MQTTVersion pubcomp) (ak_properties pubcomp)) (\<lambda>_.
           Inr (rc, removed, s)))))"

subsection \<open>Closing a session\<close>

text \<open>
  From \<^verbatim>\<open>Clients.h\<close>, which is not part of the sources: \<^verbatim>\<open>NOT_IN_PROGRESS\<close> is 0 and
  \<^verbatim>\<open>DISCONNECTING\<close> is -2.
\<close>

definition NOT_IN_PROGRESS :: int where "NOT_IN_PROGRESS = 0"
definition DISCONNECTING :: int where "DISCONNECTING = -2"

fun release_messages :: "('n, 'f) env \<Rightarrow> Messages list \<Rightarrow> ('n, 'f, 'z) sys_scheme \<Rightarrow> ub + ('n, 'f, 'z) sys_scheme" where
  "release_messages E [] s = Inr s"
| "release_messages E (m # ms) s =
     ub_bind (MQTTProtocol_removePublication E (ms_publish m) s) (\<lambda>s.
     ub_bind (free_props (ms_MQTTVersion m) (ms_properties m)) (\<lambda>_. release_messages E ms s))"

text \<open>The lists are given by their place in a client: how to read one and how to store one.\<close>

definition MQTTProtocol_emptyMessageList ::
    "('n, 'f) env \<Rightarrow> ('f Clients \<Rightarrow> Messages list) \<Rightarrow> (Messages list \<Rightarrow> 'f Clients \<Rightarrow> 'f Clients) \<Rightarrow> nat
      \<Rightarrow> ('n, 'f, 'z) sys_scheme \<Rightarrow> ub + ('n, 'f, 'z) sys_scheme" where
  "MQTTProtocol_emptyMessageList E get put i s =
     ub_bind (release_messages E (get (g_clients s ! i)) s) (\<lambda>s. Inr (upd_client i (put []) s))"

definition put_inbound :: "Messages list \<Rightarrow> 'f Clients \<Rightarrow> 'f Clients" where
  "put_inbound l c = c\<lparr>c_inboundMsgs := l\<rparr>"

definition put_outbound :: "Messages list \<Rightarrow> 'f Clients \<Rightarrow> 'f Clients" where
  "put_outbound l c = c\<lparr>c_outboundMsgs := l\<rparr>"

fun free_queue :: "MQTTPersistence_qEntry list \<Rightarrow> ub + unit" where
  "free_queue [] = Inr ()"
| "free_queue (qe # qs) =
     ub_bind (MQTTProperties_free (Some (pm_properties (qe_msg qe)))) (\<lambda>_. free_queue qs)"

definition MQTTClient_emptyMessageQueue :: "nat \<Rightarrow> ('n, 'f, 'z) sys_scheme \<Rightarrow> ub + ('n, 'f, 'z) sys_scheme" where
  "MQTTClient_emptyMessageQueue i s =
     ub_bind (free_queue (c_messageQueue (g_clients s ! i))) (\<lambda>_.
       Inr (upd_client i (\<lambda>c. c\<lparr>c_messageQueue := []\<rparr>) s))"

definition MQTTClient_cleanSession :: "('n, 'f) env \<Rightarrow> nat \<Rightarrow> ('n, 'f, 'z) sys_scheme \<Rightarrow> ub + (int \<times> ('n, 'f, 'z) sys_scheme)" where
  "MQTTClient_cleanSession E i s =
     (let (rc, fs) = MQTTPersistence_clear (g_clients s ! i) (g_fs s); s = s\<lparr>g_fs := fs\<rparr> in
      ub_bind (MQTTProtocol_emptyMessageList E c_inboundMsgs put_inbound i s) (\<lambda>s.
      ub_bind (MQTTProtocol_emptyMessageList E c_outboundMsgs put_outbound i s) (\<lambda>s.
      ub_bind (MQTTClient_emptyMessageQueue i s) (\<lambda>s.
        Inr (rc, upd_client i (\<lambda>c. c\<lparr>c_msgID := 0\<rparr>) s)))))"

definition MQTTClient_closeSession ::
    "('n, 'f) env \<Rightarrow> nat \<Rightarrow> int \<Rightarrow> MQTTProperties option \<Rightarrow> ('n, 'f, 'z) sys_scheme \<Rightarrow> ub + ('n, 'f, 'z) sys_scheme" where
  "MQTTClient_closeSession E i reason props s =
     (let s = upd_client i (\<lambda>c. c\<lparr>c_good := False, c_ping_outstanding := False, c_ping_due := False\<rparr>) s in
      ub_bind
        (if socket_of i s > 0
         then ub_bind (if c_connected (g_clients s ! i)
                       then ub_bind (MQTTPacket_send_disconnect E i reason props s) (\<lambda>(_, s). Inr s)
                       else Inr s) (\<lambda>s.
           let s = s\<lparr>g_net := Socket_close (e_net E) (socket_of i s)
                 (WebSocket_close (e_net E) (socket_of i s) (g_net s))\<rparr>
           in Inr (upd_client i (\<lambda>c. c\<lparr>c_net := (c_net c)\<lparr>nh_socket := 0\<rparr>\<rparr>) s))
         else Inr s)
        (\<lambda>s. let s = upd_client i (\<lambda>c. c\<lparr>c_connected := False, c_connect_state := NOT_IN_PROGRESS\<rparr>) s;
                 c = g_clients s ! i
             in if c_MQTTVersion c < MQTTVERSION_5 \<and> c_cleansession c \<noteq> 0
                then ub_bind (MQTTClient_cleanSession E i s) (\<lambda>(_, s). Inr s)
                else Inr s))"

text \<open>
  \<^verbatim>\<open>MQTTProtocol_closeSession\<close> is \<^verbatim>\<open>MQTTClient_disconnect1\<close> with the timeout 0: messages in flight
  are not waited for, since the time elapsed, which is unsigned, is at least 0. The callback for
  the lost connection and the end of the background thread are not part of the model.
\<close>

definition MQTTProtocol_closeSession :: "('n, 'f) env \<Rightarrow> nat \<Rightarrow> ('n, 'f, 'z) sys_scheme \<Rightarrow> ub + ('n, 'f, 'z) sys_scheme" where
  "MQTTProtocol_closeSession E i s =
     (let s = (if c_connected (g_clients s ! i)
         then let s = snd (time_now E s); s = upd_client i (\<lambda>c. c\<lparr>c_connect_state := DISCONNECTING\<rparr>) s; c = g_clients s ! i
              in if c_inboundMsgs c \<noteq> [] \<or> c_outboundMsgs c \<noteq> [] then snd (time_now E s) else s
         else s)
      in MQTTClient_closeSession E i 0 None s)"

subsection \<open>Keep-alive\<close>

definition send_ping_with ::
    "('n, 'f, 'z) closer \<Rightarrow> ('n, 'f) env \<Rightarrow> timeval \<Rightarrow> nat \<Rightarrow> ('n, 'f, 'z) sys_scheme \<Rightarrow> ub + ('n, 'f, 'z) sys_scheme" where
  "send_ping_with close E now i s =
     ub_bind (MQTTPacket_send_pingreq E i s) (\<lambda>(rc, s).
       if rc \<noteq> TCPSOCKET_COMPLETE then close i s
       else Inr (upd_client i (\<lambda>c. c\<lparr>c_ping_due := False, c_net := (c_net c)\<lparr>nh_lastPing := now\<rparr>,
              c_ping_outstanding := True\<rparr>) s))"

abbreviation send_ping where
  "send_ping E \<equiv> send_ping_with (MQTTProtocol_closeSession E) E"

definition keepalive_client_with ::
    "('n, 'f, 'z) closer \<Rightarrow> ('n, 'f) env \<Rightarrow> timeval \<Rightarrow> nat \<Rightarrow> ('n, 'f, 'z) sys_scheme \<Rightarrow> ub + ('n, 'f, 'z) sys_scheme" where
  "keepalive_client_with close E now i s =
     (let c = g_clients s ! i; interval = c_keepAliveInterval c;
          free = Socket_noPendingWrites (e_net E) (socket_of i s) (g_net s)
      in
      if \<not> c_connected c \<or> interval = 0 then Inr s
      else if c_ping_outstanding c
      then if MQTTTime_difftime now (nh_lastPing (c_net c)) \<ge> interval * 1500 \<and>
              MQTTTime_difftime now (nh_lastReceived (c_net c)) \<ge> interval * 1500
           then close i s else Inr s
      else if c_ping_due c \<and> MQTTTime_difftime now (c_ping_due_time c) \<ge> interval * 1500
      then if MQTTTime_difftime now (c_ping_due_time c) \<le> MQTTTime_difftime now (nh_lastReceived (c_net c))
           then close i s else Inr s
      else if MQTTTime_difftime now (nh_lastSent (c_net c)) \<ge> interval * 1000
      then if free then send_ping_with close E now i s
           else if \<not> c_ping_due c
           then Inr (upd_client i (\<lambda>c. c\<lparr>c_ping_due := True, c_ping_due_time := now\<rparr>) s)
           else Inr s
      else if MQTTTime_difftime now (nh_lastReceived (c_net c)) \<ge> interval * 1000
      then if free then send_ping_with close E now i s else Inr s
      else Inr s)"

abbreviation keepalive_client where
  "keepalive_client E \<equiv> keepalive_client_with (MQTTProtocol_closeSession E) E"

fun each_client ::
    "(nat \<Rightarrow> ('n, 'f, 'z) sys_scheme \<Rightarrow> ub + ('n, 'f, 'z) sys_scheme) \<Rightarrow> nat list \<Rightarrow> ('n, 'f, 'z) sys_scheme \<Rightarrow> ub + ('n, 'f, 'z) sys_scheme" where
  "each_client f [] s = Inr s"
| "each_client f (i # is) s = ub_bind (f i s) (\<lambda>s. each_client f is s)"

definition MQTTProtocol_keepalive_with ::
    "('n, 'f, 'z) closer \<Rightarrow> ('n, 'f) env \<Rightarrow> timeval \<Rightarrow> ('n, 'f, 'z) sys_scheme \<Rightarrow> ub + ('n, 'f, 'z) sys_scheme" where
  "MQTTProtocol_keepalive_with close E now s = each_client (keepalive_client_with close E now) [0..<length (g_clients s)] s"

abbreviation MQTTProtocol_keepalive where
  "MQTTProtocol_keepalive E \<equiv> MQTTProtocol_keepalive_with (MQTTProtocol_closeSession E) E"

subsection \<open>Retry\<close>

text \<open>
  One message of the retry loop; the result \<open>False\<close> says that the session was closed, which ends
  the loop. \<open>k\<close> is the position of the message.
\<close>

definition retry_publish_with ::
    "('n, 'f, 'z) closer \<Rightarrow> ('n, 'f) env \<Rightarrow> nat \<Rightarrow> nat \<Rightarrow> Messages \<Rightarrow> ('n, 'f, 'z) sys_scheme \<Rightarrow> ub + (bool \<times> ('n, 'f, 'z) sys_scheme)" where
  "retry_publish_with close E i k m s =
     (case ms_publish m of None \<Rightarrow> Inl NullDeref
      | Some a \<Rightarrow> ub_bind (get_pub E a s) (\<lambda>p.
         ub_bind (MQTTPacket_send_publish E ((publish_of m (Some p))\<lparr>pb_mask := pu_mask p\<rparr>) 1 (nat (ms_qos m))
             (nat (ms_retain m)) i s) (\<lambda>(rc, publish, s).
         ub_bind (get_pub E a s) (\<lambda>p.
         ub_bind (set_pub E a (p\<lparr>pu_mask := pb_mask publish\<rparr>) s) (\<lambda>s.
           if rc = SOCKET_ERROR
           then ub_bind (close i (upd_client i (\<lambda>c. c\<lparr>c_good := False\<rparr>) s))
             (\<lambda>s. Inr (False, s))
           else ub_bind (if ms_qos m = 0 \<and> rc = TCPSOCKET_INTERRUPTED
                         then ub_bind (MQTTProtocol_storeQoS0 E i publish s) (\<lambda>(_, s). Inr s) else Inr s) (\<lambda>s.
             let (t, s) = time_now E s in
             Inr (True, upd_client i (\<lambda>c. c\<lparr>c_outboundMsgs :=
               (c_outboundMsgs c)[k := m\<lparr>ms_lastTouch := t\<rparr>]\<rparr>) s)))))))"

abbreviation retry_publish where
  "retry_publish E \<equiv> retry_publish_with (MQTTProtocol_closeSession E) E"

definition retry_pubrel_with ::
    "('n, 'f, 'z) closer \<Rightarrow> ('n, 'f) env \<Rightarrow> nat \<Rightarrow> nat \<Rightarrow> Messages \<Rightarrow> ('n, 'f, 'z) sys_scheme \<Rightarrow> ub + (bool \<times> ('n, 'f, 'z) sys_scheme)" where
  "retry_pubrel_with close E i k m s =
     ub_bind (MQTTPacket_send_pubrel E (ms_MQTTVersion m) (ms_msgid m) 0 i s) (\<lambda>(rc, s).
       if rc \<noteq> TCPSOCKET_COMPLETE
       then ub_bind (close i (upd_client i (\<lambda>c. c\<lparr>c_good := False\<rparr>) s)) (\<lambda>s. Inr (False, s))
       else let (t, s) = time_now E s in
         Inr (True, upd_client i (\<lambda>c. c\<lparr>c_outboundMsgs := (c_outboundMsgs c)[k := m\<lparr>ms_lastTouch := t\<rparr>]\<rparr>) s))"

abbreviation retry_pubrel where
  "retry_pubrel E \<equiv> retry_pubrel_with (MQTTProtocol_closeSession E) E"

definition retry_message_with ::
    "('n, 'f, 'z) closer \<Rightarrow> ('n, 'f) env \<Rightarrow> timeval \<Rightarrow> nat \<Rightarrow> bool \<Rightarrow> nat \<Rightarrow> ('n, 'f, 'z) sys_scheme \<Rightarrow> ub + (bool \<times> ('n, 'f, 'z) sys_scheme)" where
  "retry_message_with close E now i regardless k s =
     (let c = g_clients s ! i; m = c_outboundMsgs c ! k in
      if regardless \<or> MQTTTime_difftime now (ms_lastTouch m) > max (c_retryInterval c) 10 * 1000
      then
       let s = (if regardless then upd_client i (\<lambda>c. c\<lparr>c_connect_sent := c_connect_sent c + 1\<rparr>) s else s) in
       if ms_qos m = 1 then retry_publish_with close E i k m s
       else if ms_qos m = 2
       then ub_bind (next_type m) (\<lambda>next.
         if next = PUBREC then retry_publish_with close E i k m s
         else if next = PUBCOMP then retry_pubrel_with close E i k m s
         else Inr (True, s))
       else if ms_qos m \<noteq> 0
       then ub_bind (next_type m) (\<lambda>next. if next = PUBCOMP then retry_pubrel_with close E i k m s else Inr (True, s))
       else Inr (True, s)
      else Inr (True, s))"

abbreviation retry_message where
  "retry_message E \<equiv> retry_message_with (MQTTProtocol_closeSession E) E"

fun retry_loop_with ::
    "('n, 'f, 'z) closer \<Rightarrow> ('n, 'f) env \<Rightarrow> timeval \<Rightarrow> nat \<Rightarrow> bool \<Rightarrow> nat list \<Rightarrow> ('n, 'f, 'z) sys_scheme \<Rightarrow> ub + ('n, 'f, 'z) sys_scheme" where
  "retry_loop_with close E now i regardless [] s = Inr s"
| "retry_loop_with close E now i regardless (k # ks) s =
     (let c = g_clients s ! i in
      if c_connected c \<and> c_good c \<and> Socket_noPendingWrites (e_net E) (socket_of i s) (g_net s)
      then ub_bind (retry_message_with close E now i regardless k s) (\<lambda>(go_on, s).
        if go_on then retry_loop_with close E now i regardless ks s else Inr s)
      else Inr s)"

abbreviation retry_loop where
  "retry_loop E \<equiv> retry_loop_with (MQTTProtocol_closeSession E) E"

definition MQTTProtocol_retries_with ::
    "('n, 'f, 'z) closer \<Rightarrow> ('n, 'f) env \<Rightarrow> timeval \<Rightarrow> nat \<Rightarrow> bool \<Rightarrow> ('n, 'f, 'z) sys_scheme \<Rightarrow> ub + ('n, 'f, 'z) sys_scheme" where
  "MQTTProtocol_retries_with close E now i regardless s =
     (let c = g_clients s ! i in
      if \<not> regardless \<and> c_retryInterval c \<le> 0 \<and> c_connect_sent c = c_connect_count c then Inr s
      else
       let s = (if regardless
                then upd_client i (\<lambda>c. c\<lparr>c_connect_count := int (length (c_outboundMsgs c))\<rparr>) s else s);
           regardless = (regardless \<or> c_connect_sent c < c_connect_count c)
       in retry_loop_with close E now i regardless [0..<length (c_outboundMsgs c)] s)"

abbreviation MQTTProtocol_retries where
  "MQTTProtocol_retries E \<equiv> MQTTProtocol_retries_with (MQTTProtocol_closeSession E) E"

definition retry_client_with ::
    "('n, 'f, 'z) closer \<Rightarrow> ('n, 'f) env \<Rightarrow> timeval \<Rightarrow> bool \<Rightarrow> bool \<Rightarrow> nat \<Rightarrow> ('n, 'f, 'z) sys_scheme \<Rightarrow> ub + ('n, 'f, 'z) sys_scheme" where
  "retry_client_with close E now doRetry regardless i s =
     (let c = g_clients s ! i in
      if \<not> c_connected c then Inr s
      else if \<not> c_good c then close i s
      else if \<not> Socket_noPendingWrites (e_net E) (socket_of i s) (g_net s) then Inr s
      else if doRetry then MQTTProtocol_retries_with close E now i regardless s
      else Inr s)"

abbreviation retry_client where
  "retry_client E \<equiv> retry_client_with (MQTTProtocol_closeSession E) E"

definition MQTTProtocol_retry_with ::
    "('n, 'f, 'z) closer \<Rightarrow> ('n, 'f) env \<Rightarrow> timeval \<Rightarrow> bool \<Rightarrow> bool \<Rightarrow> ('n, 'f, 'z) sys_scheme \<Rightarrow> ub + ('n, 'f, 'z) sys_scheme" where
  "MQTTProtocol_retry_with close E now doRetry regardless s =
     each_client (retry_client_with close E now doRetry regardless) [0..<length (g_clients s)] s"

abbreviation MQTTProtocol_retry where
  "MQTTProtocol_retry E \<equiv> MQTTProtocol_retry_with (MQTTProtocol_closeSession E) E"

subsection \<open>Freeing a client, copying strings\<close>

definition MQTTProtocol_freeMessageList ::
    "('n, 'f) env \<Rightarrow> ('f Clients \<Rightarrow> Messages list) \<Rightarrow> (Messages list \<Rightarrow> 'f Clients \<Rightarrow> 'f Clients) \<Rightarrow> nat
      \<Rightarrow> ('n, 'f, 'z) sys_scheme \<Rightarrow> ub + ('n, 'f, 'z) sys_scheme" where
  "MQTTProtocol_freeMessageList E get put i s = MQTTProtocol_emptyMessageList E get put i s"

text \<open>
  What \<^verbatim>\<open>MQTTProtocol_freeClient\<close> leaves of the structure. A string it has released is empty or
  \<open>None\<close>, where the code sets some of the pointers to NULL and leaves the others dangling.
\<close>

definition MQTTProtocol_freeClient :: "('n, 'f) env \<Rightarrow> nat \<Rightarrow> ('n, 'f, 'z) sys_scheme \<Rightarrow> ub + ('n, 'f, 'z) sys_scheme" where
  "MQTTProtocol_freeClient E i s =
     ub_bind (MQTTProtocol_freeMessageList E c_outboundMsgs put_outbound i s) (\<lambda>s.
     ub_bind (MQTTProtocol_freeMessageList E c_inboundMsgs put_inbound i s) (\<lambda>s.
       Inr (upd_client i (\<lambda>c. c\<lparr>c_messageQueue := [], c_outboundQueue := [], c_clientID := [], c_will := None,
         c_username := None, c_password := None, c_httpProxy := None, c_httpsProxy := None,
         c_net := (c_net c)\<lparr>nh_http_proxy_auth := None\<rparr>\<rparr>) s)))"

text \<open>
  \<^verbatim>\<open>MQTTStrncpy\<close>: \<open>dest\<close> is the memory at the destination, which the result replaces. The loop
  returns the bytes it stores, with a zero that ended it, and whether it was ended by one.
\<close>

fun strncpy_loop :: "nat \<Rightarrow> bytes \<Rightarrow> ub + (bytes \<times> bool)" where
  "strncpy_loop n [] = (if n > 1 then Inl OverRead else Inr ([], False))"
| "strncpy_loop n (c # src) =
     (if n > 1
      then if c = 0 then Inr ([0], True)
        else ub_bind (strncpy_loop (n - 1) src) (\<lambda>(b, z). Inr (c # b, z))
      else Inr ([], False))"

definition MQTTStrncpy :: "bytes \<Rightarrow> bytes \<Rightarrow> nat \<Rightarrow> ub + bytes" where
  "MQTTStrncpy dest src dest_size =
     ub_bind (strncpy_loop dest_size src) (\<lambda>(b, _). let w = b @ [0] in
       if length w \<le> length dest then Inr (w @ drop (length w) dest) else Inl OverWrite)"

definition MQTTStrdup :: "heap \<Rightarrow> bytes \<Rightarrow> ub + bytes option" where
  "MQTTStrdup H src =
     (let mlen = strlen src + 1 in
      if H (ReqBuffer mlen) then ub_bind (MQTTStrncpy (replicate mlen 0) src mlen) (\<lambda>b. Inr (Some b))
      else Inr None)"

lemma strncpy_loop_string: "strncpy_loop (Suc (length (c_str src))) src = Inr (c_str src, False)"
  by (induction src) (auto simp: c_str_def)

lemma MQTTStrdup_ok: "heap_total H \<Longrightarrow> MQTTStrdup H src = Inr (Some (c_str src @ [0]))"
  by (simp add: MQTTStrdup_def MQTTStrncpy_def strlen_def strncpy_loop_string Let_def flip: c_str_def)

subsection \<open>Which message id is assigned\<close>

definition in_use :: "'f Clients \<Rightarrow> int \<Rightarrow> bool" where
  "in_use c msgid \<longleftrightarrow> (\<exists>m\<in>set (c_outboundMsgs c). ms_msgid m = msgid)"

text \<open>The id after \<open>k\<close> steps from \<open>start\<close>.\<close>

definition nth_id :: "int \<Rightarrow> nat \<Rightarrow> int" where
  "nth_id start k = (start + int k - 1) mod 65535 + 1"

lemma nth_id_first: "0 \<le> start \<Longrightarrow> start \<le> 65535 \<Longrightarrow> nth_id start 1 = next_id start"
  by (auto simp: nth_id_def next_id_def MAX_MSG_ID_def)

lemma nth_id_step: "next_id (nth_id start k) = nth_id start (Suc k)"
proof -
  have "(x + 1) mod 65535 = (if x mod 65535 = 65534 then 0 else x mod 65535 + 1)" for x :: int
  proof -
    have r: "0 \<le> x mod 65535" "x mod 65535 < 65535" by simp_all
    have "(x + 1) mod 65535 = (x mod 65535 + 1) mod 65535" by (simp add: mod_add_left_eq)
    also have "\<dots> = (if x mod 65535 = 65534 then 0 else x mod 65535 + 1)"
      using r by (auto intro: mod_pos_pos_trivial)
    finally show ?thesis .
  qed
  from this [of "start + int k - 1"] show ?thesis
    by (simp add: nth_id_def next_id_def MAX_MSG_ID_def add.commute)
qed

lemma nth_id_range: "1 \<le> nth_id start k \<and> nth_id start k \<le> 65535"
  by (simp add: nth_id_def)

lemma nth_id_start:
  assumes "0 \<le> start" "start \<le> 65535" "0 < k" "k \<le> 65535"
  shows "nth_id start k = start \<longleftrightarrow> 0 < start \<and> k = 65535"
proof (cases "start + int k \<le> 65535")
  case True
  then have "nth_id start k = start + int k"
    using assms unfolding nth_id_def by (subst mod_pos_pos_trivial) auto
  with True assms show ?thesis by auto
next
  case False
  have "(start + int k - 1) mod 65535 = (start + int k - 1 - 65535) mod 65535"
    by (simp only: minus_mod_self2)
  also have "\<dots> = start + int k - 1 - 65535"
    using False assms by (intro mod_pos_pos_trivial) auto
  finally have "nth_id start k = start + int k - 65535" by (simp add: nth_id_def)
  with False assms show ?thesis by auto
qed

lemma nth_id_surj:
  assumes "0 \<le> start" "start \<le> 65535" "1 \<le> m" "m \<le> 65535"
  shows "\<exists>k. 0 < k \<and> k \<le> 65535 \<and> nth_id start k = m"
proof -
  define k where "k = (m - start - 1) mod 65535 + 1"
  have "0 < k" "k \<le> 65535" by (simp_all add: k_def)
  moreover have "(start + k - 1) mod 65535 + 1 = m"
  proof -
    have "(start + k - 1) mod 65535 = (start + (m - start - 1)) mod 65535"
      by (simp add: k_def mod_add_right_eq)
    also have "\<dots> = m - 1" using assms(3,4) by simp
    finally show ?thesis by simp
  qed
  ultimately show ?thesis by (intro exI [of _ "nat k"]) (simp add: nth_id_def)
qed

lemma find_id:
  assumes "list_lib_ok L"
  shows "ListFindItem L (c_outboundMsgs c) (messageIDCompare m) = None \<longleftrightarrow> \<not> in_use c m"
  by (auto simp: list_libD(4) [OF assms] in_use_def messageIDCompare_def)

lemma assign_loop_skip:
  assumes "list_lib_ok L" "\<forall>j. 0 < j \<and> j < k \<longrightarrow> in_use c (nth_id start j)"
    and "\<forall>j. 0 < j \<and> j \<le> k \<longrightarrow> nth_id start j \<noteq> start" "0 < k"
  shows "assign_loop L (c_outboundMsgs c) start (nth_id start 1) =
    assign_loop L (c_outboundMsgs c) start (nth_id start k)"
  using assms(2-4)
proof (induction k)
  case (Suc k)
  show ?case
  proof (cases "k = 0")
    case False
    have "assign_loop L (c_outboundMsgs c) start (nth_id start k) =
        assign_loop L (c_outboundMsgs c) start (nth_id start (Suc k))"
      by (subst assign_loop.simps) (use Suc.prems False in \<open>simp add: find_id [OF assms(1)] nth_id_step Let_def\<close>)
    moreover have "assign_loop L (c_outboundMsgs c) start (nth_id start 1) =
        assign_loop L (c_outboundMsgs c) start (nth_id start k)"
      by (rule Suc.IH) (use Suc.prems False in auto)
    ultimately show ?thesis by simp
  qed simp
qed simp

lemma assign_loop_stuck:
  assumes "list_lib_ok L" "\<forall>m. 1 \<le> m \<and> m \<le> 65535 \<longrightarrow> in_use c m" "1 \<le> m" "m \<le> 65535"
  shows "assign_loop L (c_outboundMsgs c) 0 m = None"
proof -
  let ?P = "\<lambda>L' out start m (y :: int). L' = L \<longrightarrow> start = 0 \<longrightarrow> out = c_outboundMsgs c \<longrightarrow> \<not> (1 \<le> m \<and> m \<le> 65535)"
  have "?P L out start m y" if "assign_loop L out start m = Some y" for out start m y
  proof (rule assign_loop.raw_induct [where P = ?P, OF _ that])
    fix f L' out start m y
    assume IH: "\<And>L' out start m y. f L' out start m = Some y \<Longrightarrow> ?P L' out start m y"
      and eq: "(if ListFindItem L' out (messageIDCompare m) = None then Some m
        else let msgid = next_id m in if msgid = start then Some 0 else f L' out start msgid) = Some y"
    show "?P L' out start m y"
    proof (intro impI notI)
      assume h: "L' = L" "start = 0" "out = c_outboundMsgs c" "1 \<le> m \<and> m \<le> 65535"
      then have n: "1 \<le> next_id m \<and> next_id m \<le> 65535" by (simp add: next_id_def MAX_MSG_ID_def)
      have "in_use c m" using assms(2) h(4) by blast
      with eq h n have "f L out start (next_id m) = Some y"
        by (simp add: find_id [OF assms(1)] Let_def)
      with IH h n show False by blast
    qed
  qed
  with assms show ?thesis by (cases "assign_loop L (c_outboundMsgs c) 0 m") auto
qed

lemma assignMsgId_cases:
  assumes "list_lib_ok L" "0 \<le> c_msgID c" "c_msgID c \<le> MAX_MSG_ID"
  shows "case MQTTProtocol_assignMsgId L c of
      None \<Rightarrow> c_msgID c = 0 \<and> (\<forall>m. 1 \<le> m \<and> m \<le> MAX_MSG_ID \<longrightarrow> in_use c m)
    | Some (msgid, c') \<Rightarrow>
        if msgid = 0 then c' = c \<and> c_msgID c \<noteq> 0 \<and>
          (\<forall>m. 1 \<le> m \<and> m \<le> MAX_MSG_ID \<and> m \<noteq> c_msgID c \<longrightarrow> in_use c m)
        else 1 \<le> msgid \<and> msgid \<le> MAX_MSG_ID \<and> \<not> in_use c msgid \<and> c' = c\<lparr>c_msgID := msgid\<rparr>"
proof -
  define start where "start = c_msgID c"
  have st: "0 \<le> start" "start \<le> 65535" using assms(2,3) by (simp_all add: start_def MAX_MSG_ID_def)
  let ?loop = "assign_loop L (c_outboundMsgs c) start"
  have eq: "MQTTProtocol_assignMsgId L c = (case ?loop (nth_id start 1) of None \<Rightarrow> None
      | Some msgid \<Rightarrow> Some (msgid, if msgid \<noteq> 0 then c\<lparr>c_msgID := msgid\<rparr> else c))"
    using nth_id_first [OF st] by (simp add: MQTTProtocol_assignMsgId_def start_def Let_def)
  let ?free = "\<lambda>k. 0 < k \<and> k \<le> 65535 \<and> nth_id start k \<noteq> start \<and> \<not> in_use c (nth_id start k)"
  show ?thesis
  proof (cases "\<exists>k. ?free k")
    case True
    define k where "k = (LEAST k. ?free k)"
    have k: "?free k" using LeastI_ex [OF True] unfolding k_def .
    have min: "\<not> ?free j" if "j < k" for j using not_less_Least that unfolding k_def by blast
    have ns: "nth_id start j \<noteq> start" if "0 < j" "j \<le> k" for j
      using k that nth_id_start [OF st, of j] nth_id_start [OF st, of k] by auto
    have "in_use c (nth_id start j)" if "0 < j" "j < k" for j
      using min [OF that(2)] ns [of j] that k by auto
    then have "?loop (nth_id start 1) = ?loop (nth_id start k)"
      using k ns by (intro assign_loop_skip [OF assms(1)]) auto
    also have "\<dots> = Some (nth_id start k)"
      by (subst assign_loop.simps) (use k in \<open>simp add: find_id [OF assms(1)]\<close>)
    finally show ?thesis using k nth_id_range [of start k] by (simp add: eq MAX_MSG_ID_def)
  next
    case False
    have used: "in_use c m" if m: "1 \<le> m" "m \<le> 65535" "m \<noteq> start" for m
    proof -
      obtain k where "0 < k" "k \<le> 65535" "nth_id start k = m" using nth_id_surj [OF st m(1,2)] by blast
      with False m(3) show ?thesis by auto
    qed
    show ?thesis
    proof (cases "start = 0")
      case True
      have all: "\<forall>m. 1 \<le> m \<and> m \<le> 65535 \<longrightarrow> in_use c m" using used True by auto
      from assign_loop_stuck [OF assms(1) all, of "nth_id 0 1"] nth_id_range [of 0 1] True all
      show ?thesis by (simp add: eq MAX_MSG_ID_def start_def)
    next
      case nz: False
      have *: "in_use c (nth_id start j) \<and> nth_id start j \<noteq> start" if "0 < j" "j \<le> 65534" for j
      proof -
        have "j \<le> 65535" "j \<noteq> 65535" using that by linarith+
        with nth_id_start [OF st that(1)] have "nth_id start j \<noteq> start" by blast
        with False that \<open>j \<le> 65535\<close> show ?thesis by blast
      qed
      then have "?loop (nth_id start 1) = ?loop (nth_id start 65534)"
        by (intro assign_loop_skip [OF assms(1)]) auto
      also have "\<dots> = Some 0"
      proof -
        have u: "in_use c (nth_id start 65534)" using * [of 65534] by simp
        have "next_id (nth_id start 65534) = start"
          using nth_id_start [OF st, of 65535] nz st by (simp add: nth_id_step)
        with u show ?thesis by (subst assign_loop.simps) (simp add: find_id [OF assms(1)] Let_def)
      qed
      finally show ?thesis using used nz by (auto simp: eq MAX_MSG_ID_def start_def)
    qed
  qed
qed

subsection \<open>Claims\<close>

text \<open>
  C28: \<^verbatim>\<open>MQTTProtocol_assignMsgId\<close> never gives out a message id that is in use: when it returns an id
  other than 0, the id is between 1 and 65535, no outbound message of the client has it, and it is
  remembered as the last one. It returns 0, changing nothing, only when every id except possibly
  the last one assigned is in use. The loop fails to end in exactly one situation: no id was ever
  assigned (the last one is 0) and all 65535 ids are in use.
\<close>

theorem assignMsgId_unused:
  assumes "list_lib_ok L" "0 \<le> c_msgID c" "c_msgID c \<le> MAX_MSG_ID"
  shows "case MQTTProtocol_assignMsgId L c of
      None \<Rightarrow> c_msgID c = 0 \<and> (\<forall>m. 1 \<le> m \<and> m \<le> MAX_MSG_ID \<longrightarrow> in_use c m)
    | Some (msgid, c') \<Rightarrow>
        if msgid = 0 then c' = c \<and> c_msgID c \<noteq> 0 \<and>
          (\<forall>m. 1 \<le> m \<and> m \<le> MAX_MSG_ID \<and> m \<noteq> c_msgID c \<longrightarrow> in_use c m)
        else 1 \<le> msgid \<and> msgid \<le> MAX_MSG_ID \<and> \<not> in_use c msgid \<and> c' = c\<lparr>c_msgID := msgid\<rparr>"
  using assignMsgId_cases [OF assms] .

definition sample_outbound :: Messages where
  "sample_outbound = \<lparr>ms_qos = 1, ms_retain = 0, ms_msgid = 1, ms_MQTTVersion = 4, ms_properties = None,
     ms_publish = None, ms_lastTouch = START_TIME_ZERO, ms_nextMessageType = None\<rparr>"

theorem assignMsgId_unused_witness:
  "\<exists>m c'. MQTTProtocol_assignMsgId std_lists ((blank_client :: unit Clients)\<lparr>c_outboundMsgs := [sample_outbound]\<rparr>) = Some (m, c') \<and>
     2 \<le> m \<and> m \<le> 65535 \<and> c_msgID c' = m"
proof -
  let ?c = "(blank_client :: unit Clients)\<lparr>c_outboundMsgs := [sample_outbound]\<rparr>"
  have u: "in_use ?c m \<longleftrightarrow> m = 1" for m by (auto simp: in_use_def sample_outbound_def)
  have z: "c_msgID ?c = 0" by (simp add: blank_client_def)
  have h: "0 \<le> c_msgID ?c" "c_msgID ?c \<le> MAX_MSG_ID" by (simp_all add: z MAX_MSG_ID_def)
  have two: "\<not> (\<forall>m. 1 \<le> m \<and> m \<le> MAX_MSG_ID \<longrightarrow> m = 1)"
    by (auto simp: MAX_MSG_ID_def intro: exI [of _ 2])
  from assignMsgId_unused [OF std_lists_ok h] two show ?thesis
    unfolding u z by (cases "MQTTProtocol_assignMsgId std_lists ?c") (auto simp: MAX_MSG_ID_def split: if_splits)
qed

end
