(* ===== verification/Exchange.thy ===== *)
theory Exchange
  imports Protocol
begin

section \<open>Publish exchanges as state machines\<close>

text \<open>
  What the handlers of \<^verbatim>\<open>MQTTProtocolClient.c\<close> do to a client, seen through an abstraction: for
  the receiving side of QoS 2 the messages that are held until their PUBREL and the messages that
  were given to the application, for the sending side the phase each outbound message is in. The
  handlers refine two small machines, and what the protocol promises is proved of those.
\<close>

subsection \<open>Lists and publications\<close>

lemma list_lib_find_index:
  assumes "list_lib_ok L"
  shows "ListFindItem L xs P = find_index P xs"
proof (cases "find_index P xs")
  case None
  then have "ListFindItem L xs P = None" by (simp add: list_libD(4) [OF assms] find_index_None)
  with None show ?thesis by simp
next
  case (Some i)
  note i = find_index_Some [OF Some]
  then have "ListFindItem L xs P \<noteq> None" using list_libD(4) [OF assms, of xs P] nth_mem by blast
  then obtain j where j: "ListFindItem L xs P = Some j" by auto
  from list_lib_find [OF assms j] i have "\<not> j < i" "\<not> i < j" by blast+
  with j Some show ?thesis by simp
qed

lemma find_index_map: "find_index P (map f xs) = find_index (P \<circ> f) xs"
  by (induction xs) auto

lemma map_of_find_index:
  "map_of ps a = (case find_index (\<lambda>(b, _). b = a) ps of None \<Rightarrow> None | Some k \<Rightarrow> Some (snd (ps ! k)))"
  by (induction ps) (auto split: option.split)

lemma map_of_update:
  assumes "find_index (\<lambda>(b, _). b = a) ps = Some k"
  shows "map_of (ps[k := (a, p)]) = (map_of ps)(a \<mapsto> p) \<and> map fst (ps[k := (a, p)]) = map fst ps"
  using assms
proof (induction ps arbitrary: k)
  case (Cons x ps)
  then show ?case by (cases x; cases k) (auto split: if_splits)
qed simp

lemma map_of_remove:
  assumes "find_index (\<lambda>(b, _). b = a) ps = Some k" "distinct (map fst ps)"
  shows "map_of (take k ps @ drop (Suc k) ps) = (map_of ps)(a := None) \<and>
    distinct (map fst (take k ps @ drop (Suc k) ps)) \<and>
    set (take k ps @ drop (Suc k) ps) \<subseteq> set ps"
  using assms
proof (induction ps arbitrary: k)
  case (Cons x ps)
  show ?case
  proof (cases "fst x = a")
    case True
    moreover from this have "map_of ps a = None" using Cons.prems(2) by (simp add: map_of_eq_None_iff)
    ultimately show ?thesis using Cons.prems by (cases x) (auto simp: fun_upd_idem)
  next
    case False
    with Cons.prems(1) obtain j where j: "find_index (\<lambda>(b, _). b = a) ps = Some j" "k = Suc j"
      by (cases x) auto
    from Cons.IH [OF j(1)] Cons.prems(2) have
      "map_of (take j ps @ drop (Suc j) ps) = (map_of ps)(a := None)"
      "distinct (map fst (take j ps @ drop (Suc j) ps))"
      "set (take j ps @ drop (Suc j) ps) \<subseteq> set ps" by auto
    moreover have "fst x \<notin> fst ` set (take j ps @ drop (Suc j) ps)"
      using calculation(3) Cons.prems(2) by auto
    ultimately show ?thesis using False j(2) by (cases x) (auto simp: fun_upd_twist)
  qed
qed simp

lemma list_insert_remove:
  assumes "list_lib_ok L" "k < length xs"
  shows "ListRemove L (ListInsert L xs x (Some k)) (Suc k) = xs[k := x]"
proof -
  have "ListInsert L xs x (Some k) = take k xs @ x # drop k xs" using list_libD(3) [OF assms] .
  moreover have "Suc k < length (take k xs @ x # drop k xs)" using assms(2) by simp
  ultimately show ?thesis
    using assms(2) by (simp add: list_libD(5) [OF assms(1)] upd_conv_take_nth_drop take_Suc_conv_app_nth nth_append)
qed

definition pubs_ok :: "('n, 'f, 'z) sys_scheme \<Rightarrow> bool" where
  "pubs_ok s \<longleftrightarrow> distinct (map fst (g_publications s)) \<and> (\<forall>x\<in>set (g_publications s). fst x < g_fresh s)"

lemma get_pub_eq:
  assumes "lists_ok (e_lists E)"
  shows "get_pub E a s = (case map_of (g_publications s) a of None \<Rightarrow> Inl UseAfterFree | Some p \<Rightarrow> Inr p)"
  using assms by (simp add: get_pub_def find_pub_def lists_ok_def list_lib_find_index map_of_find_index
      split: option.split)

lemma set_pub_eq:
  assumes "lists_ok (e_lists E)" "map_of (g_publications s) a = Some q"
  shows "\<exists>ps. set_pub E a p s = Inr (s\<lparr>g_publications := ps\<rparr>) \<and>
    map_of ps = (map_of (g_publications s))(a \<mapsto> p) \<and> map fst ps = map fst (g_publications s)"
proof -
  from assms(2) obtain k where k: "find_index (\<lambda>(b, _). b = a) (g_publications s) = Some k"
    by (auto simp: map_of_find_index split: option.splits)
  from map_of_update [OF k, of p] k assms(1) show ?thesis
    by (intro exI [of _ "(g_publications s)[k := (a, p)]"]) (simp add: set_pub_def find_pub_def lists_ok_def list_lib_find_index)
qed

lemma drop_pub_eq:
  assumes "lists_ok (e_lists E)" "distinct (map fst (g_publications s))"
  shows "\<exists>ps. drop_pub E a s = s\<lparr>g_publications := ps\<rparr> \<and>
    map_of ps = (map_of (g_publications s))(a := None) \<and> distinct (map fst ps) \<and>
    set ps \<subseteq> set (g_publications s)"
proof (cases "find_index (\<lambda>(b, _). b = a) (g_publications s)")
  case None
  then have "map_of (g_publications s) a = None" by (simp add: map_of_find_index)
  with None assms show ?thesis
    by (intro exI [of _ "g_publications s"])
      (simp add: drop_pub_def find_pub_def lists_ok_def list_lib_find_index fun_upd_idem)
next
  case (Some k)
  have "k < length (g_publications s)" using find_index_Some [OF Some] by simp
  with map_of_remove [OF Some assms(2)] Some assms(1) show ?thesis
    by (intro exI [of _ "take k (g_publications s) @ drop (Suc k) (g_publications s)"]) (simp add: drop_pub_def find_pub_def lists_ok_def list_lib_find_index list_libD(5))
qed

lemma pubs_okD:
  assumes "pubs_ok s" "g_fresh s \<le> a"
  shows "map_of (g_publications s) a = None"
  using assms by (force simp: pubs_ok_def map_of_eq_None_iff)

subsection \<open>What sending leaves alone\<close>

definition strip :: "'f Clients \<Rightarrow> 'f Clients" where
  "strip c = c\<lparr>c_net := (c_net c)\<lparr>nh_lastSent := START_TIME_ZERO\<rparr>, c_outboundQueue := []\<rparr>"

text \<open>
  Two states that differ only in the network, in the times of the last write and in the queued
  answers.
\<close>

definition similar :: "('n, 'f, 'z) sys_scheme \<Rightarrow> ('n, 'f, 'z) sys_scheme \<Rightarrow> bool" where
  "similar s s' \<longleftrightarrow> map strip (g_clients s') = map strip (g_clients s) \<and> g_fs s' = g_fs s \<and>
     g_publications s' = g_publications s \<and> g_fresh s' = g_fresh s \<and> g_pending_writes s' = g_pending_writes s \<and>
     g_msgs_received s' = g_msgs_received s \<and> g_msgs_sent s' = g_msgs_sent s"

lemma similar_refl [simp]: "similar s s"
  by (simp add: similar_def)

lemma similar_trans: "similar s s' \<Longrightarrow> similar s' s'' \<Longrightarrow> similar s s''"
  by (simp add: similar_def)

lemma similar_net [simp]: "similar s (s'\<lparr>g_net := n\<rparr>) \<longleftrightarrow> similar s s'"
  by (simp add: similar_def)

lemma similar_upd:
  assumes "\<And>c. strip (f c) = strip c"
  shows "similar s (upd_client i f s)"
proof -
  have "map strip ((g_clients s)[i := f (g_clients s ! i)]) = map strip (g_clients s)"
    using assms by (cases "i < length (g_clients s)") (auto simp: map_update list_update_same_conv list_update_beyond)
  then show ?thesis by (simp add: similar_def upd_client_def)
qed

lemma similar_touch [simp]: "similar s (touch_sent E i s)"
proof -
  have "similar s (snd (time_now E s))" by (simp add: time_now_def Let_def split: prod.split)
  moreover have "similar (snd (time_now E s)) (touch_sent E i s)"
    by (auto simp: touch_sent_def Let_def strip_def split: prod.split intro!: similar_upd)
  ultimately show ?thesis by (rule similar_trans)
qed

lemma similar_put_frame: "put_frame E i buf bufs m s = (rc, m', s') \<Longrightarrow> similar s s'"
  by (auto simp: put_frame_def Let_def split: prod.splits if_splits intro: similar_trans [OF _ similar_touch])

lemma similar_client:
  assumes "similar s s'" "i < length (g_clients s)"
  shows "strip (g_clients s' ! i) = strip (g_clients s ! i)" "length (g_clients s') = length (g_clients s)"
proof -
  from assms(1) have m: "map strip (g_clients s') = map strip (g_clients s)" by (simp add: similar_def)
  then show l: "length (g_clients s') = length (g_clients s)" by (metis length_map)
  from m have "map strip (g_clients s') ! i = map strip (g_clients s) ! i" by simp
  with assms(2) l show "strip (g_clients s' ! i) = strip (g_clients s ! i)" by simp
qed

lemma stripD:
  assumes "strip c = strip c'"
  shows "c_inboundMsgs c = c_inboundMsgs c'" "c_outboundMsgs c = c_outboundMsgs c'"
    "c_messageQueue c = c_messageQueue c'" "c_persistence c = c_persistence c'"
    "nh_socket (c_net c) = nh_socket (c_net c')" "c_MQTTVersion c = c_MQTTVersion c'"
proof -
  from assms have "c_inboundMsgs (strip c) = c_inboundMsgs (strip c')"
    "c_outboundMsgs (strip c) = c_outboundMsgs (strip c')" "c_messageQueue (strip c) = c_messageQueue (strip c')"
    "c_persistence (strip c) = c_persistence (strip c')" "nh_socket (c_net (strip c)) = nh_socket (c_net (strip c'))"
    "c_MQTTVersion (strip c) = c_MQTTVersion (strip c')" by simp_all
  then show "c_inboundMsgs c = c_inboundMsgs c'" "c_outboundMsgs c = c_outboundMsgs c'"
    "c_messageQueue c = c_messageQueue c'" "c_persistence c = c_persistence c'"
    "nh_socket (c_net c) = nh_socket (c_net c')" "c_MQTTVersion c = c_MQTTVersion c'"
    by (simp_all add: strip_def)
qed

text \<open>
  A step of one side: of the client it changes no more than \<open>blank\<close> resets, and of the stored
  publications those of the messages in the list \<open>get\<close>, to which it adds only new ones.
\<close>

definition moved ::
    "('f Clients \<Rightarrow> Messages list) \<Rightarrow> ('f Clients \<Rightarrow> 'f Clients) \<Rightarrow> nat \<Rightarrow> ('n, 'f, 'z) sys_scheme \<Rightarrow> ('n, 'f, 'z) sys_scheme \<Rightarrow> bool" where
  "moved get blank i s s' \<longleftrightarrow>
     (let c = strip (g_clients s ! i); c' = strip (g_clients s' ! i) in
      blank c' = blank c \<and> g_fresh s \<le> g_fresh s' \<and>
      (\<forall>a<g_fresh s. Some a \<notin> ms_publish ` set (get c) \<longrightarrow>
         map_of (g_publications s') a = map_of (g_publications s) a) \<and>
      ms_publish ` set (get c') \<subseteq> ms_publish ` set (get c) \<union> {x. \<forall>a<g_fresh s. x \<noteq> Some a})"

definition blank_received :: "'f Clients \<Rightarrow> 'f Clients" where
  "blank_received c = c\<lparr>c_inboundMsgs := [], c_messageQueue := []\<rparr>"

abbreviation recd_only :: "nat \<Rightarrow> ('n, 'f, 'z) sys_scheme \<Rightarrow> ('n, 'f, 'z) sys_scheme \<Rightarrow> bool" where
  "recd_only \<equiv> moved c_inboundMsgs blank_received"

abbreviation sent_only :: "nat \<Rightarrow> ('n, 'f, 'z) sys_scheme \<Rightarrow> ('n, 'f, 'z) sys_scheme \<Rightarrow> bool" where
  "sent_only \<equiv> moved c_outboundMsgs (put_outbound [])"

lemma strip_simps [simp]:
  "c_inboundMsgs (strip c) = c_inboundMsgs c" "c_outboundMsgs (strip c) = c_outboundMsgs c"
  "c_messageQueue (strip c) = c_messageQueue c" "c_connected (strip c) = c_connected c"
  "c_cleansession (strip c) = c_cleansession c" "c_persistence (strip c) = c_persistence c"
  "c_MQTTVersion (strip c) = c_MQTTVersion c" "c_msgID (strip c) = c_msgID c"
  "nh_socket (c_net (strip c)) = nh_socket (c_net c)"
  by (simp_all add: strip_def)

lemma other_address: "Some b \<notin> ms_publish ` A \<Longrightarrow> x \<in> A \<Longrightarrow> ms_publish x \<noteq> Some b"
  by (metis imageI)

lemma moved_refl [simp]: "moved get blank i s s"
  by (auto simp: moved_def Let_def)

lemma moved_count [simp]:
  "moved get blank i s (s'\<lparr>g_msgs_sent := n\<rparr>) = moved get blank i s s'"
  "moved get blank i s (s'\<lparr>g_msgs_received := n\<rparr>) = moved get blank i s s'"
  "moved get blank i s (s'\<lparr>g_net := net\<rparr>) = moved get blank i s s'"
  by (simp_all add: moved_def)

lemma moved_similar:
  assumes "moved get blank i s s1" "similar s1 s2" "i < length (g_clients s1)"
  shows "moved get blank i s s2"
  using assms(1) similar_client [OF assms(2,3)] assms(2) by (simp add: moved_def similar_def Let_def)

lemma answer_similar:
  assumes "heap_total (e_heap E)" "type \<in> {PUBACK, PUBREC, PUBCOMP}"
  shows "\<exists>rc s'. answer E pending v type msgId i s = Inr (rc, s') \<and> similar s s'"
proof (cases pending)
  case True
  then show ?thesis
    using assms(1) by (auto simp: answer_def MQTTProtocol_queueAck_def strip_def intro!: similar_upd)
next
  case False
  have f: "fill 2 (writeInt msgId) = Inr (writeInt msgId)" using fill_exact [of "writeInt msgId"] by simp
  have t: "hd_type (mk_header type 0 0 0) \<noteq> PUBREL" "type \<noteq> PUBREL"
    using assms(2) by (auto simp: mk_header_fields msgTypes_defs)
  obtain rc m s' where p: "put_frame E i (mk_header type 0 0 0 # vbi (length (writeInt msgId))) [writeInt msgId]
      [0, 0, 0, 0] s = (rc, m, s')" by (cases "put_frame E i (mk_header type 0 0 0 # vbi (length (writeInt msgId)))
      [writeInt msgId] [0, 0, 0, 0] s") auto
  have "answer E pending v type msgId i s = MQTTPacket_send_ack E v type msgId 0 i s"
    using False assms(2) t(2) by (auto simp: answer_def MQTTPacket_send_puback_def MQTTPacket_send_pubrec_def
        MQTTPacket_send_pubcomp_def)
  also have "\<dots> = Inr (rc, s')"
    using assms(1) f t p by (simp add: MQTTPacket_send_ack_def MQTTPacket_send_frame)
  finally show ?thesis using similar_put_frame [OF p] by blast
qed

subsection \<open>The receiving side of QoS 2\<close>

text \<open>
  The machine: messages held (id, topic, payload), and messages delivered. A PUBLISH with an id
  that is held replaces the message, its PUBREL delivers it.
\<close>

type_synonym item = "int \<times> bytes \<times> bytes"

definition a_publish :: "item \<Rightarrow> item list \<times> item list \<Rightarrow> item list \<times> item list" where
  "a_publish x st = (case st of (held, del) \<Rightarrow>
     (if fst x \<in> fst ` set held then map (\<lambda>y. if fst y = fst x then x else y) held else held @ [x], del))"

definition a_pubrel :: "int \<Rightarrow> item list \<times> item list \<Rightarrow> item list \<times> item list" where
  "a_pubrel msgid st = (case st of (held, del) \<Rightarrow>
     (filter (\<lambda>y. fst y \<noteq> msgid) held, del @ filter (\<lambda>y. fst y = msgid) held))"

text \<open>The view of a client. \<open>M\<close> is the map of stored publications.\<close>

definition msg_item :: "(nat \<rightharpoonup> Publications) \<Rightarrow> Messages \<Rightarrow> item" where
  "msg_item M m = (case Option.bind (ms_publish m) M of None \<Rightarrow> (ms_msgid m, [], [])
     | Some p \<Rightarrow> (ms_msgid m, null_bytes (pu_topic p), null_bytes (pu_payload p)))"

definition entry_item :: "MQTTPersistence_qEntry \<Rightarrow> item" where
  "entry_item qe = (pm_msgid (qe_msg qe), qe_topicName qe, pm_payload (qe_msg qe))"

definition view :: "nat \<Rightarrow> ('n, 'f, 'z) sys_scheme \<Rightarrow> item list \<times> item list" where
  "view i s = (map (msg_item (map_of (g_publications s))) (c_inboundMsgs (g_clients s ! i)),
     map entry_item (c_messageQueue (g_clients s ! i)))"

definition held_ok :: "(nat \<rightharpoonup> Publications) \<Rightarrow> Messages \<Rightarrow> bool" where
  "held_ok M m \<longleftrightarrow> ms_qos m = 2 \<and> ms_nextMessageType m = Some PUBREL \<and> ms_MQTTVersion m < 5 \<and>
     (\<exists>a p t d. ms_publish m = Some a \<and> M a = Some p \<and> pu_topic p = Some t \<and> pu_payload p = Some d \<and>
       pu_payloadlen p = int (length d) \<and> pu_refcount p = 1)"

definition receiver_inv :: "('n, 'f) env \<Rightarrow> int \<Rightarrow> nat \<Rightarrow> ('n, 'f, 'z) sys_scheme \<Rightarrow> bool" where
  "receiver_inv E sock i s \<longleftrightarrow> i < length (g_clients s) \<and>
     find_index ((=) sock) (map (\<lambda>c. nh_socket (c_net c)) (g_clients s)) = Some i \<and>
     c_persistence (g_clients s ! i) = None \<and> pubs_ok s \<and>
     distinct (map ms_msgid (c_inboundMsgs (g_clients s ! i))) \<and>
     distinct (map ms_publish (c_inboundMsgs (g_clients s ! i))) \<and>
     (\<forall>m\<in>set (c_inboundMsgs (g_clients s ! i)). held_ok (map_of (g_publications s)) m)"

text \<open>A received PUBLISH of QoS 2 as \<^verbatim>\<open>MQTTPacket_publish\<close> builds it before version 5.\<close>

definition publish_qos2 :: "Publish \<Rightarrow> bool" where
  "publish_qos2 p \<longleftrightarrow> hd_qos (pb_header p) = 2 \<and> pb_MQTTVersion p < 5 \<and> pb_topic p \<noteq> None \<and>
     0 \<le> pb_payloadlen p \<and> nat (pb_payloadlen p) \<le> length (pb_payload p)"

definition publish_item :: "Publish \<Rightarrow> item" where
  "publish_item p = (pb_msgId p, the (pb_topic p), take (nat (pb_payloadlen p)) (pb_payload p))"

lemma find_client_eq:
  assumes "lists_ok (e_lists E)"
  shows "find_client E sock s = (case find_index ((=) sock) (map (\<lambda>c. nh_socket (c_net c)) (g_clients s)) of
    None \<Rightarrow> Inl NullDeref | Some i \<Rightarrow> Inr i)"
proof -
  have "clientSocketCompare sock = (=) sock \<circ> (\<lambda>c :: 'a Clients. nh_socket (c_net c))"
    by (auto simp: clientSocketCompare_def fun_eq_iff)
  with assms show ?thesis
    by (simp add: find_client_def lists_ok_def list_lib_find_index find_index_map)
qed

lemma receiver_find: "lists_ok (e_lists E) \<Longrightarrow> receiver_inv E sock i s \<Longrightarrow> find_client E sock s = Inr i"
  by (simp add: find_client_eq receiver_inv_def)

lemma similar_sockets:
  assumes "similar s s'"
  shows "map (\<lambda>c. nh_socket (c_net c)) (g_clients s') = map (\<lambda>c. nh_socket (c_net c)) (g_clients s)"
proof -
  have "map strip (g_clients s') = map strip (g_clients s)" using assms by (simp add: similar_def)
  then have "map (\<lambda>c. nh_socket (c_net c)) (map strip (g_clients s')) =
      map (\<lambda>c. nh_socket (c_net c)) (map strip (g_clients s))" by simp
  then show ?thesis by (simp add: strip_def o_def)
qed

lemma receiver_similar:
  assumes "similar s s'" "receiver_inv E sock i s"
  shows "receiver_inv E sock i s' \<and> view i s' = view i s"
proof -
  from assms(2) have i: "i < length (g_clients s)" by (simp add: receiver_inv_def)
  note c = similar_client [OF assms(1) i]
  from assms(1) have "g_publications s' = g_publications s" "g_fresh s' = g_fresh s" by (simp_all add: similar_def)
  with assms(2) stripD [OF c(1)] c(2) similar_sockets [OF assms(1)] show ?thesis
    by (simp add: receiver_inv_def pubs_ok_def view_def)
qed

lemma item_update:
  assumes "distinct (map ms_msgid l)" "k < length l" "ms_msgid (l ! k) = ms_msgid m"
    and "\<And>x. x \<in> set l \<Longrightarrow> x \<noteq> l ! k \<Longrightarrow> msg_item M' x = msg_item M x"
  shows "map (msg_item M') (l[k := m]) =
    map (\<lambda>y. if fst y = ms_msgid m then msg_item M' m else y) (map (msg_item M) l)"
proof (rule nth_equalityI)
  have f: "fst (msg_item M x) = ms_msgid x" for x by (simp add: msg_item_def split: option.split)
  fix j assume "j < length (map (msg_item M') (l[k := m]))"
  then have j: "j < length l" by simp
  show "map (msg_item M') (l[k := m]) ! j =
      map (\<lambda>y. if fst y = ms_msgid m then msg_item M' m else y) (map (msg_item M) l) ! j"
  proof (cases "j = k")
    case False
    then have "ms_msgid (l ! j) \<noteq> ms_msgid (l ! k)"
      using assms(1,2) j by (metis distinct_conv_nth length_map nth_map)
    moreover have "l ! j \<noteq> l ! k" using calculation by metis
    then have "msg_item M' (l ! j) = msg_item M (l ! j)" using assms(4) nth_mem [OF j] by simp
    ultimately show ?thesis using False j assms(3) f by simp
  qed (use j assms(3) f in simp)
qed simp

lemma fst_msg_item [simp]: "fst (msg_item M x) = ms_msgid x"
  by (simp add: msg_item_def split: option.split)

lemma msg_item_cong: "Option.bind (ms_publish m) M' = Option.bind (ms_publish m) M \<Longrightarrow> msg_item M' m = msg_item M m"
  by (simp add: msg_item_def)

lemma held_ok_cong: "held_ok M m \<Longrightarrow> Option.bind (ms_publish m) M' = Option.bind (ms_publish m) M \<Longrightarrow> held_ok M' m"
  by (auto simp: held_ok_def)

text \<open>The effect of storing a message in the inbound list.\<close>

lemma store_inbound_eq:
  assumes "lists_ok (e_lists E)" "pubs_ok s" "i < length (g_clients s)" "inb = c_inboundMsgs (g_clients s ! i)"
    and "\<forall>m\<in>set inb. held_ok (map_of (g_publications s)) m" "ms_msgid m = msgid"
  shows "\<exists>k ps. store_inbound E i m s = Inr (k, k < length inb, s\<lparr>g_publications := ps,
      g_clients := (g_clients s)[i := (g_clients s ! i)\<lparr>c_inboundMsgs :=
        (if k < length inb then inb[k := m] else inb @ [m])\<rparr>]\<rparr>) \<and> k \<le> length inb \<and>
    pubs_ok (s\<lparr>g_publications := ps\<rparr>) \<and>
    (if k < length inb then ms_msgid (inb ! k) = msgid \<and>
       map_of ps = (map_of (g_publications s))(the (ms_publish (inb ! k)) := None)
     else msgid \<notin> set (map ms_msgid inb) \<and> ps = g_publications s)"
proof (cases "find_index (messageIDCompare msgid) inb")
  case None
  have "find_index (messageIDCompare (ms_msgid m)) (c_inboundMsgs (g_clients s ! i)) = None"
    using None assms(4,6) by simp
  then have "store_inbound E i m s = Inr (length inb, False, s\<lparr>g_clients := (g_clients s)
      [i := (g_clients s ! i)\<lparr>c_inboundMsgs := inb @ [m]\<rparr>]\<rparr>)"
    using assms(1,4) by (simp add: store_inbound_def lists_ok_def list_lib_find_index list_libD upd_client_def Let_def)
  moreover have "msgid \<notin> set (map ms_msgid inb)"
    using None by (auto simp: find_index_None messageIDCompare_def)
  ultimately show ?thesis
    using assms(2) by (intro exI [of _ "length inb"] exI [of _ "g_publications s"]) simp
next
  case (Some k)
  from find_index_Some [OF this] have k: "k < length inb" "ms_msgid (inb ! k) = msgid"
    by (auto simp: messageIDCompare_def)
  then have "held_ok (map_of (g_publications s)) (inb ! k)" using assms(5) by simp
  then obtain b q where b: "ms_publish (inb ! k) = Some b" "map_of (g_publications s) b = Some q"
    "pu_refcount q = 1" "ms_MQTTVersion (inb ! k) < 5" by (auto simp: held_ok_def)
  from drop_pub_eq [OF assms(1), of s b] assms(2) obtain ps where ps: "drop_pub E b s = s\<lparr>g_publications := ps\<rparr>"
    "map_of ps = (map_of (g_publications s))(b := None)" "distinct (map fst ps)" "set ps \<subseteq> set (g_publications s)"
    by (auto simp: pubs_ok_def)
  have r: "MQTTProtocol_removePublication E (Some b) s = Inr (s\<lparr>g_publications := ps\<rparr>)"
    using b ps(1) assms(1) by (simp add: MQTTProtocol_removePublication_def get_pub_eq)
  have l: "list_lib_ok (l_msgs (e_lists E))" using assms(1) by (simp add: lists_ok_def)
  from Some k b r ps(2-4) assms(2,4,6) l show ?thesis
    by (intro exI [of _ k] exI [of _ ps])
      (auto simp: store_inbound_def list_lib_find_index list_insert_remove upd_client_def free_props_def
        version_defs pubs_ok_def Let_def)
qed

lemma own_payload_eq:
  assumes "lists_ok (e_lists E)" "heap_total (e_heap E)" "map_of (g_publications s) a = Some p"
    and "0 \<le> pu_payloadlen p" "nat (pu_payloadlen p) \<le> length (null_bytes (pu_payload p))"
  shows "\<exists>ps. own_payload E a s = Inr (True, s\<lparr>g_publications := ps\<rparr>) \<and>
    map_of ps = (map_of (g_publications s))(a \<mapsto>
      p\<lparr>pu_payload := Some (take (nat (pu_payloadlen p)) (null_bytes (pu_payload p)))\<rparr>) \<and>
    map fst ps = map fst (g_publications s)"
  using assms set_pub_eq [OF assms(1,3), of "p\<lparr>pu_payload :=
      Some (take (nat (pu_payloadlen p)) (null_bytes (pu_payload p)))\<rparr>"]
  by (auto simp: own_payload_def get_pub_eq memcpy_src_def)

lemma sockets_update [simp]:
  assumes "nh_socket (c_net (f (cs ! i))) = nh_socket (c_net (cs ! i))"
  shows "map (\<lambda>c. nh_socket (c_net c)) (cs[i := f (cs ! i)]) = map (\<lambda>c. nh_socket (c_net c)) cs"
  using assms by (cases "i < length cs") (auto simp: map_update list_update_same_conv list_update_beyond)

lemma bind_upd [simp]: "x \<noteq> Some a \<Longrightarrow> Option.bind x (M(a := y)) = Option.bind x M"
  by (cases x) auto

lemma sockets_inbound [simp]:
  "map (\<lambda>c. nh_socket (c_net c)) (cs[i := (cs ! i)\<lparr>c_inboundMsgs := l\<rparr>]) = map (\<lambda>c. nh_socket (c_net c)) cs"
  by (rule sockets_update [where f = "\<lambda>c. c\<lparr>c_inboundMsgs := l\<rparr>"]) simp

lemma pubs_ok_fst:
  "pubs_ok s \<longleftrightarrow> distinct (map fst (g_publications s)) \<and> (\<forall>a\<in>set (map fst (g_publications s)). a < g_fresh s)"
  by (simp add: pubs_ok_def)

text \<open>Storing a new message keeps the invariant and is the step of the machine.\<close>

lemma receiver_put:
  assumes "receiver_inv E sock i s" "inb = c_inboundMsgs (g_clients s ! i)" "M = map_of (g_publications s)"
    and "g_clients s3 = (g_clients s)[i := (g_clients s ! i)\<lparr>c_inboundMsgs :=
      (if k < length inb then inb[k := m] else inb @ [m])\<rparr>]"
    and "pubs_ok s3" "M' = map_of (g_publications s3)" "held_ok M' m" "ms_publish m = Some a"
    and "\<And>x. x \<in> set inb \<Longrightarrow> ms_publish x \<noteq> Some a"
    and "\<And>x. x \<in> set inb \<Longrightarrow> (k < length inb \<Longrightarrow> x \<noteq> inb ! k) \<Longrightarrow>
      Option.bind (ms_publish x) M' = Option.bind (ms_publish x) M"
    and "if k < length inb then ms_msgid (inb ! k) = ms_msgid m else ms_msgid m \<notin> set (map ms_msgid inb)"
  shows "receiver_inv E sock i s3 \<and> view i s3 = a_publish (msg_item M' m) (view i s)"
proof -
  from assms(1) have inv: "i < length (g_clients s)" "distinct (map ms_msgid inb)" "distinct (map ms_publish inb)"
    "\<forall>x\<in>set inb. held_ok M x"
    by (simp_all add: receiver_inv_def assms(2,3))
  have cl: "c_inboundMsgs (g_clients s3 ! i) = (if k < length inb then inb[k := m] else inb @ [m])"
    "c_messageQueue (g_clients s3 ! i) = c_messageQueue (g_clients s ! i)"
    "c_persistence (g_clients s3 ! i) = c_persistence (g_clients s ! i)"
    "length (g_clients s3) = length (g_clients s)"
    "map (\<lambda>c. nh_socket (c_net c)) (g_clients s3) = map (\<lambda>c. nh_socket (c_net c)) (g_clients s)"
    using inv(1) by (simp_all add: assms(4))
  have hx: "held_ok M' x \<and> msg_item M' x = msg_item M x"
    if "x \<in> set inb" "k < length inb \<Longrightarrow> x \<noteq> inb ! k" for x
    using held_ok_cong [OF _ assms(10) [OF that]] msg_item_cong [OF assms(10) [OF that]] inv(4) that(1) by blast
  show ?thesis
  proof (cases "k < length inb")
    case True
    have d1: "map ms_msgid (inb[k := m]) = map ms_msgid inb"
      using True assms(11) by (simp add: map_update list_update_same_conv)
    have "Some a \<notin> set (map ms_publish inb)" using assms(9) by (auto simp: image_iff dest: sym)
    then have d2: "distinct (map ms_publish (inb[k := m]))"
      using inv(3) by (simp add: map_update assms(8) distinct_list_update)
    have hall: "\<forall>x\<in>set (inb[k := m]). held_ok M' x"
    proof
      fix x assume "x \<in> set (inb[k := m])"
      then obtain j where j: "j < length inb" "x = (if j = k then m else inb ! j)"
        by (auto simp: in_set_conv_nth nth_list_update split: if_splits)
      show "held_ok M' x"
      proof (cases "j = k")
        case False
        have "distinct inb" using inv(2) by (simp add: distinct_map)
        with False j True have "inb ! j \<noteq> inb ! k" by (simp add: nth_eq_iff_index_eq)
        with hx [of x] j False show ?thesis by simp
      qed (use assms(7) j(2) in simp)
    qed
    have "map (msg_item M') (inb[k := m]) =
        map (\<lambda>y. if fst y = ms_msgid m then msg_item M' m else y) (map (msg_item M) inb)"
      by (rule item_update [OF inv(2) True]) (use True assms(11) hx in simp_all)
    moreover have "ms_msgid m \<in> fst ` set (map (msg_item M) inb)"
    proof -
      have "ms_msgid (inb ! k) = ms_msgid m" using True assms(11) by simp
      then have "ms_msgid m = fst (msg_item M (inb ! k))" by simp
      then show ?thesis using nth_mem [OF True] by (metis image_eqI image_set)
    qed
    ultimately have "view i s3 = a_publish (msg_item M' m) (view i s)"
      unfolding view_def cl assms(2,3,6) [symmetric] using True by (simp add: a_publish_def)
    with True d1 d2 hall assms(1,5) inv show ?thesis
      unfolding receiver_inv_def cl assms(2,3,6) [symmetric] by simp
  next
    case False
    have new: "ms_msgid m \<notin> set (map ms_msgid inb)" using assms(11) False by simp
    have items: "map (msg_item M') inb = map (msg_item M) inb" using hx False by simp
    have "ms_msgid m \<notin> fst ` set (map (msg_item M) inb)" using new by (auto simp: image_iff)
    then have "view i s3 = a_publish (msg_item M' m) (view i s)"
      unfolding view_def cl assms(2,3,6) [symmetric] using False items by (simp add: a_publish_def)
    moreover have "\<forall>x\<in>set (inb @ [m]). held_ok M' x" using hx False assms(7) by auto
    moreover have "Some a \<notin> set (map ms_publish inb)" using assms(9) by (auto simp: image_iff dest: sym)
    ultimately show ?thesis
      using False new assms(1,5,8) inv unfolding receiver_inv_def cl assms(2,3,6) [symmetric] by simp
  qed
qed

lemma handle_publish_qos2_v3:
  assumes "lists_ok (e_lists E)" "heap_total (e_heap E)" "receiver_inv E sock i s" "publish_qos2 p"
  shows "\<exists>rc p' s'. handle_publish_qos2 E i pending p s = Inr (rc, p', s') \<and> pb_MQTTVersion p' < 5 \<and>
    receiver_inv E sock i s' \<and> view i s' = a_publish (publish_item p) (view i s) \<and> recd_only i s s'"
proof -
  define inb where "inb = c_inboundMsgs (g_clients s ! i)"
  define M where "M = map_of (g_publications s)"
  define a where "a = g_fresh s"
  from assms(3) have inv: "i < length (g_clients s)" "pubs_ok s" "distinct (map ms_msgid inb)"
    "distinct (map ms_publish inb)" "\<forall>m\<in>set inb. held_ok M m"
    by (simp_all add: receiver_inv_def inb_def M_def)
  from assms(4) obtain t where p: "pb_topic p = Some t" "hd_qos (pb_header p) = 2" "pb_MQTTVersion p < 5"
    "0 \<le> pb_payloadlen p" "nat (pb_payloadlen p) \<le> length (pb_payload p)" by (auto simp: publish_qos2_def)
  define P where "P = \<lparr>pu_topic = Some t, pu_topiclen = pb_topiclen p, pu_payload = Some (pb_payload p),
    pu_payloadlen = pb_payloadlen p, pu_refcount = 1, pu_mask = pb_mask p\<rparr>"
  define p1 where "p1 = p\<lparr>pb_topic := None, pb_payload := []\<rparr>"
  define s1 where "s1 = s\<lparr>g_publications := g_publications s @ [(a, P)], g_fresh := a + 1\<rparr>"
  define m where "m = \<lparr>ms_qos = 2, ms_retain = int (hd_retain (pb_header p)), ms_msgid = pb_msgId p,
    ms_MQTTVersion = pb_MQTTVersion p, ms_properties = None, ms_publish = Some a,
    ms_lastTouch = START_TIME_ZERO, ms_nextMessageType = Some PUBREL\<rparr>"
  have Ma: "M a = None" using pubs_okD [OF inv(2)] by (simp add: M_def a_def)
  have st: "MQTTProtocol_storePublication E p s = Inr (Some a, p1, s1)"
    using assms(1,2) p(1) by (simp add: MQTTProtocol_storePublication_def lists_ok_def list_libD Let_def
        P_def p1_def s1_def a_def)
  have im: "inbound_message E p1 (Some a) = Inr m"
    using p by (simp add: inbound_message_def version_defs m_def p1_def)
  have M1: "map_of (g_publications s1) = M(a \<mapsto> P)"
    using Ma by (auto simp: s1_def M_def map_add_def fun_eq_iff split: option.split)
  have ok1: "pubs_ok s1"
    using inv(2) by (auto simp: pubs_ok_def s1_def a_def less_Suc_eq)
  have keep: "ms_publish x \<noteq> Some a \<and> held_ok M x" if "x \<in> set inb" for x
  proof -
    from inv(5) that have h: "held_ok M x" by blast
    then obtain b where "ms_publish x = Some b" "M b \<noteq> None" by (auto simp: held_ok_def)
    with h Ma show ?thesis by auto
  qed
  have held1: "\<forall>x\<in>set inb. held_ok (map_of (g_publications s1)) x"
  proof
    fix x assume "x \<in> set inb"
    from keep [OF this] have k: "ms_publish x \<noteq> Some a" "held_ok M x" by simp_all
    from held_ok_cong [OF k(2) bind_upd [OF k(1)]] show "held_ok (map_of (g_publications s1)) x"
      unfolding M1 .
  qed
  have i1: "i < length (g_clients s1)" "inb = c_inboundMsgs (g_clients s1 ! i)" using inv(1) by (simp_all add: s1_def inb_def)
  have mid: "ms_msgid m = pb_msgId p" by (simp add: m_def)
  from store_inbound_eq [OF assms(1) ok1 i1 held1 mid] obtain k ps where
    si: "store_inbound E i m s1 = Inr (k, k < length inb, s1\<lparr>g_publications := ps, g_clients := (g_clients s1)
      [i := (g_clients s1 ! i)\<lparr>c_inboundMsgs := (if k < length inb then inb[k := m] else inb @ [m])\<rparr>]\<rparr>)"
      (is "_ = Inr (_, _, ?s2)")
    and k: "k \<le> length inb" "pubs_ok (s1\<lparr>g_publications := ps\<rparr>)"
      "if k < length inb then ms_msgid (inb ! k) = pb_msgId p \<and>
         map_of ps = (map_of (g_publications s1))(the (ms_publish (inb ! k)) := None)
       else pb_msgId p \<notin> set (map ms_msgid inb) \<and> ps = g_publications s1"
    by blast
  have psa: "map_of ps a = Some P"
  proof (cases "k < length inb")
    case True
    then obtain b where "ms_publish (inb ! k) = Some b" "b \<noteq> a" using keep [of "inb ! k"] nth_mem [OF True] by (auto simp: held_ok_def)
    with True k(3) M1 show ?thesis by simp
  qed (use k(3) M1 in simp)
  then have psa2: "map_of (g_publications ?s2) a = Some P" by simp
  have P: "pu_payloadlen P = pb_payloadlen p" "null_bytes (pu_payload P) = pb_payload p"
    by (simp_all add: P_def null_bytes_def)
  from own_payload_eq [OF assms(1,2) psa2, unfolded P, OF p(4,5)] obtain qs where
    ow: "own_payload E a ?s2 = Inr (True, ?s2\<lparr>g_publications := qs\<rparr>)"
    and qs0: "map_of qs = (map_of (g_publications ?s2))(a \<mapsto> P\<lparr>pu_payload := Some (take (nat (pb_payloadlen p)) (pb_payload p))\<rparr>)"
      "map fst qs = map fst (g_publications ?s2)"
    by blast
  then have qs: "map_of qs = (map_of ps)(a \<mapsto> P\<lparr>pu_payload := Some (take (nat (pb_payloadlen p)) (pb_payload p))\<rparr>)"
      "map fst qs = map fst ps" by simp_all
  let ?s3 = "?s2\<lparr>g_publications := qs\<rparr>"
  obtain rc s' where an: "answer E pending (pb_MQTTVersion p1) PUBREC (pb_msgId p1) i ?s3 = Inr (rc, s')"
    "similar ?s3 s'" using answer_similar [OF assms(2), of PUBREC pending "pb_MQTTVersion p1" "pb_msgId p1" i ?s3] by auto
  have run: "handle_publish_qos2 E i pending p s = Inr (rc, p1\<lparr>pb_topic := None\<rparr>, s')"
    using assms(2) st im si ow an(1) p(3) by (simp add: handle_publish_qos2_with_def m_def version_defs)
  have eqs: "Option.bind (ms_publish x) (map_of qs) = Option.bind (ms_publish x) M"
    if "x \<in> set inb" "k < length inb \<Longrightarrow> x \<noteq> inb ! k" for x
  proof -
    have "ms_publish x \<noteq> Some a" using keep that(1) by blast
    then have 1: "Option.bind (ms_publish x) (map_of qs) = Option.bind (ms_publish x) (map_of ps)"
      unfolding qs by (rule bind_upd)
    show ?thesis
    proof (cases "k < length inb")
      case True
      have "inj_on ms_publish (set inb)" using inv(4) by (simp add: distinct_map)
      with that True have "ms_publish x \<noteq> ms_publish (inb ! k)" by (metis inj_onD nth_mem)
      moreover obtain b where "ms_publish (inb ! k) = Some b"
        using inv(5) nth_mem [OF True] by (auto simp: held_ok_def)
      ultimately have "ms_publish x \<noteq> Some (the (ms_publish (inb ! k)))" by simp
      with 1 True k(3) M1 \<open>ms_publish x \<noteq> Some a\<close> show ?thesis by simp
    qed (use 1 k(3) M1 \<open>ms_publish x \<noteq> Some a\<close> in simp)
  qed
  have qa: "map_of qs a = Some (P\<lparr>pu_payload := Some (take (nat (pb_payloadlen p)) (pb_payload p))\<rparr>)"
    using qs(1) by simp
  have hm: "held_ok (map_of qs) m" "msg_item (map_of qs) m = publish_item p"
    using qa p by (simp_all add: held_ok_def msg_item_def m_def P_def publish_item_def null_bytes_def)
  have po: "pubs_ok ?s3" using k(2) qs(2) by (simp add: pubs_ok_fst)
  have kk: "if k < length inb then ms_msgid (inb ! k) = ms_msgid m else ms_msgid m \<notin> set (map ms_msgid inb)"
    using k(3) unfolding mid by (cases "k < length inb") simp_all
  have inv3: "receiver_inv E sock i ?s3 \<and> view i ?s3 = a_publish (publish_item p) (view i s)"
    unfolding hm(2) [symmetric]
    by (rule receiver_put [OF assms(3) inb_def M_def _ po _ hm(1) _ _ _ kk, where a = a])
      (use keep eqs in \<open>simp_all add: s1_def m_def\<close>)
  have mv: "recd_only i s ?s3"
  proof -
    have "map_of qs b = M b" if "b < g_fresh s" "Some b \<notin> ms_publish ` set inb" for b
    proof -
      have "b \<noteq> a" using that(1) by (simp add: a_def)
      moreover have "ms_publish (inb ! k) \<noteq> Some b" if "k < length inb"
        using other_address [OF \<open>Some b \<notin> _\<close> nth_mem [OF that]] .
      moreover have "ms_publish (inb ! k) \<noteq> None" if "k < length inb"
        using inv(5) nth_mem [OF that] by (auto simp: held_ok_def)
      ultimately have "the (ms_publish (inb ! k)) \<noteq> b" if "k < length inb" using that by fastforce
      then show ?thesis using k(3) \<open>b \<noteq> a\<close> unfolding qs(1) M1 by (cases "k < length inb") (auto simp: M1)
    qed
    moreover have "ms_publish ` set (if k < length inb then inb[k := m] else inb @ [m]) \<subseteq>
        ms_publish ` set inb \<union> {x. \<forall>b<g_fresh s. x \<noteq> Some b}"
      using set_update_subset_insert [of inb k m] by (auto simp: m_def a_def)
    ultimately show ?thesis using inv(1)
      by (simp add: moved_def s1_def blank_received_def strip_def M_def a_def flip: inb_def)
  qed
  have "i < length (g_clients ?s3)" using inv(1) by (simp add: s1_def)
  from moved_similar [OF mv an(2) this] have "recd_only i s s'" .
  with run receiver_similar [OF an(2)] inv3 p(3) show ?thesis by (auto simp: p1_def)
qed

lemma remove_nth_filter:
  "distinct (map f xs) \<Longrightarrow> k < length xs \<Longrightarrow> take k xs @ drop (Suc k) xs = filter (\<lambda>x. f x \<noteq> f (xs ! k)) xs"
proof (induction xs arbitrary: k)
  case (Cons x xs)
  show ?case
  proof (cases k)
    case 0
    have "\<forall>y\<in>set xs. f y \<noteq> f x" using Cons.prems(1) by (auto simp: image_iff)
    then have "filter (\<lambda>y. f y \<noteq> f x) xs = xs" by simp
    with 0 show ?thesis by simp
  next
    case (Suc j)
    with Cons.prems have j: "j < length xs" "f x \<noteq> f (xs ! j)" by auto
    with Cons.IH [OF _ j(1)] Cons.prems(1) Suc show ?thesis by simp
  qed
qed simp

lemma filter_nth_single:
  "distinct (map f xs) \<Longrightarrow> k < length xs \<Longrightarrow> filter (\<lambda>x. f x = f (xs ! k)) xs = [xs ! k]"
proof (induction xs arbitrary: k)
  case (Cons x xs)
  then show ?case by (cases k) (auto simp: filter_empty_conv dest: sym)
qed simp

text \<open>Delivering a held message keeps the invariant and is the step of the machine.\<close>

lemma receiver_release:
  assumes "receiver_inv E sock i s" "inb = c_inboundMsgs (g_clients s ! i)" "M = map_of (g_publications s)"
    and "k < length inb" "ms_publish (inb ! k) = Some a"
    and "g_clients s3 = (g_clients s)[i := (g_clients s ! i)\<lparr>c_messageQueue := c_messageQueue (g_clients s ! i) @ [qe],
      c_inboundMsgs := take k inb @ drop (Suc k) inb\<rparr>]"
    and "pubs_ok s3" "map_of (g_publications s3) = M(a := None)" "entry_item qe = msg_item M (inb ! k)"
  shows "receiver_inv E sock i s3 \<and> view i s3 = a_pubrel (ms_msgid (inb ! k)) (view i s)"
proof -
  from assms(1) have inv: "i < length (g_clients s)" "distinct (map ms_msgid inb)" "distinct (map ms_publish inb)"
    "\<forall>x\<in>set inb. held_ok M x"
    by (simp_all add: receiver_inv_def assms(2,3))
  let ?rest = "filter (\<lambda>x. ms_msgid x \<noteq> ms_msgid (inb ! k)) inb"
  have rest: "take k inb @ drop (Suc k) inb = ?rest" "take k inb @ drop (Suc k) inb =
      filter (\<lambda>x. ms_publish x \<noteq> ms_publish (inb ! k)) inb"
    using remove_nth_filter [OF inv(2) assms(4)] remove_nth_filter [OF inv(3) assms(4)] by simp_all
  then have other: "ms_publish x \<noteq> Some a" if "x \<in> set ?rest" for x
    proof -
    have "x \<in> set (filter (\<lambda>x. ms_publish x \<noteq> ms_publish (inb ! k)) inb)" using that rest by simp
    with assms(5) show ?thesis by auto
  qed
  have cl: "c_inboundMsgs (g_clients s3 ! i) = ?rest"
    "c_messageQueue (g_clients s3 ! i) = c_messageQueue (g_clients s ! i) @ [qe]"
    "c_persistence (g_clients s3 ! i) = c_persistence (g_clients s ! i)"
    "length (g_clients s3) = length (g_clients s)"
    using inv(1) rest(1) by (simp_all add: assms(6))
  have so: "map (\<lambda>c. nh_socket (c_net c)) (g_clients s3) = map (\<lambda>c. nh_socket (c_net c)) (g_clients s)"
    unfolding assms(6) by (rule sockets_update [where f = "\<lambda>c. c\<lparr>c_messageQueue := c_messageQueue (g_clients s ! i) @ [qe],
      c_inboundMsgs := take k inb @ drop (Suc k) inb\<rparr>"]) simp
  have hx: "held_ok (M(a := None)) x \<and> msg_item (M(a := None)) x = msg_item M x" if "x \<in> set ?rest" for x
    using held_ok_cong [OF _ bind_upd [OF other [OF that]]] msg_item_cong [OF bind_upd [OF other [OF that]]]
      inv(4) that by auto
  have f1: "map (msg_item (M(a := None))) ?rest = filter (\<lambda>y. fst y \<noteq> ms_msgid (inb ! k)) (map (msg_item M) inb)"
  proof -
    have "map (msg_item (M(a := None))) ?rest = map (msg_item M) ?rest" using hx by simp
    then show ?thesis by (simp add: filter_map o_def)
  qed
  have f2: "filter (\<lambda>y. fst y = ms_msgid (inb ! k)) (map (msg_item M) inb) = [msg_item M (inb ! k)]"
    by (simp add: filter_map o_def filter_nth_single [OF inv(2) assms(4)])
  have "view i s3 = a_pubrel (ms_msgid (inb ! k)) (view i s)"
    unfolding view_def cl assms(8) assms(2,3) [symmetric] by (simp add: a_pubrel_def f1 f2 assms(9))
  moreover have "receiver_inv E sock i s3"
    unfolding receiver_inv_def cl so assms(8) using assms(1,7) inv hx
    by (simp add: receiver_inv_def distinct_map_filter)
  ultimately show ?thesis by simp
qed

definition pubrel_v3 :: "Ack \<Rightarrow> bool" where
  "pubrel_v3 ack \<longleftrightarrow> ak_MQTTVersion ack < 5 \<and> ak_msgId ack \<noteq> None"

lemma deliver_inbound_eq:
  assumes "lists_ok (e_lists E)" "heap_total (e_heap E)" "receiver_inv E sock i s"
    and "inb = c_inboundMsgs (g_clients s ! i)" "k < length inb"
  shows "\<exists>s'. deliver_inbound E i k (inb ! k) msgId s = Inr (0, s') \<and> receiver_inv E sock i s' \<and>
    view i s' = a_pubrel (ms_msgid (inb ! k)) (view i s) \<and> recd_only i s s'"
proof -
  define M where "M = map_of (g_publications s)"
  from assms(3) have inv: "i < length (g_clients s)" "pubs_ok s" "\<forall>m\<in>set inb. held_ok M m"
    "c_persistence (g_clients s ! i) = None"
    by (simp_all add: receiver_inv_def assms(4) M_def)
  define m where "m = inb ! k"
  have "held_ok M m" using inv(3) nth_mem [OF assms(5)] by (simp add: m_def)
  then obtain a p t d where m: "ms_publish m = Some a" "M a = Some p" "pu_topic p = Some t" "pu_payload p = Some d"
    "pu_payloadlen p = int (length d)" "ms_MQTTVersion m < 5" by (auto simp: held_ok_def)
  define qe where "qe = \<lparr>qe_msg = \<lparr>pm_struct_version = 1, pm_payloadlen = int (length d), pm_payload = d,
      pm_qos = int (hd_qos (pb_header (publish_of m (Some p)))),
      pm_retained = int (hd_retain (pb_header (publish_of m (Some p)))),
      pm_dup = (if hd_qos (pb_header (publish_of m (Some p))) = 2 then 0
        else int (hd_dup (pb_header (publish_of m (Some p))))),
      pm_msgid = ms_msgid m, pm_properties = MQTTProperties_initializer\<rparr>,
    qe_topicName = t, qe_topicLen = pu_topiclen p, qe_seqno = 0\<rparr>"
  define s1 where "s1 = upd_client i (\<lambda>c. c\<lparr>c_messageQueue := c_messageQueue c @ [qe]\<rparr>) s"
  have pp: "\<exists>q. Protocol_processPublication E (publish_of m (Some p)) i False s = Inr (q, s1)"
    using assms(1,2) inv(1,4) m
    by (simp add: Protocol_processPublication_def publish_of_def null_bytes_def upd_client_def
        lists_ok_def list_libD qe_def s1_def Let_def)
  have "pubs_ok s1" using inv(2) by (simp add: s1_def upd_client_def pubs_ok_def)
  then have "distinct (map fst (g_publications s1))" by (simp add: pubs_ok_def)
  from drop_pub_eq [OF assms(1) this, of a] obtain ps where
    ps: "drop_pub E a s1 = s1\<lparr>g_publications := ps\<rparr>" "map_of ps = M(a := None)" "distinct (map fst ps)"
      "set ps \<subseteq> set (g_publications s)"
    by (auto simp: s1_def upd_client_def M_def)
  define s3 where "s3 = s1\<lparr>g_publications := ps, g_clients := (g_clients s)[i := (g_clients s ! i)
      \<lparr>c_messageQueue := c_messageQueue (g_clients s ! i) @ [qe], c_inboundMsgs := take k inb @ drop (Suc k) inb\<rparr>],
      g_msgs_received := g_msgs_received s + 1\<rparr>"
  have l: "list_lib_ok (l_msgs (e_lists E))" using assms(1) by (simp add: lists_ok_def)
  have run: "deliver_inbound E i k m msgId s = Inr (0, s3)"
    using pp m ps(1) inv(1,4) assms(1,4,5) list_libD(5) [OF l assms(5)]
    by (auto simp: deliver_inbound_with_def get_pub_eq M_def [symmetric] version_defs MQTTPersistence_remove_def
        free_props_def s3_def s1_def upd_client_def Let_def)
  have po: "pubs_ok s3" using inv(2) ps(3,4) by (auto simp: pubs_ok_def s3_def s1_def upd_client_def)
  have "receiver_inv E sock i s3 \<and> view i s3 = a_pubrel (ms_msgid (inb ! k)) (view i s)"
  proof (rule receiver_release [OF assms(3,4) M_def assms(5) m(1) [unfolded m_def] _ po])
    show "entry_item qe = msg_item M (inb ! k)"
      using m by (simp add: entry_item_def msg_item_def qe_def null_bytes_def flip: m_def)
  qed (simp_all add: s3_def ps(2))
  moreover have "recd_only i s s3"
    using inv(1) m(1) other_address [OF _ nth_mem [OF assms(5)]] set_take_subset [of k inb] set_drop_subset [of "Suc k" inb]
    by (auto simp: moved_def s3_def s1_def upd_client_def blank_received_def strip_def ps(2) m_def M_def assms(4))
  ultimately show ?thesis using run unfolding m_def by blast
qed

lemma handle_pubrel_v3:
  assumes "lists_ok (e_lists E)" "heap_total (e_heap E)" "receiver_inv E sock i s" "pubrel_v3 ack"
  shows "\<exists>rc s'. MQTTProtocol_handlePubrels E ack sock s = Inr (rc, s') \<and> receiver_inv E sock i s' \<and>
    view i s' = a_pubrel (the (ak_msgId ack)) (view i s) \<and> recd_only i s s'"
proof -
  define inb where "inb = c_inboundMsgs (g_clients s ! i)"
  from assms(4) obtain msgId where ack: "ak_msgId ack = Some msgId" "ak_MQTTVersion ack < 5"
    by (auto simp: pubrel_v3_def)
  have l: "list_lib_ok (l_msgs (e_lists E))" using assms(1) by (simp add: lists_ok_def)
  have mid: "\<exists>r s1. (case find_index (messageIDCompare msgId) inb of
      None \<Rightarrow> Inr (TCPSOCKET_COMPLETE, s)
    | Some k \<Rightarrow> let m = inb ! k in if ms_qos m \<noteq> 2 then Inr (TCPSOCKET_COMPLETE, s)
        else ub_bind (next_type m) (\<lambda>next. if next \<noteq> PUBREL then Inr (TCPSOCKET_COMPLETE, s)
          else deliver_inbound E i k m msgId s)) = Inr (r, s1) \<and>
    receiver_inv E sock i s1 \<and> view i s1 = a_pubrel msgId (view i s) \<and> recd_only i s s1"
  proof (cases "find_index (messageIDCompare msgId) inb")
    case None
    then have "\<forall>x\<in>set inb. ms_msgid x \<noteq> msgId" by (auto simp: find_index_None messageIDCompare_def)
    then have "a_pubrel msgId (view i s) = view i s"
      by (simp add: a_pubrel_def view_def filter_map o_def flip: inb_def)
    with None assms(3) show ?thesis by simp
  next
    case (Some k)
    from find_index_Some [OF this] have k: "k < length inb" "ms_msgid (inb ! k) = msgId"
      by (auto simp: messageIDCompare_def)
    then have "held_ok (map_of (g_publications s)) (inb ! k)"
      using assms(3) by (simp add: receiver_inv_def inb_def)
    then have "ms_qos (inb ! k) = 2" "next_type (inb ! k) = Inr PUBREL" by (auto simp: held_ok_def next_type_def)
    with Some deliver_inbound_eq [OF assms(1-3) inb_def k(1), of msgId] k(2) show ?thesis by auto
  qed
  then obtain r s1 where s1: "(case find_index (messageIDCompare msgId) inb of
      None \<Rightarrow> Inr (TCPSOCKET_COMPLETE, s)
    | Some k \<Rightarrow> let m = inb ! k in if ms_qos m \<noteq> 2 then Inr (TCPSOCKET_COMPLETE, s)
        else ub_bind (next_type m) (\<lambda>next. if next \<noteq> PUBREL then Inr (TCPSOCKET_COMPLETE, s)
          else deliver_inbound E i k m msgId s)) = Inr (r, s1)"
    "receiver_inv E sock i s1" "view i s1 = a_pubrel msgId (view i s)" "recd_only i s s1" by blast
  obtain rc s' where an: "answer E (\<not> Socket_noPendingWrites (e_net E) sock (g_net s1)) (ak_MQTTVersion ack)
      PUBCOMP msgId i s1 = Inr (rc, s')" "similar s1 s'"
    using answer_similar [OF assms(2), of PUBCOMP] by blast
  have "MQTTProtocol_handlePubrels E ack sock s = Inr (rc, s')"
    using receiver_find [OF assms(1,3)] ack s1(1) [unfolded inb_def] an(1)
    by (simp add: MQTTProtocol_handlePubrels_with_def ack_id_def list_lib_find_index [OF l] free_props_def
        version_defs)
  moreover have "i < length (g_clients s1)" using s1(2) by (simp add: receiver_inv_def)
  ultimately show ?thesis using receiver_similar [OF an(2) s1(2)] s1(3) ack(1) moved_similar [OF s1(4) an(2)] by auto
qed

subsection \<open>Runs of the receiver\<close>

datatype event = Received Publish | Released Ack

fun event_step :: "('n, 'f) env \<Rightarrow> int \<Rightarrow> event \<Rightarrow> ('n, 'f, 'z) sys_scheme \<Rightarrow> ub + ('n, 'f, 'z) sys_scheme" where
  "event_step E sock (Received p) s = ub_bind (MQTTProtocol_handlePublishes E p sock s) (\<lambda>(_, s). Inr s)"
| "event_step E sock (Released ack) s = ub_bind (MQTTProtocol_handlePubrels E ack sock s) (\<lambda>(_, s). Inr s)"

fun run_events :: "('n, 'f) env \<Rightarrow> int \<Rightarrow> event list \<Rightarrow> ('n, 'f, 'z) sys_scheme \<Rightarrow> ub + ('n, 'f, 'z) sys_scheme" where
  "run_events E sock [] s = Inr s"
| "run_events E sock (e # es) s = ub_bind (event_step E sock e s) (run_events E sock es)"

fun event_ok :: "event \<Rightarrow> bool" where
  "event_ok (Received p) \<longleftrightarrow> publish_qos2 p"
| "event_ok (Released ack) \<longleftrightarrow> pubrel_v3 ack"

fun a_event :: "event \<Rightarrow> item list \<times> item list \<Rightarrow> item list \<times> item list" where
  "a_event (Received p) = a_publish (publish_item p)"
| "a_event (Released ack) = a_pubrel (the (ak_msgId ack))"

lemma event_step_refines:
  assumes "lists_ok (e_lists E)" "heap_total (e_heap E)" "receiver_inv E sock i s" "event_ok e"
  shows "\<exists>s'. event_step E sock e s = Inr s' \<and> receiver_inv E sock i s' \<and> view i s' = a_event e (view i s)"
proof (cases e)
  case (Received p)
  with assms(4) have p: "publish_qos2 p" by simp
  from handle_publish_qos2_v3 [OF assms(1-3) p, of "\<not> Socket_noPendingWrites (e_net E) sock (g_net s)"]
  obtain rc p' s' where "handle_publish_qos2 E i (\<not> Socket_noPendingWrites (e_net E) sock (g_net s)) p s = Inr (rc, p', s')"
    "pb_MQTTVersion p' < 5" "receiver_inv E sock i s'" "view i s' = a_publish (publish_item p) (view i s)" by blast
  moreover have "hd_qos (pb_header p) = 2" using p by (simp add: publish_qos2_def)
  ultimately show ?thesis using Received receiver_find [OF assms(1,3)]
    by (simp add: MQTTProtocol_handlePublishes_with_def MQTTPacket_freePublish_def free_props_def version_defs)
next
  case (Released ack)
  with handle_pubrel_v3 [OF assms(1-3), of ack] assms(4) show ?thesis by auto
qed

lemma run_events_refines:
  assumes "lists_ok (e_lists E)" "heap_total (e_heap E)"
  shows "receiver_inv E sock i s \<Longrightarrow> \<forall>e\<in>set es. event_ok e \<Longrightarrow>
    \<exists>s'. run_events E sock es s = Inr s' \<and> receiver_inv E sock i s' \<and> view i s' = fold a_event es (view i s)"
proof (induction es arbitrary: s)
  case (Cons e es)
  then have "event_ok e" by simp
  from event_step_refines [OF assms Cons.prems(1) this] obtain s1 where
    "event_step E sock e s = Inr s1" "receiver_inv E sock i s1" "view i s1 = a_event e (view i s)" by blast
  with Cons.IH [of s1] Cons.prems(2) show ?case by auto
qed simp

text \<open>What the machine does with one id: its held messages and its deliveries.\<close>

definition of_id :: "int \<Rightarrow> item list \<Rightarrow> item list" where
  "of_id x = filter (\<lambda>y. fst y = x)"

lemma a_publish_of_id:
  "of_id x (fst (a_publish y st)) = (if fst y = x then if of_id x (fst st) = [] then [y]
     else map (\<lambda>_. y) (of_id x (fst st)) else of_id x (fst st))"
  "snd (a_publish y st) = snd st"
proof -
  have m: "of_id x (map (\<lambda>z. if fst z = fst y then y else z) l) =
      (if fst y = x then map (\<lambda>_. y) (of_id x l) else of_id x l)" for l
    by (induction l) (auto simp: of_id_def)
  have e: "of_id z l = [] \<longleftrightarrow> z \<notin> fst ` set l" for z l
    by (auto simp: of_id_def filter_empty_conv)
  show "of_id x (fst (a_publish y st)) = (if fst y = x then if of_id x (fst st) = [] then [y]
     else map (\<lambda>_. y) (of_id x (fst st)) else of_id x (fst st))"
  proof (cases st)
    case (Pair held del)
    have a: "of_id x (held @ [y]) = of_id x held @ (if fst y = x then [y] else [])" by (simp add: of_id_def)
    show ?thesis
    proof (cases "fst y \<in> fst ` set held")
      case True
      with e [of "fst y" held] m [of held] show ?thesis by (auto simp: Pair a_publish_def)
    next
      case False
      with e [of "fst y" held] show ?thesis by (auto simp: Pair a_publish_def a)
    qed
  qed
  show "snd (a_publish y st) = snd st" by (simp add: a_publish_def split: prod.split)
qed

lemma a_pubrel_of_id:
  "of_id x (fst (a_pubrel y st)) = (if y = x then [] else of_id x (fst st))"
  "of_id x (snd (a_pubrel y st)) = of_id x (snd st) @ (if y = x then of_id x (fst st) else [])"
  by (cases st; auto simp: a_pubrel_def of_id_def filter_empty_conv intro: filter_cong)+

lemma fold_received:
  "\<forall>e\<in>set es. (case e of Received p \<Rightarrow> pb_msgId p = fst x \<longrightarrow> publish_item p = x
     | Released ack \<Rightarrow> the (ak_msgId ack) \<noteq> fst x) \<Longrightarrow>
   of_id (fst x) (fst st) \<in> {[], [x]} \<Longrightarrow>
   of_id (fst x) (snd (fold a_event es st)) = of_id (fst x) (snd st) \<and>
   of_id (fst x) (fst (fold a_event es st)) =
     (if \<exists>p. Received p \<in> set es \<and> pb_msgId p = fst x then [x] else of_id (fst x) (fst st))"
proof (induction es arbitrary: st)
  case (Cons e es)
  show ?case
  proof (cases e)
    case (Received p)
    have f: "fst (publish_item p) = pb_msgId p" by (simp add: publish_item_def)
    from Cons.prems Received f have "of_id (fst x) (fst (a_event e st)) = (if pb_msgId p = fst x then [x]
        else of_id (fst x) (fst st))" "of_id (fst x) (snd (a_event e st)) = of_id (fst x) (snd st)"
      by (auto simp: a_publish_of_id)
    with Cons.IH [of "a_event e st"] Cons.prems Received show ?thesis by auto
  next
    case (Released ack)
    with Cons.IH [of "a_event e st"] Cons.prems show ?thesis by (auto simp: a_pubrel_of_id)
  qed
qed simp

lemma fold_released:
  "\<forall>e\<in>set es. (case e of Received p \<Rightarrow> pb_msgId p \<noteq> x | Released ack \<Rightarrow> True) \<Longrightarrow>
   \<exists>ack. Released ack \<in> set es \<and> the (ak_msgId ack) = x \<Longrightarrow>
   of_id x (snd (fold a_event es st)) = of_id x (snd st) @ of_id x (fst st)"
proof (induction es arbitrary: st)
  case (Cons e es)
  have none: "\<forall>e\<in>set es. (case e of Received p \<Rightarrow> pb_msgId p \<noteq> x | Released ack \<Rightarrow> True) \<Longrightarrow>
      of_id x (fst st) = [] \<Longrightarrow> of_id x (snd (fold a_event es st)) = of_id x (snd st) \<and>
      of_id x (fst (fold a_event es st)) = []" for st
  proof (induction es arbitrary: st)
    case (Cons e es)
    then show ?case
      by (cases e) (auto simp: a_publish_of_id a_pubrel_of_id publish_item_def)
  qed simp
  show ?case
  proof (cases e)
    case (Received p)
    with Cons.IH [of "a_event e st"] Cons.prems show ?thesis
      by (auto simp: a_publish_of_id publish_item_def)
  next
    case (Released ack)
    show ?thesis
    proof (cases "the (ak_msgId ack) = x")
      case True
      with none [of "a_event e st"] Cons.prems(1) Released show ?thesis by (simp add: a_pubrel_of_id)
    next
      case False
      with Cons.IH [of "a_event e st"] Cons.prems Released show ?thesis by (auto simp: a_pubrel_of_id)
    qed
  qed
qed simp

subsection \<open>Claims\<close>

text \<open>
  C3: The receiving side of QoS 2 before version 5 refines the two-list machine. From any state in
  which the held messages are as the handlers leave them, every sequence of PUBLISH packets of
  QoS 2 and of PUBRELs is handled without undefined behaviour whatever the network does with the
  answers, keeps the invariant, and changes the held and the delivered messages as the machine
  does: a PUBLISH stores its message or replaces the held one with its id, a PUBREL delivers and
  removes the message it names.
\<close>

theorem qos2_receiver_refines:
  assumes "lists_ok (e_lists E)" "heap_total (e_heap E)" "receiver_inv E sock i s" "\<forall>e\<in>set es. event_ok e"
  shows "\<exists>s'. run_events E sock es s = Inr s' \<and> receiver_inv E sock i s' \<and> view i s' = fold a_event es (view i s)"
  using run_events_refines [OF assms] .

definition sample_qos2 :: Publish where
  "sample_qos2 = \<lparr>pb_header = 52, pb_topic = Some [116], pb_topiclen = 1, pb_msgId = 7, pb_payload = [104, 105],
     pb_payloadlen = 2, pb_MQTTVersion = 4, pb_properties = MQTTProperties_initializer, pb_mask = [0, 0, 0, 0]\<rparr>"

definition sample_pubrel :: Ack where
  "sample_pubrel = \<lparr>ak_header = 98, ak_msgId = Some 7, ak_rc = None, ak_MQTTVersion = 4, ak_properties = None\<rparr>"

lemma sample_events_ok: "publish_qos2 sample_qos2" "pubrel_v3 sample_pubrel" "pb_msgId sample_qos2 = 7"
  "publish_item sample_qos2 = (7, [116], [104, 105])" "ak_msgId sample_pubrel = Some 7"
  by (simp_all add: sample_qos2_def sample_pubrel_def publish_qos2_def pubrel_v3_def hd_unat publish_item_def)

lemma blank_receiver: "receiver_inv std_env 5 0 (blank_sys blank_client fs)"
  "view 0 (blank_sys blank_client fs) = ([], [])"
  by (simp_all add: receiver_inv_def pubs_ok_def view_def) (simp_all add: blank_client_def)

lemma std_env_ok: "lists_ok (e_lists std_env)" "heap_total (e_heap std_env)"
  by simp_all

theorem qos2_receiver_refines_witness:
  "\<exists>s'. run_events std_env 5 [Received sample_qos2, Released sample_pubrel] (blank_sys blank_client ()) = Inr s' \<and>
     view 0 s' = ([], [(7, [116], [104, 105])])"
  using qos2_receiver_refines [OF std_env_ok blank_receiver(1), of "[Received sample_qos2, Released sample_pubrel]" "()"]
  by (auto simp: sample_events_ok blank_receiver a_publish_def a_pubrel_def simp del: run_events.simps)

text \<open>
  C1: Exactly once. Take a message id that is not held. However often a PUBLISH of QoS 2 with that
  id arrives, all carrying the same message, and however often its PUBREL arrives afterwards,
  between any packets for other ids, the message is handed to the application exactly one time.
  Before version 5, with no persistence.
\<close>

theorem qos2_exactly_once:
  assumes "lists_ok (e_lists E)" "heap_total (e_heap E)" "receiver_inv E sock i s"
    and "\<forall>e\<in>set (es1 @ es2). event_ok e" "of_id (fst x) (fst (view i s)) = []"
    and "\<exists>p. Received p \<in> set es1 \<and> pb_msgId p = fst x"
    and "\<forall>e\<in>set es1. case e of Received p \<Rightarrow> pb_msgId p = fst x \<longrightarrow> publish_item p = x
      | Released ack \<Rightarrow> the (ak_msgId ack) \<noteq> fst x"
    and "\<exists>ack. Released ack \<in> set es2 \<and> the (ak_msgId ack) = fst x"
    and "\<forall>e\<in>set es2. case e of Received p \<Rightarrow> pb_msgId p \<noteq> fst x | Released ack \<Rightarrow> True"
  shows "\<exists>s'. run_events E sock (es1 @ es2) s = Inr s' \<and>
    of_id (fst x) (snd (view i s')) = of_id (fst x) (snd (view i s)) @ [x]"
proof -
  from run_events_refines [OF assms(1-4)] obtain s' where
    "run_events E sock (es1 @ es2) s = Inr s'" "view i s' = fold a_event (es1 @ es2) (view i s)" by blast
  with fold_received [OF assms(7), of "view i s"] assms(5,6)
    fold_released [OF assms(9,8), of "fold a_event es1 (view i s)"]
  show ?thesis by simp
qed

theorem qos2_exactly_once_witness:
  "\<exists>s'. run_events std_env 5 ([Received sample_qos2, Received sample_qos2] @
      [Released sample_pubrel, Released sample_pubrel]) (blank_sys blank_client ()) = Inr s' \<and>
     of_id 7 (snd (view 0 s')) = [(7, [116], [104, 105])]"
  using qos2_exactly_once [OF std_env_ok blank_receiver(1), of "[Received sample_qos2, Received sample_qos2]"
      "[Released sample_pubrel, Released sample_pubrel]" "(7, [116], [104, 105])" "()"]
  by (auto simp: sample_events_ok blank_receiver of_id_def simp del: run_events.simps)

end
