(* ===== verification/ProtocolOut.thy ===== *)
theory ProtocolOut
  imports Protocol
begin

section \<open>Outgoing connections: \<^verbatim>\<open>src/include/MQTTProtocolOut.c\<close>\<close>

text \<open>
  Opening a connection, with the parsing of addresses and proxy settings, and the handlers of the
  packets that answer what the client sent. The build is the one without SSL, for Linux. The
  constants of \<open>connect_state\<close> are those of \<^verbatim>\<open>Clients.h\<close>, which is not part of the sources.
\<close>

subsection \<open>Constants\<close>

definition MQTT_DEFAULT_PORT :: int where "MQTT_DEFAULT_PORT = 1883"
definition WS_DEFAULT_PORT :: int where "WS_DEFAULT_PORT = 80"
definition PROXY_DEFAULT_PORT :: int where "PROXY_DEFAULT_PORT = 8080"

definition TCP_IN_PROGRESS :: int where "TCP_IN_PROGRESS = 1"
definition WEBSOCKET_IN_PROGRESS :: int where "WEBSOCKET_IN_PROGRESS = 3"
definition WAIT_FOR_CONNACK :: int where "WAIT_FOR_CONNACK = 4"
definition PROXY_CONNECT_IN_PROGRESS :: int where "PROXY_CONNECT_IN_PROGRESS = 5"

definition EINPROGRESS :: int where "EINPROGRESS = 115"
definition EWOULDBLOCK :: int where "EWOULDBLOCK = 11"

subsection \<open>Addresses\<close>

text \<open>\<^verbatim>\<open>strchr\<close> and \<^verbatim>\<open>strrchr\<close> as positions in a string.\<close>

fun strchr :: "bytes \<Rightarrow> byte \<Rightarrow> nat option" where
  "strchr [] c = None"
| "strchr (x # xs) c = (if x = c then Some 0 else map_option Suc (strchr xs c))"

fun strrchr :: "bytes \<Rightarrow> byte \<Rightarrow> nat option" where
  "strrchr [] c = None"
| "strrchr (x # xs) c = (case strrchr xs c of Some i \<Rightarrow> Some (Suc i)
     | None \<Rightarrow> if x = c then Some 0 else None)"

text \<open>
  \<^verbatim>\<open>MQTTProtocol_addressPort\<close>: the length of the host, the port and the position of the topic part.
  The comparison of the position of the last colon with that of the last bracket is one of
  pointers, and NULL is the least; an empty string in front of a colon makes the last look before
  the string.
\<close>

definition MQTTProtocol_addressPort :: "bytes \<Rightarrow> int \<Rightarrow> ub + (nat \<times> int \<times> nat option)" where
  "MQTTProtocol_addressPort uri0 default_port =
     (let uri = c_str uri0;
          colon0 = strrchr uri 58;
          colon = (if uri \<noteq> [] \<and> hd uri = 91
                   then (case strrchr uri 93 of None \<Rightarrow> colon0
                     | Some b \<Rightarrow> (case colon0 of None \<Rightarrow> None | Some c \<Rightarrow> if c < b then None else Some c))
                   else colon0)
      in ub_bind (case colon of
            Some c \<Rightarrow> ub_bind (c_atoi (drop (c + 1) uri)) (\<lambda>port. Inr (c, port))
          | None \<Rightarrow> Inr (length uri, default_port)) (\<lambda>(len, port).
        let topic = (case colon of
              Some c \<Rightarrow> map_option (\<lambda>t. c + t) (strchr (drop c uri) 47)
            | None \<Rightarrow> strchr uri 47);
            len = (case (topic, colon) of (Some t, None) \<Rightarrow> t | _ \<Rightarrow> len)
        in if len = 0 then Inl OverRead
           else Inr (if uri ! (len - 1) = 93 then len - 1 else len, port, topic)))"

subsection \<open>Proxy settings\<close>

definition isxdigit :: "byte \<Rightarrow> bool" where
  "isxdigit b \<longleftrightarrow> 48 \<le> unat b \<and> unat b \<le> 57 \<or> 65 \<le> unat b \<and> unat b \<le> 70 \<or> 97 \<le> unat b \<and> unat b \<le> 102"

definition hex_value :: "byte \<Rightarrow> nat" where
  "hex_value b = (if unat b \<le> 57 then unat b - 48 else if unat b \<le> 70 then unat b - 55 else unat b - 87)"

text \<open>
  \<^verbatim>\<open>MQTTProtocol_specialChars\<close> up to the \<^verbatim>\<open>@\<close>: what it writes. A percent sign without two
  hexadecimal digits behind it leaves both pointers where they are, for ever: \<open>None\<close>. A string
  that ends before an \<^verbatim>\<open>@\<close> is read beyond its end.
\<close>

partial_function (option) special_loop :: "bytes \<Rightarrow> bytes \<Rightarrow> (ub + bytes) option" where
  "special_loop p1 p0 = (case p1 of
       [] \<Rightarrow> Some (Inl OverRead)
     | c # cs \<Rightarrow>
         if c = 64 then Some (Inr p0)
         else if c \<noteq> 37 then special_loop cs (p0 @ [c])
         else if 2 \<le> length cs \<and> isxdigit (cs ! 0) \<and> isxdigit (cs ! 1)
         then special_loop (drop 2 cs) (p0 @ [word_of_nat (16 * hex_value (cs ! 0) + hex_value (cs ! 1))])
         else special_loop p1 p0)"

definition MQTTProtocol_specialChars :: "bytes \<Rightarrow> (ub + bytes) option" where
  "MQTTProtocol_specialChars p1 = special_loop p1 []"

text \<open>
  The functions of \<^verbatim>\<open>Base64.c\<close>, \<^verbatim>\<open>Socket.c\<close>, \<^verbatim>\<open>Proxy.c\<close> and \<^verbatim>\<open>WebSocket.c\<close> that connecting calls. The
  first argument of \<open>Base64_encode\<close> is the size of the output.
\<close>

record 'n connect_lib =
  Base64_encodeLength :: "bytes \<Rightarrow> nat"
  Base64_encode :: "nat \<Rightarrow> bytes \<Rightarrow> bytes"
  Socket_new :: "bytes \<Rightarrow> nat \<Rightarrow> int \<Rightarrow> int \<Rightarrow> 'n \<Rightarrow> int \<times> int \<times> 'n"
  Proxy_connect :: "networkHandles \<Rightarrow> bytes \<Rightarrow> 'n \<Rightarrow> int \<times> 'n"
  WebSocket_connect :: "networkHandles \<Rightarrow> bytes \<Rightarrow> 'n \<Rightarrow> int \<times> 'n"

text \<open>
  \<^verbatim>\<open>MQTTProtocol_setHTTPProxy\<close>: the result, the proxy address and the credentials. When the prefix
  occurs anywhere, as many bytes as it has are skipped at the beginning.
\<close>

definition contains :: "bytes \<Rightarrow> bytes \<Rightarrow> bool" where
  "contains haystack needle \<longleftrightarrow>
     list_ex (\<lambda>i. take (length needle) (drop i haystack) = needle) [0..<length haystack + 1]"

definition MQTTProtocol_setHTTPProxy ::
    "heap \<Rightarrow> 'n connect_lib \<Rightarrow> bytes option \<Rightarrow> bytes option \<Rightarrow> bytes
      \<Rightarrow> (ub + (int \<times> bytes option \<times> bytes option)) option" where
  "MQTTProtocol_setHTTPProxy H CL source0 dest0 prefix =
     (case source0 of
        None \<Rightarrow> Some (Inr (0, dest0, None))
      | Some src0 \<Rightarrow>
         let src = c_str src0;
             source = (if contains src prefix then drop (length prefix) src else src)
         in (case strchr source 64 of
               None \<Rightarrow> Some (Inr (0, Some source, None))
             | Some n \<Rightarrow>
                let dest = Some (drop (n + 1) source) in
                if n = 0 then Some (Inr (0, dest, None))
                else if \<not> H (ReqBuffer (n + 1)) then Some (Inr (PAHO_MEMORY_ERROR, dest, None))
                else (case MQTTProtocol_specialChars source of
                    None \<Rightarrow> None
                  | Some (Inl e) \<Rightarrow> Some (Inl e)
                  | Some (Inr basic_auth) \<Rightarrow>
                     let out_len = Base64_encodeLength CL basic_auth + 1 in
                     if \<not> H (ReqBuffer out_len) then Some (Inr (PAHO_MEMORY_ERROR, dest, None))
                     else Some (Inr (0, dest, Some (Base64_encode CL out_len basic_auth))))))"

subsection \<open>Connecting\<close>

definition set_connect_state :: "nat \<Rightarrow> int \<Rightarrow> ('n, 'f, 'z) sys_scheme \<Rightarrow> ('n, 'f, 'z) sys_scheme" where
  "set_connect_state i st = upd_client i (\<lambda>c. c\<lparr>c_connect_state := st\<rparr>)"

definition set_net :: "nat \<Rightarrow> (networkHandles \<Rightarrow> networkHandles) \<Rightarrow> ('n, 'f, 'z) sys_scheme \<Rightarrow> ('n, 'f, 'z) sys_scheme" where
  "set_net i f = upd_client i (\<lambda>c. c\<lparr>c_net := f (c_net c)\<rparr>)"

definition http_prefix :: bytes where "http_prefix = map (\<lambda>c. of_char c) ''http://''"

text \<open>The proxy, from the client or from the environment variable \<^verbatim>\<open>http_proxy\<close>.\<close>

definition connect_proxy ::
    "('n, 'f) env \<Rightarrow> 'n connect_lib \<Rightarrow> bytes option \<Rightarrow> nat \<Rightarrow> ('n, 'f, 'z) sys_scheme \<Rightarrow> (ub + (int \<times> ('n, 'f, 'z) sys_scheme)) option" where
  "connect_proxy E CL getenv_http_proxy i s =
     (let client = g_clients s ! i;
          p0 = (case c_httpProxy client of Some p \<Rightarrow> Some p | None \<Rightarrow> getenv_http_proxy)
      in if p0 = None then Some (Inr (0, s))
      else (case MQTTProtocol_setHTTPProxy (e_heap E) CL p0 (nh_http_proxy (c_net client)) http_prefix of
          None \<Rightarrow> None
        | Some (Inl e) \<Rightarrow> Some (Inl e)
        | Some (Inr (rc, dest, auth)) \<Rightarrow>
            Some (Inr (rc, set_net i (\<lambda>n. n\<lparr>nh_http_proxy := dest, nh_http_proxy_auth := auth\<rparr>) s))))"

text \<open>The socket: to the proxy when there is one, else to the server.\<close>

definition connect_socket ::
    "'n connect_lib \<Rightarrow> nat \<Rightarrow> bytes \<Rightarrow> bool \<Rightarrow> int \<Rightarrow> ('n, 'f, 'z) sys_scheme \<Rightarrow> ub + (int \<times> ('n, 'f, 'z) sys_scheme)" where
  "connect_socket CL i ip_address websocket timeout s =
     (let (addr, port) = (case nh_http_proxy (c_net (g_clients s ! i)) of
            Some p \<Rightarrow> (p, PROXY_DEFAULT_PORT)
          | None \<Rightarrow> (ip_address, if websocket then WS_DEFAULT_PORT else MQTT_DEFAULT_PORT))
      in ub_bind (MQTTProtocol_addressPort addr port) (\<lambda>(addr_len, port, _).
        if timeout < 0 then Inr (-1, s)
        else let (rc, sock, n) = Socket_new CL addr addr_len port timeout (g_net s)
             in Inr (rc, set_net i (\<lambda>h. h\<lparr>nh_socket := sock\<rparr>) (s\<lparr>g_net := n\<rparr>))))"

text \<open>What follows when the TCP connection is there at once.\<close>

definition connect_established ::
    "('n, 'f) env \<Rightarrow> 'n connect_lib \<Rightarrow> nat \<Rightarrow> bytes \<Rightarrow> bool \<Rightarrow> int \<Rightarrow> MQTTProperties option
      \<Rightarrow> MQTTProperties option \<Rightarrow> ('n, 'f, 'z) sys_scheme \<Rightarrow> ub + (int \<times> ('n, 'f, 'z) sys_scheme)" where
  "connect_established E CL i ip_address websocket MQTTVersion connectProperties willProperties s =
     (let (rc, s) = (if nh_http_proxy (c_net (g_clients s ! i)) \<noteq> None
            then let s = set_connect_state i PROXY_CONNECT_IN_PROGRESS s;
                     (rc, n) = Proxy_connect CL (c_net (g_clients s ! i)) ip_address (g_net s)
                 in (rc, s\<lparr>g_net := n\<rparr>)
            else (0, s));
          (rc, s) = (if websocket
            then let (rc, n) = WebSocket_connect CL (c_net (g_clients s ! i)) ip_address (g_net s);
                     s = s\<lparr>g_net := n\<rparr>
                 in (rc, if rc = TCPSOCKET_INTERRUPTED then set_connect_state i WEBSOCKET_IN_PROGRESS s else s)
            else (rc, s))
      in if rc \<noteq> 0 then Inr (rc, s)
         else ub_bind (MQTTPacket_send_connect E i MQTTVersion connectProperties willProperties s) (\<lambda>(rc, s).
           Inr (rc, set_connect_state i (if rc = 0 then WAIT_FOR_CONNACK else NOT_IN_PROGRESS) s)))"

definition MQTTProtocol_connect ::
    "('n, 'f) env \<Rightarrow> 'n connect_lib \<Rightarrow> bytes option \<Rightarrow> bytes \<Rightarrow> nat \<Rightarrow> bool \<Rightarrow> int \<Rightarrow> MQTTProperties option
      \<Rightarrow> MQTTProperties option \<Rightarrow> int \<Rightarrow> ('n, 'f, 'z) sys_scheme \<Rightarrow> (ub + (int \<times> ('n, 'f, 'z) sys_scheme)) option" where
  "MQTTProtocol_connect E CL getenv_http_proxy ip_address i websocket MQTTVersion connectProperties
      willProperties timeout s =
     (case connect_proxy E CL getenv_http_proxy i (upd_client i (\<lambda>c. c\<lparr>c_good := True\<rparr>) s) of
        None \<Rightarrow> None
      | Some (Inl e) \<Rightarrow> Some (Inl e)
      | Some (Inr (rc, s)) \<Rightarrow> Some (
          if rc \<noteq> 0 then Inr (rc, s)
          else ub_bind (connect_socket CL i ip_address websocket timeout s) (\<lambda>(rc, s).
            if rc = EINPROGRESS \<or> rc = EWOULDBLOCK then Inr (rc, set_connect_state i TCP_IN_PROGRESS s)
            else if rc = 0
            then connect_established E CL i ip_address websocket MQTTVersion connectProperties willProperties s
            else Inr (rc, s))))"

subsection \<open>Subscribing and the answers of the server\<close>

definition MQTTProtocol_subscribe where
  "MQTTProtocol_subscribe E i topics qoss msgID opts props s =
     MQTTPacket_send_subscribe E topics qoss opts props msgID 0 i s"

definition MQTTProtocol_unsubscribe where
  "MQTTProtocol_unsubscribe E i topics msgID props s = MQTTPacket_send_unsubscribe E topics props msgID 0 i s"

definition MQTTProtocol_handlePingresps ::
    "('n, 'f) env \<Rightarrow> int \<Rightarrow> ('n, 'f, 'z) sys_scheme \<Rightarrow> ub + (int \<times> ('n, 'f, 'z) sys_scheme)" where
  "MQTTProtocol_handlePingresps E sock s =
     ub_bind (find_client E sock s) (\<lambda>i.
       Inr (TCPSOCKET_COMPLETE, upd_client i (\<lambda>c. c\<lparr>c_ping_outstanding := False\<rparr>) s))"

definition MQTTProtocol_handleSubacks ::
    "('n, 'f) env \<Rightarrow> Suback \<Rightarrow> int \<Rightarrow> ('n, 'f, 'z) sys_scheme \<Rightarrow> ub + (int \<times> ('n, 'f, 'z) sys_scheme)" where
  "MQTTProtocol_handleSubacks E suback sock s =
     ub_bind (find_client E sock s) (\<lambda>_. ub_bind (MQTTPacket_freeSuback suback) (\<lambda>_. Inr (TCPSOCKET_COMPLETE, s)))"

definition MQTTProtocol_handleUnsubacks ::
    "('n, 'f) env \<Rightarrow> Unsuback \<Rightarrow> int \<Rightarrow> ('n, 'f, 'z) sys_scheme \<Rightarrow> ub + (int \<times> ('n, 'f, 'z) sys_scheme)" where
  "MQTTProtocol_handleUnsubacks E unsuback sock s =
     ub_bind (find_client E sock s) (\<lambda>_. ub_bind (MQTTPacket_freeUnsuback unsuback) (\<lambda>_. Inr (TCPSOCKET_COMPLETE, s)))"

definition MQTTProtocol_handleDisconnects ::
    "('n, 'f) env \<Rightarrow> Ack \<Rightarrow> int \<Rightarrow> ('n, 'f, 'z) sys_scheme \<Rightarrow> ub + (int \<times> ('n, 'f, 'z) sys_scheme)" where
  "MQTTProtocol_handleDisconnects E disconnect sock s =
     ub_bind (find_client E sock s) (\<lambda>_. ub_bind (MQTTPacket_freeAck disconnect) (\<lambda>_. Inr (TCPSOCKET_COMPLETE, s)))"

subsection \<open>Parsing an address\<close>

lemma strchr_notin [simp]: "c \<notin> set xs \<Longrightarrow> strchr xs c = None"
  by (induction xs) auto

lemma strchr_append:
  "strchr (xs @ ys) c = (if c \<in> set xs then strchr xs c else map_option (\<lambda>i. length xs + i) (strchr ys c))"
proof (induction xs)
  case Nil
  then show ?case by (cases "strchr ys c") simp_all
next
  case (Cons x xs)
  then show ?case by (auto simp: option.map_comp comp_def)
qed

lemma strrchr_notin [simp]: "c \<notin> set xs \<Longrightarrow> strrchr xs c = None"
  by (induction xs) auto

lemma strrchr_in: "c \<in> set xs \<Longrightarrow> \<exists>i. strrchr xs c = Some i"
  by (induction xs) (auto split: option.splits)

lemma strrchr_less: "strrchr xs c = Some i \<Longrightarrow> i < length xs"
  by (induction xs arbitrary: i) (auto split: option.splits if_splits)

lemma strrchr_append:
  "strrchr (xs @ ys) c = (if c \<in> set ys then map_option (\<lambda>i. length xs + i) (strrchr ys c) else strrchr xs c)"
proof (cases "c \<in> set ys")
  case True
  then obtain i where "strrchr ys c = Some i" using strrchr_in by blast
  then show ?thesis using True by (induction xs) simp_all
next
  case False
  then show ?thesis by (induction xs) simp_all
qed

text \<open>
  A host is a name or an IPv6 address in brackets; behind it there may be a port, and a topic that
  starts with a slash.
\<close>

definition host_ok :: "bytes \<Rightarrow> bool" where
  "host_ok h \<longleftrightarrow> h \<noteq> [] \<and> 0 \<notin> set h \<and> 47 \<notin> set h \<and>
     (if hd h = 91 then last h = 93 else 58 \<notin> set h \<and> last h \<noteq> 93)"

definition port_text :: "nat option \<Rightarrow> bytes" where
  "port_text p = (case p of None \<Rightarrow> [] | Some n \<Rightarrow> 58 # decimal n)"

definition topic_text_ok :: "bytes \<Rightarrow> bool" where
  "topic_text_ok t \<longleftrightarrow> (t = [] \<or> hd t = 47) \<and> {0, 58, 93} \<inter> set t = {}"

lemma decimal_not [simp]: "c < 48 \<Longrightarrow> c \<notin> set (decimal n)" "57 < c \<Longrightarrow> c \<notin> set (decimal n)"
  using decimal_bytes [of c n] by (auto simp: word_less_nat_alt)

lemma topic_position: "topic_text_ok t \<Longrightarrow> strchr t 47 = (if t = [] then None else Some 0)"
  by (cases t) (auto simp: topic_text_ok_def)

lemma addressPort_text:
  assumes "host_ok h" "topic_text_ok t" "\<forall>n. p = Some n \<longrightarrow> n < 2147483648"
  shows "MQTTProtocol_addressPort (h @ port_text p @ t) default_port =
    Inr (if hd h = 91 then length h - 1 else length h,
      case p of None \<Rightarrow> default_port | Some n \<Rightarrow> int n,
      if t = [] then None else Some (length h + length (port_text p)))"
proof -
  let ?uri = "h @ port_text p @ t"
  have h: "h \<noteq> []" "0 \<notin> set h" "47 \<notin> set h" and t: "0 \<notin> set t" "58 \<notin> set t" "93 \<notin> set t"
    using assms(1,2) by (auto simp: host_ok_def topic_text_ok_def)
  have z: "0 \<notin> set (port_text p)" "93 \<notin> set (port_text p)" "47 \<notin> set (port_text p)"
    by (auto simp: port_text_def split: option.splits)
  have c: "c_str ?uri = ?uri" using h z t by simp
  have hd: "hd ?uri = hd h" "?uri \<noteq> []" using h(1) by simp_all
  have l: "?uri ! (length h - 1) = last h" using h(1) by (simp add: nth_append last_conv_nth)
  have len: "length h \<noteq> 0" using h(1) by simp
  have b: "strrchr ?uri 93 = strrchr h 93" using t z by (simp add: strrchr_append)
  have b6: "strrchr h 93 = Some (length h - 1)" if "hd h = 91"
  proof -
    have "h = butlast h @ [93]" using assms(1) that h(1) by (metis append_butlast_last_id host_ok_def)
    then have "strrchr h 93 = strrchr (butlast h @ [93]) 93" by simp
    then show ?thesis by (simp add: strrchr_append)
  qed
  have br: "(last h = 93) = (hd h = 91)" using assms(1) by (auto simp: host_ok_def split: if_splits)
  show ?thesis
  proof (cases p)
    case None
    have col: "(if ?uri \<noteq> [] \<and> hd ?uri = 91 then (case strrchr ?uri 93 of None \<Rightarrow> strrchr ?uri 58
        | Some b \<Rightarrow> (case strrchr ?uri 58 of None \<Rightarrow> None | Some c \<Rightarrow> if c < b then None else Some c))
        else strrchr ?uri 58) = None"
    proof (cases "hd h = 91")
      case True
      have u: "strrchr ?uri 58 = strrchr h 58" using t None by (simp add: port_text_def strrchr_append)
      have "i < length h - 1" if "strrchr h 58 = Some i" for i
      proof -
        have "h = butlast h @ [93]" using assms(1) True h(1) by (metis append_butlast_last_id host_ok_def)
        then have "strrchr (butlast h @ [93]) 58 = Some i" using that by simp
        then have "strrchr (butlast h) 58 = Some i" by (simp add: strrchr_append)
        from strrchr_less [OF this] show ?thesis by simp
      qed
      then show ?thesis unfolding hd u b b6 [OF True] using True by (auto split: option.splits)
    next
      case False
      then have "58 \<notin> set ?uri" using assms(1) t None by (auto simp: host_ok_def port_text_def)
      then have "strrchr ?uri 58 = None" by (rule strrchr_notin)
      then show ?thesis using False hd by simp
    qed
    have top: "strchr ?uri 47 = (if t = [] then None else Some (length h))"
      using h z topic_position [OF assms(2)] None by (simp add: strchr_append port_text_def)
    show ?thesis
      unfolding MQTTProtocol_addressPort_def Let_def c col top
      using None l len br by (auto simp: port_text_def)
  next
    case (Some n)
    have n: "n < 2147483648" using assms(3) Some by simp
    have u: "strrchr ?uri 58 = Some (length h)"
      using t Some by (simp add: port_text_def strrchr_append)
    have col: "(if ?uri \<noteq> [] \<and> hd ?uri = 91 then (case strrchr ?uri 93 of None \<Rightarrow> strrchr ?uri 58
        | Some b \<Rightarrow> (case strrchr ?uri 58 of None \<Rightarrow> None | Some c \<Rightarrow> if c < b then None else Some c))
        else strrchr ?uri 58) = Some (length h)"
      unfolding hd u b using b6 by auto
    have "t = [] \<or> unat (hd t) < 48 \<or> 57 < unat (hd t)" using assms(2) by (auto simp: topic_text_ok_def)
    then have a: "c_atoi (drop (length h + 1) ?uri) = Inr (int n)"
      using c_atoi_decimal [OF n, of t] Some by (simp add: port_text_def)
    have top: "map_option (\<lambda>t. length h + t) (strchr (drop (length h) ?uri) 47) =
        (if t = [] then None else Some (length h + length (port_text p)))"
      using z topic_position [OF assms(2)] by (simp add: strchr_append)
    show ?thesis
      unfolding MQTTProtocol_addressPort_def Let_def c col option.case top a ub_bind_simps prod.case
      using Some l len br by auto
  qed
qed

subsection \<open>Percent encoding\<close>

definition hex_digit :: "nat \<Rightarrow> byte" where
  "hex_digit d = word_of_nat (if d < 10 then 48 + d else 55 + d)"

text \<open>The user name and password with their special characters written as \<^verbatim>\<open>%XX\<close>.\<close>

definition percent_encode :: "bytes \<Rightarrow> bytes" where
  "percent_encode s = concat (map (\<lambda>c. if c = 64 \<or> c = 37
     then [37, hex_digit (unat c div 16), hex_digit (unat c mod 16)] else [c]) s)"

lemma hex_digit_value: "d < 16 \<Longrightarrow> isxdigit (hex_digit d) \<and> hex_value (hex_digit d) = d"
proof -
  assume "d < 16"
  then have "unat (hex_digit d) = (if d < 10 then 48 + d else 55 + d)"
    by (simp add: hex_digit_def unat_of_nat del: of_nat_add of_nat_numeral)
  with \<open>d < 16\<close> show ?thesis by (auto simp: isxdigit_def hex_value_def)
qed

lemma special_loop_text:
  "special_loop (percent_encode s @ rest) p0 = special_loop rest (p0 @ s)"
proof (induction s arbitrary: p0)
  case Nil
  then show ?case by (simp add: percent_encode_def)
next
  case (Cons c s)
  have enc: "percent_encode (c # s) = (if c = 64 \<or> c = 37
      then [37, hex_digit (unat c div 16), hex_digit (unat c mod 16)] else [c]) @ percent_encode s"
    by (simp add: percent_encode_def)
  show ?case
  proof (cases "c = 64 \<or> c = 37")
    case True
    let ?h = "hex_digit (unat c div 16)" and ?l = "hex_digit (unat c mod 16)"
    have "unat c div 16 < 16" using unat_byte_lt [of c] by (simp add: less_mult_imp_div_less)
    then have d: "isxdigit ?h" "isxdigit ?l" "hex_value ?h = unat c div 16" "hex_value ?l = unat c mod 16"
      using hex_digit_value by simp_all
    have v: "word_of_nat (16 * (unat c div 16) + unat c mod 16) = c" by simp
    have "special_loop (37 # ?h # ?l # (percent_encode s @ rest)) p0 = special_loop (percent_encode s @ rest) (p0 @ [c])"
      by (subst special_loop.simps) (simp add: d v del: of_nat_add of_nat_mult)
    then show ?thesis using True Cons.IH [of "p0 @ [c]"] by (simp add: enc)
  next
    case False
    then have "special_loop (c # (percent_encode s @ rest)) p0 = special_loop (percent_encode s @ rest) (p0 @ [c])"
      by (subst special_loop.simps) simp
    then show ?thesis using False Cons.IH [of "p0 @ [c]"] by (simp add: enc)
  qed
qed

lemma special_loop_stuck:
  assumes "\<not> (2 \<le> length cs \<and> isxdigit (cs ! 0) \<and> isxdigit (cs ! 1))"
  shows "special_loop (37 # cs) p0 = None"
proof -
  have "p1 \<noteq> 37 # cs" if "special_loop p1 p0 = Some r" for p1 p0 r
  proof (rule special_loop.raw_induct [where P = "\<lambda>p1 p0 r. p1 \<noteq> 37 # cs", OF _ that])
    fix f p1 p0 and r :: "ub + bytes"
    assume IH: "\<And>p1 p0 r. f p1 p0 = Some r \<Longrightarrow> p1 \<noteq> 37 # cs"
      and eq: "(case p1 of [] \<Rightarrow> Some (Inl OverRead)
        | c # cs \<Rightarrow>
         if c = 64 then Some (Inr p0)
         else if c \<noteq> 37 then f cs (p0 @ [c])
         else if 2 \<le> length cs \<and> isxdigit (cs ! 0) \<and> isxdigit (cs ! 1)
         then f (drop 2 cs) (p0 @ [word_of_nat (16 * hex_value (cs ! 0) + hex_value (cs ! 1))])
         else f p1 p0) = Some r"
    show "p1 \<noteq> 37 # cs"
    proof
      assume p: "p1 = 37 # cs"
      have "f p1 p0 = Some r" using eq unfolding p list.case if_not_P [OF assms] by simp
      from IH [OF this] p show False by simp
    qed
  qed
  then show ?thesis by (cases "special_loop (37 # cs) p0") auto
qed

subsection \<open>Claims\<close>

text \<open>
  \<^verbatim>\<open>MQTTProtocol_addressPort\<close> takes an address apart. For a host name or a bracketed IPv6 address,
  with or without a port and a topic, it returns the length of the host without the closing
  bracket, the port given or else the default, and the position of the topic; the colons of an
  IPv6 address are not taken for the one in front of the port.
\<close>

theorem address_parsed:
  assumes "host_ok h" "topic_text_ok t" "\<forall>n. p = Some n \<longrightarrow> n < 2147483648"
  shows "MQTTProtocol_addressPort (h @ port_text p @ t) default_port =
    Inr (if hd h = 91 then length h - 1 else length h,
      case p of None \<Rightarrow> default_port | Some n \<Rightarrow> int n,
      if t = [] then None else Some (length h + length (port_text p)))"
  using assms by (rule addressPort_text)

theorem address_parsed_witness:
  "MQTTProtocol_addressPort ([91, 58, 58, 49, 93] @ 58 # decimal 1883) 80 = Inr (4, 1883, None)"
  using address_parsed [of "[91, 58, 58, 49, 93]" "[]" "Some 1883" 80]
  by (simp add: host_ok_def topic_text_ok_def port_text_def)

text \<open>
  C37: \<^verbatim>\<open>MQTTProtocol_specialChars\<close> undoes percent encoding: for credentials whose special characters
  are written as \<^verbatim>\<open>%XX\<close>, followed by the \<^verbatim>\<open>@\<close>, it writes the credentials. For a percent sign that is
  not followed by two hexadecimal digits it never returns.
\<close>

theorem credentials_decoded:
  assumes "\<not> (2 \<le> length bad \<and> isxdigit (bad ! 0) \<and> isxdigit (bad ! 1))"
  shows "MQTTProtocol_specialChars (percent_encode s @ 64 # rest) = Some (Inr s) \<and>
    MQTTProtocol_specialChars (percent_encode s @ 37 # bad) = None"
proof -
  have "special_loop (64 # rest) ([] @ s) = Some (Inr s)" by (subst special_loop.simps) simp
  then show ?thesis
    using special_loop_stuck [OF assms] by (simp add: MQTTProtocol_specialChars_def special_loop_text)
qed

theorem credentials_decoded_witness:
  "MQTTProtocol_specialChars ([117, 58, 37, 52, 48] @ [64, 104]) = Some (Inr [117, 58, 64]) \<and>
    MQTTProtocol_specialChars [37, 64] = None"
  using credentials_decoded [of "[64]" "[117, 58, 64]" "[104]"] credentials_decoded [of "[64]" "[]" "[]"]
  by (simp add: percent_encode_def hex_digit_def)

text \<open>
  How a connection attempt without proxy and WebSocket ends. With a TCP connection in progress
  the state is that; with the connection there, the CONNECT is sent, and the client waits for the
  CONNACK exactly when sending it succeeded, else no connection is in progress; any other failure
  of the socket, or a timeout that has passed, is returned and leaves the state alone.
\<close>

theorem connect_outcome:
  assumes "c_httpProxy (g_clients s ! i) = None" "nh_http_proxy (c_net (g_clients s ! i)) = None"
    and "i < length (g_clients s)" "MQTTProtocol_addressPort uri MQTT_DEFAULT_PORT = Inr (len, port, topic)"
    and "0 \<le> timeout" "Socket_new CL uri len port timeout (g_net s) = (rc0, sock, n)"
    and "s1 = set_net i (\<lambda>h. h\<lparr>nh_socket := sock\<rparr>) ((upd_client i (\<lambda>c. c\<lparr>c_good := True\<rparr>) s)\<lparr>g_net := n\<rparr>)"
  shows "MQTTProtocol_connect E CL None uri i False v cp wp timeout s = Some (
    if rc0 = EINPROGRESS \<or> rc0 = EWOULDBLOCK then Inr (rc0, set_connect_state i TCP_IN_PROGRESS s1)
    else if rc0 \<noteq> 0 then Inr (rc0, s1)
    else ub_bind (MQTTPacket_send_connect E i v cp wp s1) (\<lambda>(rc, s2).
      Inr (rc, set_connect_state i (if rc = 0 then WAIT_FOR_CONNACK else NOT_IN_PROGRESS) s2)))"
proof -
  define s0 where "s0 = upd_client i (\<lambda>c. c\<lparr>c_good := True\<rparr>) s"
  have c: "c_httpProxy (g_clients s0 ! i) = None" "nh_http_proxy (c_net (g_clients s0 ! i)) = None" "g_net s0 = g_net s"
    "i < length (g_clients s0)"
    using assms(1-3) by (simp_all add: s0_def upd_client_def)
  have p: "connect_proxy E CL None i s0 = Some (Inr (0, s0))" using c by (simp add: connect_proxy_def)
  have s: "connect_socket CL i uri False timeout s0 = Inr (rc0, s1)"
    using c assms(4-7) by (simp add: connect_socket_def s0_def)
  have h: "nh_http_proxy (c_net (g_clients s1 ! i)) = None"
    using c assms(7) by (simp add: s0_def set_net_def upd_client_def)
  show ?thesis
    using p s h by (simp add: MQTTProtocol_connect_def connect_established_def flip: s0_def)
qed

end
