(* ===== verification/Sender.thy ===== *)
theory Sender
  imports Exchange
begin

section \<open>The sending side of QoS 1 and 2\<close>

text \<open>
  The outbound list of a client as a machine: every message has an id and waits for a PUBACK
  (QoS 1), for a PUBREC or for a PUBCOMP (QoS 2). Starting a publish adds a message under an id that
  is free, an acknowledgement moves or removes the message it is for, and no other. Before
  version 5, without persistence.
\<close>

subsection \<open>The machine\<close>

datatype phase = AwaitPuback | AwaitPubrec | AwaitPubcomp

type_synonym outbound = "(int \<times> phase) list"

definition a_puback :: "int \<Rightarrow> outbound \<Rightarrow> outbound" where
  "a_puback msgid = filter (\<lambda>x. x \<noteq> (msgid, AwaitPuback))"

definition a_pubrec :: "int \<Rightarrow> outbound \<Rightarrow> outbound" where
  "a_pubrec msgid = map (\<lambda>x. if x = (msgid, AwaitPubrec) then (msgid, AwaitPubcomp) else x)"

definition a_pubcomp :: "int \<Rightarrow> outbound \<Rightarrow> outbound" where
  "a_pubcomp msgid = filter (\<lambda>x. x \<noteq> (msgid, AwaitPubcomp))"

definition a_start :: "int \<Rightarrow> nat \<Rightarrow> outbound \<Rightarrow> outbound" where
  "a_start msgid qos out = out @ [(msgid, if qos = 1 then AwaitPuback else AwaitPubrec)]"

subsection \<open>The view of a client\<close>

definition phase_of :: "Messages \<Rightarrow> phase" where
  "phase_of m = (if ms_qos m = 1 then AwaitPuback
     else if ms_nextMessageType m = Some PUBREC then AwaitPubrec else AwaitPubcomp)"

definition out_item :: "Messages \<Rightarrow> int \<times> phase" where
  "out_item m = (ms_msgid m, phase_of m)"

definition out_view :: "nat \<Rightarrow> ('n, 'f, 'z) sys_scheme \<Rightarrow> outbound" where
  "out_view i s = map out_item (c_outboundMsgs (g_clients s ! i))"

definition sendable :: "Publications \<Rightarrow> bool" where
  "sendable p \<longleftrightarrow> pu_refcount p = 1 \<and> pu_topic p \<noteq> None \<and> 0 \<le> pu_payloadlen p \<and>
     nat (pu_payloadlen p) \<le> length (null_bytes (pu_payload p))"

definition out_ok :: "(nat \<rightharpoonup> Publications) \<Rightarrow> Messages \<Rightarrow> bool" where
  "out_ok M m \<longleftrightarrow> (ms_qos m = 1 \<or> ms_qos m = 2 \<and> ms_nextMessageType m \<in> {Some PUBREC, Some PUBCOMP}) \<and>
     ms_MQTTVersion m < 5 \<and> (\<exists>a p. ms_publish m = Some a \<and> M a = Some p \<and> sendable p)"

definition sender_inv :: "('n, 'f) env \<Rightarrow> int \<Rightarrow> nat \<Rightarrow> ('n, 'f, 'z) sys_scheme \<Rightarrow> bool" where
  "sender_inv E sock i s \<longleftrightarrow> i < length (g_clients s) \<and>
     find_index ((=) sock) (map (\<lambda>c. nh_socket (c_net c)) (g_clients s)) = Some i \<and>
     c_persistence (g_clients s ! i) = None \<and> pubs_ok s \<and>
     distinct (map ms_msgid (c_outboundMsgs (g_clients s ! i))) \<and>
     distinct (map ms_publish (c_outboundMsgs (g_clients s ! i))) \<and>
     (\<forall>m\<in>set (c_outboundMsgs (g_clients s ! i)). out_ok (map_of (g_publications s)) m)"

lemma sender_find: "lists_ok (e_lists E) \<Longrightarrow> sender_inv E sock i s \<Longrightarrow> find_client E sock s = Inr i"
  by (simp add: find_client_eq sender_inv_def)

lemma sender_similar:
  assumes "similar s s'" "sender_inv E sock i s"
  shows "sender_inv E sock i s' \<and> out_view i s' = out_view i s"
proof -
  from assms(2) have i: "i < length (g_clients s)" by (simp add: sender_inv_def)
  note c = similar_client [OF assms(1) i]
  from assms(1) have "g_publications s' = g_publications s" "g_fresh s' = g_fresh s" by (simp_all add: similar_def)
  with assms(2) stripD [OF c(1)] c(2) similar_sockets [OF assms(1)] show ?thesis
    by (simp add: sender_inv_def pubs_ok_def out_view_def)
qed

lemma sender_socket: "sender_inv E sock i s \<Longrightarrow> socket_of i s = sock"
  using find_index_Some [of "(=) sock" "map (\<lambda>c. nh_socket (c_net c)) (g_clients s)" i]
  by (auto simp: sender_inv_def socket_of_def)

lemma out_ok_cong: "out_ok M m \<Longrightarrow> Option.bind (ms_publish m) M' = Option.bind (ms_publish m) M \<Longrightarrow> out_ok M' m"
  by (auto simp: out_ok_def)

lemma fst_out_item [simp]: "fst (out_item m) = ms_msgid m"
  by (simp add: out_item_def)

text \<open>The statistics and the network are not part of the invariant.\<close>

lemma sender_count [simp]:
  "sender_inv E sock i (s\<lparr>g_msgs_sent := n\<rparr>) = sender_inv E sock i s"
  "sender_inv E sock i (s\<lparr>g_net := net\<rparr>) = sender_inv E sock i s"
  "out_view i (s\<lparr>g_msgs_sent := n\<rparr>) = out_view i s" "out_view i (s\<lparr>g_net := net\<rparr>) = out_view i s"
  by (simp_all add: sender_inv_def out_view_def pubs_ok_def)

subsection \<open>Acknowledgements\<close>

text \<open>A client with another outbound list.\<close>

lemma sender_replace:
  assumes "sender_inv E sock i s"
    and "g_clients s' = (g_clients s)[i := (g_clients s ! i)\<lparr>c_outboundMsgs := out\<rparr>]" "pubs_ok s'"
    and "distinct (map ms_msgid out)" "distinct (map ms_publish out)"
    and "\<forall>m\<in>set out. out_ok (map_of (g_publications s')) m"
  shows "sender_inv E sock i s' \<and> out_view i s' = map out_item out"
proof -
  from assms(1) have i: "i < length (g_clients s)" by (simp add: sender_inv_def)
  have so: "map (\<lambda>c. nh_socket (c_net c)) (g_clients s') = map (\<lambda>c. nh_socket (c_net c)) (g_clients s)"
    unfolding assms(2) by (rule sockets_update [where f = "\<lambda>c. c\<lparr>c_outboundMsgs := out\<rparr>"]) simp
  have cl: "c_outboundMsgs (g_clients s' ! i) = out" "c_persistence (g_clients s' ! i) = c_persistence (g_clients s ! i)"
    "length (g_clients s') = length (g_clients s)" using i by (simp_all add: assms(2))
  show ?thesis unfolding sender_inv_def out_view_def cl so using assms(1,3-6) by (simp add: sender_inv_def)
qed

lemma out_remove:
  assumes "distinct (map ms_msgid out)" "k < length out" "x = out_item (out ! k)"
  shows "map out_item (take k out @ drop (Suc k) out) = filter (\<lambda>y. y \<noteq> x) (map out_item out)"
proof -
  have "ms_msgid m = ms_msgid (out ! k) \<Longrightarrow> m = out ! k" if "m \<in> set out" for m
    using assms(1,2) that by (auto simp: distinct_map inj_on_def)
  then have "filter (\<lambda>m. out_item m \<noteq> out_item (out ! k)) out = filter (\<lambda>m. ms_msgid m \<noteq> ms_msgid (out ! k)) out"
    by (intro filter_cong) (auto simp: out_item_def)
  then show ?thesis
    unfolding remove_nth_filter [OF assms(1,2)] assms(3) by (simp add: filter_map o_def)
qed

lemma sender_finish:
  assumes "lists_ok (e_lists E)" "sender_inv E sock i s" "out = c_outboundMsgs (g_clients s ! i)" "k < length out"
    and "version < 5"
  shows "\<exists>s'. finish_outbound E i k (out ! k) version msgId False s = Inr (0, None, s') \<and> sender_inv E sock i s' \<and>
    out_view i s' = filter (\<lambda>y. y \<noteq> out_item (out ! k)) (out_view i s) \<and> sent_only i s s'"
proof -
  define M where "M = map_of (g_publications s)"
  define m where "m = out ! k"
  from assms(2) have inv: "i < length (g_clients s)" "pubs_ok s" "\<forall>m\<in>set out. out_ok M m"
    "c_persistence (g_clients s ! i) = None" "distinct (map ms_msgid out)" "distinct (map ms_publish out)"
    by (simp_all add: sender_inv_def assms(3) M_def)
  have "out_ok M m" using inv(3) nth_mem [OF assms(4)] by (simp add: m_def)
  then obtain a p where m: "ms_publish m = Some a" "M a = Some p" "pu_refcount p = 1" "ms_MQTTVersion m < 5"
    by (auto simp: out_ok_def sendable_def)
  have "distinct (map fst (g_publications s))" using inv(2) by (simp add: pubs_ok_def)
  from drop_pub_eq [OF assms(1) this, of a] obtain ps where
    ps: "drop_pub E a s = s\<lparr>g_publications := ps\<rparr>" "map_of ps = M(a := None)" "distinct (map fst ps)"
      "set ps \<subseteq> set (g_publications s)"
    unfolding M_def by blast
  let ?rest = "take k out @ drop (Suc k) out"
  define s' where "s' = s\<lparr>g_publications := ps, g_clients := (g_clients s)[i := (g_clients s ! i)\<lparr>c_outboundMsgs := ?rest\<rparr>]\<rparr>"
  have l: "list_lib_ok (l_msgs (e_lists E))" using assms(1) by (simp add: lists_ok_def)
  have run: "finish_outbound E i k m version msgId False s = Inr (0, None, s')"
    using m inv(1,4) ps(1) assms(3-5) list_libD(5) [OF l assms(4)]
    by (simp add: finish_outbound_def MQTTPersistence_remove_def MQTTProtocol_removePublication_def
        get_pub_eq [OF assms(1)] M_def [symmetric] free_props_def version_defs s'_def upd_client_def Let_def)
  have rest: "?rest = filter (\<lambda>x. ms_msgid x \<noteq> ms_msgid m) out" "?rest = filter (\<lambda>x. ms_publish x \<noteq> ms_publish m) out"
    using remove_nth_filter [OF inv(5) assms(4)] remove_nth_filter [OF inv(6) assms(4)] by (simp_all add: m_def)
  have "sender_inv E sock i s' \<and> out_view i s' = map out_item ?rest"
  proof (rule sender_replace [OF assms(2)])
    show "pubs_ok s'" using inv(2) ps(3,4) by (auto simp: pubs_ok_def s'_def)
    show "distinct (map ms_msgid ?rest)" unfolding rest(1) using inv(5) by (rule distinct_map_filter)
    show "distinct (map ms_publish ?rest)" unfolding rest(2) using inv(6) by (rule distinct_map_filter)
    show "\<forall>x\<in>set ?rest. out_ok (map_of (g_publications s')) x"
    proof
      fix x assume "x \<in> set ?rest"
      then have x: "x \<in> set out" "ms_publish x \<noteq> Some a" unfolding rest(2) m(1) by simp_all
      show "out_ok (map_of (g_publications s')) x"
        using out_ok_cong [OF _ bind_upd [OF x(2)]] inv(3) x(1) by (simp add: s'_def ps(2))
    qed
  qed (simp add: s'_def)
  moreover have "sent_only i s s'"
    using inv(1) m(1) other_address [OF _ nth_mem [OF assms(4)]] set_take_subset [of k out] set_drop_subset [of "Suc k" out]
    by (auto simp: moved_def s'_def put_outbound_def strip_def ps(2) m_def M_def assms(3))
  ultimately show ?thesis using run out_remove [OF inv(5) assms(4) refl]
    unfolding m_def by (auto simp: out_view_def assms(3))
qed

text \<open>Without persistence sending a PUBREL or a PUBLISH changes no more than sending anything else.\<close>

lemma put_nothing:
  assumes "lists_ok (e_lists E)" "sender_inv E sock i s"
  shows "MQTTPersistence_putPacket E (socket_of i s) buf bufs type msgId scr v s = Inr (0, s)"
  using sender_find [OF assms] assms(2)
  by (simp add: MQTTPersistence_putPacket_def sender_socket [OF assms(2)] sender_inv_def)

lemma readInt_writeInt_start: "\<exists>r. readInt (writeInt n) 0 = Inr r"
  by (simp add: readInt_def writeInt_def Let_def)

lemma pubrel_similar:
  assumes "lists_ok (e_lists E)" "heap_total (e_heap E)" "sender_inv E sock i s"
  shows "\<exists>rc s'. answer E pending v PUBREL msgId i s = Inr (rc, s') \<and> similar s s' \<and>
    (\<not> pending \<longrightarrow> (\<exists>m. put_frame E i (mk_header PUBREL 0 1 0 # vbi 2) [writeInt msgId] [0, 0, 0, 0] s = (rc, m, s')))"
proof (cases pending)
  case True
  then show ?thesis
    using assms(2) by (auto simp: answer_def MQTTProtocol_queueAck_def strip_def intro!: similar_upd)
next
  case False
  let ?h = "mk_header PUBREL 0 1 0" and ?b = "writeInt msgId"
  have h: "hd_type ?h = PUBREL" by (simp add: mk_header_fields PUBREL_def)
  have f: "fill 2 ?b = Inr ?b" using fill_exact [of ?b] by simp
  obtain rc m s' where p: "put_frame E i (?h # vbi (length ?b)) [?b] [0, 0, 0, 0] s = (rc, m, s')"
    by (cases "put_frame E i (?h # vbi (length ?b)) [?b] [0, 0, 0, 0] s") auto
  obtain r where r: "readInt ?b 0 = Inr r" using readInt_writeInt_start by blast
  have "answer E pending v PUBREL msgId i s = MQTTPacket_send E i ?h ?b v s"
    using False assms(2) f by (simp add: answer_def MQTTPacket_send_pubrel_def MQTTPacket_send_ack_def msgTypes_defs)
  also have "\<dots> = Inr (rc, s')"
    using assms(2) h p r put_nothing [OF assms(1,3)]
    by (cases r) (auto simp: MQTTPacket_send_def encode_count put_frame_def Let_def split: prod.splits)
  moreover have "length ?b = 2" by (simp add: writeInt_def)
  ultimately show ?thesis using similar_put_frame [OF p] p by metis
qed

definition ack_v3 :: "Ack \<Rightarrow> bool" where
  "ack_v3 ack \<longleftrightarrow> ak_MQTTVersion ack < 5 \<and> ak_msgId ack \<noteq> None"

lemma no_such_id: "find_index (messageIDCompare msgid) out = None \<Longrightarrow> x \<in> set (map out_item out) \<Longrightarrow> fst x \<noteq> msgid"
  by (auto simp: find_index_None messageIDCompare_def)

lemma such_id: "find_index (messageIDCompare msgid) out = Some k \<Longrightarrow> k < length out \<and> ms_msgid (out ! k) = msgid"
  using find_index_Some [of "messageIDCompare msgid" out k] by (auto simp: messageIDCompare_def)

lemma other_phase:
  assumes "distinct (map ms_msgid out)" "k < length out" "ph \<noteq> phase_of (out ! k)"
  shows "(ms_msgid (out ! k), ph) \<notin> set (map out_item out)"
proof
  assume "(ms_msgid (out ! k), ph) \<in> set (map out_item out)"
  then obtain m where m: "m \<in> set out" "ms_msgid m = ms_msgid (out ! k)" "phase_of m = ph"
    by (auto simp: out_item_def)
  with assms(1,2) have "m = out ! k" by (auto simp: distinct_map inj_on_def)
  with m(3) assms(3) show False by simp
qed

lemma filter_absent: "x \<notin> set xs \<Longrightarrow> filter (\<lambda>y. y \<noteq> x) xs = xs"
  by (rule filter_True) auto

lemma handle_puback_v3:
  assumes "lists_ok (e_lists E)" "heap_total (e_heap E)" "sender_inv E sock i s" "ack_v3 ack"
  shows "\<exists>rc s'. MQTTProtocol_handlePubacks E ack sock False s = Inr (rc, None, s') \<and> sender_inv E sock i s' \<and>
    out_view i s' = a_puback (the (ak_msgId ack)) (out_view i s) \<and> sent_only i s s'"
proof -
  define out where "out = c_outboundMsgs (g_clients s ! i)"
  from assms(4) obtain msgId where ack: "ak_msgId ack = Some msgId" "ak_MQTTVersion ack < 5" by (auto simp: ack_v3_def)
  have l: "list_lib_ok (l_msgs (e_lists E))" using assms(1) by (simp add: lists_ok_def)
  have inv: "distinct (map ms_msgid out)" "\<forall>m\<in>set out. out_ok (map_of (g_publications s)) m"
    using assms(3) by (simp_all add: sender_inv_def out_def)
  have v: "out_view i s = map out_item out" by (simp add: out_view_def out_def)
  have "\<exists>rc s'. (case find_index (messageIDCompare msgId) out of None \<Rightarrow> Inr (TCPSOCKET_COMPLETE, None, s)
    | Some k \<Rightarrow> if ms_qos (out ! k) \<noteq> 1 then Inr (TCPSOCKET_COMPLETE, None, s)
        else finish_outbound E i k (out ! k) (ms_MQTTVersion (out ! k)) msgId False s) = Inr (rc, None, s') \<and>
    sender_inv E sock i s' \<and> out_view i s' = a_puback msgId (out_view i s) \<and> sent_only i s s'"
  proof (cases "find_index (messageIDCompare msgId) out")
    case None
    have "a_puback msgId (out_view i s) = out_view i s"
      using no_such_id [OF None] unfolding a_puback_def v by (intro filter_absent) force
    with None assms(3) show ?thesis by auto
  next
    case (Some k)
    note k = such_id [OF Some]
    show ?thesis
    proof (cases "ms_qos (out ! k) = 1")
      case True
      have ver: "ms_MQTTVersion (out ! k) < 5" using inv(2) k nth_mem by (auto simp: out_ok_def)
      have it: "out_item (out ! k) = (msgId, AwaitPuback)" using True k by (simp add: out_item_def phase_of_def)
      from sender_finish [OF assms(1,3) out_def _ ver, of k msgId] k show ?thesis
        unfolding it a_puback_def [symmetric] using Some True by auto
    next
      case False
      then have "AwaitPuback \<noteq> phase_of (out ! k)" by (simp add: phase_of_def)
      from other_phase [OF inv(1) _ this] k have "a_puback msgId (out_view i s) = out_view i s"
        unfolding a_puback_def v by (intro filter_absent) auto
      with Some False assms(3) show ?thesis by auto
    qed
  qed
  then show ?thesis
    using sender_find [OF assms(1,3)] ack
    by (auto simp: MQTTProtocol_handlePubacks_def ack_id_def list_lib_find_index [OF l] free_props_def version_defs
        simp flip: out_def)
qed

lemma handle_pubcomp_v3:
  assumes "lists_ok (e_lists E)" "heap_total (e_heap E)" "sender_inv E sock i s" "ack_v3 ack"
  shows "\<exists>rc s'. MQTTProtocol_handlePubcomps E ack sock False s = Inr (rc, None, s') \<and> sender_inv E sock i s' \<and>
    out_view i s' = a_pubcomp (the (ak_msgId ack)) (out_view i s) \<and> sent_only i s s'"
proof -
  define out where "out = c_outboundMsgs (g_clients s ! i)"
  from assms(4) obtain msgId where ack: "ak_msgId ack = Some msgId" "ak_MQTTVersion ack < 5" by (auto simp: ack_v3_def)
  have l: "list_lib_ok (l_msgs (e_lists E))" using assms(1) by (simp add: lists_ok_def)
  have inv: "distinct (map ms_msgid out)" "\<forall>m\<in>set out. out_ok (map_of (g_publications s)) m"
    using assms(3) by (simp_all add: sender_inv_def out_def)
  have v: "out_view i s = map out_item out" by (simp add: out_view_def out_def)
  have "\<exists>rc s'. (case find_index (messageIDCompare msgId) out of None \<Rightarrow> Inr (TCPSOCKET_COMPLETE, None, s)
    | Some k \<Rightarrow> let m = out ! k in if ms_qos m \<noteq> 2 then Inr (TCPSOCKET_COMPLETE, None, s)
        else ub_bind (next_type m) (\<lambda>next. if next \<noteq> PUBCOMP then Inr (TCPSOCKET_COMPLETE, None, s)
          else ub_bind (finish_outbound E i k m (ms_MQTTVersion m) msgId False s)
            (\<lambda>(rc, removed, s). Inr (rc, removed, s\<lparr>g_msgs_sent := g_msgs_sent s + 1\<rparr>)))) = Inr (rc, None, s') \<and>
    sender_inv E sock i s' \<and> out_view i s' = a_pubcomp msgId (out_view i s) \<and> sent_only i s s'"
  proof (cases "find_index (messageIDCompare msgId) out")
    case None
    have "a_pubcomp msgId (out_view i s) = out_view i s"
      using no_such_id [OF None] unfolding a_pubcomp_def v by (intro filter_absent) force
    with None assms(3) show ?thesis by auto
  next
    case (Some k)
    note k = such_id [OF Some]
    have ok: "out_ok (map_of (g_publications s)) (out ! k)" using inv(2) k by simp
    show ?thesis
    proof (cases "phase_of (out ! k) = AwaitPubcomp")
      case True
      then have m: "ms_qos (out ! k) = 2" "ms_nextMessageType (out ! k) = Some PUBCOMP" "ms_MQTTVersion (out ! k) < 5"
        using ok by (auto simp: phase_of_def out_ok_def split: if_splits)
      have it: "out_item (out ! k) = (msgId, AwaitPubcomp)" using True k by (simp add: out_item_def)
      from sender_finish [OF assms(1,3) out_def _ m(3), of k msgId] k show ?thesis
        unfolding it a_pubcomp_def [symmetric] using Some m(1,2) by (auto simp: next_type_def)
    next
      case False
      then have m: "ms_qos (out ! k) = 1 \<or> ms_qos (out ! k) = 2 \<and> ms_nextMessageType (out ! k) = Some PUBREC"
        using ok by (auto simp: phase_of_def out_ok_def PUBREC_def PUBCOMP_def split: if_splits)
      from other_phase [OF inv(1) _ False [symmetric]] k have "a_pubcomp msgId (out_view i s) = out_view i s"
        unfolding a_pubcomp_def v by (intro filter_absent) auto
      with Some m assms(3) show ?thesis by (auto simp: next_type_def PUBREC_def PUBCOMP_def)
    qed
  qed
  then show ?thesis
    using sender_find [OF assms(1,3)] ack
    by (auto simp: MQTTProtocol_handlePubcomps_def ack_id_def list_lib_find_index [OF l] free_props_def version_defs
        simp flip: out_def)
qed

text \<open>The PUBREC moves its message to the next phase.\<close>

lemma out_advance:
  assumes "distinct (map ms_msgid out)" "k < length out" "phase_of (out ! k) = AwaitPubrec"
    "ms_msgid m = ms_msgid (out ! k)" "phase_of m = AwaitPubcomp"
  shows "map out_item (out[k := m]) = a_pubrec (ms_msgid (out ! k)) (map out_item out)"
proof (rule nth_equalityI)
  fix j assume "j < length (map out_item (out[k := m]))"
  then have j: "j < length out" by simp
  show "map out_item (out[k := m]) ! j = a_pubrec (ms_msgid (out ! k)) (map out_item out) ! j"
  proof (cases "j = k")
    case True
    with assms j show ?thesis by (simp add: a_pubrec_def out_item_def)
  next
    case False
    then have "ms_msgid (out ! j) \<noteq> ms_msgid (out ! k)"
      using assms(1,2) j by (metis distinct_conv_nth length_map nth_map)
    with False j show ?thesis by (auto simp: a_pubrec_def out_item_def)
  qed
qed (simp add: a_pubrec_def)

lemma advance_eq:
  assumes "sender_inv E sock i s" "out = c_outboundMsgs (g_clients s ! i)" "k < length out"
    "phase_of (out ! k) = AwaitPubrec"
    "s' = upd_client i (\<lambda>c. c\<lparr>c_outboundMsgs := (c_outboundMsgs c)[k := (out ! k)
      \<lparr>ms_nextMessageType := Some PUBCOMP, ms_lastTouch := t\<rparr>]\<rparr>) (s\<lparr>g_net := n\<rparr>)"
  shows "sender_inv E sock i s' \<and> out_view i s' = a_pubrec (ms_msgid (out ! k)) (out_view i s) \<and> sent_only i s s'"
proof -
  let ?m = "(out ! k)\<lparr>ms_nextMessageType := Some PUBCOMP, ms_lastTouch := t\<rparr>"
  from assms(1) have inv: "distinct (map ms_msgid out)" "distinct (map ms_publish out)"
    "\<forall>m\<in>set out. out_ok (map_of (g_publications s)) m" "pubs_ok s"
    by (simp_all add: sender_inv_def assms(2))
  have ok: "out_ok (map_of (g_publications s)) (out ! k)" using inv(3) assms(3) by simp
  then have ok': "out_ok (map_of (g_publications s)) ?m" by (auto simp: out_ok_def)
  have q: "ms_qos (out ! k) = 2" using ok assms(4) by (auto simp: out_ok_def phase_of_def split: if_splits)
  have same: "map ms_msgid (out[k := ?m]) = map ms_msgid out" "map ms_publish (out[k := ?m]) = map ms_publish out"
    using assms(3) by (auto simp: map_update list_update_same_conv)
  have "sender_inv E sock i s' \<and> out_view i s' = map out_item (out[k := ?m])"
  proof (rule sender_replace [OF assms(1)])
    show "\<forall>x\<in>set (out[k := ?m]). out_ok (map_of (g_publications s')) x"
      using inv(3) ok' set_update_subset_insert [of out k ?m] by (auto simp: assms(5) upd_client_def)
  qed (use inv same in \<open>simp_all add: assms(5) upd_client_def pubs_ok_def flip: assms(2)\<close>)
  moreover have "phase_of ?m = AwaitPubcomp" using q by (simp add: phase_of_def PUBREC_def PUBCOMP_def)
  moreover have "sent_only i s s'"
  proof -
    have "i < length (g_clients s)" using assms(1) by (simp add: sender_inv_def)
    moreover have "ms_publish ` set (out[k := ?m]) = ms_publish ` set out" using same(2) by (metis set_map)
    ultimately show ?thesis
      by (simp add: moved_def assms(5) upd_client_def put_outbound_def strip_def flip: assms(2))
  qed
  ultimately show ?thesis
    using out_advance [OF inv(1) assms(3,4), of ?m] by (simp add: out_view_def flip: assms(2))
qed

lemma handle_pubrec_v3:
  assumes "lists_ok (e_lists E)" "heap_total (e_heap E)" "sender_inv E sock i s" "ack_v3 ack"
  shows "\<exists>rc s'. MQTTProtocol_handlePubrecs E ack sock False s = Inr (rc, None, s') \<and> sender_inv E sock i s' \<and>
    out_view i s' = a_pubrec (the (ak_msgId ack)) (out_view i s) \<and> sent_only i s s'"
proof -
  define out where "out = c_outboundMsgs (g_clients s ! i)"
  from assms(4) obtain msgId where ack: "ak_msgId ack = Some msgId" "ak_MQTTVersion ack < 5" by (auto simp: ack_v3_def)
  have l: "list_lib_ok (l_msgs (e_lists E))" using assms(1) by (simp add: lists_ok_def)
  have inv: "distinct (map ms_msgid out)" "\<forall>m\<in>set out. out_ok (map_of (g_publications s)) m"
    using assms(3) by (simp_all add: sender_inv_def out_def)
  have v: "out_view i s = map out_item out" by (simp add: out_view_def out_def)
  let ?ignored = "Inr (True, TCPSOCKET_COMPLETE, None, s)"
  have "\<exists>s1. (case find_index (messageIDCompare msgId) out of None \<Rightarrow> ?ignored
    | Some k \<Rightarrow> let m = out ! k in if ms_qos m \<noteq> 2 then ?ignored
        else ub_bind (next_type m) (\<lambda>next. if next \<noteq> PUBREC then ?ignored
          else ub_bind (pubrec_error ack) (\<lambda>err. if err
            then ub_bind (finish_outbound E i k m (ak_MQTTVersion ack) msgId False s)
              (\<lambda>(rc, removed, s). Inr (False, rc, removed, s\<lparr>g_msgs_sent := g_msgs_sent s + 1\<rparr>))
            else let (t, s) = time_now E s in
              Inr (True, TCPSOCKET_COMPLETE, None, upd_client i (\<lambda>c. c\<lparr>c_outboundMsgs := (c_outboundMsgs c)
                [k := m\<lparr>ms_nextMessageType := Some PUBCOMP, ms_lastTouch := t\<rparr>]\<rparr>) s)))) =
      Inr (True, TCPSOCKET_COMPLETE, None, s1) \<and>
    sender_inv E sock i s1 \<and> out_view i s1 = a_pubrec msgId (out_view i s) \<and> sent_only i s s1"
  proof (cases "find_index (messageIDCompare msgId) out")
    case None
    have "a_pubrec msgId (out_view i s) = out_view i s"
      using no_such_id [OF None] unfolding a_pubrec_def v by (intro map_idI) force
    with None assms(3) show ?thesis by auto
  next
    case (Some k)
    note k = such_id [OF Some]
    have ok: "out_ok (map_of (g_publications s)) (out ! k)" using inv(2) k by simp
    show ?thesis
    proof (cases "phase_of (out ! k) = AwaitPubrec")
      case True
      then have m: "ms_qos (out ! k) = 2" "next_type (out ! k) = Inr PUBREC"
        using ok by (auto simp: phase_of_def out_ok_def next_type_def split: if_splits)
      have e: "pubrec_error ack = Inr False" using ack(2) by (simp add: pubrec_error_def version_defs)
      obtain t n where t: "time_now E s = (t, s\<lparr>g_net := n\<rparr>)"
        by (cases "clock_gettime (e_net E) (g_net s)") (auto simp: time_now_def)
      from advance_eq [OF assms(3) out_def _ True refl, of t n] k show ?thesis
        using Some m e by (auto simp: t Let_def)
    next
      case False
      then have m: "ms_qos (out ! k) = 1 \<or> ms_qos (out ! k) = 2 \<and> next_type (out ! k) = Inr PUBCOMP"
        using ok by (auto simp: phase_of_def out_ok_def next_type_def split: if_splits)
      have "a_pubrec msgId (out_view i s) = out_view i s"
        using other_phase [OF inv(1) _ False [symmetric]] k unfolding a_pubrec_def v by (intro map_idI) auto
      with Some m assms(3) show ?thesis by (auto simp: PUBREC_def PUBCOMP_def)
    qed
  qed
  then obtain s1 where mid: "(case find_index (messageIDCompare msgId) out of None \<Rightarrow> ?ignored
    | Some k \<Rightarrow> let m = out ! k in if ms_qos m \<noteq> 2 then ?ignored
        else ub_bind (next_type m) (\<lambda>next. if next \<noteq> PUBREC then ?ignored
          else ub_bind (pubrec_error ack) (\<lambda>err. if err
            then ub_bind (finish_outbound E i k m (ak_MQTTVersion ack) msgId False s)
              (\<lambda>(rc, removed, s). Inr (False, rc, removed, s\<lparr>g_msgs_sent := g_msgs_sent s + 1\<rparr>))
            else let (t, s) = time_now E s in
              Inr (True, TCPSOCKET_COMPLETE, None, upd_client i (\<lambda>c. c\<lparr>c_outboundMsgs := (c_outboundMsgs c)
                [k := m\<lparr>ms_nextMessageType := Some PUBCOMP, ms_lastTouch := t\<rparr>]\<rparr>) s)))) =
      Inr (True, TCPSOCKET_COMPLETE, None, s1)"
    "sender_inv E sock i s1" "out_view i s1 = a_pubrec msgId (out_view i s)" "sent_only i s s1" by blast
  obtain rc s' where an: "answer E (\<not> Socket_noPendingWrites (e_net E) sock (g_net s1)) (ak_MQTTVersion ack)
      PUBREL msgId i s1 = Inr (rc, s')" "similar s1 s'"
    using pubrel_similar [OF assms(1,2) mid(2)] by blast
  have "MQTTProtocol_handlePubrecs E ack sock False s = Inr (rc, None, s')"
    using sender_find [OF assms(1,3)] ack mid(1) [unfolded out_def] an(1)
    by (simp add: MQTTProtocol_handlePubrecs_def ack_id_def list_lib_find_index [OF l] free_props_def version_defs)
  moreover have "i < length (g_clients s1)" using mid(2) by (simp add: sender_inv_def)
  ultimately show ?thesis using sender_similar [OF an(2) mid(2)] mid(3) ack(1) moved_similar [OF mid(4) an(2)] by auto
qed

subsection \<open>Starting a publish\<close>

text \<open>A publication of QoS 1 or 2 as the API makes it before version 5.\<close>

definition publication_ok :: "Publish \<Rightarrow> nat \<Rightarrow> bool" where
  "publication_ok pack qos \<longleftrightarrow> pb_topic pack \<noteq> None \<and> pb_MQTTVersion pack < 5 \<and> 0 \<le> pb_payloadlen pack \<and>
     nat (pb_payloadlen pack) \<le> length (pb_payload pack) \<and> qos \<in> {1, 2}"

text \<open>A completion code of the network.\<close>

definition send_code :: "('n, 'f) env \<Rightarrow> int \<Rightarrow> bool" where
  "send_code E rc \<longleftrightarrow> (\<exists>so f bs m n. rc = fst (WebSocket_putdatas (e_net E) so f bs m n))"

lemma put_frame_code: "put_frame E i buf bufs m s = (rc, m', s') \<Longrightarrow> send_code E rc"
  by (auto simp: put_frame_def send_code_def Let_def split: prod.splits) (metis fst_conv)

text \<open>The four buffers of a PUBLISH.\<close>

definition publish_bufs :: "Publish \<Rightarrow> bytes list" where
  "publish_bufs pack = (let t = c_str (the (pb_topic pack)) in
     [writeInt (int (length t)), t, writeInt (pb_msgId pack), publish_payload pack])"

text \<open>What the network answers to the frame of a PUBLISH.\<close>

definition publish_code :: "('n, 'f) env \<Rightarrow> int \<Rightarrow> Publish \<Rightarrow> nat \<Rightarrow> nat \<Rightarrow> 'n \<Rightarrow> int" where
  "publish_code E sock pack qos retained n = fst (WebSocket_putdatas (e_net E) sock
     (mk_header PUBLISH 0 qos retained # vbi (length (concat (publish_bufs pack)))) (publish_bufs pack) (pb_mask pack) n)"

lemma send_publish_similar:
  assumes "lists_ok (e_lists E)" "heap_total (e_heap E)" "sender_inv E sock i s" "publication_ok pack qos"
  shows "\<exists>rc m s'. MQTTPacket_send_publish E pack dup qos retained i s = Inr (rc, pack\<lparr>pb_mask := m\<rparr>, s') \<and> similar s s' \<and> send_code E rc \<and>
    put_frame E i (mk_header PUBLISH dup qos retained # vbi (length (concat (publish_bufs pack)))) (publish_bufs pack)
      (pb_mask pack) s = (rc, m, s')"
proof -
  from assms(4) obtain t where p: "pb_topic pack = Some t" "pb_MQTTVersion pack < 5" "0 < qos"
    and d: "memcpy_src (pb_payload pack) (pb_payloadlen pack) = Inr (publish_payload pack)"
    by (auto simp: publication_ok_def memcpy_src_def publish_payload_def size_t_of_def)
  let ?h = "mk_header PUBLISH dup qos retained"
  let ?bufs = "[writeInt (int (length (c_str t))), c_str t, writeInt (pb_msgId pack), publish_payload pack]"
  let ?buf = "?h # vbi (sum_list (map length ?bufs))"
  obtain rc m s' where pf: "put_frame E i ?buf ?bufs (pb_mask pack) s = (rc, m, s')"
    by (cases "put_frame E i ?buf ?bufs (pb_mask pack) s") auto
  obtain r where r: "readInt (writeInt (pb_msgId pack)) 0 = Inr r" using readInt_writeInt_start by blast
  have nz: "writeInt (pb_msgId pack) \<noteq> []" by (simp add: writeInt_def Let_def)
  have sends: "MQTTPacket_sends E i ?h ?bufs (pb_mask pack) (pb_MQTTVersion pack) s = Inr (rc, m, s')"
    using assms(2) r pf put_nothing [OF assms(1,3)]
    by (cases r) (auto simp: MQTTPacket_sends_def encode_count put_frame_def Let_def split: prod.splits)
  have f: "fill 2 (writeInt (pb_msgId pack)) = Inr (writeInt (pb_msgId pack))"
    using fill_exact [of "writeInt (pb_msgId pack)"] by simp
  have "MQTTPacket_send_publish E pack dup qos retained i s = Inr (rc, pack\<lparr>pb_mask := m\<rparr>, s')"
    using assms(2) p d f sends
    by (simp add: MQTTPacket_send_publish_def topic_and_payload_def size_t_of_def Let_def)
  moreover have "?bufs = publish_bufs pack" using p(1) by (simp add: publish_bufs_def Let_def)
  moreover have "sum_list (map length ?bufs) = length (concat ?bufs)" by (simp only: length_concat)
  ultimately show ?thesis using similar_put_frame [OF pf] put_frame_code [OF pf] pf by metis
qed

text \<open>The masked publication, the last step.\<close>

lemma sender_mask:
  assumes "lists_ok (e_lists E)" "sender_inv E sock i s" "map_of (g_publications s) a = Some p"
  shows "\<exists>ps. set_pub E a (p\<lparr>pu_mask := msk\<rparr>) s = Inr (s\<lparr>g_publications := ps\<rparr>) \<and>
    sender_inv E sock i (s\<lparr>g_publications := ps\<rparr>) \<and> out_view i (s\<lparr>g_publications := ps\<rparr>) = out_view i s \<and>
    map_of ps = (map_of (g_publications s))(a \<mapsto> p\<lparr>pu_mask := msk\<rparr>)"
proof -
  let ?out = "c_outboundMsgs (g_clients s ! i)"
  from set_pub_eq [OF assms(1,3), of "p\<lparr>pu_mask := msk\<rparr>"] obtain ps where
    ps: "set_pub E a (p\<lparr>pu_mask := msk\<rparr>) s = Inr (s\<lparr>g_publications := ps\<rparr>)"
    "map_of ps = (map_of (g_publications s))(a \<mapsto> p\<lparr>pu_mask := msk\<rparr>)" "map fst ps = map fst (g_publications s)" by blast
  from assms(2) have inv: "i < length (g_clients s)" "distinct (map ms_msgid ?out)" "distinct (map ms_publish ?out)"
    "\<forall>m\<in>set ?out. out_ok (map_of (g_publications s)) m" "pubs_ok s" by (simp_all add: sender_inv_def)
  have "sender_inv E sock i (s\<lparr>g_publications := ps\<rparr>) \<and> out_view i (s\<lparr>g_publications := ps\<rparr>) = map out_item ?out"
  proof (rule sender_replace [OF assms(2) _ _ inv(2,3)])
    show "pubs_ok (s\<lparr>g_publications := ps\<rparr>)"
      using inv(5) unfolding pubs_ok_fst by (simp add: ps(3))
    show "\<forall>m\<in>set ?out. out_ok (map_of (g_publications (s\<lparr>g_publications := ps\<rparr>))) m"
    proof
      fix m assume "m \<in> set ?out"
      then have "out_ok (map_of (g_publications s)) m" using inv(4) by simp
      then show "out_ok (map_of (g_publications (s\<lparr>g_publications := ps\<rparr>))) m"
        using assms(3) by (auto simp: out_ok_def sendable_def ps(2))
    qed
  qed simp
  with ps(1,2) show ?thesis by (auto simp: out_view_def)
qed

lemma sender_append:
  assumes "sender_inv E sock i s" "out = c_outboundMsgs (g_clients s ! i)" "ms_msgid m \<notin> ms_msgid ` set out"
    and "ms_publish m = Some (g_fresh s)" "ms_qos m = 1 \<or> ms_qos m = 2 \<and> ms_nextMessageType m = Some PUBREC"
    and "ms_MQTTVersion m < 5" "sendable p"
    and "s' = s\<lparr>g_publications := g_publications s @ [(g_fresh s, p)], g_fresh := g_fresh s + 1, g_net := n,
      g_clients := (g_clients s)[i := (g_clients s ! i)\<lparr>c_outboundMsgs := out @ [m]\<rparr>]\<rparr>"
  shows "sender_inv E sock i s' \<and> out_view i s' = out_view i s @ [out_item m]"
proof -
  from assms(1) have inv: "distinct (map ms_msgid out)" "distinct (map ms_publish out)"
    "\<forall>m\<in>set out. out_ok (map_of (g_publications s)) m" "pubs_ok s" by (simp_all add: sender_inv_def assms(2))
  have none: "map_of (g_publications s) (g_fresh s) = None" using pubs_okD [OF inv(4)] by simp
  have old: "ms_publish x \<noteq> Some (g_fresh s)" if "x \<in> set out" for x
    using inv(3) that none by (auto simp: out_ok_def)
  have M: "map_of (g_publications s') = (map_of (g_publications s))(g_fresh s \<mapsto> p)"
    using none by (auto simp: assms(8) map_of_append fun_eq_iff map_add_def split: option.split)
  have "sender_inv E sock i s' \<and> out_view i s' = map out_item (out @ [m])"
  proof (rule sender_replace [OF assms(1)])
    show "pubs_ok s'" using inv(4) by (auto simp: pubs_ok_def assms(8))
    show "distinct (map ms_msgid (out @ [m]))" using inv(1) assms(3) by auto
    show "distinct (map ms_publish (out @ [m]))" proof -
      have "ms_publish m \<notin> ms_publish ` set out"
      proof
        assume "ms_publish m \<in> ms_publish ` set out"
        then obtain x where "x \<in> set out" "ms_publish x = ms_publish m" by (metis imageE)
        with old [of x] assms(4) show False by simp
      qed
      with inv(2) show ?thesis by simp
    qed
    show "\<forall>x\<in>set (out @ [m]). out_ok (map_of (g_publications s')) x"
    proof
      fix x assume "x \<in> set (out @ [m])"
      then consider "x \<in> set out" | "x = m" by auto
      then show "out_ok (map_of (g_publications s')) x"
      proof cases
        case 1
        then show ?thesis using out_ok_cong [OF _ bind_upd [OF old [OF 1]]] inv(3) unfolding M by blast
      next
        case 2
        then show ?thesis using assms(4-7) by (auto simp: out_ok_def M)
      qed
    qed
  qed (simp add: assms(8))
  then show ?thesis by (simp add: out_view_def flip: assms(2))
qed

lemma start_publish_v3:
  assumes "lists_ok (e_lists E)" "heap_total (e_heap E)" "sender_inv E sock i s" "publication_ok pack qos"
    and "pb_msgId pack \<notin> fst ` set (out_view i s)"
  shows "\<exists>rc pack' m s'. MQTTProtocol_startPublish E i pack qos retained None s = Inr (rc, pack', Some m, s') \<and>
    ms_msgid m = pb_msgId pack \<and> sender_inv E sock i s' \<and>
    out_view i s' = a_start (pb_msgId pack) qos (out_view i s) \<and> sent_only i s s' \<and> send_code E rc \<and>
    rc = publish_code E sock pack qos retained (snd (clock_gettime (e_net E) (g_net s)))"
proof -
  define out where "out = c_outboundMsgs (g_clients s ! i)"
  define a where "a = g_fresh s"
  from assms(4) obtain t where pk: "pb_topic pack = Some t" "pb_MQTTVersion pack < 5" "0 < qos" "qos = 1 \<or> qos = 2"
    by (auto simp: publication_ok_def)
  have l: "list_lib_ok (l_msgs (e_lists E))" "list_lib_ok (l_pubs (e_lists E))" using assms(1) by (simp_all add: lists_ok_def)
  have inv: "i < length (g_clients s)" "pubs_ok s" using assms(3) by (simp_all add: sender_inv_def)
  define p where "p = \<lparr>pu_topic = Some t, pu_topiclen = pb_topiclen pack, pu_payload = Some (pb_payload pack),
    pu_payloadlen = pb_payloadlen pack, pu_refcount = 1, pu_mask = pb_mask pack\<rparr>"
  define s1 where "s1 = s\<lparr>g_publications := g_publications s @ [(a, p)], g_fresh := Suc a\<rparr>"
  obtain tv n where tm: "time_now E s1 = (tv, s1\<lparr>g_net := n\<rparr>)" and n: "n = snd (clock_gettime (e_net E) (g_net s))"
    by (cases "clock_gettime (e_net E) (g_net s1)") (auto simp: time_now_def s1_def)
  define m where "m = \<lparr>ms_qos = int qos, ms_retain = int retained, ms_msgid = pb_msgId pack,
    ms_MQTTVersion = pb_MQTTVersion pack, ms_properties = None, ms_publish = Some a, ms_lastTouch = tv,
    ms_nextMessageType = (if qos = 2 then Some PUBREC else None)\<rparr>"
  define pack1 where "pack1 = pack\<lparr>pb_topic := None, pb_payload := []\<rparr>"
  have create: "MQTTProtocol_createMessage E pack None qos retained False s = Inr (Some m, pack1, s1\<lparr>g_net := n\<rparr>)"
    using assms(2) pk tm l(2)
    by (simp add: MQTTProtocol_createMessage_def MQTTProtocol_storePublication_def list_libD m_def pack1_def
        Let_def flip: a_def p_def s1_def)
  define s2 where "s2 = upd_client i (\<lambda>c. c\<lparr>c_outboundMsgs := ListAppend (l_msgs (e_lists E)) (c_outboundMsgs c) m\<rparr>)
    (s1\<lparr>g_net := n\<rparr>)"
  have inv2: "sender_inv E sock i s2 \<and> out_view i s2 = out_view i s @ [out_item m]"
  proof (rule sender_append [OF assms(3) out_def])
    show "ms_msgid m \<notin> ms_msgid ` set out" using assms(5) by (simp add: m_def out_view_def image_image flip: out_def)
    show "s2 = s\<lparr>g_publications := g_publications s @ [(g_fresh s, p)], g_fresh := g_fresh s + 1, g_net := n,
      g_clients := (g_clients s)[i := (g_clients s ! i)\<lparr>c_outboundMsgs := out @ [m]\<rparr>]\<rparr>"
      using l(1) by (simp add: s2_def s1_def upd_client_def list_libD a_def out_def)
    show "sendable p" using assms(4) by (simp add: p_def sendable_def publication_ok_def null_bytes_def)
  qed (use pk in \<open>auto simp: m_def p_def a_def\<close>)
  have Mp: "map_of (g_publications s2) a = Some p"
    using pubs_okD [OF inv(2), of a] by (simp add: s2_def s1_def upd_client_def a_def map_of_append map_add_Some_iff)
  define q where "q = pack1\<lparr>pb_payload := pb_payload pack, pb_topic := Some t,
    pb_properties := MQTTProperties_initializer, pb_MQTTVersion := pb_MQTTVersion pack\<rparr>"
  have q: "publication_ok q qos" using assms(4) pk by (simp add: q_def pack1_def publication_ok_def)
  from send_publish_similar [OF assms(1,2) conjunct1 [OF inv2] q] obtain rc msk s3 where
    send: "MQTTPacket_send_publish E q 0 qos retained i s2 = Inr (rc, q\<lparr>pb_mask := msk\<rparr>, s3)" "similar s2 s3" "send_code E rc"
    "put_frame E i (mk_header PUBLISH 0 qos retained # vbi (length (concat (publish_bufs q)))) (publish_bufs q) (pb_mask q) s2
      = (rc, msk, s3)" by blast
  have "snd (clock_gettime (e_net E) (g_net s)) = g_net s2" "publish_bufs q = publish_bufs pack" "pb_mask q = pb_mask pack"
    using n pk(1) by (simp_all add: s2_def s1_def upd_client_def q_def pack1_def publish_bufs_def publish_payload_def)
  then have code: "rc = publish_code E sock pack qos retained (snd (clock_gettime (e_net E) (g_net s)))"
    using send(4) sender_socket [OF conjunct1 [OF inv2]]
    by (auto simp: publish_code_def put_frame_def Let_def socket_of_def split: prod.splits)
  have inv3: "sender_inv E sock i s3" "out_view i s3 = out_view i s2" "map_of (g_publications s3) a = Some p"
    using sender_similar [OF send(2) conjunct1 [OF inv2]] send(2) Mp by (simp_all add: similar_def)
  from sender_mask [OF assms(1) inv3(1,3), of msk] obtain ps4 where
    ps4: "set_pub E a (p\<lparr>pu_mask := msk\<rparr>) s3 = Inr (s3\<lparr>g_publications := ps4\<rparr>)"
      "sender_inv E sock i (s3\<lparr>g_publications := ps4\<rparr>)" "out_view i (s3\<lparr>g_publications := ps4\<rparr>) = out_view i s3"
      "map_of ps4 = (map_of (g_publications s3))(a \<mapsto> p\<lparr>pu_mask := msk\<rparr>)" by blast
  define s4 where "s4 = s3\<lparr>g_publications := ps4\<rparr>"
  note s4 = ps4(1-3) [folded s4_def]
  have "sent_only i s s2"
    using inv(1) l(1) by (auto simp: moved_def s2_def s1_def upd_client_def list_libD put_outbound_def strip_def a_def m_def
        map_of_append map_add_def split: option.split)
  from moved_similar [OF this send(2)] have "sent_only i s s3" using inv(1) by (simp add: s2_def s1_def upd_client_def)
  then have mv: "sent_only i s s4" by (auto simp: moved_def s4_def ps4(4) a_def Let_def)
  have g: "get_pub E a s2 = Inr p" "get_pub E a s3 = Inr p" using Mp inv3(3) by (simp_all add: get_pub_eq [OF assms(1)])
  have "MQTTProtocol_startPublish E i pack qos retained None s = Inr (rc, pack1, Some m, s4)"
  proof -
    have mp: "ms_publish m = Some a" "ms_properties m = None" "ms_MQTTVersion m = pb_MQTTVersion pack"
      by (simp_all add: m_def)
    have qq: "pack\<lparr>pb_payload := null_bytes (pu_payload p), pb_topic := pu_topic p,
      pb_properties := MQTTProperties_initializer\<rparr> = q"
      by (simp add: q_def pack1_def p_def null_bytes_def)
    show ?thesis
      using pk(3) create g send(1) s4(1)
      by (simp add: MQTTProtocol_startPublish_def MQTTProtocol_startPublishCommon_def mp qq Let_def flip: s2_def)
  qed
  moreover have "out_view i s4 = a_start (pb_msgId pack) qos (out_view i s)"
    using s4(3) inv3(2) inv2 pk(4) by (auto simp: a_start_def out_item_def phase_of_def m_def)
  ultimately show ?thesis using s4(2) mv send(3) code by (intro exI [of _ rc] exI [of _ pack1] exI [of _ m] exI [of _ s4]) (simp add: m_def)
qed

subsection \<open>Runs of the sender\<close>

datatype send_event = Started Publish nat nat | Puback Ack | Pubrec Ack | Pubcomp Ack

fun send_step :: "('n, 'f) env \<Rightarrow> int \<Rightarrow> nat \<Rightarrow> send_event \<Rightarrow> ('n, 'f, 'z) sys_scheme \<Rightarrow> ub + ('n, 'f, 'z) sys_scheme" where
  "send_step E sock i (Started pack qos retained) s =
     ub_bind (MQTTProtocol_startPublish E i pack qos retained None s) (\<lambda>(_, _, _, s). Inr s)"
| "send_step E sock i (Puback ack) s = ub_bind (MQTTProtocol_handlePubacks E ack sock False s) (\<lambda>(_, _, s). Inr s)"
| "send_step E sock i (Pubrec ack) s = ub_bind (MQTTProtocol_handlePubrecs E ack sock False s) (\<lambda>(_, _, s). Inr s)"
| "send_step E sock i (Pubcomp ack) s = ub_bind (MQTTProtocol_handlePubcomps E ack sock False s) (\<lambda>(_, _, s). Inr s)"

fun run_sends :: "('n, 'f) env \<Rightarrow> int \<Rightarrow> nat \<Rightarrow> send_event list \<Rightarrow> ('n, 'f, 'z) sys_scheme \<Rightarrow> ub + ('n, 'f, 'z) sys_scheme" where
  "run_sends E sock i [] s = Inr s"
| "run_sends E sock i (e # es) s = ub_bind (send_step E sock i e s) (run_sends E sock i es)"

fun a_send :: "send_event \<Rightarrow> outbound \<Rightarrow> outbound" where
  "a_send (Started pack qos retained) = a_start (pb_msgId pack) qos"
| "a_send (Puback ack) = a_puback (the (ak_msgId ack))"
| "a_send (Pubrec ack) = a_pubrec (the (ak_msgId ack))"
| "a_send (Pubcomp ack) = a_pubcomp (the (ak_msgId ack))"

text \<open>Publishing is started with an id that no outbound message has.\<close>

fun send_ok :: "send_event \<Rightarrow> outbound \<Rightarrow> bool" where
  "send_ok (Started pack qos retained) out \<longleftrightarrow> publication_ok pack qos \<and> pb_msgId pack \<notin> fst ` set out"
| "send_ok (Puback ack) out \<longleftrightarrow> ack_v3 ack"
| "send_ok (Pubrec ack) out \<longleftrightarrow> ack_v3 ack"
| "send_ok (Pubcomp ack) out \<longleftrightarrow> ack_v3 ack"

fun sends_ok :: "send_event list \<Rightarrow> outbound \<Rightarrow> bool" where
  "sends_ok [] out \<longleftrightarrow> True"
| "sends_ok (e # es) out \<longleftrightarrow> send_ok e out \<and> sends_ok es (a_send e out)"

lemma send_step_refines:
  assumes "lists_ok (e_lists E)" "heap_total (e_heap E)" "sender_inv E sock i s" "send_ok e (out_view i s)"
  shows "\<exists>s'. send_step E sock i e s = Inr s' \<and> sender_inv E sock i s' \<and> out_view i s' = a_send e (out_view i s)"
proof (cases e)
  case (Started pack qos retained)
  with assms(4) have "publication_ok pack qos" "pb_msgId pack \<notin> fst ` set (out_view i s)" by simp_all
  from start_publish_v3 [OF assms(1-3) this, of retained] Started show ?thesis by auto
next
  case (Puback ack)
  with handle_puback_v3 [OF assms(1-3), of ack] assms(4) show ?thesis by auto
next
  case (Pubrec ack)
  with handle_pubrec_v3 [OF assms(1-3), of ack] assms(4) show ?thesis by auto
next
  case (Pubcomp ack)
  with handle_pubcomp_v3 [OF assms(1-3), of ack] assms(4) show ?thesis by auto
qed

lemma run_sends_refines:
  assumes "lists_ok (e_lists E)" "heap_total (e_heap E)" "sender_inv E sock i s" "sends_ok es (out_view i s)"
  shows "\<exists>s'. run_sends E sock i es s = Inr s' \<and> sender_inv E sock i s' \<and> out_view i s' = fold a_send es (out_view i s)"
  using assms(3,4)
proof (induction es arbitrary: s)
  case (Cons e es)
  then have "send_ok e (out_view i s)" by simp
  from send_step_refines [OF assms(1,2) Cons.prems(1) this] obtain s1 where
    s1: "send_step E sock i e s = Inr s1" "sender_inv E sock i s1" "out_view i s1 = a_send e (out_view i s)" by blast
  from Cons.prems(2) s1(3) have "sends_ok es (out_view i s1)" by simp
  from Cons.IH [OF s1(2) this] s1 show ?case by auto
qed simp

text \<open>The acknowledgements of a kind among the events.\<close>

definition acked :: "(Ack \<Rightarrow> send_event) \<Rightarrow> int \<Rightarrow> send_event list \<Rightarrow> bool" where
  "acked kind msgid es \<longleftrightarrow> (\<exists>ack. kind ack \<in> set es \<and> the (ak_msgId ack) = msgid)"

lemma acked_Cons: "acked kind msgid es \<Longrightarrow> acked kind msgid (e # es)"
  by (auto simp: acked_def)

lemma a_pubrec_fst [simp]: "map fst (a_pubrec msgid out) = map fst out"
  by (auto simp: a_pubrec_def)

lemma a_pubrec_ids [simp]: "fst ` set (a_pubrec msgid out) = fst ` set out"
  by (metis a_pubrec_fst set_map)

lemma ack_removes:
  assumes "(msgid, ph) \<in> set out" "msgid \<notin> fst ` set (a_send e out)"
  shows "(\<exists>ack. the (ak_msgId ack) = msgid \<and> (e = Puback ack \<and> ph = AwaitPuback \<or> e = Pubcomp ack \<and> ph = AwaitPubcomp))"
proof (cases e)
  case (Started pack qos retained)
  with assms show ?thesis by (force simp: a_start_def)
next
  case (Puback ack)
  with assms show ?thesis by (force simp: a_puback_def)
next
  case (Pubrec ack)
  with assms show ?thesis by force
next
  case (Pubcomp ack)
  with assms show ?thesis by (force simp: a_pubcomp_def)
qed

lemma ack_advances:
  assumes "(msgid, ph) \<in> set out" "msgid \<in> fst ` set (a_send e out)" "distinct (map fst out)" "send_ok e out"
  shows "(msgid, ph) \<in> set (a_send e out) \<or>
    (\<exists>ack. e = Pubrec ack \<and> the (ak_msgId ack) = msgid \<and> ph = AwaitPubrec \<and> (msgid, AwaitPubcomp) \<in> set (a_send e out))"
proof -
  have u: "(msgid, ph') \<in> set out \<Longrightarrow> ph' = ph" for ph' using eq_key_imp_eq_value [OF assms(3) _ assms(1)] by simp
  have sub: "(msgid, ph) \<in> set (a_send e out)" if "set (a_send e out) \<subseteq> set out"
  proof -
    from assms(2) obtain ph' where "(msgid, ph') \<in> set (a_send e out)" by force
    with u that show ?thesis by blast
  qed
  show ?thesis
  proof (cases e)
    case (Started pack qos retained)
    with assms(1) show ?thesis by (simp add: a_start_def)
  next
    case (Puback ack)
    have "set (a_send e out) \<subseteq> set out" unfolding Puback a_send.simps a_puback_def by auto
    with sub show ?thesis by blast
  next
    case (Pubrec ack)
    then show ?thesis using assms(1) by (force simp: a_pubrec_def)
  next
    case (Pubcomp ack)
    have "set (a_send e out) \<subseteq> set out" unfolding Pubcomp a_send.simps a_pubcomp_def by auto
    with sub show ?thesis by blast
  qed
qed

lemma distinct_send: "distinct (map fst out) \<Longrightarrow> send_ok e out \<Longrightarrow> distinct (map fst (a_send e out))"
  by (cases e) (auto simp: a_start_def a_puback_def a_pubcomp_def distinct_map_filter)

text \<open>
  A message leaves the outbound list only when it is acknowledged: \<open>finished\<close> says which
  acknowledgements, in which order, its phase asks for.
\<close>

definition finished :: "int \<Rightarrow> phase \<Rightarrow> send_event list \<Rightarrow> bool" where
  "finished msgid ph es \<longleftrightarrow> (case ph of
     AwaitPuback \<Rightarrow> acked Puback msgid es
   | AwaitPubcomp \<Rightarrow> acked Pubcomp msgid es
   | AwaitPubrec \<Rightarrow> (\<exists>es1 es2. es = es1 @ es2 \<and> acked Pubrec msgid es1 \<and> acked Pubcomp msgid es2))"

lemma finished_Cons: "finished msgid ph es \<Longrightarrow> finished msgid ph (e # es)"
proof (cases ph)
  case AwaitPubrec
  assume "finished msgid ph es"
  then obtain es1 es2 where "es = es1 @ es2" "acked Pubrec msgid es1" "acked Pubcomp msgid es2"
    unfolding finished_def AwaitPubrec by auto
  then have "e # es = (e # es1) @ es2" "acked Pubrec msgid (e # es1)" "acked Pubcomp msgid es2"
    using acked_Cons by simp_all
  then show ?thesis unfolding finished_def AwaitPubrec phase.case by blast
qed (auto simp: finished_def intro: acked_Cons)

lemma kept_until_finished:
  "(msgid, ph) \<in> set out \<Longrightarrow> distinct (map fst out) \<Longrightarrow> sends_ok es out \<Longrightarrow>
    msgid \<notin> fst ` set (fold a_send es out) \<Longrightarrow> finished msgid ph es"
proof (induction es arbitrary: out ph)
  case Nil
  then show ?case by (auto simp: image_iff)
next
  case (Cons e es)
  show ?case
  proof (cases "msgid \<in> fst ` set (a_send e out)")
    case False
    from ack_removes [OF Cons.prems(1) False] show ?thesis
      by (auto simp: finished_def acked_def)
  next
    case True
    have ok: "send_ok e out" "sends_ok es (a_send e out)" using Cons.prems(3) by simp_all
    have d: "distinct (map fst (a_send e out))" using distinct_send [OF Cons.prems(2) ok(1)] .
    have out: "msgid \<notin> fst ` set (fold a_send es (a_send e out))" using Cons.prems(4) by simp
    from ack_advances [OF Cons.prems(1) True Cons.prems(2) ok(1)] show ?thesis
    proof (elim disjE exE conjE)
      assume "(msgid, ph) \<in> set (a_send e out)"
      from Cons.IH [OF this d ok(2) out] show ?thesis by (rule finished_Cons)
    next
      fix ack assume a: "e = Pubrec ack" "the (ak_msgId ack) = msgid" "ph = AwaitPubrec"
        "(msgid, AwaitPubcomp) \<in> set (a_send e out)"
      from Cons.IH [OF a(4) d ok(2) out] have "acked Pubcomp msgid es" by (simp add: finished_def)
      moreover have "acked Pubrec msgid [e]" using a(1,2) by (auto simp: acked_def)
      ultimately have "\<exists>es1 es2. e # es = es1 @ es2 \<and> acked Pubrec msgid es1 \<and> acked Pubcomp msgid es2"
        by (intro exI [of _ "[e]"] exI [of _ es]) simp
      then show ?thesis by (simp add: finished_def a(3))
    qed
  qed
qed

subsection \<open>Claims\<close>

text \<open>
  C2: The sending side of QoS 1 and 2 before version 5 refines the machine of outbound messages. From
  any state in which the outbound list is as the functions leave it, every sequence of publishes
  under free message ids and of acknowledgements, expected or not, runs without undefined behaviour
  whatever the network does, keeps the invariant (distinct ids, every message with its own stored
  publication, in a phase of its QoS) and changes the list as the machine does: an acknowledgement
  affects the message it is for, in the phase it is for, and nothing else.
\<close>

theorem sender_refines:
  assumes "lists_ok (e_lists E)" "heap_total (e_heap E)" "sender_inv E sock i s" "sends_ok es (out_view i s)"
  shows "\<exists>s'. run_sends E sock i es s = Inr s' \<and> sender_inv E sock i s' \<and> out_view i s' = fold a_send es (out_view i s)"
  using run_sends_refines [OF assms] .

definition sample_send :: Publish where
  "sample_send = \<lparr>pb_header = 0, pb_topic = Some [116], pb_topiclen = 1, pb_msgId = 7, pb_payload = [104, 105],
     pb_payloadlen = 2, pb_MQTTVersion = 4, pb_properties = MQTTProperties_initializer, pb_mask = [0, 0, 0, 0]\<rparr>"

definition sample_ack :: "byte \<Rightarrow> Ack" where
  "sample_ack h = \<lparr>ak_header = h, ak_msgId = Some 7, ak_rc = None, ak_MQTTVersion = 4, ak_properties = None\<rparr>"

lemma blank_sender: "sender_inv std_env 5 0 (blank_sys blank_client fs)" "out_view 0 (blank_sys blank_client fs) = []"
  by (simp_all add: sender_inv_def pubs_ok_def out_view_def) (simp_all add: blank_client_def)

lemma sample_sends_ok:
  "sends_ok [Started sample_send 2 0, Pubrec (sample_ack 80), Pubcomp (sample_ack 112)] []"
  "sends_ok [Started sample_send 2 0, Pubrec (sample_ack 80)] []"
  by (simp_all add: publication_ok_def sample_send_def ack_v3_def sample_ack_def)

theorem sender_refines_witness:
  "\<exists>s'. run_sends std_env 5 0 [Started sample_send 2 0, Pubrec (sample_ack 80)] (blank_sys blank_client ()) = Inr s' \<and>
     out_view 0 s' = [(7, AwaitPubcomp)]"
  using sender_refines [OF std_env_ok blank_sender(1), of "[Started sample_send 2 0, Pubrec (sample_ack 80)]" "()"]
    sample_sends_ok(2)
  by (auto simp: blank_sender a_start_def a_pubrec_def sample_send_def sample_ack_def simp del: run_sends.simps)

text \<open>
  C16: Publishes and acknowledgements drop no message. If an outbound message is no longer in the list
  after a run of publishes and acknowledgement handlers, whatever acknowledgements come and whatever
  the network does, the run contains the acknowledgements its phase asks for, for its id and in order:
  a PUBACK for QoS 1, a PUBREC and after it a PUBCOMP for QoS 2, the PUBCOMP alone once the PUBREC was
  there. The run closes no session: closing a clean one does drop its messages (C38).
\<close>

theorem outbound_not_dropped:
  assumes "lists_ok (e_lists E)" "heap_total (e_heap E)" "sender_inv E sock i s" "sends_ok es (out_view i s)"
    and "(msgid, ph) \<in> set (out_view i s)" "run_sends E sock i es s = Inr s'" "msgid \<notin> fst ` set (out_view i s')"
  shows "finished msgid ph es"
proof -
  from run_sends_refines [OF assms(1-4)] assms(6) have "out_view i s' = fold a_send es (out_view i s)" by simp
  moreover have "distinct (map fst (out_view i s))" using assms(3) by (simp add: sender_inv_def out_view_def o_def)
  ultimately show ?thesis using kept_until_finished [OF assms(5) _ assms(4)] assms(7) by simp
qed

theorem outbound_not_dropped_witness:
  "\<exists>s s' :: (unit, unit) sys. out_view 0 s = [(7, AwaitPubrec)] \<and>
     run_sends std_env 5 0 [Pubrec (sample_ack 80), Pubcomp (sample_ack 112)] s = Inr s' \<and> 7 \<notin> fst ` set (out_view 0 s') \<and>
     finished 7 AwaitPubrec [Pubrec (sample_ack 80), Pubcomp (sample_ack 112)]"
proof -
  let ?es = "[Pubrec (sample_ack 80), Pubcomp (sample_ack 112)]"
  have "sends_ok [Started sample_send 2 0] (out_view 0 (blank_sys blank_client ()))"
    using sample_sends_ok(2) by (simp add: blank_sender)
  from run_sends_refines [OF std_env_ok blank_sender(1) this] obtain s :: "(unit, unit) sys" where
    s: "sender_inv std_env 5 0 s" "out_view 0 s = [(7, AwaitPubrec)]"
    by (auto simp: blank_sender a_start_def sample_send_def simp del: run_sends.simps)
  have ok: "sends_ok ?es (out_view 0 s)" by (simp add: ack_v3_def sample_ack_def)
  from run_sends_refines [OF std_env_ok s(1) ok] obtain s' where
    s': "run_sends std_env 5 0 ?es s = Inr s'" "out_view 0 s' = fold a_send ?es (out_view 0 s)" by blast
  have gone: "7 \<notin> fst ` set (out_view 0 s')"
    unfolding s'(2) s(2) by (simp add: a_pubrec_def a_pubcomp_def sample_ack_def)
  from outbound_not_dropped [OF std_env_ok s(1) ok _ s'(1) gone, of AwaitPubrec] s(2)
  have "finished 7 AwaitPubrec ?es" by simp
  with s(2) s'(1) gone show ?thesis by blast
qed

end
