(* ===== verification/Restore.thy ===== *)
theory Restore
  imports Sender
begin

section \<open>Restoring a client: \<^verbatim>\<open>src/include/MQTTPersistence.c\<close>\<close>

text \<open>
  \<^verbatim>\<open>MQTTPersistence_initialize\<close> and \<^verbatim>\<open>MQTTPersistence_restorePackets\<close>: opening the store of a client
  and building its message lists from the records in it, as after a crash of the program.
\<close>

subsection \<open>The functions\<close>

text \<open>
  The version of the data of a key and the key it is handled as. A version 5 key is replaced by
  the stem without the 5, which is then compared like a key.
\<close>

definition data_key :: "key \<Rightarrow> int \<times> key" where
  "data_key k =
     (if has_stem k PERSISTENCE_V5_PUBLISH_RECEIVED then (MQTTVERSION_5, PERSISTENCE_PUBLISH_RECEIVED)
      else if has_stem k PERSISTENCE_V5_PUBLISH_SENT then (MQTTVERSION_5, PERSISTENCE_PUBLISH_SENT)
      else if has_stem k PERSISTENCE_V5_PUBREL then (MQTTVERSION_5, PERSISTENCE_PUBREL)
      else (MQTTVERSION_3_1_1, k))"

text \<open>
  A received PUBLISH goes to the inbound list, to wait for its PUBREL. In version 5 it has been
  delivered already, so its payload and topic are released.
\<close>

definition restore_received :: "('n, 'f) env \<Rightarrow> nat \<Rightarrow> Publish \<Rightarrow> ('n, 'f, 'z) sys_scheme \<Rightarrow> ub + ('n, 'f, 'z) sys_scheme" where
  "restore_received E i publish s =
     (let publish = publish\<lparr>pb_MQTTVersion := c_MQTTVersion (g_clients s ! i)\<rparr>;
          h = pb_header publish
      in ub_bind (MQTTProtocol_createMessage E publish None (hd_qos h) (hd_retain h) True s) (\<lambda>(r, publish, s).
        case r of None \<Rightarrow> Inl NullDeref
        | Some msg \<Rightarrow>
           let msg = msg\<lparr>ms_nextMessageType := Some PUBREL\<rparr>;
               s = upd_client i (\<lambda>c. c\<lparr>c_inboundMsgs := ListAppend (l_msgs (e_lists E)) (c_inboundMsgs c) msg\<rparr>) s
           in ub_bind
             (if c_MQTTVersion (g_clients s ! i) \<ge> MQTTVERSION_5
              then case ms_publish msg of None \<Rightarrow> Inl NullDeref
                | Some a \<Rightarrow> ub_bind (get_pub E a s) (\<lambda>p. set_pub E a (p\<lparr>pu_payload := None, pu_topic := None\<rparr>) s)
              else Inr s)
             (\<lambda>s. ub_bind (MQTTPacket_freePublish (publish\<lparr>pb_topic := None\<rparr>)) (\<lambda>_. Inr s))))"

text \<open>
  A sent PUBLISH goes to the outbound list; when its PUBREL is stored too, it waits for the
  PUBCOMP. The last touch of zero lets it be retried at once. The result is the return code and
  whether the function is left at once.
\<close>

definition restore_sent ::
    "('n, 'f) env \<Rightarrow> 'f MQTTClient_persistence \<Rightarrow> nat \<Rightarrow> Publish \<Rightarrow> ('n, 'f, 'z) sys_scheme \<Rightarrow> ub + (int \<times> bool \<times> ('n, 'f, 'z) sys_scheme)" where
  "restore_sent E per i publish s =
     (if \<not> e_heap E (ReqBuffer keysize) then Inr (PAHO_MEMORY_ERROR, True, s)
      else
       let c = g_clients s ! i;
           publish = publish\<lparr>pb_MQTTVersion := c_MQTTVersion c\<rparr>;
           (key, chars) = print_key (if pb_MQTTVersion publish \<ge> MQTTVERSION_5 then PERSISTENCE_V5_PUBREL
             else PERSISTENCE_PUBREL) (pb_msgId publish);
           h = pb_header publish
       in if chars \<ge> keysize then Inr (MQTTCLIENT_PERSISTENCE_ERROR, False, s)
       else ub_bind (MQTTProtocol_createMessage E publish None (hd_qos h) (hd_retain h) True s) (\<lambda>(r, publish, s).
         let (found, fs) = pcontainskey per (c_phandle c) key (g_fs s); s = s\<lparr>g_fs := fs\<rparr> in
         case r of None \<Rightarrow> Inl NullDeref
         | Some msg \<Rightarrow>
            let msg = msg\<lparr>ms_nextMessageType := (if found = 0 then Some PUBCOMP else ms_nextMessageType msg),
                          ms_lastTouch := START_TIME_ZERO\<rparr>;
                s = upd_client i (\<lambda>c. c\<lparr>c_outboundMsgs :=
                      MQTTPersistence_insertInOrder (l_msgs (e_lists E)) (c_outboundMsgs c) msg\<rparr>) s
            in ub_bind (MQTTPacket_freePublish (publish\<lparr>pb_topic := None\<rparr>)) (\<lambda>_. Inr (0, False, s))))"

text \<open>A PUBREL without its PUBLISH is removed.\<close>

definition restore_pubrel ::
    "('n, 'f) env \<Rightarrow> 'f MQTTClient_persistence \<Rightarrow> nat \<Rightarrow> key \<Rightarrow> Ack \<Rightarrow> ('n, 'f, 'z) sys_scheme
      \<Rightarrow> ub + (int \<times> bool \<times> ('n, 'f, 'z) sys_scheme)" where
  "restore_pubrel E per i msgkey pubrel s =
     (if \<not> e_heap E (ReqBuffer keysize) then Inr (PAHO_MEMORY_ERROR, True, s)
      else ub_bind (ack_id pubrel) (\<lambda>msgId.
       let c = g_clients s ! i;
           (key, chars) = print_key (if c_MQTTVersion c \<ge> MQTTVERSION_5 then PERSISTENCE_V5_PUBLISH_SENT
             else PERSISTENCE_PUBLISH_SENT) msgId
       in if chars \<ge> keysize then Inr (MQTTCLIENT_PERSISTENCE_ERROR, False, s)
       else let (found, fs) = pcontainskey per (c_phandle c) key (g_fs s);
                (rc, fs) = (if found \<noteq> 0 then premove per (c_phandle c) msgkey fs else (0, fs))
            in Inr (rc, False, s\<lparr>g_fs := fs\<rparr>)))"

text \<open>One record; a packet that is not of the type of its key is used as if it were.\<close>

definition restore_record ::
    "('n, 'f) env \<Rightarrow> 'f MQTTClient_persistence \<Rightarrow> nat \<Rightarrow> key \<Rightarrow> bytes \<Rightarrow> ('n, 'f, 'z) sys_scheme
      \<Rightarrow> ub + (int \<times> bool \<times> ('n, 'f, 'z) sys_scheme)" where
  "restore_record E per i msgkey buffer s =
     (let c = g_clients s ! i; (version, cur_key) = data_key msgkey in
      if version = MQTTVERSION_5 \<and> c_MQTTVersion c < MQTTVERSION_5
      then Inr (MQTTCLIENT_PERSISTENCE_ERROR, True, s)
      else ub_bind (MQTTPersistence_restorePacket (l_codes (e_lists E)) (e_heap E) version buffer (length buffer))
       (\<lambda>pack. case pack of
          None \<Rightarrow> let (rc, fs) = premove per (c_phandle c) msgkey (g_fs s) in Inr (rc, False, s\<lparr>g_fs := fs\<rparr>)
        | Some pack \<Rightarrow>
            if has_stem cur_key PERSISTENCE_PUBLISH_RECEIVED then (case pack of
                PkPublish publish \<Rightarrow> ub_bind (restore_received E i publish s) (\<lambda>s. Inr (0, False, s))
              | _ \<Rightarrow> Inl WrongMember)
            else if has_stem cur_key PERSISTENCE_PUBLISH_SENT then (case pack of
                PkPublish publish \<Rightarrow> restore_sent E per i publish s
              | _ \<Rightarrow> Inl WrongMember)
            else if has_stem cur_key PERSISTENCE_PUBREL then (case pack of
                PkAck pubrel \<Rightarrow> restore_pubrel E per i msgkey pubrel s
              | _ \<Rightarrow> Inl WrongMember)
            else Inr (0, False, s)))"

fun restore_loop ::
    "('n, 'f) env \<Rightarrow> 'f MQTTClient_persistence \<Rightarrow> nat \<Rightarrow> key list \<Rightarrow> int \<Rightarrow> ('n, 'f, 'z) sys_scheme
      \<Rightarrow> ub + (int \<times> bool \<times> ('n, 'f, 'z) sys_scheme)" where
  "restore_loop E per i [] rc s = Inr (rc, False, s)"
| "restore_loop E per i (key # keys) rc s =
     (if rc \<noteq> 0 then Inr (rc, False, s)
      else if has_stem key PERSISTENCE_COMMAND_KEY \<or> has_stem key PERSISTENCE_V5_COMMAND_KEY
        \<or> has_stem key PERSISTENCE_QUEUE_KEY \<or> has_stem key PERSISTENCE_V5_QUEUE_KEY
      then restore_loop E per i keys rc s
      else
       let c = g_clients s ! i;
           (rc, buffer, fs) = pget per (c_phandle c) key (g_fs s);
           (rc, buffer, fs) = (if rc \<noteq> 0 then (rc, buffer, fs) else case c_afterRead c of
               None \<Rightarrow> (rc, buffer, fs) | Some cb \<Rightarrow> cb buffer fs);
           s = s\<lparr>g_fs := fs\<rparr>
       in if rc \<noteq> 0 then restore_loop E per i keys rc s
       else ub_bind (restore_record E per i key buffer s) (\<lambda>(rc, leave, s).
         if leave then Inr (rc, True, s) else restore_loop E per i keys rc s))"

definition MQTTPersistence_restorePackets ::
    "('n, 'f) env \<Rightarrow> nat \<Rightarrow> ('n, 'f, 'z) sys_scheme \<Rightarrow> ub + (int \<times> ('n, 'f, 'z) sys_scheme)" where
  "MQTTPersistence_restorePackets E i s =
     ub_bind (case c_persistence (g_clients s ! i) of
         None \<Rightarrow> Inr (0, False, s)
       | Some per \<Rightarrow>
          let (rc, msgkeys, fs) = pkeys per (c_phandle (g_clients s ! i)) (g_fs s); s = s\<lparr>g_fs := fs\<rparr> in
          if rc \<noteq> 0 then Inr (rc, False, s) else restore_loop E per i msgkeys rc s)
       (\<lambda>(rc, leave, s). Inr (rc, if leave then s
          else upd_client i (\<lambda>c. c\<lparr>c_outboundMsgs := MQTTPersistence_wrapMsgID (c_outboundMsgs c)\<rparr>) s))"

text \<open>The handle is set only when the directory could be made.\<close>

definition MQTTPersistence_initialize ::
    "('n, 'f) env \<Rightarrow> nat \<Rightarrow> bytes \<Rightarrow> ('n, 'f, 'z) sys_scheme \<Rightarrow> ub + (int \<times> ('n, 'f, 'z) sys_scheme)" where
  "MQTTPersistence_initialize E i serverURI s =
     (let c = g_clients s ! i in
      case c_persistence c of
        None \<Rightarrow> Inr (0, s)
      | Some per \<Rightarrow>
         let (rc, handle, fs) = popen per (c_clientID c) serverURI (pcontext per) (g_fs s);
             s = upd_client i (\<lambda>c. c\<lparr>c_phandle := (if handle = None then c_phandle c else handle)\<rparr>) (s\<lparr>g_fs := fs\<rparr>)
         in if rc = 0 then MQTTPersistence_restorePackets E i s else Inr (rc, s))"

subsection \<open>Messages made from records\<close>

lemma create_restored:
  assumes "lists_ok (e_lists E)" "heap_total (e_heap E)" "pubs_ok s"
    and "pb_topic p = Some t" "pb_payloadlen p = int (length (pb_payload p))" "pb_MQTTVersion p < 5"
  shows "\<exists>ps n tv. MQTTProtocol_createMessage E p None qos retained True s =
      Inr (Some \<lparr>ms_qos = int qos, ms_retain = int retained, ms_msgid = pb_msgId p,
          ms_MQTTVersion = pb_MQTTVersion p, ms_properties = None, ms_publish = Some (g_fresh s),
          ms_lastTouch = tv, ms_nextMessageType = (if qos = 2 then Some PUBREC else None)\<rparr>,
        p\<lparr>pb_topic := None, pb_payload := []\<rparr>,
        s\<lparr>g_publications := ps, g_fresh := Suc (g_fresh s), g_net := n\<rparr>) \<and>
    map_of ps = (map_of (g_publications s))(g_fresh s \<mapsto> \<lparr>pu_topic = Some t, pu_topiclen = pb_topiclen p,
      pu_payload = Some (pb_payload p), pu_payloadlen = pb_payloadlen p, pu_refcount = 1, pu_mask = pb_mask p\<rparr>) \<and>
    map fst ps = map fst (g_publications s) @ [g_fresh s]"
proof -
  define a where "a = g_fresh s"
  define q where "q = \<lparr>pu_topic = Some t, pu_topiclen = pb_topiclen p,
      pu_payload = Some (pb_payload p), pu_payloadlen = pb_payloadlen p, pu_refcount = 1, pu_mask = pb_mask p\<rparr>"
  define s1 where "s1 = s\<lparr>g_publications := g_publications s @ [(a, q)], g_fresh := Suc a\<rparr>"
  have l: "list_lib_ok (l_pubs (e_lists E))" using assms(1) by (simp add: lists_ok_def)
  have store: "MQTTProtocol_storePublication E p s = Inr (Some a, p\<lparr>pb_topic := None, pb_payload := []\<rparr>, s1)"
    using assms(2,4) l by (simp add: MQTTProtocol_storePublication_def list_libD Let_def s1_def q_def a_def)
  have none: "map_of (g_publications s) a = None" using pubs_okD [OF assms(3)] by (simp add: a_def)
  have M1: "map_of (g_publications s1) = (map_of (g_publications s))(a \<mapsto> q)"
    using none by (auto simp: s1_def map_of_append fun_eq_iff map_add_def split: option.split)
  from own_payload_eq [OF assms(1,2), of s1 a q] obtain ps where
    own: "own_payload E a s1 = Inr (True, s1\<lparr>g_publications := ps\<rparr>)"
      "map_of ps = (map_of (g_publications s1))(a \<mapsto> q)" "map fst ps = map fst (g_publications s1)"
    using assms(5) by (auto simp: M1 q_def null_bytes_def)
  obtain tv n where tm: "time_now E (s1\<lparr>g_publications := ps\<rparr>) = (tv, s1\<lparr>g_publications := ps, g_net := n\<rparr>)"
    by (cases "clock_gettime (e_net E) (g_net s1)") (auto simp: time_now_def)
  have "MQTTProtocol_createMessage E p None qos retained True s = Inr (Some \<lparr>ms_qos = int qos,
      ms_retain = int retained, ms_msgid = pb_msgId p, ms_MQTTVersion = pb_MQTTVersion p, ms_properties = None,
      ms_publish = Some a, ms_lastTouch = tv, ms_nextMessageType = (if qos = 2 then Some PUBREC else None)\<rparr>,
      p\<lparr>pb_topic := None, pb_payload := []\<rparr>, s1\<lparr>g_publications := ps, g_net := n\<rparr>)"
    using assms(2,6) tm by (simp add: MQTTProtocol_createMessage_def store own(1))
  moreover have "map_of ps = (map_of (g_publications s))(a \<mapsto> q)" using own(2) by (simp add: M1)
  moreover have "map fst ps = map fst (g_publications s) @ [a]" using own(3) by (simp add: s1_def)
  ultimately show ?thesis
    by (intro exI [of _ ps] exI [of _ n] exI [of _ tv]) (simp add: s1_def flip: a_def q_def)
qed

text \<open>A publication at a new address leaves the messages there are alone.\<close>

lemma fresh_address:
  assumes "pubs_ok s" "map_of ps = (map_of (g_publications s))(g_fresh s \<mapsto> q)"
    "map fst ps = map fst (g_publications s) @ [g_fresh s]"
  shows "pubs_ok (s\<lparr>g_publications := ps, g_fresh := Suc (g_fresh s), g_net := n\<rparr>)"
    "out_ok (map_of (g_publications s)) m \<Longrightarrow>
      ms_publish m \<noteq> Some (g_fresh s) \<and> out_ok (map_of ps) m \<and> msg_item (map_of ps) m = msg_item (map_of (g_publications s)) m"
    "held_ok (map_of (g_publications s)) m \<Longrightarrow>
      ms_publish m \<noteq> Some (g_fresh s) \<and> held_ok (map_of ps) m \<and> msg_item (map_of ps) m = msg_item (map_of (g_publications s)) m"
proof -
  have none: "map_of (g_publications s) (g_fresh s) = None" using pubs_okD [OF assms(1)] by simp
  show "pubs_ok (s\<lparr>g_publications := ps, g_fresh := Suc (g_fresh s), g_net := n\<rparr>)"
    using assms(1,3) by (auto simp: pubs_ok_fst)
  show "out_ok (map_of (g_publications s)) m \<Longrightarrow>
      ms_publish m \<noteq> Some (g_fresh s) \<and> out_ok (map_of ps) m \<and> msg_item (map_of ps) m = msg_item (map_of (g_publications s)) m"
    using none by (auto simp: out_ok_def msg_item_def assms(2))
  show "held_ok (map_of (g_publications s)) m \<Longrightarrow>
      ms_publish m \<noteq> Some (g_fresh s) \<and> held_ok (map_of ps) m \<and> msg_item (map_of ps) m = msg_item (map_of (g_publications s)) m"
    using none by (auto simp: held_ok_def msg_item_def assms(2))
qed

subsection \<open>What is in the store\<close>

text \<open>
  A record is a frame: fixed header, remaining length and body. \<open>saves\<close> says that the store holds,
  beside records of the message queue and of commands, which are left alone, exactly the PUBLISH
  packets \<open>sent\<close> and \<open>recd\<close> by their message ids, and a PUBREL for the ids in \<open>rel\<close>.
\<close>

definition frame :: "byte \<Rightarrow> bytes \<Rightarrow> bytes" where
  "frame header body = header # vbi (length body) @ body"

definition publish_record :: "Publish \<Rightarrow> bytes" where
  "publish_record p = frame (pb_header p) (publish_body (hd_qos (pb_header p)) p)"

definition pubrel_record :: "int \<Rightarrow> bytes" where
  "pubrel_record msgid = frame (mk_header PUBREL 0 1 0) (writeInt msgid)"

definition saved_publish :: "int \<Rightarrow> Publish \<Rightarrow> bool" where
  "saved_publish msgid p \<longleftrightarrow> publish_ok p \<and> pb_MQTTVersion p < 5 \<and> pb_msgId p = msgid \<and>
     hd_type (pb_header p) = PUBLISH \<and> hd_qos (pb_header p) \<in> {1, 2} \<and>
     length (publish_body (hd_qos (pb_header p)) p) < 268435456"

definition queue_or_command :: "key \<Rightarrow> bool" where
  "queue_or_command k \<longleftrightarrow> has_stem k PERSISTENCE_COMMAND_KEY \<or> has_stem k PERSISTENCE_V5_COMMAND_KEY \<or>
     has_stem k PERSISTENCE_QUEUE_KEY \<or> has_stem k PERSISTENCE_V5_QUEUE_KEY"

definition saves :: "string \<Rightarrow> filesys \<Rightarrow> (int \<rightharpoonup> Publish) \<Rightarrow> int set \<Rightarrow> (int \<rightharpoonup> Publish) \<Rightarrow> bool" where
  "saves dir fs sent rel recd \<longleftrightarrow> store_ok dir fs \<and>
     (\<forall>m. stored dir fs (PERSISTENCE_PUBLISH_SENT @ show_int m) = map_option publish_record (sent m)) \<and>
     (\<forall>m. stored dir fs (PERSISTENCE_PUBREL @ show_int m) = (if m \<in> rel then Some (pubrel_record m) else None)) \<and>
     (\<forall>m. stored dir fs (PERSISTENCE_PUBLISH_RECEIVED @ show_int m) = map_option publish_record (recd m)) \<and>
     (\<forall>k. good_key k \<and> stored dir fs k \<noteq> None \<longrightarrow> queue_or_command k \<or>
        (\<exists>st\<in>{PERSISTENCE_PUBLISH_SENT, PERSISTENCE_PUBREL, PERSISTENCE_PUBLISH_RECEIVED}. \<exists>m. k = st @ show_int m)) \<and>
     (\<forall>m p. sent m = Some p \<longrightarrow> saved_publish m p) \<and>
     (\<forall>m\<in>rel. 0 \<le> m \<and> m \<le> MAX_MSG_ID \<and> sent m \<noteq> None) \<and>
     (\<forall>m p. recd m = Some p \<longrightarrow> saved_publish m p \<and> hd_qos (pb_header p) = 2)"

lemma restore_publish_record:
  assumes "saved_publish msgid p" "heap_total H"
  shows "\<exists>p'. MQTTPersistence_restorePacket L H MQTTVERSION_3_1_1 (publish_record p) (length (publish_record p)) =
      Inr (Some (PkPublish p')) \<and>
    pb_header p' = pb_header p \<and> pb_topic p' = pb_topic p \<and> pb_msgId p' = msgid \<and>
    pb_payload p' = publish_payload p \<and> pb_payloadlen p' = int (length (pb_payload p'))"
proof -
  let ?q = "hd_qos (pb_header p)" and ?p = "p\<lparr>pb_MQTTVersion := MQTTVERSION_3_1_1\<rparr>"
  have ok: "publish_ok ?p" and v: "pb_MQTTVersion ?p = MQTTVERSION_3_1_1"
    using assms(1) by (simp_all add: saved_publish_def publish_ok_def version_defs)
  have b: "publish_body ?q ?p = publish_body ?q p" "publish_payload ?p = publish_payload p"
    using assms(1) by (simp_all add: saved_publish_def publish_body_def publish_props_def publish_payload_def version_defs)
  from MQTTPacket_publish_body [OF assms(2) ok refl, of "pb_header p"] obtain p' where
    p': "MQTTPacket_publish H MQTTVERSION_3_1_1 (pb_header p) (publish_body ?q p) (length (publish_body ?q p)) = Inr (Some p')"
      "pb_header p' = pb_header p" "pb_topic p' = pb_topic p" "pb_msgId p' = (if 0 < ?q then pb_msgId p else 0)"
      "pb_payload p' = publish_payload p" "pb_payloadlen p' = int (length (publish_payload p))"
    unfolding b v by auto
  have "MQTTPersistence_restorePacket L H MQTTVERSION_3_1_1 (publish_record p) (length (publish_record p)) =
      call_pf F_publish L H MQTTVERSION_3_1_1 (pb_header p) (publish_body ?q p) (length (publish_body ?q p))"
    using assms(1) unfolding publish_record_def frame_def saved_publish_def
    by (subst restorePacket_frame) (auto simp: msgTypes_defs new_packets_def)
  with p' assms(1) show ?thesis by (auto simp: call_pf_def saved_publish_def)
qed

lemma restore_pubrel_record:
  assumes "0 \<le> msgid" "msgid \<le> MAX_MSG_ID" "heap_total H"
  shows "\<exists>a. MQTTPersistence_restorePacket L H MQTTVERSION_3_1_1 (pubrel_record msgid) (length (pubrel_record msgid)) =
      Inr (Some (PkAck a)) \<and> ak_msgId a = Some msgid"
proof -
  have t: "hd_type (mk_header PUBREL 0 1 0) = PUBREL" by (simp add: mk_header_def hd_type_def msgTypes_defs)
  have "readInt (writeInt msgid) 0 = Inr (msgid, 2)"
    using readInt_before [of msgid "[]" "[]"] assms(1,2) by (simp add: MAX_MSG_ID_def)
  then show ?thesis
    unfolding pubrel_record_def frame_def
    by (subst restorePacket_frame) (use assms(3) t in \<open>auto simp: msgTypes_defs new_packets_def call_pf_def
        MQTTPacket_ack_def version_defs\<close>)
qed

subsection \<open>One record after the other\<close>

lemma mset_insertInOrder:
  assumes "list_lib_ok L"
  shows "mset (MQTTPersistence_insertInOrder L xs m) = add_mset m (mset xs)"
proof -
  have "mset (takeWhile P xs) + mset (dropWhile P xs) = mset xs" for P
    by (metis mset_append takeWhile_dropWhile_id)
  then show ?thesis by (simp add: insertInOrder_eq [OF assms])
qed

lemma distinct_insertInOrder:
  "list_lib_ok L \<Longrightarrow> distinct (map f (MQTTPersistence_insertInOrder L xs m)) \<longleftrightarrow> distinct (map f (m # xs))"
  by (intro mset_eq_imp_distinct_iff) (simp only: mset_map mset_insertInOrder mset.simps)

text \<open>The outbound message of a stored PUBLISH, and the two lists after the keys \<open>K\<close>.\<close>

definition sent_item :: "int set \<Rightarrow> Publish \<Rightarrow> (int \<times> phase) \<times> item" where
  "sent_item rel p =
     ((pb_msgId p, if hd_qos (pb_header p) = 1 then AwaitPuback
        else if pb_msgId p \<in> rel then AwaitPubcomp else AwaitPubrec),
      (pb_msgId p, null_bytes (pb_topic p), publish_payload p))"

definition recd_item :: "Publish \<Rightarrow> item" where
  "recd_item p = (pb_msgId p, null_bytes (pb_topic p), publish_payload p)"

definition out_full :: "(nat \<rightharpoonup> Publications) \<Rightarrow> Messages \<Rightarrow> (int \<times> phase) \<times> item" where
  "out_full M m = (out_item m, msg_item M m)"

definition among :: "(int \<rightharpoonup> Publish) \<Rightarrow> string \<Rightarrow> key set \<Rightarrow> Publish set" where
  "among recs stem K = {p. \<exists>m. recs m = Some p \<and> stem @ show_int m \<in> K}"

definition lists_restored ::
    "(int \<rightharpoonup> Publish) \<Rightarrow> int set \<Rightarrow> (int \<rightharpoonup> Publish) \<Rightarrow> key set \<Rightarrow> (nat \<rightharpoonup> Publications) \<Rightarrow> Messages list \<Rightarrow> Messages list \<Rightarrow> bool" where
  "lists_restored sent rel recd K M out inb \<longleftrightarrow>
     sorted (map ms_msgid out) \<and> distinct (map ms_msgid out) \<and> distinct (map ms_msgid inb) \<and>
     distinct (map ms_publish (out @ inb)) \<and> (\<forall>m\<in>set out. out_ok M m) \<and> (\<forall>m\<in>set inb. held_ok M m) \<and>
     out_full M ` set out = sent_item rel ` among sent PERSISTENCE_PUBLISH_SENT K \<and>
     msg_item M ` set inb = recd_item ` among recd PERSISTENCE_PUBLISH_RECEIVED K"

lemma among_insert:
  assumes "st \<in> set stems" "st' \<in> set stems"
  shows "among recs st (insert (st' @ show_int m) K) =
    (if st' = st then (case recs m of None \<Rightarrow> {} | Some p \<Rightarrow> {p}) else {}) \<union> among recs st K"
proof -
  have "st @ show_int n = st' @ show_int m \<longleftrightarrow> st' = st \<and> n = m" for n
    using key_inj [OF assms(1,2), of n m] by auto
  then show ?thesis by (auto simp: among_def split: option.splits)
qed

lemma v3_stems:
  "PERSISTENCE_PUBLISH_SENT \<in> set stems" "PERSISTENCE_PUBREL \<in> set stems" "PERSISTENCE_PUBLISH_RECEIVED \<in> set stems"
  "PERSISTENCE_PUBLISH_SENT \<noteq> PERSISTENCE_PUBREL" "PERSISTENCE_PUBLISH_SENT \<noteq> PERSISTENCE_PUBLISH_RECEIVED"
  "PERSISTENCE_PUBREL \<noteq> PERSISTENCE_PUBLISH_RECEIVED"
  by (simp_all add: stems_def stem_defs)

lemmas among_keys = among_insert [OF v3_stems(1) v3_stems(1)] among_insert [OF v3_stems(1) v3_stems(2)]
  among_insert [OF v3_stems(1) v3_stems(3)] among_insert [OF v3_stems(3) v3_stems(1)]
  among_insert [OF v3_stems(3) v3_stems(2)] among_insert [OF v3_stems(3) v3_stems(3)]

lemma ids_restored:
  assumes "lists_restored sent rel recd K M out inb"
    and "\<forall>m p. sent m = Some p \<longrightarrow> pb_msgId p = m" "\<forall>m p. recd m = Some p \<longrightarrow> pb_msgId p = m"
  shows "PERSISTENCE_PUBLISH_SENT @ show_int m \<notin> K \<Longrightarrow> m \<notin> ms_msgid ` set out"
    "PERSISTENCE_PUBLISH_RECEIVED @ show_int m \<notin> K \<Longrightarrow> m \<notin> ms_msgid ` set inb"
proof -
  have o: "ms_msgid x = fst (fst (out_full M x))" and i: "ms_msgid x = fst (msg_item M x)" for x
    by (simp_all add: out_full_def msg_item_def split: option.split)
  show "m \<notin> ms_msgid ` set out" if k: "PERSISTENCE_PUBLISH_SENT @ show_int m \<notin> K"
  proof
    assume "m \<in> ms_msgid ` set out"
    then have "m \<in> fst ` fst ` out_full M ` set out" using o by (force simp: image_image)
    also have "out_full M ` set out = sent_item rel ` among sent PERSISTENCE_PUBLISH_SENT K"
      using assms(1) by (simp add: lists_restored_def)
    finally show False using assms(2) k by (auto simp: among_def sent_item_def)
  qed
  show "m \<notin> ms_msgid ` set inb" if k: "PERSISTENCE_PUBLISH_RECEIVED @ show_int m \<notin> K"
  proof
    assume "m \<in> ms_msgid ` set inb"
    then have "m \<in> fst ` msg_item M ` set inb" using i by (force simp: image_image)
    also have "msg_item M ` set inb = recd_item ` among recd PERSISTENCE_PUBLISH_RECEIVED K"
      using assms(1) by (simp add: lists_restored_def)
    finally show False using assms(3) k by (auto simp: among_def recd_item_def)
  qed
qed

text \<open>A new message with its publication at a new address.\<close>

lemma lists_restored_out:
  assumes "lists_restored sent rel recd K (map_of (g_publications s)) out inb" "pubs_ok s"
    and "map_of ps = (map_of (g_publications s))(g_fresh s \<mapsto> q)"
      "map fst ps = map fst (g_publications s) @ [g_fresh s]"
    and "\<forall>m p. sent m = Some p \<longrightarrow> pb_msgId p = m" "\<forall>m p. recd m = Some p \<longrightarrow> pb_msgId p = m"
    and "sent m = Some p" "PERSISTENCE_PUBLISH_SENT @ show_int m \<notin> K"
    and "ms_msgid x = m" "ms_publish x = Some (g_fresh s)" "out_ok (map_of ps) x" "out_full (map_of ps) x = sent_item rel p"
    and "list_lib_ok L"
  shows "lists_restored sent rel recd (insert (PERSISTENCE_PUBLISH_SENT @ show_int m) K) (map_of ps)
    (MQTTPersistence_insertInOrder L out x) inb"
proof -
  note fr = fresh_address [OF assms(2-4)]
  have r: "\<forall>m\<in>set out. out_ok (map_of (g_publications s)) m" "\<forall>m\<in>set inb. held_ok (map_of (g_publications s)) m"
    "sorted (map ms_msgid out)" "distinct (map ms_msgid out)" "distinct (map ms_msgid inb)" "distinct (map ms_publish (out @ inb))"
    "out_full (map_of (g_publications s)) ` set out = sent_item rel ` among sent PERSISTENCE_PUBLISH_SENT K"
    "msg_item (map_of (g_publications s)) ` set inb = recd_item ` among recd PERSISTENCE_PUBLISH_RECEIVED K"
    using assms(1) by (simp_all add: lists_restored_def)
  let ?out = "MQTTPersistence_insertInOrder L out x"
  have ms: "mset ?out = mset (x # out)" by (simp add: mset_insertInOrder [OF assms(13)])
  then have st: "set ?out = insert x (set out)" by (metis list.simps(15) mset_eq_setD)
  note di = distinct_insertInOrder [OF assms(13)]
  have new: "ms_publish x \<notin> ms_publish ` (set out \<union> set inb)"
    using fr(2,3) r(1,2) assms(10) by force
  have fo: "out_full (map_of ps) ` set out = out_full (map_of (g_publications s)) ` set out"
    by (intro image_cong refl) (use fr(2) r(1) in \<open>simp add: out_full_def\<close>)
  have fi: "msg_item (map_of ps) ` set inb = msg_item (map_of (g_publications s)) ` set inb"
    by (intro image_cong refl) (use fr(3) r(2) in simp)
  have "sorted (map ms_msgid ?out)" unfolding insertInOrder_eq [OF assms(13)] by (rule sorted_insert_key [OF r(3)])
  moreover have "distinct (map ms_msgid ?out)"
    using r(4) ids_restored(1) [OF assms(1,5,6,8)] assms(9) by (simp add: di)
  moreover have "distinct (map ms_publish (?out @ inb))"
    using r(6) new by (simp add: di st) blast
  moreover have "\<forall>m\<in>set ?out. out_ok (map_of ps) m" "\<forall>m\<in>set inb. held_ok (map_of ps) m"
    using fr(2,3) r(1,2) assms(11) st by auto
  ultimately show ?thesis
    using r(5,7,8) assms(7,12) fo fi
    by (simp add: lists_restored_def st among_keys v3_stems v3_stems(4-6) [symmetric])
qed

lemma lists_restored_in:
  assumes "lists_restored sent rel recd K (map_of (g_publications s)) out inb" "pubs_ok s"
    and "map_of ps = (map_of (g_publications s))(g_fresh s \<mapsto> q)"
      "map fst ps = map fst (g_publications s) @ [g_fresh s]"
    and "\<forall>m p. sent m = Some p \<longrightarrow> pb_msgId p = m" "\<forall>m p. recd m = Some p \<longrightarrow> pb_msgId p = m"
    and "recd m = Some p" "PERSISTENCE_PUBLISH_RECEIVED @ show_int m \<notin> K"
    and "ms_msgid x = m" "ms_publish x = Some (g_fresh s)" "held_ok (map_of ps) x" "msg_item (map_of ps) x = recd_item p"
  shows "lists_restored sent rel recd (insert (PERSISTENCE_PUBLISH_RECEIVED @ show_int m) K) (map_of ps) out (inb @ [x])"
proof -
  note fr = fresh_address [OF assms(2-4)]
  have r: "\<forall>m\<in>set out. out_ok (map_of (g_publications s)) m" "\<forall>m\<in>set inb. held_ok (map_of (g_publications s)) m"
    using assms(1) by (simp_all add: lists_restored_def)
  have new: "ms_publish x \<notin> ms_publish ` (set out \<union> set inb)"
    using fr(2,3) r assms(10) by force
  have fo: "out_full (map_of ps) ` set out = out_full (map_of (g_publications s)) ` set out"
    by (intro image_cong refl) (use fr(2) r(1) in \<open>simp add: out_full_def\<close>)
  have fi: "msg_item (map_of ps) ` set inb = msg_item (map_of (g_publications s)) ` set inb"
    by (intro image_cong refl) (use fr(3) r(2) in simp)
  have "\<forall>m\<in>set out. out_ok (map_of ps) m" "\<forall>m\<in>set (inb @ [x]). held_ok (map_of ps) m"
    using fr(2,3) r assms(11) by auto
  moreover have "ms_msgid x \<notin> ms_msgid ` set inb" using ids_restored(2) [OF assms(1,5,6,8)] assms(9) by simp
  moreover have "distinct (map ms_publish (out @ inb @ [x]))"
    using assms(1) new by (auto simp: lists_restored_def)
  ultimately show ?thesis
    using assms(1,7,12) fo fi
    by (simp add: lists_restored_def among_keys v3_stems v3_stems(4-6) [symmetric])
qed

lemma lists_restored_skip:
  "(\<And>m. recd m \<noteq> None \<Longrightarrow> k \<noteq> PERSISTENCE_PUBLISH_RECEIVED @ show_int m) \<Longrightarrow>
   (\<And>m. sent m \<noteq> None \<Longrightarrow> k \<noteq> PERSISTENCE_PUBLISH_SENT @ show_int m) \<Longrightarrow>
   lists_restored sent rel recd (insert k K) M out inb = lists_restored sent rel recd K M out inb"
proof -
  assume "\<And>m. recd m \<noteq> None \<Longrightarrow> k \<noteq> PERSISTENCE_PUBLISH_RECEIVED @ show_int m"
    "\<And>m. sent m \<noteq> None \<Longrightarrow> k \<noteq> PERSISTENCE_PUBLISH_SENT @ show_int m"
  then have "among recd PERSISTENCE_PUBLISH_RECEIVED (insert k K) = among recd PERSISTENCE_PUBLISH_RECEIVED K"
    "among sent PERSISTENCE_PUBLISH_SENT (insert k K) = among sent PERSISTENCE_PUBLISH_SENT K"
    by (force simp: among_def)+
  then show ?thesis by (simp add: lists_restored_def)
qed

text \<open>The state of the client while its records are restored.\<close>

definition restoring ::
    "nat \<Rightarrow> 'f Clients \<Rightarrow> 'f \<Rightarrow> (int \<rightharpoonup> Publish) \<Rightarrow> int set \<Rightarrow> (int \<rightharpoonup> Publish) \<Rightarrow> key set \<Rightarrow> ('n, 'f, 'z) sys_scheme \<Rightarrow> bool" where
  "restoring i c fs sent rel recd K s \<longleftrightarrow> i < length (g_clients s) \<and> g_fs s = fs \<and> pubs_ok s \<and>
     (\<exists>out inb. g_clients s ! i = c\<lparr>c_outboundMsgs := out, c_inboundMsgs := inb\<rparr> \<and>
       lists_restored sent rel recd K (map_of (g_publications s)) out inb)"

lemma c_str_publish: "saved_publish m p \<Longrightarrow> \<exists>t. pb_topic p = Some t"
  by (auto simp: saved_publish_def publish_ok_def)

lemma saves_ids:
  assumes "saves dir fs sent rel recd"
  shows "\<forall>m p. sent m = Some p \<longrightarrow> pb_msgId p = m" "\<forall>m p. recd m = Some p \<longrightarrow> pb_msgId p = m"
  using assms by (auto simp: saves_def saved_publish_def)

lemma restoring_received:
  assumes "restoring i c fs sent rel recd K s" "saves dir fs sent rel recd" "lists_ok (e_lists E)" "heap_total (e_heap E)"
    and "c_MQTTVersion c < 5" "recd m = Some p" "PERSISTENCE_PUBLISH_RECEIVED @ show_int m \<notin> K"
    and "pb_header p' = pb_header p" "pb_topic p' = pb_topic p" "pb_msgId p' = m"
      "pb_payload p' = publish_payload p" "pb_payloadlen p' = int (length (pb_payload p'))"
  shows "\<exists>s'. restore_received E i p' s = Inr s' \<and>
    restoring i c fs sent rel recd (insert (PERSISTENCE_PUBLISH_RECEIVED @ show_int m) K) s'"
proof -
  from assms(1) obtain out inb where r: "i < length (g_clients s)" "g_fs s = fs" "pubs_ok s"
    "g_clients s ! i = c\<lparr>c_outboundMsgs := out, c_inboundMsgs := inb\<rparr>"
    "lists_restored sent rel recd K (map_of (g_publications s)) out inb" by (auto simp: restoring_def)
  from assms(2,6) have sv: "saved_publish m p" "hd_qos (pb_header p) = 2" by (auto simp: saves_def)
  from c_str_publish [OF sv(1)] obtain t where t: "pb_topic p = Some t" by blast
  let ?p = "p'\<lparr>pb_MQTTVersion := c_MQTTVersion c\<rparr>"
  have l: "list_lib_ok (l_msgs (e_lists E))" using assms(3) by (simp add: lists_ok_def)
  from create_restored [OF assms(3,4) r(3), of ?p t 2 "hd_retain (pb_header p)"] assms(5,9,11,12) t obtain ps n tv where
    cr: "MQTTProtocol_createMessage E ?p None 2 (hd_retain (pb_header p)) True s =
      Inr (Some \<lparr>ms_qos = 2, ms_retain = int (hd_retain (pb_header p)), ms_msgid = m,
          ms_MQTTVersion = c_MQTTVersion c, ms_properties = None, ms_publish = Some (g_fresh s),
          ms_lastTouch = tv, ms_nextMessageType = Some PUBREC\<rparr>,
        ?p\<lparr>pb_topic := None, pb_payload := []\<rparr>,
        s\<lparr>g_publications := ps, g_fresh := Suc (g_fresh s), g_net := n\<rparr>)"
    "map_of ps = (map_of (g_publications s))(g_fresh s \<mapsto> \<lparr>pu_topic = Some t, pu_topiclen = pb_topiclen p',
      pu_payload = Some (publish_payload p), pu_payloadlen = int (length (publish_payload p)), pu_refcount = 1, pu_mask = pb_mask p'\<rparr>)"
    "map fst ps = map fst (g_publications s) @ [g_fresh s]" using assms(10) by auto
  define x where "x = \<lparr>ms_qos = 2, ms_retain = int (hd_retain (pb_header p)), ms_msgid = m,
    ms_MQTTVersion = c_MQTTVersion c, ms_properties = None, ms_publish = Some (g_fresh s),
    ms_lastTouch = tv, ms_nextMessageType = Some PUBREL\<rparr>"
  define s' where "s' = upd_client i (\<lambda>c. c\<lparr>c_inboundMsgs := inb @ [x]\<rparr>)
    (s\<lparr>g_publications := ps, g_fresh := Suc (g_fresh s), g_net := n\<rparr>)"
  have "restore_received E i p' s = Inr s'"
    using assms(5,8) sv(2) cr(1) r(1,4) l
    by (simp add: restore_received_def Let_def upd_client_def list_libD s'_def x_def version_defs
        MQTTPacket_freePublish_def free_props_def)
  moreover have "held_ok (map_of ps) x" "msg_item (map_of ps) x = recd_item p"
    using assms(5) sv(1) t by (simp_all add: held_ok_def msg_item_def recd_item_def x_def cr(2) null_bytes_def saved_publish_def)
  with lists_restored_in [OF r(5,3) cr(2,3) saves_ids [OF assms(2)] assms(6,7), of x]
  have "lists_restored sent rel recd (insert (PERSISTENCE_PUBLISH_RECEIVED @ show_int m) K) (map_of ps) out (inb @ [x])"
    by (simp add: x_def)
  moreover have "pubs_ok s'"
    using fresh_address(1) [OF r(3) cr(2,3), of n] by (simp add: s'_def upd_client_def pubs_ok_def)
  ultimately show ?thesis using r by (auto simp: restoring_def s'_def upd_client_def)
qed

lemma saved_id: "saved_publish m p \<Longrightarrow> 0 \<le> m \<and> m \<le> MAX_MSG_ID"
  by (auto simp: saved_publish_def publish_ok_def MAX_MSG_ID_def)

lemma restoring_sent:
  assumes "restoring i c fs sent rel recd K s" "saves dir fs sent rel recd" "lists_ok (e_lists E)" "heap_total (e_heap E)"
    and "c_MQTTVersion c < 5" "c_phandle c = Some dir" "sent m = Some p" "PERSISTENCE_PUBLISH_SENT @ show_int m \<notin> K"
    and "pb_header p' = pb_header p" "pb_topic p' = pb_topic p" "pb_msgId p' = m"
      "pb_payload p' = publish_payload p" "pb_payloadlen p' = int (length (pb_payload p'))"
  shows "\<exists>s'. restore_sent E (default_persistence (\<lambda>_. True) ctx) i p' s = Inr (0, False, s') \<and>
    restoring i c fs sent rel recd (insert (PERSISTENCE_PUBLISH_SENT @ show_int m) K) s'"
proof -
  from assms(1) obtain out inb where r: "i < length (g_clients s)" "g_fs s = fs" "pubs_ok s"
    "g_clients s ! i = c\<lparr>c_outboundMsgs := out, c_inboundMsgs := inb\<rparr>"
    "lists_restored sent rel recd K (map_of (g_publications s)) out inb" by (auto simp: restoring_def)
  from assms(2,7) have sv: "saved_publish m p" by (auto simp: saves_def)
  then have qos: "hd_qos (pb_header p) \<in> {1, 2}" by (simp add: saved_publish_def)
  from c_str_publish [OF sv] obtain t where t: "pb_topic p = Some t" by blast
  let ?p = "p'\<lparr>pb_MQTTVersion := c_MQTTVersion c\<rparr>" and ?q = "hd_qos (pb_header p)"
  have l: "list_lib_ok (l_msgs (e_lists E))" using assms(3) by (simp add: lists_ok_def)
  from create_restored [OF assms(3,4) r(3), of ?p t ?q "hd_retain (pb_header p)"] assms(5,10,12,13) t obtain ps n tv where
    cr: "MQTTProtocol_createMessage E ?p None ?q (hd_retain (pb_header p)) True s =
      Inr (Some \<lparr>ms_qos = int ?q, ms_retain = int (hd_retain (pb_header p)), ms_msgid = m,
          ms_MQTTVersion = c_MQTTVersion c, ms_properties = None, ms_publish = Some (g_fresh s),
          ms_lastTouch = tv, ms_nextMessageType = (if ?q = 2 then Some PUBREC else None)\<rparr>,
        ?p\<lparr>pb_topic := None, pb_payload := []\<rparr>,
        s\<lparr>g_publications := ps, g_fresh := Suc (g_fresh s), g_net := n\<rparr>)"
    "map_of ps = (map_of (g_publications s))(g_fresh s \<mapsto> \<lparr>pu_topic = Some t, pu_topiclen = pb_topiclen p',
      pu_payload = Some (publish_payload p), pu_payloadlen = int (length (publish_payload p)), pu_refcount = 1, pu_mask = pb_mask p'\<rparr>)"
    "map fst ps = map fst (g_publications s) @ [g_fresh s]" using assms(11) by auto
  define x where "x = \<lparr>ms_qos = int ?q, ms_retain = int (hd_retain (pb_header p)), ms_msgid = m,
    ms_MQTTVersion = c_MQTTVersion c, ms_properties = None, ms_publish = Some (g_fresh s),
    ms_lastTouch = START_TIME_ZERO,
    ms_nextMessageType = (if m \<in> rel then Some PUBCOMP else if ?q = 2 then Some PUBREC else None)\<rparr>"
  define s' where "s' = upd_client i (\<lambda>c. c\<lparr>c_outboundMsgs := MQTTPersistence_insertInOrder (l_msgs (e_lists E)) out x\<rparr>)
    (s\<lparr>g_publications := ps, g_fresh := Suc (g_fresh s), g_net := n\<rparr>)"
  note pk = print_key_ok [OF v3_stems(2) conjunct1 [OF saved_id [OF sv]] conjunct2 [OF saved_id [OF sv]]]
  have found: "pstcontainskey (\<lambda>_. True) (Some dir) (PERSISTENCE_PUBREL @ show_int m) fs =
      (if m \<in> rel then 0 else MQTTCLIENT_PERSISTENCE_ERROR, fs)"
    using assms(2) pstcontainskey_ok [OF heap_total_top _ pk(3), of dir fs] by (simp add: saves_def)
  have "restore_sent E (default_persistence (\<lambda>_. True) ctx) i p' s = Inr (0, False, s')"
    using assms(4,5,6,9,11) cr(1) r(1,2,4) pk(1,2) found
    by (simp add: restore_sent_def Let_def upd_client_def s'_def x_def version_defs default_persistence_def
        MQTTPacket_freePublish_def free_props_def MQTTCLIENT_PERSISTENCE_ERROR_def)
  moreover have "out_ok (map_of ps) x" "out_full (map_of ps) x = sent_item rel p"
    using assms(5) sv qos t by (auto simp: out_ok_def sendable_def out_full_def out_item_def phase_of_def msg_item_def sent_item_def x_def
        cr(2) null_bytes_def saved_publish_def msgTypes_defs)
  with lists_restored_out [OF r(5,3) cr(2,3) saves_ids [OF assms(2)] assms(7,8) _ _ _ _ l, of x]
  have "lists_restored sent rel recd (insert (PERSISTENCE_PUBLISH_SENT @ show_int m) K) (map_of ps)
      (MQTTPersistence_insertInOrder (l_msgs (e_lists E)) out x) inb"
    by (simp add: x_def)
  moreover have "pubs_ok s'"
    using fresh_address(1) [OF r(3) cr(2,3), of n] by (simp add: s'_def upd_client_def pubs_ok_def)
  moreover have "g_clients s' ! i = c\<lparr>c_outboundMsgs := MQTTPersistence_insertInOrder (l_msgs (e_lists E)) out x,
      c_inboundMsgs := inb\<rparr>" "i < length (g_clients s')" "g_fs s' = fs" "g_publications s' = ps"
    using r(1,2,4) by (simp_all add: s'_def upd_client_def)
  ultimately show ?thesis by (auto simp: restoring_def)
qed

lemma restoring_skip:
  assumes "restoring i c fs sent rel recd K s"
    and "\<And>m. recd m \<noteq> None \<Longrightarrow> k \<noteq> PERSISTENCE_PUBLISH_RECEIVED @ show_int m"
      "\<And>m. sent m \<noteq> None \<Longrightarrow> k \<noteq> PERSISTENCE_PUBLISH_SENT @ show_int m"
  shows "restoring i c fs sent rel recd (insert k K) s"
  using assms(1) lists_restored_skip [of recd k sent rel K] assms(2,3) by (simp add: restoring_def)

lemma restoring_pubrel:
  assumes "restoring i c fs sent rel recd K s" "saves dir fs sent rel recd" "heap_total (e_heap E)"
    and "c_MQTTVersion c < 5" "c_phandle c = Some dir" "m \<in> rel" "ak_msgId a = Some m"
  shows "restore_pubrel E (default_persistence (\<lambda>_. True) ctx) i k a s = Inr (0, False, s)"
proof -
  from assms(2,6) have m: "0 \<le> m" "m \<le> MAX_MSG_ID" "sent m \<noteq> None" by (auto simp: saves_def)
  note pk = print_key_ok [OF v3_stems(1) m(1,2)]
  from m(3) assms(2) have "stored dir fs (PERSISTENCE_PUBLISH_SENT @ show_int m) \<noteq> None" "store_ok dir fs"
    by (auto simp: saves_def)
  then have "pstcontainskey (\<lambda>_. True) (Some dir) (PERSISTENCE_PUBLISH_SENT @ show_int m) fs = (0, fs)"
    using pstcontainskey_ok [OF heap_total_top _ pk(3), of dir fs] by simp
  with assms pk(1,2) show ?thesis
    by (auto simp: restore_pubrel_def ack_id_def Let_def restoring_def version_defs default_persistence_def)
qed

lemma v3_keys:
  "has_stem (PERSISTENCE_PUBLISH_SENT @ cs) st \<longleftrightarrow> st = PERSISTENCE_PUBLISH_SENT"
  "has_stem (PERSISTENCE_PUBREL @ cs) st \<longleftrightarrow> st = PERSISTENCE_PUBREL"
  "has_stem (PERSISTENCE_PUBLISH_RECEIVED @ cs) st \<longleftrightarrow> st = PERSISTENCE_PUBLISH_RECEIVED"
  if "st \<in> set stems"
  using has_stem_iff [OF _ that] v3_stems by auto

lemmas v3_keys_all = v3_keys [of PERSISTENCE_PUBLISH_SENT] v3_keys [of PERSISTENCE_PUBREL]
  v3_keys [of PERSISTENCE_PUBLISH_RECEIVED] v3_keys [of PERSISTENCE_V5_PUBLISH_SENT]
  v3_keys [of PERSISTENCE_V5_PUBREL] v3_keys [of PERSISTENCE_V5_PUBLISH_RECEIVED]
  v3_keys [of PERSISTENCE_COMMAND_KEY] v3_keys [of PERSISTENCE_V5_COMMAND_KEY]
  v3_keys [of PERSISTENCE_QUEUE_KEY] v3_keys [of PERSISTENCE_V5_QUEUE_KEY]

lemma v3_data_key:
  "st \<in> {PERSISTENCE_PUBLISH_SENT, PERSISTENCE_PUBREL, PERSISTENCE_PUBLISH_RECEIVED} \<Longrightarrow>
    data_key (st @ cs) = (MQTTVERSION_3_1_1, st @ cs)"
  by (auto simp: data_key_def has_stem_def stem_defs)

lemma restoring_record:
  assumes "restoring i c fs sent rel recd K s" "saves dir fs sent rel recd" "lists_ok (e_lists E)" "heap_total (e_heap E)"
    and "c_MQTTVersion c < 5" "c_phandle c = Some dir"
    and "good_key k" "\<not> queue_or_command k" "stored dir fs k = Some b" "k \<notin> K"
  shows "\<exists>s'. restore_record E (default_persistence (\<lambda>_. True) ctx) i k b s = Inr (0, False, s') \<and>
    restoring i c fs sent rel recd (insert k K) s'"
proof -
  let ?per = "default_persistence (\<lambda>_. True) ctx"
  from assms(1) have v: "c_MQTTVersion (g_clients s ! i) < 5" using assms(5) by (auto simp: restoring_def)
  from assms(2,7-9) obtain st m where st: "st \<in> {PERSISTENCE_PUBLISH_SENT, PERSISTENCE_PUBREL, PERSISTENCE_PUBLISH_RECEIVED}"
    "k = st @ show_int m" unfolding saves_def by blast
  have unfold_record: "restore_record E ?per i k b s =
    ub_bind (MQTTPersistence_restorePacket (l_codes (e_lists E)) (e_heap E) MQTTVERSION_3_1_1 b (length b))
       (\<lambda>pack. case pack of
          None \<Rightarrow> let (rc, fs) = premove ?per (c_phandle (g_clients s ! i)) k (g_fs s) in Inr (rc, False, s\<lparr>g_fs := fs\<rparr>)
        | Some pack \<Rightarrow>
            if st = PERSISTENCE_PUBLISH_RECEIVED then (case pack of
                PkPublish publish \<Rightarrow> ub_bind (restore_received E i publish s) (\<lambda>s. Inr (0, False, s))
              | _ \<Rightarrow> Inl WrongMember)
            else if st = PERSISTENCE_PUBLISH_SENT then (case pack of
                PkPublish publish \<Rightarrow> restore_sent E ?per i publish s
              | _ \<Rightarrow> Inl WrongMember)
            else (case pack of PkAck pubrel \<Rightarrow> restore_pubrel E ?per i k pubrel s | _ \<Rightarrow> Inl WrongMember))"
    using st v unfolding restore_record_def st(2) v3_data_key [OF st(1)]
    by (auto simp: Let_def version_defs v3_keys_all v3_stems v3_stems(4-6) [symmetric] split: option.split)
  consider "st = PERSISTENCE_PUBLISH_RECEIVED" | "st = PERSISTENCE_PUBLISH_SENT" | "st = PERSISTENCE_PUBREL"
    using st(1) by blast
  then show ?thesis
  proof cases
    case 1
    with assms(2,9) st(2) obtain p where p: "recd m = Some p" "b = publish_record p" by (auto simp: saves_def)
    with assms(2) have "saved_publish m p" by (auto simp: saves_def)
    from restore_publish_record [OF this assms(4), of "l_codes (e_lists E)"] obtain p' where
      p': "MQTTPersistence_restorePacket (l_codes (e_lists E)) (e_heap E) MQTTVERSION_3_1_1 b (length b) = Inr (Some (PkPublish p'))"
      "pb_header p' = pb_header p" "pb_topic p' = pb_topic p" "pb_msgId p' = m"
      "pb_payload p' = publish_payload p" "pb_payloadlen p' = int (length (pb_payload p'))" unfolding p(2) by blast
    from restoring_received [OF assms(1-5) p(1) _ p'(2-6)] assms(10) st(2) 1 p'(1)
    show ?thesis unfolding unfold_record by (auto simp: v3_stems)
  next
    case 2
    with assms(2,9) st(2) obtain p where p: "sent m = Some p" "b = publish_record p" by (auto simp: saves_def)
    with assms(2) have "saved_publish m p" by (auto simp: saves_def)
    from restore_publish_record [OF this assms(4), of "l_codes (e_lists E)"] obtain p' where
      p': "MQTTPersistence_restorePacket (l_codes (e_lists E)) (e_heap E) MQTTVERSION_3_1_1 b (length b) = Inr (Some (PkPublish p'))"
      "pb_header p' = pb_header p" "pb_topic p' = pb_topic p" "pb_msgId p' = m"
      "pb_payload p' = publish_payload p" "pb_payloadlen p' = int (length (pb_payload p'))" unfolding p(2) by blast
    from restoring_sent [OF assms(1-6) p(1) _ p'(2-6)] assms(10) st(2) 2 p'(1)
    show ?thesis unfolding unfold_record by (auto simp: v3_stems)
  next
    case 3
    with assms(2,9) st(2) have m: "m \<in> rel" "b = pubrel_record m" by (auto simp: saves_def split: if_splits)
    with assms(2) have "0 \<le> m" "m \<le> MAX_MSG_ID" by (auto simp: saves_def)
    from restore_pubrel_record [OF this assms(4), of "l_codes (e_lists E)"] obtain a where
      a: "MQTTPersistence_restorePacket (l_codes (e_lists E)) (e_heap E) MQTTVERSION_3_1_1 b (length b) = Inr (Some (PkAck a))"
      "ak_msgId a = Some m" unfolding m(2) by blast
    have "restoring i c fs sent rel recd (insert k K) s"
      using st(2) 3 key_inj v3_stems by (intro restoring_skip [OF assms(1)]) metis+
    with restoring_pubrel [OF assms(1,2,4,5,6) m(1) a(2)] a(1) 3 show ?thesis
      unfolding unfold_record by (simp add: v3_stems v3_stems(4-6) [symmetric])
  qed
qed

lemma restore_loop_ok:
  assumes "restoring i c fs sent rel recd K s" "saves dir fs sent rel recd" "lists_ok (e_lists E)" "heap_total (e_heap E)"
    and "c_MQTTVersion c < 5" "c_phandle c = Some dir" "c_afterRead c = None"
    and "distinct ks" "set ks \<inter> K = {}" "\<forall>k\<in>set ks. good_key k \<and> stored dir fs k \<noteq> None"
  shows "\<exists>s'. restore_loop E (default_persistence (\<lambda>_. True) ctx) i ks 0 s = Inr (0, False, s') \<and>
    restoring i c fs sent rel recd (set ks \<union> K) s'"
  using assms(1,8-10)
proof (induction ks arbitrary: K s)
  case (Cons k ks)
  let ?per = "default_persistence (\<lambda>_. True) ctx"
  show ?case
  proof (cases "queue_or_command k")
    case True
    then have "k \<noteq> st @ show_int m" if "st \<in> {PERSISTENCE_PUBLISH_SENT, PERSISTENCE_PUBLISH_RECEIVED}" for st m
      using that by (auto simp: queue_or_command_def has_stem_def stem_defs)
    then have r: "restoring i c fs sent rel recd (insert k K) s" by (intro restoring_skip [OF Cons.prems(1)]) simp_all
    have "restore_loop E ?per i (k # ks) 0 s = restore_loop E ?per i ks 0 s"
      using True by (auto simp: queue_or_command_def)
    with Cons.IH [OF r] Cons.prems show ?thesis by auto
  next
    case False
    from Cons.prems(4) obtain b where k: "good_key k" "stored dir fs k = Some b" by auto
    from Cons.prems(1) have cl: "g_fs s = fs" "c_phandle (g_clients s ! i) = Some dir" "c_afterRead (g_clients s ! i) = None"
      using assms(6,7) by (auto simp: restoring_def)
    have get: "pstget (\<lambda>_. True) (Some dir) k fs = (0, b, fs)"
      using pst.get_law [of dir fs k] assms(2) k by (simp add: saves_def)
    from restoring_record [OF Cons.prems(1) assms(2-6) k(1) False k(2)] Cons.prems(3) obtain s1 where
      s1: "restore_record E ?per i k b s = Inr (0, False, s1)" "restoring i c fs sent rel recd (insert k K) s1" by auto
    have fs: "s\<lparr>g_fs := fs\<rparr> = s" using cl(1) by auto
    have "restore_loop E ?per i (k # ks) 0 s = restore_loop E ?per i ks 0 s1"
      using False cl get s1(1) by (auto simp: queue_or_command_def default_persistence_def fs)
    with Cons.IH [OF s1(2)] Cons.prems show ?thesis by auto
  qed
qed (simp add: restoring_def)

text \<open>
  C9: Recovery after a crash. If the store of a client holds what the library writes while it runs,
  the PUBLISH packets sent and not yet completed, the PUBRELs sent, the QoS 2 messages received and
  not yet released, beside queue entries, then \<^verbatim>\<open>MQTTPersistence_restorePackets\<close> before version 5
  builds exactly the message lists these records stand for: one outbound message for every stored
  PUBLISH, with its id, topic and payload, waiting for the PUBACK, the PUBREC or, when its PUBREL is
  stored, the PUBCOMP; and one inbound message for every received one. Ids are distinct, the outbound
  list is sorted by id but for the rotation of \<^verbatim>\<open>MQTTPersistence_wrapMsgID\<close>, every message has a
  publication of its own, and no record is lost or changed.
\<close>

theorem messages_restored:
  assumes "saves dir fs sent rel recd" "lists_ok (e_lists E)" "heap_total (e_heap E)"
    and "i < length (g_clients s)" "g_fs s = fs" "pubs_ok s" "c = g_clients s ! i"
    and "c_persistence c = Some (default_persistence (\<lambda>_. True) ctx)" "c_phandle c = Some dir" "c_afterRead c = None"
    and "c_MQTTVersion c < 5" "c_inboundMsgs c = []" "c_outboundMsgs c = []"
  shows "\<exists>s' out inb ordered w. MQTTPersistence_restorePackets E i s = Inr (0, s') \<and> g_fs s' = fs \<and>
    g_clients s' ! i = c\<lparr>c_outboundMsgs := out, c_inboundMsgs := inb\<rparr> \<and>
    out = drop w ordered @ take w ordered \<and> sorted (map ms_msgid ordered) \<and>
    distinct (map ms_msgid out) \<and> distinct (map ms_msgid inb) \<and> distinct (map ms_publish (out @ inb)) \<and>
    (\<forall>m\<in>set out. out_ok (map_of (g_publications s')) m) \<and> (\<forall>m\<in>set inb. held_ok (map_of (g_publications s')) m) \<and>
    out_full (map_of (g_publications s')) ` set out = sent_item rel ` ran sent \<and>
    msg_item (map_of (g_publications s')) ` set inb = recd_item ` ran recd"
proof -
  have st: "store_ok dir fs" using assms(1) by (simp add: saves_def)
  from pst.keys_law [OF st] obtain ks where ks: "pstkeys (\<lambda>_. True) (Some dir) fs = (0, ks, fs)" "distinct ks"
    "set ks = {k. good_key k \<and> stored dir fs k \<noteq> None}" by blast
  have "lists_restored sent rel recd {} M [] []" for M by (simp add: lists_restored_def among_def)
  then have r0: "restoring i c fs sent rel recd {} s"
    using assms(4-7,12,13) unfolding restoring_def by (intro conjI exI [of _ "[]"]) auto
  have good: "\<forall>k\<in>set ks. good_key k \<and> stored dir fs k \<noteq> None" using ks(3) by simp
  from restore_loop_ok [OF r0 assms(1-3,11,9,10) ks(2) Int_empty_right good, of ctx] obtain s1 where
    s1: "restore_loop E (default_persistence (\<lambda>_. True) ctx) i ks 0 s = Inr (0, False, s1)"
    "restoring i c fs sent rel recd (set ks) s1" unfolding Un_empty_right by blast
  from s1(2) obtain out inb where r: "i < length (g_clients s1)" "g_fs s1 = fs"
    "g_clients s1 ! i = c\<lparr>c_outboundMsgs := out, c_inboundMsgs := inb\<rparr>"
    "lists_restored sent rel recd (set ks) (map_of (g_publications s1)) out inb" by (auto simp: restoring_def)
  have "\<exists>w. MQTTPersistence_wrapMsgID out = drop w out @ take w out"
  proof (cases "out = []")
    case False
    from wrapMsgID_rotates [OF this] show ?thesis by blast
  qed (simp add: MQTTPersistence_wrapMsgID_def)
  then obtain w where w: "MQTTPersistence_wrapMsgID out = drop w out @ take w out" by blast
  define out' where "out' = drop w out @ take w out"
  have ms: "mset out' = mset out" by (metis out'_def append_take_drop_id mset_append union_commute)
  then have so: "set out' = set out" by (metis mset_eq_setD)
  have "mset (map ms_msgid out') = mset (map ms_msgid out)" using ms by simp
  moreover have "mset (map ms_publish (out' @ inb)) = mset (map ms_publish (out @ inb))" using ms by simp
  ultimately have di: "distinct (map ms_msgid out') = distinct (map ms_msgid out)"
    "distinct (map ms_publish (out' @ inb)) = distinct (map ms_publish (out @ inb))"
    by (blast dest: mset_eq_imp_distinct_iff)+
  have fs: "s\<lparr>g_fs := fs\<rparr> = s" using assms(5) by auto
  have pk: "pkeys (default_persistence (\<lambda>_. True) ctx) = pstkeys (\<lambda>_. True)" by (simp add: default_persistence_def)
  have res: "MQTTPersistence_restorePackets E i s =
      Inr (0, upd_client i (\<lambda>c. c\<lparr>c_outboundMsgs := MQTTPersistence_wrapMsgID (c_outboundMsgs c)\<rparr>) s1)"
    unfolding MQTTPersistence_restorePackets_def assms(8,9) [unfolded assms(7)] option.case pk assms(5) ks(1) Let_def
      prod.case fs by (simp add: s1(1))
  have all: "among recs stem (set ks) = ran recs" if "stem \<in> set stems"
    "\<forall>m. recs m \<noteq> None \<longrightarrow> stored dir fs (stem @ show_int m) \<noteq> None" for recs stem
    using that stem_facts [OF that(1)] by (force simp: among_def ran_def ks(3))
  have ran: "among sent PERSISTENCE_PUBLISH_SENT (set ks) = ran sent" "among recd PERSISTENCE_PUBLISH_RECEIVED (set ks) = ran recd"
    using assms(1) v3_stems by (auto intro!: all simp: saves_def)
  have cl: "g_clients (upd_client i (\<lambda>c. c\<lparr>c_outboundMsgs := MQTTPersistence_wrapMsgID (c_outboundMsgs c)\<rparr>) s1) ! i =
      c\<lparr>c_outboundMsgs := out', c_inboundMsgs := inb\<rparr>"
    using r(1,3) w by (simp add: upd_client_def out'_def)
  have other: "g_fs (upd_client i f s1) = fs" "g_publications (upd_client i f s1) = g_publications s1" for f
    using r(2) by (simp_all add: upd_client_def)
  show ?thesis
    by (rule exI, rule exI [of _ out'], rule exI [of _ inb], rule exI [of _ out], rule exI [of _ w], rule conjI [OF res])
      (use r(4) so di ran cl in \<open>simp add: lists_restored_def other flip: out'_def\<close>)
qed

text \<open>A store with one QoS 2 message whose PUBREL has been sent.\<close>

definition crash_message :: Publish where
  "crash_message = \<lparr>pb_header = mk_header PUBLISH 0 2 0, pb_topic = Some [97], pb_topiclen = 1, pb_msgId = 1,
     pb_payload = [7, 8], pb_payloadlen = 2, pb_MQTTVersion = 4, pb_properties = MQTTProperties_initializer,
     pb_mask = [0, 0, 0, 0]\<rparr>"

definition crash_fs :: filesys where
  "crash_fs = \<lparr>fs_dirs = [''.'', ''./c-h''],
     fs_files = [(message_path ''./c-h'' (PERSISTENCE_PUBLISH_SENT @ show_int 1), publish_record crash_message),
       (message_path ''./c-h'' (PERSISTENCE_PUBREL @ show_int 1), pubrel_record 1)], fs_quota = 1000\<rparr>"

lemma crash_saved: "saves ''./c-h'' crash_fs [1 \<mapsto> crash_message] {1} Map.empty"
proof -
  let ?S = "PERSISTENCE_PUBLISH_SENT @ show_int 1" and ?R = "PERSISTENCE_PUBREL @ show_int 1"
  have ne: "?R \<noteq> ?S" by (simp add: stem_defs)
  have good: "good_key ?S" "good_key ?R" using stem_facts v3_stems by simp_all
  have st: "stored ''./c-h'' crash_fs k =
      (if k = ?S then Some (publish_record crash_message) else if k = ?R then Some (pubrel_record 1) else None)" for k
    using ne by (simp add: stored_def crash_fs_def)
  have ok: "store_ok ''./c-h'' crash_fs"
  proof -
    have "is_record ''./c-h'' (message_path ''./c-h'' ?S)" "is_record ''./c-h'' (message_path ''./c-h'' ?R)"
      using good by (simp_all add: is_record_message)
    moreover have "strstr ''.'' MESSAGE_FILENAME_EXTENSION = None" "strstr ''./c-h'' MESSAGE_FILENAME_EXTENSION = None"
      by (simp_all add: ext_simp)
    ultimately show ?thesis using ne by (simp add: store_ok_def crash_fs_def)
  qed
  have q: "hd_qos (mk_header PUBLISH 0 2 0) = 2" "hd_type (mk_header PUBLISH 0 2 0) = PUBLISH"
    using mk_header_fields [of PUBLISH 0 2 0] by (simp_all add: msgTypes_defs)
  have sp: "saved_publish 1 crash_message"
    by (simp add: saved_publish_def crash_message_def publish_ok_def q publish_body_def writeUTF_def publish_props_def
        publish_payload_def)
  have inj: "st @ show_int m = st' @ show_int 1 \<longleftrightarrow> st = st' \<and> m = 1" if "st \<in> set stems" "st' \<in> set stems" for st st' m
    using key_inj [OF that] by blast
  show ?thesis unfolding saves_def
  proof (intro conjI)
    show "\<forall>m. stored ''./c-h'' crash_fs (PERSISTENCE_PUBLISH_SENT @ show_int m) = map_option publish_record ([1 \<mapsto> crash_message] m)"
      "\<forall>m. stored ''./c-h'' crash_fs (PERSISTENCE_PUBREL @ show_int m) = (if m \<in> {1} then Some (pubrel_record m) else None)"
      "\<forall>m. stored ''./c-h'' crash_fs (PERSISTENCE_PUBLISH_RECEIVED @ show_int m) = map_option publish_record (Map.empty m)"
      using v3_stems v3_stems(4-6) [symmetric] by (auto simp: st inj dest: show_int_inj)
    show "\<forall>k. good_key k \<and> stored ''./c-h'' crash_fs k \<noteq> None \<longrightarrow> queue_or_command k \<or>
        (\<exists>st\<in>{PERSISTENCE_PUBLISH_SENT, PERSISTENCE_PUBREL, PERSISTENCE_PUBLISH_RECEIVED}. \<exists>m. k = st @ show_int m)"
      by (auto simp: st split: if_splits)
  qed (use ok sp in \<open>auto simp: MAX_MSG_ID_def\<close>)
qed

theorem messages_restored_witness:
  "\<exists>s' m. MQTTPersistence_restorePackets std_env 0 (blank_sys stored_client crash_fs) = Inr (0, s') \<and>
    c_outboundMsgs (g_clients s' ! 0) = [m] \<and> out_item m = (1, AwaitPubcomp) \<and>
    msg_item (map_of (g_publications s')) m = (1, [97], [7, 8])"
proof -
  let ?s = "blank_sys stored_client crash_fs"
  have h: "lists_ok (e_lists (std_env :: (unit, filesys) env))" "heap_total (e_heap (std_env :: (unit, filesys) env))"
    "0 < length (g_clients ?s)" "g_fs ?s = crash_fs" "pubs_ok ?s" "stored_client = g_clients ?s ! 0"
    "c_persistence stored_client = Some (default_persistence (\<lambda>_. True) ''.'')" "c_phandle stored_client = Some ''./c-h''"
    "c_afterRead stored_client = None" "c_MQTTVersion stored_client < 5" "c_inboundMsgs stored_client = []"
    "c_outboundMsgs stored_client = []"
    by (simp_all add: pubs_ok_def stored_client_def blank_client_def)
  from messages_restored [OF crash_saved h] obtain s' out inb where
    s': "MQTTPersistence_restorePackets std_env 0 ?s = Inr (0, s')"
      "g_clients s' ! 0 = stored_client\<lparr>c_outboundMsgs := out, c_inboundMsgs := inb\<rparr>" "distinct (map ms_msgid out)"
      "out_full (map_of (g_publications s')) ` set out = sent_item {1} ` ran [(1 :: int) \<mapsto> crash_message]"
    by (elim exE conjE) (rule that; assumption)
  have q: "hd_qos (mk_header PUBLISH 0 2 0) = 2" using mk_header_fields [of PUBLISH 0 2 0] by (simp add: msgTypes_defs)
  have it: "out_full (map_of (g_publications s')) ` set out = {((1, AwaitPubcomp), (1, [97], [7, 8]))}"
    unfolding s'(4) by (simp add: sent_item_def crash_message_def q [unfolded numeral_2_eq_2] null_bytes_def publish_payload_def numeral_2_eq_2)
  have ids: "ms_msgid m = 1" if "m \<in> set out" for m
  proof -
    from that have "out_full (map_of (g_publications s')) m \<in> out_full (map_of (g_publications s')) ` set out" by simp
    then show ?thesis unfolding it by (simp add: out_full_def out_item_def)
  qed
  have "length out = 1"
  proof -
    have "set (map ms_msgid out) = {1}" using it ids by (cases out) auto
    with distinct_card [OF s'(3)] show ?thesis by simp
  qed
  then obtain m where m: "out = [m]" by (auto simp: length_Suc_conv)
  with it s'(1,2) show ?thesis
    by (intro exI [of _ s'] exI [of _ m]) (simp add: out_full_def)
qed

end
