(* ===== verification/Client.thy ===== *)
theory Client
  imports Restore ProtocolOut
begin

section \<open>The synchronous client: \<^verbatim>\<open>src/include/MQTTClient.c\<close>, state and packet handling\<close>

text \<open>
  The state behind the functions of the API and what is done with one packet: creating and
  destroying clients, their callbacks, the message queue, and \<^verbatim>\<open>MQTTClient_cycle\<close>, which reads a
  packet and gives it to its handler. The functions that wait, and the background thread, are in
  theory \<open>ClientRun\<close>. Locking and the trace are not modelled: every function here runs under
  \<^verbatim>\<open>mqttclient_mutex\<close>.
\<close>

subsection \<open>Codes\<close>

definition MQTTCLIENT_SUCCESS :: int where "MQTTCLIENT_SUCCESS = 0"
definition MQTTCLIENT_FAILURE :: int where "MQTTCLIENT_FAILURE = -1"
definition MQTTCLIENT_DISCONNECTED :: int where "MQTTCLIENT_DISCONNECTED = -3"
definition MQTTCLIENT_MAX_MESSAGES_INFLIGHT :: int where "MQTTCLIENT_MAX_MESSAGES_INFLIGHT = -4"
definition MQTTCLIENT_BAD_UTF8_STRING :: int where "MQTTCLIENT_BAD_UTF8_STRING = -5"
definition MQTTCLIENT_NULL_PARAMETER :: int where "MQTTCLIENT_NULL_PARAMETER = -6"
definition MQTTCLIENT_TOPICNAME_TRUNCATED :: int where "MQTTCLIENT_TOPICNAME_TRUNCATED = -7"
definition MQTTCLIENT_BAD_STRUCTURE :: int where "MQTTCLIENT_BAD_STRUCTURE = -8"
definition MQTTCLIENT_BAD_QOS :: int where "MQTTCLIENT_BAD_QOS = -9"
definition MQTTCLIENT_SSL_NOT_SUPPORTED :: int where "MQTTCLIENT_SSL_NOT_SUPPORTED = -10"
definition MQTTCLIENT_BAD_MQTT_VERSION :: int where "MQTTCLIENT_BAD_MQTT_VERSION = -11"
definition MQTTCLIENT_BAD_PROTOCOL :: int where "MQTTCLIENT_BAD_PROTOCOL = -14"
definition MQTTCLIENT_BAD_MQTT_OPTION :: int where "MQTTCLIENT_BAD_MQTT_OPTION = -15"
definition MQTTCLIENT_WRONG_MQTT_VERSION :: int where "MQTTCLIENT_WRONG_MQTT_VERSION = -16"
definition MQTTCLIENT_0_LEN_WILL_TOPIC :: int where "MQTTCLIENT_0_LEN_WILL_TOPIC = -17"
definition MQTTVERSION_DEFAULT :: int where "MQTTVERSION_DEFAULT = 0"
definition MQTT_BAD_SUBSCRIBE :: int where "MQTT_BAD_SUBSCRIBE = 128"
definition SSL_IN_PROGRESS :: int where "SSL_IN_PROGRESS = 2"

named_theorems client_codes \<open>return codes and connection states\<close>

lemmas [client_codes] = MQTTCLIENT_SUCCESS_def MQTTCLIENT_FAILURE_def MQTTCLIENT_DISCONNECTED_def
  MQTTCLIENT_MAX_MESSAGES_INFLIGHT_def MQTTCLIENT_BAD_UTF8_STRING_def MQTTCLIENT_NULL_PARAMETER_def
  MQTTCLIENT_TOPICNAME_TRUNCATED_def MQTTCLIENT_BAD_STRUCTURE_def MQTTCLIENT_BAD_QOS_def
  MQTTCLIENT_SSL_NOT_SUPPORTED_def MQTTCLIENT_BAD_MQTT_VERSION_def MQTTCLIENT_BAD_PROTOCOL_def
  MQTTCLIENT_BAD_MQTT_OPTION_def MQTTCLIENT_WRONG_MQTT_VERSION_def MQTTCLIENT_0_LEN_WILL_TOPIC_def

text \<open>\<^verbatim>\<open>MQTTClient_strerror\<close>; a code without a text is printed into a buffer of 30 bytes.\<close>

definition MQTTClient_strerror :: "int \<Rightarrow> string" where
  "MQTTClient_strerror code =
     (if code = MQTTCLIENT_SUCCESS then ''Success''
      else if code = MQTTCLIENT_FAILURE then ''Failure''
      else if code = MQTTCLIENT_DISCONNECTED then ''Disconnected''
      else if code = MQTTCLIENT_MAX_MESSAGES_INFLIGHT then ''Maximum in-flight messages amount reached''
      else if code = MQTTCLIENT_BAD_UTF8_STRING then ''Invalid UTF8 string''
      else if code = MQTTCLIENT_NULL_PARAMETER then ''Invalid (NULL) parameter''
      else if code = MQTTCLIENT_TOPICNAME_TRUNCATED then ''Topic containing NULL characters has been truncated''
      else if code = MQTTCLIENT_BAD_STRUCTURE then ''Bad structure''
      else if code = MQTTCLIENT_BAD_QOS then ''Invalid QoS value''
      else if code = MQTTCLIENT_SSL_NOT_SUPPORTED then ''SSL is not supported''
      else if code = MQTTCLIENT_BAD_MQTT_VERSION then ''Unrecognized MQTT version''
      else if code = MQTTCLIENT_BAD_PROTOCOL then ''Invalid protocol scheme''
      else if code = MQTTCLIENT_BAD_MQTT_OPTION then ''Options for wrong MQTT version''
      else if code = MQTTCLIENT_WRONG_MQTT_VERSION then ''Client created for another version of MQTT''
      else if code = MQTTCLIENT_0_LEN_WILL_TOPIC then ''Zero length will topic on connect''
      else fst (snprintf 30 (''Unknown error code '' @ show_int code)))"

subsection \<open>State\<close>

text \<open>
  A handle, the structure \<^verbatim>\<open>MQTTClients\<close>. Handle number \<open>h\<close> has client number \<open>h\<close>: \<open>handles\<close> and
  \<open>bstate->clients\<close> are appended to and removed from together. Of a callback only whether it is
  set is kept, with its context. Semaphores are counters.
\<close>

record MQTTClients =
  m_serverURI :: "bytes option"
  m_currentServerURI :: "bytes option"
  m_websocket :: bool
  m_context :: nat
  m_cl :: bool
  m_ma :: bool
  m_dc :: bool
  m_disconnected :: bool
  m_disconnected_context :: nat
  m_published :: bool
  m_published_context :: nat
  m_connect_sem :: nat
  m_rc :: int
  m_connack_sem :: nat
  m_suback_sem :: nat
  m_unsuback_sem :: nat
  m_pack :: "packet option"
  m_commandTimeout :: nat

text \<open>The calls of the application's callbacks, with the handle they are for.\<close>

datatype call =
    MessageArrived nat bytes int MQTTPersistence_message
  | DeliveryComplete nat int
  | PublishedCall nat int nat "byte option"
  | ConnectionLost nat
  | DisconnectedCall nat "byte option"

text \<open>
  The background thread (\<^verbatim>\<open>MQTTClient_run\<close>): not there, started but not yet in its loop, or running,
  which is the variable \<open>running\<close>.
\<close>

datatype run_thread = NoThread | Started | Running

record ('n, 'f) lib =
  b_sys :: "('n, 'f) sys"
  b_handles :: "MQTTClients list"
  b_initialized :: bool
  b_thread :: run_thread
  b_tostop :: bool
  b_run_read :: "(packet option \<times> int \<times> int) option"
                                  \<comment> \<open>what \<^verbatim>\<open>MQTTClient_run\<close> has from \<^verbatim>\<open>MQTTClient_cycle\<close> and not yet looked at\<close>
  b_run_timeout :: nat            \<comment> \<open>the variable \<open>timeout\<close> of \<^verbatim>\<open>MQTTClient_run\<close>\<close>
  b_last :: timeval               \<comment> \<open>the static variable of \<^verbatim>\<open>MQTTClient_retry\<close>\<close>
  b_retryLoopIntervalms :: int
  b_calls :: "call list"
  b_sched :: "nat list"           \<comment> \<open>see theory \<open>ClientRun\<close>\<close>

abbreviation clients :: "('n, 'f) lib \<Rightarrow> 'f Clients list" where
  "clients l \<equiv> g_clients (b_sys l)"

definition running :: "('n, 'f) lib \<Rightarrow> bool" where
  "running l \<longleftrightarrow> b_thread l = Running"

text \<open>
  What the module calls outside the sources: the socket functions, the validation of UTF-8, sleeping
  (which takes the milliseconds), the result of a semaphore that is not posted in time, and the
  application's \<open>messageArrived\<close>, whose result may depend on the calls made so far.
\<close>

record ('n, 'f) api =
  a_env :: "('n, 'f) env"
  a_connect :: "'n connect_lib"
  a_getenv_http_proxy :: "bytes option"
  Socket_getReadySocket :: "nat \<Rightarrow> 'n \<Rightarrow> int \<times> 'n"
  WebSocket_upgrade :: "networkHandles \<Rightarrow> 'n \<Rightarrow> int \<times> 'n"
  getsockopt_error :: "int \<Rightarrow> 'n \<Rightarrow> int \<times> int \<times> 'n"
  SocketBuffer_getWrite :: "int \<Rightarrow> 'n \<Rightarrow> bool"
  sleep :: "nat \<Rightarrow> 'n \<Rightarrow> 'n"
  UTF8_validateString :: "bytes \<Rightarrow> bool"
  sem_timeout :: int
  message_arrived :: "call list \<Rightarrow> int"
  new_publish :: Publish          \<comment> \<open>what \<^verbatim>\<open>malloc\<close> leaves in a structure\<close>

definition upd_sys :: "(('n, 'f) sys \<Rightarrow> ('n, 'f) sys) \<Rightarrow> ('n, 'f) lib \<Rightarrow> ('n, 'f) lib" where
  "upd_sys f l = l\<lparr>b_sys := f (b_sys l)\<rparr>"

definition upd_handle :: "nat \<Rightarrow> (MQTTClients \<Rightarrow> MQTTClients) \<Rightarrow> ('n, 'f) lib \<Rightarrow> ('n, 'f) lib" where
  "upd_handle h f l = l\<lparr>b_handles := (b_handles l)[h := f (b_handles l ! h)]\<rparr>"

definition log_call :: "call \<Rightarrow> ('n, 'f) lib \<Rightarrow> ('n, 'f) lib" where
  "log_call c l = l\<lparr>b_calls := b_calls l @ [c]\<rparr>"

definition now :: "('n, 'f) api \<Rightarrow> ('n, 'f) lib \<Rightarrow> timeval \<times> ('n, 'f) lib" where
  "now A l = (let (t, s) = time_now (a_env A) (b_sys l) in (t, l\<lparr>b_sys := s\<rparr>))"

text \<open>\<^verbatim>\<open>MQTTTime_elapsed\<close>, milliseconds since \<open>start\<close> as an unsigned number.\<close>

definition elapsed :: "('n, 'f) api \<Rightarrow> timeval \<Rightarrow> ('n, 'f) lib \<Rightarrow> nat \<times> ('n, 'f) lib" where
  "elapsed A start l =
     (let (ts, n) = clock_gettime (e_net (a_env A)) (g_net (b_sys l)) in
      (unat (MQTTTime_elapsed ts start), upd_sys (\<lambda>s. s\<lparr>g_net := n\<rparr>) l))"

definition sleep_ms :: "('n, 'f) api \<Rightarrow> nat \<Rightarrow> ('n, 'f) lib \<Rightarrow> ('n, 'f) lib" where
  "sleep_ms A ms = upd_sys (\<lambda>s. s\<lparr>g_net := sleep A ms (g_net s)\<rparr>)"

text \<open>A function on the state of the protocol module, lifted.\<close>

definition on_sys :: "(('n, 'f) sys \<Rightarrow> ub + ('n, 'f) sys) \<Rightarrow> ('n, 'f) lib \<Rightarrow> ub + ('n, 'f) lib" where
  "on_sys f l = ub_bind (f (b_sys l)) (\<lambda>s. Inr (l\<lparr>b_sys := s\<rparr>))"

definition on_sys_rc ::
    "(('n, 'f) sys \<Rightarrow> ub + ('a \<times> ('n, 'f) sys)) \<Rightarrow> ('n, 'f) lib \<Rightarrow> ub + ('a \<times> ('n, 'f) lib)" where
  "on_sys_rc f l = ub_bind (f (b_sys l)) (\<lambda>(r, s). Inr (r, l\<lparr>b_sys := s\<rparr>))"

text \<open>The first handle with a socket (\<^verbatim>\<open>ListFindItem(handles, &sock, clientSockCompare)\<close>).\<close>

definition clientSockCompare :: "('n, 'f) api \<Rightarrow> int \<Rightarrow> ('n, 'f) lib \<Rightarrow> nat option" where
  "clientSockCompare A sock l =
     ListFindItem (l_clients (e_lists (a_env A))) (clients l) (\<lambda>c. nh_socket (c_net c) = sock)"

subsection \<open>Creating a client\<close>

definition URI_TCP :: bytes where "URI_TCP = map (\<lambda>c. of_char c) ''tcp://''"
definition URI_MQTT :: bytes where "URI_MQTT = map (\<lambda>c. of_char c) ''mqtt://''"
definition URI_WS :: bytes where "URI_WS = map (\<lambda>c. of_char c) ''ws://''"
definition URI_SSL :: bytes where "URI_SSL = map (\<lambda>c. of_char c) ''ssl://''"
definition URI_MQTTS :: bytes where "URI_MQTTS = map (\<lambda>c. of_char c) ''mqtts://''"
definition URI_WSS :: bytes where "URI_WSS = map (\<lambda>c. of_char c) ''wss://''"

text \<open>\<^verbatim>\<open>strncmp(prefix, s, strlen(prefix)) == 0\<close>.\<close>

definition starts_with :: "bytes \<Rightarrow> bytes \<Rightarrow> bool" where
  "starts_with prefix s \<longleftrightarrow> take (length prefix) s = prefix"

record MQTTClient_createOptions =
  cr_struct_id :: bytes
  cr_struct_version :: int
  cr_MQTTVersion :: int

text \<open>The structures as \<^verbatim>\<open>memset\<close> leaves them, with the default command timeout.\<close>

definition zero_handle :: MQTTClients where
  "zero_handle = \<lparr>m_serverURI = None, m_currentServerURI = None, m_websocket = False, m_context = 0,
     m_cl = False, m_ma = False, m_dc = False, m_disconnected = False, m_disconnected_context = 0,
     m_published = False, m_published_context = 0, m_connect_sem = 0, m_rc = 0, m_connack_sem = 0,
     m_suback_sem = 0, m_unsuback_sem = 0, m_pack = None, m_commandTimeout = 10000\<rparr>"

definition zero_client :: "'f Clients" where
  "zero_client = \<lparr>c_clientID = [], c_username = None, c_passwordlen = 0, c_password = None,
     c_cleansession = 0, c_cleanstart = 0, c_connected = False, c_good = False, c_ping_outstanding = False,
     c_ping_due = False, c_ping_due_time = START_TIME_ZERO, c_connect_state = NOT_IN_PROGRESS,
     c_net = \<lparr>nh_socket = 0, nh_lastSent = START_TIME_ZERO, nh_lastReceived = START_TIME_ZERO,
       nh_lastPing = START_TIME_ZERO, nh_http_proxy = None, nh_http_proxy_auth = None, nh_httpHeaders = None\<rparr>,
     c_msgID = 0, c_keepAliveInterval = 0, c_retryInterval = 0, c_will = None, c_inboundMsgs = [],
     c_outboundMsgs = [], c_connect_count = 0, c_connect_sent = 0, c_messageQueue = [],
     c_outboundQueue = [], c_qentry_seqno = 0, c_phandle = None, c_persistence = None,
     c_beforeWrite = None, c_afterRead = None, c_httpProxy = None, c_httpsProxy = None,
     c_maxInflightMessages = 0, c_MQTTVersion = 0, c_sessionExpiry = 0\<rparr>"

text \<open>The checks of the arguments, up to the one of the options.\<close>

definition create_check ::
    "('n, 'f) api \<Rightarrow> bytes option \<Rightarrow> bytes option \<Rightarrow> int \<Rightarrow> MQTTClient_createOptions option \<Rightarrow> int" where
  "create_check A serverURI clientId persistence_type options =
     (case (serverURI, clientId) of
        (Some uri, Some cid) \<Rightarrow>
          let uri = c_str uri; cid = c_str cid in
          if \<not> UTF8_validateString A cid then MQTTCLIENT_BAD_UTF8_STRING
          else if cid = [] \<and> persistence_type = MQTTCLIENT_PERSISTENCE_DEFAULT then MQTTCLIENT_PERSISTENCE_ERROR
          else if contains uri (map (\<lambda>c. of_char c) ''://'') \<and>
            \<not> starts_with URI_TCP uri \<and> \<not> starts_with URI_MQTT uri \<and> \<not> starts_with URI_WS uri
          then MQTTCLIENT_BAD_PROTOCOL
          else (case options of
              Some o' \<Rightarrow> if take 4 (cr_struct_id o') \<noteq> map (\<lambda>c. of_char c) ''MQCO'' \<or> cr_struct_version o' \<noteq> 0
                then MQTTCLIENT_BAD_STRUCTURE else 0
            | None \<Rightarrow> 0)
      | _ \<Rightarrow> MQTTCLIENT_NULL_PARAMETER)"

text \<open>The address without its scheme, and whether it is a WebSocket; \<open>None\<close> for TLS.\<close>

definition strip_scheme :: "bytes \<Rightarrow> (bytes \<times> bool) option" where
  "strip_scheme uri =
     (if starts_with URI_TCP uri then Some (drop (length URI_TCP) uri, False)
      else if starts_with URI_MQTT uri then Some (drop (length URI_MQTT) uri, False)
      else if starts_with URI_WS uri then Some (drop (length URI_WS) uri, True)
      else if starts_with URI_SSL uri \<or> starts_with URI_MQTTS uri \<or> starts_with URI_WSS uri then None
      else Some (uri, False))"

text \<open>
  The store is opened while the client is not yet in \<open>bstate->clients\<close>; it is at its place in the
  list here, which none of these functions search. A result \<open>None\<close> for the handle is a pointer
  that is not one of a client.
\<close>

definition MQTTClient_createWithOptions ::
    "('n, filesys) api \<Rightarrow> bytes option \<Rightarrow> bytes option \<Rightarrow> int \<Rightarrow> context_ptr \<Rightarrow> MQTTClient_createOptions option
      \<Rightarrow> ('n, filesys) lib \<Rightarrow> ub + (int \<times> nat option \<times> ('n, filesys) lib)" where
  "MQTTClient_createWithOptions A serverURI clientId persistence_type persistence_context options l =
     (let H = e_heap (a_env A); rc = create_check A serverURI clientId persistence_type options in
      if rc \<noteq> 0 then Inr (rc, None, l)
      else
       let l = (if b_initialized l then l
                else l\<lparr>b_handles := [], b_initialized := True, b_sys := (b_sys l)\<lparr>g_clients := []\<rparr>\<rparr>)
       in if \<not> H (ReqStruct ''MQTTClients'') then Inr (PAHO_MEMORY_ERROR, None, l)
       else (case strip_scheme (c_str (the serverURI)) of
           None \<Rightarrow> Inr (MQTTCLIENT_SSL_NOT_SUPPORTED, None, l)
         | Some (uri, ws) \<Rightarrow>
            ub_bind (MQTTStrdup H uri) (\<lambda>dup.
            if \<not> H (ReqStruct ''Clients'') then Inr (PAHO_MEMORY_ERROR, None, l)
            else ub_bind (MQTTStrdup H (the clientId)) (\<lambda>cid. case cid of None \<Rightarrow> Inl NullDeref | Some cid \<Rightarrow>
              let h = length (clients l);
                  (rc, per) = MQTTPersistence_create H persistence_type persistence_context;
                  c = zero_client\<lparr>c_clientID := cid,
                    c_MQTTVersion := (case options of Some o' \<Rightarrow> cr_MQTTVersion o' | None \<Rightarrow> MQTTVERSION_DEFAULT),
                    c_persistence := (case per of Some p \<Rightarrow> p | None \<Rightarrow> None)\<rparr>;
                  l = l\<lparr>b_handles := b_handles l @ [zero_handle\<lparr>m_serverURI := dup, m_websocket := ws\<rparr>],
                    b_sys := (b_sys l)\<lparr>g_clients := clients l @ [c]\<rparr>\<rparr>
              in if rc \<noteq> 0 then Inr (rc, Some h, l)
              else ub_bind (case (c_persistence c, dup) of
                    (None, _) \<Rightarrow> Inr (0, l)
                  | (Some _, None) \<Rightarrow> Inl NullDeref
                  | (Some _, Some u) \<Rightarrow> on_sys_rc (MQTTPersistence_initialize (a_env A) h u) l) (\<lambda>(rc, l).
                if rc \<noteq> 0 then Inr (rc, Some h, l)
                else ub_bind (MQTTPersistence_restoreMessageQueue (l_queue (e_lists (a_env A))) H (clients l ! h)
                    (g_fs (b_sys l))) (\<lambda>(_, c, fs).
                  Inr (0, Some h, upd_sys (\<lambda>s. set_client h c (s\<lparr>g_fs := fs\<rparr>)) l)))))))"

definition MQTTClient_create ::
    "('n, filesys) api \<Rightarrow> bytes option \<Rightarrow> bytes option \<Rightarrow> int \<Rightarrow> context_ptr \<Rightarrow> ('n, filesys) lib
      \<Rightarrow> ub + (int \<times> nat option \<times> ('n, filesys) lib)" where
  "MQTTClient_create A serverURI clientId persistence_type persistence_context l =
     MQTTClient_createWithOptions A serverURI clientId persistence_type persistence_context None l"

subsection \<open>Callbacks, options and tokens of a client\<close>

text \<open>A handle may be NULL, \<open>None\<close>.\<close>

definition idle :: "nat option \<Rightarrow> ('n, 'f) lib \<Rightarrow> bool" where
  "idle handle l \<longleftrightarrow> (case handle of None \<Rightarrow> False | Some h \<Rightarrow> c_connect_state (clients l ! h) = NOT_IN_PROGRESS)"

definition MQTTClient_setCallbacks ::
    "nat option \<Rightarrow> nat \<Rightarrow> bool \<Rightarrow> bool \<Rightarrow> bool \<Rightarrow> ('n, 'f) lib \<Rightarrow> int \<times> ('n, 'f) lib" where
  "MQTTClient_setCallbacks handle context cl ma dc l =
     (if \<not> ma \<or> \<not> idle handle l then (MQTTCLIENT_FAILURE, l)
      else (MQTTCLIENT_SUCCESS,
        upd_handle (the handle) (\<lambda>m. m\<lparr>m_context := context, m_cl := cl, m_ma := ma, m_dc := dc\<rparr>) l))"

definition MQTTClient_setDisconnected ::
    "nat option \<Rightarrow> nat \<Rightarrow> bool \<Rightarrow> ('n, 'f) lib \<Rightarrow> int \<times> ('n, 'f) lib" where
  "MQTTClient_setDisconnected handle context disconnected l =
     (if \<not> idle handle l then (MQTTCLIENT_FAILURE, l)
      else (MQTTCLIENT_SUCCESS, upd_handle (the handle)
        (\<lambda>m. m\<lparr>m_disconnected_context := context, m_disconnected := disconnected\<rparr>) l))"

definition MQTTClient_setPublished ::
    "nat option \<Rightarrow> nat \<Rightarrow> bool \<Rightarrow> ('n, 'f) lib \<Rightarrow> int \<times> ('n, 'f) lib" where
  "MQTTClient_setPublished handle context published l =
     (if \<not> idle handle l then (MQTTCLIENT_FAILURE, l)
      else (MQTTCLIENT_SUCCESS, upd_handle (the handle)
        (\<lambda>m. m\<lparr>m_published_context := context, m_published := published\<rparr>) l))"

definition MQTTClient_setCommandTimeout :: "nat option \<Rightarrow> nat \<Rightarrow> ('n, 'f) lib \<Rightarrow> ub + (int \<times> ('n, 'f) lib)" where
  "MQTTClient_setCommandTimeout handle milliSeconds l =
     (if milliSeconds < 5000 then Inr (MQTTCLIENT_FAILURE, l)
      else case handle of None \<Rightarrow> Inl NullDeref
        | Some h \<Rightarrow> Inr (MQTTCLIENT_SUCCESS, upd_handle h (\<lambda>m. m\<lparr>m_commandTimeout := milliSeconds\<rparr>) l))"

definition MQTTClient_isConnected :: "nat option \<Rightarrow> ('n, 'f) lib \<Rightarrow> bool" where
  "MQTTClient_isConnected handle l = (case handle of None \<Rightarrow> False | Some h \<Rightarrow> c_connected (clients l ! h))"

text \<open>The message ids of the outbound list, ended by -1; NULL when there are none.\<close>

definition MQTTClient_getPendingDeliveryTokens ::
    "('n, 'f) api \<Rightarrow> nat option \<Rightarrow> ('n, 'f) lib \<Rightarrow> int \<times> int list option" where
  "MQTTClient_getPendingDeliveryTokens A handle l =
     (case handle of None \<Rightarrow> (MQTTCLIENT_FAILURE, None)
      | Some h \<Rightarrow>
         let out = c_outboundMsgs (clients l ! h) in
         if out = [] then (MQTTCLIENT_SUCCESS, None)
         else if \<not> e_heap (a_env A) (ReqBuffer (4 * (length out + 1))) then (PAHO_MEMORY_ERROR, None)
         else (MQTTCLIENT_SUCCESS, Some (map ms_msgid out @ [-1])))"

definition MQTTClient_freeMessage :: "MQTTPersistence_message \<Rightarrow> ub + bytes list" where
  "MQTTClient_freeMessage message = ub_bind (MQTTProperties_free (Some (pm_properties message))) (\<lambda>(fs, _). Inr fs)"

record MQTTResponse =
  rs_reasonCode :: int
  rs_reasonCodeCount :: int
  rs_reasonCodes :: "nat list option"
  rs_properties :: "MQTTProperties option"

definition MQTTResponse_initializer :: MQTTResponse where
  "MQTTResponse_initializer = \<lparr>rs_reasonCode = 0, rs_reasonCodeCount = 0, rs_reasonCodes = None, rs_properties = None\<rparr>"

definition MQTTResponse_free :: "MQTTResponse \<Rightarrow> ub + bytes list" where
  "MQTTResponse_free response =
     (case rs_properties response of None \<Rightarrow> Inr []
      | Some ps \<Rightarrow> ub_bind (MQTTProperties_free (Some ps)) (\<lambda>(fs, _). Inr fs))"

subsection \<open>The message queue\<close>

text \<open>The oldest message is handed to the caller and its record removed from the store.\<close>

definition MQTTClient_deliverMessage ::
    "('n, 'f) api \<Rightarrow> int \<Rightarrow> nat \<Rightarrow> ('n, 'f) lib
      \<Rightarrow> ub + (int \<times> bytes \<times> int \<times> MQTTPersistence_message \<times> ('n, 'f) lib)" where
  "MQTTClient_deliverMessage A rc h l =
     (case c_messageQueue (clients l ! h) of
        [] \<Rightarrow> Inl NullDeref
      | qe # _ \<Rightarrow>
         let rc = (if int (strlen (qe_topicName qe)) \<noteq> qe_topicLen qe then MQTTCLIENT_TOPICNAME_TRUNCATED else rc) in
         ub_bind (if c_persistence (clients l ! h) = None then Inr (g_fs (b_sys l))
                  else ub_bind (MQTTPersistence_unpersistQueueEntry (clients l ! h) qe (g_fs (b_sys l)))
                    (\<lambda>(_, fs). Inr fs)) (\<lambda>fs.
           Inr (rc, qe_topicName qe, qe_topicLen qe, qe_msg qe,
             upd_sys (\<lambda>s. upd_client h (\<lambda>c. c\<lparr>c_messageQueue :=
               ListRemove (l_queue (e_lists (a_env A))) (c_messageQueue c) 0\<rparr>) (s\<lparr>g_fs := fs\<rparr>)) l)))"

subsection \<open>Writes that complete later\<close>

text \<open>
  \<^verbatim>\<open>MQTTProtocol_checkPendingWrites\<close> releases the publications whose write is complete and drops
  their entries; \<open>check_writes\<close> returns the entries that stay.
\<close>

fun check_writes ::
    "('n, 'f) env \<Rightarrow> (int \<times> nat) list \<Rightarrow> ('n, 'f, 'z) sys_scheme \<Rightarrow> ub + ((int \<times> nat) list \<times> ('n, 'f, 'z) sys_scheme)" where
  "check_writes E [] s = Inr ([], s)"
| "check_writes E ((sock, a) # ws) s =
     (if Socket_noPendingWrites (e_net E) sock (g_net s)
      then ub_bind (MQTTProtocol_removePublication E (Some a) s) (\<lambda>s. check_writes E ws s)
      else ub_bind (check_writes E ws s) (\<lambda>(rest, s). Inr ((sock, a) # rest, s)))"

definition MQTTProtocol_checkPendingWrites :: "('n, 'f) env \<Rightarrow> ('n, 'f, 'z) sys_scheme \<Rightarrow> ub + ('n, 'f, 'z) sys_scheme" where
  "MQTTProtocol_checkPendingWrites E s =
     ub_bind (check_writes E (g_pending_writes s) s) (\<lambda>(ws, s). Inr (s\<lparr>g_pending_writes := ws\<rparr>))"

definition touch_last_sent :: "('n, 'f) api \<Rightarrow> int \<Rightarrow> ('n, 'f) lib \<Rightarrow> ('n, 'f) lib" where
  "touch_last_sent A socket l =
     (case clientSockCompare A socket l of None \<Rightarrow> l
      | Some h \<Rightarrow> let (t, l) = now A l in
          upd_sys (upd_client h (\<lambda>c. c\<lparr>c_net := (c_net c)\<lparr>nh_lastSent := t\<rparr>\<rparr>)) l)"

definition MQTTClient_writeComplete :: "('n, 'f) api \<Rightarrow> int \<Rightarrow> ('n, 'f) lib \<Rightarrow> ub + ('n, 'f) lib" where
  "MQTTClient_writeComplete A socket l =
     ub_bind (on_sys (MQTTProtocol_checkPendingWrites (a_env A)) l) (\<lambda>l. Inr (touch_last_sent A socket l))"

definition MQTTClient_writeContinue :: "('n, 'f) api \<Rightarrow> int \<Rightarrow> ('n, 'f) lib \<Rightarrow> ('n, 'f) lib" where
  "MQTTClient_writeContinue A socket l = touch_last_sent A socket l"

subsection \<open>Closing sessions\<close>

text \<open>
  \<^verbatim>\<open>MQTTClient_stop\<close> up to the waiting for the thread, which the thread itself does not do: when it
  runs and no handle is connected or connecting, it is asked to stop. The result says whether it was.
\<close>

definition conn_count :: "('n, 'f) lib \<Rightarrow> nat" where
  "conn_count l = length (filter (\<lambda>c. c_connect_state c > NOT_IN_PROGRESS \<or> c_connected c) (clients l))"

definition request_stop :: "('n, 'f) lib \<Rightarrow> bool \<times> ('n, 'f) lib" where
  "request_stop l =
     (if running l \<and> \<not> b_tostop l \<and> conn_count l = 0 then (True, l\<lparr>b_tostop := True\<rparr>) else (False, l))"

definition connection_lost :: "nat \<Rightarrow> bool \<Rightarrow> ('n, 'f) lib \<Rightarrow> ('n, 'f) lib" where
  "connection_lost h was_connected l =
     (if m_cl (b_handles l ! h) \<and> was_connected then log_call (ConnectionLost h) l else l)"

text \<open>
  \<^verbatim>\<open>MQTTClient_disconnect_internal(m, 0)\<close> in the background thread, or while there is none. The
  session is closed by \<open>MQTTProtocol_closeSession\<close>, which is this function on the state of the
  protocol module.
\<close>

definition disconnect_in_thread :: "('n, 'f) api \<Rightarrow> nat \<Rightarrow> ('n, 'f) lib \<Rightarrow> ub + ('n, 'f) lib" where
  "disconnect_in_thread A h l =
     (let was_connected = c_connected (clients l ! h) in
      ub_bind (on_sys (MQTTProtocol_closeSession (a_env A) h) l) (\<lambda>l.
        Inr (connection_lost h was_connected (snd (request_stop l)))))"

text \<open>
  The sessions that the protocol module closes during a call, one after the other: what follows for
  the handles is done after the call here.
\<close>

fun lost_connections :: "nat list \<Rightarrow> 'f Clients list \<Rightarrow> ('n, 'f) lib \<Rightarrow> ('n, 'f) lib" where
  "lost_connections [] before l = l"
| "lost_connections (h # hs) before l =
     lost_connections hs before
       (if c_connected (before ! h) \<and> \<not> c_connected (clients l ! h)
        then connection_lost h True (snd (request_stop l)) else l)"

definition closing :: "(('n, 'f) sys \<Rightarrow> ub + ('n, 'f) sys) \<Rightarrow> ('n, 'f) lib \<Rightarrow> ub + ('n, 'f) lib" where
  "closing f l = ub_bind (on_sys f l) (\<lambda>l'. Inr (lost_connections [0..<length (clients l)] (clients l) l'))"

definition MQTTClient_retry :: "('n, 'f) api \<Rightarrow> ('n, 'f) lib \<Rightarrow> ub + ('n, 'f) lib" where
  "MQTTClient_retry A l =
     (let (now1, l) = now A l in
      if MQTTTime_difftime now1 (b_last l) \<ge> b_retryLoopIntervalms l
      then let (last, l) = now A l in
        ub_bind (closing (MQTTProtocol_keepalive (a_env A) now1) (l\<lparr>b_last := last\<rparr>)) (\<lambda>l.
          closing (MQTTProtocol_retry (a_env A) now1 True False) l)
      else closing (MQTTProtocol_retry (a_env A) now1 False False) l)"

subsection \<open>One packet\<close>

text \<open>
  The handling of a packet that was read for handle \<open>h\<close>: the return code, and the packet when it is
  not one that is handled here. The callbacks \<^verbatim>\<open>published\<close> and \<^verbatim>\<open>deliveryComplete\<close> are called on the way.
\<close>

definition published_call :: "nat \<Rightarrow> int \<Rightarrow> nat \<Rightarrow> byte option \<Rightarrow> ('n, 'f) lib \<Rightarrow> ('n, 'f) lib" where
  "published_call h msgid ptype rc l =
     (if c_MQTTVersion (clients l ! h) \<ge> MQTTVERSION_5 \<and> m_published (b_handles l ! h)
      then log_call (PublishedCall h msgid ptype rc) l else l)"

definition handle_ack ::
    "('n, 'f) api \<Rightarrow> nat \<Rightarrow> int \<Rightarrow> Ack \<Rightarrow> ('n, 'f) lib \<Rightarrow> ub + (int \<times> ('n, 'f) lib)" where
  "handle_ack A h sock a l =
     ub_bind (ack_id a) (\<lambda>msgid.
       let ptype = hd_type (ak_header a); l = published_call h msgid ptype (ak_rc a) l in
       ub_bind (on_sys_rc (\<lambda>s. ub_bind ((if ptype = PUBCOMP then MQTTProtocol_handlePubcomps
             else MQTTProtocol_handlePubacks) (a_env A) a sock False s) (\<lambda>(rc, _, s). Inr (rc, s))) l) (\<lambda>(rc, l).
         Inr (rc, if m_dc (b_handles l ! h) then log_call (DeliveryComplete h msgid) l else l)))"

definition handle_rec ::
    "('n, 'f) api \<Rightarrow> nat \<Rightarrow> int \<Rightarrow> Ack \<Rightarrow> ('n, 'f) lib \<Rightarrow> ub + (int \<times> ('n, 'f) lib)" where
  "handle_rec A h sock a l =
     ub_bind (if c_MQTTVersion (clients l ! h) \<ge> MQTTVERSION_5 \<and> m_published (b_handles l ! h)
              then case ak_rc a of None \<Rightarrow> Inl UninitRead
                | Some rc \<Rightarrow> if unat rc \<ge> 128
                    then ub_bind (ack_id a) (\<lambda>msgid. Inr (published_call h msgid PUBREC (Some rc) l)) else Inr l
              else Inr l) (\<lambda>l.
       on_sys_rc (\<lambda>s. ub_bind (MQTTProtocol_handlePubrecs (a_env A) a sock False s) (\<lambda>(rc, _, s). Inr (rc, s))) l)"

definition handle_packet ::
    "('n, 'f) api \<Rightarrow> nat \<Rightarrow> int \<Rightarrow> int \<Rightarrow> packet \<Rightarrow> ('n, 'f) lib \<Rightarrow> ub + (int \<times> packet option \<times> ('n, 'f) lib)" where
  "handle_packet A h sock rc pack l =
     (let E = a_env A; done = (\<lambda>r. ub_bind r (\<lambda>(rc, l). Inr (rc, None, l))) in
      case pack of
        PkPublish p \<Rightarrow> done (on_sys_rc (MQTTProtocol_handlePublishes E p sock) l)
      | PkAck a \<Rightarrow>
          (let ptype = hd_type (ak_header a) in
           if ptype = PUBACK \<or> ptype = PUBCOMP then done (handle_ack A h sock a l)
           else if ptype = PUBREC then done (handle_rec A h sock a l)
           else if ptype = PUBREL then done (on_sys_rc (MQTTProtocol_handlePubrels E a sock) l)
           else Inr (rc, Some pack, l))
      | PkHeader b \<Rightarrow>
          if hd_type b = PINGRESP then done (on_sys_rc (MQTTProtocol_handlePingresps E sock) l)
          else Inr (rc, Some pack, l)
      | _ \<Rightarrow> Inr (rc, Some pack, l))"

text \<open>
  \<^verbatim>\<open>MQTTClient_cycle\<close>: the packet that the caller has to see, the socket it came from and the return
  code. The code \<^verbatim>\<open>Socket_getReadySocket\<close> sets is overwritten, so it is not in the model.
\<close>

definition MQTTClient_cycle ::
    "('n, 'f) api \<Rightarrow> nat \<Rightarrow> ('n, 'f) lib \<Rightarrow> ub + (packet option \<times> int \<times> int \<times> ('n, 'f) lib)" where
  "MQTTClient_cycle A timeout l =
     (let (start, l) = now A l;
          (sock, n) = Socket_getReadySocket A timeout (g_net (b_sys l));
          l = upd_sys (\<lambda>s. s\<lparr>g_net := n\<rparr>) l;
          l = (if sock = 0 \<and> timeout \<ge> 100
               then let (e, l) = elapsed A start l in if e < 10 then sleep_ms A 100 l else l else l)
      in ub_bind
        (if sock > 0 then
           (case clientSockCompare A sock l of
              None \<Rightarrow> Inr (0, None, l)
            | Some h \<Rightarrow>
               let c = clients l ! h in
               if c_connect_state c = TCP_IN_PROGRESS \<or> c_connect_state c = SSL_IN_PROGRESS then Inr (0, None, l)
               else if c_connect_state c = WEBSOCKET_IN_PROGRESS
               then let (rc, n) = WebSocket_upgrade A (c_net c) (g_net (b_sys l)) in
                 Inr (rc, None, upd_sys (\<lambda>s. s\<lparr>g_net := n\<rparr>) l)
               else ub_bind (MQTTPacket_Factory (a_env A) (c_MQTTVersion c) h (b_sys l)) (\<lambda>(rc, pack, s).
                 let rc = (if rc = TCPSOCKET_INTERRUPTED then 0 else rc); l = l\<lparr>b_sys := s\<rparr> in
                 case pack of None \<Rightarrow> Inr (rc, None, l) | Some p \<Rightarrow> handle_packet A h sock rc p l))
         else Inr (0, None, l))
        (\<lambda>(rc, pack, l). ub_bind (MQTTClient_retry A l) (\<lambda>l. Inr (pack, sock, rc, l))))"

end
