(* ===== verification/ClientRun.thy ===== *)
theory ClientRun
  imports Client
begin

section \<open>The synchronous client: \<^verbatim>\<open>src/include/MQTTClient.c\<close>, the functions that wait\<close>

text \<open>
  The background thread \<^verbatim>\<open>MQTTClient_run\<close> and the functions of the API that release the mutex and
  wait: for packets, for acknowledgements, for the thread. None of their loops need end, so a result
  is \<open>None\<close> when one does not. What the background thread does while an API function has released
  the mutex is given by a schedule, \<open>b_sched\<close>: at each such point its head says how many steps the
  thread takes. A step of the thread is what it does between two points at which it waits for the
  mutex; the callbacks it makes are part of a step.
\<close>

subsection \<open>Results of functions that need not return\<close>

type_synonym 'a run = "(ub + 'a) option"

definition run_bind :: "'a run \<Rightarrow> ('a \<Rightarrow> 'b run) \<Rightarrow> 'b run" where
  "run_bind m f = (case m of None \<Rightarrow> None | Some (Inl e) \<Rightarrow> Some (Inl e) | Some (Inr x) \<Rightarrow> f x)"

abbreviation ret :: "'a \<Rightarrow> 'a run" where "ret x \<equiv> Some (Inr x)"

lemma run_bind_simps [simp]:
  "run_bind None f = None" "run_bind (Some (Inl e)) f = Some (Inl e)" "run_bind (Some (Inr x)) f = f x"
  by (simp_all add: run_bind_def)

lemma run_bind_ret_iff: "run_bind m f = ret y \<longleftrightarrow> (\<exists>x. m = ret x \<and> f x = ret y)"
  by (auto simp: run_bind_def split: option.splits sum.splits)

lemma run_bindE:
  assumes "run_bind m f = ret y"
  obtains x where "m = ret x" "f x = ret y"
  using assms by (auto simp: run_bind_ret_iff)

lemma run_bind_mono [partial_function_mono]:
  fixes B :: "('x \<Rightarrow> 'y option) \<Rightarrow> 'a run" and C :: "'a \<Rightarrow> ('x \<Rightarrow> 'y option) \<Rightarrow> 'b run"
  assumes "mono_option B" "\<And>y. mono_option (\<lambda>f. C y f)"
  shows "mono_option (\<lambda>f. run_bind (B f) (\<lambda>y. C y f))"
proof (rule monotoneI)
  fix f g :: "'x \<Rightarrow> 'y option"
  assume fg: "option.le_fun f g"
  have B: "B f = None \<or> B f = B g"
    using assms(1) fg unfolding monotone_on_def flat_ord_def by blast
  have C: "C y f = None \<or> C y f = C y g" for y
    using assms(2) [of y] fg unfolding monotone_on_def flat_ord_def by blast
  have "run_bind (B f) (\<lambda>y. C y f) = None \<or> run_bind (B f) (\<lambda>y. C y f) = run_bind (B g) (\<lambda>y. C y g)"
  proof (cases "B f")
    case (Some r)
    then have "B g = Some r" using B by simp
    then show ?thesis using Some C by (cases r) simp_all
  qed simp
  then show "option_ord (run_bind (B f) (\<lambda>y. C y f)) (run_bind (B g) (\<lambda>y. C y g))"
    by (simp add: flat_ord_def)
qed

subsection \<open>Disconnecting\<close>

text \<open>
  The wait for the messages in flight. \<open>yield\<close> is \<^verbatim>\<open>MQTTClient_yield\<close>, which in the background thread
  and beside it only sleeps, and \<open>stop\<close> is \<^verbatim>\<open>MQTTClient_stop\<close>.
\<close>

partial_function (option) inflight_wait ::
    "('n, 'f) api \<Rightarrow> (('n, 'f) lib \<Rightarrow> ('n, 'f) lib run) \<Rightarrow> nat \<Rightarrow> timeval \<Rightarrow> nat \<Rightarrow> ('n, 'f) lib
      \<Rightarrow> ('n, 'f) lib run" where
  "inflight_wait A yield h start timeout l =
     (if c_inboundMsgs (clients l ! h) = [] \<and> c_outboundMsgs (clients l ! h) = [] then ret l
      else case elapsed A start l of (e, l) \<Rightarrow>
        if e \<ge> timeout then ret l else run_bind (yield l) (inflight_wait A yield h start timeout))"

definition MQTTClient_disconnect1 ::
    "('n, 'f) api \<Rightarrow> (('n, 'f) lib \<Rightarrow> ('n, 'f) lib run) \<Rightarrow> (('n, 'f) lib \<Rightarrow> ('n, 'f) lib run) \<Rightarrow> nat option \<Rightarrow> int
      \<Rightarrow> bool \<Rightarrow> bool \<Rightarrow> int \<Rightarrow> MQTTProperties option \<Rightarrow> ('n, 'f) lib \<Rightarrow> (int \<times> ('n, 'f) lib) run" where
  "MQTTClient_disconnect1 A yield stop handle timeout call_connection_lost do_stop reason props l =
     (case handle of
        None \<Rightarrow> run_bind (if do_stop then stop l else ret l) (\<lambda>l. ret (MQTTCLIENT_FAILURE, l))
      | Some h \<Rightarrow>
         let was_connected = c_connected (clients l ! h) in
         run_bind
           (if was_connected
            then let (start, l) = now A l; l = upd_sys (upd_client h (\<lambda>c. c\<lparr>c_connect_state := DISCONNECTING\<rparr>)) l
                 in inflight_wait A yield h start (unat (word_of_int timeout :: 64 word)) l
            else ret l) (\<lambda>l.
         run_bind (Some (on_sys (MQTTClient_closeSession (a_env A) h reason props) l)) (\<lambda>l.
         run_bind (if do_stop then stop l else ret l) (\<lambda>l.
           ret (MQTTCLIENT_SUCCESS, if call_connection_lost then connection_lost h was_connected l else l)))))"

definition MQTTClient_disconnect_internal ::
    "('n, 'f) api \<Rightarrow> (('n, 'f) lib \<Rightarrow> ('n, 'f) lib run) \<Rightarrow> (('n, 'f) lib \<Rightarrow> ('n, 'f) lib run) \<Rightarrow> nat option \<Rightarrow> int
      \<Rightarrow> ('n, 'f) lib \<Rightarrow> ('n, 'f) lib run" where
  "MQTTClient_disconnect_internal A yield stop handle timeout l =
     run_bind (MQTTClient_disconnect1 A yield stop handle timeout True True 0 None l) (\<lambda>(_, l). ret l)"

subsection \<open>The background thread\<close>

text \<open>A packet has its type in the first four bits of the header.\<close>

definition packet_header :: "packet \<Rightarrow> byte" where
  "packet_header pack =
     (case pack of PkConnack c \<Rightarrow> ca_header c | PkPublish p \<Rightarrow> pb_header p | PkAck a \<Rightarrow> ak_header a
      | PkSuback s \<Rightarrow> sa_header s | PkUnsuback u \<Rightarrow> ua_header u | PkHeader b \<Rightarrow> b)"

definition packet_type :: "packet \<Rightarrow> nat" where
  "packet_type pack = hd_type (packet_header pack)"

text \<open>An error on the socket of a handle.\<close>

definition post_connect :: "nat \<Rightarrow> ('n, 'f) lib \<Rightarrow> ('n, 'f) lib" where
  "post_connect h l = upd_handle h (\<lambda>m. m\<lparr>m_connect_sem := m_connect_sem m + 1\<rparr>) l"

definition post_connack :: "nat \<Rightarrow> ('n, 'f) lib \<Rightarrow> ('n, 'f) lib" where
  "post_connack h l = upd_handle h (\<lambda>m. m\<lparr>m_connack_sem := m_connack_sem m + 1\<rparr>) l"

definition put_state :: "nat \<Rightarrow> int \<Rightarrow> ('n, 'f) lib \<Rightarrow> ('n, 'f) lib" where
  "put_state h st l = upd_sys (set_connect_state h st) l"

definition run_error :: "('n, 'f) api \<Rightarrow> nat \<Rightarrow> ('n, 'f) lib \<Rightarrow> ub + ('n, 'f) lib" where
  "run_error A h l =
     (if c_connected (clients l ! h) then disconnect_in_thread A h l
      else let l = (if c_connect_state (clients l ! h) = SSL_IN_PROGRESS
                    then post_connect h (put_state h NOT_IN_PROGRESS l) else l);
               l = (if c_connect_state (clients l ! h) = WAIT_FOR_CONNACK
                    then post_connack h (put_state h NOT_IN_PROGRESS l) else l)
           in Inr l)"

text \<open>
  The oldest message of the queue is handed to \<open>messageArrived\<close> and, when that returns true, its
  record and entry are removed. The result is the new value of the variable \<^verbatim>\<open>rc\<close>.
\<close>

definition message_callback :: "('n, 'f) api \<Rightarrow> nat \<Rightarrow> int \<Rightarrow> ('n, 'f) lib \<Rightarrow> ub + (int \<times> ('n, 'f) lib)" where
  "message_callback A h rc l =
     (case c_messageQueue (clients l ! h) of
        [] \<Rightarrow> Inr (rc, l)
      | qe # _ \<Rightarrow>
         if \<not> m_ma (b_handles l ! h) then Inr (rc, l)
         else
          let topicLen = (if int (strlen (qe_topicName qe)) = qe_topicLen qe then 0 else qe_topicLen qe);
              rc = message_arrived A (b_calls l);
              l = log_call (MessageArrived h (qe_topicName qe) topicLen (qe_msg qe)) l
          in if rc = 0 then Inr (rc, l)
             else ub_bind (if c_persistence (clients l ! h) = None then Inr (g_fs (b_sys l))
                   else ub_bind (MQTTPersistence_unpersistQueueEntry (clients l ! h) qe (g_fs (b_sys l)))
                     (\<lambda>(_, fs). Inr fs)) (\<lambda>fs.
               Inr (rc, upd_sys (\<lambda>s. upd_client h (\<lambda>c. c\<lparr>c_messageQueue :=
                 ListRemove (l_queue (e_lists (a_env A))) (c_messageQueue c) 0\<rparr>) (s\<lparr>g_fs := fs\<rparr>)) l)))"

text \<open>The background thread sleeps where the API yields, and does not wait for itself to stop.\<close>

abbreviation thread_yield :: "('n, 'f) api \<Rightarrow> ('n, 'f) lib \<Rightarrow> ('n, 'f) lib run" where
  "thread_yield A l \<equiv> ret (sleep_ms A 100 l)"

abbreviation thread_stop :: "('n, 'f) lib \<Rightarrow> ('n, 'f) lib run" where
  "thread_stop l \<equiv> ret (snd (request_stop l))"

text \<open>A packet that is not handled by \<^verbatim>\<open>MQTTClient_cycle\<close>, or what no packet means while connecting.\<close>

definition post_packet :: "('n, 'f) api \<Rightarrow> nat \<Rightarrow> packet \<Rightarrow> ('n, 'f) lib \<Rightarrow> ('n, 'f) lib run" where
  "post_packet A h pack l =
     (let ptype = packet_type pack; c = clients l ! h; H = e_heap (a_env A) in
      if ptype = CONNACK then ret (post_connack h (upd_handle h (\<lambda>m. m\<lparr>m_pack := Some pack\<rparr>) l))
      else if ptype = SUBACK
      then ret (upd_handle h (\<lambda>m. m\<lparr>m_pack := Some pack, m_suback_sem := m_suback_sem m + 1\<rparr>) l)
      else if ptype = UNSUBACK
      then ret (upd_handle h (\<lambda>m. m\<lparr>m_pack := Some pack, m_unsuback_sem := m_unsuback_sem m + 1\<rparr>) l)
      else if c_MQTTVersion c \<ge> MQTTVERSION_5 \<and> ptype = DISCONNECT \<and> m_disconnected (b_handles l ! h) \<and>
        H (ReqStruct ''props_rc_parms'') \<and> H (ReqStruct ''MQTTProperties'')
      then run_bind (MQTTClient_disconnect1 A (thread_yield A) thread_stop (Some h) 10 False True 0 None l)
        (\<lambda>(_, l). ret (log_call (DisconnectedCall h (case pack of PkAck a \<Rightarrow> ak_rc a | _ \<Rightarrow> None)) l))
      else ret l)"

definition post_connecting :: "('n, 'f) api \<Rightarrow> nat \<Rightarrow> int \<Rightarrow> ('n, 'f) lib \<Rightarrow> ('n, 'f) lib" where
  "post_connecting A h rc l =
     (let st = c_connect_state (clients l ! h) in
      if st = TCP_IN_PROGRESS
      then let (r, err, n) = getsockopt_error A (nh_socket (c_net (clients l ! h))) (g_net (b_sys l));
               l = upd_sys (\<lambda>s. s\<lparr>g_net := n\<rparr>) l
           in post_connect h (put_state h NOT_IN_PROGRESS
                (upd_handle h (\<lambda>m. m\<lparr>m_rc := (if r = 0 then err else r)\<rparr>) l))
      else if st = WEBSOCKET_IN_PROGRESS \<and> rc \<noteq> TCPSOCKET_INTERRUPTED
      then post_connect h (put_state h WAIT_FOR_CONNACK l)
      else l)"

text \<open>
  One step of \<^verbatim>\<open>MQTTClient_run\<close>: its start, a call of \<^verbatim>\<open>MQTTClient_cycle\<close>, or what is done with the
  result, each after taking the mutex.
\<close>

definition run_handle ::
    "('n, 'f) api \<Rightarrow> packet option \<Rightarrow> int \<Rightarrow> int \<Rightarrow> ('n, 'f) lib \<Rightarrow> ('n, 'f) lib run" where
  "run_handle A pack sock rc l =
     (case clientSockCompare A sock l of
        None \<Rightarrow> ret l
      | Some h \<Rightarrow>
         if rc = SOCKET_ERROR then Some (run_error A h l)
         else run_bind (Some (message_callback A h rc l)) (\<lambda>(rc, l).
           case pack of Some p \<Rightarrow> post_packet A h p l | None \<Rightarrow> ret (post_connecting A h rc l)))"

definition thread_end :: "('n, 'f) lib \<Rightarrow> ('n, 'f) lib" where
  "thread_end l = l\<lparr>b_thread := NoThread, b_tostop := False\<rparr>"

definition MQTTClient_run :: "('n, 'f) api \<Rightarrow> ('n, 'f) lib \<Rightarrow> ('n, 'f) lib run" where
  "MQTTClient_run A l =
     (case b_thread l of
        NoThread \<Rightarrow> ret l
      | Started \<Rightarrow> ret (l\<lparr>b_thread := Running, b_run_timeout := 10, b_run_read := None\<rparr>)
      | Running \<Rightarrow>
         (case b_run_read l of
            None \<Rightarrow> if b_tostop l then ret (thread_end l)
              else run_bind (Some (MQTTClient_cycle A (b_run_timeout l) l)) (\<lambda>(pack, sock, rc, l).
                ret (l\<lparr>b_run_read := Some (pack, sock, rc)\<rparr>))
          | Some (pack, sock, rc) \<Rightarrow>
             let l = l\<lparr>b_run_read := None\<rparr> in
             if b_tostop l then ret (thread_end l)
             else run_handle A pack sock rc (l\<lparr>b_run_timeout := 100\<rparr>)))"

text \<open>The mutex is released: the thread takes as many steps as the schedule says.\<close>

fun run_steps :: "('n, 'f) api \<Rightarrow> nat \<Rightarrow> ('n, 'f) lib \<Rightarrow> ('n, 'f) lib run" where
  "run_steps A 0 l = ret l"
| "run_steps A (Suc k) l = run_bind (MQTTClient_run A l) (run_steps A k)"

definition release :: "('n, 'f) api \<Rightarrow> ('n, 'f) lib \<Rightarrow> ('n, 'f) lib run" where
  "release A l = (case b_sched l of [] \<Rightarrow> ret l | k # ks \<Rightarrow> run_steps A k (l\<lparr>b_sched := ks\<rparr>))"

subsection \<open>Stopping and terminating\<close>

text \<open>Every 100 ms, at most 99 times, it is looked whether the thread has ended.\<close>

fun stop_wait :: "('n, 'f) api \<Rightarrow> nat \<Rightarrow> ('n, 'f) lib \<Rightarrow> ('n, 'f) lib run" where
  "stop_wait A 0 l = ret l"
| "stop_wait A (Suc n) l = (if running l then run_bind (release A (sleep_ms A 100 l)) (stop_wait A n) else ret l)"

definition MQTTClient_stop :: "('n, 'f) api \<Rightarrow> ('n, 'f) lib \<Rightarrow> (int \<times> ('n, 'f) lib) run" where
  "MQTTClient_stop A l =
     (let (asked, l) = request_stop l in
      if asked then run_bind (stop_wait A 99 l) (\<lambda>l. ret (1, l)) else ret (0, l))"

abbreviation api_stop :: "('n, 'f) api \<Rightarrow> ('n, 'f) lib \<Rightarrow> ('n, 'f) lib run" where
  "api_stop A l \<equiv> run_bind (MQTTClient_stop A l) (\<lambda>(_, l). ret l)"

definition MQTTClient_terminate :: "('n, 'f) api \<Rightarrow> ('n, 'f) lib \<Rightarrow> ('n, 'f) lib run" where
  "MQTTClient_terminate A l =
     run_bind (api_stop A l) (\<lambda>l. ret (if b_initialized l
       then l\<lparr>b_initialized := False, b_handles := [], b_sys := (b_sys l)\<lparr>g_clients := []\<rparr>\<rparr> else l))"

text \<open>A handle and its client leave their lists; the later ones move up.\<close>

definition remove_handle :: "nat \<Rightarrow> ('n, 'f) lib \<Rightarrow> ('n, 'f) lib" where
  "remove_handle h l =
     l\<lparr>b_handles := take h (b_handles l) @ drop (Suc h) (b_handles l),
       b_sys := (b_sys l)\<lparr>g_clients := take h (clients l) @ drop (Suc h) (clients l)\<rparr>\<rparr>"

definition MQTTClient_destroy :: "('n, 'f) api \<Rightarrow> nat option \<Rightarrow> ('n, 'f) lib \<Rightarrow> ('n, 'f) lib run" where
  "MQTTClient_destroy A handle l =
     (case handle of
        None \<Rightarrow> ret l
      | Some h \<Rightarrow>
         run_bind (Some (ub_bind (MQTTStrdup (e_heap (a_env A)) (c_clientID (clients l ! h))) (\<lambda>_.
           let (_, c, fs) = MQTTPersistence_close (clients l ! h) (g_fs (b_sys l));
               l = upd_sys (\<lambda>s. set_client h c (s\<lparr>g_fs := fs\<rparr>)) l
           in ub_bind (on_sys (MQTTClient_emptyMessageQueue h) l) (\<lambda>l.
                on_sys (MQTTProtocol_freeClient (a_env A) h) l)))) (\<lambda>l.
         let l = remove_handle h l in if clients l = [] then MQTTClient_terminate A l else ret l))"

subsection \<open>Yielding\<close>

text \<open>
  A session that \<^verbatim>\<open>MQTTClient_yield\<close> closes is closed with the timeout 0, so it is not yielded
  for again (lemma \<open>disconnect_internal_0\<close>).
\<close>

definition disconnect_now :: "('n, 'f) api \<Rightarrow> nat \<Rightarrow> ('n, 'f) lib \<Rightarrow> ('n, 'f) lib run" where
  "disconnect_now A h l = MQTTClient_disconnect_internal A ret (api_stop A) (Some h) 0 l"

definition yield_error :: "('n, 'f) api \<Rightarrow> int \<Rightarrow> int \<Rightarrow> ('n, 'f) lib \<Rightarrow> ('n, 'f) lib run" where
  "yield_error A sock rc l =
     (if rc \<noteq> SOCKET_ERROR then ret l
      else case clientSockCompare A sock l of
        None \<Rightarrow> ret l
      | Some h \<Rightarrow> if c_connect_state (clients l ! h) \<noteq> DISCONNECTING then disconnect_now A h l else ret l)"

partial_function (option) yield_loop ::
    "('n, 'f) api \<Rightarrow> timeval \<Rightarrow> nat \<Rightarrow> ('n, 'f) lib \<Rightarrow> ('n, 'f) lib run" where
  "yield_loop A start e l =
     run_bind (release A l) (\<lambda>l.
     run_bind (Some (MQTTClient_cycle A (100 - e) l)) (\<lambda>(_, sock, rc, l).
     run_bind (release A l) (\<lambda>l.
     run_bind (yield_error A sock rc l) (\<lambda>l.
       case elapsed A start l of (e, l) \<Rightarrow> if e < 100 then yield_loop A start e l else ret l))))"

definition MQTTClient_yield :: "('n, 'f) api \<Rightarrow> ('n, 'f) lib \<Rightarrow> ('n, 'f) lib run" where
  "MQTTClient_yield A l =
     (let (start, l) = now A l in
      if running l then release A (sleep_ms A 100 l)
      else let (e, l) = elapsed A start l in yield_loop A start e l)"

definition MQTTClient_disconnect :: "('n, 'f) api \<Rightarrow> nat option \<Rightarrow> int \<Rightarrow> ('n, 'f) lib \<Rightarrow> (int \<times> ('n, 'f) lib) run" where
  "MQTTClient_disconnect A handle timeout l =
     MQTTClient_disconnect1 A (MQTTClient_yield A) (api_stop A) handle timeout False True 0 None l"

definition MQTTClient_disconnect5 ::
    "('n, 'f) api \<Rightarrow> nat option \<Rightarrow> int \<Rightarrow> int \<Rightarrow> MQTTProperties option \<Rightarrow> ('n, 'f) lib \<Rightarrow> (int \<times> ('n, 'f) lib) run" where
  "MQTTClient_disconnect5 A handle timeout reason props l =
     MQTTClient_disconnect1 A (MQTTClient_yield A) (api_stop A) handle timeout False True reason props l"

subsection \<open>Waiting for a packet\<close>

text \<open>
  \<^verbatim>\<open>Thread_wait_sem\<close> with a timeout: the thread runs meanwhile. The semaphore is given by how to
  read and set its count.
\<close>

definition wait_sem ::
    "('n, 'f) api \<Rightarrow> (MQTTClients \<Rightarrow> nat) \<Rightarrow> (nat \<Rightarrow> MQTTClients \<Rightarrow> MQTTClients) \<Rightarrow> nat \<Rightarrow> ('n, 'f) lib
      \<Rightarrow> (int \<times> ('n, 'f) lib) run" where
  "wait_sem A get put h l =
     run_bind (release A l) (\<lambda>l. let n = get (b_handles l ! h) in
       if n > 0 then ret (0, upd_handle h (put (n - 1)) l) else ret (sem_timeout A, l))"

definition waitfor_running :: "('n, 'f) api \<Rightarrow> nat \<Rightarrow> nat \<Rightarrow> int \<Rightarrow> ('n, 'f) lib \<Rightarrow> (int \<times> ('n, 'f) lib) run" where
  "waitfor_running A h ptype rc l =
     (if ptype = CONNECT
      then run_bind (wait_sem A m_connect_sem (\<lambda>n m. m\<lparr>m_connect_sem := n\<rparr>) h l) (\<lambda>(rc, l).
        ret (if rc = 0 then m_rc (b_handles l ! h) else rc, l))
      else if ptype = CONNACK then wait_sem A m_connack_sem (\<lambda>n m. m\<lparr>m_connack_sem := n\<rparr>) h l
      else if ptype = SUBACK then wait_sem A m_suback_sem (\<lambda>n m. m\<lparr>m_suback_sem := n\<rparr>) h l
      else if ptype = UNSUBACK then wait_sem A m_unsuback_sem (\<lambda>n m. m\<lparr>m_unsuback_sem := n\<rparr>) h l
      else ret (rc, l))"

text \<open>What a packet, or none, on the socket of the handle means: whether the waiting ends.\<close>

definition waitfor_check ::
    "('n, 'f) api \<Rightarrow> nat \<Rightarrow> nat \<Rightarrow> packet option \<Rightarrow> int \<Rightarrow> ('n, 'f) lib \<Rightarrow> bool \<times> int \<times> ('n, 'f) lib" where
  "waitfor_check A h ptype pack rc l =
     (let c = clients l ! h; st = c_connect_state c;
          (r, err, n) = getsockopt_error A (nh_socket (c_net c)) (g_net (b_sys l));
          l' = upd_sys (\<lambda>s. s\<lparr>g_net := n\<rparr>) l
      in
      if rc = SOCKET_ERROR then (True, rc, l)
      else if (case pack of Some p \<Rightarrow> packet_type p = ptype | None \<Rightarrow> False) then (True, rc, l)
      else if st = TCP_IN_PROGRESS then (True, if r = 0 then err else r, l')
      else if st = WEBSOCKET_IN_PROGRESS \<and> rc \<noteq> TCPSOCKET_INTERRUPTED then (True, 1, l)
      else if st = PROXY_CONNECT_IN_PROGRESS then (True, 1, l)
      else if st = WAIT_FOR_CONNACK
      then if r = 0 \<and> err \<noteq> 0 then (True, err, l') else (False, rc, l')
      else (False, rc, l))"

partial_function (option) waitfor_loop ::
    "('n, 'f) api \<Rightarrow> nat \<Rightarrow> nat \<Rightarrow> timeval \<Rightarrow> nat \<Rightarrow> ('n, 'f) lib \<Rightarrow> (packet option \<times> int \<times> ('n, 'f) lib) run" where
  "waitfor_loop A h ptype start timeout l =
     run_bind (Some (MQTTClient_cycle A 100 l)) (\<lambda>(pack, sock, rc, l).
       case (if sock = nh_socket (c_net (clients l ! h)) then waitfor_check A h ptype pack rc l else (False, rc, l))
       of (ended, rc, l) \<Rightarrow>
         if ended then ret (pack, rc, l)
         else case elapsed A start l of (e, l) \<Rightarrow>
           if e > timeout then ret (None, rc, l) else waitfor_loop A h ptype start timeout l)"

text \<open>The packet and the return code. A timeout is signed.\<close>

definition MQTTClient_waitfor ::
    "('n, 'f) api \<Rightarrow> nat \<Rightarrow> nat \<Rightarrow> int \<Rightarrow> int \<Rightarrow> ('n, 'f) lib \<Rightarrow> (packet option \<times> int \<times> ('n, 'f) lib) run" where
  "MQTTClient_waitfor A h ptype rc timeout l =
     (let (start, l) = now A l in
      if timeout \<le> 0 then ret (None, MQTTCLIENT_FAILURE, l)
      else if running l
      then run_bind (waitfor_running A h ptype rc l) (\<lambda>(rc, l). ret (m_pack (b_handles l ! h), rc, l))
      else waitfor_loop A h ptype start (nat timeout) l)"

subsection \<open>Receiving and waiting for deliveries\<close>

text \<open>The packets are handled until a message is there, the time is over or the socket has an error.\<close>

partial_function (option) receive_loop ::
    "('n, 'f) api \<Rightarrow> nat \<Rightarrow> timeval \<Rightarrow> nat \<Rightarrow> nat \<Rightarrow> ('n, 'f) lib \<Rightarrow> (int \<times> ('n, 'f) lib) run" where
  "receive_loop A h start timeout e l =
     run_bind (Some (MQTTClient_cycle A (timeout - e) l)) (\<lambda>(_, sock, rc, l).
       if rc = SOCKET_ERROR \<and> clientSockCompare A sock l = Some h then ret (rc, l)
       else case elapsed A start l of (e, l) \<Rightarrow>
         if e < timeout \<and> c_messageQueue (clients l ! h) = [] then receive_loop A h start timeout e l else ret (rc, l))"

text \<open>The return code, and the message with its topic when there is one.\<close>

type_synonym received = "(bytes \<times> int \<times> MQTTPersistence_message) option"

definition MQTTClient_receive ::
    "('n, 'f) api \<Rightarrow> nat option \<Rightarrow> nat \<Rightarrow> ('n, 'f) lib \<Rightarrow> (int \<times> received \<times> ('n, 'f) lib) run" where
  "MQTTClient_receive A handle timeout l =
     (let (start, l) = now A l in
      case handle of
        None \<Rightarrow> ret (MQTTCLIENT_FAILURE, None, l)
      | Some h \<Rightarrow>
         if running l then ret (MQTTCLIENT_FAILURE, None, l)
         else if \<not> c_connected (clients l ! h) then ret (MQTTCLIENT_DISCONNECTED, None, l)
         else
          let timeout = (if c_messageQueue (clients l ! h) \<noteq> [] then 0 else timeout);
              (e, l) = elapsed A start l
          in run_bind (receive_loop A h start timeout e l) (\<lambda>(rc, l).
             run_bind (Some (if c_messageQueue (clients l ! h) = [] then Inr (rc, None, l)
                  else ub_bind (MQTTClient_deliverMessage A rc h l) (\<lambda>(rc, topicName, topicLen, msg, l).
                    Inr (rc, Some (topicName, topicLen, msg), l)))) (\<lambda>(rc, got, l).
             run_bind (if rc = SOCKET_ERROR
                  then MQTTClient_disconnect_internal A (MQTTClient_yield A) (api_stop A) (Some h) 0 l else ret l) (\<lambda>l.
               ret (rc, got, l)))))"

partial_function (option) completion_loop ::
    "('n, 'f) api \<Rightarrow> nat \<Rightarrow> int \<Rightarrow> timeval \<Rightarrow> nat \<Rightarrow> nat \<Rightarrow> ('n, 'f) lib \<Rightarrow> (int \<times> ('n, 'f) lib) run" where
  "completion_loop A h mdt start timeout e l =
     (if \<not> e < timeout then ret (MQTTCLIENT_FAILURE, l)
      else if \<not> c_connected (clients l ! h) then ret (MQTTCLIENT_DISCONNECTED, l)
      else if ListFindItem (l_msgs (e_lists (a_env A))) (c_outboundMsgs (clients l ! h)) (messageIDCompare mdt) = None
      then ret (MQTTCLIENT_SUCCESS, l)
      else run_bind (MQTTClient_yield A l) (\<lambda>l.
        case elapsed A start l of (e, l) \<Rightarrow> completion_loop A h mdt start timeout e l))"

definition MQTTClient_waitForCompletion ::
    "('n, 'f) api \<Rightarrow> nat option \<Rightarrow> int \<Rightarrow> nat \<Rightarrow> ('n, 'f) lib \<Rightarrow> (int \<times> ('n, 'f) lib) run" where
  "MQTTClient_waitForCompletion A handle mdt timeout l =
     (let (start, l) = now A l in
      case handle of
        None \<Rightarrow> ret (MQTTCLIENT_FAILURE, l)
      | Some h \<Rightarrow> let (e, l) = elapsed A start l in completion_loop A h mdt start timeout e l)"

subsection \<open>Publishing\<close>

text \<open>
  The wait for room in the outbound list and for the socket. \<^verbatim>\<open>MQTTCLIENT_FAILURE\<close> when the connection
  is lost meanwhile.
\<close>

partial_function (option) publish_wait :: "('n, 'f) api \<Rightarrow> nat \<Rightarrow> ('n, 'f) lib \<Rightarrow> (int \<times> ('n, 'f) lib) run" where
  "publish_wait A h l =
     (if int (length (c_outboundMsgs (clients l ! h))) \<ge> c_maxInflightMessages (clients l ! h) \<or>
         \<not> Socket_noPendingWrites (e_net (a_env A)) (socket_of h (b_sys l)) (g_net (b_sys l))
      then run_bind (MQTTClient_yield A l) (\<lambda>l.
        if \<not> c_connected (clients l ! h) then ret (MQTTCLIENT_FAILURE, l) else publish_wait A h l)
      else ret (MQTTCLIENT_SUCCESS, l))"

text \<open>The wait for the end of a packet of which only a part was written.\<close>

partial_function (option) written_wait :: "('n, 'f) api \<Rightarrow> nat \<Rightarrow> ('n, 'f) lib \<Rightarrow> ('n, 'f) lib run" where
  "written_wait A h l =
     (if c_connected (clients l ! h) \<and> SocketBuffer_getWrite A (socket_of h (b_sys l)) (g_net (b_sys l))
      then run_bind (MQTTClient_yield A l) (written_wait A h) else ret l)"

text \<open>
  The packet that is built, or the return code when the heap is used up. Of the new structure only
  some fields are set. When the payload cannot be allocated the field \<^verbatim>\<open>topic\<close> is tested before it
  is set.
\<close>

definition publish_packet ::
    "('n, 'f) api \<Rightarrow> bytes \<Rightarrow> int \<Rightarrow> bytes option \<Rightarrow> MQTTProperties option \<Rightarrow> int \<Rightarrow> int \<Rightarrow> ub + (int + Publish)" where
  "publish_packet A topicName payloadlen payload properties msgid version =
     (let H = e_heap (a_env A) in
      if \<not> H (ReqStruct ''Publish'') then Inr (Inl PAHO_MEMORY_ERROR)
      else ub_bind (if payloadlen \<le> 0 then Inr []
             else if \<not> H (ReqBuffer (nat payloadlen)) then Inl UninitRead
             else case payload of None \<Rightarrow> Inl NullDeref
               | Some b \<Rightarrow> if int (length b) < payloadlen then Inl OverRead else Inr (take (nat payloadlen) b)) (\<lambda>data.
        ub_bind (MQTTStrdup H topicName) (\<lambda>topic. case topic of
          None \<Rightarrow> Inr (Inl PAHO_MEMORY_ERROR)
        | Some t \<Rightarrow>
           let p = (new_publish A)\<lparr>pb_mask := [0, 0, 0, 0], pb_payload := data, pb_payloadlen := payloadlen,
                 pb_topic := Some t, pb_msgId := msgid, pb_MQTTVersion := version\<rparr>
           in Inr (Inr (if version \<ge> MQTTVERSION_5
                then p\<lparr>pb_properties := (case properties of Some ps \<Rightarrow> ps | None \<Rightarrow> MQTTProperties_initializer)\<rparr>
                else p)))))"

text \<open>
  What follows the sending: the wait for a packet partly written, the token, and the closing of the
  session after an error. The token is read from the message, which may have been released by then.
\<close>

definition publish_token :: "('n, 'f) api \<Rightarrow> nat \<Rightarrow> int \<Rightarrow> ('n, 'f) lib \<Rightarrow> ub + int" where
  "publish_token A h msgid l =
     (case ListFindItem (l_msgs (e_lists (a_env A))) (c_outboundMsgs (clients l ! h)) (messageIDCompare msgid) of
        None \<Rightarrow> Inl UseAfterFree
      | Some k \<Rightarrow> Inr (ms_msgid (c_outboundMsgs (clients l ! h) ! k)))"

definition publish_end :: "('n, 'f) api \<Rightarrow> nat \<Rightarrow> nat \<Rightarrow> int \<Rightarrow> ('n, 'f) lib \<Rightarrow> (int \<times> ('n, 'f) lib) run" where
  "publish_end A h qos rc l =
     (if rc = SOCKET_ERROR
      then run_bind (MQTTClient_disconnect_internal A (MQTTClient_yield A) (api_stop A) (Some h) 0 l) (\<lambda>l.
        ret (if qos > 0 then MQTTCLIENT_SUCCESS else MQTTCLIENT_FAILURE, l))
      else ret (rc, l))"

definition publish_sent ::
    "('n, 'f) api \<Rightarrow> nat \<Rightarrow> nat \<Rightarrow> bool \<Rightarrow> int \<Rightarrow> int \<Rightarrow> ('n, 'f) lib \<Rightarrow> (int \<times> int option \<times> ('n, 'f) lib) run" where
  "publish_sent A h qos deliveryToken msgid rc l =
     run_bind (if rc = TCPSOCKET_INTERRUPTED
               then run_bind (written_wait A h l) (\<lambda>l.
                 ret (if qos > 0 \<or> c_connected (clients l ! h) then MQTTCLIENT_SUCCESS else MQTTCLIENT_FAILURE, l))
               else ret (rc, l)) (\<lambda>(rc, l).
     run_bind (if deliveryToken \<and> qos > 0 then run_bind (Some (publish_token A h msgid l)) (\<lambda>t. ret (Some t))
               else ret None) (\<lambda>tok.
     run_bind (publish_end A h qos rc l) (\<lambda>(rc, l). ret (rc, tok, l))))"

text \<open>
  \<^verbatim>\<open>MQTTClient_publish5\<close>: the return code and what is stored at \<^verbatim>\<open>deliveryToken\<close>, an argument that
  may be NULL (\<open>False\<close>). The code does not test the QoS, which is a natural number here; in
  \<^verbatim>\<open>MQTTClient_publishMessage\<close> a negative one counts as 0, where the code would send its two low bits.
\<close>

definition publish_check :: "('n, 'f) api \<Rightarrow> nat option \<Rightarrow> bytes \<Rightarrow> ('n, 'f) lib \<Rightarrow> int" where
  "publish_check A handle topicName l =
     (case handle of None \<Rightarrow> MQTTCLIENT_FAILURE
      | Some h \<Rightarrow> if \<not> c_connected (clients l ! h) then MQTTCLIENT_DISCONNECTED
          else if \<not> UTF8_validateString A (c_str topicName) then MQTTCLIENT_BAD_UTF8_STRING else MQTTCLIENT_SUCCESS)"

definition publish_start ::
    "('n, 'f) api \<Rightarrow> nat \<Rightarrow> bytes \<Rightarrow> int \<Rightarrow> bytes option \<Rightarrow> nat \<Rightarrow> nat \<Rightarrow> MQTTProperties option \<Rightarrow> bool
      \<Rightarrow> int \<Rightarrow> ('n, 'f) lib \<Rightarrow> (int \<times> int option \<times> ('n, 'f) lib) run" where
  "publish_start A h topicName payloadlen payload qos retained properties deliveryToken msgid l =
     run_bind (Some (publish_packet A topicName payloadlen payload properties msgid (c_MQTTVersion (clients l ! h))))
       (\<lambda>r. case r of
          Inl rc \<Rightarrow> run_bind (publish_end A h qos rc l) (\<lambda>(rc, l). ret (rc, None, l))
        | Inr p \<Rightarrow> run_bind (Some (MQTTProtocol_startPublish (a_env A) h p qos retained None (b_sys l))) (\<lambda>(rc, _, _, s).
            publish_sent A h qos deliveryToken msgid rc (l\<lparr>b_sys := s\<rparr>)))"

definition MQTTClient_publish5 ::
    "('n, 'f) api \<Rightarrow> nat option \<Rightarrow> bytes \<Rightarrow> int \<Rightarrow> bytes option \<Rightarrow> nat \<Rightarrow> nat \<Rightarrow> MQTTProperties option \<Rightarrow> bool
      \<Rightarrow> ('n, 'f) lib \<Rightarrow> (int \<times> int option \<times> ('n, 'f) lib) run" where
  "MQTTClient_publish5 A handle topicName payloadlen payload qos retained properties deliveryToken l =
     (let rc = publish_check A handle topicName l; h = the handle in
      if rc \<noteq> MQTTCLIENT_SUCCESS then ret (rc, None, l)
      else run_bind (publish_wait A h l) (\<lambda>(rc, l).
        if rc \<noteq> MQTTCLIENT_SUCCESS then ret (rc, None, l)
        else case (if qos > 0 then MQTTProtocol_assignMsgId (l_msgs (e_lists (a_env A))) (clients l ! h)
                   else Some (0, clients l ! h)) of
            None \<Rightarrow> None
          | Some (msgid, c) \<Rightarrow>
             let l = upd_sys (set_client h c) l in
             if qos > 0 \<and> msgid = 0 then ret (MQTTCLIENT_MAX_MESSAGES_INFLIGHT, None, l)
             else publish_start A h topicName payloadlen payload qos retained properties deliveryToken msgid l))"

definition MQTTClient_publish ::
    "('n, 'f) api \<Rightarrow> nat option \<Rightarrow> bytes \<Rightarrow> int \<Rightarrow> bytes option \<Rightarrow> nat \<Rightarrow> nat \<Rightarrow> bool \<Rightarrow> ('n, 'f) lib
      \<Rightarrow> (int \<times> int option \<times> ('n, 'f) lib) run" where
  "MQTTClient_publish A handle topicName payloadlen payload qos retained deliveryToken l =
     (case handle of None \<Rightarrow> Some (Inl NullDeref)
      | Some h \<Rightarrow>
         if c_MQTTVersion (clients l ! h) \<ge> MQTTVERSION_5 then ret (MQTTCLIENT_WRONG_MQTT_VERSION, None, l)
         else MQTTClient_publish5 A handle topicName payloadlen payload qos retained None deliveryToken l)"

text \<open>A message of the application: the fields that the queue has too, and the name of the structure.\<close>

record MQTTClient_message =
  cm_struct_id :: bytes
  cm_message :: MQTTPersistence_message

definition message_ok :: "MQTTClient_message \<Rightarrow> bool" where
  "message_ok m \<longleftrightarrow> take 4 (cm_struct_id m) = map (\<lambda>c. of_char c) ''MQTM'' \<and>
     pm_struct_version (cm_message m) \<in> {0, 1}"

definition MQTTClient_publishMessage5 ::
    "('n, 'f) api \<Rightarrow> nat option \<Rightarrow> bytes \<Rightarrow> MQTTClient_message option \<Rightarrow> bool \<Rightarrow> ('n, 'f) lib
      \<Rightarrow> (int \<times> int option \<times> ('n, 'f) lib) run" where
  "MQTTClient_publishMessage5 A handle topicName message deliveryToken l =
     (case message of None \<Rightarrow> ret (MQTTCLIENT_NULL_PARAMETER, None, l)
      | Some m \<Rightarrow>
         if \<not> message_ok m then ret (MQTTCLIENT_BAD_STRUCTURE, None, l)
         else let p = cm_message m in
           MQTTClient_publish5 A handle topicName (pm_payloadlen p) (Some (pm_payload p)) (nat (pm_qos p))
             (nat (pm_retained p)) (if pm_struct_version p \<ge> 1 then Some (pm_properties p) else None) deliveryToken l)"

definition MQTTClient_publishMessage ::
    "('n, 'f) api \<Rightarrow> nat option \<Rightarrow> bytes \<Rightarrow> MQTTClient_message option \<Rightarrow> bool \<Rightarrow> ('n, 'f) lib
      \<Rightarrow> (int \<times> int option \<times> ('n, 'f) lib) run" where
  "MQTTClient_publishMessage A handle topicName message deliveryToken l =
     (case message of None \<Rightarrow> Some (Inl NullDeref)
      | Some m \<Rightarrow>
         if \<not> message_ok m then ret (MQTTCLIENT_BAD_STRUCTURE, None, l)
         else if (case handle of Some h \<Rightarrow> c_MQTTVersion (clients l ! h) \<ge> MQTTVERSION_5 | None \<Rightarrow> False)
         then ret (MQTTCLIENT_WRONG_MQTT_VERSION, None, l)
         else MQTTClient_publishMessage5 A handle topicName message deliveryToken l)"

subsection \<open>Subscribing\<close>

text \<open>
  The arguments are arrays of \<open>count\<close> topics and as many values for the QoS; the results are the
  response and the array of the values, which the answer of the server is written to.
\<close>

fun topics_check :: "('n, 'f) api \<Rightarrow> bytes list \<Rightarrow> int list option \<Rightarrow> ub + int" where
  "topics_check A [] qos = Inr MQTTCLIENT_SUCCESS"
| "topics_check A (t # ts) qos =
     (if \<not> UTF8_validateString A (c_str t) then Inr MQTTCLIENT_BAD_UTF8_STRING
      else case qos of None \<Rightarrow> topics_check A ts None
        | Some [] \<Rightarrow> Inl OverRead
        | Some (q # qs) \<Rightarrow> if q < 0 \<or> q > 2 then Inr MQTTCLIENT_BAD_QOS else topics_check A ts (Some qs))"

definition request_check ::
    "('n, 'f) api \<Rightarrow> nat option \<Rightarrow> bytes list \<Rightarrow> int list option \<Rightarrow> ('n, 'f) lib \<Rightarrow> ub + int" where
  "request_check A handle topics qos l =
     (case handle of None \<Rightarrow> Inr MQTTCLIENT_FAILURE
      | Some h \<Rightarrow> if \<not> c_connected (clients l ! h) then Inr MQTTCLIENT_DISCONNECTED
          else topics_check A topics qos)"

definition response :: "int \<Rightarrow> MQTTResponse" where
  "response rc = MQTTResponse_initializer\<lparr>rs_reasonCode := rc\<rparr>"

text \<open>
  The properties and reason codes of an answer of version 5. The flag says whether the heap was
  used up, which ends the function at once.
\<close>

definition answer_response ::
    "heap \<Rightarrow> MQTTProperties option \<Rightarrow> nat list option \<Rightarrow> MQTTResponse \<Rightarrow> ub + (bool \<times> MQTTResponse)" where
  "answer_response H props codes resp =
     (case props of None \<Rightarrow> Inl UninitRead
      | Some ps \<Rightarrow>
         let present = p_count ps > 0 in
         if present \<and> \<not> H (ReqStruct ''MQTTProperties'') then Inr (True, resp)
         else ub_bind (if present then ub_bind (MQTTProperties_copy H ps) (\<lambda>ps'. Inr (resp\<lparr>rs_properties := Some ps'\<rparr>))
                       else Inr resp) (\<lambda>resp.
           case codes of None \<Rightarrow> Inl NullDeref
           | Some [] \<Rightarrow> Inl NullDeref
           | Some (c # cs) \<Rightarrow>
              let resp = resp\<lparr>rs_reasonCodeCount := int (length (c # cs)), rs_reasonCode := int c\<rparr> in
              if cs = [] then Inr (False, resp)
              else if \<not> H (ReqBuffer (4 * length (c # cs))) then Inr (True, resp)
              else Inr (False, resp\<lparr>rs_reasonCodes := Some (c # cs)\<rparr>)))"

text \<open>\<open>qos[i++] = ...\<close> for the values of the answer.\<close>

definition put_qos :: "nat list \<Rightarrow> int list \<Rightarrow> int list" where
  "put_qos answers qos = map int answers @ drop (length answers) qos"

definition drop_pack :: "nat \<Rightarrow> ('n, 'f) lib \<Rightarrow> ('n, 'f) lib" where
  "drop_pack h l = upd_handle h (\<lambda>m. m\<lparr>m_pack := None\<rparr>) l"

text \<open>
  What is done with the SUBACK: the response, the array, whether the function ends at once, and the
  return code. The packet that was waited for is cast to its structure.
\<close>

definition subscribe_answer ::
    "('n, 'f) api \<Rightarrow> nat \<Rightarrow> nat \<Rightarrow> int list \<Rightarrow> packet \<Rightarrow> int \<Rightarrow> ('n, 'f) lib
      \<Rightarrow> ub + (bool \<times> int \<times> MQTTResponse \<times> int list \<times> ('n, 'f) lib)" where
  "subscribe_answer A h n qos pack rc l =
     (case pack of
        PkSuback sub \<Rightarrow>
         ub_bind
           (if c_MQTTVersion (clients l ! h) = MQTTVERSION_5
            then ub_bind (answer_response (e_heap (a_env A)) (sa_properties sub) (Some (sa_qoss sub))
                (response MQTTCLIENT_FAILURE)) (\<lambda>(full, resp). Inr (full, resp, qos))
            else if length (sa_qoss sub) > n then Inr (False, response MQTTCLIENT_FAILURE, qos)
            else Inr (False, response rc, put_qos (sa_qoss sub) qos)) (\<lambda>(full, resp, qos).
         if full then Inr (True, PAHO_MEMORY_ERROR, resp, qos, l)
         else ub_bind (on_sys_rc (MQTTProtocol_handleSubacks (a_env A) sub (socket_of h (b_sys l))) l) (\<lambda>(rc, l).
           Inr (False, rc, resp, qos, drop_pack h l)))
      | _ \<Rightarrow> Inl WrongMember)"

text \<open>
  The end of a request: an error of the socket closes the session, and a negative return code is
  the one of the response.
\<close>

definition request_end :: "('n, 'f) api \<Rightarrow> nat \<Rightarrow> bool \<Rightarrow> int \<Rightarrow> MQTTResponse \<Rightarrow> ('n, 'f) lib
    \<Rightarrow> (MQTTResponse \<times> ('n, 'f) lib) run" where
  "request_end A h at_once rc resp l =
     run_bind (if \<not> at_once \<and> rc = SOCKET_ERROR
               then MQTTClient_disconnect_internal A (MQTTClient_yield A) (api_stop A) (Some h) 0 l else ret l) (\<lambda>l.
       ret (if rc < 0 then resp\<lparr>rs_reasonCode := rc\<rparr> else resp, l))"

definition subscribe_wait ::
    "('n, 'f) api \<Rightarrow> nat \<Rightarrow> nat \<Rightarrow> int list \<Rightarrow> int \<Rightarrow> ('n, 'f) lib \<Rightarrow> (MQTTResponse \<times> int list \<times> ('n, 'f) lib) run" where
  "subscribe_wait A h n qos rc l =
     (if rc \<noteq> TCPSOCKET_COMPLETE
      then run_bind (request_end A h False rc (response MQTTCLIENT_FAILURE) l) (\<lambda>(resp, l). ret (resp, qos, l))
      else run_bind (MQTTClient_waitfor A h SUBACK rc (int (m_commandTimeout (b_handles l ! h))) l)
        (\<lambda>(pack, rc, l). case pack of
           None \<Rightarrow> run_bind (request_end A h False SOCKET_ERROR (response MQTTCLIENT_FAILURE) l) (\<lambda>(resp, l).
             ret (resp, qos, l))
         | Some p \<Rightarrow> run_bind (Some (subscribe_answer A h n qos p rc l)) (\<lambda>(full, rc, resp, qos, l).
             run_bind (request_end A h full rc resp l) (\<lambda>(resp, l). ret (resp, qos, l)))))"

definition MQTTClient_subscribeMany5 ::
    "('n, 'f) api \<Rightarrow> nat option \<Rightarrow> bytes list \<Rightarrow> int list \<Rightarrow> MQTTSubscribe_options list option \<Rightarrow> MQTTProperties option
      \<Rightarrow> ('n, 'f) lib \<Rightarrow> (MQTTResponse \<times> int list \<times> ('n, 'f) lib) run" where
  "MQTTClient_subscribeMany5 A handle topics qos opts props l =
     run_bind (Some (request_check A handle topics (Some qos) l)) (\<lambda>rc. let h = the handle in
       if rc \<noteq> MQTTCLIENT_SUCCESS then ret (response rc, qos, l)
       else case MQTTProtocol_assignMsgId (l_msgs (e_lists (a_env A))) (clients l ! h) of
           None \<Rightarrow> None
         | Some (msgid, c) \<Rightarrow>
            let l = upd_sys (set_client h c) l in
            if msgid = 0 then ret (response MQTTCLIENT_MAX_MESSAGES_INFLIGHT, qos, l)
            else run_bind (Some (on_sys_rc (MQTTProtocol_subscribe (a_env A) h topics (take (length topics) qos)
                msgid opts props) l)) (\<lambda>(rc, l). subscribe_wait A h (length topics) qos rc l))"

text \<open>The calls for versions before 5 return the reason code.\<close>

definition is_v5 :: "nat option \<Rightarrow> ('n, 'f) lib \<Rightarrow> bool" where
  "is_v5 handle l \<longleftrightarrow> (case handle of None \<Rightarrow> False | Some h \<Rightarrow> c_MQTTVersion (clients l ! h) \<ge> MQTTVERSION_5)"

definition MQTTClient_subscribeMany ::
    "('n, 'f) api \<Rightarrow> nat option \<Rightarrow> bytes list \<Rightarrow> int list \<Rightarrow> ('n, 'f) lib \<Rightarrow> (int \<times> int list \<times> ('n, 'f) lib) run" where
  "MQTTClient_subscribeMany A handle topics qos l =
     (if is_v5 handle l then ret (MQTTCLIENT_WRONG_MQTT_VERSION, qos, l)
      else run_bind (MQTTClient_subscribeMany5 A handle topics qos None None l) (\<lambda>(resp, qos, l).
        ret (rs_reasonCode resp, qos, l)))"

definition MQTTClient_subscribe5 ::
    "('n, 'f) api \<Rightarrow> nat option \<Rightarrow> bytes \<Rightarrow> int \<Rightarrow> MQTTSubscribe_options option \<Rightarrow> MQTTProperties option \<Rightarrow> ('n, 'f) lib
      \<Rightarrow> (MQTTResponse \<times> ('n, 'f) lib) run" where
  "MQTTClient_subscribe5 A handle topic qos opts props l =
     run_bind (MQTTClient_subscribeMany5 A handle [topic] [qos] (map_option (\<lambda>o'. [o']) opts) props l)
       (\<lambda>(resp, qos, l). ret (if qos ! 0 = MQTT_BAD_SUBSCRIBE then resp\<lparr>rs_reasonCode := MQTT_BAD_SUBSCRIBE\<rparr> else resp, l))"

definition MQTTClient_subscribe ::
    "('n, 'f) api \<Rightarrow> nat option \<Rightarrow> bytes \<Rightarrow> int \<Rightarrow> ('n, 'f) lib \<Rightarrow> (int \<times> ('n, 'f) lib) run" where
  "MQTTClient_subscribe A handle topic qos l =
     (if handle = None then Some (Inl NullDeref)
      else if is_v5 handle l then ret (MQTTCLIENT_WRONG_MQTT_VERSION, l)
      else run_bind (MQTTClient_subscribe5 A handle topic qos None None l) (\<lambda>(resp, l). ret (rs_reasonCode resp, l)))"

subsection \<open>Unsubscribing\<close>

definition unsubscribe_answer ::
    "('n, 'f) api \<Rightarrow> nat \<Rightarrow> packet \<Rightarrow> int \<Rightarrow> ('n, 'f) lib \<Rightarrow> ub + (bool \<times> int \<times> MQTTResponse \<times> ('n, 'f) lib)" where
  "unsubscribe_answer A h pack rc l =
     (case pack of
        PkUnsuback unsub \<Rightarrow>
         ub_bind
           (if c_MQTTVersion (clients l ! h) = MQTTVERSION_5
            then answer_response (e_heap (a_env A)) (ua_properties unsub) (ua_reasonCodes unsub)
              (response MQTTCLIENT_FAILURE)
            else Inr (False, response rc)) (\<lambda>(full, resp).
         if full then Inr (True, PAHO_MEMORY_ERROR, resp, l)
         else ub_bind (on_sys_rc (MQTTProtocol_handleUnsubacks (a_env A) unsub (socket_of h (b_sys l))) l) (\<lambda>(rc, l).
           Inr (False, rc, resp, drop_pack h l)))
      | _ \<Rightarrow> Inl WrongMember)"

definition unsubscribe_wait ::
    "('n, 'f) api \<Rightarrow> nat \<Rightarrow> int \<Rightarrow> ('n, 'f) lib \<Rightarrow> (MQTTResponse \<times> ('n, 'f) lib) run" where
  "unsubscribe_wait A h rc l =
     (if rc \<noteq> TCPSOCKET_COMPLETE then request_end A h False rc (response MQTTCLIENT_FAILURE) l
      else run_bind (MQTTClient_waitfor A h UNSUBACK rc (int (m_commandTimeout (b_handles l ! h))) l)
        (\<lambda>(pack, rc, l). case pack of
           None \<Rightarrow> request_end A h False SOCKET_ERROR (response MQTTCLIENT_FAILURE) l
         | Some p \<Rightarrow> run_bind (Some (unsubscribe_answer A h p rc l)) (\<lambda>(full, rc, resp, l).
             request_end A h full rc resp l)))"

definition MQTTClient_unsubscribeMany5 ::
    "('n, 'f) api \<Rightarrow> nat option \<Rightarrow> bytes list \<Rightarrow> MQTTProperties option \<Rightarrow> ('n, 'f) lib
      \<Rightarrow> (MQTTResponse \<times> ('n, 'f) lib) run" where
  "MQTTClient_unsubscribeMany5 A handle topics props l =
     run_bind (Some (request_check A handle topics None l)) (\<lambda>rc. let h = the handle in
       if rc \<noteq> MQTTCLIENT_SUCCESS then ret (response rc, l)
       else case MQTTProtocol_assignMsgId (l_msgs (e_lists (a_env A))) (clients l ! h) of
           None \<Rightarrow> None
         | Some (msgid, c) \<Rightarrow>
            let l = upd_sys (set_client h c) l in
            if msgid = 0 then ret (response MQTTCLIENT_MAX_MESSAGES_INFLIGHT, l)
            else run_bind (Some (on_sys_rc (MQTTProtocol_unsubscribe (a_env A) h topics msgid props) l))
              (\<lambda>(rc, l). unsubscribe_wait A h rc l))"

definition MQTTClient_unsubscribeMany ::
    "('n, 'f) api \<Rightarrow> nat option \<Rightarrow> bytes list \<Rightarrow> ('n, 'f) lib \<Rightarrow> (int \<times> ('n, 'f) lib) run" where
  "MQTTClient_unsubscribeMany A handle topics l =
     (if is_v5 handle l then ret (MQTTCLIENT_WRONG_MQTT_VERSION, l)
      else run_bind (MQTTClient_unsubscribeMany5 A handle topics None l) (\<lambda>(resp, l). ret (rs_reasonCode resp, l)))"

definition MQTTClient_unsubscribe5 ::
    "('n, 'f) api \<Rightarrow> nat option \<Rightarrow> bytes \<Rightarrow> MQTTProperties option \<Rightarrow> ('n, 'f) lib \<Rightarrow> (MQTTResponse \<times> ('n, 'f) lib) run" where
  "MQTTClient_unsubscribe5 A handle topic props l = MQTTClient_unsubscribeMany5 A handle [topic] props l"

definition MQTTClient_unsubscribe ::
    "('n, 'f) api \<Rightarrow> nat option \<Rightarrow> bytes \<Rightarrow> ('n, 'f) lib \<Rightarrow> (int \<times> ('n, 'f) lib) run" where
  "MQTTClient_unsubscribe A handle topic l =
     run_bind (MQTTClient_unsubscribe5 A handle topic None l) (\<lambda>(resp, l). ret (rs_reasonCode resp, l))"

subsection \<open>Connecting\<close>

record MQTTClient_willOptions =
  wo_struct_id :: bytes
  wo_struct_version :: int
  wo_topicName :: "bytes option"
  wo_message :: "bytes option"
  wo_retained :: int
  wo_qos :: int
  wo_payload_len :: int
  wo_payload_data :: "bytes option"

record MQTTClient_connectOptions =
  co_struct_id :: bytes
  co_struct_version :: int
  co_keepAliveInterval :: int
  co_cleansession :: int
  co_reliable :: bool
  co_will :: "MQTTClient_willOptions option"
  co_username :: "bytes option"
  co_password :: "bytes option"
  co_connectTimeout :: int
  co_retryInterval :: int
  co_serverURIs :: "bytes list"          \<comment> \<open>as many as \<^verbatim>\<open>serverURIcount\<close>\<close>
  co_MQTTVersion :: int
  co_binarypwd_len :: int
  co_binarypwd_data :: "bytes option"
  co_maxInflightMessages :: int
  co_cleanstart :: int
  co_httpHeaders :: "(bytes \<times> bytes) list option"
  co_httpProxy :: "bytes option"
  co_httpsProxy :: "bytes option"

text \<open>What is filled in for the caller, \<^verbatim>\<open>options->returned\<close>.\<close>

record returned =
  rt_serverURI :: bytes
  rt_MQTTVersion :: int
  rt_sessionPresent :: nat

text \<open>A product of two numbers of type \<^verbatim>\<open>int\<close>.\<close>

definition times_1000 :: "int \<Rightarrow> ub + int" where
  "times_1000 n = (if n * 1000 < - 2147483648 \<or> 2147483648 \<le> n * 1000 then Inl IntOverflow else Inr (n * 1000))"

definition setRetryLoopInterval :: "int \<Rightarrow> ('n, 'f) lib \<Rightarrow> ub + ('n, 'f) lib" where
  "setRetryLoopInterval keepalive l =
     ub_bind (times_1000 keepalive) (\<lambda>k. let ms = k sdiv 10 in
       Inr (l\<lparr>b_retryLoopIntervalms := (if ms < 100 then 100 else if ms > 5000 then 5000 else ms)\<rparr>))"

text \<open>
  The phases of \<^verbatim>\<open>MQTTClient_connectURIVersion\<close>. Each has the return code with which it goes to the
  end of the function, or \<open>None\<close> and goes on. First the background thread is started and waited for.
\<close>

type_synonym ('n, 'f) phase_run = "(int option \<times> ('n, 'f) lib) run"

fun wait_running :: "('n, 'f) api \<Rightarrow> nat \<Rightarrow> ('n, 'f) lib \<Rightarrow> ('n, 'f) lib run" where
  "wait_running A 0 l = ret l"
| "wait_running A (Suc n) l = (if running l then ret l else run_bind (release A (sleep_ms A 100 l)) (wait_running A n))"

definition connect_thread :: "('n, 'f) api \<Rightarrow> nat \<Rightarrow> timeval \<Rightarrow> nat \<Rightarrow> ('n, 'f) lib \<Rightarrow> ('n, 'f) phase_run" where
  "connect_thread A h start timeout l =
     (if m_ma (b_handles l ! h) \<and> \<not> running l
      then let (e, l) = elapsed A start (l\<lparr>b_thread := Started\<rparr>) in
        if e \<ge> timeout then ret (Some SOCKET_ERROR, l)
        else run_bind (wait_running A 4 l) (\<lambda>l. ret (if running l then None else Some SOCKET_ERROR, l))
      else ret (None, l))"

text \<open>The time left, the difference of two unsigned numbers as a signed one.\<close>

definition remaining :: "('n, 'f) api \<Rightarrow> timeval \<Rightarrow> nat \<Rightarrow> ('n, 'f) lib \<Rightarrow> int \<times> ('n, 'f) lib" where
  "remaining A start timeout l =
     (let (e, l) = elapsed A start l in (sint (word_of_nat timeout - word_of_nat e :: 64 word), l))"

definition send_connect ::
    "('n, 'f) api \<Rightarrow> nat \<Rightarrow> int \<Rightarrow> MQTTProperties option \<Rightarrow> MQTTProperties option \<Rightarrow> ('n, 'f) lib \<Rightarrow> ub + (int option \<times> ('n, 'f) lib)" where
  "send_connect A h version cp wp l =
     ub_bind (on_sys_rc (MQTTPacket_send_connect (a_env A) h version cp wp) (put_state h WAIT_FOR_CONNACK l)) (\<lambda>(rc, l).
       Inr (if rc = SOCKET_ERROR then Some SOCKET_ERROR else None, l))"

definition connect_open ::
    "('n, 'f) api \<Rightarrow> nat \<Rightarrow> bytes \<Rightarrow> int \<Rightarrow> timeval \<Rightarrow> nat \<Rightarrow> MQTTProperties option \<Rightarrow> MQTTProperties option
      \<Rightarrow> ('n, 'f) lib \<Rightarrow> (int option \<times> int \<times> ('n, 'f) lib) run" where
  "connect_open A h serverURI version start timeout cp wp l =
     (let (left, l) = remaining A start timeout l in
      run_bind (MQTTProtocol_connect (a_env A) (a_connect A) (a_getenv_http_proxy A) serverURI h
          (m_websocket (b_handles l ! h)) version cp wp left (b_sys l)) (\<lambda>(rc, s).
        let l = l\<lparr>b_sys := s\<rparr> in
        ret (if rc = SOCKET_ERROR \<or> c_connect_state (clients l ! h) = NOT_IN_PROGRESS then Some SOCKET_ERROR else None, rc, l)))"

text \<open>The TCP connection is there: the proxy, and the upgrade to a WebSocket or the CONNECT.\<close>

definition tcp_connected ::
    "('n, 'f) api \<Rightarrow> nat \<Rightarrow> bytes \<Rightarrow> int \<Rightarrow> MQTTProperties option \<Rightarrow> MQTTProperties option \<Rightarrow> ('n, 'f) lib
      \<Rightarrow> ub + (int option \<times> ('n, 'f) lib)" where
  "tcp_connected A h serverURI version cp wp l =
     (let CL = a_connect A;
          (prc, l) = (if nh_http_proxy (c_net (clients l ! h)) \<noteq> None
            then let l = put_state h PROXY_CONNECT_IN_PROGRESS l;
                     (prc, n) = Proxy_connect CL (c_net (clients l ! h)) serverURI (g_net (b_sys l))
                 in (prc, upd_sys (\<lambda>s. s\<lparr>g_net := n\<rparr>) l)
            else (0, l))
      in if prc = SOCKET_ERROR then Inr (Some SOCKET_ERROR, l)
         else if m_websocket (b_handles l ! h)
         then let l = put_state h WEBSOCKET_IN_PROGRESS l;
                  (wrc, n) = WebSocket_connect CL (c_net (clients l ! h)) serverURI (g_net (b_sys l));
                  l = upd_sys (\<lambda>s. s\<lparr>g_net := n\<rparr>) l
              in Inr (if wrc = SOCKET_ERROR then Some SOCKET_ERROR else None, l)
         else send_connect A h version cp wp l)"

definition connect_tcp ::
    "('n, 'f) api \<Rightarrow> nat \<Rightarrow> bytes \<Rightarrow> int \<Rightarrow> timeval \<Rightarrow> nat \<Rightarrow> MQTTProperties option \<Rightarrow> MQTTProperties option \<Rightarrow> int
      \<Rightarrow> ('n, 'f) lib \<Rightarrow> ('n, 'f) phase_run" where
  "connect_tcp A h serverURI version start timeout cp wp rc l =
     (if c_connect_state (clients l ! h) \<noteq> TCP_IN_PROGRESS then ret (None, l)
      else let (left, l) = remaining A start timeout l in
        run_bind (MQTTClient_waitfor A h CONNECT rc left l) (\<lambda>(_, rc, l).
          if rc \<noteq> 0 then ret (Some SOCKET_ERROR, l) else Some (tcp_connected A h serverURI version cp wp l)))"

definition connect_ws ::
    "('n, 'f) api \<Rightarrow> nat \<Rightarrow> int \<Rightarrow> timeval \<Rightarrow> nat \<Rightarrow> MQTTProperties option \<Rightarrow> MQTTProperties option
      \<Rightarrow> ('n, 'f) lib \<Rightarrow> ('n, 'f) phase_run" where
  "connect_ws A h version start timeout cp wp l =
     (if c_connect_state (clients l ! h) \<noteq> WEBSOCKET_IN_PROGRESS then ret (None, l)
      else let (left, l) = remaining A start timeout l in
        run_bind (MQTTClient_waitfor A h CONNECT 0 left l) (\<lambda>(_, _, l). Some (send_connect A h version cp wp l)))"

text \<open>
  What the session was left with: it is cleaned when that is asked for, and its messages are sent
  again. Sessions of other handles that are closed on the way end as in \<open>closing\<close>, but the
  background thread is waited for.
\<close>

fun lost_sessions :: "('n, 'f) api \<Rightarrow> nat list \<Rightarrow> ('n, 'f) lib \<Rightarrow> ('n, 'f) lib run" where
  "lost_sessions A [] l = ret l"
| "lost_sessions A (h # hs) l = run_bind (api_stop A l) (\<lambda>l. lost_sessions A hs (connection_lost h True l))"

definition closing_api ::
    "('n, 'f) api \<Rightarrow> (('n, 'f) sys \<Rightarrow> ub + ('n, 'f) sys) \<Rightarrow> ('n, 'f) lib \<Rightarrow> ('n, 'f) lib run" where
  "closing_api A f l =
     run_bind (Some (on_sys f l)) (\<lambda>l'. lost_sessions A
       (filter (\<lambda>h. c_connected (clients l ! h) \<and> \<not> c_connected (clients l' ! h)) [0..<length (clients l)]) l')"

definition resume_session :: "('n, 'f) api \<Rightarrow> nat \<Rightarrow> ('n, 'f) lib \<Rightarrow> (int \<times> ('n, 'f) lib) run" where
  "resume_session A h l =
     (let c = clients l ! h in
      run_bind (Some (if c_cleansession c \<noteq> 0 \<or> c_cleanstart c \<noteq> 0
                      then on_sys_rc (MQTTClient_cleanSession (a_env A) h) l else Inr (0, l))) (\<lambda>(rc, l).
        if c_outboundMsgs (clients l ! h) = [] then ret (rc, l)
        else let l = upd_sys (upd_client h (\<lambda>c. c\<lparr>c_outboundMsgs :=
                       map (\<lambda>m. m\<lparr>ms_lastTouch := START_TIME_ZERO\<rparr>) (c_outboundMsgs c)\<rparr>)) l in
          run_bind (closing_api A (MQTTProtocol_retry (a_env A) START_TIME_ZERO True True) l) (\<lambda>l.
            ret (if c_connected (clients l ! h) then rc else MQTTCLIENT_DISCONNECTED, l))))"

text \<open>
  The CONNACK: the return code, the properties and the flag for the session. Without a packet, or
  with a code of refusal, the connection is not made. A packet of another kind, which may be left
  from an earlier answer, is read as a CONNACK.
\<close>

definition connack_flag :: "byte \<Rightarrow> nat" where
  "connack_flag flags = unat flags mod 2"

definition connack_received ::
    "('n, 'f) api \<Rightarrow> nat \<Rightarrow> int \<Rightarrow> Connack \<Rightarrow> ('n, 'f) lib \<Rightarrow> (int \<times> MQTTProperties option \<times> nat \<times> ('n, 'f) lib) run" where
  "connack_received A h version connack l =
     run_bind
       (if ca_rc connack \<noteq> 0 then ret (False, int (unat (ca_rc connack)), None, l)
        else run_bind (resume_session A h (upd_sys (upd_client h
            (\<lambda>c. c\<lparr>c_connected := True, c_good := True, c_connect_state := NOT_IN_PROGRESS\<rparr>)) l)) (\<lambda>(rc, l).
          if c_MQTTVersion (clients l ! h) \<noteq> MQTTVERSION_5 then ret (False, rc, None, l)
          else if \<not> e_heap (a_env A) (ReqStruct ''MQTTProperties'') then ret (True, PAHO_MEMORY_ERROR, None, l)
          else case ca_properties connack of None \<Rightarrow> Some (Inl UninitRead)
            | Some ps \<Rightarrow> run_bind (Some (MQTTProperties_copy (e_heap (a_env A)) ps)) (\<lambda>ps'. ret (False, rc, Some ps', l))))
       (\<lambda>(full, rc, props, l).
         let present = (if ca_rc connack = 0 \<and> version = 4 then connack_flag (ca_flags connack) else 0) in
         if full then ret (rc, props, present, l)
         else run_bind (Some (MQTTPacket_freeConnack connack)) (\<lambda>_. ret (rc, props, present, drop_pack h l)))"

definition connect_ack ::
    "('n, 'f) api \<Rightarrow> nat \<Rightarrow> int \<Rightarrow> timeval \<Rightarrow> nat \<Rightarrow> int \<Rightarrow> ('n, 'f) lib
      \<Rightarrow> (int \<times> MQTTProperties option \<times> nat \<times> ('n, 'f) lib) run" where
  "connect_ack A h version start timeout rc l =
     (if c_connect_state (clients l ! h) \<noteq> WAIT_FOR_CONNACK then ret (rc, None, 0, l)
      else let (left, l) = remaining A start timeout l in
        run_bind (MQTTClient_waitfor A h CONNACK rc left l) (\<lambda>(pack, _, l). case pack of
            None \<Rightarrow> ret (SOCKET_ERROR, None, 0, l)
          | Some (PkConnack connack) \<Rightarrow> connack_received A h version connack l
          | Some _ \<Rightarrow> Some (Inl WrongMember)))"

text \<open>The result has the response and, when the connection was made, what is returned in the options.\<close>

definition connect_phases ::
    "('n, 'f) api \<Rightarrow> nat \<Rightarrow> bytes \<Rightarrow> int \<Rightarrow> timeval \<Rightarrow> nat \<Rightarrow> MQTTProperties option \<Rightarrow> MQTTProperties option
      \<Rightarrow> ('n, 'f) lib \<Rightarrow> (int \<times> MQTTProperties option \<times> nat \<times> ('n, 'f) lib) run" where
  "connect_phases A h serverURI version start timeout cp wp l =
     run_bind (connect_thread A h start timeout l) (\<lambda>(e, l). case e of Some rc \<Rightarrow> ret (rc, None, 0, l) | None \<Rightarrow>
     run_bind (connect_open A h serverURI version start timeout cp wp l) (\<lambda>(e, rc0, l). case e of
       Some rc \<Rightarrow> ret (rc, None, 0, l) | None \<Rightarrow>
     run_bind (connect_tcp A h serverURI version start timeout cp wp rc0 l) (\<lambda>(e, l). case e of
       Some rc \<Rightarrow> ret (rc, None, 0, l) | None \<Rightarrow>
     run_bind (connect_ws A h version start timeout cp wp l) (\<lambda>(e, l). case e of
       Some rc \<Rightarrow> ret (rc, None, 0, l) | None \<Rightarrow> connect_ack A h version start timeout rc0 l))))"

definition MQTTClient_connectURIVersion ::
    "('n, 'f) api \<Rightarrow> nat \<Rightarrow> MQTTClient_connectOptions \<Rightarrow> bytes \<Rightarrow> int \<Rightarrow> timeval \<Rightarrow> nat \<Rightarrow> MQTTProperties option
      \<Rightarrow> MQTTProperties option \<Rightarrow> ('n, 'f) lib \<Rightarrow> (MQTTResponse \<times> returned option \<times> ('n, 'f) lib) run" where
  "MQTTClient_connectURIVersion A h options serverURI version start timeout cp wp l =
     run_bind (connect_phases A h serverURI version start timeout cp wp l) (\<lambda>(rc, props, present, l).
       let resp = MQTTResponse_initializer\<lparr>rs_reasonCode := rc, rs_properties := props\<rparr> in
       if rc = MQTTCLIENT_SUCCESS
       then ret (resp, if co_struct_version options \<ge> 4
              then Some \<lparr>rt_serverURI = serverURI, rt_MQTTVersion = version, rt_sessionPresent = present\<rparr> else None, l)
       else run_bind (MQTTClient_disconnect1 A (MQTTClient_yield A) (api_stop A) (Some h) 0 False (version = 3) 0 None l)
         (\<lambda>(_, l). ret (resp, None, l)))"

text \<open>
  \<^verbatim>\<open>MQTTClient_connectURI\<close> moves the options into the client. The will of an earlier call is released;
  when the payload of the new one cannot be allocated, the pointer to the released structure stays
  in the client and is released again. A topic that could not be allocated is used without a test.
\<close>

definition will_payload :: "heap \<Rightarrow> MQTTClient_willOptions \<Rightarrow> ub + (int \<times> bytes)" where
  "will_payload H w =
     (let binary = (if wo_struct_version w = 1 then wo_payload_data w else None) in
      case (binary, wo_message w) of
        (None, None) \<Rightarrow> Inr (0, [])
      | (Some d, _) \<Rightarrow>
          if wo_payload_len w < 0 \<or> \<not> H (ReqBuffer (nat (wo_payload_len w))) then Inl UseAfterFree
          else if int (length d) < wo_payload_len w then Inl OverRead
          else Inr (wo_payload_len w, take (nat (wo_payload_len w)) d)
      | (None, Some m) \<Rightarrow>
          if \<not> H (ReqBuffer (strlen m)) then Inl UseAfterFree else Inr (int (strlen m), c_str m))"

definition new_will :: "heap \<Rightarrow> MQTTClient_willOptions option \<Rightarrow> ub + (int + willMessages option)" where
  "new_will H will =
     (case will of
        None \<Rightarrow> Inr (Inr None)
      | Some w \<Rightarrow>
         if wo_struct_version w \<noteq> 0 \<and> wo_struct_version w \<noteq> 1 then Inr (Inr None)
         else if \<not> H (ReqStruct ''willMessages'') then Inr (Inl PAHO_MEMORY_ERROR)
         else ub_bind (will_payload H w) (\<lambda>(len, data).
           case wo_topicName w of None \<Rightarrow> Inl NullDeref
           | Some t \<Rightarrow> ub_bind (MQTTStrdup H t) (\<lambda>t. case t of None \<Rightarrow> Inl NullDeref
             | Some t \<Rightarrow> Inr (Inr (Some \<lparr>w_topic = t, w_payloadlen = len, w_payload = data,
                 w_retained = wo_retained w, w_qos = wo_qos w\<rparr>)))))"

definition dup_option :: "heap \<Rightarrow> bytes option \<Rightarrow> bytes option \<Rightarrow> ub + bytes option" where
  "dup_option H source old = (case source of None \<Rightarrow> Inr old | Some b \<Rightarrow> MQTTStrdup H b)"

text \<open>The password and its length; \<open>Inl\<close> when the heap is used up.\<close>

definition new_password ::
    "heap \<Rightarrow> MQTTClient_connectOptions \<Rightarrow> int \<Rightarrow> ub + (int + (bytes option \<times> int))" where
  "new_password H options old_len =
     (case (co_password options, co_binarypwd_data options) of
        (Some p, _) \<Rightarrow> ub_bind (MQTTStrdup H p) (\<lambda>d. Inr (Inr (d, int (strlen p))))
      | (None, Some d) \<Rightarrow>
          if co_struct_version options < 5 then Inr (Inr (None, old_len))
          else let n = co_binarypwd_len options in
            if n < 0 \<or> \<not> H (ReqBuffer (nat n)) then Inr (Inl PAHO_MEMORY_ERROR)
            else if int (length d) < n then Inl OverRead else Inr (Inr (Some (take (nat n) d), n))
      | (None, None) \<Rightarrow> Inr (Inr (None, old_len)))"

definition session_options :: "MQTTClient_connectOptions \<Rightarrow> 'f Clients \<Rightarrow> 'f Clients" where
  "session_options options c =
     (let v5 = (co_MQTTVersion options \<ge> MQTTVERSION_5) in
      c\<lparr>c_keepAliveInterval := co_keepAliveInterval options, c_retryInterval := co_retryInterval options,
        c_MQTTVersion := co_MQTTVersion options,
        c_cleanstart := (if v5 then co_cleanstart options else 0),
        c_cleansession := (if v5 then 0 else co_cleansession options),
        c_maxInflightMessages :=
          (if co_struct_version options \<ge> 6 \<and> co_maxInflightMessages options > 0 then co_maxInflightMessages options
           else if co_reliable options then 1 else 10),
        c_net := (c_net c)\<lparr>nh_httpHeaders :=
          (if co_struct_version options \<ge> 7 then co_httpHeaders options else nh_httpHeaders (c_net c))\<rparr>\<rparr>)"

text \<open>The options with strings to copy: the return code and the client.\<close>

definition copied_options ::
    "heap \<Rightarrow> MQTTClient_connectOptions \<Rightarrow> 'f Clients \<Rightarrow> ub + (int \<times> 'f Clients)" where
  "copied_options H options c =
     (let proxies = co_struct_version options \<ge> 8 in
      ub_bind (dup_option H (if proxies then co_httpProxy options else None) (c_httpProxy c)) (\<lambda>p.
      ub_bind (dup_option H (if proxies then co_httpsProxy options else None) (c_httpsProxy c)) (\<lambda>sp.
      let c = c\<lparr>c_httpProxy := p, c_httpsProxy := sp, c_will := None\<rparr> in
      ub_bind (new_will H (co_will options)) (\<lambda>w. case w of
        Inl rc \<Rightarrow> Inr (rc, c)
      | Inr will \<Rightarrow>
         ub_bind (dup_option H (co_username options) None) (\<lambda>user.
           let c = c\<lparr>c_will := will, c_username := user, c_password := None\<rparr> in
           ub_bind (new_password H options (c_passwordlen c)) (\<lambda>pw. case pw of
             Inl rc \<Rightarrow> Inr (rc, c\<lparr>c_passwordlen := co_binarypwd_len options\<rparr>)
           | Inr (pw, len) \<Rightarrow> Inr (0, c\<lparr>c_password := pw, c_passwordlen := len\<rparr>)))))))"

definition MQTTClient_connectURI ::
    "('n, 'f) api \<Rightarrow> nat \<Rightarrow> MQTTClient_connectOptions \<Rightarrow> bytes option \<Rightarrow> MQTTProperties option
      \<Rightarrow> MQTTProperties option \<Rightarrow> ('n, 'f) lib \<Rightarrow> (MQTTResponse \<times> returned option \<times> ('n, 'f) lib) run" where
  "MQTTClient_connectURI A h options serverURI cp wp l =
     run_bind (Some (times_1000 (co_connectTimeout options))) (\<lambda>ms.
      let timeout = unat (word_of_int ms :: 64 word);
          (start, l) = now A l
      in run_bind (Some (setRetryLoopInterval (co_keepAliveInterval options)
                (upd_handle h (\<lambda>m. m\<lparr>m_currentServerURI := serverURI\<rparr>) l))) (\<lambda>l. run_bind (Some (copied_options (e_heap (a_env A)) options (session_options options (clients l ! h)))) (\<lambda>(rc, c).
         let l = upd_sys (set_client h c) l in
         if rc \<noteq> 0 then ret (response rc, None, l)
         else case serverURI of None \<Rightarrow> Some (Inl NullDeref) | Some uri \<Rightarrow>
           let version = (if co_struct_version options \<ge> 3 then co_MQTTVersion options else MQTTVERSION_DEFAULT) in
           if version \<noteq> MQTTVERSION_DEFAULT
           then MQTTClient_connectURIVersion A h options uri version start timeout cp wp l
           else run_bind (MQTTClient_connectURIVersion A h options uri 4 start timeout cp wp l) (\<lambda>(resp, rt, l).
             if rs_reasonCode resp = MQTTCLIENT_SUCCESS then ret (resp, rt, l)
             else MQTTClient_connectURIVersion A h options uri 3 start timeout cp wp l))))"

text \<open>The checks of \<^verbatim>\<open>MQTTClient_connectAll\<close>.\<close>

definition will_check :: "MQTTClient_willOptions option \<Rightarrow> int" where
  "will_check will =
     (case will of None \<Rightarrow> 0
      | Some w \<Rightarrow>
         if take 4 (wo_struct_id w) \<noteq> map (\<lambda>c. of_char c) ''MQTW'' \<or>
           (wo_struct_version w \<noteq> 0 \<and> wo_struct_version w \<noteq> 1) then MQTTCLIENT_BAD_STRUCTURE
         else if wo_qos w < 0 \<or> wo_qos w > 2 then MQTTCLIENT_BAD_QOS
         else (case wo_topicName w of None \<Rightarrow> MQTTCLIENT_NULL_PARAMETER
           | Some t \<Rightarrow> if strlen t = 0 then MQTTCLIENT_0_LEN_WILL_TOPIC else 0))"

definition version_check :: "MQTTClient_connectOptions \<Rightarrow> int" where
  "version_check options =
     (if co_MQTTVersion options \<noteq> MQTTVERSION_DEFAULT \<and>
        (co_MQTTVersion options < MQTTVERSION_3_1 \<or> co_MQTTVersion options > MQTTVERSION_5)
      then MQTTCLIENT_BAD_MQTT_VERSION
      else if co_MQTTVersion options \<ge> MQTTVERSION_5
      then if co_cleansession options \<noteq> 0 then MQTTCLIENT_BAD_MQTT_OPTION else 0
      else if co_cleanstart options \<noteq> 0 then MQTTCLIENT_BAD_MQTT_OPTION else 0)"

definition connect_check ::
    "('n, 'f) api \<Rightarrow> nat option \<Rightarrow> MQTTClient_connectOptions option \<Rightarrow> ('n, 'f) lib \<Rightarrow> int" where
  "connect_check A handle options l =
     (let valid = (\<lambda>s. case s of None \<Rightarrow> True | Some b \<Rightarrow> UTF8_validateString A (c_str b)) in
      if \<not> b_initialized l then MQTTCLIENT_FAILURE
      else case (options, handle) of
        (Some o', Some h) \<Rightarrow>
          if take 4 (co_struct_id o') \<noteq> map (\<lambda>c. of_char c) ''MQTC'' \<or> co_struct_version o' < 0 \<or> co_struct_version o' > 8
          then MQTTCLIENT_BAD_STRUCTURE
          else if will_check (co_will o') \<noteq> 0 then will_check (co_will o')
          else if \<not> valid (co_username o') \<or> \<not> valid (co_password o') then MQTTCLIENT_BAD_UTF8_STRING
          else version_check o'
      | _ \<Rightarrow> MQTTCLIENT_NULL_PARAMETER)"

text \<open>
  An address of the list without its scheme, and whether it makes the handle a WebSocket. For
  \<^verbatim>\<open>mqtt://\<close> the length of \<^verbatim>\<open>tcp://\<close> is skipped, which leaves the last slash.
\<close>

definition list_uri :: "bytes \<Rightarrow> bytes \<times> bool" where
  "list_uri uri =
     (if starts_with URI_TCP uri then (drop (length URI_TCP) uri, False)
      else if starts_with URI_MQTT uri then (drop (length URI_TCP) uri, False)
      else if starts_with URI_WS uri then (drop (length URI_WS) uri, True)
      else (uri, False))"

fun connect_uris ::
    "('n, 'f) api \<Rightarrow> nat \<Rightarrow> MQTTClient_connectOptions \<Rightarrow> bytes list \<Rightarrow> MQTTProperties option \<Rightarrow> MQTTProperties option
      \<Rightarrow> MQTTResponse \<Rightarrow> returned option \<Rightarrow> ('n, 'f) lib \<Rightarrow> (MQTTResponse \<times> returned option \<times> ('n, 'f) lib) run" where
  "connect_uris A h options [] cp wp resp rt l = ret (resp, rt, l)"
| "connect_uris A h options (u # us) cp wp resp rt l =
     (let (uri, ws) = list_uri (c_str u);
          l = (if ws then upd_handle h (\<lambda>m. m\<lparr>m_websocket := True\<rparr>) l else l)
      in run_bind (MQTTClient_connectURI A h options (Some uri) cp wp l) (\<lambda>(resp, rt, l).
           if rs_reasonCode resp = 0 then ret (resp, rt, l) else connect_uris A h options us cp wp resp rt l))"

text \<open>The server's limit for messages in flight.\<close>

definition receive_maximum :: "nat \<Rightarrow> MQTTResponse \<Rightarrow> ('n, 'f) lib \<Rightarrow> ub + ('n, 'f) lib" where
  "receive_maximum h resp l =
     (if rs_reasonCode resp \<noteq> 0 then Inr l
      else case rs_properties resp of None \<Rightarrow> Inr l
      | Some ps \<Rightarrow>
         ub_bind (MQTTProperties_hasProperty ps 33) (\<lambda>has. if \<not> has then Inr l
           else ub_bind (MQTTProperties_getNumericValue ps 33) (\<lambda>recv_max.
             Inr (upd_sys (upd_client h (\<lambda>c. if c_maxInflightMessages c > recv_max
               then c\<lparr>c_maxInflightMessages := recv_max\<rparr> else c)) l))))"

definition MQTTClient_connectAll ::
    "('n, 'f) api \<Rightarrow> nat option \<Rightarrow> MQTTClient_connectOptions option \<Rightarrow> MQTTProperties option \<Rightarrow> MQTTProperties option
      \<Rightarrow> ('n, 'f) lib \<Rightarrow> (MQTTResponse \<times> returned option \<times> ('n, 'f) lib) run" where
  "MQTTClient_connectAll A handle options cp wp l =
     (let rc = connect_check A handle options l;
          free_will = (\<lambda>l. case handle of None \<Rightarrow> l | Some h \<Rightarrow> upd_sys (upd_client h (\<lambda>c. c\<lparr>c_will := None\<rparr>)) l)
      in if rc \<noteq> 0 then ret (response rc, None, free_will l)
         else let h = the handle; opts = the options in
           run_bind (if co_struct_version opts < 2 \<or> co_serverURIs opts = []
                     then MQTTClient_connectURI A h opts (m_serverURI (b_handles l ! h)) cp wp l
                     else connect_uris A h opts (co_serverURIs opts) cp wp (response SOCKET_ERROR) None l)
             (\<lambda>(resp, rt, l). run_bind (Some (receive_maximum h resp l)) (\<lambda>l. ret (resp, rt, free_will l))))"

definition MQTTClient_connect ::
    "('n, 'f) api \<Rightarrow> nat option \<Rightarrow> MQTTClient_connectOptions option \<Rightarrow> ('n, 'f) lib
      \<Rightarrow> (int \<times> returned option \<times> ('n, 'f) lib) run" where
  "MQTTClient_connect A handle options l =
     (if is_v5 handle l then ret (MQTTCLIENT_WRONG_MQTT_VERSION, None, l)
      else run_bind (MQTTClient_connectAll A handle options None None l) (\<lambda>(resp, rt, l). ret (rs_reasonCode resp, rt, l)))"

definition MQTTClient_connect5 ::
    "('n, 'f) api \<Rightarrow> nat option \<Rightarrow> MQTTClient_connectOptions option \<Rightarrow> MQTTProperties option \<Rightarrow> MQTTProperties option
      \<Rightarrow> ('n, 'f) lib \<Rightarrow> (MQTTResponse \<times> returned option \<times> ('n, 'f) lib) run" where
  "MQTTClient_connect5 A handle options cp wp l =
     (if handle \<noteq> None \<and> \<not> is_v5 handle l then ret (response MQTTCLIENT_WRONG_MQTT_VERSION, None, l)
      else MQTTClient_connectAll A handle options cp wp l)"

end
