(* ===== verification/Session.thy ===== *)
theory Session
  imports ClientRun
begin

section \<open>A session: both directions together\<close>

text \<open>
  The state of a client in version 3.1.1 without persistence, sending and receiving: the invariants of
  theories \<open>Exchange\<close> and \<open>Sender\<close> hold together, and every packet and every publish changes one
  direction and leaves the other as it is.
\<close>

subsection \<open>The invariant\<close>

definition session_inv :: "('n, 'f) env \<Rightarrow> int \<Rightarrow> nat \<Rightarrow> ('n, 'f) sys \<Rightarrow> bool" where
  "session_inv E sock i s \<longleftrightarrow> sender_inv E sock i s \<and> receiver_inv E sock i s \<and>
     ms_publish ` set (c_inboundMsgs (g_clients s ! i)) \<inter> ms_publish ` set (c_outboundMsgs (g_clients s ! i)) = {} \<and>
     c_MQTTVersion (g_clients s ! i) < 5"

lemma held_address:
  assumes "pubs_ok s" "held_ok (map_of (g_publications s)) m"
  obtains a where "ms_publish m = Some a" "a < g_fresh s"
  using assms pubs_okD [OF assms(1)] by (fastforce simp: held_ok_def not_less [symmetric])

lemma out_address:
  assumes "pubs_ok s" "out_ok (map_of (g_publications s)) m"
  obtains a where "ms_publish m = Some a" "a < g_fresh s"
  using assms pubs_okD [OF assms(1)] by (fastforce simp: out_ok_def not_less [symmetric])

lemma moved_bind:
  assumes "moved get blank i s s'" "ms_publish m = Some a" "a < g_fresh s"
    "ms_publish m \<notin> ms_publish ` set (get (strip (g_clients s ! i)))"
  shows "Option.bind (ms_publish m) (map_of (g_publications s')) = Option.bind (ms_publish m) (map_of (g_publications s))"
  using assms by (simp add: moved_def Let_def)

lemma addresses_disjoint:
  assumes "A \<inter> B = {}" "B' \<subseteq> B \<union> {x. \<forall>a<n. x \<noteq> Some a}" "\<And>x. x \<in> A \<Longrightarrow> \<exists>a<n. x = Some a"
  shows "A \<inter> B' = {}"
  using assms by blast

text \<open>What only the sending side changes leaves the receiving side alone, and conversely.\<close>

lemma blank_received_fields:
  assumes "blank_received c' = blank_received c"
  shows "c_outboundMsgs c' = c_outboundMsgs c" "c_MQTTVersion c' = c_MQTTVersion c" "c_persistence c' = c_persistence c"
proof -
  from assms have "c_outboundMsgs (blank_received c') = c_outboundMsgs (blank_received c)"
    "c_MQTTVersion (blank_received c') = c_MQTTVersion (blank_received c)"
    "c_persistence (blank_received c') = c_persistence (blank_received c)" by simp_all
  then show "c_outboundMsgs c' = c_outboundMsgs c" "c_MQTTVersion c' = c_MQTTVersion c" "c_persistence c' = c_persistence c"
    by (simp_all add: blank_received_def)
qed

lemma put_outbound_fields:
  assumes "put_outbound [] c' = put_outbound [] c"
  shows "c_inboundMsgs c' = c_inboundMsgs c" "c_MQTTVersion c' = c_MQTTVersion c" "c_messageQueue c' = c_messageQueue c"
proof -
  from assms have "c_inboundMsgs (put_outbound [] c') = c_inboundMsgs (put_outbound [] c)"
    "c_MQTTVersion (put_outbound [] c') = c_MQTTVersion (put_outbound [] c)"
    "c_messageQueue (put_outbound [] c') = c_messageQueue (put_outbound [] c)" by simp_all
  then show "c_inboundMsgs c' = c_inboundMsgs c" "c_MQTTVersion c' = c_MQTTVersion c" "c_messageQueue c' = c_messageQueue c"
    by (simp_all add: put_outbound_def)
qed

lemma sent_keeps:
  assumes "session_inv E sock i s" "sender_inv E sock i s'" "sent_only i s s'"
  shows "session_inv E sock i s' \<and> view i s' = view i s"
proof -
  let ?c = "g_clients s ! i" and ?c' = "g_clients s' ! i"
  let ?M = "map_of (g_publications s)" and ?M' = "map_of (g_publications s')"
  have "put_outbound [] (strip ?c') = put_outbound [] (strip ?c)" using assms(3) by (simp add: moved_def Let_def)
  note same = put_outbound_fields [OF this, simplified]
  have inv: "pubs_ok s" "\<forall>m\<in>set (c_inboundMsgs ?c). held_ok ?M m" "c_MQTTVersion ?c < 5"
    "distinct (map ms_msgid (c_inboundMsgs ?c))" "distinct (map ms_publish (c_inboundMsgs ?c))"
    and dis: "ms_publish ` set (c_inboundMsgs ?c) \<inter> ms_publish ` set (c_outboundMsgs ?c) = {}"
    using assms(1) by (simp_all add: session_inv_def receiver_inv_def)
  have b: "Option.bind (ms_publish m) ?M' = Option.bind (ms_publish m) ?M" if "m \<in> set (c_inboundMsgs ?c)" for m
  proof -
    from held_address [OF inv(1)] inv(2) that obtain a where a: "ms_publish m = Some a" "a < g_fresh s" by metis
    have "ms_publish m \<notin> ms_publish ` set (c_outboundMsgs (strip ?c))" using dis that by auto
    from moved_bind [OF assms(3) a this] show ?thesis .
  qed
  have "receiver_inv E sock i s'"
    using assms(2) inv(4,5) held_ok_cong [OF _ b] inv(2) by (simp add: receiver_inv_def sender_inv_def same)
  moreover have "view i s' = view i s" using msg_item_cong [OF b] by (simp add: view_def same)
  moreover have "ms_publish ` set (c_inboundMsgs ?c') \<inter> ms_publish ` set (c_outboundMsgs ?c') = {}"
  proof -
    have sub: "ms_publish ` set (c_outboundMsgs ?c') \<subseteq> ms_publish ` set (c_outboundMsgs ?c) \<union> {x. \<forall>a<g_fresh s. x \<noteq> Some a}"
      using assms(3) by (simp add: moved_def Let_def)
    have adr: "\<exists>a<g_fresh s. x = Some a" if "x \<in> ms_publish ` set (c_inboundMsgs ?c)" for x
    proof -
      from that obtain m where m: "m \<in> set (c_inboundMsgs ?c)" "x = ms_publish m" by blast
      with inv(2) have "held_ok ?M m" by simp
      from held_address [OF inv(1) this] m(2) show ?thesis by metis
    qed
    from addresses_disjoint [OF dis sub adr] show ?thesis unfolding same(1) .
  qed
  ultimately show ?thesis using assms(2) inv(3) same(2) by (simp add: session_inv_def)
qed

lemma received_keeps:
  assumes "session_inv E sock i s" "receiver_inv E sock i s'" "recd_only i s s'"
  shows "session_inv E sock i s' \<and> out_view i s' = out_view i s"
proof -
  let ?c = "g_clients s ! i" and ?c' = "g_clients s' ! i"
  let ?M = "map_of (g_publications s)" and ?M' = "map_of (g_publications s')"
  have "blank_received (strip ?c') = blank_received (strip ?c)" using assms(3) by (simp add: moved_def Let_def)
  note same = blank_received_fields [OF this, simplified]
  have inv: "pubs_ok s" "\<forall>m\<in>set (c_outboundMsgs ?c). out_ok ?M m" "c_MQTTVersion ?c < 5"
    "distinct (map ms_msgid (c_outboundMsgs ?c))" "distinct (map ms_publish (c_outboundMsgs ?c))"
    and dis: "ms_publish ` set (c_inboundMsgs ?c) \<inter> ms_publish ` set (c_outboundMsgs ?c) = {}"
    using assms(1) by (simp_all add: session_inv_def sender_inv_def)
  have b: "Option.bind (ms_publish m) ?M' = Option.bind (ms_publish m) ?M" if "m \<in> set (c_outboundMsgs ?c)" for m
  proof -
    from out_address [OF inv(1)] inv(2) that obtain a where a: "ms_publish m = Some a" "a < g_fresh s" by metis
    have "ms_publish m \<notin> ms_publish ` set (c_inboundMsgs (strip ?c))" using dis that by auto
    from moved_bind [OF assms(3) a this] show ?thesis .
  qed
  have "sender_inv E sock i s'"
    using assms(2) inv(4,5) out_ok_cong [OF _ b] inv(2) by (simp add: receiver_inv_def sender_inv_def same)
  moreover have "out_view i s' = out_view i s" by (simp add: out_view_def same)
  moreover have "ms_publish ` set (c_inboundMsgs ?c') \<inter> ms_publish ` set (c_outboundMsgs ?c') = {}"
  proof -
    have sub: "ms_publish ` set (c_inboundMsgs ?c') \<subseteq> ms_publish ` set (c_inboundMsgs ?c) \<union> {x. \<forall>a<g_fresh s. x \<noteq> Some a}"
      using assms(3) by (simp add: moved_def Let_def)
    have adr: "\<exists>a<g_fresh s. x = Some a" if "x \<in> ms_publish ` set (c_outboundMsgs ?c)" for x
    proof -
      from that obtain m where m: "m \<in> set (c_outboundMsgs ?c)" "x = ms_publish m" by blast
      with inv(2) have "out_ok ?M m" by simp
      from out_address [OF inv(1) this] m(2) show ?thesis by metis
    qed
    from addresses_disjoint [OF dis [unfolded Int_commute [of "ms_publish ` set (c_inboundMsgs ?c)"]] sub adr] show ?thesis unfolding same(1) by (simp add: Int_commute)
  qed
  ultimately show ?thesis using assms(2) inv(3) same(2) by (simp add: session_inv_def)
qed

subsection \<open>Publications of QoS 0 and 1\<close>

definition publish_plain :: "Publish \<Rightarrow> bool" where
  "publish_plain p \<longleftrightarrow> hd_qos (pb_header p) < 2 \<and> pb_MQTTVersion p < 5 \<and> pb_topic p \<noteq> None \<and>
     0 \<le> pb_payloadlen p \<and> nat (pb_payloadlen p) \<le> length (pb_payload p)"

lemma handle_publish_plain_v3:
  assumes "lists_ok (e_lists E)" "heap_total (e_heap E)" "receiver_inv E sock i s" "publish_plain p"
  shows "\<exists>rc s'. MQTTProtocol_handlePublishes E p sock s = Inr (rc, s') \<and> receiver_inv E sock i s' \<and>
    view i s' = (fst (view i s), snd (view i s) @ [publish_item p]) \<and> recd_only i s s'"
proof -
  from assms(4) obtain t where p: "pb_topic p = Some t" "hd_qos (pb_header p) < 2" "pb_MQTTVersion p < 5"
    "memcpy_src (pb_payload p) (pb_payloadlen p) = Inr (take (nat (pb_payloadlen p)) (pb_payload p))"
    by (auto simp: publish_plain_def memcpy_src_def size_t_of_def)
  have inv: "i < length (g_clients s)" "c_persistence (g_clients s ! i) = None" using assms(3) by (simp_all add: receiver_inv_def)
  define qe where "qe = \<lparr>qe_msg = \<lparr>pm_struct_version = 1, pm_payloadlen = pb_payloadlen p,
      pm_payload = take (nat (pb_payloadlen p)) (pb_payload p), pm_qos = int (hd_qos (pb_header p)),
      pm_retained = int (hd_retain (pb_header p)), pm_dup = int (hd_dup (pb_header p)),
      pm_msgid = pb_msgId p, pm_properties = MQTTProperties_initializer\<rparr>,
    qe_topicName = t, qe_topicLen = pb_topiclen p, qe_seqno = 0\<rparr>"
  define s1 where "s1 = upd_client i (\<lambda>c. c\<lparr>c_messageQueue := c_messageQueue c @ [qe]\<rparr>) s"
  have pp: "Protocol_processPublication E p i True s = Inr (p\<lparr>pb_topic := None\<rparr>, s1)"
    using assms(1,2) inv p
    by (simp add: Protocol_processPublication_def upd_client_def lists_ok_def list_libD qe_def s1_def Let_def)
  have so: "map (\<lambda>c. nh_socket (c_net c)) (g_clients s1) = map (\<lambda>c. nh_socket (c_net c)) (g_clients s)"
    by (simp add: s1_def upd_client_def)
  have r1: "receiver_inv E sock i s1"
    using assms(3) inv(1) unfolding receiver_inv_def so by (simp add: s1_def upd_client_def pubs_ok_def)
  have v1: "view i s1 = (fst (view i s), snd (view i s) @ [publish_item p])"
    using inv(1) p(1) by (simp add: view_def s1_def upd_client_def entry_item_def qe_def publish_item_def)
  have m1: "recd_only i s s1" using inv(1) by (simp add: moved_def s1_def upd_client_def blank_received_def strip_def)
  have i1: "i < length (g_clients s1)" using inv(1) by (simp add: s1_def upd_client_def)
  obtain rc s' where an: "answer E (\<not> Socket_noPendingWrites (e_net E) sock (g_net s)) (pb_MQTTVersion p) PUBACK
      (pb_msgId p) i s1 = Inr (rc, s')" "similar s1 s'"
    using answer_similar [OF assms(2), of PUBACK] by blast
  have fp: "MQTTPacket_freePublish (p\<lparr>pb_topic := None\<rparr>) = Inr []"
    using p(3) by (simp add: MQTTPacket_freePublish_def free_props_def version_defs)
  consider "hd_qos (pb_header p) = 0" | "hd_qos (pb_header p) = 1" using p(2) by linarith
  then show ?thesis
  proof cases
    case 1
    then have "MQTTProtocol_handlePublishes E p sock s = Inr (TCPSOCKET_COMPLETE, s1)"
      using receiver_find [OF assms(1,3)] pp fp by (simp add: MQTTProtocol_handlePublishes_with_def)
    with r1 v1 m1 show ?thesis by blast
  next
    case 2
    then have "MQTTProtocol_handlePublishes E p sock s = Inr (rc, s')"
      using receiver_find [OF assms(1,3)] pp fp an(1) by (simp add: MQTTProtocol_handlePublishes_with_def Let_def)
    with receiver_similar [OF an(2) r1] v1 moved_similar [OF m1 an(2) i1] show ?thesis by auto
  qed
qed

subsection \<open>The machine of a session\<close>

text \<open>The outbound messages, and the messages held and delivered.\<close>

type_synonym session = "outbound \<times> item list \<times> item list"

definition session_view :: "nat \<Rightarrow> ('n, 'f) sys \<Rightarrow> session" where
  "session_view i s = (out_view i s, view i s)"

definition a_received :: "Publish \<Rightarrow> item list \<times> item list \<Rightarrow> item list \<times> item list" where
  "a_received p st =
     (if hd_qos (pb_header p) = 2 then a_publish (publish_item p) st
      else if hd_qos (pb_header p) < 2 then (fst st, snd st @ [publish_item p]) else st)"

definition a_ack :: "Ack \<Rightarrow> session \<Rightarrow> session" where
  "a_ack a st =
     (let t = hd_type (ak_header a); msgid = the (ak_msgId a); (out, recd) = st in
      if t = PUBACK then (a_puback msgid out, recd)
      else if t = PUBREC then (a_pubrec msgid out, recd)
      else if t = PUBCOMP then (a_pubcomp msgid out, recd)
      else if t = PUBREL then (out, a_pubrel msgid recd) else st)"

definition a_packet :: "packet \<Rightarrow> session \<Rightarrow> session" where
  "a_packet pack st =
     (case pack of PkPublish p \<Rightarrow> (fst st, a_received p (snd st)) | PkAck a \<Rightarrow> a_ack a st | _ \<Rightarrow> st)"

text \<open>
  The packets that \<^verbatim>\<open>MQTTPacket_Factory\<close> makes before version 5: a PUBLISH with a topic and a payload
  that is there, an acknowledgement with an id. Of the others, and of a PUBLISH with the forbidden
  QoS 3, nothing is asked.
\<close>

definition packet_v3 :: "packet \<Rightarrow> bool" where
  "packet_v3 pack \<longleftrightarrow> (case pack of
       PkPublish p \<Rightarrow> pb_MQTTVersion p < 5 \<and> pb_topic p \<noteq> None \<and> 0 \<le> pb_payloadlen p \<and>
         nat (pb_payloadlen p) \<le> length (pb_payload p)
     | PkAck a \<Rightarrow> ack_v3 a
     | _ \<Rightarrow> True)"

lemma handle_publishes_v3:
  assumes "lists_ok (e_lists E)" "heap_total (e_heap E)" "receiver_inv E sock i s" "packet_v3 (PkPublish p)"
  shows "\<exists>rc s'. MQTTProtocol_handlePublishes E p sock s = Inr (rc, s') \<and> receiver_inv E sock i s' \<and>
    view i s' = a_received p (view i s) \<and> recd_only i s s'"
proof -
  consider "hd_qos (pb_header p) < 2" | "hd_qos (pb_header p) = 2" | "hd_qos (pb_header p) > 2" by linarith
  then show ?thesis
  proof cases
    case 1
    with assms(4) have "publish_plain p" by (simp add: publish_plain_def packet_v3_def)
    from handle_publish_plain_v3 [OF assms(1-3) this] 1 show ?thesis by (simp add: a_received_def)
  next
    case 2
    with assms(4) have p: "publish_qos2 p" by (simp add: publish_qos2_def packet_v3_def)
    from handle_publish_qos2_v3 [OF assms(1-3) p, of "\<not> Socket_noPendingWrites (e_net E) sock (g_net s)"]
    obtain rc p' s' where "handle_publish_qos2 E i (\<not> Socket_noPendingWrites (e_net E) sock (g_net s)) p s = Inr (rc, p', s')"
      "pb_MQTTVersion p' < 5" "receiver_inv E sock i s'" "view i s' = a_publish (publish_item p) (view i s)"
      "recd_only i s s'" by blast
    then show ?thesis using 2 receiver_find [OF assms(1,3)]
      by (simp add: MQTTProtocol_handlePublishes_with_def MQTTPacket_freePublish_def free_props_def version_defs a_received_def)
  next
    case 3
    then show ?thesis using assms(3,4) receiver_find [OF assms(1,3)]
      by (auto simp: MQTTProtocol_handlePublishes_with_def MQTTPacket_freePublish_def free_props_def version_defs a_received_def
          packet_v3_def)
  qed
qed

text \<open>
  The calls of \<open>deliveryComplete\<close>: one for every PUBACK and PUBCOMP, whether or not a message waits
  for it.
\<close>

definition completions :: "bool \<Rightarrow> nat \<Rightarrow> packet \<Rightarrow> call list" where
  "completions dc h pack = (case pack of
       PkAck a \<Rightarrow> if dc \<and> hd_type (ak_header a) \<in> {PUBACK, PUBCOMP} then [DeliveryComplete h (the (ak_msgId a))] else []
     | _ \<Rightarrow> [])"

lemma on_sys_rc_Inr [simp]: "f (b_sys l) = Inr (r, s) \<Longrightarrow> on_sys_rc f l = Inr (r, l\<lparr>b_sys := s\<rparr>)"
  by (simp add: on_sys_rc_def)

lemma published_call_v3 [simp]: "c_MQTTVersion (clients l ! h) < 5 \<Longrightarrow> published_call h msgid t rc l = l"
  by (simp add: published_call_def version_defs)

lemma handle_packet_v3:
  assumes "lists_ok (e_lists (a_env A))" "heap_total (e_heap (a_env A))" "session_inv (a_env A) sock h (b_sys l)"
    and "packet_v3 pack"
  shows "\<exists>rc' pack' s'. handle_packet A h sock rc pack l =
      Inr (rc', pack', l\<lparr>b_sys := s', b_calls := b_calls l @ completions (m_dc (b_handles l ! h)) h pack\<rparr>) \<and>
    session_inv (a_env A) sock h s' \<and> session_view h s' = a_packet pack (session_view h (b_sys l))"
proof -
  let ?E = "a_env A" and ?s = "b_sys l"
  from assms(3) have inv: "sender_inv ?E sock h ?s" "receiver_inv ?E sock h ?s" "c_MQTTVersion (clients l ! h) < 5"
    by (simp_all add: session_inv_def)
  note same = sent_keeps [OF assms(3)] received_keeps [OF assms(3)]
  have eta: "l\<lparr>b_sys := s', b_calls := b_calls l\<rparr> = l\<lparr>b_sys := s'\<rparr>" for s' by simp
  show ?thesis
  proof (cases pack)
    case (PkPublish p)
    with handle_publishes_v3 [OF assms(1,2) inv(2), of p] assms(4) obtain r s' where
      "MQTTProtocol_handlePublishes ?E p sock ?s = Inr (r, s')" "receiver_inv ?E sock h s'"
      "view h s' = a_received p (view h ?s)" "recd_only h ?s s'" by blast
    with same(2) [of s'] PkPublish show ?thesis
      by (auto simp: handle_packet_def completions_def session_view_def a_packet_def)
  next
    case (PkAck a)
    with assms(4) obtain msgid where a: "ack_v3 a" "ak_msgId a = Some msgid" by (auto simp: packet_v3_def ack_v3_def)
    then have id: "ack_id a = Inr msgid" by (simp add: ack_id_def)
    let ?t = "hd_type (ak_header a)"
    have types: "PUBACK \<noteq> PUBCOMP" "PUBACK \<noteq> PUBREC" "PUBACK \<noteq> PUBREL" "PUBCOMP \<noteq> PUBREC" "PUBCOMP \<noteq> PUBREL" "PUBREC \<noteq> PUBREL"
      by (simp_all add: msgTypes_defs)
    consider (puback) "?t = PUBACK" | (pubcomp) "?t = PUBCOMP" | (pubrec) "?t = PUBREC" | (pubrel) "?t = PUBREL"
      | (other) "?t \<notin> {PUBACK, PUBCOMP, PUBREC, PUBREL}" by blast
    then show ?thesis
    proof cases
      case puback
      from handle_puback_v3 [OF assms(1,2) inv(1) a(1)] obtain r s' where
        "MQTTProtocol_handlePubacks ?E a sock False ?s = Inr (r, None, s')" "sender_inv ?E sock h s'"
        "out_view h s' = a_puback msgid (out_view h ?s)" "sent_only h ?s s'" by (auto simp: a(2))
      with same(1) [of s'] puback PkAck id a(2) inv(3) types show ?thesis
        by (auto simp: handle_packet_def handle_ack_def log_call_def completions_def session_view_def a_packet_def a_ack_def)
    next
      case pubcomp
      from handle_pubcomp_v3 [OF assms(1,2) inv(1) a(1)] obtain r s' where
        "MQTTProtocol_handlePubcomps ?E a sock False ?s = Inr (r, None, s')" "sender_inv ?E sock h s'"
        "out_view h s' = a_pubcomp msgid (out_view h ?s)" "sent_only h ?s s'" by (auto simp: a(2))
      with same(1) [of s'] pubcomp PkAck id a(2) inv(3) types show ?thesis
        by (auto simp: handle_packet_def handle_ack_def log_call_def completions_def session_view_def a_packet_def a_ack_def)
    next
      case pubrec
      from handle_pubrec_v3 [OF assms(1,2) inv(1) a(1)] obtain r s' where
        "MQTTProtocol_handlePubrecs ?E a sock False ?s = Inr (r, None, s')" "sender_inv ?E sock h s'"
        "out_view h s' = a_pubrec msgid (out_view h ?s)" "sent_only h ?s s'" by (auto simp: a(2))
      with same(1) [of s'] pubrec PkAck a(2) inv(3) types show ?thesis
        by (auto simp: handle_packet_def handle_rec_def version_defs completions_def session_view_def a_packet_def a_ack_def)
    next
      case pubrel
      have "pubrel_v3 a" using a(1) by (simp add: pubrel_v3_def ack_v3_def)
      from handle_pubrel_v3 [OF assms(1,2) inv(2) this] obtain r s' where
        "MQTTProtocol_handlePubrels ?E a sock ?s = Inr (r, s')" "receiver_inv ?E sock h s'"
        "view h s' = a_pubrel msgid (view h ?s)" "recd_only h ?s s'" by (auto simp: a(2))
      with same(2) [of s'] pubrel PkAck a(2) types show ?thesis
        by (auto simp: handle_packet_def completions_def session_view_def a_packet_def a_ack_def)
    next
      case other
      with PkAck assms(3) show ?thesis
        by (intro exI [of _ rc] exI [of _ "Some pack"] exI [of _ "b_sys l"])
          (simp add: handle_packet_def completions_def session_view_def a_packet_def a_ack_def)
    qed
  next
    case (PkHeader b)
    show ?thesis
    proof (cases "hd_type b = PINGRESP")
      case True
      let ?s' = "upd_client h (\<lambda>c. c\<lparr>c_ping_outstanding := False\<rparr>) ?s"
      have i: "h < length (clients l)" using inv(1) by (simp add: sender_inv_def)
      have so: "map (\<lambda>c. nh_socket (c_net c)) (g_clients ?s') = map (\<lambda>c. nh_socket (c_net c)) (g_clients ?s)"
        by (simp add: upd_client_def)
      have "session_inv ?E sock h ?s' \<and> session_view h ?s' = session_view h ?s"
        using assms(3) i unfolding session_inv_def sender_inv_def receiver_inv_def so
        by (simp add: upd_client_def pubs_ok_def session_view_def out_view_def view_def)
      then show ?thesis using PkHeader True sender_find [OF assms(1) inv(1)]
        by (auto simp: handle_packet_def MQTTProtocol_handlePingresps_def completions_def a_packet_def)
    next
      case False
      with PkHeader assms(3) show ?thesis
        by (intro exI [of _ rc] exI [of _ "Some pack"] exI [of _ "b_sys l"])
          (simp add: handle_packet_def completions_def a_packet_def)
    qed
  qed (use assms(3) in \<open>(intro exI [of _ rc] exI [of _ "Some pack"] exI [of _ "b_sys l"];
      simp add: handle_packet_def completions_def a_packet_def)+\<close>)
qed

subsection \<open>Runs of a session\<close>

text \<open>A packet that was read, or a publish with a message id.\<close>

datatype session_event = Incoming packet | Outgoing Publish nat nat

fun session_step :: "('n, 'f) api \<Rightarrow> int \<Rightarrow> nat \<Rightarrow> session_event \<Rightarrow> ('n, 'f) lib \<Rightarrow> ub + ('n, 'f) lib" where
  "session_step A sock h (Incoming pack) l = ub_bind (handle_packet A h sock 0 pack l) (\<lambda>(_, _, l). Inr l)"
| "session_step A sock h (Outgoing pack qos retained) l =
     on_sys (\<lambda>s. ub_bind (MQTTProtocol_startPublish (a_env A) h pack qos retained None s) (\<lambda>(_, _, _, s). Inr s)) l"

fun run_session :: "('n, 'f) api \<Rightarrow> int \<Rightarrow> nat \<Rightarrow> session_event list \<Rightarrow> ('n, 'f) lib \<Rightarrow> ub + ('n, 'f) lib" where
  "run_session A sock h [] l = Inr l"
| "run_session A sock h (e # es) l = ub_bind (session_step A sock h e l) (run_session A sock h es)"

fun a_session :: "session_event \<Rightarrow> session \<Rightarrow> session" where
  "a_session (Incoming pack) st = a_packet pack st"
| "a_session (Outgoing pack qos retained) st = (a_start (pb_msgId pack) qos (fst st), snd st)"

fun session_ok :: "session_event \<Rightarrow> session \<Rightarrow> bool" where
  "session_ok (Incoming pack) st \<longleftrightarrow> packet_v3 pack"
| "session_ok (Outgoing pack qos retained) st \<longleftrightarrow> publication_ok pack qos \<and> pb_msgId pack \<notin> fst ` set (fst st)"

fun session_events_ok :: "session_event list \<Rightarrow> session \<Rightarrow> bool" where
  "session_events_ok [] st \<longleftrightarrow> True"
| "session_events_ok (e # es) st \<longleftrightarrow> session_ok e st \<and> session_events_ok es (a_session e st)"

fun event_calls :: "bool \<Rightarrow> nat \<Rightarrow> session_event \<Rightarrow> call list" where
  "event_calls dc h (Incoming pack) = completions dc h pack"
| "event_calls dc h (Outgoing pack qos retained) = []"

lemma session_step_refines:
  assumes "lists_ok (e_lists (a_env A))" "heap_total (e_heap (a_env A))" "session_inv (a_env A) sock h (b_sys l)"
    and "session_ok e (session_view h (b_sys l))"
  shows "\<exists>s'. session_step A sock h e l =
      Inr (l\<lparr>b_sys := s', b_calls := b_calls l @ event_calls (m_dc (b_handles l ! h)) h e\<rparr>) \<and>
    session_inv (a_env A) sock h s' \<and> session_view h s' = a_session e (session_view h (b_sys l))"
proof (cases e)
  case (Incoming pack)
  with handle_packet_v3 [OF assms(1-3), of pack 0] assms(4) show ?thesis by auto
next
  case (Outgoing pack qos retained)
  with assms(4) have "publication_ok pack qos" "pb_msgId pack \<notin> fst ` set (out_view h (b_sys l))"
    by (simp_all add: session_view_def)
  from start_publish_v3 [OF assms(1,2) _ this, of sock retained] assms(3) obtain rc p m s' where
    "MQTTProtocol_startPublish (a_env A) h pack qos retained None (b_sys l) = Inr (rc, p, Some m, s')"
    "sender_inv (a_env A) sock h s'" "out_view h s' = a_start (pb_msgId pack) qos (out_view h (b_sys l))"
    "sent_only h (b_sys l) s'" by (auto simp: session_inv_def)
  with sent_keeps [OF assms(3), of s'] Outgoing show ?thesis
    by (auto simp: on_sys_def session_view_def)
qed

text \<open>
  C4: A session before version 5 refines its machine in both directions at once. From any state in
  which the message lists are as the functions leave them, every sequence of packets from the broker,
  whatever their types, ids and order, and of publishes under free message ids runs through
  \<^verbatim>\<open>MQTTClient_cycle\<close>'s handling without undefined behaviour, whatever the network does. It keeps the
  invariant of both directions, and the messages waiting for acknowledgements, the messages held and
  the messages delivered change as the machine says: the receiving side is never changed by what the
  sending side does, nor the other way round, although both store their publications in one list.
  \<open>deliveryComplete\<close> is called for the acknowledgements in the order they come.
\<close>

theorem session_refines:
  assumes "lists_ok (e_lists (a_env A))" "heap_total (e_heap (a_env A))" "session_inv (a_env A) sock h (b_sys l)"
    and "session_events_ok es (session_view h (b_sys l))"
  shows "\<exists>s'. run_session A sock h es l =
      Inr (l\<lparr>b_sys := s', b_calls := b_calls l @ concat (map (event_calls (m_dc (b_handles l ! h)) h) es)\<rparr>) \<and>
    session_inv (a_env A) sock h s' \<and> session_view h s' = fold a_session es (session_view h (b_sys l))"
  using assms(3,4)
proof (induction es arbitrary: l)
  case (Cons e es)
  then have "session_ok e (session_view h (b_sys l))" by simp
  from session_step_refines [OF assms(1,2) Cons.prems(1) this] obtain s1 where
    s1: "session_step A sock h e l =
      Inr (l\<lparr>b_sys := s1, b_calls := b_calls l @ event_calls (m_dc (b_handles l ! h)) h e\<rparr>)" (is "_ = Inr ?l1")
    "session_inv (a_env A) sock h s1" "session_view h s1 = a_session e (session_view h (b_sys l))" by blast
  from Cons.IH [of ?l1] s1(2,3) Cons.prems(2) obtain s' where
    "run_session A sock h es ?l1 =
      Inr (?l1\<lparr>b_sys := s', b_calls := b_calls ?l1 @ concat (map (event_calls (m_dc (b_handles l ! h)) h) es)\<rparr>)"
    "session_inv (a_env A) sock h s'" "session_view h s' = fold a_session es (session_view h s1)" by auto
  then show ?case using s1(1,3) by (intro exI [of _ s']) simp
next
  case Nil
  then show ?case by (intro exI [of _ "b_sys l"]) simp
qed

text \<open>An environment and a library with one client, for the examples.\<close>

definition std_api :: "(unit, unit) api" where
  "std_api = \<lparr>a_env = std_env, a_connect = \<lparr>Base64_encodeLength = length, Base64_encode = \<lambda>_ b. b,
       Socket_new = \<lambda>_ _ _ _ n. (0, 5, n), Proxy_connect = \<lambda>_ _ n. (0, n), WebSocket_connect = \<lambda>_ _ n. (0, n)\<rparr>,
     a_getenv_http_proxy = None, Socket_getReadySocket = \<lambda>_ n. (0, n), WebSocket_upgrade = \<lambda>_ n. (0, n),
     getsockopt_error = \<lambda>_ n. (0, 0, n), SocketBuffer_getWrite = \<lambda>_ _. False, sleep = \<lambda>_ n. n,
     UTF8_validateString = \<lambda>_. True, sem_timeout = 110, message_arrived = \<lambda>_. 1,
     new_publish = \<lparr>pb_header = 0, pb_topic = None, pb_topiclen = 0, pb_msgId = 0, pb_payload = [], pb_payloadlen = 0,
       pb_MQTTVersion = 0, pb_properties = MQTTProperties_initializer, pb_mask = []\<rparr>\<rparr>"

definition one_client :: "unit Clients \<Rightarrow> (unit, unit) lib" where
  "one_client c = \<lparr>b_sys = blank_sys c (), b_handles = [zero_handle\<lparr>m_dc := True\<rparr>], b_initialized = True, b_thread = NoThread,
     b_tostop = False, b_run_read = None, b_run_timeout = 10, b_last = START_TIME_ZERO, b_retryLoopIntervalms = 5000,
     b_calls = [], b_sched = []\<rparr>"

lemma std_api_ok: "lists_ok (e_lists (a_env std_api))" "heap_total (e_heap (a_env std_api))"
  using std_env_ok by (simp_all add: std_api_def)

lemma blank_session: "session_inv (a_env std_api) 5 0 (b_sys (one_client blank_client))"
proof -
  have "sender_inv std_env 5 0 (blank_sys blank_client ())" "receiver_inv std_env 5 0 (blank_sys blank_client ())"
    by (simp_all add: blank_sender(1) blank_receiver(1))
  then show ?thesis by (simp add: session_inv_def std_api_def one_client_def blank_client_def)
qed

theorem session_refines_witness:
  "\<exists>l'. run_session std_api 5 0 [Outgoing sample_send 2 0, Incoming (PkAck (sample_ack 80)), Incoming (PkAck (sample_ack 112))]
      (one_client blank_client) = Inr l' \<and> session_view 0 (b_sys l') = ([], [], []) \<and> b_calls l' = [DeliveryComplete 0 7]"
proof -
  let ?es = "[Outgoing sample_send 2 0, Incoming (PkAck (sample_ack 80)), Incoming (PkAck (sample_ack 112))]"
  have v: "session_view 0 (b_sys (one_client blank_client)) = ([], [], [])"
    by (simp add: session_view_def one_client_def out_view_def view_def blank_client_def)
  have t: "hd_type (ak_header (sample_ack 80)) = PUBREC" "hd_type (ak_header (sample_ack 112)) = PUBCOMP"
    by (simp_all add: sample_ack_def hd_type_def msgTypes_defs)
  have ok: "session_events_ok ?es ([], [], [])"
    by (simp add: publication_ok_def sample_send_def packet_v3_def ack_v3_def sample_ack_def)
  from session_refines [OF std_api_ok blank_session, of ?es, unfolded v, OF ok] t show ?thesis
    by (auto simp: a_start_def sample_send_def a_packet_def a_ack_def msgTypes_defs a_pubrec_def a_pubcomp_def
        completions_def one_client_def sample_ack_def simp del: run_session.simps)
qed

subsection \<open>Closing a session\<close>

text \<open>What is in the lists stays there while a session is closed; after that it is cleaned when it has to be.\<close>

definition kept :: "nat \<Rightarrow> ('n, 'f) sys \<Rightarrow> ('n, 'f) sys \<Rightarrow> bool" where
  "kept i s s' \<longleftrightarrow> g_publications s' = g_publications s \<and> length (g_clients s') = length (g_clients s) \<and>
     (let c = g_clients s ! i; c' = g_clients s' ! i in
      c_inboundMsgs c' = c_inboundMsgs c \<and> c_outboundMsgs c' = c_outboundMsgs c \<and> c_messageQueue c' = c_messageQueue c \<and>
      c_cleansession c' = c_cleansession c \<and> c_MQTTVersion c' = c_MQTTVersion c \<and> c_persistence c' = c_persistence c)"

lemma kept_refl [simp]: "kept i s s"
  by (simp add: kept_def)

lemma kept_trans: "kept i s s' \<Longrightarrow> kept i s' s'' \<Longrightarrow> kept i s s''"
  by (simp add: kept_def Let_def)

lemma kept_net [simp]: "kept i s (s'\<lparr>g_net := n\<rparr>) = kept i s s'"
  by (simp add: kept_def)

lemma kept_similar:
  assumes "similar s s'" "i < length (g_clients s)"
  shows "kept i s s'"
proof -
  note c = similar_client [OF assms]
  have "c_cleansession (strip (g_clients s' ! i)) = c_cleansession (strip (g_clients s ! i))" using c(1) by simp
  then show ?thesis using assms(1) c(2) stripD [OF c(1)] by (simp add: kept_def similar_def)
qed

lemma kept_upd:
  assumes "i < length (g_clients s)"
    and "c_inboundMsgs (f (g_clients s ! i)) = c_inboundMsgs (g_clients s ! i)"
      "c_outboundMsgs (f (g_clients s ! i)) = c_outboundMsgs (g_clients s ! i)"
      "c_messageQueue (f (g_clients s ! i)) = c_messageQueue (g_clients s ! i)"
      "c_cleansession (f (g_clients s ! i)) = c_cleansession (g_clients s ! i)"
      "c_MQTTVersion (f (g_clients s ! i)) = c_MQTTVersion (g_clients s ! i)"
      "c_persistence (f (g_clients s ! i)) = c_persistence (g_clients s ! i)"
  shows "kept i s (upd_client i f s)"
  using assms by (simp add: kept_def upd_client_def)

definition releasable :: "(nat \<rightharpoonup> Publications) \<Rightarrow> Messages list \<Rightarrow> bool" where
  "releasable M ms \<longleftrightarrow> distinct (map ms_publish ms) \<and> (\<forall>m\<in>set ms. ms_MQTTVersion m < 5 \<and>
     (\<exists>a p. ms_publish m = Some a \<and> M a = Some p \<and> pu_refcount p = 1))"

lemma release_messages_ok:
  assumes "lists_ok (e_lists E)"
  shows "distinct (map fst (g_publications s)) \<Longrightarrow> releasable (map_of (g_publications s)) ms \<Longrightarrow>
    \<exists>ps. release_messages E ms s = Inr (s\<lparr>g_publications := ps\<rparr>) \<and> distinct (map fst ps) \<and>
      (\<forall>b. Some b \<notin> ms_publish ` set ms \<longrightarrow> map_of ps b = map_of (g_publications s) b)"
proof (induction ms arbitrary: s)
  case Nil
  then show ?case by (intro exI [of _ "g_publications s"]) simp
next
  case (Cons m ms)
  from Cons.prems(2) obtain a p where m: "ms_publish m = Some a" "map_of (g_publications s) a = Some p"
    "pu_refcount p = 1" "ms_MQTTVersion m < 5" by (auto simp: releasable_def)
  from drop_pub_eq [OF assms Cons.prems(1), of a] obtain ps where ps: "drop_pub E a s = s\<lparr>g_publications := ps\<rparr>"
    "map_of ps = (map_of (g_publications s))(a := None)" "distinct (map fst ps)" by blast
  have "releasable (map_of ps) ms"
  proof -
    have "ms_publish x \<noteq> Some a" if "x \<in> set ms" for x
      using Cons.prems(2) that m(1) by (force simp: releasable_def)
    then show ?thesis using Cons.prems(2) by (fastforce simp: releasable_def ps(2))
  qed
  with Cons.IH [of "s\<lparr>g_publications := ps\<rparr>"] ps(3) obtain qs where
    qs: "release_messages E ms (s\<lparr>g_publications := ps\<rparr>) = Inr (s\<lparr>g_publications := qs\<rparr>)" "distinct (map fst qs)"
    "\<forall>b. Some b \<notin> ms_publish ` set ms \<longrightarrow> map_of qs b = map_of ps b" by auto
  have "release_messages E (m # ms) s = Inr (s\<lparr>g_publications := qs\<rparr>)"
    using m ps(1) qs(1) assms by (simp add: MQTTProtocol_removePublication_def get_pub_eq free_props_def version_defs)
  with qs m(1) ps(2) show ?case by (intro exI [of _ qs]) auto
qed

definition plain_queue :: "MQTTPersistence_qEntry list \<Rightarrow> bool" where
  "plain_queue q \<longleftrightarrow> (\<forall>qe\<in>set q. pm_properties (qe_msg qe) = MQTTProperties_initializer)"

lemma free_queue_plain [simp]: "plain_queue q \<Longrightarrow> free_queue q = Inr ()"
  by (induction q) (auto simp: plain_queue_def MQTTProperties_free_def entries_def MQTTProperties_initializer_def)

lemma clean_session_ok:
  assumes "lists_ok (e_lists E)" "i < length (g_clients s)" "pubs_ok s" "c_persistence (g_clients s ! i) = None"
    and "releasable (map_of (g_publications s)) (c_inboundMsgs (g_clients s ! i))"
    and "releasable (map_of (g_publications s)) (c_outboundMsgs (g_clients s ! i))"
    and "ms_publish ` set (c_inboundMsgs (g_clients s ! i)) \<inter> ms_publish ` set (c_outboundMsgs (g_clients s ! i)) = {}"
    and "plain_queue (c_messageQueue (g_clients s ! i))"
  shows "\<exists>ps. MQTTClient_cleanSession E i s = Inr (0, upd_client i (\<lambda>c. c\<lparr>c_inboundMsgs := [], c_outboundMsgs := [],
    c_messageQueue := [], c_msgID := 0\<rparr>) (s\<lparr>g_publications := ps\<rparr>))"
proof -
  let ?c = "g_clients s ! i"
  have "distinct (map fst (g_publications s))" using assms(3) by (simp add: pubs_ok_def)
  from release_messages_ok [OF assms(1) this assms(5)] obtain ps where
    ps: "release_messages E (c_inboundMsgs ?c) s = Inr (s\<lparr>g_publications := ps\<rparr>)" "distinct (map fst ps)"
    "\<forall>b. Some b \<notin> ms_publish ` set (c_inboundMsgs ?c) \<longrightarrow> map_of ps b = map_of (g_publications s) b" by blast
  define s1 where "s1 = upd_client i (put_inbound []) (s\<lparr>g_publications := ps\<rparr>)"
  have out: "c_outboundMsgs (g_clients s1 ! i) = c_outboundMsgs ?c" "g_publications s1 = ps"
    using assms(2) by (simp_all add: s1_def upd_client_def put_inbound_def)
  have "map_of ps b = map_of (g_publications s) b" if "Some b \<in> ms_publish ` set (c_outboundMsgs ?c)" for b
    using ps(3) assms(7) that by blast
  then have "releasable (map_of ps) (c_outboundMsgs ?c)" using assms(6) unfolding releasable_def by (metis imageI)
  with release_messages_ok [OF assms(1), of s1 "c_outboundMsgs ?c"] ps(2) obtain qs where
    qs: "release_messages E (c_outboundMsgs ?c) s1 = Inr (s1\<lparr>g_publications := qs\<rparr>)" by (auto simp: out)
  have cl: "MQTTPersistence_clear ?c (g_fs s) = (0, g_fs s)" using assms(4) by (simp add: MQTTPersistence_clear_def)
  have fs: "s\<lparr>g_fs := g_fs s\<rparr> = s" by simp
  have e1: "MQTTProtocol_emptyMessageList E c_inboundMsgs put_inbound i s = Inr s1"
    using ps(1) by (simp add: MQTTProtocol_emptyMessageList_def s1_def)
  have e2: "MQTTProtocol_emptyMessageList E c_outboundMsgs put_outbound i s1 =
      Inr (upd_client i (put_outbound []) (s1\<lparr>g_publications := qs\<rparr>))"
    using qs by (simp add: MQTTProtocol_emptyMessageList_def out)
  show ?thesis
    unfolding MQTTClient_cleanSession_def cl Let_def prod.case fs e1 e2 ub_bind_simps
    using assms(2,8) by (intro exI [of _ qs])
      (simp add: MQTTClient_emptyMessageQueue_def upd_client_def s1_def put_inbound_def put_outbound_def)
qed

lemma session_releasable:
  assumes "session_inv E sock i s"
  shows "releasable (map_of (g_publications s)) (c_inboundMsgs (g_clients s ! i))"
    "releasable (map_of (g_publications s)) (c_outboundMsgs (g_clients s ! i))"
  using assms by (fastforce simp: session_inv_def sender_inv_def receiver_inv_def releasable_def held_ok_def out_ok_def sendable_def)+

lemma send_disconnect_v3:
  assumes "heap_total (e_heap E)" "c_MQTTVersion (g_clients s ! i) < 5"
  shows "\<exists>rc s'. MQTTPacket_send_disconnect E i 0 None s = Inr (rc, s') \<and> similar s s'"
proof -
  let ?h = "mk_header DISCONNECT 0 0 0"
  have "hd_type ?h \<noteq> PUBREL" by (simp add: mk_header_fields msgTypes_defs)
  moreover obtain rc m s' where p: "put_frame E i (?h # vbi (length ([] :: bytes))) [[]] [0, 0, 0, 0] s = (rc, m, s')"
    by (cases "put_frame E i (?h # vbi (length ([] :: bytes))) [[]] [0, 0, 0, 0] s") auto
  ultimately show ?thesis using assms similar_put_frame [OF p]
    by (simp add: MQTTPacket_send_disconnect_def MQTTPacket_send_frame)
qed

text \<open>The end of a session: the client is disconnected, and its lists are emptied or as they were.\<close>

definition session_closed :: "nat \<Rightarrow> ('n, 'f) sys \<Rightarrow> ('n, 'f) sys \<Rightarrow> bool" where
  "session_closed i s s' \<longleftrightarrow> length (g_clients s') = length (g_clients s) \<and>
     (let c = g_clients s ! i; c' = g_clients s' ! i in
      \<not> c_connected c' \<and>
      (if c_cleansession c \<noteq> 0 then c_outboundMsgs c' = [] \<and> c_inboundMsgs c' = [] \<and> c_messageQueue c' = []
       else c_outboundMsgs c' = c_outboundMsgs c \<and> c_inboundMsgs c' = c_inboundMsgs c \<and>
         c_messageQueue c' = c_messageQueue c \<and> g_publications s' = g_publications s))"

lemma close_session_v3:
  assumes "lists_ok (e_lists E)" "heap_total (e_heap E)" "session_inv E sock i s"
    and "plain_queue (c_messageQueue (g_clients s ! i))"
  shows "\<exists>s'. MQTTProtocol_closeSession E i s = Inr s' \<and> session_closed i s s'"
proof -
  have i: "i < length (g_clients s)" and v: "c_MQTTVersion (g_clients s ! i) < 5" and po: "pubs_ok s"
    and per: "c_persistence (g_clients s ! i) = None"
    and dis: "ms_publish ` set (c_inboundMsgs (g_clients s ! i)) \<inter> ms_publish ` set (c_outboundMsgs (g_clients s ! i)) = {}"
    using assms(3) by (simp_all add: session_inv_def sender_inv_def)
  define s0 where "s0 = (if c_connected (g_clients s ! i)
    then let s = snd (time_now E s); s = upd_client i (\<lambda>c. c\<lparr>c_connect_state := DISCONNECTING\<rparr>) s; c = g_clients s ! i
         in if c_inboundMsgs c \<noteq> [] \<or> c_outboundMsgs c \<noteq> [] then snd (time_now E s) else s
    else s)"
  define s1 where "s1 = upd_client i (\<lambda>c. c\<lparr>c_good := False, c_ping_outstanding := False, c_ping_due := False\<rparr>) s0"
  have tn: "snd (time_now E t) = t\<lparr>g_net := g_net (snd (time_now E t))\<rparr>" for t
    by (simp add: time_now_def split: prod.split)
  have k0: "kept i s s0"
    using i by (auto simp: s0_def kept_def Let_def upd_client_def tn [of s] time_now_def split: prod.splits)
  then have k1: "kept i s s1" using i
    by (auto simp: s1_def kept_def Let_def upd_client_def)
  then have i1: "i < length (g_clients s1)" and v1: "c_MQTTVersion (g_clients s1 ! i) < 5"
    using i v by (simp_all add: kept_def Let_def)
  from send_disconnect_v3 [OF assms(2) v1] obtain rc sd where
    sd: "MQTTPacket_send_disconnect E i 0 None s1 = Inr (rc, sd)" "similar s1 sd" by blast
  have kd: "kept i s sd" using kept_trans [OF k1 kept_similar [OF sd(2) i1]] .
  define s2 where "s2 = (if c_connected (g_clients s1 ! i) then sd else s1)"
  have k2: "kept i s s2" using k1 kd by (simp add: s2_def)
  define s3 where "s3 = (if socket_of i s1 > 0
    then upd_client i (\<lambda>c. c\<lparr>c_net := (c_net c)\<lparr>nh_socket := 0\<rparr>\<rparr>) (s2\<lparr>g_net := Socket_close (e_net E) (socket_of i s2)
                 (WebSocket_close (e_net E) (socket_of i s2) (g_net s2))\<rparr>) else s1)"
  have i2: "i < length (g_clients s2)" using k2 i by (simp add: kept_def)
  have k3: "kept i s s3" using k1 k2 i2 by (auto simp: s3_def kept_def Let_def upd_client_def)
  define s4 where "s4 = upd_client i (\<lambda>c. c\<lparr>c_connected := False, c_connect_state := NOT_IN_PROGRESS\<rparr>) s3"
  have i3: "i < length (g_clients s3)" using k3 i by (simp add: kept_def)
  have k4: "kept i s s4" "\<not> c_connected (g_clients s4 ! i)" using k3 i3 by (auto simp: s4_def kept_def Let_def upd_client_def)
  have run: "MQTTProtocol_closeSession E i s = (if c_MQTTVersion (g_clients s4 ! i) < MQTTVERSION_5 \<and> c_cleansession (g_clients s4 ! i) \<noteq> 0
      then ub_bind (MQTTClient_cleanSession E i s4) (\<lambda>(_, s). Inr s) else Inr s4)"
  proof -
    have "MQTTProtocol_closeSession E i s = MQTTClient_closeSession E i 0 None s0"
      by (simp only: MQTTProtocol_closeSession_def s0_def Let_def)
    moreover have "(if c_connected (g_clients s1 ! i)
        then ub_bind (MQTTPacket_send_disconnect E i 0 None s1) (\<lambda>(_, s). Inr s) else Inr s1) = Inr s2"
      using sd(1) by (simp add: s2_def)
    ultimately show ?thesis
      unfolding MQTTClient_closeSession_def Let_def s1_def [symmetric]
      by (cases "socket_of i s1 > 0") (simp_all only: ub_bind_simps if_True if_False s3_def s4_def)
  qed
  note f4 = k4(1) [unfolded kept_def Let_def]
  show ?thesis
  proof (cases "c_cleansession (g_clients s ! i) = 0")
    case True
    with run f4 k4(2) show ?thesis by (simp add: session_closed_def)
  next
    case False
    have "\<exists>ps. MQTTClient_cleanSession E i s4 = Inr (0, upd_client i (\<lambda>c. c\<lparr>c_inboundMsgs := [], c_outboundMsgs := [],
      c_messageQueue := [], c_msgID := 0\<rparr>) (s4\<lparr>g_publications := ps\<rparr>))"
    proof (rule clean_session_ok [OF assms(1)])
      show "pubs_ok s4"
      proof -
        have "g_fresh s4 = g_fresh s" using sd(2)
          by (auto simp: s4_def s3_def s2_def s1_def s0_def upd_client_def similar_def time_now_def Let_def split: prod.splits)
        then show ?thesis using po f4 by (simp add: pubs_ok_def)
      qed
    qed (use i per dis assms(4) session_releasable [OF assms(3)] f4 in simp_all)
    then obtain ps where ps: "MQTTClient_cleanSession E i s4 = Inr (0, upd_client i (\<lambda>c. c\<lparr>c_inboundMsgs := [],
      c_outboundMsgs := [], c_messageQueue := [], c_msgID := 0\<rparr>) (s4\<lparr>g_publications := ps\<rparr>))" by blast
    have len: "i < length (g_clients s4)" "length (g_clients s4) = length (g_clients s)" using f4 i by simp_all
    have fields: "c_MQTTVersion (g_clients s4 ! i) < MQTTVERSION_5" "c_cleansession (g_clients s4 ! i) \<noteq> 0"
      using f4 v False by (simp_all add: version_defs)
    define s5 where "s5 = upd_client i (\<lambda>c. c\<lparr>c_inboundMsgs := [], c_outboundMsgs := [], c_messageQueue := [],
      c_msgID := 0\<rparr>) (s4\<lparr>g_publications := ps\<rparr>)"
    have "MQTTProtocol_closeSession E i s = Inr s5"
      unfolding run s5_def ps using fields by simp
    moreover have "session_closed i s s5"
      using len k4(2) False by (simp add: session_closed_def s5_def upd_client_def)
    ultimately show ?thesis by blast
  qed
qed

end
