(* ===== verification/ClientProps.thy ===== *)
theory ClientProps
  imports Session
begin

section \<open>Properties of the synchronous client\<close>

text \<open>
  What the API promises of the functions of theories \<open>Client\<close> and \<open>ClientRun\<close>: closing a session
  never waits, and a publish that is accepted is in the outbound list under the token that is returned.
\<close>

subsection \<open>Closing a session\<close>

lemma inflight_wait_0 [simp]:
  "inflight_wait A yield h start 0 l =
     ret (if c_inboundMsgs (clients l ! h) = [] \<and> c_outboundMsgs (clients l ! h) = [] then l
          else snd (elapsed A start l))"
  by (subst inflight_wait.simps) (auto split: prod.splits)

lemma elapsed_time_now: "snd (elapsed A start l) = upd_sys (\<lambda>s. snd (time_now (a_env A) s)) l"
  by (simp add: elapsed_def time_now_def upd_sys_def split: prod.splits)

text \<open>
  Closing a session from inside the library does not wait. The disconnection with timeout 0,
  which \<^verbatim>\<open>MQTTProtocol_closeSession\<close>, \<^verbatim>\<open>MQTTClient_yield\<close> and the functions of the API call when a
  connection fails, is the closing of the session that the protocol module knows, then the stop of
  the background thread if no handle needs it, then the callback for a lost connection if there was
  one. It never yields for messages in flight, whatever there is in flight and however \<^verbatim>\<open>yield\<close>
  behaves, so it does not call itself again.
\<close>

theorem disconnect_internal_0:
  "MQTTClient_disconnect_internal A yield stop (Some h) 0 l =
     run_bind (Some (on_sys (MQTTProtocol_closeSession (a_env A) h) l)) (\<lambda>l'.
       run_bind (stop l') (\<lambda>l''. ret (connection_lost h (c_connected (clients l ! h)) l'')))"
proof (cases "c_connected (clients l ! h)")
  case False
  then show ?thesis
    by (simp add: MQTTClient_disconnect_internal_def MQTTClient_disconnect1_def MQTTProtocol_closeSession_def
        on_sys_def run_bind_def split: option.splits sum.splits)
next
  case True
  define s where "s = upd_client h (\<lambda>c. c\<lparr>c_connect_state := DISCONNECTING\<rparr>) (snd (time_now (a_env A) (b_sys l)))"
  have "snd (now A l) = l\<lparr>b_sys := snd (time_now (a_env A) (b_sys l))\<rparr>" by (simp add: now_def split: prod.splits)
  then show ?thesis using True
    by (simp add: MQTTClient_disconnect_internal_def MQTTClient_disconnect1_def MQTTProtocol_closeSession_def
        on_sys_def upd_sys_def run_bind_def Let_def elapsed_time_now case_prod_beta flip: s_def split: option.splits sum.splits)
qed

subsection \<open>Publishing\<close>

lemmas socket_codes = TCPSOCKET_COMPLETE_def TCPSOCKET_INTERRUPTED_def SOCKET_ERROR_def

text \<open>With fewer than 65534 messages there is always a free id.\<close>

lemma assign_free:
  assumes "list_lib_ok L" "0 \<le> c_msgID c" "c_msgID c \<le> MAX_MSG_ID" "length (c_outboundMsgs c) < 65534"
  shows "\<exists>tok c'. MQTTProtocol_assignMsgId L c = Some (tok, c') \<and> c' = c\<lparr>c_msgID := tok\<rparr> \<and> 1 \<le> tok \<and>
    tok \<le> MAX_MSG_ID \<and> \<not> in_use c tok"
proof -
  let ?ids = "ms_msgid ` set (c_outboundMsgs c)"
  have "card ?ids \<le> length (c_outboundMsgs c)" by (metis card_length length_map set_map)
  moreover have "65534 \<le> card ({1..MAX_MSG_ID} - {c_msgID c})"
    by (simp add: MAX_MSG_ID_def card_Diff_singleton_if)
  ultimately have "\<not> {1..MAX_MSG_ID} - {c_msgID c} \<subseteq> ?ids"
    using assms(4) card_mono [of ?ids "{1..MAX_MSG_ID} - {c_msgID c}"] by auto
  then obtain m where "m \<in> {1..MAX_MSG_ID} - {c_msgID c}" "m \<notin> ?ids" by blast
  then have m: "1 \<le> m" "m \<le> MAX_MSG_ID" "m \<noteq> c_msgID c" "\<not> in_use c m" by (auto simp: in_use_def)
  with assignMsgId_cases [OF assms(1-3)] show ?thesis
    by (auto split: option.splits if_splits)
qed

text \<open>The last message id is not part of the invariant.\<close>

lemma session_msgID:
  assumes "session_inv E sock i s"
  shows "session_inv E sock i (upd_client i (\<lambda>c. c\<lparr>c_msgID := n\<rparr>) s) \<and>
    out_view i (upd_client i (\<lambda>c. c\<lparr>c_msgID := n\<rparr>) s) = out_view i s"
proof -
  let ?s = "upd_client i (\<lambda>c. c\<lparr>c_msgID := n\<rparr>) s"
  have i: "i < length (g_clients s)" using assms by (simp add: session_inv_def sender_inv_def)
  have so: "map (\<lambda>c. nh_socket (c_net c)) (g_clients ?s) = map (\<lambda>c. nh_socket (c_net c)) (g_clients s)"
    by (simp add: upd_client_def)
  show ?thesis using assms i unfolding session_inv_def sender_inv_def receiver_inv_def so
    by (simp add: upd_client_def pubs_ok_def out_view_def)
qed

lemma put_outbound_session:
  assumes "put_outbound [] (strip c') = put_outbound [] (strip c)"
  shows "c_connected c' = c_connected c" "c_cleansession c' = c_cleansession c" "c_messageQueue c' = c_messageQueue c"
proof -
  from assms have "c_connected (put_outbound [] (strip c')) = c_connected (put_outbound [] (strip c))"
    "c_cleansession (put_outbound [] (strip c')) = c_cleansession (put_outbound [] (strip c))"
    "c_messageQueue (put_outbound [] (strip c')) = c_messageQueue (put_outbound [] (strip c))" by simp_all
  then show "c_connected c' = c_connected c" "c_cleansession c' = c_cleansession c" "c_messageQueue c' = c_messageQueue c"
    by (simp_all add: put_outbound_def)
qed

text \<open>The packet of a publish before version 5.\<close>

lemma publish_packet_ok:
  assumes "heap_total (e_heap (a_env A))" "payload = Some b" "0 \<le> payloadlen" "nat payloadlen \<le> length b"
    "version < 5" "qos \<in> {1, 2}"
  shows "\<exists>p. publish_packet A topicName payloadlen payload properties msgid version = Inr (Inr p) \<and>
    publication_ok p qos \<and> pb_msgId p = msgid \<and> pb_mask p = [0, 0, 0, 0] \<and>
    publish_bufs p = (let t = c_str topicName in [writeInt (int (length t)), t, writeInt msgid, take (nat payloadlen) b])"
  using assms by (auto simp: publish_packet_def MQTTStrdup_ok publication_ok_def version_defs Let_def publish_bufs_def
      publish_payload_def)

lemma request_stop_none [simp]: "b_thread l = NoThread \<Longrightarrow> request_stop l = (False, l)"
  by (simp add: request_stop_def running_def)

lemma api_stop_none [simp]: "b_thread l = NoThread \<Longrightarrow> MQTTClient_stop A l = ret (0, l)"
  by (simp add: MQTTClient_stop_def)

lemma connection_lost_sys [simp]: "b_sys (connection_lost h was l) = b_sys l" "b_thread (connection_lost h was l) = b_thread l"
  by (simp_all add: connection_lost_def log_call_def)

text \<open>The token is the id of the message, which is in the list.\<close>

lemma publish_token_ok:
  assumes "lists_ok (e_lists (a_env A))" "msgid \<in> fst ` set (out_view h (b_sys l))"
  shows "publish_token A h msgid l = Inr msgid"
proof -
  let ?out = "c_outboundMsgs (clients l ! h)"
  have l: "list_lib_ok (l_msgs (e_lists (a_env A)))" using assms(1) by (simp add: lists_ok_def)
  from assms(2) have "\<exists>m\<in>set ?out. messageIDCompare msgid m" by (auto simp: out_view_def messageIDCompare_def)
  then obtain k where k: "find_index (messageIDCompare msgid) ?out = Some k" 
    by (cases "find_index (messageIDCompare msgid) ?out") (auto simp: find_index_None)
  from such_id [OF this] k show ?thesis by (simp add: publish_token_def list_lib_find_index [OF l])
qed

text \<open>
  What a publish needs: a connected client with room in its window, a free socket, no background
  thread, a topic in UTF-8 and a payload that is there.
\<close>

definition publishing ::
    "('n, 'f) api \<Rightarrow> int \<Rightarrow> nat \<Rightarrow> bytes \<Rightarrow> int \<Rightarrow> bytes option \<Rightarrow> nat \<Rightarrow> ('n, 'f) lib \<Rightarrow> bool" where
  "publishing A sock h topicName payloadlen payload qos l \<longleftrightarrow>
     plain_queue (c_messageQueue (clients l ! h)) \<and> b_thread l = NoThread \<and> c_connected (clients l ! h) \<and>
     UTF8_validateString A (c_str topicName) \<and>
     int (length (c_outboundMsgs (clients l ! h))) < c_maxInflightMessages (clients l ! h) \<and>
     length (c_outboundMsgs (clients l ! h)) < 65534 \<and>
     Socket_noPendingWrites (e_net (a_env A)) sock (g_net (b_sys l)) \<and>
     0 \<le> c_msgID (clients l ! h) \<and> c_msgID (clients l ! h) \<le> MAX_MSG_ID \<and> qos \<in> {1, 2} \<and>
     (\<exists>b. payload = Some b \<and> 0 \<le> payloadlen \<and> nat payloadlen \<le> length b)"

text \<open>What the network does: no write stays pending, and sending returns one of its three codes.\<close>

definition sends_at_once :: "('n, 'f) api \<Rightarrow> bool" where
  "sends_at_once A \<longleftrightarrow> (\<forall>so n. \<not> SocketBuffer_getWrite A so n) \<and>
     (\<forall>rc. send_code (a_env A) rc \<longrightarrow> rc \<in> {TCPSOCKET_COMPLETE, TCPSOCKET_INTERRUPTED, SOCKET_ERROR})"

text \<open>What the network answers when the PUBLISH of a call is given to it.\<close>

definition send_result ::
    "('n, 'f) api \<Rightarrow> int \<Rightarrow> bytes \<Rightarrow> int \<Rightarrow> bytes option \<Rightarrow> nat \<Rightarrow> nat \<Rightarrow> int \<Rightarrow> ('n, 'f) lib \<Rightarrow> int" where
  "send_result A sock topicName payloadlen payload qos retained tok l =
     (let t = c_str topicName;
          bufs = [writeInt (int (length t)), t, writeInt tok, take (nat payloadlen) (null_bytes payload)];
          net = e_net (a_env A)
      in fst (WebSocket_putdatas net sock (mk_header PUBLISH 0 qos retained # vbi (length (concat bufs))) bufs
           [0, 0, 0, 0] (snd (clock_gettime net (g_net (b_sys l))))))"

lemma publish_outcome:
  assumes "lists_ok (e_lists (a_env A))" "heap_total (e_heap (a_env A))" "session_inv (a_env A) sock h (b_sys l)"
    and pub: "publishing A sock h topicName payloadlen payload qos l" and net: "sends_at_once A"
  shows "\<exists>tok l'. MQTTClient_publish5 A (Some h) topicName payloadlen payload qos retained properties True l =
      ret (MQTTCLIENT_SUCCESS, Some tok, l') \<and>
    1 \<le> tok \<and> tok \<le> MAX_MSG_ID \<and> tok \<notin> fst ` set (out_view h (b_sys l)) \<and>
    (if send_result A sock topicName payloadlen payload qos retained tok l = SOCKET_ERROR
     then \<not> c_connected (clients l' ! h) \<and> out_view h (b_sys l') =
       (if c_cleansession (clients l ! h) \<noteq> 0 then [] else a_start tok qos (out_view h (b_sys l)))
     else session_inv (a_env A) sock h (b_sys l') \<and> c_connected (clients l' ! h) \<and>
       out_view h (b_sys l') = a_start tok qos (out_view h (b_sys l)))"
proof -
  let ?E = "a_env A" and ?s = "b_sys l" and ?c = "clients l ! h"
  let ?out = "c_outboundMsgs ?c"
  note lists = assms(1) and heap = assms(2) and ses = assms(3)
  from pub have a4: "plain_queue (c_messageQueue ?c)" and a5: "b_thread l = NoThread" and a6: "c_connected ?c"
    and a7: "UTF8_validateString A (c_str topicName)" and a8: "int (length ?out) < c_maxInflightMessages ?c"
    and a9: "length ?out < 65534" and a10: "Socket_noPendingWrites (e_net ?E) sock (g_net ?s)"
    and a13: "0 \<le> c_msgID ?c" and a14: "c_msgID ?c \<le> MAX_MSG_ID" and a15: "qos \<in> {1, 2}"
    by (simp_all add: publishing_def)
  from pub obtain b where a16: "payload = Some b" and a17: "0 \<le> payloadlen" and a18: "nat payloadlen \<le> length b"
    by (auto simp: publishing_def)
  from net have a11: "\<forall>so n. \<not> SocketBuffer_getWrite A so n"
    and a12: "\<forall>rc. send_code ?E rc \<longrightarrow> rc \<in> {TCPSOCKET_COMPLETE, TCPSOCKET_INTERRUPTED, SOCKET_ERROR}"
    by (simp_all add: sends_at_once_def)
  have snd_inv: "sender_inv ?E sock h ?s" and ver: "c_MQTTVersion ?c < 5" and h: "h < length (clients l)"
    using ses by (simp_all add: session_inv_def sender_inv_def)
  have lm: "list_lib_ok (l_msgs (e_lists ?E))" using lists by (simp add: lists_ok_def)
  have wait: "publish_wait A h l = ret (MQTTCLIENT_SUCCESS, l)"
    using a8 a10 sender_socket [OF snd_inv] by (subst publish_wait.simps) simp
  obtain tok c where tok: "MQTTProtocol_assignMsgId (l_msgs (e_lists ?E)) ?c = Some (tok, c)" "c = ?c\<lparr>c_msgID := tok\<rparr>"
    "1 \<le> tok" "tok \<le> MAX_MSG_ID" "\<not> in_use ?c tok"
    using assign_free [OF lm a13 a14 a9] by blast
  have new: "tok \<notin> fst ` set (out_view h ?s)" using tok(5) by (auto simp: in_use_def out_view_def)
  define l1 where "l1 = upd_sys (set_client h c) l"
  have s1: "b_sys l1 = upd_client h (\<lambda>c. c\<lparr>c_msgID := tok\<rparr>) ?s" "b_thread l1 = NoThread" "b_handles l1 = b_handles l"
    using a5 by (simp_all add: l1_def upd_sys_def set_client_def upd_client_def tok(2))
  have ses1: "session_inv ?E sock h (b_sys l1)" "out_view h (b_sys l1) = out_view h ?s"
    using session_msgID [OF ses, of tok] by (simp_all add: s1)
  have c1: "clients l1 ! h = ?c\<lparr>c_msgID := tok\<rparr>" using h by (simp add: s1 upd_client_def)
  from publish_packet_ok [OF heap a16 a17 a18 ver a15, of topicName properties tok] obtain p where
    p: "publish_packet A topicName payloadlen payload properties tok (c_MQTTVersion ?c) = Inr (Inr p)"
    "publication_ok p qos" "pb_msgId p = tok" "pb_mask p = [0, 0, 0, 0]"
    "publish_bufs p = (let t = c_str topicName in [writeInt (int (length t)), t, writeInt tok, take (nat payloadlen) b])" by blast
  have "sender_inv ?E sock h (b_sys l1)" using ses1(1) by (simp add: session_inv_def)
  from start_publish_v3 [OF lists heap this p(2), of retained] p(3) new ses1(2) obtain rc pk m s2 where
    st: "MQTTProtocol_startPublish ?E h p qos retained None (b_sys l1) = Inr (rc, pk, Some m, s2)"
    "sender_inv ?E sock h s2" "out_view h s2 = a_start tok qos (out_view h ?s)" "sent_only h (b_sys l1) s2"
    "send_code ?E rc" "rc = publish_code ?E sock p qos retained (snd (clock_gettime (e_net ?E) (g_net (b_sys l1))))" by auto
  have "g_net (b_sys l1) = g_net ?s" by (simp add: s1 upd_client_def)
  with st(6) have rc: "rc = send_result A sock topicName payloadlen payload qos retained tok l"
    by (simp add: publish_code_def send_result_def p(4,5) a16 null_bytes_def Let_def)
  define l2 where "l2 = l1\<lparr>b_sys := s2\<rparr>"
  have ses2: "session_inv ?E sock h (b_sys l2)" using sent_keeps [OF ses1(1) st(2,4)] by (simp add: l2_def)
  have same: "put_outbound [] (strip (clients l2 ! h)) = put_outbound [] (strip (clients l1 ! h))"
    using st(4) by (simp add: moved_def Let_def l2_def)
  have c2: "c_connected (clients l2 ! h)" "c_cleansession (clients l2 ! h) = c_cleansession ?c"
    "c_messageQueue (clients l2 ! h) = c_messageQueue ?c"
    using put_outbound_session [OF same] a6 by (simp_all add: c1)
  have thr: "b_thread l2 = NoThread" using s1(2) by (simp add: l2_def)
  have start: "MQTTClient_publish5 A (Some h) topicName payloadlen payload qos retained properties True l =
      publish_sent A h qos True tok rc l2"
    using a6 a7 a15 wait tok(1,3) p(1) st(1)
    by (auto simp: MQTTClient_publish5_def publish_check_def publish_start_def client_codes l2_def c1 simp flip: l1_def)
  have wr: "written_wait A h l2 = ret l2" using a11 by (subst written_wait.simps) simp
  have tk: "publish_token A h tok l2 = Inr tok"
    by (rule publish_token_ok [OF lists]) (simp add: l2_def st(3) a_start_def)
  have rcs: "rc \<in> {TCPSOCKET_COMPLETE, TCPSOCKET_INTERRUPTED, SOCKET_ERROR}" using a12 st(5) by blast
  show ?thesis
  proof (cases "rc = SOCKET_ERROR")
    case False
    then have "publish_sent A h qos True tok rc l2 = ret (MQTTCLIENT_SUCCESS, Some tok, l2)"
      using rcs a15 wr tk by (auto simp: publish_sent_def publish_end_def client_codes socket_codes)
    with start tok(3,4) new st(3,5) ses2 False c2(1) show ?thesis
      by (intro exI [of _ tok] exI [of _ l2]) (simp add: l2_def flip: rc)
  next
    case True
    from close_session_v3 [OF lists heap ses2] a4 c2(3) obtain s3 where
      s3: "MQTTProtocol_closeSession ?E h (b_sys l2) = Inr s3" "session_closed h (b_sys l2) s3" by auto
    define l3 where "l3 = connection_lost h True (l2\<lparr>b_sys := s3\<rparr>)"
    have "publish_sent A h qos True tok rc l2 = ret (MQTTCLIENT_SUCCESS, Some tok, l3)"
      using True a15 tk s3(1) thr c2(1)
      by (auto simp: publish_sent_def publish_end_def client_codes socket_codes disconnect_internal_0 on_sys_def l3_def)
    moreover have "b_sys l3 = s3" by (simp add: l3_def)
    moreover have "out_view h s3 = (if c_cleansession ?c \<noteq> 0 then [] else a_start tok qos (out_view h ?s))"
      "\<not> c_connected (g_clients s3 ! h)"
      using s3(2) c2(2) st(3) by (auto simp: session_closed_def out_view_def l2_def Let_def split: if_splits)
    ultimately show ?thesis using start tok(3,4) new st(5) True
      by (intro exI [of _ tok] exI [of _ l3]) (simp flip: rc)
  qed
qed

text \<open>
  C10: A publish of QoS 1 or 2 that is accepted is in the outbound list under the token it returns.
  Before version 5, for a connected client with room in its window, a free socket and no background
  thread, \<^verbatim>\<open>MQTTClient_publish5\<close> returns, without undefined behaviour and without waiting, success
  and a token that is a valid message id no outbound message had. What else happened is decided by
  what the network answers to the frame of the PUBLISH (its header, the remaining length, topic,
  token and payload). If the frame is written, or written in part, the client is still connected,
  the session invariant holds and the outbound list is the old one with the new message, in the phase
  of its QoS. Exactly if sending fails, the session is closed: the list is the same when the session is
  kept, and empty when it is a clean one, though the result is success.
\<close>

theorem publish_accepted:
  assumes "lists_ok (e_lists (a_env A))" "heap_total (e_heap (a_env A))" "session_inv (a_env A) sock h (b_sys l)"
    and "publishing A sock h topicName payloadlen payload qos l" "sends_at_once A"
  shows "\<exists>tok l'. MQTTClient_publish5 A (Some h) topicName payloadlen payload qos retained properties True l =
      ret (MQTTCLIENT_SUCCESS, Some tok, l') \<and>
    1 \<le> tok \<and> tok \<le> MAX_MSG_ID \<and> tok \<notin> fst ` set (out_view h (b_sys l)) \<and>
    (if send_result A sock topicName payloadlen payload qos retained tok l = SOCKET_ERROR
     then \<not> c_connected (clients l' ! h) \<and> out_view h (b_sys l') =
       (if c_cleansession (clients l ! h) \<noteq> 0 then [] else a_start tok qos (out_view h (b_sys l)))
     else session_inv (a_env A) sock h (b_sys l') \<and> c_connected (clients l' ! h) \<and>
       out_view h (b_sys l') = a_start tok qos (out_view h (b_sys l)))"
  by (rule publish_outcome [OF assms])

lemma std_api_simps [simp]:
  "a_env std_api = std_env" "UTF8_validateString std_api = (\<lambda>_. True)" "SocketBuffer_getWrite std_api = (\<lambda>_ _. False)"
  by (simp_all add: std_api_def)

lemma std_publishing: "publishing std_api 5 0 [116] 2 (Some [104, 105]) 1 (one_client blank_client)"
  by (simp add: publishing_def one_client_def plain_queue_def blank_client_def null_net_def MAX_MSG_ID_def)

lemma std_sends: "sends_at_once std_api"
  by (auto simp: sends_at_once_def send_code_def null_net_def)

theorem publish_accepted_witness:
  "\<exists>tok l'. MQTTClient_publish5 std_api (Some 0) [116] 2 (Some [104, 105]) 1 0 None True (one_client blank_client) =
     ret (MQTTCLIENT_SUCCESS, Some tok, l') \<and> out_view 0 (b_sys l') = [(tok, AwaitPuback)] \<and> c_connected (clients l' ! 0)"
proof -
  have v: "out_view 0 (b_sys (one_client blank_client)) = []" by (simp add: out_view_def one_client_def blank_client_def)
  from publish_accepted [OF std_api_ok blank_session std_publishing std_sends, of 0 None, unfolded v] show ?thesis
    by (auto simp: a_start_def send_result_def null_net_def socket_codes)
qed

text \<open>
  C38: The exception is real. When a client of a clean session publishes with QoS 1 or 2 and the
  network fails, \<^verbatim>\<open>MQTTClient_publish5\<close> returns success and a token, while the session is closed and
  cleaned with the message in it: nothing is left that could be sent again, and since no session is
  connected, waiting for the token reports a disconnection.
\<close>

theorem clean_session_publish_lost:
  assumes "lists_ok (e_lists (a_env A))" "heap_total (e_heap (a_env A))" "session_inv (a_env A) sock h (b_sys l)"
    and "publishing A sock h topicName payloadlen payload qos l" "sends_at_once A"
    and "c_cleansession (clients l ! h) \<noteq> 0" "\<forall>rc. send_code (a_env A) rc \<longrightarrow> rc = SOCKET_ERROR"
  shows "\<exists>tok l'. MQTTClient_publish5 A (Some h) topicName payloadlen payload qos retained properties True l =
      ret (MQTTCLIENT_SUCCESS, Some tok, l') \<and> out_view h (b_sys l') = [] \<and> \<not> c_connected (clients l' ! h) \<and>
    (\<forall>timeout. \<exists>rc l''. MQTTClient_waitForCompletion A (Some h) tok timeout l' = ret (rc, l'') \<and>
      rc \<in> {MQTTCLIENT_DISCONNECTED, MQTTCLIENT_FAILURE})"
proof -
  have "send_result A sock topicName payloadlen payload qos retained tok l = SOCKET_ERROR" for tok
    using assms(7) unfolding send_result_def send_code_def Let_def by blast
  with publish_outcome [OF assms(1-5), of retained properties] assms(6) obtain tok l' where
    p: "MQTTClient_publish5 A (Some h) topicName payloadlen payload qos retained properties True l =
      ret (MQTTCLIENT_SUCCESS, Some tok, l')" "out_view h (b_sys l') = []" "\<not> c_connected (clients l' ! h)" by auto
  have "\<exists>rc l''. MQTTClient_waitForCompletion A (Some h) tok timeout l' = ret (rc, l'') \<and>
      rc \<in> {MQTTCLIENT_DISCONNECTED, MQTTCLIENT_FAILURE}" for timeout
  proof -
    obtain start l1 where n: "now A l' = (start, l1)" by (cases "now A l'") auto
    obtain e l2 where e: "elapsed A start l1 = (e, l2)" by (cases "elapsed A start l1") auto
    have "clients l2 = clients l'" using n e
      by (auto simp: now_def elapsed_def time_now_def upd_sys_def split: prod.splits)
    then have "\<not> c_connected (clients l2 ! h)" using p(3) by simp
    then show ?thesis
      by (simp add: MQTTClient_waitForCompletion_def n e completion_loop.simps [of A h tok start timeout e l2])
  qed
  with p show ?thesis by blast
qed

definition broken_api :: "(unit, unit) api" where
  "broken_api = std_api\<lparr>a_env := std_env\<lparr>e_net := null_net\<lparr>WebSocket_putdatas := \<lambda>_ _ _ m n. (SOCKET_ERROR, m, n)\<rparr>\<rparr>\<rparr>"

theorem clean_session_publish_lost_witness:
  "\<exists>tok l'. MQTTClient_publish5 broken_api (Some 0) [116] 2 (Some [104, 105]) 1 0 None True (one_client blank_client) =
     ret (MQTTCLIENT_SUCCESS, Some tok, l') \<and> out_view 0 (b_sys l') = []"
proof -
  have ok: "lists_ok (e_lists (a_env broken_api))" "heap_total (e_heap (a_env broken_api))"
    by (simp_all add: broken_api_def heap_total_def)
  have ses: "session_inv (a_env broken_api) 5 0 (b_sys (one_client blank_client))"
    using blank_session by (simp add: session_inv_def sender_inv_def receiver_inv_def)
  have pub: "publishing broken_api 5 0 [116] 2 (Some [104, 105]) 1 (one_client blank_client)"
    using std_publishing by (simp add: publishing_def broken_api_def)
  have net: "sends_at_once broken_api" "\<forall>rc. send_code (a_env broken_api) rc \<longrightarrow> rc = SOCKET_ERROR"
    by (auto simp: sends_at_once_def send_code_def broken_api_def)
  have clean: "c_cleansession (clients (one_client blank_client) ! 0) \<noteq> 0" by (simp add: one_client_def blank_client_def)
  from clean_session_publish_lost [OF ok ses pub net(1) clean net(2), of 0 None] show ?thesis by blast
qed

end
