(* ===== verification/Resend.thy ===== *)
theory Resend
  imports Session
begin

section \<open>Sending again what is outstanding\<close>

text \<open>
  After a connection is made again, and in the retry loop, every message of the outbound list is sent
  once more: a publish that waits for its first acknowledgement as a PUBLISH with the DUP flag, a
  message whose PUBREC is there as a PUBREL. \<^verbatim>\<open>MQTTProtocol_retries\<close> of
  \<^verbatim>\<open>src/include/MQTTProtocolClient.c\<close>, before version 5 and without persistence.
\<close>

subsection \<open>What is sent\<close>

text \<open>A network that accepts everything, and the frames it was given.\<close>

definition recording :: "'n net_lib \<Rightarrow> ('n \<Rightarrow> bytes list) \<Rightarrow> bool" where
  "recording N sent \<longleftrightarrow>
     (\<forall>so f bs m n. \<exists>m' n'. WebSocket_putdatas N so f bs m n = (TCPSOCKET_COMPLETE, m', n') \<and>
        sent n' = sent n @ [f @ concat bs]) \<and>
     (\<forall>n. sent (snd (clock_gettime N n)) = sent n) \<and> (\<forall>so n. Socket_noPendingWrites N so n)"

text \<open>The frame of an outbound message. \<open>M\<close> is the map of stored publications.\<close>

definition resend_frame :: "(nat \<rightharpoonup> Publications) \<Rightarrow> Messages \<Rightarrow> bytes" where
  "resend_frame M m =
     (if phase_of m = AwaitPubcomp then frame (mk_header PUBREL 0 1 0) (writeInt (ms_msgid m))
      else let p = publish_of m (Option.bind (ms_publish m) M) in
        frame (mk_header PUBLISH 1 (nat (ms_qos m)) (nat (ms_retain m))) (publish_body (nat (ms_qos m)) p))"

text \<open>The mask of a publication and the time of a message are not part of the frame.\<close>

definition same_pubs :: "(nat \<rightharpoonup> Publications) \<Rightarrow> (nat \<rightharpoonup> Publications) \<Rightarrow> bool" where
  "same_pubs M M' \<longleftrightarrow> (\<forall>a. map_option (pu_mask_update (\<lambda>_. [])) (M' a) = map_option (pu_mask_update (\<lambda>_. [])) (M a))"

lemma same_pubs_refl [simp]: "same_pubs M M"
  by (simp add: same_pubs_def)

lemma same_pubs_trans: "same_pubs M M' \<Longrightarrow> same_pubs M' M'' \<Longrightarrow> same_pubs M M''"
  by (simp add: same_pubs_def)

lemma same_pubs_mask: "M a = Some p \<Longrightarrow> same_pubs M (M(a \<mapsto> p\<lparr>pu_mask := m\<rparr>))"
  by (simp add: same_pubs_def)

lemma publish_of_mask:
  assumes "pu_mask_update (\<lambda>_. []) p' = pu_mask_update (\<lambda>_. []) p"
  shows "publish_of m (Some p') = publish_of m (Some p)"
proof -
  from arg_cong [OF assms, of pu_topic] arg_cong [OF assms, of pu_topiclen] arg_cong [OF assms, of pu_payload]
    arg_cong [OF assms, of pu_payloadlen]
  show ?thesis by (simp add: publish_of_def)
qed

lemma resend_frame_same:
  assumes "same_pubs M M'"
  shows "resend_frame M' m = resend_frame M m"
proof -
  have "publish_of m (Option.bind (ms_publish m) M') = publish_of m (Option.bind (ms_publish m) M)"
  proof (cases "ms_publish m")
    case (Some a)
    have "map_option (pu_mask_update (\<lambda>_. [])) (M' a) = map_option (pu_mask_update (\<lambda>_. [])) (M a)"
      using assms by (simp add: same_pubs_def)
    then have "publish_of m (M' a) = publish_of m (M a)"
    proof (cases "M a")
      case (Some p)
      then obtain p' where p': "M' a = Some p'" "pu_mask_update (\<lambda>_. []) p' = pu_mask_update (\<lambda>_. []) p"
        using \<open>map_option _ (M' a) = _\<close> by (cases "M' a") auto
      from publish_of_mask [OF p'(2)] show ?thesis unfolding p'(1) Some .
    qed simp
    then show ?thesis by (simp add: Some)
  qed simp
  then show ?thesis by (simp add: resend_frame_def)
qed

lemma resend_frame_touch [simp]: "resend_frame M (m\<lparr>ms_lastTouch := t\<rparr>) = resend_frame M m"
  by (simp add: resend_frame_def phase_of_def publish_of_def)

lemma publish_bufs_body:
  assumes "pb_MQTTVersion p < 5" "0 < qos"
  shows "concat (publish_bufs p) = publish_body qos p"
  using assms by (simp add: publish_bufs_def publish_body_def writeUTF_def strlen_def publish_props_def Let_def)

lemma put_frame_recorded:
  assumes "recording (e_net E) sent" "put_frame E i buf bufs m s = (rc, m', s')"
  shows "rc = TCPSOCKET_COMPLETE \<and> sent (g_net s') = sent (g_net s) @ [buf @ concat bufs]"
proof -
  obtain r mm n where w: "WebSocket_putdatas (e_net E) (socket_of i s) buf bufs m (g_net s) = (r, mm, n)"
    by (cases "WebSocket_putdatas (e_net E) (socket_of i s) buf bufs m (g_net s)") auto
  have "\<exists>m' n'. WebSocket_putdatas (e_net E) (socket_of i s) buf bufs m (g_net s) = (TCPSOCKET_COMPLETE, m', n') \<and>
      sent n' = sent (g_net s) @ [buf @ concat bufs]"
    using assms(1) unfolding recording_def by blast
  with w have r: "r = TCPSOCKET_COMPLETE" "sent n = sent (g_net s) @ [buf @ concat bufs]" by auto
  have "g_net (touch_sent E i (s\<lparr>g_net := n\<rparr>)) = snd (clock_gettime (e_net E) n)"
    by (simp add: touch_sent_def time_now_def upd_client_def Let_def split: prod.split)
  moreover have "sent (snd (clock_gettime (e_net E) n)) = sent n" for n
    using assms(1) by (simp add: recording_def)
  ultimately show ?thesis using assms(2) r by (auto simp: put_frame_def w)
qed

subsection \<open>One message\<close>

text \<open>
  The state between two messages: connected, and as before up to the times and masks. The number of
  messages sent again has grown by \<open>d\<close>.
\<close>

definition retry_counts :: "nat \<Rightarrow> ('n, 'f) sys \<Rightarrow> int \<times> int \<times> int" where
  "retry_counts i s = (c_connect_sent (g_clients s ! i), c_connect_count (g_clients s ! i), c_retryInterval (g_clients s ! i))"

definition resending :: "('n, 'f) env \<Rightarrow> int \<Rightarrow> nat \<Rightarrow> int \<Rightarrow> ('n, 'f) sys \<Rightarrow> ('n, 'f) sys \<Rightarrow> bool" where
  "resending E sock i d s s' \<longleftrightarrow> session_inv E sock i s' \<and> c_connected (g_clients s' ! i) \<and> c_good (g_clients s' ! i) \<and>
     map (ms_lastTouch_update (\<lambda>_. START_TIME_ZERO)) (c_outboundMsgs (g_clients s' ! i)) =
       map (ms_lastTouch_update (\<lambda>_. START_TIME_ZERO)) (c_outboundMsgs (g_clients s ! i)) \<and>
     same_pubs (map_of (g_publications s)) (map_of (g_publications s')) \<and> view i s' = view i s \<and>
     retry_counts i s' = map_prod ((+) d) id (retry_counts i s)"

lemma resending_refl:
  "session_inv E sock i s \<Longrightarrow> c_connected (g_clients s ! i) \<Longrightarrow> c_good (g_clients s ! i) \<Longrightarrow> resending E sock i 0 s s"
  by (simp add: resending_def retry_counts_def Let_def)

lemma resending_trans: "resending E sock i d s s' \<Longrightarrow> resending E sock i d' s' s'' \<Longrightarrow> resending E sock i (d + d') s s''"
  by (auto simp: resending_def retry_counts_def Let_def intro: same_pubs_trans)

text \<open>A change of the client that is none of the lists.\<close>

lemma session_upd:
  assumes "session_inv E sock i s"
    and "\<And>c. c_inboundMsgs (f c) = c_inboundMsgs c" "\<And>c. c_outboundMsgs (f c) = c_outboundMsgs c"
      "\<And>c. c_messageQueue (f c) = c_messageQueue c" "\<And>c. c_persistence (f c) = c_persistence c"
      "\<And>c. c_MQTTVersion (f c) = c_MQTTVersion c" "\<And>c. nh_socket (c_net (f c)) = nh_socket (c_net c)"
  shows "session_inv E sock i (upd_client i f s) \<and> view i (upd_client i f s) = view i s"
proof -
  let ?s = "upd_client i f s"
  have i: "i < length (g_clients s)" using assms(1) by (simp add: session_inv_def sender_inv_def)
  have so: "map (\<lambda>c. nh_socket (c_net c)) (g_clients ?s) = map (\<lambda>c. nh_socket (c_net c)) (g_clients s)"
    using assms(7) by (simp add: upd_client_def)
  have cl: "g_clients ?s ! i = f (g_clients s ! i)" "length (g_clients ?s) = length (g_clients s)"
    "g_publications ?s = g_publications s" "g_fresh ?s = g_fresh s" using i by (simp_all add: upd_client_def)
  show ?thesis using assms(1) i unfolding session_inv_def sender_inv_def receiver_inv_def so cl pubs_ok_def
    by (simp add: assms(2-6) view_def cl)
qed

lemma resending_upd:
  assumes "session_inv E sock i s" "c_connected (f (g_clients s ! i))" "c_good (f (g_clients s ! i))"
    and "\<And>c. c_inboundMsgs (f c) = c_inboundMsgs c" "\<And>c. c_outboundMsgs (f c) = c_outboundMsgs c"
      "\<And>c. c_messageQueue (f c) = c_messageQueue c" "\<And>c. c_persistence (f c) = c_persistence c"
      "\<And>c. c_MQTTVersion (f c) = c_MQTTVersion c" "\<And>c. nh_socket (c_net (f c)) = nh_socket (c_net c)"
      "\<And>c. c_connect_sent (f c) = d + c_connect_sent c" "\<And>c. c_connect_count (f c) = c_connect_count c"
      "\<And>c. c_retryInterval (f c) = c_retryInterval c"
  shows "resending E sock i d s (upd_client i f s)"
proof -
  have i: "i < length (g_clients s)" using assms(1) by (simp add: session_inv_def sender_inv_def)
  have "g_clients (upd_client i f s) ! i = f (g_clients s ! i)" "g_publications (upd_client i f s) = g_publications s"
    using i by (simp_all add: upd_client_def)
  with session_upd [OF assms(1,4-9)] assms(2,3,5,10-12) show ?thesis by (simp add: resending_def retry_counts_def)
qed

text \<open>What sending changes.\<close>

lemma resending_similar:
  assumes "session_inv E sock i s" "c_connected (g_clients s ! i)" "c_good (g_clients s ! i)" "similar s s'"
  shows "resending E sock i 0 s s'"
proof -
  have i: "i < length (g_clients s)" and inv: "sender_inv E sock i s" using assms(1) by (simp_all add: session_inv_def sender_inv_def)
  have m: "sent_only i s s'" using moved_similar [OF moved_refl assms(4) i] .
  have "strip (g_clients s' ! i) = strip (g_clients s ! i)" using similar_client(1) [OF assms(4) i] .
  then have "c_connected (strip (g_clients s' ! i)) = c_connected (strip (g_clients s ! i))"
    "c_good (strip (g_clients s' ! i)) = c_good (strip (g_clients s ! i))"
    "c_outboundMsgs (strip (g_clients s' ! i)) = c_outboundMsgs (strip (g_clients s ! i))"
    "c_connect_sent (strip (g_clients s' ! i)) = c_connect_sent (strip (g_clients s ! i))"
    "c_connect_count (strip (g_clients s' ! i)) = c_connect_count (strip (g_clients s ! i))"
    "c_retryInterval (strip (g_clients s' ! i)) = c_retryInterval (strip (g_clients s ! i))" by simp_all
  moreover have "g_publications s' = g_publications s" using assms(4) by (simp add: similar_def)
  ultimately show ?thesis
    using sent_keeps [OF assms(1) conjunct1 [OF sender_similar [OF assms(4) inv]] m] assms(2,3)
    by (simp add: resending_def retry_counts_def) (simp add: strip_def)
qed

lemma resending_mask:
  assumes "lists_ok (e_lists E)" "session_inv E sock i s" "c_connected (g_clients s ! i)" "c_good (g_clients s ! i)"
    and "m \<in> set (c_outboundMsgs (g_clients s ! i))" "ms_publish m = Some a" "map_of (g_publications s) a = Some p"
  shows "\<exists>s'. set_pub E a (p\<lparr>pu_mask := msk\<rparr>) s = Inr s' \<and> resending E sock i 0 s s' \<and> g_net s' = g_net s \<and>
    g_clients s' = g_clients s"
proof -
  have inv: "sender_inv E sock i s" using assms(2) by (simp add: session_inv_def)
  from sender_mask [OF assms(1) inv assms(7)] obtain ps where
    ps: "set_pub E a (p\<lparr>pu_mask := msk\<rparr>) s = Inr (s\<lparr>g_publications := ps\<rparr>)"
    "sender_inv E sock i (s\<lparr>g_publications := ps\<rparr>)" "map_of ps = (map_of (g_publications s))(a \<mapsto> p\<lparr>pu_mask := msk\<rparr>)" by blast
  let ?s = "s\<lparr>g_publications := ps\<rparr>"
  have "Some a \<in> ms_publish ` set (c_outboundMsgs (g_clients s ! i))" using assms(5,6) by (metis imageI)
  then have "sent_only i s ?s" by (auto simp: moved_def ps(3) Let_def)
  from sent_keeps [OF assms(2) ps(2) this] have "session_inv E sock i ?s \<and> view i ?s = view i s" .
  with ps assms(3,4,7) show ?thesis by (intro exI [of _ ?s]) (simp add: resending_def retry_counts_def same_pubs_mask)
qed

text \<open>New times of the last touch.\<close>

lemma resending_times:
  assumes "session_inv E sock i s" "c_connected (g_clients s ! i)" "c_good (g_clients s ! i)"
    and "map (ms_lastTouch_update (\<lambda>_. START_TIME_ZERO)) (f (c_outboundMsgs (g_clients s ! i))) =
      map (ms_lastTouch_update (\<lambda>_. START_TIME_ZERO)) (c_outboundMsgs (g_clients s ! i))"
    and "s' = upd_client i (\<lambda>c. c\<lparr>c_outboundMsgs := f (c_outboundMsgs c)\<rparr>) (s\<lparr>g_net := n\<rparr>)"
  shows "resending E sock i 0 s s'"
proof -
  let ?z = "ms_lastTouch_update (\<lambda>_. START_TIME_ZERO)" and ?M = "map_of (g_publications s)"
  define out where "out = c_outboundMsgs (g_clients s ! i)"
  have inv: "sender_inv E sock i s" "i < length (g_clients s)" using assms(1) by (simp_all add: session_inv_def sender_inv_def)
  have z: "map ?z (f out) = map ?z out" using assms(4) by (simp add: out_def)
  have f: "map ms_msgid (f out) = map ms_msgid out" "map ms_publish (f out) = map ms_publish out"
    using arg_cong [OF z, of "map ms_msgid"] arg_cong [OF z, of "map ms_publish"] by (simp_all add: comp_def)
  have ok: "\<forall>x\<in>set out. out_ok ?M x" "pubs_ok s" "distinct (map ms_msgid out)" "distinct (map ms_publish out)"
    using inv(1) by (simp_all add: sender_inv_def out_def)
  have "out_ok ?M (?z x) = out_ok ?M x" for x by (simp add: out_ok_def)
  then have "(\<forall>x\<in>set (f out). out_ok ?M x) \<longleftrightarrow> (\<forall>x\<in>set (map ?z (f out)). out_ok ?M x)" by simp
  also have "\<dots> \<longleftrightarrow> (\<forall>x\<in>set out. out_ok ?M x)" unfolding z by (simp add: out_ok_def)
  finally have all: "\<forall>x\<in>set (f out). out_ok ?M x" using ok(1) by simp
  have cl: "g_clients s' = (g_clients s)[i := (g_clients s ! i)\<lparr>c_outboundMsgs := f out\<rparr>]"
    "g_publications s' = g_publications s" "g_fresh s' = g_fresh s" by (simp_all add: assms(5) upd_client_def out_def)
  have "sender_inv E sock i s' \<and> out_view i s' = map out_item (f out)"
    by (rule sender_replace [OF inv(1) cl(1)]) (use ok all f cl in \<open>simp_all add: pubs_ok_def\<close>)
  moreover have "sent_only i s s'"
  proof -
    have "ms_publish ` set (f out) = ms_publish ` set out" using f(2) by (metis set_map)
    then show ?thesis using inv(2) by (simp add: moved_def cl put_outbound_def strip_def out_def)
  qed
  ultimately have "session_inv E sock i s' \<and> view i s' = view i s" using sent_keeps [OF assms(1)] by blast
  moreover have "c_connected (g_clients s' ! i)" "c_good (g_clients s' ! i)" "c_outboundMsgs (g_clients s' ! i) = f out"
    "retry_counts i s' = retry_counts i s" using assms(2,3) inv(2) by (simp_all add: cl retry_counts_def)
  ultimately show ?thesis using z by (simp add: resending_def cl retry_counts_def out_def)
qed

lemma resending_touch:
  assumes "session_inv E sock i s" "c_connected (g_clients s ! i)" "c_good (g_clients s ! i)"
    and "k < length (c_outboundMsgs (g_clients s ! i))" "m = c_outboundMsgs (g_clients s ! i) ! k"
    and "s' = upd_client i (\<lambda>c. c\<lparr>c_outboundMsgs := (c_outboundMsgs c)[k := m\<lparr>ms_lastTouch := t\<rparr>]\<rparr>) (s\<lparr>g_net := n\<rparr>)"
  shows "resending E sock i 0 s s'"
  by (rule resending_times [OF assms(1-3) _ assms(6)]) (use assms(4) in \<open>simp add: map_update assms(5) list_update_same_conv\<close>)

text \<open>What was sent for a message, and that the list goes on as before.\<close>

definition resent :: "('n, 'f) env \<Rightarrow> ('n \<Rightarrow> bytes list) \<Rightarrow> int \<Rightarrow> nat \<Rightarrow> bytes list \<Rightarrow> ('n, 'f) sys \<Rightarrow> ('n, 'f) sys \<Rightarrow> bool" where
  "resent E sent sock i frames s s' \<longleftrightarrow> resending E sock i (int (length frames)) s s' \<and> sent (g_net s') = sent (g_net s) @ frames"

lemma out_now:
  assumes "resending E sock i d s s'" "k < length (c_outboundMsgs (g_clients s ! i))"
  shows "k < length (c_outboundMsgs (g_clients s' ! i)) \<and>
    resend_frame M (c_outboundMsgs (g_clients s' ! i) ! k) = resend_frame M (c_outboundMsgs (g_clients s ! i) ! k)"
proof -
  let ?z = "ms_lastTouch_update (\<lambda>_. START_TIME_ZERO)" and ?out = "c_outboundMsgs (g_clients s ! i)"
    and ?out' = "c_outboundMsgs (g_clients s' ! i)"
  have eq: "map ?z ?out' = map ?z ?out" using assms(1) by (simp add: resending_def)
  then have k: "k < length ?out'" using assms(2) by (metis length_map)
  have "?z (?out' ! k) = ?z (?out ! k)" using arg_cong [OF eq, of "\<lambda>xs. xs ! k"] k assms(2) by simp
  then have "resend_frame M (?z (?out' ! k)) = resend_frame M (?z (?out ! k))" by simp
  with k show ?thesis by (simp only: resend_frame_touch)
qed

text \<open>The last step of both kinds of message, the time of the last touch.\<close>

lemma touch_resent:
  assumes "recording (e_net E) sent" "resending E sock i d s s1" "k < length (c_outboundMsgs (g_clients s1 ! i))"
    and "m = c_outboundMsgs (g_clients s1 ! i) ! k"
  shows "\<exists>s'. (case time_now E s1 of (t, s2) \<Rightarrow> Inr (True, upd_client i (\<lambda>c. c\<lparr>c_outboundMsgs :=
      (c_outboundMsgs c)[k := m\<lparr>ms_lastTouch := t\<rparr>]\<rparr>) s2)) = (Inr (True, s') :: ub + bool \<times> ('n, 'f) sys) \<and>
    resending E sock i d s s' \<and> sent (g_net s') = sent (g_net s1)"
proof -
  obtain ts n where t: "clock_gettime (e_net E) (g_net s1) = (ts, n)" by fastforce
  have "sent n = sent (g_net s1)" using assms(1) t unfolding recording_def by (metis snd_conv)
  moreover have "resending E sock i 0 s1 (upd_client i (\<lambda>c. c\<lparr>c_outboundMsgs :=
      (c_outboundMsgs c)[k := m\<lparr>ms_lastTouch := MQTTTime_now ts\<rparr>]\<rparr>) (s1\<lparr>g_net := n\<rparr>))" (is "resending _ _ _ _ _ ?s")
    by (rule resending_touch [OF _ _ _ assms(3,4) refl]) (use assms(2) in \<open>simp_all add: resending_def\<close>)
  then have "resending E sock i d s ?s" using resending_trans [OF assms(2)] by fastforce
  moreover have "g_net ?s = n" by (simp add: upd_client_def)
  ultimately show ?thesis by (simp add: time_now_def t)
qed

lemma publish_resent:
  fixes s s0 :: "('n, 'f) sys"
  assumes L: "lists_ok (e_lists E)" "heap_total (e_heap E)" and rec: "recording (e_net E) sent"
    and r: "resending E sock i d s0 s" and k: "k < length (c_outboundMsgs (g_clients s ! i))"
    and m: "m = c_outboundMsgs (g_clients s ! i) ! k" and ph: "phase_of m \<noteq> AwaitPubcomp"
  shows "\<exists>s'. retry_publish E i k m s = Inr (True, s') \<and> resending E sock i d s0 s' \<and>
    sent (g_net s') = sent (g_net s) @ [resend_frame (map_of (g_publications s)) m]"
proof -
  let ?out = "c_outboundMsgs (g_clients s ! i)" and ?M = "map_of (g_publications s)"
  have inv: "session_inv E sock i s" "c_connected (g_clients s ! i)" "c_good (g_clients s ! i)" "sender_inv E sock i s"
    using r by (simp_all add: resending_def session_inv_def)
  have i: "i < length (g_clients s)" using inv(4) by (simp add: sender_inv_def)
  have mem: "m \<in> set ?out" using k m by simp
  then have ok: "out_ok ?M m" using inv(4) by (simp add: sender_inv_def)
  then obtain a p where p: "ms_publish m = Some a" "?M a = Some p" "sendable p" by (auto simp: out_ok_def)
  have q: "ms_qos m = 1 \<or> ms_qos m = 2" "ms_MQTTVersion m < 5" using ok by (auto simp: out_ok_def)
  let ?pk = "(publish_of m (Some p))\<lparr>pb_mask := pu_mask p\<rparr>"
  have pok: "publication_ok ?pk (nat (ms_qos m))"
    using q p(3) by (auto simp: publication_ok_def publish_of_def sendable_def)
  from send_publish_similar [OF L inv(4) pok, of 1 "nat (ms_retain m)"] obtain rc msk s1 where
    s1: "MQTTPacket_send_publish E ?pk 1 (nat (ms_qos m)) (nat (ms_retain m)) i s = Inr (rc, ?pk\<lparr>pb_mask := msk\<rparr>, s1)"
      "similar s s1"
      "put_frame E i (mk_header PUBLISH 1 (nat (ms_qos m)) (nat (ms_retain m)) # vbi (length (concat (publish_bufs ?pk))))
        (publish_bufs ?pk) (pb_mask ?pk) s = (rc, msk, s1)" by blast
  have body: "concat (publish_bufs ?pk) = publish_body (nat (ms_qos m)) (publish_of m (Some p))"
    using publish_bufs_body [of ?pk "nat (ms_qos m)"] q
    by (auto simp: publish_of_def publish_body_def publish_props_def publish_payload_def)
  have fr: "resend_frame ?M m = frame (mk_header PUBLISH 1 (nat (ms_qos m)) (nat (ms_retain m)))
      (publish_body (nat (ms_qos m)) (publish_of m (Some p)))" using ph p by (simp add: resend_frame_def Let_def)
  from put_frame_recorded [OF rec s1(3)] have rc: "rc = TCPSOCKET_COMPLETE"
    "sent (g_net s1) = sent (g_net s) @ [resend_frame ?M m]" by (simp_all add: fr frame_def body)
  have r1: "resending E sock i 0 s s1" using resending_similar [OF inv(1-3) s1(2)] .
  have out1: "c_outboundMsgs (g_clients s1 ! i) = ?out" using stripD(2) [OF similar_client(1) [OF s1(2) i]] .
  have pubs1: "g_publications s1 = g_publications s" using s1(2) by (simp add: similar_def)
  from resending_mask [OF L(1), of sock i s1 m a p msk] r1 mem p(1,2) out1 pubs1 obtain s2 where
    s2: "set_pub E a (p\<lparr>pu_mask := msk\<rparr>) s1 = Inr s2" "resending E sock i 0 s1 s2" "g_net s2 = g_net s1"
      "g_clients s2 = g_clients s1" by (auto simp: resending_def)
  have r2: "resending E sock i d s0 s2"
    using resending_trans [OF resending_trans [OF r r1] s2(2)] by simp
  have k2: "k < length (c_outboundMsgs (g_clients s2 ! i))" "m = c_outboundMsgs (g_clients s2 ! i) ! k"
    using k m by (simp_all add: s2(4) out1)
  from touch_resent [OF rec r2 k2] obtain s' where
    s': "(case time_now E s2 of (t, s3) \<Rightarrow> Inr (True, upd_client i (\<lambda>c. c\<lparr>c_outboundMsgs :=
      (c_outboundMsgs c)[k := m\<lparr>ms_lastTouch := t\<rparr>]\<rparr>) s3)) = (Inr (True, s') :: ub + bool \<times> ('n, 'f) sys)"
      "resending E sock i d s0 s'" "sent (g_net s') = sent (g_net s2)" by blast
  have "ms_qos m \<noteq> 0" "rc \<noteq> SOCKET_ERROR" using q rc(1) by (auto simp: TCPSOCKET_COMPLETE_def SOCKET_ERROR_def)
  then have "retry_publish E i k m s = Inr (True, s')"
    by (simp add: retry_publish_with_def p(1,2) get_pub_eq [OF L(1)] s1(1) pubs1 s2(1) s'(1) del: One_nat_def)
  with s'(2,3) s2(3) rc(2) show ?thesis by simp
qed

lemma pubrel_resent:
  fixes s s0 :: "('n, 'f) sys"
  assumes L: "lists_ok (e_lists E)" "heap_total (e_heap E)" and rec: "recording (e_net E) sent"
    and r: "resending E sock i d s0 s" and k: "k < length (c_outboundMsgs (g_clients s ! i))"
    and m: "m = c_outboundMsgs (g_clients s ! i) ! k" and ph: "phase_of m = AwaitPubcomp"
  shows "\<exists>s'. retry_pubrel E i k m s = Inr (True, s') \<and> resending E sock i d s0 s' \<and>
    sent (g_net s') = sent (g_net s) @ [resend_frame (map_of (g_publications s)) m]"
proof -
  let ?out = "c_outboundMsgs (g_clients s ! i)" and ?b = "writeInt (ms_msgid m)"
  have inv: "session_inv E sock i s" "c_connected (g_clients s ! i)" "c_good (g_clients s ! i)" "sender_inv E sock i s"
    using r by (simp_all add: resending_def session_inv_def)
  have i: "i < length (g_clients s)" using inv(4) by (simp add: sender_inv_def)
  from pubrel_similar [OF L inv(4), of False "ms_MQTTVersion m" "ms_msgid m"] obtain rc s1 msk where
    s1: "answer E False (ms_MQTTVersion m) PUBREL (ms_msgid m) i s = Inr (rc, s1)" "similar s s1"
      "put_frame E i (mk_header PUBREL 0 1 0 # vbi 2) [?b] [0, 0, 0, 0] s = (rc, msk, s1)" by auto
  have "length ?b = 2" by (simp add: writeInt_def)
  then have fr: "resend_frame (map_of (g_publications s)) m = mk_header PUBREL 0 1 0 # vbi 2 @ ?b"
    using ph by (simp add: resend_frame_def frame_def)
  from put_frame_recorded [OF rec s1(3)] have rc: "rc = TCPSOCKET_COMPLETE"
    "sent (g_net s1) = sent (g_net s) @ [resend_frame (map_of (g_publications s)) m]" by (simp_all add: fr)
  have send: "MQTTPacket_send_pubrel E (ms_MQTTVersion m) (ms_msgid m) 0 i s = Inr (rc, s1)"
    using s1(1) by (simp add: answer_def msgTypes_defs)
  have out1: "c_outboundMsgs (g_clients s1 ! i) = ?out" using stripD(2) [OF similar_client(1) [OF s1(2) i]] .
  have r1: "resending E sock i d s0 s1"
    using resending_trans [OF r resending_similar [OF inv(1-3) s1(2)]] by simp
  have k1: "k < length (c_outboundMsgs (g_clients s1 ! i))" "m = c_outboundMsgs (g_clients s1 ! i) ! k"
    using k m by (simp_all add: out1)
  from touch_resent [OF rec r1 k1] obtain s' where
    s': "(case time_now E s1 of (t, s3) \<Rightarrow> Inr (True, upd_client i (\<lambda>c. c\<lparr>c_outboundMsgs :=
      (c_outboundMsgs c)[k := m\<lparr>ms_lastTouch := t\<rparr>]\<rparr>) s3)) = (Inr (True, s') :: ub + bool \<times> ('n, 'f) sys)"
      "resending E sock i d s0 s'" "sent (g_net s') = sent (g_net s1)" by blast
  have "retry_pubrel E i k m s = Inr (True, s')"
    using rc(1) by (simp add: retry_pubrel_with_def send s'(1))
  with s'(2,3) rc(2) show ?thesis by simp
qed

text \<open>One message of the list, when all are to be sent.\<close>

lemma message_resent:
  assumes L: "lists_ok (e_lists E)" "heap_total (e_heap E)" and rec: "recording (e_net E) sent"
    and inv: "session_inv E sock i s" "c_connected (g_clients s ! i)" "c_good (g_clients s ! i)"
    and k: "k < length (c_outboundMsgs (g_clients s ! i))"
  shows "\<exists>s'. retry_message E t i True k s = Inr (True, s') \<and>
    resent E sent sock i [resend_frame (map_of (g_publications s)) (c_outboundMsgs (g_clients s ! i) ! k)] s s'"
proof -
  let ?out = "c_outboundMsgs (g_clients s ! i)" and ?f = "\<lambda>c. c\<lparr>c_connect_sent := c_connect_sent c + 1\<rparr>"
  define m where "m = ?out ! k"
  define s1 where "s1 = upd_client i ?f s"
  have i: "i < length (g_clients s)" and ok: "out_ok (map_of (g_publications s)) m"
    using inv(1) k by (simp_all add: session_inv_def sender_inv_def m_def)
  have r: "resending E sock i 1 s s1" unfolding s1_def by (rule resending_upd) (use inv in simp_all)
  have s1: "c_outboundMsgs (g_clients s1 ! i) = ?out" "g_publications s1 = g_publications s" "g_net s1 = g_net s"
    using i by (simp_all add: s1_def upd_client_def)
  have k1: "k < length (c_outboundMsgs (g_clients s1 ! i))" "m = c_outboundMsgs (g_clients s1 ! i) ! k"
    using k by (simp_all add: s1 m_def)
  have "retry_message E t i True k s = (if phase_of m = AwaitPubcomp then retry_pubrel E i k m s1 else retry_publish E i k m s1)"
    using ok by (auto simp: retry_message_with_def phase_of_def out_ok_def next_type_def s1_def m_def Let_def msgTypes_defs)
  moreover have "\<exists>s'. (if phase_of m = AwaitPubcomp then retry_pubrel E i k m s1 else retry_publish E i k m s1) = Inr (True, s') \<and>
    resending E sock i 1 s s' \<and> sent (g_net s') = sent (g_net s1) @ [resend_frame (map_of (g_publications s1)) m]"
    using pubrel_resent [OF L rec r k1] publish_resent [OF L rec r k1] by auto
  ultimately show ?thesis by (auto simp: resent_def s1 m_def)
qed

subsection \<open>The whole list\<close>

lemma loop_resent:
  assumes L: "lists_ok (e_lists E)" "heap_total (e_heap E)" and rec: "recording (e_net E) sent"
    and "session_inv E sock i s" "c_connected (g_clients s ! i)" "c_good (g_clients s ! i)"
    and "\<forall>k\<in>set ks. k < length (c_outboundMsgs (g_clients s ! i))"
  shows "\<exists>s'. retry_loop E t i True ks s = Inr s' \<and> resent E sent sock i
    (map (\<lambda>k. resend_frame (map_of (g_publications s)) (c_outboundMsgs (g_clients s ! i) ! k)) ks) s s'"
  using assms(4-7)
proof (induction ks arbitrary: s)
  case Nil
  then show ?case using resending_refl by (simp add: resent_def)
next
  case (Cons k ks)
  let ?M = "map_of (g_publications s)" and ?out = "c_outboundMsgs (g_clients s ! i)"
  have np: "Socket_noPendingWrites (e_net E) (socket_of i s) (g_net s)" using rec by (simp add: recording_def)
  have "k < length ?out" using Cons.prems(4) by simp
  from message_resent [OF L rec Cons.prems(1-3) this, of t] obtain s1 where
    s1: "retry_message E t i True k s = Inr (True, s1)" "resent E sent sock i [resend_frame ?M (?out ! k)] s s1" by blast
  then have r1: "resending E sock i 1 s s1" by (simp add: resent_def)
  have now1: "j < length (c_outboundMsgs (g_clients s1 ! i)) \<and>
      resend_frame (map_of (g_publications s1)) (c_outboundMsgs (g_clients s1 ! i) ! j) = resend_frame ?M (?out ! j)"
    if "j \<in> set ks" for j
    using out_now [OF r1, of j "map_of (g_publications s1)"] Cons.prems(4) that r1
    by (auto simp: resending_def resend_frame_same)
  have "session_inv E sock i s1" "c_connected (g_clients s1 ! i)" "c_good (g_clients s1 ! i)"
    using r1 by (simp_all add: resending_def)
  from Cons.IH [OF this] now1 obtain s' where
    s': "retry_loop E t i True ks s1 = Inr s'"
      "resent E sent sock i (map (\<lambda>k. resend_frame (map_of (g_publications s1)) (c_outboundMsgs (g_clients s1 ! i) ! k)) ks) s1 s'"
    by blast
  have frames: "map (\<lambda>k. resend_frame (map_of (g_publications s1)) (c_outboundMsgs (g_clients s1 ! i) ! k)) ks =
      map (\<lambda>k. resend_frame ?M (?out ! k)) ks" using now1 by simp
  have "retry_loop E t i True (k # ks) s = Inr s'"
    using Cons.prems(2,3) np by (simp add: s1(1) s'(1) Let_def)
  moreover have "resending E sock i (1 + int (length ks)) s s'"
    using resending_trans [OF r1, of "int (length ks)" s'] s'(2) by (simp add: resent_def)
  moreover have "sent (g_net s') = sent (g_net s) @ map (\<lambda>k. resend_frame ?M (?out ! k)) (k # ks)"
    using s'(2) s1(2) unfolding frames by (simp add: resent_def)
  ultimately show ?case by (simp add: resent_def)
qed

text \<open>The phases and ids of the list do not depend on the times.\<close>

lemma resending_out_view: "resending E sock i d s s' \<Longrightarrow> out_view i s' = out_view i s"
proof -
  assume "resending E sock i d s s'"
  then have "map (out_item \<circ> ms_lastTouch_update (\<lambda>_. START_TIME_ZERO)) (c_outboundMsgs (g_clients s' ! i)) =
      map (out_item \<circ> ms_lastTouch_update (\<lambda>_. START_TIME_ZERO)) (c_outboundMsgs (g_clients s ! i))"
    by (simp add: resending_def flip: map_map)
  moreover have "out_item \<circ> ms_lastTouch_update (\<lambda>_. START_TIME_ZERO) = out_item"
    by (rule ext) (simp add: out_item_def phase_of_def)
  ultimately show ?thesis by (simp add: out_view_def)
qed

lemma retries_resent:
  assumes "lists_ok (e_lists E)" "heap_total (e_heap E)" "recording (e_net E) sent"
    and "session_inv E sock i s" "c_connected (g_clients s ! i)" "c_good (g_clients s ! i)"
  shows "\<exists>s'. MQTTProtocol_retries E t i True s = Inr s' \<and>
    sent (g_net s') = sent (g_net s) @ map (resend_frame (map_of (g_publications s))) (c_outboundMsgs (g_clients s ! i)) \<and>
    session_inv E sock i s' \<and> c_connected (g_clients s' ! i) \<and> c_good (g_clients s' ! i) \<and> session_view i s' = session_view i s \<and>
    retry_counts i s' = (c_connect_sent (g_clients s ! i) + int (length (c_outboundMsgs (g_clients s ! i))),
      int (length (c_outboundMsgs (g_clients s ! i))), c_retryInterval (g_clients s ! i))"
proof -
  let ?out = "c_outboundMsgs (g_clients s ! i)" and ?f = "\<lambda>c. c\<lparr>c_connect_count := int (length (c_outboundMsgs c))\<rparr>"
  define s1 where "s1 = upd_client i ?f s"
  have i: "i < length (g_clients s)" using assms(4) by (simp add: session_inv_def sender_inv_def)
  have c1: "g_clients s1 ! i = ?f (g_clients s ! i)" "g_publications s1 = g_publications s" "g_net s1 = g_net s"
    using i by (simp_all add: s1_def upd_client_def)
  have inv1: "session_inv E sock i s1 \<and> view i s1 = view i s" unfolding s1_def by (rule session_upd [OF assms(4)]) simp_all
  from loop_resent [OF assms(1-3) conjunct1 [OF inv1], of "[0..<length ?out]" t] assms(5,6) c1 obtain s' where
    s': "retry_loop E t i True [0..<length ?out] s1 = Inr s'"
      "resent E sent sock i (map (\<lambda>k. resend_frame (map_of (g_publications s)) (?out ! k)) [0..<length ?out]) s1 s'"
    by auto
  have frames: "map (\<lambda>k. resend_frame M (?out ! k)) [0..<length ?out] = map (resend_frame M) ?out" for M
    by (simp add: map_nth flip: map_map [of "resend_frame M" "(!) ?out", unfolded comp_def])
  have r: "resending E sock i (int (length ?out)) s1 s'" using s'(2) by (simp add: resent_def)
  have "MQTTProtocol_retries E t i True s = Inr s'"
    using s'(1) by (simp add: MQTTProtocol_retries_with_def Let_def s1_def)
  moreover have "out_view i s1 = out_view i s" by (simp add: out_view_def c1)
  moreover have "retry_counts i s' = (c_connect_sent (g_clients s ! i) + int (length ?out), int (length ?out), c_retryInterval (g_clients s ! i))"
    using r by (simp add: resending_def retry_counts_def c1)
  ultimately show ?thesis
    using r s'(2) inv1 resending_out_view [OF r] unfolding resent_def frames
    by (simp add: resending_def session_view_def c1)
qed

subsection \<open>Claims\<close>

text \<open>
  C15: When a connection is made again, nothing that is outstanding is forgotten, sent twice or
  reordered. Before version 5, over a network that accepts what is written, \<^verbatim>\<open>MQTTProtocol_retries\<close>
  with \<open>regardless\<close> set writes one frame for every message of the outbound list, in the order of the
  list: for a message that waits for its PUBACK or PUBREC the PUBLISH with the DUP flag, its own id,
  QoS and retain flag, its topic and its payload, and for one that waits for its PUBCOMP the PUBREL
  with its id. No other byte is written, the session invariant holds afterwards, and the messages
  waiting, held and delivered are the same as before.
\<close>

theorem messages_resent:
  assumes "lists_ok (e_lists E)" "heap_total (e_heap E)" "recording (e_net E) sent"
    and "session_inv E sock i s" "c_connected (g_clients s ! i)" "c_good (g_clients s ! i)"
  shows "\<exists>s'. MQTTProtocol_retries E t i True s = Inr s' \<and>
    sent (g_net s') = sent (g_net s) @ map (resend_frame (map_of (g_publications s))) (c_outboundMsgs (g_clients s ! i)) \<and>
    session_inv E sock i s' \<and> c_connected (g_clients s' ! i) \<and> session_view i s' = session_view i s"
  using retries_resent [OF assms, of t] by blast

text \<open>A network that keeps the frames it is given, and a client with a QoS 1 message and a PUBREL to send.\<close>

definition tape_net :: "bytes list net_lib" where
  "tape_net = \<lparr>WebSocket_getch = \<lambda>_ n. (SOCKET_ERROR, 0, n), WebSocket_getdata = \<lambda>_ _ n. (None, 0, n),
     WebSocket_framePos = \<lambda>_. 0, WebSocket_framePosSeekTo = \<lambda>_ n. n,
     WebSocket_putdatas = \<lambda>_ f bs m n. (TCPSOCKET_COMPLETE, m, n @ [f @ concat bs]), Socket_noPendingWrites = \<lambda>_ _. True,
     WebSocket_close = \<lambda>_ n. n, Socket_close = \<lambda>_ n. n, SocketBuffer_updateWrite = \<lambda>_ _ _ n. n,
     clock_gettime = \<lambda>n. (\<lparr>ts_sec = 0, ts_nsec = 0\<rparr>, n)\<rparr>"

definition tape_env :: "(bytes list, unit) env" where
  "tape_env = \<lparr>e_heap = \<lambda>_. True, e_lists = all_std_lists, e_net = tape_net\<rparr>"

lemma tape_ok: "lists_ok (e_lists tape_env)" "heap_total (e_heap tape_env)" "recording (e_net tape_env) id"
  by (simp_all add: tape_env_def all_std_lists_ok heap_total_def recording_def tape_net_def)

definition resend_message :: "int \<Rightarrow> int \<Rightarrow> nat \<Rightarrow> nat option \<Rightarrow> Messages" where
  "resend_message qos msgid a next = \<lparr>ms_qos = qos, ms_retain = 0, ms_msgid = msgid, ms_MQTTVersion = 4,
     ms_properties = None, ms_publish = Some a, ms_lastTouch = START_TIME_ZERO, ms_nextMessageType = next\<rparr>"

definition resend_pub :: Publications where
  "resend_pub = \<lparr>pu_topic = Some [116], pu_topiclen = 1, pu_payload = Some [104, 105], pu_payloadlen = 2,
     pu_refcount = 1, pu_mask = [0, 0, 0, 0]\<rparr>"

definition tape_sys :: "Messages list \<Rightarrow> (bytes list, unit) sys" where
  "tape_sys out = \<lparr>g_net = [], g_fs = (), g_clients = [blank_client\<lparr>c_outboundMsgs := out, c_cleansession := 0, c_cleanstart := 0\<rparr>],
     g_publications = [(0, resend_pub), (1, resend_pub)], g_fresh = 2,
     g_pending_writes = [], g_msgs_received = 0, g_msgs_sent = 0\<rparr>"

abbreviation two_outstanding :: "Messages list" where
  "two_outstanding \<equiv> [resend_message 2 9 0 (Some PUBCOMP), resend_message 1 7 1 None]"

lemma tape_session: "session_inv tape_env 5 0 (tape_sys two_outstanding)"
  by (simp add: session_inv_def sender_inv_def receiver_inv_def tape_sys_def tape_env_def blank_client_def pubs_ok_def
      resend_message_def out_ok_def sendable_def resend_pub_def null_bytes_def)

lemma vbi_small: "n < 128 \<Longrightarrow> vbi n = [word_of_nat n]"
  by (subst vbi_unfold) simp

lemma tape_frames:
  "resend_frame (map_of (g_publications (tape_sys out))) (resend_message 2 9 0 (Some PUBCOMP)) = [98, 2, 0, 9]"
  "resend_frame (map_of (g_publications (tape_sys out))) (resend_message 1 7 1 None) = [58, 7, 0, 1, 116, 0, 7, 104, 105]"
proof -
  have w: "writeInt 7 = [0, 7]" "writeInt 9 = [0, 9]" "writeInt 1 = [0, 1]"
    by (simp_all add: writeInt_def signed_divide_int_def signed_modulo_int_def)
  show "resend_frame (map_of (g_publications (tape_sys out))) (resend_message 2 9 0 (Some PUBCOMP)) = [98, 2, 0, 9]"
    by (simp add: resend_frame_def resend_message_def phase_of_def frame_def mk_header_def msgTypes_defs w vbi_small)
  show "resend_frame (map_of (g_publications (tape_sys out))) (resend_message 1 7 1 None) = [58, 7, 0, 1, 116, 0, 7, 104, 105]"
    by (simp add: resend_frame_def resend_message_def tape_sys_def resend_pub_def phase_of_def frame_def publish_of_def
        mk_header_def msgTypes_defs publish_body_def publish_props_def publish_payload_def null_bytes_def writeUTF_def
        strlen_def w vbi_small Let_def)
qed

theorem messages_resent_witness:
  "\<exists>s'. MQTTProtocol_retries tape_env START_TIME_ZERO 0 True (tape_sys two_outstanding) = Inr s' \<and>
     g_net s' = [[98, 2, 0, 9], [58, 7, 0, 1, 116, 0, 7, 104, 105]]"
proof -
  have c: "c_connected (g_clients (tape_sys two_outstanding) ! 0)" "c_good (g_clients (tape_sys two_outstanding) ! 0)"
    by (simp_all add: tape_sys_def blank_client_def)
  from messages_resent [OF tape_ok tape_session c, of START_TIME_ZERO] show ?thesis
    using tape_frames [of two_outstanding] by (auto simp: tape_sys_def)
qed

text \<open>
  C14: Resuming a session. When the CONNACK of a client without clean session and clean start has
  come, the last phase of \<^verbatim>\<open>MQTTClient_connectURIVersion\<close> forgets the times of all outbound messages
  and starts a retry of all clients. For a library with this one client and a network that accepts
  what is written, it returns success, no callback is called, the client stays connected, exactly
  the frames of the outbound messages are written, in their order, and what waits, is held and is
  delivered stays the same.
\<close>

theorem session_resumed:
  assumes "lists_ok (e_lists (a_env A))" "heap_total (e_heap (a_env A))" "recording (e_net (a_env A)) sent"
    and "session_inv (a_env A) sock 0 (b_sys l)" "length (clients l) = 1"
    and "c_connected (clients l ! 0)" "c_good (clients l ! 0)" "c_cleansession (clients l ! 0) = 0" "c_cleanstart (clients l ! 0) = 0"
  shows "\<exists>s'. resume_session A 0 l = ret (MQTTCLIENT_SUCCESS, l\<lparr>b_sys := s'\<rparr>) \<and>
    sent (g_net s') = sent (g_net (b_sys l)) @
      map (resend_frame (map_of (g_publications (b_sys l)))) (c_outboundMsgs (clients l ! 0)) \<and>
    session_inv (a_env A) sock 0 s' \<and> c_connected (g_clients s' ! 0) \<and> session_view 0 s' = session_view 0 (b_sys l)"
proof (cases "c_outboundMsgs (clients l ! 0) = []")
  case True
  then show ?thesis using assms(4,6,8,9)
    by (intro exI [of _ "b_sys l"]) (simp add: resume_session_def MQTTCLIENT_SUCCESS_def)
next
  case False
  let ?E = "a_env A" and ?z = "ms_lastTouch_update (\<lambda>_. START_TIME_ZERO)"
  let ?f = "\<lambda>c. c\<lparr>c_outboundMsgs := map (\<lambda>m. m\<lparr>ms_lastTouch := START_TIME_ZERO\<rparr>) (c_outboundMsgs c)\<rparr>"
  define s1 where "s1 = upd_client 0 ?f (b_sys l)"
  have i: "0 < length (clients l)" using assms(5) by simp
  have r: "resending ?E sock 0 0 (b_sys l) s1"
    by (rule resending_times [OF assms(4,6,7), where f = "map ?z" and n = "g_net (b_sys l)"]) (simp_all add: s1_def comp_def)
  then have inv1: "session_inv ?E sock 0 s1" "c_connected (g_clients s1 ! 0)" "c_good (g_clients s1 ! 0)"
    by (simp_all add: resending_def)
  have c1: "g_publications s1 = g_publications (b_sys l)" "g_net s1 = g_net (b_sys l)" "length (g_clients s1) = 1"
    "c_outboundMsgs (g_clients s1 ! 0) = map ?z (c_outboundMsgs (clients l ! 0))"
    using i assms(5) by (simp_all add: s1_def upd_client_def)
  from retries_resent [OF assms(1-3) inv1, of START_TIME_ZERO] obtain s' where
    s': "MQTTProtocol_retries ?E START_TIME_ZERO 0 True s1 = Inr s'"
      "sent (g_net s') = sent (g_net s1) @ map (resend_frame (map_of (g_publications s1))) (c_outboundMsgs (g_clients s1 ! 0))"
      "session_inv ?E sock 0 s'" "c_connected (g_clients s' ! 0)" "session_view 0 s' = session_view 0 s1" by blast
  have np: "Socket_noPendingWrites (e_net ?E) (socket_of 0 s1) (g_net s1)" using assms(3) by (simp add: recording_def)
  have "MQTTProtocol_retry ?E START_TIME_ZERO True True s1 = Inr s'"
    using inv1 np s'(1) by (simp add: MQTTProtocol_retry_with_def c1 retry_client_with_def Let_def)
  then have "resume_session A 0 l = ret (0, l\<lparr>b_sys := s'\<rparr>)"
    using False assms(5,8,9) s'(4)
    by (simp add: resume_session_def closing_api_def on_sys_def upd_sys_def Let_def c1(3) flip: s1_def)
  moreover have "session_view 0 s1 = session_view 0 (b_sys l)"
    using r resending_out_view [OF r] by (simp add: session_view_def resending_def)
  ultimately show ?thesis using s' by (intro exI [of _ s']) (simp add: c1 MQTTCLIENT_SUCCESS_def comp_def)
qed

definition tape_api :: "(bytes list, unit) api" where
  "tape_api = \<lparr>a_env = tape_env, a_connect = \<lparr>Base64_encodeLength = length, Base64_encode = \<lambda>_ b. b,
       Socket_new = \<lambda>_ _ _ _ n. (0, 5, n), Proxy_connect = \<lambda>_ _ n. (0, n), WebSocket_connect = \<lambda>_ _ n. (0, n)\<rparr>,
     a_getenv_http_proxy = None, Socket_getReadySocket = \<lambda>_ n. (0, n), WebSocket_upgrade = \<lambda>_ n. (1, n),
     getsockopt_error = \<lambda>_ n. (0, 0, n), SocketBuffer_getWrite = \<lambda>_ _. False, sleep = \<lambda>_ n. n,
     UTF8_validateString = \<lambda>_. True, sem_timeout = 110, message_arrived = \<lambda>_. 1,
     new_publish = \<lparr>pb_header = 0, pb_topic = None, pb_topiclen = 0, pb_msgId = 0, pb_payload = [], pb_payloadlen = 0,
       pb_MQTTVersion = 0, pb_properties = MQTTProperties_initializer, pb_mask = []\<rparr>\<rparr>"

definition tape_lib :: "(bytes list, unit) lib" where
  "tape_lib = \<lparr>b_sys = tape_sys two_outstanding, b_handles = [zero_handle], b_initialized = True, b_thread = NoThread,
     b_tostop = False, b_run_read = None, b_run_timeout = 10, b_last = START_TIME_ZERO, b_retryLoopIntervalms = 5000,
     b_calls = [], b_sched = []\<rparr>"

theorem session_resumed_witness:
  "\<exists>s'. resume_session tape_api 0 tape_lib = ret (MQTTCLIENT_SUCCESS, tape_lib\<lparr>b_sys := s'\<rparr>) \<and>
     g_net s' = [[98, 2, 0, 9], [58, 7, 0, 1, 116, 0, 7, 104, 105]]"
proof -
  have e: "a_env tape_api = tape_env" "b_sys tape_lib = tape_sys two_outstanding" by (simp_all add: tape_api_def tape_lib_def)
  have c: "length (clients tape_lib) = 1" "c_connected (clients tape_lib ! 0)" "c_good (clients tape_lib ! 0)"
    "c_cleansession (clients tape_lib ! 0) = 0" "c_cleanstart (clients tape_lib ! 0) = 0"
    by (simp_all add: e tape_sys_def blank_client_def)
  have h: "lists_ok (e_lists (a_env tape_api))" "heap_total (e_heap (a_env tape_api))" "recording (e_net (a_env tape_api)) id"
    "session_inv (a_env tape_api) 5 0 (b_sys tape_lib)" using tape_ok tape_session by (simp_all add: e)
  from session_resumed [OF h c] show ?thesis
    using tape_frames [of two_outstanding] by (auto simp: e tape_sys_def)
qed

text \<open>
  The retry interval 0 does not turn retries off for good. The interval turns off the retries of
  the background loop only while the number of messages sent again equals the number there was to
  send at the last reconnect; the first is never reset. So when a client with interval 0, all of
  whose messages of an earlier reconnect were sent again, reconnects a second time with an outbound
  message, the loop sends that message again, more than ten seconds after it was last sent, although
  the connection was not lost in between.
\<close>

theorem retries_not_off:
  assumes "lists_ok (e_lists E)" "heap_total (e_heap E)" "recording (e_net E) sent"
    and "session_inv E sock i s" "c_connected (g_clients s ! i)" "c_good (g_clients s ! i)"
    and "c_retryInterval (g_clients s ! i) \<le> 0" "0 < c_connect_count (g_clients s ! i)"
    and "c_connect_sent (g_clients s ! i) = c_connect_count (g_clients s ! i)" "c_outboundMsgs (g_clients s ! i) = [m]"
  shows "\<exists>s1 m1. MQTTProtocol_retries E t i True s = Inr s1 \<and> c_outboundMsgs (g_clients s1 ! i) = [m1] \<and>
    (\<forall>t'. 10000 < MQTTTime_difftime t' (ms_lastTouch m1) \<longrightarrow>
      (\<exists>s2. MQTTProtocol_retries E t' i False s1 = Inr s2 \<and>
        sent (g_net s2) = sent (g_net s1) @ [resend_frame (map_of (g_publications s1)) m1]))"
proof -
  from retries_resent [OF assms(1-6), of t] obtain s1 where
    s1: "MQTTProtocol_retries E t i True s = Inr s1" "session_inv E sock i s1" "c_connected (g_clients s1 ! i)"
      "c_good (g_clients s1 ! i)" "session_view i s1 = session_view i s"
      "retry_counts i s1 = (c_connect_sent (g_clients s ! i) + 1, 1, c_retryInterval (g_clients s ! i))"
    unfolding assms(10) by auto
  have "out_view i s1 = out_view i s" using s1(5) by (simp add: session_view_def)
  then obtain m1 where m1: "c_outboundMsgs (g_clients s1 ! i) = [m1]" by (auto simp: out_view_def assms(10))
  have ok: "out_ok (map_of (g_publications s1)) m1" using s1(2) m1 by (simp add: session_inv_def sender_inv_def)
  have np: "Socket_noPendingWrites (e_net E) (socket_of i s1) (g_net s1)" using assms(3) by (simp add: recording_def)
  have "\<exists>s2. MQTTProtocol_retries E t' i False s1 = Inr s2 \<and>
      sent (g_net s2) = sent (g_net s1) @ [resend_frame (map_of (g_publications s1)) m1]"
    if t': "10000 < MQTTTime_difftime t' (ms_lastTouch m1)" for t'
  proof -
    have k: "0 < length (c_outboundMsgs (g_clients s1 ! i))" "m1 = c_outboundMsgs (g_clients s1 ! i) ! 0" by (simp_all add: m1)
    note r = resending_refl [OF s1(2-4)]
    have "retry_message E t' i False 0 s1 = (if phase_of m1 = AwaitPubcomp then retry_pubrel E i 0 m1 s1 else retry_publish E i 0 m1 s1)"
      using ok t' s1(6) assms(7)
      by (auto simp: retry_message_with_def phase_of_def out_ok_def next_type_def m1 retry_counts_def Let_def msgTypes_defs max_def)
    moreover have "\<exists>s2. (if phase_of m1 = AwaitPubcomp then retry_pubrel E i 0 m1 s1 else retry_publish E i 0 m1 s1) = Inr (True, s2) \<and>
        sent (g_net s2) = sent (g_net s1) @ [resend_frame (map_of (g_publications s1)) m1]"
      using pubrel_resent [OF assms(1-3) r k] publish_resent [OF assms(1-3) r k]
      by (cases "phase_of m1 = AwaitPubcomp") auto
    ultimately obtain s2 where s2: "retry_message E t' i False 0 s1 = Inr (True, s2)"
      "sent (g_net s2) = sent (g_net s1) @ [resend_frame (map_of (g_publications s1)) m1]" by metis
    then have "MQTTProtocol_retries E t' i False s1 = Inr s2"
      using s1(3,4,6) np m1 assms(8,9) by (simp add: MQTTProtocol_retries_with_def retry_counts_def Let_def)
    with s2(2) show ?thesis by blast
  qed
  with s1(1) m1 show ?thesis by blast
qed

theorem retries_not_off_witness:
  "\<exists>s1 m1. MQTTProtocol_retries tape_env START_TIME_ZERO 0 True (upd_client 0 (\<lambda>c. c\<lparr>c_connect_sent := 1, c_connect_count := 1\<rparr>)
     (tape_sys [resend_message 1 7 1 None])) = Inr s1 \<and> c_outboundMsgs (g_clients s1 ! 0) = [m1] \<and>
     (\<exists>t' s2. MQTTProtocol_retries tape_env t' 0 False s1 = Inr s2 \<and> length (g_net s2) = Suc (length (g_net s1)))"
proof -
  let ?f = "\<lambda>c. c\<lparr>c_connect_sent := 1, c_connect_count := 1\<rparr>"
  define s where "s = upd_client 0 ?f (tape_sys [resend_message 1 7 1 None])"
  have "session_inv tape_env 5 0 (tape_sys [resend_message 1 7 1 None])"
    by (simp add: session_inv_def sender_inv_def receiver_inv_def tape_sys_def tape_env_def blank_client_def pubs_ok_def
        resend_message_def out_ok_def sendable_def resend_pub_def null_bytes_def)
  then have inv: "session_inv tape_env 5 0 s" using session_upd [of tape_env 5 0 _ ?f] by (simp add: s_def)
  have c: "c_connected (g_clients s ! 0)" "c_good (g_clients s ! 0)" "c_retryInterval (g_clients s ! 0) \<le> 0"
    "0 < c_connect_count (g_clients s ! 0)" "c_connect_sent (g_clients s ! 0) = c_connect_count (g_clients s ! 0)"
    "c_outboundMsgs (g_clients s ! 0) = [resend_message 1 7 1 None]"
    by (simp_all add: s_def tape_sys_def upd_client_def blank_client_def)
  from retries_not_off [OF tape_ok inv c, of START_TIME_ZERO] obtain s1 m1 where
    s1: "MQTTProtocol_retries tape_env START_TIME_ZERO 0 True s = Inr s1" "c_outboundMsgs (g_clients s1 ! 0) = [m1]"
      "\<And>t'. 10000 < MQTTTime_difftime t' (ms_lastTouch m1) \<Longrightarrow> \<exists>s2. MQTTProtocol_retries tape_env t' 0 False s1 = Inr s2 \<and>
        id (g_net s2) = id (g_net s1) @ [resend_frame (map_of (g_publications s1)) m1]" by blast
  have "\<exists>t'. 10000 < MQTTTime_difftime t' (ms_lastTouch m1)"
    by (rule exI [of _ "\<lparr>tv_sec = tv_sec (ms_lastTouch m1) + 20, tv_usec = tv_usec (ms_lastTouch m1)\<rparr>"])
      (simp add: MQTTTime_difftime_def timersub_def Let_def)
  with s1 show ?thesis unfolding s_def by (metis append.assoc length_append_singleton id_apply)
qed

end
