(* ===== verification/Delivery.thy ===== *)
theory Delivery
  imports Session
begin

section \<open>What the application is told\<close>

text \<open>
  Two promises of the API of \<^verbatim>\<open>src/include/MQTTClient.c\<close>: what the result of
  \<^verbatim>\<open>MQTTClient_waitForCompletion\<close> means, and in which order and how often the callback
  \<^verbatim>\<open>messageArrived\<close> is given the messages of the queue.
\<close>

subsection \<open>Waiting for a token\<close>


















subsection \<open>Messages for the application\<close>

text \<open>
  The background thread calls \<open>messageArrived\<close> between the packets. A run has events of the session
  and turns of the callback.
\<close>

datatype app_event = Handled session_event | Turn

fun app_step :: "('n, 'f) api \<Rightarrow> int \<Rightarrow> nat \<Rightarrow> app_event \<Rightarrow> ('n, 'f) lib \<Rightarrow> ub + ('n, 'f) lib" where
  "app_step A sock h (Handled e) l = session_step A sock h e l"
| "app_step A sock h Turn l = ub_bind (message_callback A h 0 l) (\<lambda>(_, l). Inr l)"

fun run_app :: "('n, 'f) api \<Rightarrow> int \<Rightarrow> nat \<Rightarrow> app_event list \<Rightarrow> ('n, 'f) lib \<Rightarrow> ub + ('n, 'f) lib" where
  "run_app A sock h [] l = Inr l"
| "run_app A sock h (e # es) l = ub_bind (app_step A sock h e l) (run_app A sock h es)"

fun handled :: "app_event list \<Rightarrow> session_event list" where
  "handled [] = []"
| "handled (Handled e # es) = e # handled es"
| "handled (Turn # es) = handled es"

text \<open>
  The messages the application has accepted, in the order of the calls: those for which the callback
  returned true. Its result depends on the calls made \<open>before\<close>.
\<close>

fun accepted :: "(call list \<Rightarrow> int) \<Rightarrow> nat \<Rightarrow> call list \<Rightarrow> call list \<Rightarrow> item list" where
  "accepted f h before [] = []"
| "accepted f h before (c # cs) =
     (case c of MessageArrived h' topic len m \<Rightarrow>
        if h' = h \<and> f before \<noteq> 0 then [(pm_msgid m, topic, pm_payload m)] else [] | _ \<Rightarrow> [])
     @ accepted f h (before @ [c]) cs"

lemma accepted_append: "accepted f h before (cs @ ds) = accepted f h before cs @ accepted f h (before @ cs) ds"
  by (induction cs arbitrary: before) simp_all

lemma accepted_completions [simp]: "accepted f h before (event_calls dc h e) = []"
  by (cases e) (auto simp: completions_def split: packet.split)

text \<open>The machine of the session only adds to what is delivered, and does not look at it.\<close>

lemma a_session_delivered:
  "a_session e (out, held, acc @ del) = map_prod id (map_prod id ((@) acc)) (a_session e (out, held, del))"
  by (cases e) (auto simp: a_packet_def a_ack_def a_received_def a_publish_def a_pubrel_def Let_def split: packet.split)

lemma session_ok_delivered: "session_ok e (out, held, del) = session_ok e (out, held, del')"
  by (cases e) simp_all

lemma session_events_ok_delivered:
  "session_events_ok es (out, held, acc @ del) = session_events_ok es (out, held, del)"
proof (induction es arbitrary: out held del)
  case (Cons e es)
  obtain out' held' del' where st: "a_session e (out, held, del) = (out', held', del')" by (cases "a_session e (out, held, del)") auto
  then show ?case
    using Cons.IH [of out' held' del'] session_ok_delivered [of e out held "acc @ del" del]
    by (simp add: a_session_delivered)
qed simp

lemma callback_turn:
  assumes "lists_ok (e_lists (a_env A))" "session_inv (a_env A) sock h (b_sys l)" "m_ma (b_handles l ! h)"
  shows "\<exists>s' cs. app_step A sock h Turn l = Inr (l\<lparr>b_sys := s', b_calls := b_calls l @ cs\<rparr>) \<and>
    session_inv (a_env A) sock h s' \<and> out_view h s' = out_view h (b_sys l) \<and> fst (view h s') = fst (view h (b_sys l)) \<and>
    accepted (message_arrived A) h (b_calls l) cs @ snd (view h s') = snd (view h (b_sys l))"
proof (cases "c_messageQueue (clients l ! h)")
  case Nil
  then show ?thesis using assms(2) by (intro exI [of _ "b_sys l"] exI [of _ "[]"]) (simp add: message_callback_def)
next
  case (Cons qe q)
  let ?len = "if int (strlen (qe_topicName qe)) = qe_topicLen qe then 0 else qe_topicLen qe"
  let ?c = "MessageArrived h (qe_topicName qe) ?len (qe_msg qe)"
  have p: "c_persistence (clients l ! h) = None" "h < length (clients l)"
    using assms(2) by (simp_all add: session_inv_def sender_inv_def)
  show ?thesis
  proof (cases "message_arrived A (b_calls l) = 0")
    case True
    then show ?thesis using Cons assms(2,3)
      by (intro exI [of _ "b_sys l"] exI [of _ "[?c]"]) (simp add: message_callback_def log_call_def Let_def)
  next
    case False
    let ?f = "\<lambda>c. c\<lparr>c_messageQueue := ListRemove (l_queue (e_lists (a_env A))) (c_messageQueue c) 0\<rparr>"
    let ?s = "upd_client h ?f (b_sys l)"
    have rm: "ListRemove (l_queue (e_lists (a_env A))) (qe # q) 0 = q"
      using assms(1) list_libD [of "l_queue (e_lists (a_env A))"] by (simp add: lists_ok_def)
    have cl: "g_clients ?s ! h = (clients l ! h)\<lparr>c_messageQueue := q\<rparr>" using p(2) by (simp add: upd_client_def Cons rm)
    have so: "map (\<lambda>c. nh_socket (c_net c)) (g_clients ?s) = map (\<lambda>c. nh_socket (c_net c)) (clients l)"
      by (simp add: upd_client_def)
    have g: "g_publications ?s = g_publications (b_sys l)" "g_fresh ?s = g_fresh (b_sys l)" "length (g_clients ?s) = length (clients l)"
      by (simp_all add: upd_client_def)
    have "session_inv (a_env A) sock h ?s"
      using assms(2) unfolding session_inv_def sender_inv_def receiver_inv_def so cl g pubs_ok_def by simp
    moreover have "out_view h ?s = out_view h (b_sys l)" "fst (view h ?s) = fst (view h (b_sys l))"
      "snd (view h (b_sys l)) = entry_item qe # snd (view h ?s)"
      by (simp_all add: out_view_def view_def cl g Cons)
    moreover have "app_step A sock h Turn l = Inr (l\<lparr>b_sys := ?s, b_calls := b_calls l @ [?c]\<rparr>)"
      using Cons False p(1) assms(3) by (simp add: message_callback_def log_call_def upd_sys_def Let_def)
    ultimately show ?thesis using False
      by (intro exI [of _ ?s] exI [of _ "[?c]"]) (simp add: entry_item_def)
  qed
qed

lemma fold_session_delivered:
  "fold a_session es (out, held, acc @ del) = map_prod id (map_prod id ((@) acc)) (fold a_session es (out, held, del))"
proof (induction es arbitrary: out held del)
  case (Cons e es)
  then show ?case by (cases "a_session e (out, held, del)") (simp add: a_session_delivered)
qed simp

lemma app_step_delivers:
  assumes "lists_ok (e_lists (a_env A))" "heap_total (e_heap (a_env A))" "session_inv (a_env A) sock h (b_sys l)"
    and "m_ma (b_handles l ! h)" and v: "session_view h (b_sys l) = (out, held, q)"
    and "\<And>x. e = Handled x \<Longrightarrow> session_ok x (session_view h (b_sys l))"
  shows "\<exists>s1 cs1 out1 held1 q1. app_step A sock h e l = Inr (l\<lparr>b_sys := s1, b_calls := b_calls l @ cs1\<rparr>) \<and>
      session_inv (a_env A) sock h s1 \<and> session_view h s1 = (out1, held1, q1) \<and>
      fold a_session (handled [e]) (out, held, q) = (out1, held1, accepted (message_arrived A) h (b_calls l) cs1 @ q1)"
proof (cases e)
  case (Handled x)
  from session_step_refines [OF assms(1-3) assms(6) [OF this]] obtain s1 where
    "session_step A sock h x l = Inr (l\<lparr>b_sys := s1, b_calls := b_calls l @ event_calls (m_dc (b_handles l ! h)) h x\<rparr>)"
    "session_inv (a_env A) sock h s1" "session_view h s1 = a_session x (out, held, q)" unfolding v by blast
  with Handled show ?thesis
    by (cases "a_session x (out, held, q)") (rule exI [of _ s1], rule exI [of _ "event_calls (m_dc (b_handles l ! h)) h x"], simp)
next
  case Turn
  from callback_turn [OF assms(1,3,4)] Turn v show ?thesis by (fastforce simp: session_view_def)
qed

lemma run_app_delivers:
  assumes "lists_ok (e_lists (a_env A))" "heap_total (e_heap (a_env A))" "session_inv (a_env A) sock h (b_sys l)"
    and "m_ma (b_handles l ! h)" "session_events_ok (handled es) (session_view h (b_sys l))"
  shows "\<exists>s' cs out held del. run_app A sock h es l = Inr (l\<lparr>b_sys := s', b_calls := b_calls l @ cs\<rparr>) \<and>
    session_inv (a_env A) sock h s' \<and> fold a_session (handled es) (session_view h (b_sys l)) = (out, held, del) \<and>
    out_view h s' = out \<and> fst (view h s') = held \<and>
    accepted (message_arrived A) h (b_calls l) cs @ snd (view h s') = del"
  using assms(3-5)
proof (induction es arbitrary: l)
  case Nil
  then show ?case
    by (cases "view h (b_sys l)") (rule exI [of _ "b_sys l"], rule exI [of _ "[]"], simp add: session_view_def)
next
  case (Cons e es)
  obtain out held q where v: "session_view h (b_sys l) = (out, held, q)" by (cases "session_view h (b_sys l)") auto
  have ok1: "\<And>x. e = Handled x \<Longrightarrow> session_ok x (session_view h (b_sys l))" using Cons.prems(3) by simp
  from app_step_delivers [OF assms(1,2) Cons.prems(1,2) v ok1]
  obtain s1 cs1 out1 held1 q1 where s1: "app_step A sock h e l = Inr (l\<lparr>b_sys := s1, b_calls := b_calls l @ cs1\<rparr>)" (is "_ = Inr ?l1")
    "session_inv (a_env A) sock h s1" "session_view h s1 = (out1, held1, q1)"
    "fold a_session (handled [e]) (out, held, q) = (out1, held1, accepted (message_arrived A) h (b_calls l) cs1 @ q1)" by blast
  have "handled (e # es) = handled [e] @ handled es" by (cases e) simp_all
  then have fold: "fold a_session (handled (e # es)) (out, held, q) =
      fold a_session (handled es) (out1, held1, accepted (message_arrived A) h (b_calls l) cs1 @ q1)" using s1(4) by simp
  have "session_events_ok (handled es) (out1, held1, accepted (message_arrived A) h (b_calls l) cs1 @ q1)"
    using Cons.prems(3) s1(4) v by (cases e) auto
  then have ok: "session_events_ok (handled es) (session_view h (b_sys ?l1))"
    using s1(3) by (simp add: session_events_ok_delivered)
  from Cons.IH [of ?l1] s1(2) Cons.prems(2) ok obtain s' cs out' held' del where
    s': "run_app A sock h es ?l1 = Inr (?l1\<lparr>b_sys := s', b_calls := b_calls ?l1 @ cs\<rparr>)" "session_inv (a_env A) sock h s'"
    "fold a_session (handled es) (out1, held1, q1) = (out', held', del)" "out_view h s' = out'" "fst (view h s') = held'"
    "accepted (message_arrived A) h (b_calls ?l1) cs @ snd (view h s') = del" using s1(3) by auto
  with s'(3) fold have "fold a_session (handled (e # es)) (out, held, q) =
      (out', held', accepted (message_arrived A) h (b_calls l) cs1 @ del)" by (simp add: fold_session_delivered)
  with s1(1) s'(1,2,4-6) show ?case unfolding v
    by (intro exI [of _ s'] exI [of _ "cs1 @ cs"]) (auto simp: accepted_append)
qed

text \<open>
  C5: Every message reaches the application once, whole and in order. From any well-formed state of
  a session before version 5, whatever packets come and whatever is published, and whenever between
  them the background thread calls \<open>messageArrived\<close>, with whatever results: the run is without
  undefined behaviour, and the messages whose call returned true, followed by those still in the
  queue, are exactly the messages the machine of the session delivers, in its order. So none is
  lost, none is accepted twice, and one that was refused stays the next to be offered.
\<close>

theorem delivered_once:
  assumes "lists_ok (e_lists (a_env A))" "heap_total (e_heap (a_env A))" "session_inv (a_env A) sock h (b_sys l)"
    and "m_ma (b_handles l ! h)" "session_events_ok (handled es) (session_view h (b_sys l))"
  shows "\<exists>s' cs. run_app A sock h es l = Inr (l\<lparr>b_sys := s', b_calls := b_calls l @ cs\<rparr>) \<and>
    accepted (message_arrived A) h (b_calls l) cs @ snd (view h s') =
      snd (snd (fold a_session (handled es) (session_view h (b_sys l))))"
  using run_app_delivers [OF assms] by fastforce

text \<open>A callback that refuses the first time, and two messages of QoS 0.\<close>

definition picky_api :: "(unit, unit) api" where
  "picky_api = std_api\<lparr>message_arrived := \<lambda>cs. if cs = [] then 0 else 1\<rparr>"

definition qos0_packet :: "byte \<Rightarrow> packet" where
  "qos0_packet b = PkPublish \<lparr>pb_header = 0x30, pb_topic = Some [116], pb_topiclen = 1, pb_msgId = 0, pb_payload = [b],
     pb_payloadlen = 1, pb_MQTTVersion = 4, pb_properties = MQTTProperties_initializer, pb_mask = [0, 0, 0, 0]\<rparr>"

definition picky_lib :: "(unit, unit) lib" where
  "picky_lib = (one_client blank_client)\<lparr>b_handles := [zero_handle\<lparr>m_ma := True\<rparr>]\<rparr>"

theorem delivered_once_witness:
  "\<exists>s' cs. run_app picky_api 5 0 [Handled (Incoming (qos0_packet 1)), Turn, Handled (Incoming (qos0_packet 2)), Turn, Turn]
       picky_lib = Inr (picky_lib\<lparr>b_sys := s', b_calls := cs\<rparr>) \<and>
     accepted (message_arrived picky_api) 0 [] cs @ snd (view 0 s') = [(0, [116], [1]), (0, [116], [2])]"
proof -
  let ?es = "[Handled (Incoming (qos0_packet 1)), Turn, Handled (Incoming (qos0_packet 2)), Turn, Turn]"
  have e: "a_env picky_api = a_env std_api" "b_sys picky_lib = b_sys (one_client blank_client)" "b_calls picky_lib = []"
    "m_ma (b_handles picky_lib ! 0)" by (simp_all add: picky_api_def picky_lib_def one_client_def)
  have inv: "session_inv (a_env picky_api) 5 0 (b_sys picky_lib)" using blank_session by (simp only: e)
  have v: "session_view 0 (b_sys picky_lib) = ([], [], [])"
    by (simp add: e session_view_def one_client_def out_view_def view_def blank_client_def)
  have ok: "session_events_ok (handled ?es) (session_view 0 (b_sys picky_lib))"
    by (simp add: packet_v3_def qos0_packet_def)
  have h: "hd_qos 48 = 0" by (simp add: hd_qos_def)
  from delivered_once [OF std_api_ok [folded e(1)] inv e(4) ok] show ?thesis unfolding v e(3)
    by (simp add: a_packet_def a_received_def qos0_packet_def publish_item_def h del: run_app.simps)
qed

end
