(* ===== verification/Benchmark.thy ===== *)
theory Benchmark
  imports State Sorting
begin

section \<open>The benchmark program\<close>

text \<open>
  The sequential parts of \<^verbatim>\<open>src/mqtt.c\<close>: the arguments, the payload of a message, what a publisher
  writes into it, the callback that takes the time of an arrived message, and the summary. The
  threads and their semaphores are theory \<open>BenchThreads\<close>. Output is not modelled. A
  \<^verbatim>\<open>uint32_t\<close> and a \<^verbatim>\<open>uint64_t\<close> are words; in memory they are little-endian.
\<close>

subsection \<open>Configuration\<close>

definition MAX_TOPICS :: nat where "MAX_TOPICS = 1000"
definition MS :: int where "MS = 1000"
definition pubkill :: bytes where "pubkill = map (\<lambda>c. of_char c) ''pubkill''"

text \<open>The global variables the options set; a string pointer may be NULL.\<close>

record config =
  BROKER :: "bytes option"
  CLIENTID :: "bytes option"
  NUM_PUBS :: nat
  NUM_SUBS :: nat
  PUBS :: "bytes option list"
  SUBS :: "bytes option list"
  MSG_INTERVAL :: "32 word"
  MAX_ITER :: "32 word"
  PAYLOAD_SIZE :: "32 word"
  QOS :: "32 word"
  DROP_RATIO :: "32 word"
  LOG_ENABLE :: bool

definition default_config :: config where
  "default_config = \<lparr>BROKER = Some (map (\<lambda>c. of_char c) ''localhost:1883''),
     CLIENTID = Some (map (\<lambda>c. of_char c) ''test-client''), NUM_PUBS = 0, NUM_SUBS = 0,
     PUBS = replicate MAX_TOPICS None, SUBS = replicate MAX_TOPICS None,
     MSG_INTERVAL = word_of_int (10 * MS), MAX_ITER = 20, PAYLOAD_SIZE = 64, QOS = 1, DROP_RATIO = 0,
     LOG_ENABLE = False\<rparr>"

text \<open>\<^verbatim>\<open>strdup\<close>, NULL when the memory cannot be had.\<close>

definition strdup :: "heap \<Rightarrow> bytes \<Rightarrow> bytes option" where
  "strdup H s = (if H (ReqBuffer (strlen s + 1)) then Some (c_str s) else None)"

text \<open>The tokens that successive calls of \<^verbatim>\<open>strtok\<close> with a comma return.\<close>

fun comma_tokens :: "bytes \<Rightarrow> bytes \<Rightarrow> bytes list" where
  "comma_tokens acc [] = (if acc = [] then [] else [rev acc])"
| "comma_tokens acc (c # cs) =
     (if c = 44 then (if acc = [] then comma_tokens [] cs else rev acc # comma_tokens [] cs)
      else comma_tokens (c # acc) cs)"

fun topic_loop :: "heap \<Rightarrow> bytes option list \<Rightarrow> nat \<Rightarrow> bytes list \<Rightarrow> ub + (bytes option list \<times> nat)" where
  "topic_loop H buf ct [] = Inr (buf, ct)"
| "topic_loop H buf ct (token # tokens) =
     (if length buf \<le> ct then Inl OverWrite
      else topic_loop H (buf[ct := strdup H token]) (ct + 1) tokens)"

definition parse_topic_list ::
    "heap \<Rightarrow> bytes option list \<Rightarrow> nat \<Rightarrow> bytes \<Rightarrow> ub + (bytes option \<times> bytes option list \<times> nat)" where
  "parse_topic_list H buf ct arg =
     ub_bind (topic_loop H buf ct (comma_tokens [] (c_str arg))) (\<lambda>(buf, ct). Inr (strdup H arg, buf, ct))"

definition atoi_arg :: "bytes option \<Rightarrow> ub + 32 word" where
  "atoi_arg arg = (case arg of
       None \<Rightarrow> Inl NullDeref | Some s \<Rightarrow> ub_bind (c_atoi s) (\<lambda>v. Inr (word_of_int v)))"

definition string_arg :: "heap \<Rightarrow> bytes option \<Rightarrow> ub + bytes option" where
  "string_arg H arg = (case arg of None \<Rightarrow> Inl NullDeref | Some s \<Rightarrow> Inr (strdup H s))"

text \<open>
  One option as \<^verbatim>\<open>getopt_long\<close> returns it, its letter and \<^verbatim>\<open>optarg\<close>; the long options have
  optional arguments, so \<^verbatim>\<open>optarg\<close> may be NULL. \<open>None\<close> is \<^verbatim>\<open>exit(0)\<close>.
\<close>

definition apply_option :: "heap \<Rightarrow> char \<Rightarrow> bytes option \<Rightarrow> config \<Rightarrow> ub + config option" where
  "apply_option H opt optarg cfg =
     (if opt = CHR ''b'' then ub_bind (string_arg H optarg) (\<lambda>v. Inr (Some (cfg\<lparr>BROKER := v\<rparr>)))
      else if opt = CHR ''n'' then ub_bind (string_arg H optarg) (\<lambda>v. Inr (Some (cfg\<lparr>CLIENTID := v\<rparr>)))
      else if opt = CHR ''m'' then ub_bind (atoi_arg optarg) (\<lambda>v. Inr (Some (cfg\<lparr>MSG_INTERVAL := v\<rparr>)))
      else if opt = CHR ''i'' then ub_bind (atoi_arg optarg) (\<lambda>v. Inr (Some (cfg\<lparr>MAX_ITER := v\<rparr>)))
      else if opt = CHR ''q'' then ub_bind (atoi_arg optarg) (\<lambda>v. Inr (Some (cfg\<lparr>QOS := v\<rparr>)))
      else if opt = CHR ''s'' then ub_bind (atoi_arg optarg) (\<lambda>v. Inr (Some (cfg\<lparr>PAYLOAD_SIZE := v\<rparr>)))
      else if opt = CHR ''d'' then ub_bind (atoi_arg optarg) (\<lambda>v. Inr (Some (cfg\<lparr>DROP_RATIO := v\<rparr>)))
      else if opt = CHR ''u'' then (case optarg of None \<Rightarrow> Inl NullDeref
        | Some arg \<Rightarrow> ub_bind (parse_topic_list H (PUBS cfg) (NUM_PUBS cfg) arg) (\<lambda>(_, buf, ct).
            Inr (Some (cfg\<lparr>PUBS := buf, NUM_PUBS := ct\<rparr>))))
      else if opt = CHR ''t'' then (case optarg of None \<Rightarrow> Inl NullDeref
        | Some arg \<Rightarrow> ub_bind (parse_topic_list H (SUBS cfg) (NUM_SUBS cfg) arg) (\<lambda>(_, buf, ct).
            Inr (Some (cfg\<lparr>SUBS := buf, NUM_SUBS := ct\<rparr>))))
      else if opt = CHR ''v'' then Inr (Some (cfg\<lparr>LOG_ENABLE := True\<rparr>))
      else Inr None)"

fun options_loop :: "heap \<Rightarrow> (char \<times> bytes option) list \<Rightarrow> config \<Rightarrow> ub + config option" where
  "options_loop H [] cfg = Inr (Some cfg)"
| "options_loop H ((opt, optarg) # opts) cfg =
     ub_bind (apply_option H opt optarg cfg) (\<lambda>r. case r of
       None \<Rightarrow> Inr None | Some cfg \<Rightarrow> options_loop H opts cfg)"

definition parse_args :: "heap \<Rightarrow> (char \<times> bytes option) list \<Rightarrow> ub + config option" where
  "parse_args H opts =
     ub_bind (options_loop H opts default_config) (\<lambda>r. case r of
       None \<Rightarrow> Inr None
     | Some cfg \<Rightarrow> if PUBS cfg ! 0 = None \<and> SUBS cfg ! 0 = None then Inr None else Inr (Some cfg))"

subsection \<open>The payload\<close>

text \<open>An unsigned number of \<open>n\<close> bytes in memory.\<close>

primrec le_bytes :: "nat \<Rightarrow> nat \<Rightarrow> bytes" where
  "le_bytes 0 v = []"
| "le_bytes (Suc n) v = word_of_nat v # le_bytes n (v div 256)"

primrec le_value :: "bytes \<Rightarrow> nat" where
  "le_value [] = 0"
| "le_value (b # bs) = unat b + 256 * le_value bs"

definition read_le :: "nat \<Rightarrow> bytes \<Rightarrow> nat \<Rightarrow> ub + (nat \<times> nat)" where
  "read_le n buf p = (if p + n \<le> length buf then Inr (le_value (take n (drop p buf)), p + n) else Inl OverRead)"

definition encode_pl :: "bytes \<Rightarrow> nat \<Rightarrow> bytes \<Rightarrow> ub + bytes" where
  "encode_pl payload off v =
     (if off + length v \<le> length payload
      then Inr (take off payload @ v @ drop (off + length v) payload) else Inl OverWrite)"

text \<open>
  The loop that fills the payload with letters, up to \<open>PAYLOAD_SIZE - 1\<close>, an unsigned number that
  wraps round when the size is 0. \<open>rnd\<close> are the results of \<^verbatim>\<open>rand()\<close>.
\<close>

function letters_loop :: "(nat \<Rightarrow> nat) \<Rightarrow> 32 word \<Rightarrow> nat \<Rightarrow> bytes \<Rightarrow> ub + bytes" where
  "letters_loop rnd lim i payload =
     (if unat lim \<le> i then Inr payload
      else if length payload \<le> i then Inl OverWrite
      else if i = 2147483647 then Inl IntOverflow
      else letters_loop rnd lim (i + 1) (payload[i := word_of_nat (rnd i mod 26 + 65)]))"
  by pat_completeness auto
termination by (relation "measure (\<lambda>(_, _, i, payload). length payload - i)") auto

declare letters_loop.simps [simp del]

text \<open>The beginning of \<^verbatim>\<open>publish_thread\<close>; the memory is zero here before it is written.\<close>

definition init_payload :: "heap \<Rightarrow> (nat \<Rightarrow> nat) \<Rightarrow> config \<Rightarrow> ub + bytes" where
  "init_payload H rnd cfg =
     (let size = PAYLOAD_SIZE cfg in
      if \<not> H (ReqBuffer (unat size)) then Inl NullDeref
      else ub_bind (letters_loop rnd (size - 1) 0 (replicate (unat size) 0)) (\<lambda>payload.
        if size = 0 then Inl OverWrite
        else (case CLIENTID cfg of
            None \<Rightarrow> Inl NullDeref
          | Some cid \<Rightarrow> encode_pl (payload[unat (size - 1) := 0]) 0 (c_str cid @ [0]))))"

text \<open>The counter and the time in front of every message, after the client id.\<close>

definition encode_message :: "config \<Rightarrow> 32 word \<Rightarrow> 64 word \<Rightarrow> bytes \<Rightarrow> ub + bytes" where
  "encode_message cfg it deliver_ts payload =
     (case CLIENTID cfg of
        None \<Rightarrow> Inl NullDeref
      | Some cid \<Rightarrow> let bptr = strlen cid + 1 in
          ub_bind (encode_pl payload bptr (le_bytes 4 (unat it))) (\<lambda>payload.
            encode_pl payload (bptr + 4) (le_bytes 8 (unat deliver_ts))))"

subsection \<open>The callback of an arrived message\<close>

text \<open>\<^verbatim>\<open>get_us_time\<close>; the quotient is that of unsigned numbers.\<close>

definition get_us_time :: "timespec \<Rightarrow> 64 word" where
  "get_us_time tv = word_of_int (ts_sec tv) * 1000000 + word_of_int (ts_nsec tv) div 1000"

record receiver =
  r_it :: "32 word"                          \<comment> \<open>the static counter of \<^verbatim>\<open>msgarrvd\<close>\<close>
  receive_ts :: "64 word list option"
  rtt_ts :: "32 word list option"
  stop_publish :: nat
  done_receiving :: nat

definition store_at :: "nat \<Rightarrow> 'a \<Rightarrow> 'a list option \<Rightarrow> ub + 'a list option" where
  "store_at i x arr = (case arr of None \<Rightarrow> Inl NullDeref
     | Some xs \<Rightarrow> if i < length xs then Inr (Some (xs[i := x])) else Inl OverWrite)"

text \<open>
  \<^verbatim>\<open>msgarrvd\<close>; \<open>payload\<close> is the memory of the message, whose client id has to end in it, and
  \<open>receive_time\<close> the clock.
\<close>

definition msgarrvd ::
    "config \<Rightarrow> 64 word \<Rightarrow> bytes \<Rightarrow> bytes \<Rightarrow> receiver \<Rightarrow> ub + receiver" where
  "msgarrvd cfg receive_time topicName payload r =
     (if c_str topicName = pubkill then Inr (r\<lparr>stop_publish := stop_publish r + 1\<rparr>)
      else if r_it r < MAX_ITER cfg then
        if 0 \<notin> set payload then Inl OverRead
        else
         ub_bind (read_le 4 payload (strlen payload + 1)) (\<lambda>(pkt_no, msg_pt).
         ub_bind (read_le 8 payload msg_pt) (\<lambda>(deliver_time, msg_pt).
         ub_bind (store_at (unat (r_it r)) receive_time (receive_ts r)) (\<lambda>rts.
         ub_bind (store_at (unat (r_it r)) (ucast (receive_time - word_of_nat deliver_time)) (rtt_ts r)) (\<lambda>rtt.
           Inr (r\<lparr>receive_ts := rts, rtt_ts := rtt, r_it := r_it r + 1\<rparr>)))))
      else Inr (r\<lparr>done_receiving := done_receiving r + (if r_it r = MAX_ITER cfg then 1 else 0),
                  r_it := r_it r + 1\<rparr>))"

subsection \<open>The summary\<close>

text \<open>
  \<^verbatim>\<open>cmpfunc\<close>, the difference of the two numbers read as signed ones. \<^verbatim>\<open>qsort\<close> is the library's: an
  argument of the model. It may compare any two elements, so a pair whose difference is not an
  \<^verbatim>\<open>int\<close> is undefined behaviour.
\<close>

definition cmpfunc :: "32 word \<Rightarrow> 32 word \<Rightarrow> int" where
  "cmpfunc a b = sint a - sint b"

definition cmp_defined :: "32 word list \<Rightarrow> bool" where
  "cmp_defined xs \<longleftrightarrow> list_all (\<lambda>a. list_all (\<lambda>b. cmpfunc a b < 2147483648 \<and> - 2147483648 \<le> cmpfunc a b) xs) xs"

definition DROP_IDX :: "config \<Rightarrow> 32 word \<Rightarrow> 32 word" where
  "DROP_IDX cfg x = (x * DROP_RATIO cfg) div 100"

text \<open>
  The two loops over the middle of the array, with the term that is added. The index is an
  \<^verbatim>\<open>int\<close>, the comparison one of unsigned numbers.
\<close>

function sum_loop ::
    "(32 word \<Rightarrow> 64 word) \<Rightarrow> 32 word list \<Rightarrow> 32 word \<Rightarrow> int \<Rightarrow> 64 word \<Rightarrow> 32 word \<Rightarrow> ub + (64 word \<times> 32 word)" where
  "sum_loop f rtt lim i acc ct =
     (if \<not> (word_of_int i :: 32 word) < lim then Inr (acc, ct)
      else if i < 0 \<or> int (length rtt) \<le> i then Inl OverRead
      else if i = 2147483647 then Inl IntOverflow
      else sum_loop f rtt lim (i + 1) (acc + f (rtt ! nat i)) (ct + 1))"
  by pat_completeness auto
termination by (relation "measure (\<lambda>(_, rtt, _, i, _, _). length rtt - nat i)") auto

declare sum_loop.simps [simp del]

text \<open>
  \<^verbatim>\<open>summary_stats\<close>: the mean, the standard deviation and the printed data points. \<open>sqrt_u32\<close> is
  the integer part of the square root, as the library computes it.
\<close>

definition summary_stats ::
    "((32 word \<Rightarrow> 32 word \<Rightarrow> int) \<Rightarrow> 32 word list \<Rightarrow> 32 word list) \<Rightarrow> (64 word \<Rightarrow> 32 word) \<Rightarrow> config
      \<Rightarrow> 32 word list \<Rightarrow> ub + (32 word \<times> 32 word \<times> 32 word list)" where
  "summary_stats qsort sqrt_u32 cfg rtts =
     (if \<not> cmp_defined rtts then Inl IntOverflow
      else
       let rtt = qsort cmpfunc rtts; idx = DROP_IDX cfg (MAX_ITER cfg); lim = MAX_ITER cfg - idx in
       ub_bind (sum_loop ucast rtt lim (sint idx) 0 0) (\<lambda>(acc, ct).
         if ct = 0 then Inl DivByZero
         else let mean = ucast (acc div ucast ct) :: 32 word in
           ub_bind (sum_loop (\<lambda>r. ucast ((r - mean) * (r - mean))) rtt lim (sint idx) 0 0) (\<lambda>(acc, _).
             Inr (mean, sqrt_u32 (acc div ucast ct),
               take (unat lim - unat idx) (drop (unat idx) rtt)))))"

subsection \<open>The main function\<close>

text \<open>
  \<^verbatim>\<open>main\<close> after the arguments: what it does in order and its result, given the results of the client
  library and whether a subscriber has made the array of times. A result other than
  \<^verbatim>\<open>MQTTCLIENT_SUCCESS\<close> (0) is turned into \<^verbatim>\<open>EXIT_FAILURE\<close> (1).
\<close>

datatype main_action =
    DoCreate | DoSetCallbacks | DoConnect | InitSemaphores | StartSubscriber | StartPublisher
  | DestroySemaphores | JoinSubscriber | SummaryStats | JoinPublisher | DoDisconnect | DoDestroy

definition bench_main :: "int \<Rightarrow> int \<Rightarrow> int \<Rightarrow> int \<Rightarrow> bool \<Rightarrow> config \<Rightarrow> main_action list \<times> int" where
  "bench_main create callbacks connect disconnect have_rtt cfg =
     (if create \<noteq> 0 then ([DoCreate], 1)
      else if callbacks \<noteq> 0 then ([DoCreate, DoSetCallbacks, DoDestroy], 1)
      else if connect \<noteq> 0 then ([DoCreate, DoSetCallbacks, DoConnect, DoDestroy], 1)
      else ([DoCreate, DoSetCallbacks, DoConnect, InitSemaphores]
        @ replicate (NUM_SUBS cfg) StartSubscriber @ replicate (NUM_PUBS cfg) StartPublisher
        @ [DestroySemaphores] @ replicate (NUM_SUBS cfg) JoinSubscriber
        @ (if have_rtt then [SummaryStats] else []) @ replicate (NUM_PUBS cfg) JoinPublisher
        @ [DoDisconnect, DoDestroy],
        if disconnect \<noteq> 0 then 1 else 0))"

text \<open>A client that was created is destroyed, as the last action, on every path.\<close>

lemma main_destroys_client:
  "create = 0 \<Longrightarrow> last (fst (bench_main create callbacks connect disconnect have_rtt cfg)) = DoDestroy"
  by (simp add: bench_main_def)

text \<open>
  The semaphores are destroyed before any thread is joined, that is while the threads use them.
\<close>

lemma main_destroys_semaphores_early:
  assumes "fst (bench_main 0 0 0 disconnect have_rtt cfg) = before @ DestroySemaphores # after"
  shows "JoinSubscriber \<notin> set before \<and> JoinPublisher \<notin> set before"
proof -
  let ?b = "[DoCreate, DoSetCallbacks, DoConnect, InitSemaphores] @ replicate (NUM_SUBS cfg) StartSubscriber
    @ replicate (NUM_PUBS cfg) StartPublisher"
  have no: "DestroySemaphores \<notin> set ?b" "DestroySemaphores \<notin> set before"
  proof -
    show "DestroySemaphores \<notin> set ?b" by auto
    have "length (filter (\<lambda>a. a = DestroySemaphores) (fst (bench_main 0 0 0 disconnect have_rtt cfg))) = 1"
      by (simp add: bench_main_def)
    then show "DestroySemaphores \<notin> set before" unfolding assms by (auto simp: filter_empty_conv)
  qed
  have "before = takeWhile (\<lambda>a. a \<noteq> DestroySemaphores) (before @ DestroySemaphores # after)"
    using no(2) by (subst takeWhile_append2) auto
  also have "\<dots> = takeWhile (\<lambda>a. a \<noteq> DestroySemaphores) (fst (bench_main 0 0 0 disconnect have_rtt cfg))"
    unfolding assms ..
  also have "\<dots> = ?b" by (simp add: bench_main_def takeWhile_append)
  finally show ?thesis by simp
qed

subsection \<open>Little-endian numbers\<close>

lemma length_le_bytes [simp]: "length (le_bytes n v) = n"
  by (induction n arbitrary: v) simp_all

lemma le_value_bytes: "le_value (le_bytes n v) = v mod 256 ^ n"
proof (induction n arbitrary: v)
  case (Suc n)
  have "v mod (256 * 256 ^ n) = 256 * (v div 256 mod 256 ^ n) + v mod 256"
    by (rule mod_mult2_eq)
  then show ?case using Suc [of "v div 256"] by (simp add: unat_of_nat)
qed simp

interpretation le4: codec "le_bytes 4" "read_le 4" "\<lambda>v. v < 256 ^ 4"
  by unfold_locales (simp add: read_le_def le_value_bytes)

interpretation le8: codec "le_bytes 8" "read_le 8" "\<lambda>v. v < 256 ^ 8"
  by unfold_locales (simp add: read_le_def le_value_bytes)

lemma unat_u32: "unat (w :: 32 word) < 256 ^ 4"
  using unsigned_less [of w] by simp

lemma unat_u64: "unat (w :: 64 word) < 256 ^ 8"
  using unsigned_less [of w] by simp

subsection \<open>What a publisher sends\<close>

lemma letters_loop_full:
  assumes "i \<le> unat lim" "unat lim < length payload" "unat lim \<le> 2147483647"
  shows "\<exists>p. letters_loop rnd lim i payload = Inr p \<and> length p = length payload"
  using assms
proof (induction rnd lim i payload rule: letters_loop.induct)
  case (1 rnd lim i payload)
  show ?case
  proof (cases "i = unat lim")
    case True
    then show ?thesis by (simp add: letters_loop.simps)
  next
    case False
    with 1 show ?thesis by (subst letters_loop.simps) simp
  qed
qed

text \<open>The bytes before the counter and after the time stay as they were prepared.\<close>

definition message_bytes :: "bytes \<Rightarrow> 32 word \<Rightarrow> 64 word \<Rightarrow> bytes \<Rightarrow> bytes" where
  "message_bytes cid it ts tail = cid @ [0] @ le_bytes 4 (unat it) @ le_bytes 8 (unat ts) @ tail"

lemma encode_pl_fits: "off + length v \<le> length p \<Longrightarrow>
    encode_pl p off v = Inr (take off p @ v @ drop (off + length v) p)"
  by (simp add: encode_pl_def)

lemma encode_message_eq:
  assumes "CLIENTID cfg = Some cid" "0 \<notin> set cid" "take (length cid + 1) p = cid @ [0]"
    "length cid + 13 \<le> length p"
  shows "encode_message cfg it ts p = Inr (message_bytes cid it ts (drop (length cid + 13) p))"
proof -
  let ?n = "length cid + 1"
  have "encode_pl p ?n (le_bytes 4 (unat it)) = Inr (cid @ [0] @ le_bytes 4 (unat it) @ drop (?n + 4) p)"
    using assms(3,4) by (subst encode_pl_fits) simp_all
  moreover have "encode_pl (cid @ [0] @ le_bytes 4 (unat it) @ drop (?n + 4) p) (?n + 4) (le_bytes 8 (unat ts)) =
      Inr (message_bytes cid it ts (drop (length cid + 13) p))"
    using assms(4) by (subst encode_pl_fits) (simp_all add: message_bytes_def add.commute)
  ultimately show ?thesis using assms(1,2) by (simp add: encode_message_def Let_def)
qed

lemma encode_message_over:
  assumes "CLIENTID cfg = Some cid" "0 \<notin> set cid" "length p < length cid + 13"
  shows "encode_message cfg it ts p = Inl OverWrite"
  using assms by (auto simp: encode_message_def Let_def encode_pl_def)

lemma init_payload_eq:
  assumes "heap_total H" "CLIENTID cfg = Some cid" "0 \<notin> set cid"
    and "length cid < unat (PAYLOAD_SIZE cfg)" "unat (PAYLOAD_SIZE cfg) \<le> 2147483648"
  shows "\<exists>p. init_payload H rnd cfg = Inr p \<and> length p = unat (PAYLOAD_SIZE cfg) \<and>
    take (length cid + 1) p = cid @ [0]"
proof -
  let ?s = "PAYLOAD_SIZE cfg"
  have nz: "?s \<noteq> 0" using assms(4) by auto
  then have u: "unat (?s - 1) = unat ?s - 1" by (simp add: unat_minus_one)
  have "unat (?s - 1) < length (replicate (unat ?s) (0 :: byte))" "unat (?s - 1) \<le> 2147483647"
    using assms(4,5) u by auto
  then obtain p where p: "letters_loop rnd (?s - 1) 0 (replicate (unat ?s) 0) = Inr p" "length p = unat ?s"
    using letters_loop_full [of 0 "?s - 1" "replicate (unat ?s) 0" rnd] by auto
  let ?p = "p[unat (?s - 1) := 0]"
  have "encode_pl ?p 0 (cid @ [0]) = Inr ((cid @ [0]) @ drop (length cid + 1) ?p)"
    using assms(4) p(2) by (subst encode_pl_fits) simp_all
  then show ?thesis using assms nz p by (simp add: init_payload_def Let_def)
qed

lemma msgarrvd_message:
  assumes "c_str topic \<noteq> pubkill" "r_it r < MAX_ITER cfg" "0 \<notin> set cid"
    and "receive_ts r = Some rts" "length rts = unat (MAX_ITER cfg)"
    and "rtt_ts r = Some rtt" "length rtt = unat (MAX_ITER cfg)"
  shows "msgarrvd cfg now topic (message_bytes cid it ts rest) r =
    Inr (r\<lparr>receive_ts := Some (rts[unat (r_it r) := now]),
           rtt_ts := Some (rtt[unat (r_it r) := ucast (now - ts)]), r_it := r_it r + 1\<rparr>)"
proof -
  let ?m = "message_bytes cid it ts rest"
  have i: "unat (r_it r) < unat (MAX_ITER cfg)" using assms(2) by (simp add: word_less_nat_alt)
  have sl: "strlen ?m = length cid" using assms(3) by (simp add: message_bytes_def strlen_def)
  have 1: "read_le 4 ?m (strlen ?m + 1) = Inr (unat it, length cid + 5)"
    using le4.rd_wr [OF unat_u32 [of it], of "cid @ [0]" "le_bytes 8 (unat ts) @ rest"]
    unfolding sl by (simp add: message_bytes_def)
  have 2: "read_le 8 ?m (length cid + 5) = Inr (unat ts, length cid + 13)"
    using le8.rd_wr [OF unat_u64 [of ts], of "cid @ [0] @ le_bytes 4 (unat it)" rest]
    by (simp add: message_bytes_def)
  have 3: "0 \<in> set ?m" by (simp add: message_bytes_def)
  show ?thesis
    using assms i 1 2 3 by (simp add: msgarrvd_def store_at_def)
qed

text \<open>What publishing keeps of the payload: its size and the client id in front.\<close>

definition payload_ready :: "bytes \<Rightarrow> nat \<Rightarrow> bytes \<Rightarrow> bool" where
  "payload_ready cid sz p \<longleftrightarrow> length p = sz \<and> take (length cid + 1) p = cid @ [0]"

lemma message_ready:
  "length cid + 13 \<le> sz \<Longrightarrow> length p = sz \<Longrightarrow>
    payload_ready cid sz (message_bytes cid it ts (drop (length cid + 13) p))"
  by (simp add: payload_ready_def message_bytes_def)

subsection \<open>What a subscriber records\<close>

text \<open>The start of \<^verbatim>\<open>subscribe_thread\<close>: the two arrays.\<close>

definition start_receiver :: "heap \<Rightarrow> config \<Rightarrow> receiver \<Rightarrow> receiver" where
  "start_receiver H cfg r =
     (let n = unat (MAX_ITER cfg) in
      r\<lparr>receive_ts := if H (ReqBuffer (8 * n)) then Some (replicate n 0) else None,
        rtt_ts := if H (ReqBuffer (4 * n)) then Some (replicate n 0) else None\<rparr>)"

text \<open>Messages in the order they arrive, each with the time and the payload.\<close>

fun arrive :: "config \<Rightarrow> bytes \<Rightarrow> (64 word \<times> bytes) list \<Rightarrow> receiver \<Rightarrow> ub + receiver" where
  "arrive cfg topic [] r = Inr r"
| "arrive cfg topic ((now, p) # ms) r = ub_bind (msgarrvd cfg now topic p r) (arrive cfg topic ms)"

lemma arrive_append: "arrive cfg topic (ms @ ms') r = ub_bind (arrive cfg topic ms r) (arrive cfg topic ms')"
proof (induction cfg topic ms r rule: arrive.induct)
  case (2 cfg topic now p ms r)
  then show ?case by (cases "msgarrvd cfg now topic p r") simp_all
qed simp

lemma bind_arrive_Nil [simp]: "ub_bind m (arrive cfg topic []) = m"
  by (cases m) simp_all

text \<open>The record of the first messages in an array of \<open>n\<close> entries.\<close>

definition recorded :: "nat \<Rightarrow> ('b \<Rightarrow> 'a::zero) \<Rightarrow> 'b list \<Rightarrow> 'a list" where
  "recorded n f ms = map f (take n ms) @ replicate (n - length ms) 0"

lemma length_recorded [simp]: "length (recorded n f ms) = n"
  by (simp add: recorded_def)

lemma recorded_snoc: "length ms < n \<Longrightarrow> (recorded n f ms)[length ms := f m] = recorded n f (ms @ [m])"
proof -
  assume l: "length ms < n"
  then obtain k where k: "n - length ms = Suc k" by (cases "n - length ms") simp_all
  have t: "take n ms = ms" "take n (ms @ [m]) = ms @ [m]" using l by simp_all
  have k': "n - length (ms @ [m]) = k" using k by simp
  have "(recorded n f ms)[length ms := f m] = (map f ms @ 0 # replicate k 0)[length (map f ms) := f m]"
    unfolding recorded_def t k by simp
  also have "\<dots> = map f ms @ f m # replicate k 0" by (rule list_update_length)
  finally show ?thesis unfolding recorded_def t k' by simp
qed

lemma recorded_full: "n \<le> length ms \<Longrightarrow> recorded n f (ms @ [m]) = recorded n f ms"
  by (simp add: recorded_def)

text \<open>An arrival: its time, and the counter, the time of sending and the rest of the payload.\<close>

type_synonym arrival = "64 word \<times> 32 word \<times> 64 word \<times> bytes"

definition wire :: "bytes \<Rightarrow> arrival \<Rightarrow> 64 word \<times> bytes" where
  "wire cid = (\<lambda>(now, it, ts, rest). (now, message_bytes cid it ts rest))"

definition rtt_of :: "arrival \<Rightarrow> 32 word" where
  "rtt_of = (\<lambda>(now, it, ts, rest). ucast (now - ts))"

lemma arrive_recorded:
  assumes "heap_total H" "c_str topic \<noteq> pubkill" "0 \<notin> set cid" "length ms < 2 ^ 32" "r_it r = 0"
  shows "arrive cfg topic (map (wire cid) ms) (start_receiver H cfg r) =
    Inr (r\<lparr>receive_ts := Some (recorded (unat (MAX_ITER cfg)) fst ms),
           rtt_ts := Some (recorded (unat (MAX_ITER cfg)) rtt_of ms),
           done_receiving := done_receiving r + (if unat (MAX_ITER cfg) < length ms then 1 else 0),
           r_it := word_of_nat (length ms)\<rparr>)"
  using assms(4)
proof (induction ms rule: rev_induct)
  case Nil
  then show ?case using assms by (simp add: start_receiver_def recorded_def Let_def)
next
  case (snoc m ms)
  let ?n = "unat (MAX_ITER cfg)"
  obtain now it ts rest where m: "m = (now, it, ts, rest)" by (cases m)
  define r1 where "r1 = r\<lparr>receive_ts := Some (recorded ?n fst ms), rtt_ts := Some (recorded ?n rtt_of ms),
    done_receiving := done_receiving r + (if ?n < length ms then 1 else 0), r_it := word_of_nat (length ms)\<rparr>"
  have l: "length ms < 2 ^ 32" using snoc.prems by simp
  have it: "unat (r_it r1) = length ms" using l by (simp add: r1_def unat_of_nat)
  have w: "wire cid m = (now, message_bytes cid it ts rest)" by (simp add: m wire_def)
  have f: "fst m = now" "rtt_of m = ucast (now - ts)" by (simp_all add: m rtt_of_def)
  have "arrive cfg topic (map (wire cid) (ms @ [m])) (start_receiver H cfg r) =
      msgarrvd cfg now topic (message_bytes cid it ts rest) r1"
    using snoc.IH [OF l] unfolding r1_def by (simp add: arrive_append w)
  also have "\<dots> = Inr (r\<lparr>receive_ts := Some (recorded ?n fst (ms @ [m])), rtt_ts := Some (recorded ?n rtt_of (ms @ [m])),
      done_receiving := done_receiving r + (if ?n < length (ms @ [m]) then 1 else 0),
      r_it := word_of_nat (length (ms @ [m]))\<rparr>)"
  proof (cases "length ms < ?n")
    case True
    then have lt: "r_it r1 < MAX_ITER cfg" by (simp add: word_less_nat_alt it)
    have "msgarrvd cfg now topic (message_bytes cid it ts rest) r1 =
        Inr (r1\<lparr>receive_ts := Some ((recorded ?n fst ms)[length ms := fst m]),
          rtt_ts := Some ((recorded ?n rtt_of ms)[length ms := rtt_of m]), r_it := r_it r1 + 1\<rparr>)"
      using msgarrvd_message [OF assms(2) lt assms(3), of "recorded ?n fst ms" "recorded ?n rtt_of ms" now it ts rest]
      unfolding f it by (simp add: r1_def)
    then show ?thesis unfolding recorded_snoc [OF True] using True by (simp add: r1_def)
  next
    case False
    then have nlt: "\<not> r_it r1 < MAX_ITER cfg" by (simp add: word_less_nat_alt it)
    have eq: "r_it r1 = MAX_ITER cfg \<longleftrightarrow> length ms = ?n" unfolding it [symmetric] by (rule word_unat_eq_iff)
    show ?thesis using False nlt eq assms(2)
      by (auto simp: msgarrvd_def r1_def recorded_full)
  qed
  finally show ?case .
qed

subsection \<open>Topic lists\<close>

text \<open>The argument of \<^verbatim>\<open>--pub\<close> and \<^verbatim>\<open>--sub\<close> for a list of topics.\<close>

fun join :: "bytes list \<Rightarrow> bytes" where
  "join [] = []"
| "join [t] = t"
| "join (t # ts) = t @ 44 # join ts"

definition topic_ok :: "bytes \<Rightarrow> bool" where
  "topic_ok t \<longleftrightarrow> t \<noteq> [] \<and> 44 \<notin> set t \<and> 0 \<notin> set t"

lemma comma_tokens_topic:
  "44 \<notin> set t \<Longrightarrow> comma_tokens acc (t @ 44 # s) =
    (if acc = [] \<and> t = [] then comma_tokens [] s else (rev acc @ t) # comma_tokens [] s)"
  by (induction t arbitrary: acc) auto

lemma comma_tokens_end:
  "44 \<notin> set t \<Longrightarrow> comma_tokens acc t = (if acc = [] \<and> t = [] then [] else [rev acc @ t])"
  by (induction t arbitrary: acc) auto

lemma comma_tokens_join: "\<forall>t\<in>set ts. topic_ok t \<Longrightarrow> comma_tokens [] (join ts) = ts"
  by (induction ts rule: join.induct) (simp_all add: topic_ok_def comma_tokens_end comma_tokens_topic)

lemma join_no_zero: "\<forall>t\<in>set ts. topic_ok t \<Longrightarrow> 0 \<notin> set (join ts)"
  by (induction ts rule: join.induct) (auto simp: topic_ok_def)

lemma topic_loop_fits:
  assumes "heap_total H" "ct + length ts \<le> length buf" "\<forall>t\<in>set ts. 0 \<notin> set t"
  shows "topic_loop H buf ct ts =
    Inr (take ct buf @ map Some ts @ drop (ct + length ts) buf, ct + length ts)"
  using assms(2,3)
proof (induction ts arbitrary: buf ct)
  case (Cons t ts)
  then have "topic_loop H (buf[ct := Some t]) (ct + 1) ts =
      Inr (take (ct + 1) (buf[ct := Some t]) @ map Some ts @ drop (ct + 1 + length ts) (buf[ct := Some t]),
        ct + 1 + length ts)" by simp
  moreover have "take (ct + 1) (buf[ct := Some t]) = take ct buf @ [Some t]"
    using Cons.prems by (simp add: take_Suc_conv_app_nth)
  moreover have "strdup H t = Some t" using assms(1) Cons.prems by (simp add: strdup_def)
  ultimately show ?case using Cons.prems by simp
qed simp

lemma topic_loop_full:
  assumes "heap_total H" "length buf < ct + length ts" "ct \<le> length buf"
  shows "topic_loop H buf ct ts = Inl OverWrite"
  using assms(2,3)
proof (induction ts arbitrary: buf ct)
  case (Cons t ts)
  then show ?case by (cases "ct = length buf") simp_all
qed simp

subsection \<open>The summary\<close>

lemma cmpfunc_order: "cmp_order cmpfunc A"
  by (auto simp: cmp_order_def cmpfunc_def)

lemma qsort_sorts:
  assumes "qsort_ok qsort"
  shows "qsort cmpfunc xs = sort_key sint (xs :: 32 word list)"
proof -
  have "mset (qsort cmpfunc xs) = mset xs" "sorted_wrt (\<lambda>a b. cmpfunc a b \<le> 0) (qsort cmpfunc xs)"
    using assms cmpfunc_order by (auto simp: qsort_ok_def)
  then have m: "mset (qsort cmpfunc xs) = mset xs" and s: "sorted (map sint (qsort cmpfunc xs))"
    unfolding cmpfunc_def sorted_wrt_key by simp_all
  have "map sint (qsort cmpfunc xs) = sort (map sint xs)"
    using m s by (intro properties_for_sort [symmetric]) simp_all
  also have "\<dots> = map sint (sort_key sint xs)"
    by (rule properties_for_sort) simp_all
  finally have e: "map sint (qsort cmpfunc xs) = map sint (sort_key sint xs)" .
  have "inj (sint :: 32 word \<Rightarrow> int)" by (rule injI) (rule signed_word_eqI)
  with e show ?thesis by (simp add: inj_map_eq_map)
qed

text \<open>A loop over the positions from \<open>i\<close> up to the limit.\<close>

lemma sum_loop_eq:
  assumes "i \<le> unat lim" "unat lim \<le> length rtt" "unat lim \<le> 2147483647"
  shows "sum_loop f rtt lim (int i) acc ct =
    Inr (acc + sum_list (map f (take (unat lim - i) (drop i rtt))), ct + word_of_nat (unat lim - i))"
  using assms(1)
proof (induction "unat lim - i" arbitrary: i acc ct)
  case 0
  then have i: "i = unat lim" by simp
  then show ?case by (subst sum_loop.simps) simp
next
  case (Suc k)
  then have lt: "i < unat lim" by simp
  have w: "(word_of_nat i :: 32 word) < lim"
    using lt unsigned_less [of lim] by (simp add: word_less_nat_alt unat_of_nat)
  have "sum_loop f rtt lim (int i) acc ct = sum_loop f rtt lim (int (i + 1)) (acc + f (rtt ! i)) (ct + 1)"
    using lt w assms(2,3) by (subst sum_loop.simps) (simp add: algebra_simps)
  also have "\<dots> = Inr (acc + f (rtt ! i) + sum_list (map f (take (unat lim - (i + 1)) (drop (i + 1) rtt))),
      ct + 1 + word_of_nat (unat lim - (i + 1)))"
    using Suc lt by (intro Suc.hyps(1)) simp_all
  also have "take (unat lim - i) (drop i rtt) = rtt ! i # take (unat lim - (i + 1)) (drop (i + 1) rtt)"
  proof -
    have "drop i rtt = rtt ! i # drop (i + 1) rtt" using lt assms(2) by (simp add: Cons_nth_drop_Suc)
    moreover have "unat lim - i = Suc (unat lim - (i + 1))" using lt by simp
    ultimately show ?thesis by simp
  qed
  moreover have "word_of_nat (unat lim - i) = (1 :: 32 word) + word_of_nat (unat lim - (i + 1))"
  proof -
    have "unat lim - i = Suc (unat lim - (i + 1))" using lt by simp
    then show ?thesis by simp
  qed
  ultimately show ?case by (simp add: add.assoc)
qed

text \<open>The data points that are kept, and their spread about the mean.\<close>

definition kept_points :: "config \<Rightarrow> 32 word list \<Rightarrow> 32 word list" where
  "kept_points cfg rtts =
     (let idx = unat (DROP_IDX cfg (MAX_ITER cfg)) in
      take (unat (MAX_ITER cfg) - 2 * idx) (drop idx (sort_key sint rtts)))"

lemma sum_list_u64:
  assumes "sum_list (map unat xs) < 2 ^ 64"
  shows "unat (sum_list (map (ucast :: 32 word \<Rightarrow> 64 word) xs)) = sum_list (map unat xs)"
proof -
  have "sum_list (map (ucast :: 32 word \<Rightarrow> 64 word) xs) = word_of_nat (sum_list (map unat xs))"
    by (induction xs) simp_all
  with assms show ?thesis by (simp add: unat_of_nat)
qed

lemma sum_unat_le: "sum_list (map unat (xs :: 32 word list)) \<le> length xs * 4294967295"
proof (induction xs)
  case (Cons x xs)
  have "unat x < 4294967296" using unsigned_less [of x] by simp
  then have "unat x \<le> 4294967295" by linarith
  with Cons show ?case by simp
qed simp

lemma square_u32:
  "unat ((r - m) * (r - m) :: 32 word) = nat ((int (unat r) - int (unat m))\<^sup>2 mod 2 ^ 32)"
proof -
  let ?d = "int (unat r) - int (unat m)"
  have "r - m = word_of_int ?d" by simp
  then have sq: "(r - m) * (r - m) = word_of_int (?d\<^sup>2)" by (simp add: power2_eq_square)
  have u: "uint (word_of_int k :: 32 word) = k mod 2 ^ 32" for k by (simp add: uint_word_of_int)
  have "uint ((r - m) * (r - m)) = ?d\<^sup>2 mod 2 ^ 32" unfolding sq by (rule u)
  then show ?thesis by (metis nat_uint_eq)
qed

lemma word_of_unat: "unat (w :: 'w::len word) = n \<Longrightarrow> w = word_of_nat n"
  by (erule subst) simp

lemma unat_count: "n < 4294967296 \<Longrightarrow> unat (ucast (word_of_nat n :: 32 word) :: 64 word) = n"
proof -
  assume l: "n < 4294967296"
  then have n: "unat (word_of_nat n :: 32 word) = n" by (simp add: unat_of_nat)
  have "(ucast (word_of_nat n :: 32 word) :: 64 word) = word_of_nat (unat (word_of_nat n :: 32 word))"
    by (rule of_nat_unat [symmetric])
  then show ?thesis unfolding n using l by (simp add: unat_of_nat)
qed

lemma unat_div_u32:
  assumes "unat (a :: 64 word) \<le> n * 4294967295" "0 < n" "n < 4294967296"
  shows "unat (ucast (a div ucast (word_of_nat n :: 32 word)) :: 32 word) = unat a div n"
proof -
  have q: "unat (a div ucast (word_of_nat n :: 32 word)) = unat a div n"
    unfolding unat_div unat_count [OF assms(3)] ..
  have lt: "unat a div n < 4294967296"
    using assms(1,2) by (intro less_mult_imp_div_less) simp
  have "(ucast (a div ucast (word_of_nat n :: 32 word)) :: 32 word) =
      word_of_nat (unat (a div ucast (word_of_nat n :: 32 word)))"
    by (rule of_nat_unat [symmetric])
  then show ?thesis unfolding q using lt by (simp add: unat_of_nat)
qed

text \<open>A percentage is below \<open>2 ^ 31\<close>; when it is above the number of times, the first one read is outside the array.\<close>

lemma DROP_IDX_bound: "unat (DROP_IDX cfg x) \<le> 42949672"
proof -
  have "unat (x * DROP_RATIO cfg) div 100 \<le> 4294967295 div 100"
    using unsigned_less [of "x * DROP_RATIO cfg", where 'a = nat] by (intro div_le_mono) simp
  then show ?thesis by (simp add: DROP_IDX_def unat_div)
qed

lemma summary_over:
  assumes "qsort_ok qsort" "length rtts = unat (MAX_ITER cfg)"
    and "unat (MAX_ITER cfg) < unat (DROP_IDX cfg (MAX_ITER cfg))"
  shows "sum_loop f (qsort cmpfunc rtts) (MAX_ITER cfg - DROP_IDX cfg (MAX_ITER cfg))
      (sint (DROP_IDX cfg (MAX_ITER cfg))) 0 0 = Inl OverRead"
proof -
  define d where "d = DROP_IDX cfg (MAX_ITER cfg)"
  define n where "n = MAX_ITER cfg"
  have b: "unat d \<le> 42949672" "unat n < unat d" using DROP_IDX_bound assms(3) by (simp_all add: d_def n_def)
  have i: "sint d = int (unat d)" using b(1) by (simp add: sint_word32_small)
  have "unat (n - d) = 2 ^ 32 + unat n - unat d" using b by (simp add: unat_sub_if_size word_size)
  then have lt: "d < n - d" using b by (simp add: word_less_nat_alt)
  have "length (qsort cmpfunc rtts) = unat n" by (simp add: qsort_sorts [OF assms(1)] assms(2) n_def)
  moreover have "uint n \<le> uint d" using b(2) by (simp add: word_le_nat_alt flip: word_le_def)
  ultimately show ?thesis unfolding d_def [symmetric] unfolding n_def [symmetric] using lt i
    by (subst sum_loop.simps) simp
qed

lemma summary_setup:
  assumes "qsort_ok qsort" "cmp_defined rtts" "length rtts = unat (MAX_ITER cfg)" "length rtts \<le> 2147483647"
    and "unat (DROP_IDX cfg (MAX_ITER cfg)) \<le> unat (MAX_ITER cfg)"
  shows "sum_loop f (qsort cmpfunc rtts) (MAX_ITER cfg - DROP_IDX cfg (MAX_ITER cfg))
      (sint (DROP_IDX cfg (MAX_ITER cfg))) 0 0 =
    Inr (sum_list (map f (kept_points cfg rtts)), word_of_nat (length (kept_points cfg rtts)))"
    "take (unat (MAX_ITER cfg - DROP_IDX cfg (MAX_ITER cfg)) - unat (DROP_IDX cfg (MAX_ITER cfg)))
       (drop (unat (DROP_IDX cfg (MAX_ITER cfg))) (qsort cmpfunc rtts)) = kept_points cfg rtts"
    "length (kept_points cfg rtts) = unat (MAX_ITER cfg) - 2 * unat (DROP_IDX cfg (MAX_ITER cfg))"
proof -
  define d where "d = DROP_IDX cfg (MAX_ITER cfg)"
  define n where "n = unat (MAX_ITER cfg)"
  define k where "k = unat d"
  have kn: "k \<le> n" and n: "n \<le> 2147483647" "length rtts = n"
    using assms by (simp_all add: d_def n_def k_def)
  have lim: "unat (MAX_ITER cfg - d) = n - k"
    using kn by (simp add: n_def k_def unat_sub word_le_nat_alt)
  have "sint d = int k" using kn n by (simp add: k_def sint_word32_small)
  then have sd: "sint d = int k" .
  have kp: "kept_points cfg rtts = take (n - 2 * k) (drop k (sort_key sint rtts))"
    by (simp add: kept_points_def n_def k_def d_def Let_def)
  have sub: "n - k - k = n - 2 * k" by simp
  show len: "length (kept_points cfg rtts) = unat (MAX_ITER cfg) - 2 * unat (DROP_IDX cfg (MAX_ITER cfg))"
    unfolding kp using n kn by (simp add: n_def k_def d_def)
  show "take (unat (MAX_ITER cfg - DROP_IDX cfg (MAX_ITER cfg)) - unat (DROP_IDX cfg (MAX_ITER cfg)))
       (drop (unat (DROP_IDX cfg (MAX_ITER cfg))) (qsort cmpfunc rtts)) = kept_points cfg rtts"
    unfolding d_def [symmetric] k_def [symmetric] lim sub kp qsort_sorts [OF assms(1)] ..
  show "sum_loop f (qsort cmpfunc rtts) (MAX_ITER cfg - DROP_IDX cfg (MAX_ITER cfg))
      (sint (DROP_IDX cfg (MAX_ITER cfg))) 0 0 =
    Inr (sum_list (map f (kept_points cfg rtts)), word_of_nat (length (kept_points cfg rtts)))"
  proof (cases "k \<le> n - k")
    case True
    have "sum_loop f (sort_key sint rtts) (MAX_ITER cfg - d) (int k) 0 0 =
        Inr (0 + sum_list (map f (take (n - k - k) (drop k (sort_key sint rtts)))), 0 + word_of_nat (n - k - k))"
      unfolding lim [symmetric] using True n lim by (intro sum_loop_eq) simp_all
    then show ?thesis
      unfolding d_def [symmetric] sd qsort_sorts [OF assms(1)] len unfolding sub kp
      by (simp add: n_def k_def d_def)
  next
    case False
    then have z: "n - 2 * k = 0" by simp
    have "\<not> (word_of_int (int k) :: 32 word) < MAX_ITER cfg - d"
      using False kn n lim by (simp add: word_less_nat_alt unat_of_nat)
    then show ?thesis
      unfolding d_def [symmetric] sd qsort_sorts [OF assms(1)] kp z
      by (subst sum_loop.simps) simp
  qed
qed

subsection \<open>Claims\<close>

text \<open>
  C8: What a publisher sends is what a subscriber measures. If the payload has room for the client
  id, the counter and the time, every message has the size asked for and keeps the payload ready
  for the next one, and a subscriber whose arrays are not full records the time of arrival and
  the low 32 bits of the difference to the time of sending at its next position. If there is no
  room (\<^verbatim>\<open>--size\<close> below the length of the name plus 13), writing the counter or the time runs over
  the end of the payload.
\<close>

theorem message_timed:
  assumes "CLIENTID cfg = Some cid" "0 \<notin> set cid" "payload_ready cid (unat (PAYLOAD_SIZE cfg)) p"
    and "c_str topic \<noteq> pubkill" "r_it r < MAX_ITER cfg"
    and "receive_ts r = Some rts" "length rts = unat (MAX_ITER cfg)"
    and "rtt_ts r = Some rtt" "length rtt = unat (MAX_ITER cfg)"
  shows "if length cid + 13 \<le> unat (PAYLOAD_SIZE cfg)
    then \<exists>p'. encode_message cfg it ts p = Inr p' \<and> payload_ready cid (unat (PAYLOAD_SIZE cfg)) p' \<and>
      msgarrvd cfg now topic p' r =
        Inr (r\<lparr>receive_ts := Some (rts[unat (r_it r) := now]),
               rtt_ts := Some (rtt[unat (r_it r) := ucast (now - ts)]), r_it := r_it r + 1\<rparr>)
    else encode_message cfg it ts p = Inl OverWrite"
proof (cases "length cid + 13 \<le> unat (PAYLOAD_SIZE cfg)")
  case True
  with assms(3) have p: "take (length cid + 1) p = cid @ [0]" "length cid + 13 \<le> length p"
    "length p = unat (PAYLOAD_SIZE cfg)" by (simp_all add: payload_ready_def)
  show ?thesis
    using True encode_message_eq [OF assms(1,2) p(1,2)] message_ready [OF True p(3)]
      msgarrvd_message [OF assms(4,5,2,6,7,8,9)] by simp
next
  case False
  then show ?thesis using encode_message_over [OF assms(1,2), of p] assms(3)
    by (simp add: payload_ready_def)
qed

definition sample_config :: config where
  "sample_config = default_config\<lparr>CLIENTID := Some [99], MAX_ITER := 2, PAYLOAD_SIZE := 16\<rparr>"

definition sample_receiver :: receiver where
  "sample_receiver = \<lparr>r_it = 0, receive_ts = Some [0, 0], rtt_ts = Some [0, 0], stop_publish = 0, done_receiving = 0\<rparr>"

theorem message_timed_witness:
  "\<exists>p'. encode_message sample_config 0 1000 ([99, 0] @ replicate 14 65) = Inr p' \<and>
    msgarrvd sample_config 1250 [116] p' sample_receiver =
      Inr (sample_receiver\<lparr>receive_ts := Some [1250, 0], rtt_ts := Some [250, 0], r_it := 1\<rparr>)"
proof -
  have h: "CLIENTID sample_config = Some [99]" "0 \<notin> set [99 :: byte]"
    "payload_ready [99] (unat (PAYLOAD_SIZE sample_config)) ([99, 0] @ replicate 14 65)"
    "c_str [116] \<noteq> pubkill" "r_it sample_receiver < MAX_ITER sample_config"
    "receive_ts sample_receiver = Some [0, 0]" "length [0, 0 :: 64 word] = unat (MAX_ITER sample_config)"
    "rtt_ts sample_receiver = Some [0, 0]" "length [0, 0 :: 32 word] = unat (MAX_ITER sample_config)"
    by (simp_all add: sample_config_def sample_receiver_def payload_ready_def pubkill_def c_str_def)
  have sz: "length [99 :: byte] + 13 \<le> unat (PAYLOAD_SIZE sample_config)"
    "unat (r_it sample_receiver) = 0" "r_it sample_receiver + 1 = 1"
    by (simp_all add: sample_config_def sample_receiver_def)
  show ?thesis using message_timed [OF h, of 0 1000 1250] unfolding sz if_P [OF sz(1)] by auto
qed

text \<open>
  C31: A subscriber records the first \<open>MAX_ITER\<close> messages: after any number of messages (below
  \<open>2 ^ 32\<close>) its arrays hold the arrival and the round-trip times of the first \<open>MAX_ITER\<close> in order of
  arrival, and zero beyond what has arrived; the semaphore that ends the subscription is posted
  exactly once, by message number \<open>MAX_ITER + 1\<close>, which is not recorded.
\<close>

theorem subscriber_records:
  assumes "heap_total H" "c_str topic \<noteq> pubkill" "0 \<notin> set cid" "length ms < 2 ^ 32" "r_it r = 0"
  shows "\<exists>r'. arrive cfg topic (map (wire cid) ms) (start_receiver H cfg r) = Inr r' \<and>
    receive_ts r' = Some (map fst (take (unat (MAX_ITER cfg)) ms) @ replicate (unat (MAX_ITER cfg) - length ms) 0) \<and>
    rtt_ts r' = Some (map rtt_of (take (unat (MAX_ITER cfg)) ms) @ replicate (unat (MAX_ITER cfg) - length ms) 0) \<and>
    done_receiving r' = done_receiving r + (if unat (MAX_ITER cfg) < length ms then 1 else 0) \<and>
    stop_publish r' = stop_publish r"
  using arrive_recorded [OF assms] by (simp add: recorded_def)

theorem subscriber_records_witness:
  "\<exists>r'. arrive sample_config [116] (map (wire [99]) [(1250, 0, 1000, []), (2300, 1, 2000, []), (3400, 2, 3000, [])])
      (start_receiver (\<lambda>_. True) sample_config sample_receiver) = Inr r' \<and>
    rtt_ts r' = Some [250, 300] \<and> done_receiving r' = 1"
proof -
  have "c_str [116] \<noteq> pubkill" "0 \<notin> set [99 :: byte]" "r_it sample_receiver = 0"
    "unat (MAX_ITER sample_config) = 2" "done_receiving sample_receiver = 0"
    by (simp_all add: sample_config_def sample_receiver_def pubkill_def c_str_def)
  with subscriber_records [OF heap_total_top, of "[116]" "[99]"
      "[(1250, 0, 1000, []), (2300, 1, 2000, []), (3400, 2, 3000, [])]" sample_receiver sample_config]
  show ?thesis by (auto simp: rtt_of_def)
qed

text \<open>
  A list of topics separated by commas is parsed into these topics, each with its terminating
  zero, stored behind the topics that are there already; if they are more than the array has
  places, the last is written past its end.
\<close>

theorem topics_parsed:
  assumes "heap_total H" "\<forall>t\<in>set ts. topic_ok t" "ct \<le> length buf"
  shows "parse_topic_list H buf ct (join ts) =
    (if ct + length ts \<le> length buf
     then Inr (Some (join ts), take ct buf @ map Some ts @ drop (ct + length ts) buf, ct + length ts)
     else Inl OverWrite)"
proof -
  have z: "0 \<notin> set (join ts)" "\<forall>t\<in>set ts. 0 \<notin> set t"
    using assms(2) join_no_zero by (auto simp: topic_ok_def)
  have s: "strdup H (join ts) = Some (join ts)" using assms(1) z(1) by (simp add: strdup_def)
  have t: "comma_tokens [] (c_str (join ts)) = ts" using comma_tokens_join [OF assms(2)] z(1) by simp
  show ?thesis
    using topic_loop_fits [OF assms(1) _ z(2), of ct buf] topic_loop_full [OF assms(1) _ assms(3), of ts]
    unfolding parse_topic_list_def t s by simp
qed

theorem topics_parsed_witness:
  "parse_topic_list (\<lambda>_. True) [None, None, None] 1 [97, 44, 98, 99] =
    Inr (Some [97, 44, 98, 99], [None, Some [97], Some [98, 99]], 3)"
  using topics_parsed [OF heap_total_top, of "[[97], [98, 99]]" 1 "[None, None, None]"]
  by (simp add: topic_ok_def)

text \<open>
  C25: The summary. When every difference of two round-trip times is an \<^verbatim>\<open>int\<close>, the data points are
  the sorted times without \<open>DROP_IDX\<close> of them at each end, the mean is their average, rounded
  down, and the deviation the square root of the average square of the distance to the mean, each
  square modulo \<open>2 ^ 32\<close> (so it is the square itself for distances below 65536 microseconds). If
  nothing remains, at a drop ratio of 50 or more, the code divides by zero. If \<open>DROP_IDX\<close> is above
  the number of times, at a ratio above 100, \<^verbatim>\<open>MAX_ITER - idx\<close> wraps round and the array is read past
  its end.
\<close>

theorem summary_correct:
  assumes "qsort_ok qsort" "cmp_defined rtts" "length rtts = unat (MAX_ITER cfg)" "length rtts \<le> 2147483647"
    and "kept = kept_points cfg rtts" "mean = sum_list (map unat kept) div length kept"
  shows "summary_stats qsort sqrt_u32 cfg rtts =
      (if unat (MAX_ITER cfg) < unat (DROP_IDX cfg (MAX_ITER cfg)) then Inl OverRead
       else if unat (MAX_ITER cfg) \<le> 2 * unat (DROP_IDX cfg (MAX_ITER cfg)) then Inl DivByZero
       else Inr (word_of_nat mean, sqrt_u32 (word_of_nat
         (sum_list (map (\<lambda>x. nat ((int (unat x) - int mean)\<^sup>2 mod 2 ^ 32)) kept) div length kept)), kept))"
proof (cases "unat (DROP_IDX cfg (MAX_ITER cfg)) \<le> unat (MAX_ITER cfg)")
  case False
  then show ?thesis using summary_over [OF assms(1,3)] assms(2) by (simp add: summary_stats_def Let_def)
next
  case True
  note su = summary_setup [OF assms(1-4) True, folded assms(5)]
  let ?n = "length kept"
  have n: "?n < 4294967296" "?n = unat (MAX_ITER cfg) - 2 * unat (DROP_IDX cfg (MAX_ITER cfg))"
    using su(3) assms(3,4) by simp_all
  show ?thesis
  proof (cases "?n = 0")
    case True
    then show ?thesis using assms(2) su(1) n \<open>_ \<le> unat (MAX_ITER cfg)\<close> by (simp add: summary_stats_def Let_def)
  next
    case False
    then have pos: "0 < ?n" by simp
    have ct: "(word_of_nat ?n :: 32 word) \<noteq> 0" using pos n(1) by (simp add: word_unat_eq_iff unat_of_nat)
    let ?s = "sum_list (map (ucast :: 32 word \<Rightarrow> 64 word) kept)"
    have b: "sum_list (map unat kept) \<le> ?n * 4294967295" by (rule sum_unat_le)
    also have "\<dots> < 2 ^ 64" using n(1) by simp
    finally have s: "unat ?s = sum_list (map unat kept)" by (rule sum_list_u64)
    define m :: "32 word" where "m = ucast (?s div ucast (word_of_nat ?n :: 32 word))"
    have m: "unat m = mean"
      using unat_div_u32 [OF _ pos n(1), of ?s] b by (simp only: m_def s assms(6))
    define a where "a = sum_list (map (\<lambda>r. ucast ((r - m) * (r - m))) kept) div (ucast (word_of_nat ?n :: 32 word) :: 64 word)"
    have res: "summary_stats qsort sqrt_u32 cfg rtts = Inr (m, sqrt_u32 a, kept)"
      using assms(2) ct by (simp add: summary_stats_def Let_def su m_def a_def)
    let ?q = "map (\<lambda>r. (r - m) * (r - m)) kept"
    have q: "map unat ?q = map (\<lambda>x. nat ((int (unat x) - int mean)\<^sup>2 mod 2 ^ 32)) kept"
      by (simp add: square_u32 m)
    have "sum_list (map unat ?q) < 2 ^ 64" using sum_unat_le [of ?q] n(1) by simp
    from sum_list_u64 [OF this]
    have "unat (sum_list (map (\<lambda>r. ucast ((r - m) * (r - m)) :: 64 word) kept)) = sum_list (map unat ?q)"
      by (simp add: comp_def)
    then have "unat a = sum_list (map (\<lambda>x. nat ((int (unat x) - int mean)\<^sup>2 mod 2 ^ 32)) kept) div ?n"
      by (simp only: a_def unat_div q unat_count [OF n(1)])
    then have a: "a = word_of_nat (sum_list (map (\<lambda>x. nat ((int (unat x) - int mean)\<^sup>2 mod 2 ^ 32)) kept) div ?n)"
      by (rule word_of_unat)
    from m have m: "m = word_of_nat mean" by (rule word_of_unat)
    have c: "\<not> unat (MAX_ITER cfg) < unat (DROP_IDX cfg (MAX_ITER cfg))"
      "\<not> unat (MAX_ITER cfg) \<le> 2 * unat (DROP_IDX cfg (MAX_ITER cfg))" using False n(2) True by simp_all
    show ?thesis unfolding if_not_P [OF c(1)] if_not_P [OF c(2)] res a [symmetric] m [symmetric] ..
  qed
qed

theorem summary_correct_witness:
  "summary_stats insertion_qsort (\<lambda>a. ucast a) (default_config\<lparr>MAX_ITER := 4, DROP_RATIO := 25\<rparr>)
      [900, 10, 30, 20] = Inr (25, 25, [20, 30]) \<and>
    summary_stats insertion_qsort (\<lambda>a. ucast a) (default_config\<lparr>MAX_ITER := 4, DROP_RATIO := 150\<rparr>)
      [900, 10, 30, 20] = Inl OverRead"
proof -
  let ?c = "default_config\<lparr>MAX_ITER := 4, DROP_RATIO := 25\<rparr>" and ?r = "[900, 10, 30, 20] :: 32 word list"
  let ?d = "default_config\<lparr>MAX_ITER := 4, DROP_RATIO := 150\<rparr>"
  have idx: "DROP_IDX ?c 4 = 1" "DROP_IDX ?d 4 = 6" by (simp_all add: DROP_IDX_def)
  have h: "cmp_defined ?r" "length ?r = unat (MAX_ITER ?c)" "length ?r = unat (MAX_ITER ?d)" "length ?r \<le> 2147483647"
    by (simp_all add: cmp_defined_def cmpfunc_def)
  have k: "[20, 30] = kept_points ?c ?r" by (simp add: kept_points_def idx)
  have m: "25 = sum_list (map unat [20 :: 32 word, 30]) div length [20 :: 32 word, 30]"
    by (simp add: numeral_2_eq_2 [symmetric])
  show ?thesis
    using summary_correct [OF insertion_qsort_ok h(1,2,4) k m, of "\<lambda>a. ucast a"]
      summary_correct [OF insertion_qsort_ok h(1,3,4) refl refl, of "\<lambda>a. ucast a"]
    by (simp add: idx numeral_2_eq_2 [symmetric])
qed

end
