(* ===== verification/BenchThreads.thy ===== *)
theory BenchThreads
  imports Main
begin

section \<open>The threads of the benchmark\<close>

text \<open>
  \<^verbatim>\<open>src/mqtt.c\<close>: the publisher threads, the subscriber threads and the receive thread of the client
  library, which runs the callbacks \<^verbatim>\<open>delivered\<close> and \<^verbatim>\<open>msgarrvd\<close> one at a time, each as a step
  relation, and their interleaving \<open>bench_step\<close>. They share the three semaphores, \<^verbatim>\<open>deliveredtoken\<close>
  and the connection, which can be lost. A step is one access to what is shared; what a thread does
  alone (encoding, sleeping, logging) is theory \<open>Benchmark\<close> or has no effect here. A semaphore is its
  value; \<^verbatim>\<open>main\<close> destroys the semaphores while the threads use them, which is undefined, so the
  relation describes the program with the semaphores left alone.

  Of the client library a step keeps what the benchmark can see of a call. A call takes the lock of the
  library, which the receive thread holds while it runs \<^verbatim>\<open>delivered\<close>, so it returns only when no
  \<^verbatim>\<open>delivered\<close> is under way. It can fail at any time, and it fails when there is no connection. The
  session is a clean one: when the connection is lost, no published message is left to be confirmed.
\<close>

subsection \<open>States and steps\<close>

text \<open>Where a publisher stands: before the subscription to \<^verbatim>\<open>pubkill\<close>, before the reset of
  \<^verbatim>\<open>deliveredtoken\<close>, before \<^verbatim>\<open>MQTTClient_publishMessage\<close>, in the loop that waits for its token, before
  \<^verbatim>\<open>sem_post\<close>, before \<^verbatim>\<open>sem_trywait\<close>, before the end of the subscription, at the end.\<close>

datatype publisher = PSubscribe | PReset | PPublish | PSpin int | PPost | PTest | PUnsubscribe | PDone

datatype subscriber = SSubscribe | SWait | SPost | SUnsubscribe | SDone

text \<open>The receive thread: free, in \<^verbatim>\<open>delivered\<close> before \<^verbatim>\<open>sem_wait\<close>, and before the assignment.\<close>

datatype callback = CIdle | CWait int | CSet int

record threads =
  pub :: "nat \<Rightarrow> publisher"
  sub :: "nat \<Rightarrow> subscriber"
  cb :: callback
  connected :: bool
  exited :: bool                  \<comment> \<open>a thread has called \<^verbatim>\<open>exit\<close>\<close>
  unconfirmed :: "int list"       \<comment> \<open>tokens published and not yet confirmed by the broker\<close>
  deliveredtoken :: int
  qos1_pubmutex :: nat
  sem_stop :: nat                 \<comment> \<open>\<^verbatim>\<open>stop_publish\<close>\<close>
  sem_done :: nat                 \<comment> \<open>\<^verbatim>\<open>done_receiving\<close>\<close>
  arrived :: nat                  \<comment> \<open>messages seen by \<^verbatim>\<open>msgarrvd\<close>; its counter is this modulo \<open>2 ^ 32\<close>\<close>

definition start_threads :: threads where
  "start_threads = \<lparr>pub = \<lambda>_. PSubscribe, sub = \<lambda>_. SSubscribe, cb = CIdle, connected = True, exited = False,
     unconfirmed = [], deliveredtoken = -1, qos1_pubmutex = 1, sem_stop = 0, sem_done = 0, arrived = 0\<rparr>"

abbreviation goto_pub :: "nat \<Rightarrow> publisher \<Rightarrow> threads \<Rightarrow> threads" where
  "goto_pub i p s \<equiv> s\<lparr>pub := (pub s)(i := p)\<rparr>"

abbreviation goto_sub :: "nat \<Rightarrow> subscriber \<Rightarrow> threads \<Rightarrow> threads" where
  "goto_sub j p s \<equiv> s\<lparr>sub := (sub s)(j := p)\<rparr>"

text \<open>The session is closed: the connection is gone and, the session being clean, every message.\<close>

definition lose_connection :: "threads \<Rightarrow> threads" where
  "lose_connection s = s\<lparr>connected := False, unconfirmed := []\<rparr>"

text \<open>
  The macro \<^verbatim>\<open>PUBLISH_MESSAGE\<close> in publisher \<open>i\<close>; \<open>acked\<close> says whether the QoS is not 0. The token of a
  message is a message id that no unconfirmed message has. When sending fails for a QoS above 0, the
  call closes the session and returns success.
\<close>

inductive PUBLISH_MESSAGE :: "bool \<Rightarrow> nat \<Rightarrow> threads \<Rightarrow> threads \<Rightarrow> bool"
  for acked :: bool and i :: nat where
  publish: "pub s i = PPublish \<Longrightarrow> cb s = CIdle \<Longrightarrow> connected s \<Longrightarrow> acked \<Longrightarrow> 1 \<le> t \<Longrightarrow> t \<le> 65535 \<Longrightarrow>
    t \<notin> set (unconfirmed s) \<Longrightarrow>
    PUBLISH_MESSAGE acked i s ((goto_pub i (PSpin t) s)\<lparr>unconfirmed := unconfirmed s @ [t]\<rparr>)"
| publish_lost: "pub s i = PPublish \<Longrightarrow> cb s = CIdle \<Longrightarrow> connected s \<Longrightarrow> acked \<Longrightarrow> 1 \<le> t \<Longrightarrow> t \<le> 65535 \<Longrightarrow>
    t \<notin> set (unconfirmed s) \<Longrightarrow>
    PUBLISH_MESSAGE acked i s (lose_connection (goto_pub i (PSpin t) s))"
| publish0: "pub s i = PPublish \<Longrightarrow> cb s = CIdle \<Longrightarrow> connected s \<Longrightarrow> \<not> acked \<Longrightarrow>
    PUBLISH_MESSAGE acked i s (goto_pub i PTest s)"
| publish_fails: "pub s i = PPublish \<Longrightarrow> cb s = CIdle \<Longrightarrow> PUBLISH_MESSAGE acked i s (s\<lparr>exited := True\<rparr>)"
| confirmed: "pub s i = PSpin t \<Longrightarrow> deliveredtoken s = t \<Longrightarrow> PUBLISH_MESSAGE acked i s (goto_pub i PPost s)"
| post: "pub s i = PPost \<Longrightarrow>
    PUBLISH_MESSAGE acked i s ((goto_pub i PTest s)\<lparr>qos1_pubmutex := qos1_pubmutex s + 1\<rparr>)"

text \<open>The thread of publisher \<open>i\<close>, with the macros \<^verbatim>\<open>SUBSCRIBE\<close> and \<^verbatim>\<open>UNSUBSCRIBE\<close> expanded.\<close>

inductive publish_thread :: "bool \<Rightarrow> nat \<Rightarrow> threads \<Rightarrow> threads \<Rightarrow> bool"
  for acked :: bool and i :: nat where
  subscribe: "pub s i = PSubscribe \<Longrightarrow> cb s = CIdle \<Longrightarrow> connected s \<Longrightarrow>
    publish_thread acked i s (goto_pub i PReset s)"
| subscribe_fails: "pub s i = PSubscribe \<Longrightarrow> cb s = CIdle \<Longrightarrow> publish_thread acked i s (s\<lparr>exited := True\<rparr>)"
| reset: "pub s i = PReset \<Longrightarrow> publish_thread acked i s ((goto_pub i PPublish s)\<lparr>deliveredtoken := 0\<rparr>)"
| message: "PUBLISH_MESSAGE acked i s s' \<Longrightarrow> publish_thread acked i s s'"
| again: "pub s i = PTest \<Longrightarrow> sem_stop s = 0 \<Longrightarrow> publish_thread acked i s (goto_pub i PReset s)"
| stop: "pub s i = PTest \<Longrightarrow> sem_stop s = Suc k \<Longrightarrow>
    publish_thread acked i s ((goto_pub i PUnsubscribe s)\<lparr>sem_stop := k\<rparr>)"
| unsubscribe: "pub s i = PUnsubscribe \<Longrightarrow> cb s = CIdle \<Longrightarrow> connected s \<Longrightarrow>
    publish_thread acked i s (goto_pub i PDone s)"
| unsubscribe_fails: "pub s i = PUnsubscribe \<Longrightarrow> cb s = CIdle \<Longrightarrow> publish_thread acked i s (s\<lparr>exited := True\<rparr>)"

text \<open>The thread of subscriber \<open>j\<close>.\<close>

inductive subscribe_thread :: "nat \<Rightarrow> threads \<Rightarrow> threads \<Rightarrow> bool"
  for j :: nat where
  subscribe: "sub s j = SSubscribe \<Longrightarrow> cb s = CIdle \<Longrightarrow> connected s \<Longrightarrow> subscribe_thread j s (goto_sub j SWait s)"
| subscribe_fails: "sub s j = SSubscribe \<Longrightarrow> cb s = CIdle \<Longrightarrow> subscribe_thread j s (s\<lparr>exited := True\<rparr>)"
| wait: "sub s j = SWait \<Longrightarrow> sem_done s = Suc k \<Longrightarrow> subscribe_thread j s ((goto_sub j SPost s)\<lparr>sem_done := k\<rparr>)"
| post: "sub s j = SPost \<Longrightarrow> subscribe_thread j s ((goto_sub j SUnsubscribe s)\<lparr>sem_stop := sem_stop s + 1\<rparr>)"
| unsubscribe: "sub s j = SUnsubscribe \<Longrightarrow> cb s = CIdle \<Longrightarrow> connected s \<Longrightarrow> subscribe_thread j s (goto_sub j SDone s)"
| unsubscribe_fails: "sub s j = SUnsubscribe \<Longrightarrow> cb s = CIdle \<Longrightarrow> subscribe_thread j s (s\<lparr>exited := True\<rparr>)"

text \<open>
  The callbacks, in the receive thread. The library calls \<^verbatim>\<open>delivered\<close> for every PUBACK and PUBCOMP,
  whatever its id; without \<open>dup\<close> the broker confirms what was published and nothing twice. When the
  thread finds the connection lost it closes the session; \<^verbatim>\<open>connlost\<close> only prints. A message that was
  taken from the library before the connection was lost can still be handled after it.
\<close>

inductive callbacks :: "bool \<Rightarrow> nat \<Rightarrow> threads \<Rightarrow> threads \<Rightarrow> bool"
  for dup :: bool and max_iter :: nat where
  delivered: "cb s = CIdle \<Longrightarrow> connected s \<Longrightarrow> t \<in> set (unconfirmed s) \<or> dup \<and> 1 \<le> t \<and> t \<le> 65535 \<Longrightarrow>
    callbacks dup max_iter s (s\<lparr>cb := CWait t, unconfirmed := remove1 t (unconfirmed s)\<rparr>)"
| delivered_wait: "cb s = CWait t \<Longrightarrow> qos1_pubmutex s = Suc k \<Longrightarrow>
    callbacks dup max_iter s (s\<lparr>cb := CSet t, qos1_pubmutex := k\<rparr>)"
| delivered_set: "cb s = CSet t \<Longrightarrow> callbacks dup max_iter s (s\<lparr>cb := CIdle, deliveredtoken := t\<rparr>)"
| pubkill: "cb s = CIdle \<Longrightarrow> callbacks dup max_iter s (s\<lparr>sem_stop := sem_stop s + 1\<rparr>)"
| msgarrvd: "cb s = CIdle \<Longrightarrow> callbacks dup max_iter s (s\<lparr>arrived := arrived s + 1,
    sem_done := sem_done s + (if arrived s mod 2 ^ 32 = max_iter then 1 else 0)\<rparr>)"
| connlost: "cb s = CIdle \<Longrightarrow> connected s \<Longrightarrow> callbacks dup max_iter s (lose_connection s)"

text \<open>\<open>n\<close> publishers and \<open>m\<close> subscribers; \<^verbatim>\<open>exit\<close> ends all threads.\<close>

definition bench_step :: "nat \<Rightarrow> nat \<Rightarrow> bool \<Rightarrow> bool \<Rightarrow> nat \<Rightarrow> threads \<Rightarrow> threads \<Rightarrow> bool" where
  "bench_step n m acked dup max_iter s s' \<longleftrightarrow> \<not> exited s \<and>
     ((\<exists>i<n. publish_thread acked i s s') \<or> (\<exists>j<m. subscribe_thread j s s') \<or> callbacks dup max_iter s s')"

lemma bench_stepI:
  "\<not> exited s \<Longrightarrow> i < n \<Longrightarrow> publish_thread acked i s s' \<Longrightarrow> bench_step n m acked dup max_iter s s'"
  "\<not> exited s \<Longrightarrow> j < m \<Longrightarrow> subscribe_thread j s s' \<Longrightarrow> bench_step n m acked dup max_iter s s'"
  "\<not> exited s \<Longrightarrow> callbacks dup max_iter s s' \<Longrightarrow> bench_step n m acked dup max_iter s s'"
  by (auto simp: bench_step_def)

definition reachable :: "nat \<Rightarrow> nat \<Rightarrow> bool \<Rightarrow> bool \<Rightarrow> nat \<Rightarrow> threads \<Rightarrow> bool" where
  "reachable n m acked dup max_iter s \<longleftrightarrow> (bench_step n m acked dup max_iter)\<^sup>*\<^sup>* start_threads s"

lemma reachable_start [simp]: "reachable n m acked dup max_iter start_threads"
  by (simp add: reachable_def)

lemma reachable_step: "reachable n m acked dup max_iter s \<Longrightarrow> bench_step n m acked dup max_iter s s' \<Longrightarrow>
    reachable n m acked dup max_iter s'"
  by (simp add: reachable_def rtranclp.rtrancl_into_rtrancl)

lemma reachable_induct [consumes 1, case_names start step]:
  assumes "reachable n m acked dup max_iter s" "P start_threads"
    and "\<And>s s'. reachable n m acked dup max_iter s \<Longrightarrow> P s \<Longrightarrow> bench_step n m acked dup max_iter s s' \<Longrightarrow> P s'"
  shows "P s"
  using assms(1) unfolding reachable_def
  by (induction rule: rtranclp_induct) (use assms(2,3) in \<open>auto simp: reachable_def\<close>)

lemmas steps = publish_thread.simps PUBLISH_MESSAGE.simps subscribe_thread.simps callbacks.simps lose_connection_def

subsection \<open>One publisher\<close>

text \<open>
  The states of the handshake: outside it nothing is unconfirmed and the semaphore is free; while
  the publisher waits, its message is with the broker, with the callback, confirmed, or lost with the
  connection.
\<close>

definition quiet :: "nat \<Rightarrow> threads \<Rightarrow> bool" where
  "quiet k s \<longleftrightarrow> cb s = CIdle \<and> unconfirmed s = [] \<and> qos1_pubmutex s = k"

definition handshake :: "threads \<Rightarrow> bool" where
  "handshake s = (case pub s 0 of
       PPublish \<Rightarrow> quiet 1 s \<and> deliveredtoken s = 0
     | PSpin t \<Rightarrow> 1 \<le> t \<and>
         (connected s \<and> cb s = CIdle \<and> unconfirmed s = [t] \<and> qos1_pubmutex s = 1 \<and> deliveredtoken s = 0 \<or>
          connected s \<and> cb s = CWait t \<and> unconfirmed s = [] \<and> qos1_pubmutex s = 1 \<and> deliveredtoken s = 0 \<or>
          connected s \<and> cb s = CSet t \<and> unconfirmed s = [] \<and> qos1_pubmutex s = 0 \<and> deliveredtoken s = 0 \<or>
          quiet 0 s \<and> deliveredtoken s = t \<or>
          \<not> connected s \<and> quiet 1 s \<and> deliveredtoken s = 0)
     | PPost \<Rightarrow> quiet 0 s
     | _ \<Rightarrow> quiet 1 s)"

lemma handshake_callbacks: "callbacks False max_iter s s' \<Longrightarrow> handshake s \<Longrightarrow> handshake s'"
  by (erule callbacks.cases) (auto simp: handshake_def quiet_def lose_connection_def split: publisher.splits)

lemma handshake_message: "PUBLISH_MESSAGE True 0 s s' \<Longrightarrow> handshake s \<Longrightarrow> handshake s'"
  by (erule PUBLISH_MESSAGE.cases) (auto simp: handshake_def quiet_def lose_connection_def)

lemma handshake_publisher: "publish_thread True 0 s s' \<Longrightarrow> handshake s \<Longrightarrow> handshake s'"
  by (erule publish_thread.cases) (auto simp: handshake_def quiet_def dest: handshake_message)

lemma handshake_subscriber: "subscribe_thread j s s' \<Longrightarrow> handshake s \<Longrightarrow> handshake s'"
  by (erule subscribe_thread.cases) (auto simp: handshake_def quiet_def split: publisher.splits)

lemma handshake_step: "bench_step 1 m True False max_iter s s' \<Longrightarrow> handshake s \<Longrightarrow> handshake s'"
  using handshake_callbacks handshake_publisher handshake_subscriber by (auto simp: bench_step_def)

lemma handshake_start: "handshake start_threads"
  by (simp add: start_threads_def handshake_def quiet_def)

lemma handshake_reachable:
  assumes "reachable 1 m True False max_iter s"
  shows "handshake s"
  using assms by (induction rule: reachable_induct) (auto intro: handshake_start handshake_step)












subsection \<open>Two publishers\<close>

text \<open>States with two publishers and a waiting subscriber.\<close>

definition duo :: "publisher \<Rightarrow> publisher \<Rightarrow> callback \<Rightarrow> int list \<Rightarrow> int \<Rightarrow> nat \<Rightarrow> threads" where
  "duo p0 p1 c u d q = start_threads\<lparr>pub := (\<lambda>_. PSubscribe)(0 := p0, 1 := p1),
     sub := (\<lambda>_. SSubscribe)(0 := SWait), cb := c, unconfirmed := u, deliveredtoken := d, qos1_pubmutex := q\<rparr>"

lemma duo_simps [simp]:
  "pub (duo p0 p1 c u d q) 0 = p0" "pub (duo p0 p1 c u d q) 1 = p1" "pub (duo p0 p1 c u d q) (Suc 0) = p1"
  "cb (duo p0 p1 c u d q) = c" "unconfirmed (duo p0 p1 c u d q) = u" "deliveredtoken (duo p0 p1 c u d q) = d"
  "qos1_pubmutex (duo p0 p1 c u d q) = q" "sub (duo p0 p1 c u d q) 0 = SWait" "sem_done (duo p0 p1 c u d q) = 0"
  "connected (duo p0 p1 c u d q)" "sem_stop (duo p0 p1 c u d q) = 0" "\<not> exited (duo p0 p1 c u d q)"
  by (simp_all add: duo_def start_threads_def)

lemma duo_update:
  "(duo p0 p1 c u d q)\<lparr>pub := (pub (duo p0 p1 c u d q))(0 := p)\<rparr> = duo p p1 c u d q"
  "(duo p0 p1 c u d q)\<lparr>pub := (pub (duo p0 p1 c u d q))(1 := p)\<rparr> = duo p0 p c u d q"
  "(duo p0 p1 c u d q)\<lparr>cb := c'\<rparr> = duo p0 p1 c' u d q"
  "(duo p0 p1 c u d q)\<lparr>unconfirmed := u'\<rparr> = duo p0 p1 c u' d q"
  "(duo p0 p1 c u d q)\<lparr>deliveredtoken := d'\<rparr> = duo p0 p1 c u d' q"
  "(duo p0 p1 c u d q)\<lparr>qos1_pubmutex := q'\<rparr> = duo p0 p1 c u d q'"
  by (auto intro!: threads.equality simp: duo_def start_threads_def)

lemma duo_publisher:
  assumes "i < n" "pub (duo p0 p1 CIdle u d q) i = p"
  shows "p = PSubscribe \<Longrightarrow> bench_step n m True dup max_iter (duo p0 p1 CIdle u d q) (goto_pub i PReset (duo p0 p1 CIdle u d q))"
    "p = PReset \<Longrightarrow> bench_step n m True dup max_iter (duo p0 p1 CIdle u d q)
      ((goto_pub i PPublish (duo p0 p1 CIdle u d q))\<lparr>deliveredtoken := 0\<rparr>)"
    "p = PPublish \<Longrightarrow> 1 \<le> t \<Longrightarrow> t \<le> 65535 \<Longrightarrow> t \<notin> set u \<Longrightarrow> bench_step n m True dup max_iter (duo p0 p1 CIdle u d q)
      ((goto_pub i (PSpin t) (duo p0 p1 CIdle u d q))\<lparr>unconfirmed := u @ [t]\<rparr>)"
    "p = PSpin d \<Longrightarrow> bench_step n m True dup max_iter (duo p0 p1 CIdle u d q) (goto_pub i PPost (duo p0 p1 CIdle u d q))"
    "p = PPost \<Longrightarrow> bench_step n m True dup max_iter (duo p0 p1 CIdle u d q)
      ((goto_pub i PTest (duo p0 p1 CIdle u d q))\<lparr>qos1_pubmutex := q + 1\<rparr>)"
    "p = PTest \<Longrightarrow> bench_step n m True dup max_iter (duo p0 p1 CIdle u d q) (goto_pub i PReset (duo p0 p1 CIdle u d q))"
  using bench_stepI(1) [OF _ assms(1) publish_thread.subscribe] bench_stepI(1) [OF _ assms(1) publish_thread.reset]
    bench_stepI(1) [OF _ assms(1) publish_thread.message, OF _ PUBLISH_MESSAGE.publish, of "duo p0 p1 CIdle u d q" True t]
    bench_stepI(1) [OF _ assms(1) publish_thread.message, OF _ PUBLISH_MESSAGE.confirmed]
    bench_stepI(1) [OF _ assms(1) publish_thread.message, OF _ PUBLISH_MESSAGE.post, of "duo p0 p1 CIdle u d q"]
    bench_stepI(1) [OF _ assms(1) publish_thread.again] assms(2)
  by simp_all

lemmas duo_first = duo_publisher [of 0, unfolded duo_update, simplified]
  and duo_second = duo_publisher [of 1, unfolded duo_update, simplified]

lemma duo_callback:
  "t \<in> set u \<or> dup \<and> 1 \<le> t \<and> t \<le> 65535 \<Longrightarrow>
    bench_step n m True dup max_iter (duo p0 p1 CIdle u d q) (duo p0 p1 (CWait t) (remove1 t u) d q)"
  "bench_step n m True dup max_iter (duo p0 p1 (CWait t) u d (Suc q)) (duo p0 p1 (CSet t) u d q)"
  "bench_step n m True dup max_iter (duo p0 p1 (CSet t) u d q) (duo p0 p1 CIdle u t q)"
  using callbacks.delivered [of "duo p0 p1 CIdle u d q" t dup max_iter]
    callbacks.delivered_wait [of "duo p0 p1 (CWait t) u d (Suc q)" t q dup max_iter]
    callbacks.delivered_set [of "duo p0 p1 (CSet t) u d q" t dup max_iter]
  unfolding duo_update by (auto intro: bench_stepI(3))

lemma duo_start: "bench_step n 1 True dup max_iter start_threads (duo PSubscribe PSubscribe CIdle [] (-1) 1)"
proof -
  have "goto_sub 0 SWait start_threads = duo PSubscribe PSubscribe CIdle [] (-1) 1"
    by (simp add: duo_def start_threads_def fun_upd_idem)
  with subscribe_thread.subscribe [of start_threads 0] show ?thesis
    by (auto simp: start_threads_def intro: bench_stepI(2))
qed

text \<open>The first publisher publishes its first message, and the callback confirms it.\<close>

lemma duo_confirmed:
  assumes "0 < n" "reachable n 1 True dup max_iter (duo PReset p1 CIdle [] d 1)"
  shows "reachable n 1 True dup max_iter (duo (PSpin 1) p1 CIdle [] 1 0)"
proof -
  note step = reachable_step [of n 1 True dup max_iter]
  have "reachable n 1 True dup max_iter (duo PPublish p1 CIdle [] 0 1)"
    using assms by (intro step [OF _ duo_first(2)]) auto
  then have "reachable n 1 True dup max_iter (duo (PSpin 1) p1 CIdle [1] 0 1)"
    by (rule step) (use assms(1) duo_first(3) [where t = 1 and u = "[]"] in simp)
  then have "reachable n 1 True dup max_iter (duo (PSpin 1) p1 (CWait 1) [] 0 1)"
    by (rule step) (use duo_callback(1) [where t = 1 and u = "[1]"] in simp)
  then show ?thesis using duo_callback(2) [where q = 0] by (intro step [OF step duo_callback(3)]) simp_all
qed

text \<open>The fatal interleaving.\<close>

lemma duo_reachable: "reachable 2 1 True dup max_iter (duo (PSpin 1) (PSpin 2) (CWait 2) [] 0 0)"
proof -
  note step = reachable_step [of 2 1 True dup max_iter]
  have "reachable 2 1 True dup max_iter (duo PReset PReset CIdle [] (-1) 1)"
    by (rule step [OF step [OF step [OF reachable_start duo_start] duo_first(1)] duo_second(1)]) simp_all
  then have "reachable 2 1 True dup max_iter (duo (PSpin 1) PReset CIdle [] 1 0)" by (intro duo_confirmed) simp_all
  then have "reachable 2 1 True dup max_iter (duo (PSpin 1) PPublish CIdle [] 0 0)"
    by (rule step) (simp add: duo_second(2))
  then have "reachable 2 1 True dup max_iter (duo (PSpin 1) (PSpin 2) CIdle [2] 0 0)"
    by (rule step) (use duo_second(3) [where t = 2 and u = "[]"] in simp)
  then show ?thesis
    by (rule step) (use duo_callback(1) [where t = 2 and u = "[2]"] in simp)
qed

text \<open>One publisher whose first message is confirmed twice.\<close>

lemma twice_reachable: "reachable 1 1 True True max_iter (duo (PSpin 2) PSubscribe (CWait 2) [] 1 0)"
proof -
  note step = reachable_step [of 1 1 True True max_iter]
  have "reachable 1 1 True True max_iter (duo PReset PSubscribe CIdle [] (-1) 1)"
    by (rule step [OF step [OF reachable_start duo_start] duo_first(1)]) simp_all
  then have "reachable 1 1 True True max_iter (duo (PSpin 1) PSubscribe CIdle [] 1 0)" by (intro duo_confirmed) simp_all
  then have "reachable 1 1 True True max_iter (duo PPost PSubscribe CIdle [] 1 0)"
    by (rule step) (simp add: duo_first(4))
  then have "reachable 1 1 True True max_iter (duo PTest PSubscribe CIdle [] 1 1)"
    by (rule step) (use duo_first(5) [where q = 0] in simp)
  then have "reachable 1 1 True True max_iter (duo PReset PSubscribe CIdle [] 1 1)"
    by (rule step) (simp add: duo_first(6))
  then have "reachable 1 1 True True max_iter (duo PPublish PSubscribe CIdle [] 0 1)"
    by (rule step) (simp add: duo_first(2))
  then have "reachable 1 1 True True max_iter (duo (PSpin 2) PSubscribe CIdle [2] 0 1)"
    by (rule step) (use duo_first(3) [where t = 2 and u = "[]"] in simp)
  then have "reachable 1 1 True True max_iter (duo (PSpin 2) PSubscribe (CWait 1) [2] 0 1)"
    by (rule step) (use duo_callback(1) [where t = 1 and u = "[2]"] in simp)
  then have "reachable 1 1 True True max_iter (duo (PSpin 2) PSubscribe CIdle [2] 1 0)"
    using duo_callback(2) [where q = 0] by (intro step [OF step duo_callback(3)]) simp_all
  then show ?thesis
    by (rule step) (use duo_callback(1) [where t = 2 and u = "[2]"] in simp)
qed

subsection \<open>Subscribers\<close>

definition woken :: "threads \<Rightarrow> nat set" where
  "woken s = {j. sub s j \<in> {SPost, SUnsubscribe, SDone}}"

definition counted :: "nat \<Rightarrow> threads \<Rightarrow> bool" where
  "counted max_iter s \<longleftrightarrow> finite (woken s) \<and> (arrived s \<le> 2 ^ 32 \<longrightarrow>
     sem_done s + card (woken s) = (if max_iter < arrived s then 1 else 0))"

lemma woken_goto [simp]:
  "woken (goto_sub j SPost s) = insert j (woken s)" "woken (goto_sub j SUnsubscribe s) = insert j (woken s)"
  "woken (goto_sub j SDone s) = insert j (woken s)"
  "sub s j = SSubscribe \<Longrightarrow> woken (goto_sub j SWait s) = woken s"
  by (auto simp: woken_def)

lemma woken_other [simp]:
  "woken (s\<lparr>sem_done := a\<rparr>) = woken s" "woken (s\<lparr>sem_stop := a\<rparr>) = woken s" "woken (s\<lparr>pub := p\<rparr>) = woken s"
  "woken (s\<lparr>cb := c\<rparr>) = woken s" "woken (s\<lparr>unconfirmed := u\<rparr>) = woken s" "woken (s\<lparr>deliveredtoken := t\<rparr>) = woken s"
  "woken (s\<lparr>qos1_pubmutex := a\<rparr>) = woken s" "woken (s\<lparr>arrived := a\<rparr>) = woken s"
  "woken (s\<lparr>exited := e\<rparr>) = woken s" "woken (s\<lparr>connected := e\<rparr>) = woken s"
  by (simp_all add: woken_def)

lemma counted_publisher: "publish_thread acked i s s' \<Longrightarrow> counted max_iter s \<Longrightarrow> counted max_iter s'"
  by (erule publish_thread.cases) (auto elim!: PUBLISH_MESSAGE.cases simp: counted_def lose_connection_def)

lemma counted_subscriber:
  assumes "subscribe_thread j s s'" "counted max_iter s"
  shows "counted max_iter s'"
  using assms(1)
proof cases
  case (wait k)
  then have "j \<notin> woken s" by (simp add: woken_def)
  with wait assms(2) show ?thesis by (auto simp: counted_def)
next
  case post
  then have "j \<in> woken s" by (simp add: woken_def)
  with post assms(2) show ?thesis by (simp add: counted_def insert_absorb)
next
  case unsubscribe
  then have "j \<in> woken s" by (simp add: woken_def)
  with unsubscribe assms(2) show ?thesis by (simp add: counted_def insert_absorb)
qed (use assms(2) in \<open>auto simp: counted_def\<close>)

lemma counted_callbacks:
  assumes "callbacks dup max_iter s s'" "counted max_iter s"
  shows "counted max_iter s'"
  using assms(1)
proof cases
  case msgarrvd
  show ?thesis
  proof (cases "arrived s + 1 \<le> 2 ^ 32")
    case True
    then have "arrived s mod 2 ^ 32 = arrived s" by simp
    with True msgarrvd assms(2) show ?thesis by (auto simp: counted_def)
  next
    case False
    with msgarrvd assms(2) show ?thesis by (auto simp: counted_def)
  qed
qed (use assms(2) in \<open>auto simp: counted_def lose_connection_def\<close>)

lemma counted_reachable:
  assumes "reachable n m acked dup max_iter s"
  shows "counted max_iter s"
  using assms
proof (induction rule: reachable_induct)
  case start
  show ?case by (simp add: counted_def woken_def start_threads_def)
next
  case (step s s')
  then show ?case using counted_publisher counted_subscriber counted_callbacks by (auto simp: bench_step_def)
qed

subsection \<open>Claims\<close>

text \<open>
  C21: With one publisher and a QoS above 0, the handshake between the publisher and the callback
  \<^verbatim>\<open>delivered\<close> keeps them in step in every interleaving, whatever calls fail and when the connection is
  lost, if the broker confirms no message twice: at most one message is unconfirmed, the
  semaphore is never above 1, and whenever the publisher is not waiting for its message every
  message it published has been confirmed and the callback has finished.
\<close>

theorem one_publisher_in_step:
  assumes "reachable 1 m True False max_iter s"
  shows "length (unconfirmed s) \<le> 1 \<and> qos1_pubmutex s \<le> 1 \<and>
    ((\<forall>t. pub s 0 \<noteq> PSpin t) \<longrightarrow> unconfirmed s = [] \<and> cb s = CIdle)"
  using handshake_reachable [OF assms] by (auto simp: handshake_def quiet_def split: publisher.splits)

text \<open>The first message published, and the first message whose sending fails, as states that are reached.\<close>

definition first_message :: threads where
  "first_message = start_threads\<lparr>pub := (\<lambda>_. PSubscribe)(0 := PSpin 1), unconfirmed := [1], deliveredtoken := 0\<rparr>"

definition lost_message :: threads where
  "lost_message = start_threads\<lparr>pub := (\<lambda>_. PSubscribe)(0 := PSpin 1), connected := False, deliveredtoken := 0\<rparr>"

lemma messages_reachable:
  "reachable 1 m True dup max_iter first_message" "reachable 1 m True dup max_iter lost_message"
proof -
  let ?s1 = "goto_pub 0 PReset start_threads" and ?s2 = "start_threads\<lparr>pub := (\<lambda>_. PSubscribe)(0 := PPublish), deliveredtoken := 0\<rparr>"
  note step = reachable_step [of 1 m True dup max_iter] and one = bench_stepI(1) [of _ 0 1]
  have "publish_thread True 0 start_threads ?s1" by (intro publish_thread.subscribe) (simp_all add: start_threads_def)
  then have "reachable 1 m True dup max_iter ?s1" by (intro step [OF reachable_start] one) (simp_all add: start_threads_def)
  moreover have "publish_thread True 0 ?s1 ?s2"
    using publish_thread.reset [of ?s1 0 True] by (simp add: start_threads_def)
  then have "bench_step 1 m True dup max_iter ?s1 ?s2" by (intro one) (simp_all add: start_threads_def)
  ultimately have r: "reachable 1 m True dup max_iter ?s2" by (rule step)
  have e: "\<not> exited ?s2" by (simp add: start_threads_def)
  have p: "PUBLISH_MESSAGE True 0 ?s2 first_message" "PUBLISH_MESSAGE True 0 ?s2 lost_message"
    using PUBLISH_MESSAGE.publish [of ?s2 0 True 1] PUBLISH_MESSAGE.publish_lost [of ?s2 0 True 1]
    by (simp_all add: first_message_def lost_message_def start_threads_def lose_connection_def)
  from p [THEN publish_thread.message, THEN one [OF e zero_less_one], THEN step [OF r]]
  show "reachable 1 m True dup max_iter first_message" "reachable 1 m True dup max_iter lost_message" .
qed

theorem one_publisher_in_step_witness:
  "length (unconfirmed first_message) \<le> 1 \<and> qos1_pubmutex first_message \<le> 1"
  using one_publisher_in_step [OF messages_reachable(1) [of 0 False 20]] by blast



text \<open>
  C32: With two publishers and a QoS above 0 the benchmark can deadlock. The second publisher resets
  \<^verbatim>\<open>deliveredtoken\<close> after the callback set it for the first and before the first looked: the first
  waits for ever and never posts the semaphore, so the callback for the second waits too, and with
  it the receive thread. No step is possible, and neither publisher has ended.
\<close>

theorem two_publishers_deadlock:
  "\<exists>s. reachable 2 1 True dup max_iter s \<and> pub s 0 = PSpin 1 \<and> pub s 1 = PSpin 2 \<and>
    \<not> exited s \<and> (\<forall>s'. \<not> bench_step 2 1 True dup max_iter s s')"
proof -
  have "\<not> bench_step 2 1 True dup max_iter (duo (PSpin 1) (PSpin 2) (CWait 2) [] 0 0) s'" for s'
    by (auto simp: bench_step_def steps dest!: less_2_cases)
  with duo_reachable show ?thesis by (intro exI [of _ "duo (PSpin 1) (PSpin 2) (CWait 2) [] 0 0"]) simp
qed

text \<open>
  With one publisher the handshake needs a broker that confirms nothing twice: when the confirmation of
  the first message comes again while the publisher waits for the second, \<^verbatim>\<open>delivered\<close> takes the
  semaphore for it, \<^verbatim>\<open>deliveredtoken\<close> is the first token again, and the confirmation of the second
  message waits for a semaphore that nobody posts.
\<close>

theorem duplicate_confirmation_deadlock:
  "\<exists>s. reachable 1 1 True True max_iter s \<and> pub s 0 = PSpin 2 \<and> cb s = CWait 2 \<and> \<not> exited s \<and>
    (\<forall>s'. \<not> bench_step 1 1 True True max_iter s s')"
proof -
  have "\<not> bench_step 1 1 True True max_iter (duo (PSpin 2) PSubscribe (CWait 2) [] 1 0) s'" for s'
    by (auto simp: bench_step_def steps)
  with twice_reachable show ?thesis by (intro exI [of _ "duo (PSpin 2) PSubscribe (CWait 2) [] 1 0"]) simp
qed

text \<open>
  A subscriber ends its subscription only after more than \<open>MAX_ITER\<close> messages have arrived, and
  during the first \<open>2 ^ 32\<close> messages at most one subscriber does: \<^verbatim>\<open>done_receiving\<close> is posted once,
  so with several subscriptions the other threads wait for ever.
\<close>

theorem subscriber_ends_after_messages:
  assumes "reachable n m acked dup max_iter s" "arrived s \<le> 2 ^ 32" "sub s j \<in> {SPost, SUnsubscribe, SDone}"
  shows "max_iter < arrived s \<and> (\<forall>j'. sub s j' \<in> {SPost, SUnsubscribe, SDone} \<longrightarrow> j' = j)"
proof -
  have c: "finite (woken s)" "sem_done s + card (woken s) = (if max_iter < arrived s then 1 else 0)"
    using counted_reachable [OF assms(1)] assms(2) by (auto simp: counted_def)
  have j: "j \<in> woken s" using assms(3) by (simp add: woken_def)
  with c have "0 < card (woken s)" by (auto simp: card_gt_0_iff)
  with c have one: "max_iter < arrived s" "card (woken s) = 1" by (auto split: if_splits)
  have "j' = j" if "sub s j' \<in> {SPost, SUnsubscribe, SDone}" for j'
  proof -
    have "j' \<in> woken s" using that by (simp add: woken_def)
    with j one(2) show ?thesis by (auto simp: card_1_singleton_iff)
  qed
  with one show ?thesis by blast
qed

text \<open>A subscriber that ends after the second message, with \<open>MAX_ITER = 1\<close>.\<close>

definition ended_subscriber :: threads where
  "ended_subscriber = start_threads\<lparr>sub := (\<lambda>_. SSubscribe)(0 := SPost), arrived := 2\<rparr>"

lemma ended_subscriber_reachable: "reachable 0 1 True dup 1 ended_subscriber"
proof -
  let ?s1 = "goto_sub 0 SWait start_threads"
  let ?s2 = "?s1\<lparr>arrived := 1\<rparr>" and ?s3 = "?s1\<lparr>arrived := 2, sem_done := 1\<rparr>"
  have "subscribe_thread 0 start_threads ?s1" by (intro subscribe_thread.subscribe) (simp_all add: start_threads_def)
  then have 1: "bench_step 0 1 True dup 1 start_threads ?s1" by (intro bench_stepI(2)) (simp_all add: start_threads_def)
  have 2: "bench_step 0 1 True dup 1 ?s1 ?s2"
    using callbacks.msgarrvd [of ?s1 dup 1] by (intro bench_stepI(3)) (simp_all add: start_threads_def)
  have 3: "bench_step 0 1 True dup 1 ?s2 ?s3"
    using callbacks.msgarrvd [of ?s2 dup 1] by (intro bench_stepI(3)) (simp_all add: start_threads_def numeral_2_eq_2)
  have "subscribe_thread 0 ?s3 ((goto_sub 0 SPost ?s3)\<lparr>sem_done := 0\<rparr>)"
    by (intro subscribe_thread.wait) (simp_all add: start_threads_def)
  then have 4: "bench_step 0 1 True dup 1 ?s3 ((goto_sub 0 SPost ?s3)\<lparr>sem_done := 0\<rparr>)"
    by (intro bench_stepI(2)) (simp_all add: start_threads_def)
  have "(goto_sub 0 SPost ?s3)\<lparr>sem_done := 0\<rparr> = ended_subscriber"
    by (simp add: ended_subscriber_def start_threads_def)
  with reachable_step [OF reachable_step [OF reachable_step [OF reachable_step [OF reachable_start 1] 2] 3] 4]
  show ?thesis by simp
qed

theorem subscriber_ends_after_messages_witness: "1 < arrived ended_subscriber"
  using subscriber_ends_after_messages [OF ended_subscriber_reachable [of False], of 0]
  by (simp add: ended_subscriber_def)

end
