(* ===== verification/AsyncState.thy ===== *)
theory AsyncState
  imports Client Sorting
begin

section \<open>The asynchronous client: \<^verbatim>\<open>src/include/MQTTAsyncUtils.h\<close>, \<^verbatim>\<open>MQTTAsync.h\<close>\<close>

text \<open>
  The data of the asynchronous API (\<^verbatim>\<open>MQTTAsync.c\<close>, \<^verbatim>\<open>MQTTAsyncUtils.c\<close>): commands, handles, the
  global variables, and the calls of the application's callbacks. The state extends \<open>sys\<close>, so the
  protocol functions work on it as they are. Locking and the trace are not modelled. A pointer to a
  handle is its position in \<open>MQTTAsync_handles\<close>, which is that of its client in
  \<^verbatim>\<open>bstate->clients\<close>.
\<close>

subsection \<open>Codes\<close>

definition MQTTASYNC_SUCCESS :: int where "MQTTASYNC_SUCCESS = 0"
definition MQTTASYNC_FAILURE :: int where "MQTTASYNC_FAILURE = -1"
definition MQTTASYNC_PERSISTENCE_ERROR :: int where "MQTTASYNC_PERSISTENCE_ERROR = -2"
definition MQTTASYNC_DISCONNECTED :: int where "MQTTASYNC_DISCONNECTED = -3"
definition MQTTASYNC_MAX_MESSAGES_INFLIGHT :: int where "MQTTASYNC_MAX_MESSAGES_INFLIGHT = -4"
definition MQTTASYNC_BAD_UTF8_STRING :: int where "MQTTASYNC_BAD_UTF8_STRING = -5"
definition MQTTASYNC_NULL_PARAMETER :: int where "MQTTASYNC_NULL_PARAMETER = -6"
definition MQTTASYNC_TOPICNAME_TRUNCATED :: int where "MQTTASYNC_TOPICNAME_TRUNCATED = -7"
definition MQTTASYNC_BAD_STRUCTURE :: int where "MQTTASYNC_BAD_STRUCTURE = -8"
definition MQTTASYNC_BAD_QOS :: int where "MQTTASYNC_BAD_QOS = -9"
definition MQTTASYNC_NO_MORE_MSGIDS :: int where "MQTTASYNC_NO_MORE_MSGIDS = -10"
definition MQTTASYNC_OPERATION_INCOMPLETE :: int where "MQTTASYNC_OPERATION_INCOMPLETE = -11"
definition MQTTASYNC_MAX_BUFFERED_MESSAGES :: int where "MQTTASYNC_MAX_BUFFERED_MESSAGES = -12"
definition MQTTASYNC_SSL_NOT_SUPPORTED :: int where "MQTTASYNC_SSL_NOT_SUPPORTED = -13"
definition MQTTASYNC_BAD_PROTOCOL :: int where "MQTTASYNC_BAD_PROTOCOL = -14"
definition MQTTASYNC_BAD_MQTT_OPTION :: int where "MQTTASYNC_BAD_MQTT_OPTION = -15"
definition MQTTASYNC_WRONG_MQTT_VERSION :: int where "MQTTASYNC_WRONG_MQTT_VERSION = -16"
definition MQTTASYNC_0_LEN_WILL_TOPIC :: int where "MQTTASYNC_0_LEN_WILL_TOPIC = -17"
definition MQTTASYNC_COMMAND_IGNORED :: int where "MQTTASYNC_COMMAND_IGNORED = -18"
definition MQTTASYNC_MAX_BUFFERED :: int where "MQTTASYNC_MAX_BUFFERED = -19"
definition MQTTASYNC_TRUE :: int where "MQTTASYNC_TRUE = 1"

named_theorems async_codes \<open>return codes of the asynchronous client\<close>

lemmas [async_codes] = MQTTASYNC_SUCCESS_def MQTTASYNC_FAILURE_def MQTTASYNC_PERSISTENCE_ERROR_def
  MQTTASYNC_DISCONNECTED_def MQTTASYNC_MAX_MESSAGES_INFLIGHT_def MQTTASYNC_BAD_UTF8_STRING_def
  MQTTASYNC_NULL_PARAMETER_def MQTTASYNC_TOPICNAME_TRUNCATED_def MQTTASYNC_BAD_STRUCTURE_def
  MQTTASYNC_BAD_QOS_def MQTTASYNC_NO_MORE_MSGIDS_def MQTTASYNC_OPERATION_INCOMPLETE_def
  MQTTASYNC_MAX_BUFFERED_MESSAGES_def MQTTASYNC_SSL_NOT_SUPPORTED_def MQTTASYNC_BAD_PROTOCOL_def
  MQTTASYNC_BAD_MQTT_OPTION_def MQTTASYNC_WRONG_MQTT_VERSION_def MQTTASYNC_0_LEN_WILL_TOPIC_def
  MQTTASYNC_COMMAND_IGNORED_def MQTTASYNC_MAX_BUFFERED_def MQTTASYNC_TRUE_def

text \<open>\<^verbatim>\<open>MQTTAsync_strerror\<close>; a code without a text is printed into a buffer of 30 bytes.\<close>

definition MQTTAsync_strerror :: "int \<Rightarrow> string" where
  "MQTTAsync_strerror code =
     (if code = MQTTASYNC_SUCCESS then ''Success''
      else if code = MQTTASYNC_FAILURE then ''Failure''
      else if code = MQTTASYNC_PERSISTENCE_ERROR then ''Persistence error''
      else if code = MQTTASYNC_DISCONNECTED then ''Disconnected''
      else if code = MQTTASYNC_MAX_MESSAGES_INFLIGHT then ''Maximum in-flight messages amount reached''
      else if code = MQTTASYNC_BAD_UTF8_STRING then ''Invalid UTF8 string''
      else if code = MQTTASYNC_NULL_PARAMETER then ''Invalid (NULL) parameter''
      else if code = MQTTASYNC_TOPICNAME_TRUNCATED then ''Topic containing NULL characters has been truncated''
      else if code = MQTTASYNC_BAD_STRUCTURE then ''Bad structure''
      else if code = MQTTASYNC_BAD_QOS then ''Invalid QoS value''
      else if code = MQTTASYNC_NO_MORE_MSGIDS then ''Too many pending commands''
      else if code = MQTTASYNC_OPERATION_INCOMPLETE then ''Operation discarded before completion''
      else if code = MQTTASYNC_MAX_BUFFERED_MESSAGES then ''No more messages can be buffered''
      else if code = MQTTASYNC_SSL_NOT_SUPPORTED then ''SSL is not supported''
      else if code = MQTTASYNC_BAD_PROTOCOL then ''Invalid protocol scheme''
      else if code = MQTTASYNC_BAD_MQTT_OPTION then ''Options for wrong MQTT version''
      else if code = MQTTASYNC_WRONG_MQTT_VERSION then ''Client created for another version of MQTT''
      else if code = MQTTASYNC_0_LEN_WILL_TOPIC then ''Zero length will topic on connect''
      else if code = MQTTASYNC_COMMAND_IGNORED then ''Connect or disconnect command ignored''
      else if code = MQTTASYNC_MAX_BUFFERED then ''maxBufferedMessages in the connect options must be >= 0''
      else fst (snprintf 30 (''Unknown error code '' @ show_int code)))"

subsection \<open>Commands\<close>

text \<open>
  The options of a subscription are persisted as they are in memory: 12 bytes, the structure id, the
  version, three members of one byte, and a byte of padding.
\<close>

type_synonym options_memory = bytes

definition options_of :: "options_memory \<Rightarrow> MQTTSubscribe_options" where
  "options_of b = \<lparr>so_noLocal = b ! 8, so_retainAsPublished = b ! 9, so_retainHandling = b ! 10\<rparr>"

definition MQTTSubscribe_options_initializer :: options_memory where
  "MQTTSubscribe_options_initializer =
     map (\<lambda>c. of_char c) ''MQSO'' @ int_bytes 0 @ [0, 0, 0, 0]"

text \<open>
  The type of a command with its member of the union \<open>details\<close>. \<open>NoCommand\<close> has type 0, as in a structure
  that \<^verbatim>\<open>memset\<close> has cleared; it is used as if it were for connecting. A number of topics is the length
  of the list.
\<close>

datatype details =
    NoCommand (currentURI: nat) (conn_MQTTVersion: int)
  | Connect (currentURI: nat) (conn_MQTTVersion: int)
  | Subscribe (sub_topics: "bytes list") (sub_qoss: "int list") (sub_opts: options_memory)
      (sub_optlist: "options_memory list option")
  | Unsubscribe (unsub_topics: "bytes list")
  | PublishCmd (pub_destinationName: "bytes option") (pub_payloadlen: int) (pub_payload: "bytes option")
      (pub_qos: int) (pub_retained: int)
  | Disconnect (dis_internal: bool) (dis_timeout: int) (dis_reasonCode: int)

definition details_type :: "details \<Rightarrow> nat" where
  "details_type d = (case d of NoCommand _ _ \<Rightarrow> 0 | Connect _ _ \<Rightarrow> CONNECT | Subscribe _ _ _ _ \<Rightarrow> SUBSCRIBE
     | Unsubscribe _ \<Rightarrow> UNSUBSCRIBE | PublishCmd _ _ _ _ _ \<Rightarrow> PUBLISH | Disconnect _ _ _ \<Rightarrow> DISCONNECT)"

abbreviation is_publish :: "details \<Rightarrow> bool" where "is_publish \<equiv> is_PublishCmd"

text \<open>Of a callback only whether it is set is kept, with the context it is given.\<close>

record MQTTAsync_command =
  cm_onSuccess :: bool
  cm_onFailure :: bool
  cm_onSuccess5 :: bool
  cm_onFailure5 :: bool
  cm_token :: int
  cm_context :: nat
  cm_start_time :: timeval
  cm_properties :: MQTTProperties
  cm_details :: details

text \<open>
  A queued command is known by its address, which is never given twice. \<open>qc_stored\<close> is the stored
  publication that shares the topic and the payload of a publish that has been started.
\<close>

record MQTTAsync_queuedCommand =
  qc_addr :: nat
  qc_command :: MQTTAsync_command
  qc_client :: nat
  qc_seqno :: nat
  qc_not_restored :: bool
  qc_key :: "key option"
  qc_stored :: "nat option"

definition zero_command :: MQTTAsync_command where
  "zero_command = \<lparr>cm_onSuccess = False, cm_onFailure = False, cm_onSuccess5 = False, cm_onFailure5 = False,
     cm_token = 0, cm_context = 0, cm_start_time = START_TIME_ZERO, cm_properties = MQTTProperties_initializer,
     cm_details = NoCommand 0 0\<rparr>"

definition new_queued :: "nat \<Rightarrow> nat \<Rightarrow> MQTTAsync_command \<Rightarrow> MQTTAsync_queuedCommand" where
  "new_queued a h cmd = \<lparr>qc_addr = a, qc_command = cmd, qc_client = h, qc_seqno = 0, qc_not_restored = False,
     qc_key = None, qc_stored = None\<rparr>"

abbreviation qc_details :: "MQTTAsync_queuedCommand \<Rightarrow> details" where
  "qc_details q \<equiv> cm_details (qc_command q)"

abbreviation qc_token :: "MQTTAsync_queuedCommand \<Rightarrow> int" where
  "qc_token q \<equiv> cm_token (qc_command q)"

subsection \<open>Handles\<close>

record MQTTAsync_createOptions =
  ao_struct_id :: bytes
  ao_struct_version :: int
  ao_sendWhileDisconnected :: int
  ao_maxBufferedMessages :: int
  ao_MQTTVersion :: int
  ao_allowDisconnectedSendAtAnyTime :: int
  ao_deleteOldestMessages :: int
  ao_restoreMessages :: int
  ao_persistQoS0 :: int

record MQTTAsyncs =
  h_serverURI :: "bytes option"
  h_websocket :: bool
  h_cl :: bool
  h_ma :: bool
  h_dc :: bool
  h_clContext :: nat
  h_maContext :: nat
  h_dcContext :: nat
  h_connected :: bool
  h_connected_context :: nat
  h_disconnected :: bool
  h_disconnected_context :: nat
  h_updateConnectOptions :: bool
  h_updateConnectOptions_context :: nat
  h_connect :: MQTTAsync_command
  h_disconnect :: MQTTAsync_command
  h_pending_write :: "nat option"
  h_responses :: "MQTTAsync_queuedCommand list"
  h_command_seqno :: nat
  h_createOptions :: "MQTTAsync_createOptions option"
  h_shouldBeConnected :: bool
  h_noBufferedMessages :: int
  h_automaticReconnect :: bool
  h_minRetryInterval :: int
  h_maxRetryInterval :: int
  h_serverURIs :: "bytes list"
  h_connectTimeout :: int
  h_currentInterval :: int
  h_currentIntervalBase :: int
  h_lastConnectionFailedTime :: timeval
  h_retrying :: bool
  h_reconnectNow :: bool
  h_connectProps :: "MQTTProperties option"
  h_willProps :: "MQTTProperties option"

definition zero_async :: MQTTAsyncs where
  "zero_async = \<lparr>h_serverURI = None, h_websocket = False, h_cl = False, h_ma = False, h_dc = False,
     h_clContext = 0, h_maContext = 0, h_dcContext = 0, h_connected = False, h_connected_context = 0,
     h_disconnected = False, h_disconnected_context = 0, h_updateConnectOptions = False,
     h_updateConnectOptions_context = 0, h_connect = zero_command, h_disconnect = zero_command,
     h_pending_write = None, h_responses = [], h_command_seqno = 0, h_createOptions = None,
     h_shouldBeConnected = False, h_noBufferedMessages = 0, h_automaticReconnect = False,
     h_minRetryInterval = 0, h_maxRetryInterval = 0, h_serverURIs = [], h_connectTimeout = 0,
     h_currentInterval = 0, h_currentIntervalBase = 0, h_lastConnectionFailedTime = START_TIME_ZERO,
     h_retrying = False, h_reconnectNow = False, h_connectProps = None, h_willProps = None\<rparr>"

subsection \<open>Callbacks\<close>

text \<open>What \<open>onSuccess\<close> is told beside the token, and the calls, with the handle they are for.\<close>

datatype success =
    NoData
  | ConnectData "bytes option" int nat
  | PublishData "bytes option" "bytes option" int int int
  | SubscribeData "nat list"
  | UnsubscribeData "nat list"

datatype async_call =
    OnSuccess nat nat int success
  | OnSuccess5 nat nat int int success
  | OnFailure nat nat int int
  | OnFailure5 nat nat int int int nat
  | AsyncConnectionLost nat
  | AsyncMessageArrived nat bytes int MQTTPersistence_message
  | AsyncDeliveryComplete nat int
  | AsyncConnected nat bool
  | AsyncDisconnected nat "byte option"
  | UpdateConnectOptions nat

subsection \<open>The global state\<close>

datatype thread_state = STOPPED | STARTING | RUNNING | STOPPING

text \<open>
  What can happen while a function waits: a step of one of the threads, or a call of the socket module
  for a write that has gone on or is complete. \<open>as_sched\<close> has the steps for each wait; an execution is
  one for every list, so what holds for all holds for every interleaving of the steps.
\<close>

datatype async_event = SendStep | ReceiveStep | WriteContinue int | WriteComplete int int

record ('n, 'f) asys = "('n, 'f) sys" +
  as_handles :: "MQTTAsyncs list"
  as_commands :: "MQTTAsync_queuedCommand list"
  as_initialized :: bool
  as_tostop :: bool
  as_sendThread :: thread_state
  as_receiveThread :: thread_state
  as_lastTimeouts :: timeval      \<comment> \<open>the static variable of \<^verbatim>\<open>MQTTAsync_checkTimeouts\<close>\<close>
  as_lastRetry :: timeval         \<comment> \<open>the static variable of \<^verbatim>\<open>MQTTAsync_retry\<close>\<close>
  as_retryLoopIntervalms :: int
  as_receiveTimeout :: nat        \<comment> \<open>the variable \<open>timeout\<close> of \<^verbatim>\<open>MQTTAsync_receiveThread\<close>\<close>
  as_received :: "(packet option \<times> int \<times> int) option"
                                  \<comment> \<open>what \<^verbatim>\<open>MQTTAsync_receiveThread\<close> has from \<^verbatim>\<open>MQTTAsync_cycle\<close> and not yet looked at\<close>
  as_calls :: "async_call list"
  as_sched :: "async_event list list"

text \<open>
  What the module calls outside the sources, beside \<open>api\<close>: the socket functions with the return code of
  \<^verbatim>\<open>select\<close>, \<^verbatim>\<open>rand\<close> (called until it returns a number below a limit, which is the argument), \<^verbatim>\<open>qsort\<close>,
  and the application's callbacks with a result. \<open>a_updateConnectOptions\<close> gets the user name and the
  password and says whether they are to be replaced, and by what; \<open>None\<close> leaves the password.
\<close>

record ('n, 'f) async_api = "('n, 'f) api" +
  a_getReadySocket :: "nat \<Rightarrow> 'n \<Rightarrow> int \<times> int \<times> 'n"
  a_addPendingWrite :: "int \<Rightarrow> 'n \<Rightarrow> 'n"
  a_clearPendingWrite :: "int \<Rightarrow> 'n \<Rightarrow> 'n"
  a_rand_below :: "nat \<Rightarrow> 'n \<Rightarrow> nat \<times> 'n"
  a_messageArrived :: "async_call list \<Rightarrow> int"
  a_updateConnectOptions :: "async_call list \<Rightarrow> bytes option \<Rightarrow> bytes option \<times> int
      \<Rightarrow> bool \<times> bytes option \<times> (bytes option \<times> int) option"
  a_qsort :: "(key \<Rightarrow> key \<Rightarrow> int) \<Rightarrow> key list \<Rightarrow> key list"
  l_commands :: "MQTTAsync_queuedCommand list_lib"

definition upd_async :: "nat \<Rightarrow> (MQTTAsyncs \<Rightarrow> MQTTAsyncs) \<Rightarrow> ('n, 'f) asys \<Rightarrow> ('n, 'f) asys" where
  "upd_async h f s = s\<lparr>as_handles := (as_handles s)[h := f (as_handles s ! h)]\<rparr>"

definition log_async :: "async_call \<Rightarrow> ('n, 'f) asys \<Rightarrow> ('n, 'f) asys" where
  "log_async c s = s\<lparr>as_calls := as_calls s @ [c]\<rparr>"

definition now_async :: "('n, 'f) async_api \<Rightarrow> ('n, 'f) asys \<Rightarrow> timeval \<times> ('n, 'f) asys" where
  "now_async A s = time_now (a_env A) s"

definition elapsed_async :: "('n, 'f) async_api \<Rightarrow> timeval \<Rightarrow> ('n, 'f) asys \<Rightarrow> nat \<times> ('n, 'f) asys" where
  "elapsed_async A start s =
     (let (ts, n) = clock_gettime (e_net (a_env A)) (g_net s) in (unat (MQTTTime_elapsed ts start), s\<lparr>g_net := n\<rparr>))"

definition sleep_async :: "('n, 'f) async_api \<Rightarrow> nat \<Rightarrow> ('n, 'f) asys \<Rightarrow> ('n, 'f) asys" where
  "sleep_async A ms s = s\<lparr>g_net := sleep A ms (g_net s)\<rparr>"

text \<open>The first handle with a socket.\<close>

definition find_handle :: "('n, 'f) async_api \<Rightarrow> int \<Rightarrow> ('n, 'f) asys \<Rightarrow> nat option" where
  "find_handle A sock s =
     ListFindItem (l_clients (e_lists (a_env A))) (g_clients s) (\<lambda>c. nh_socket (c_net c) = sock)"

text \<open>A new address for a command.\<close>

definition new_addr :: "('n, 'f) asys \<Rightarrow> nat \<times> ('n, 'f) asys" where
  "new_addr s = (g_fresh s, s\<lparr>g_fresh := g_fresh s + 1\<rparr>)"

text \<open>\<^verbatim>\<open>ListDetach\<close> of a command.\<close>

definition detach :: "MQTTAsync_queuedCommand list_lib \<Rightarrow> MQTTAsync_queuedCommand list \<Rightarrow> nat
    \<Rightarrow> MQTTAsync_queuedCommand list" where
  "detach L qs a =
     (case ListFindItem L qs (\<lambda>q. qc_addr q = a) of None \<Rightarrow> qs | Some k \<Rightarrow> ListRemove L qs k)"

end
