(* ===== verification/AsyncCommands.thy ===== *)
theory AsyncCommands
  imports AsyncState
begin

section \<open>The command queue: \<^verbatim>\<open>src/include/MQTTAsyncUtils.c\<close>\<close>

text \<open>
  Commands in the store and in the queue: writing and removing their records, restoring them after
  a crash, adding a command, the message ids of commands, and what is removed from the queue.
\<close>

subsection \<open>Records of commands\<close>

definition command_key :: "int \<Rightarrow> nat \<Rightarrow> key \<times> nat" where
  "command_key MQTTVersion seqno =
     print_queue_key (if MQTTVersion \<ge> MQTTVERSION_5 then PERSISTENCE_V5_COMMAND_KEY else PERSISTENCE_COMMAND_KEY) seqno"

definition MQTTAsync_unpersistCommand :: "'f Clients \<Rightarrow> MQTTAsync_queuedCommand \<Rightarrow> 'f \<Rightarrow> ub + (int \<times> 'f)" where
  "MQTTAsync_unpersistCommand c qcmd fs =
     (let (key, chars) = command_key (c_MQTTVersion c) (qc_seqno qcmd) in
      if chars \<ge> keysize then Inr (MQTTASYNC_PERSISTENCE_ERROR, fs)
      else case c_persistence c of
          None \<Rightarrow> Inl NullDeref
        | Some per \<Rightarrow> Inr (premove per (c_phandle c) key fs))"

text \<open>
  The buffers of a command before its properties. The loop over the topics has the QoS values and,
  in version 5, the options with its index; a single topic has its own.
\<close>

fun topic_buffers :: "bool \<Rightarrow> nat \<Rightarrow> options_memory \<Rightarrow> options_memory list option \<Rightarrow> nat \<Rightarrow> bytes list \<Rightarrow> int list
    \<Rightarrow> ub + bytes list" where
  "topic_buffers v5 n opts optlist i [] qoss = Inr []"
| "topic_buffers v5 n opts optlist i (t # ts) qoss =
     (if length qoss \<le> i then Inl OverRead
      else ub_bind
        (if \<not> v5 then Inr []
         else if n = 1 then Inr [opts]
         else case optlist of None \<Rightarrow> Inl NullDeref
           | Some os \<Rightarrow> if i < length os then Inr [os ! i] else Inl OverRead)
        (\<lambda>o'. ub_bind (topic_buffers v5 n opts optlist (i + 1) ts qoss) (\<lambda>rest.
          Inr ((c_str t @ [0]) # int_bytes (qoss ! i) # o' @ rest))))"

text \<open>The result \<open>None\<close> says that a command of this type is not persisted.\<close>

definition command_buffers :: "bool \<Rightarrow> MQTTAsync_command \<Rightarrow> ub + bytes list option" where
  "command_buffers v5 cmd =
     (let head = [int_bytes (int (details_type (cm_details cmd))), int_bytes (cm_token cmd)] in
      case cm_details cmd of
        Subscribe topics qoss opts optlist \<Rightarrow>
          ub_bind (topic_buffers v5 (length topics) opts optlist 0 topics qoss) (\<lambda>b.
            Inr (Some (head @ int_bytes (int (length topics)) # b)))
      | Unsubscribe topics \<Rightarrow>
          Inr (Some (head @ int_bytes (int (length topics)) # map (\<lambda>t. c_str t @ [0]) topics))
      | PublishCmd destinationName payloadlen payload qos retained \<Rightarrow>
          (case destinationName of None \<Rightarrow> Inl NullDeref
           | Some t \<Rightarrow> ub_bind (memcpy_src (null_bytes payload) payloadlen) (\<lambda>p.
               Inr (Some (head @ [c_str t @ [0], int_bytes payloadlen, p, int_bytes qos, int_bytes retained]))))
      | _ \<Rightarrow> Inr None)"

text \<open>The properties are written into a buffer of the size that is computed for them.\<close>

definition props_buffer :: "heap \<Rightarrow> MQTTProperties \<Rightarrow> ub + bytes option" where
  "props_buffer H props =
     (let temp_len = size_t_of (MQTTProperties_len (Some props)) in
      if \<not> H (ReqBuffer temp_len) then Inr None
      else ub_bind (MQTTProperties_write (Some props)) (\<lambda>(_, b).
        if temp_len < length b then Inl OverWrite
        else if length b < temp_len then Inl UninitRead
        else Inr (Some b)))"

definition next_command_seqno :: "nat \<Rightarrow> nat" where
  "next_command_seqno n = (let n = (n + 1) mod 2 ^ 32 in if n = PERSISTENCE_SEQNO_LIMIT then 0 else n)"

text \<open>
  The result is the return code, the sequence number of the client and the command. The return code
  of \<^verbatim>\<open>beforeWrite\<close> is overwritten by that of \<^verbatim>\<open>pput\<close>.
\<close>

definition MQTTAsync_persistCommand ::
    "heap \<Rightarrow> 'f Clients \<Rightarrow> nat \<Rightarrow> MQTTAsync_queuedCommand \<Rightarrow> 'f
      \<Rightarrow> ub + (int \<times> nat \<times> MQTTAsync_queuedCommand \<times> 'f)" where
  "MQTTAsync_persistCommand H c seqno qcmd fs =
     (let v5 = (c_MQTTVersion c \<ge> MQTTVERSION_5) in
      ub_bind (command_buffers v5 (qc_command qcmd)) (\<lambda>r.
        if r \<noteq> None \<and> (\<not> H (ReqStruct ''lens'') \<or> \<not> H (ReqStruct ''bufs''))
        then Inr (PAHO_MEMORY_ERROR, seqno, qcmd, fs)
        else let seqno = next_command_seqno seqno in
        case r of
          None \<Rightarrow> Inr (0, seqno, qcmd, fs)
        | Some bufs \<Rightarrow>
            ub_bind (if v5 then props_buffer H (cm_properties (qc_command qcmd)) else Inr (Some [])) (\<lambda>r. case r of
              None \<Rightarrow> Inr (PAHO_MEMORY_ERROR, seqno, qcmd, fs)
            | Some props \<Rightarrow>
                let bufs = (if v5 then bufs @ [props] else bufs);
                    (key, chars) = command_key (c_MQTTVersion c) seqno in
                if chars \<ge> keysize then Inr (0, seqno, qcmd, fs)
                else
                 let (bufs, fs) = (case c_beforeWrite c of None \<Rightarrow> (bufs, fs)
                       | Some cb \<Rightarrow> let (_, bufs, fs) = cb bufs fs in (bufs, fs))
                 in (case c_persistence c of
                      None \<Rightarrow> Inl NullDeref
                    | Some per \<Rightarrow> let (rc, fs) = pput per (c_phandle c) key bufs fs
                        in Inr (rc, seqno, qcmd\<lparr>qc_seqno := seqno\<rparr>, fs)))))"

subsection \<open>Restoring a command\<close>

text \<open>
  A string of the record, which has to end before the last byte of the record: one that ends with it
  is taken for one without an end. A string that has no end is copied from behind the record. The
  result \<open>None\<close> is the jump to \<open>error_exit\<close>.
\<close>

definition restore_string :: "heap \<Rightarrow> bytes \<Rightarrow> nat \<Rightarrow> bool \<Rightarrow> ub + (bytes \<times> nat) option" where
  "restore_string H buf p copy =
     (let data_size = strlen (drop p buf) + 1 in
      if data_size = length buf - p then Inr None
      else if copy \<and> \<not> H (ReqBuffer data_size) then Inr None
      else if copy then ub_bind (read_c_string buf p) (\<lambda>(t, p). Inr (Some (t, p)))
      else Inr (Some ([], p + data_size)))"

text \<open>An \<^verbatim>\<open>int\<close> that has to be inside the record.\<close>

definition restore_int :: "bytes \<Rightarrow> nat \<Rightarrow> ub + (int \<times> nat) option" where
  "restore_int buf p =
     (if p + 4 > length buf then Inr None else ub_bind (read_int_mem buf p) (\<lambda>r. Inr (Some r)))"

definition bind_some :: "ub + 'a option \<Rightarrow> ('a \<Rightarrow> ub + 'b option) \<Rightarrow> ub + 'b option" where
  "bind_some m f = ub_bind m (\<lambda>r. case r of None \<Rightarrow> Inr None | Some x \<Rightarrow> f x)"

lemma bind_some_simps [simp]:
  "bind_some (Inl e) f = Inl e" "bind_some (Inr None) f = Inr None" "bind_some (Inr (Some x)) f = f x"
  by (simp_all add: bind_some_def)

fun restore_subs :: "heap \<Rightarrow> bool \<Rightarrow> nat \<Rightarrow> bytes \<Rightarrow> nat \<Rightarrow> nat
    \<Rightarrow> ub + ((bytes \<times> int \<times> options_memory) list \<times> nat) option" where
  "restore_subs H v5 n buf 0 p = Inr (Some ([], p))"
| "restore_subs H v5 n buf (Suc i) p =
     bind_some (restore_string H buf p True) (\<lambda>(t, p).
     bind_some (restore_int buf p) (\<lambda>(q, p).
     bind_some (if \<not> v5 then Inr (Some ([], p))
                else if p + 12 > length buf then Inr None
                else Inr (Some (take 12 (drop p buf), p + 12))) (\<lambda>(o', p).
     bind_some (restore_subs H v5 n buf i p) (\<lambda>(rest, p).
       Inr (Some ((t, q, o') # rest, p))))))"

fun restore_unsubs :: "heap \<Rightarrow> bytes \<Rightarrow> nat \<Rightarrow> nat \<Rightarrow> ub + (bytes list \<times> nat) option" where
  "restore_unsubs H buf 0 p = Inr (Some ([], p))"
| "restore_unsubs H buf (Suc i) p =
     bind_some (restore_string H buf p True) (\<lambda>(t, p).
     bind_some (restore_unsubs H buf i p) (\<lambda>(rest, p). Inr (Some (t # rest, p))))"

definition zero_options :: options_memory where "zero_options = replicate 12 0"

definition restore_subscribe :: "heap \<Rightarrow> bool \<Rightarrow> bool \<Rightarrow> bytes \<Rightarrow> nat \<Rightarrow> ub + (details \<times> nat) option" where
  "restore_subscribe H v5 part buf p =
     (if part then Inr (Some (Subscribe [] [] zero_options None, p))
      else bind_some (restore_int buf p) (\<lambda>(n, p).
        if n > 0 \<and> (\<not> H (ReqBuffer (8 * nat n)) \<or> \<not> H (ReqBuffer (4 * nat n)) \<or>
             v5 \<and> n > 1 \<and> \<not> H (ReqBuffer (12 * nat n))) then Inr None
        else bind_some (restore_subs H v5 (nat n) buf (nat n) p) (\<lambda>(subs, p).
          Inr (Some (Subscribe (map fst subs) (map (fst \<circ> snd) subs)
              (if v5 \<and> n = 1 then snd (snd (hd subs)) else zero_options)
              (if v5 \<and> n > 1 then Some (map (snd \<circ> snd) subs) else None), p)))))"

definition restore_unsubscribe :: "heap \<Rightarrow> bool \<Rightarrow> bytes \<Rightarrow> nat \<Rightarrow> ub + (details \<times> nat) option" where
  "restore_unsubscribe H part buf p =
     (if part then Inr (Some (Unsubscribe [], p))
      else bind_some (restore_int buf p) (\<lambda>(n, p).
        if n > 0 \<and> \<not> H (ReqBuffer (8 * nat n)) then Inr None
        else bind_some (restore_unsubs H buf (nat n) p) (\<lambda>(topics, p). Inr (Some (Unsubscribe topics, p)))))"

definition restore_publish :: "heap \<Rightarrow> bool \<Rightarrow> bytes \<Rightarrow> nat \<Rightarrow> ub + (details \<times> nat) option" where
  "restore_publish H part buf p =
     bind_some (restore_string H buf p (\<not> part)) (\<lambda>(t, p).
     bind_some (restore_int buf p) (\<lambda>(len, p).
       let data_size = size_t_of len in
       if p + data_size > length buf then Inr None
       else if \<not> part \<and> \<not> H (ReqBuffer data_size) then Inr None
       else let d = take data_size (drop p buf); p = p + data_size in
       if p + 8 > length buf then Inr None
       else bind_some (restore_int buf p) (\<lambda>(qos, p).
         bind_some (restore_int buf p) (\<lambda>(retained, p).
           Inr (Some (PublishCmd (if part then None else Some t) len (if part then None else Some d) qos retained, p))))))"

text \<open>
  \<open>qcommand\<close> is the command that is to be completed, or \<open>None\<close>, NULL, to read what is needed of a
  new one; \<open>fresh\<close> is the address of a new one.
\<close>

definition MQTTAsync_restoreCommand ::
    "heap \<Rightarrow> nat \<Rightarrow> bytes \<Rightarrow> int \<Rightarrow> MQTTAsync_queuedCommand option \<Rightarrow> ub + MQTTAsync_queuedCommand option" where
  "MQTTAsync_restoreCommand H fresh buffer MQTTVersion qcommand =
     (let v5 = (MQTTVersion \<ge> MQTTVERSION_5); part = (qcommand = None) in
      if buffer = [] then Inr None
      else if part \<and> \<not> H (ReqStruct ''MQTTAsync_queuedCommand'') then Inr None
      else
       let q = (case qcommand of Some q \<Rightarrow> q\<lparr>qc_not_restored := False\<rparr>
             | None \<Rightarrow> (new_queued fresh 0 zero_command)\<lparr>qc_not_restored := True\<rparr>) in
       if 8 > length buffer then Inr None
       else bind_some (restore_int buffer 0) (\<lambda>(type, p).
         bind_some (restore_int buffer p) (\<lambda>(token, p).
         bind_some (if type = int SUBSCRIBE then restore_subscribe H v5 part buffer p
             else if type = int UNSUBSCRIBE then restore_unsubscribe H part buffer p
             else if type = int PUBLISH then restore_publish H part buffer p
             else Inr None) (\<lambda>(d, p).
           let cmd = (qc_command q)\<lparr>cm_token := token, cm_details := d\<rparr> in
           if part \<or> \<not> v5 then Inr (Some (q\<lparr>qc_command := cmd\<rparr>))
           else ub_bind (MQTTProperties_read H (cm_properties cmd) buffer p (length buffer)) (\<lambda>(rc, props, _).
             if rc = 1 then Inr (Some (q\<lparr>qc_command := cmd\<lparr>cm_properties := props\<rparr>\<rparr>)) else Inr None)))))"

subsection \<open>Restoring the commands of a client\<close>

definition key_number :: "key \<Rightarrow> int" where
  "key_number key = (case after_hyphen key of None \<Rightarrow> 0 | Some digits \<Rightarrow> atoi digits)"

definition cmpkeys :: "key \<Rightarrow> key \<Rightarrow> int" where
  "cmpkeys p1 p2 =
     (let key1 = key_number p1; key2 = key_number p2 in
      if key1 = key2 then 0 else if key1 < key2 then -1 else 1)"

definition is_command_key :: "key \<Rightarrow> bool" where
  "is_command_key key \<longleftrightarrow> has_stem key PERSISTENCE_COMMAND_KEY \<or> has_stem key PERSISTENCE_V5_COMMAND_KEY"

text \<open>The version a record is read in comes from its key.\<close>

definition key_version :: "key \<Rightarrow> int" where
  "key_version key = (if has_stem key PERSISTENCE_V5_COMMAND_KEY then MQTTVERSION_5 else MQTTVERSION_3_1_1)"

definition read_command_record ::
    "'f Clients \<Rightarrow> 'f MQTTClient_persistence \<Rightarrow> key \<Rightarrow> 'f \<Rightarrow> int \<times> bytes \<times> 'f" where
  "read_command_record c per key fs =
     (let (rc, buffer, fs) = pget per (c_phandle c) key fs in
      if rc \<noteq> 0 then (rc, buffer, fs)
      else case c_afterRead c of None \<Rightarrow> (rc, buffer, fs) | Some cb \<Rightarrow> cb buffer fs)"

definition queue_restored ::
    "('n, 'f) async_api \<Rightarrow> nat \<Rightarrow> key \<Rightarrow> MQTTAsync_queuedCommand \<Rightarrow> ('n, 'f) asys \<Rightarrow> ub + ('n, 'f) asys" where
  "queue_restored A h key cmd s =
     (if \<not> e_heap (a_env A) (ReqBuffer (length key + 1)) then Inl NullDeref
      else case after_hyphen key of None \<Rightarrow> Inl NullDeref
      | Some digits \<Rightarrow>
         let cmd = cmd\<lparr>qc_key := Some key, qc_client := h, qc_seqno := nat (atoi digits mod 2 ^ 32)\<rparr> in
         Inr (upd_async h (\<lambda>m. m\<lparr>h_command_seqno := max (h_command_seqno m) (qc_seqno cmd),
             h_noBufferedMessages := h_noBufferedMessages m + (if is_publish (qc_details cmd) then 1 else 0)\<rparr>)
           (s\<lparr>as_commands := ListAppend (l_commands A) (as_commands s) cmd, g_fresh := g_fresh s + 1\<rparr>)))"

fun restore_commands_loop ::
    "('n, 'f) async_api \<Rightarrow> 'f MQTTClient_persistence \<Rightarrow> nat \<Rightarrow> key list \<Rightarrow> int \<Rightarrow> ('n, 'f) asys
      \<Rightarrow> ub + (int \<times> ('n, 'f) asys)" where
  "restore_commands_loop A per h [] rc s = Inr (rc, s)"
| "restore_commands_loop A per h (key # keys) rc s =
     (if rc \<noteq> 0 then Inr (rc, s)
      else if \<not> is_command_key key then restore_commands_loop A per h keys rc s
      else
       let (rc, buffer, fs) = read_command_record (g_clients s ! h) per key (g_fs s); s = s\<lparr>g_fs := fs\<rparr> in
       if rc \<noteq> 0 then restore_commands_loop A per h keys rc s
       else ub_bind (MQTTAsync_restoreCommand (e_heap (a_env A)) (g_fresh s) buffer (key_version key) None) (\<lambda>r. case r of
           None \<Rightarrow> restore_commands_loop A per h keys rc s
         | Some cmd \<Rightarrow> ub_bind (queue_restored A h key cmd s) (\<lambda>s. restore_commands_loop A per h keys rc s)))"

definition MQTTAsync_restoreCommands ::
    "('n, 'f) async_api \<Rightarrow> nat \<Rightarrow> ('n, 'f) asys \<Rightarrow> ub + (int \<times> ('n, 'f) asys)" where
  "MQTTAsync_restoreCommands A h s =
     (let c = g_clients s ! h in
      case c_persistence c of
        None \<Rightarrow> Inr (0, s)
      | Some per \<Rightarrow>
         let (rc, keys, fs) = pkeys per (c_phandle c) (g_fs s); s = s\<lparr>g_fs := fs\<rparr> in
         if rc \<noteq> 0 \<or> keys = [] then Inr (rc, s)
         else if length keys > 1 \<and> (\<exists>k\<in>set keys. after_hyphen k = None) then Inl NullDeref
         else restore_commands_loop A per h (a_qsort A cmpkeys keys) rc s)"

subsection \<open>Removing records\<close>

fun unpersist_loop ::
    "'f MQTTClient_persistence \<Rightarrow> handle option \<Rightarrow> string list \<Rightarrow> key list \<Rightarrow> int \<Rightarrow> 'f \<Rightarrow> int \<times> 'f" where
  "unpersist_loop per h tags [] rc fs = (rc, fs)"
| "unpersist_loop per h tags (key # keys) rc fs =
     (if rc \<noteq> 0 then (rc, fs)
      else if \<exists>stem\<in>set tags. has_stem key stem
      then let (rc, fs) = premove per h key fs in unpersist_loop per h tags keys rc fs
      else unpersist_loop per h tags keys rc fs)"

definition unpersist_all :: "string list \<Rightarrow> 'f Clients \<Rightarrow> 'f \<Rightarrow> int \<times> 'f" where
  "unpersist_all tags c fs =
     (case c_persistence c of
        None \<Rightarrow> (0, fs)
      | Some per \<Rightarrow>
         let (rc, keys, fs) = pkeys per (c_phandle c) fs in
         if rc \<noteq> 0 then (rc, fs) else unpersist_loop per (c_phandle c) tags keys rc fs)"

definition MQTTAsync_unpersistCommandsAndMessages :: "'f Clients \<Rightarrow> 'f \<Rightarrow> int \<times> 'f" where
  "MQTTAsync_unpersistCommandsAndMessages =
     unpersist_all [PERSISTENCE_COMMAND_KEY, PERSISTENCE_V5_COMMAND_KEY, PERSISTENCE_QUEUE_KEY, PERSISTENCE_V5_QUEUE_KEY]"

definition MQTTAsync_unpersistInflightMessages :: "'f Clients \<Rightarrow> 'f \<Rightarrow> int \<times> 'f" where
  "MQTTAsync_unpersistInflightMessages =
     unpersist_all [PERSISTENCE_PUBLISH_SENT, PERSISTENCE_V5_PUBLISH_SENT, PERSISTENCE_PUBREL,
       PERSISTENCE_V5_PUBREL, PERSISTENCE_PUBLISH_RECEIVED, PERSISTENCE_V5_PUBLISH_RECEIVED]"

subsection \<open>Adding a command\<close>

text \<open>
  Releasing a command. With the topic and payload of a publish the stored publication that shares
  them becomes unusable: it is taken out of the list, so that any use of it later, also releasing its
  topic a second time, is \<open>UseAfterFree\<close>.
\<close>

definition MQTTAsync_freeCommand ::
    "('n, 'f) async_api \<Rightarrow> MQTTAsync_queuedCommand \<Rightarrow> ('n, 'f) asys \<Rightarrow> ub + ('n, 'f) asys" where
  "MQTTAsync_freeCommand A q s =
     ub_bind (MQTTProperties_free (Some (cm_properties (qc_command q)))) (\<lambda>_.
       Inr (case (qc_details q, qc_stored q) of
           (PublishCmd topic _ payload _ _, Some a) \<Rightarrow>
             if topic \<noteq> None \<or> payload \<noteq> None then drop_pub (a_env A) a s else s
         | _ \<Rightarrow> s))"

definition start_clock :: "('n, 'f) async_api \<Rightarrow> ('n, 'f) asys \<Rightarrow> timeval \<times> ('n, 'f) asys" where
  "start_clock A s =
     (let (ts, n) = clock_gettime (e_net (a_env A)) (g_net s) in (MQTTTime_start_clock ts, s\<lparr>g_net := n\<rparr>))"

definition is_connection :: "details \<Rightarrow> bool" where
  "is_connection d \<longleftrightarrow> is_Connect d \<or> is_Disconnect d"

text \<open>
  A CONNECT or an internal DISCONNECT goes to the head of the queue. The search for another one of
  the same client goes on with the element before the first, so it sees the first element only.
\<close>

definition add_to_head ::
    "('n, 'f) async_api \<Rightarrow> MQTTAsync_queuedCommand \<Rightarrow> ('n, 'f) asys \<Rightarrow> ub + (int \<times> ('n, 'f) asys)" where
  "add_to_head A q s =
     (let other = (case as_commands s of [] \<Rightarrow> False
        | cur # _ \<Rightarrow> is_connection (qc_details cur) \<and> qc_client cur = qc_client q) in
      if other then ub_bind (MQTTAsync_freeCommand A q s) (\<lambda>s. Inr (MQTTASYNC_COMMAND_IGNORED, s))
      else Inr (MQTTASYNC_SUCCESS, s\<lparr>as_commands := ListInsert (l_commands A) (as_commands s) q
             (if as_commands s = [] then None else Some 0)\<rparr>))"

text \<open>
  The persistent record of a command. When it is written for a publish, its topic, payload and
  properties are released and read again later. The return code does not leave the block. The
  result \<open>False\<close> is the jump to \<open>exit\<close>.
\<close>

definition skip_persist :: "MQTTAsyncs \<Rightarrow> details \<Rightarrow> bool" where
  "skip_persist m d \<longleftrightarrow> is_publish d \<and> (case h_createOptions m of None \<Rightarrow> False
     | Some o' \<Rightarrow> ao_struct_version o' \<ge> 2 \<and> ao_persistQoS0 o' = 0 \<and> pub_qos d = 0)"

definition release_publish :: "key \<Rightarrow> MQTTAsync_queuedCommand \<Rightarrow> ub + MQTTAsync_queuedCommand" where
  "release_publish key q =
     (let cmd = qc_command q in
      ub_bind (MQTTProperties_free (Some (cm_properties cmd))) (\<lambda>(_, props).
        Inr (q\<lparr>qc_not_restored := True, qc_key := Some key,
          qc_command := cmd\<lparr>cm_properties := (case props of None \<Rightarrow> MQTTProperties_initializer | Some ps \<Rightarrow> ps),
            cm_details := (case cm_details cmd of
                PublishCmd _ len _ qos retained \<Rightarrow> PublishCmd None len None qos retained | d \<Rightarrow> d)\<rparr>\<rparr>)))"

definition persist_added ::
    "('n, 'f) async_api \<Rightarrow> MQTTAsync_queuedCommand \<Rightarrow> ('n, 'f) asys
      \<Rightarrow> ub + (bool \<times> MQTTAsync_queuedCommand \<times> ('n, 'f) asys)" where
  "persist_added A q s =
     (let h = qc_client q; c = g_clients s ! h; m = as_handles s ! h in
      if c_persistence c = None \<or> skip_persist m (qc_details q) then Inr (True, q, s)
      else ub_bind (MQTTAsync_persistCommand (e_heap (a_env A)) c (h_command_seqno m) q (g_fs s)) (\<lambda>(rc, seqno, q, fs).
        let s = upd_async h (\<lambda>m. m\<lparr>h_command_seqno := seqno\<rparr>) (s\<lparr>g_fs := fs\<rparr>) in
        if is_publish (qc_details q) \<and> rc = 0
        then let (key, chars) = command_key (c_MQTTVersion c) (qc_seqno q) in
          if chars \<ge> keysize then Inr (False, q\<lparr>qc_not_restored := True\<rparr>, s)
          else if \<not> e_heap (a_env A) (ReqBuffer (length key + 1)) then Inl NullDeref
          else ub_bind (release_publish key q) (\<lambda>q. Inr (True, q, s))
        else Inr (True, q, s)))"

text \<open>When the buffer of a client is full its oldest publish is removed, without a callback.\<close>

definition buffer_full :: "MQTTAsyncs \<Rightarrow> bool" where
  "buffer_full m \<longleftrightarrow> (case h_createOptions m of None \<Rightarrow> False
     | Some o' \<Rightarrow> h_noBufferedMessages m \<ge> ao_maxBufferedMessages o')"

definition drop_oldest ::
    "('n, 'f) async_api \<Rightarrow> nat \<Rightarrow> ('n, 'f) asys \<Rightarrow> ub + ('n, 'f) asys" where
  "drop_oldest A h s =
     (case find_index (\<lambda>q. qc_client q = h \<and> is_publish (qc_details q)) (as_commands s) of
        None \<Rightarrow> Inr s
      | Some k \<Rightarrow>
         let q = as_commands s ! k; c = g_clients s ! h;
             s = s\<lparr>as_commands := detach (l_commands A) (as_commands s) (qc_addr q)\<rparr>
         in ub_bind (if c_persistence c = None then Inr s
                else ub_bind (MQTTAsync_unpersistCommand c q (g_fs s)) (\<lambda>(_, fs). Inr (s\<lparr>g_fs := fs\<rparr>))) (\<lambda>s.
           MQTTAsync_freeCommand A q s))"

definition count_buffered ::
    "('n, 'f) async_api \<Rightarrow> nat \<Rightarrow> ('n, 'f) asys \<Rightarrow> ub + ('n, 'f) asys" where
  "count_buffered A h s =
     (if buffer_full (as_handles s ! h) then drop_oldest A h s
      else Inr (upd_async h (\<lambda>m. m\<lparr>h_noBufferedMessages := h_noBufferedMessages m + 1\<rparr>) s))"

definition add_to_end ::
    "('n, 'f) async_api \<Rightarrow> MQTTAsync_queuedCommand \<Rightarrow> ('n, 'f) asys \<Rightarrow> ub + (int \<times> ('n, 'f) asys)" where
  "add_to_end A q s =
     ub_bind (persist_added A q s) (\<lambda>(go_on, q, s).
       let s = s\<lparr>as_commands := ListAppend (l_commands A) (as_commands s) q\<rparr> in
       if go_on \<and> is_publish (qc_details q)
       then ub_bind (count_buffered A (qc_client q) s) (\<lambda>s. Inr (MQTTASYNC_SUCCESS, s))
       else Inr (MQTTASYNC_SUCCESS, s))"

definition MQTTAsync_addCommand ::
    "('n, 'f) async_api \<Rightarrow> MQTTAsync_queuedCommand \<Rightarrow> ('n, 'f) asys \<Rightarrow> ub + (int \<times> ('n, 'f) asys)" where
  "MQTTAsync_addCommand A q s =
     (let d = qc_details q;
          (q, s) = (if \<not> is_Connect d \<or> c_connect_state (g_clients s ! qc_client q) = NOT_IN_PROGRESS
            then let (t, s) = start_clock A s in (q\<lparr>qc_command := (qc_command q)\<lparr>cm_start_time := t\<rparr>\<rparr>, s)
            else (q, s))
      in if is_Connect d \<or> is_Disconnect d \<and> dis_internal d then add_to_head A q s else add_to_end A q s)"

subsection \<open>Message ids\<close>

definition cmdMessageIDCompare :: "int \<Rightarrow> MQTTAsync_queuedCommand \<Rightarrow> bool" where
  "cmdMessageIDCompare msgid q \<longleftrightarrow> qc_token q = msgid"

text \<open>The commands of every client are searched.\<close>

definition id_in_use :: "('n, 'f) async_api \<Rightarrow> nat \<Rightarrow> ('n, 'f) asys \<Rightarrow> int \<Rightarrow> bool" where
  "id_in_use A h s msgid \<longleftrightarrow>
     ListFindItem (l_commands A) (as_commands s) (cmdMessageIDCompare msgid) \<noteq> None \<or>
     ListFindItem (l_msgs (e_lists (a_env A))) (c_outboundMsgs (g_clients s ! h)) (messageIDCompare msgid) \<noteq> None \<or>
     ListFindItem (l_commands A) (h_responses (as_handles s ! h)) (cmdMessageIDCompare msgid) \<noteq> None"

text \<open>The loop; \<open>None\<close> when it does not end.\<close>

partial_function (option) free_id_loop :: "(int \<Rightarrow> bool) \<Rightarrow> int \<Rightarrow> int \<Rightarrow> int option" where
  "free_id_loop used start_msgid msgid =
     (if \<not> used msgid then Some msgid
      else let msgid = next_id msgid in
        if msgid = start_msgid then Some 0 else free_id_loop used start_msgid msgid)"

definition MQTTAsync_assignMsgId :: "('n, 'f) async_api \<Rightarrow> nat \<Rightarrow> ('n, 'f) asys \<Rightarrow> (int \<times> ('n, 'f) asys) option" where
  "MQTTAsync_assignMsgId A h s =
     (let start_msgid = c_msgID (g_clients s ! h) in
      case free_id_loop (id_in_use A h s) start_msgid (next_id start_msgid) of
        None \<Rightarrow> None
      | Some msgid \<Rightarrow> Some (msgid, if msgid \<noteq> 0 then upd_client h (\<lambda>c. c\<lparr>c_msgID := msgid\<rparr>) s else s))"

subsection \<open>Emptying queues\<close>

text \<open>The failure callback of a command that is discarded.\<close>

definition discarded :: "nat \<Rightarrow> MQTTAsync_command \<Rightarrow> ('n, 'f) asys \<Rightarrow> ('n, 'f) asys" where
  "discarded h cmd s =
     (if cm_onFailure cmd then log_async (OnFailure h (cm_context cmd) (cm_token cmd) MQTTASYNC_OPERATION_INCOMPLETE) s
      else if cm_onFailure5 cmd
      then log_async (OnFailure5 h (cm_context cmd) (cm_token cmd) MQTTASYNC_OPERATION_INCOMPLETE 0 0) s
      else s)"

fun discard_all ::
    "('n, 'f) async_api \<Rightarrow> nat \<Rightarrow> MQTTAsync_queuedCommand list \<Rightarrow> ('n, 'f) asys \<Rightarrow> ub + ('n, 'f) asys" where
  "discard_all A h [] s = Inr s"
| "discard_all A h (q # qs) s =
     ub_bind (MQTTAsync_freeCommand A q (discarded h (qc_command q) s)) (\<lambda>s. discard_all A h qs s)"

definition MQTTAsync_freeResponses ::
    "('n, 'f) async_api \<Rightarrow> nat \<Rightarrow> ('n, 'f) asys \<Rightarrow> ub + ('n, 'f) asys" where
  "MQTTAsync_freeResponses A h s =
     ub_bind (discard_all A h (h_responses (as_handles s ! h)) s) (\<lambda>s.
       Inr (upd_async h (\<lambda>m. m\<lparr>h_responses := []\<rparr>) s))"

definition MQTTAsync_freeCommands ::
    "('n, 'f) async_api \<Rightarrow> nat \<Rightarrow> ('n, 'f) asys \<Rightarrow> ub + ('n, 'f) asys" where
  "MQTTAsync_freeCommands A h s =
     ub_bind (discard_all A h (filter (\<lambda>q. qc_client q = h) (as_commands s)) s) (\<lambda>s.
       Inr (s\<lparr>as_commands := filter (\<lambda>q. qc_client q \<noteq> h) (as_commands s)\<rparr>))"

text \<open>The topics and payloads of publishes that the protocol module releases.\<close>

definition null_publish :: "MQTTAsync_queuedCommand \<Rightarrow> MQTTAsync_queuedCommand" where
  "null_publish q =
     (case qc_details q of
        PublishCmd _ len _ qos retained \<Rightarrow>
          q\<lparr>qc_command := (qc_command q)\<lparr>cm_details := PublishCmd None len None qos retained\<rparr>\<rparr>
      | _ \<Rightarrow> q)"

definition MQTTAsync_NULLPublishResponses :: "nat \<Rightarrow> ('n, 'f) asys \<Rightarrow> ('n, 'f) asys" where
  "MQTTAsync_NULLPublishResponses h =
     upd_async h (\<lambda>m. m\<lparr>h_responses := map null_publish (h_responses m)\<rparr>)"

definition MQTTAsync_NULLPublishCommands :: "nat \<Rightarrow> ('n, 'f) asys \<Rightarrow> ('n, 'f) asys" where
  "MQTTAsync_NULLPublishCommands h s =
     s\<lparr>as_commands := map (\<lambda>q. if qc_client q = h then null_publish q else q) (as_commands s)\<rparr>"

definition MQTTAsync_emptyMessageQueue :: "nat \<Rightarrow> ('n, 'f) asys \<Rightarrow> ('n, 'f) asys" where
  "MQTTAsync_emptyMessageQueue h = upd_client h (\<lambda>c. c\<lparr>c_messageQueue := []\<rparr>)"

definition MQTTAsync_getNoBufferedMessages :: "nat \<Rightarrow> ('n, 'f) asys \<Rightarrow> int" where
  "MQTTAsync_getNoBufferedMessages h s = h_noBufferedMessages (as_handles s ! h)"

end
