(* ===== verification/AsyncSend.thy ===== *)
theory AsyncSend
  imports AsyncCommands ClientRun
begin

section \<open>The send thread: \<^verbatim>\<open>src/include/MQTTAsyncUtils.c\<close>\<close>

text \<open>
  Closing sessions, retrying connections, processing a command of the queue, and the timeouts that
  the send thread looks at. A function that opens a connection need not return, so its result is
  \<open>None\<close> when it does not. Every function here runs under \<open>mqttasync_mutex\<close> and is one step.
\<close>

subsection \<open>Retrying a connection\<close>

definition RAND_MAX :: int where "RAND_MAX = 2147483647"

text \<open>
  The interval with its jitter. The factors 1.2 of the code are a double; truncated to an \<^verbatim>\<open>int\<close> the
  product and the quotient are the exact ones for every \<^verbatim>\<open>int\<close>, since the error of 1.2 is smaller than
  half the distance between doubles and is lost in rounding.
\<close>

definition max_sleep :: "int \<Rightarrow> int \<Rightarrow> int" where
  "max_sleep maxInterval currentIntervalBase = (min maxInterval currentIntervalBase * 6) sdiv 5"

definition min_sleep :: "int \<Rightarrow> int \<Rightarrow> int" where
  "min_sleep minInterval currentIntervalBase = (max minInterval currentIntervalBase * 5) sdiv 6"

definition MQTTAsync_randomJitter ::
    "('n, 'f) async_api \<Rightarrow> int \<Rightarrow> int \<Rightarrow> int \<Rightarrow> ('n, 'f) asys \<Rightarrow> ub + (int \<times> ('n, 'f) asys)" where
  "MQTTAsync_randomJitter A currentIntervalBase minInterval maxInterval s =
     (let hi = max_sleep maxInterval currentIntervalBase; lo = min_sleep minInterval currentIntervalBase in
      if hi > 2147483647 \<or> hi < - 2147483648 then Inl IntOverflow
      else if lo \<ge> hi then Inr (lo, s)
      else
       let range = hi - lo + 1 in
       if range > 2147483647 then Inl IntOverflow
       else
        let buckets = RAND_MAX div range;
            (r, n) = a_rand_below A (nat (buckets * range)) (g_net s)
        in Inr (lo + int r div buckets, s\<lparr>g_net := n\<rparr>))"

definition MQTTAsync_startConnectRetry ::
    "('n, 'f) async_api \<Rightarrow> nat \<Rightarrow> ('n, 'f) asys \<Rightarrow> ub + ('n, 'f) asys" where
  "MQTTAsync_startConnectRetry A h s =
     (let m = as_handles s ! h in
      if h_automaticReconnect m \<and> h_shouldBeConnected m
      then
       let (t, s) = start_clock A s;
           base = (if h_retrying m then min (h_currentIntervalBase m * 2) (h_maxRetryInterval m)
             else h_minRetryInterval m)
       in if h_retrying m \<and> h_currentIntervalBase m * 2 > 2147483647 then Inl IntOverflow
          else ub_bind (MQTTAsync_randomJitter A base (h_minRetryInterval m) (h_maxRetryInterval m) s) (\<lambda>(i, s).
            Inr (upd_async h (\<lambda>m. m\<lparr>h_lastConnectionFailedTime := t, h_currentIntervalBase := base,
              h_retrying := True, h_currentInterval := i\<rparr>) s))
      else Inr s)"

subsection \<open>Closing sessions\<close>

text \<open>
  \<open>props\<close> is looked at only when a DISCONNECT is sent: the properties of a command that was kept for
  later were released when it was kept.
\<close>

definition put_connect_state :: "nat \<Rightarrow> int \<Rightarrow> ('n, 'f) asys \<Rightarrow> ('n, 'f) asys" where
  "put_connect_state h st = upd_client h (\<lambda>c. c\<lparr>c_connect_state := st\<rparr>)"

definition MQTTAsync_closeOnly ::
    "('n, 'f) async_api \<Rightarrow> nat \<Rightarrow> int \<Rightarrow> ub + MQTTProperties option \<Rightarrow> ('n, 'f) asys \<Rightarrow> ub + ('n, 'f) asys" where
  "MQTTAsync_closeOnly A h reasonCode props s =
     (let E = a_env A;
          s = upd_client h (\<lambda>c. c\<lparr>c_good := False, c_ping_outstanding := False, c_ping_due := False\<rparr>) s in
      ub_bind
        (if socket_of h s > 0
         then ub_bind (MQTTProtocol_checkPendingWrites E s) (\<lambda>s.
           ub_bind
             (if c_connected (g_clients s ! h) \<and> Socket_noPendingWrites (e_net E) (socket_of h s) (g_net s)
              then ub_bind (if c_MQTTVersion (g_clients s ! h) \<ge> MQTTVERSION_5 then props else Inr None) (\<lambda>props.
                ub_bind (MQTTPacket_send_disconnect E h reasonCode props s) (\<lambda>(_, s). Inr s))
              else Inr s) (\<lambda>s.
             let s = s\<lparr>g_net := Socket_close (e_net E) (socket_of h s)
                   (WebSocket_close (e_net E) (socket_of h s) (g_net s))\<rparr>
             in Inr (upd_client h (\<lambda>c. c\<lparr>c_net := (c_net c)\<lparr>nh_socket := 0\<rparr>\<rparr>) s)))
         else Inr s)
        (\<lambda>s. Inr (upd_client h (\<lambda>c. c\<lparr>c_connected := False, c_connect_state := NOT_IN_PROGRESS\<rparr>) s)))"

definition MQTTAsync_cleanSession ::
    "('n, 'f) async_api \<Rightarrow> nat \<Rightarrow> ('n, 'f) asys \<Rightarrow> ub + (int \<times> ('n, 'f) asys)" where
  "MQTTAsync_cleanSession A h s =
     (let (rc, fs) = MQTTAsync_unpersistInflightMessages (g_clients s ! h) (g_fs s); s = s\<lparr>g_fs := fs\<rparr>; E = a_env A in
      ub_bind (MQTTProtocol_emptyMessageList E c_inboundMsgs put_inbound h s) (\<lambda>s.
      ub_bind (MQTTProtocol_emptyMessageList E c_outboundMsgs put_outbound h s) (\<lambda>s.
        let s = upd_client h (\<lambda>c. c\<lparr>c_msgID := 0\<rparr>) s in
        ub_bind (MQTTAsync_freeResponses A h (MQTTAsync_NULLPublishResponses h s)) (\<lambda>s. Inr (rc, s)))))"

definition MQTTAsync_closeSession ::
    "('n, 'f) async_api \<Rightarrow> nat \<Rightarrow> int \<Rightarrow> ub + MQTTProperties option \<Rightarrow> ('n, 'f) asys \<Rightarrow> ub + ('n, 'f) asys" where
  "MQTTAsync_closeSession A h reasonCode props s =
     ub_bind (MQTTAsync_closeOnly A h reasonCode props s) (\<lambda>s. let c = g_clients s ! h in
       if c_cleansession c \<noteq> 0 \<or> c_MQTTVersion c \<ge> MQTTVERSION_5 \<and> c_sessionExpiry c = 0
       then ub_bind (MQTTAsync_cleanSession A h s) (\<lambda>(_, s). Inr s)
       else Inr s)"

definition async_lost :: "nat \<Rightarrow> bool \<Rightarrow> ('n, 'f) asys \<Rightarrow> ('n, 'f) asys" where
  "async_lost h was_connected s =
     (if h_cl (as_handles s ! h) \<and> was_connected then log_async (AsyncConnectionLost h) s else s)"

text \<open>Success and failure callbacks of a command, for the calls that have both versions.\<close>

definition call_success :: "nat \<Rightarrow> MQTTAsync_command \<Rightarrow> int \<Rightarrow> success \<Rightarrow> success \<Rightarrow> ('n, 'f) asys \<Rightarrow> ('n, 'f) asys" where
  "call_success h cmd token d d5 s =
     (if cm_onSuccess cmd then log_async (OnSuccess h (cm_context cmd) token d) s
      else if cm_onSuccess5 cmd then log_async (OnSuccess5 h (cm_context cmd) token 0 d5) s
      else s)"

definition call_failure :: "nat \<Rightarrow> MQTTAsync_command \<Rightarrow> int \<Rightarrow> nat \<Rightarrow> int \<Rightarrow> ('n, 'f) asys \<Rightarrow> ('n, 'f) asys" where
  "call_failure h cmd token ptype code s =
     (if cm_onFailure cmd then log_async (OnFailure h (cm_context cmd) token code) s
      else if cm_onFailure5 cmd then log_async (OnFailure5 h (cm_context cmd) token code 0 ptype) s
      else s)"

text \<open>The callbacks of the connect are set to NULL when one of them has been called.\<close>

definition connect_failure :: "nat \<Rightarrow> int \<Rightarrow> ('n, 'f) asys \<Rightarrow> ('n, 'f) asys" where
  "connect_failure h code s =
     (let cmd = h_connect (as_handles s ! h); s = call_failure h cmd 0 0 code s in
      upd_async h (\<lambda>m. m\<lparr>h_connect :=
        (if cm_onFailure cmd then cmd\<lparr>cm_onFailure := False, cm_onSuccess := False\<rparr>
         else if cm_onFailure5 cmd then cmd\<lparr>cm_onFailure5 := False, cm_onSuccess5 := False\<rparr> else cmd)\<rparr>) s)"

text \<open>
  \<open>timeout\<close> is converted to an unsigned number. \<open>props\<close> are those of the command, which may have been
  released.
\<close>

definition MQTTAsync_checkDisconnect ::
    "('n, 'f) async_api \<Rightarrow> nat \<Rightarrow> MQTTAsync_command \<Rightarrow> ub + MQTTProperties option \<Rightarrow> ('n, 'f) asys
      \<Rightarrow> ub + ('n, 'f) asys" where
  "MQTTAsync_checkDisconnect A h cmd props s =
     (let d = cm_details cmd; no_messages = (c_outboundMsgs (g_clients s ! h) = []);
          (e, s) = (if no_messages then (0, s) else elapsed_async A (cm_start_time cmd) s) in
      if no_messages \<or> e \<ge> unat (word_of_int (dis_timeout d) :: 64 word)
      then let was_connected = c_connected (g_clients s ! h) in
        ub_bind (MQTTAsync_closeSession A h (dis_reasonCode d) props s) (\<lambda>s.
          if dis_internal d then MQTTAsync_startConnectRetry A h (async_lost h was_connected s)
          else Inr (call_success h cmd 0 NoData NoData s))
      else Inr s)"

subsection \<open>Disconnecting and the next server\<close>

record MQTTAsync_disconnectOptions =
  do_struct_id :: bytes
  do_struct_version :: int
  do_timeout :: int
  do_onSuccess :: bool
  do_onFailure :: bool
  do_context :: nat
  do_properties :: MQTTProperties
  do_reasonCode :: int
  do_onSuccess5 :: bool
  do_onFailure5 :: bool

definition MQTTAsync_disconnectOptions_initializer :: MQTTAsync_disconnectOptions where
  "MQTTAsync_disconnectOptions_initializer = \<lparr>do_struct_id = map (\<lambda>c. of_char c) ''MQTD'', do_struct_version = 0,
     do_timeout = 0, do_onSuccess = False, do_onFailure = False, do_context = 0,
     do_properties = MQTTProperties_initializer, do_reasonCode = 0, do_onSuccess5 = False, do_onFailure5 = False\<rparr>"

definition disconnect_command ::
    "heap \<Rightarrow> bool \<Rightarrow> MQTTAsync_disconnectOptions option \<Rightarrow> bool \<Rightarrow> ub + MQTTAsync_command" where
  "disconnect_command H v5 options internal =
     (case options of
        None \<Rightarrow> Inr (zero_command\<lparr>cm_details := Disconnect internal 0 0\<rparr>)
      | Some o' \<Rightarrow>
         let cmd = zero_command\<lparr>cm_onSuccess := do_onSuccess o', cm_onFailure := do_onFailure o',
               cm_onSuccess5 := do_onSuccess5 o', cm_onFailure5 := do_onFailure5 o', cm_context := do_context o'\<rparr> in
         if v5 \<and> do_struct_version o' \<ge> 1
         then ub_bind (MQTTProperties_copy H (do_properties o')) (\<lambda>props.
           Inr (cmd\<lparr>cm_properties := props, cm_details := Disconnect internal (do_timeout o') (do_reasonCode o')\<rparr>))
         else Inr (cmd\<lparr>cm_details := Disconnect internal (do_timeout o') 0\<rparr>))"

definition MQTTAsync_disconnect1 ::
    "('n, 'f) async_api \<Rightarrow> nat option \<Rightarrow> MQTTAsync_disconnectOptions option \<Rightarrow> bool \<Rightarrow> ('n, 'f) asys
      \<Rightarrow> ub + (int \<times> ('n, 'f) asys)" where
  "MQTTAsync_disconnect1 A handle options internal s =
     (case handle of None \<Rightarrow> Inr (MQTTASYNC_FAILURE, s)
      | Some h \<Rightarrow>
         let s = (if internal then s else upd_async h (\<lambda>m. m\<lparr>h_shouldBeConnected := False\<rparr>) s);
             c = g_clients s ! h in
         if \<not> c_connected c then Inr (MQTTASYNC_DISCONNECTED, s)
         else if \<not> e_heap (a_env A) (ReqStruct ''MQTTAsync_queuedCommand'') then Inr (PAHO_MEMORY_ERROR, s)
         else ub_bind (disconnect_command (e_heap (a_env A)) (c_MQTTVersion c \<ge> MQTTVERSION_5) options internal) (\<lambda>cmd.
           let (a, s) = new_addr s in MQTTAsync_addCommand A (new_queued a h cmd) s))"

definition MQTTAsync_disconnect ::
    "('n, 'f) async_api \<Rightarrow> nat option \<Rightarrow> MQTTAsync_disconnectOptions option \<Rightarrow> ('n, 'f) asys
      \<Rightarrow> ub + (int \<times> ('n, 'f) asys)" where
  "MQTTAsync_disconnect A handle options s =
     (if (case options of None \<Rightarrow> False | Some o' \<Rightarrow> take 4 (do_struct_id o') \<noteq> map (\<lambda>c. of_char c) ''MQTD'' \<or>
          do_struct_version o' < 0 \<or> do_struct_version o' > 1)
      then Inr (MQTTASYNC_BAD_STRUCTURE, s)
      else MQTTAsync_disconnect1 A handle options False s)"

definition MQTTAsync_disconnect_internal ::
    "('n, 'f) async_api \<Rightarrow> nat option \<Rightarrow> int \<Rightarrow> ('n, 'f) asys \<Rightarrow> ub + (int \<times> ('n, 'f) asys)" where
  "MQTTAsync_disconnect_internal A handle timeout s =
     MQTTAsync_disconnect1 A handle (Some (MQTTAsync_disconnectOptions_initializer\<lparr>do_timeout := timeout\<rparr>)) True s"

definition MQTTAsync_checkConn :: "details \<Rightarrow> MQTTAsyncs \<Rightarrow> 'f Clients \<Rightarrow> bool" where
  "MQTTAsync_checkConn d m c \<longleftrightarrow>
     currentURI d + 1 < length (h_serverURIs m) \<or> conn_MQTTVersion d = 4 \<and> c_MQTTVersion c = MQTTVERSION_DEFAULT"

text \<open>What is tried next: version 3.1 of MQTT when 3.1.1 was refused, then the next server.\<close>

definition put_conn :: "nat \<Rightarrow> int \<Rightarrow> details \<Rightarrow> details" where
  "put_conn uri version d = (case d of NoCommand _ _ \<Rightarrow> NoCommand uri version | _ \<Rightarrow> Connect uri version)"

definition next_try :: "int \<Rightarrow> details \<Rightarrow> details" where
  "next_try MQTTVersion d =
     (if MQTTVersion = MQTTVERSION_DEFAULT
      then if conn_MQTTVersion d = MQTTVERSION_3_1 then put_conn (currentURI d + 1) MQTTVERSION_DEFAULT d else d
      else put_conn (currentURI d + 1) (conn_MQTTVersion d) d)"

text \<open>The result \<open>None\<close> says that there was no memory for the command.\<close>

definition try_next ::
    "('n, 'f) async_api \<Rightarrow> nat \<Rightarrow> ('n, 'f) asys \<Rightarrow> ub + (int option \<times> ('n, 'f) asys)" where
  "try_next A h s =
     (if \<not> e_heap (a_env A) (ReqStruct ''MQTTAsync_queuedCommand'') then Inr (None, s)
      else
       let cmd = h_connect (as_handles s ! h); (a, s) = new_addr s;
           cmd = cmd\<lparr>cm_details := next_try (c_MQTTVersion (g_clients s ! h)) (cm_details cmd)\<rparr>
       in ub_bind (MQTTAsync_addCommand A (new_queued a h cmd) s) (\<lambda>(rc, s). Inr (Some rc, s)))"

definition nextOrClose :: "('n, 'f) async_api \<Rightarrow> nat \<Rightarrow> int \<Rightarrow> ('n, 'f) asys \<Rightarrow> ub + ('n, 'f) asys" where
  "nextOrClose A h rc s =
     (let was_connected = c_connected (g_clients s ! h); m = as_handles s ! h;
          more_to_try = MQTTAsync_checkConn (cm_details (h_connect m)) m (g_clients s ! h) in
      ub_bind
        (if more_to_try
         then ub_bind (MQTTAsync_closeOnly A h 0 (Inr None) s) (\<lambda>s.
           ub_bind (try_next A h (async_lost h was_connected s)) (\<lambda>(r, s). case r of
               None \<Rightarrow> Inr (False, False, s)
             | Some r \<Rightarrow> Inr (r \<noteq> MQTTASYNC_SUCCESS, h_cl m \<and> was_connected, s)))
         else Inr (True, False, s))
        (\<lambda>(retry, connectionLost_called, s).
          if \<not> retry then Inr s
          else ub_bind (MQTTAsync_closeSession A h 0 (Inr None) s) (\<lambda>s.
            let s = (if connectionLost_called then s else async_lost h was_connected s) in
            MQTTAsync_startConnectRetry A h (connect_failure h rc s))))"

text \<open>\<^verbatim>\<open>MQTTProtocol_closeSession\<close>, as the protocol module calls it.\<close>

definition async_closeSession :: "('n, 'f) async_api \<Rightarrow> nat \<Rightarrow> ('n, 'f) asys \<Rightarrow> ub + ('n, 'f) asys" where
  "async_closeSession A h s = nextOrClose A h MQTTASYNC_DISCONNECTED s"

subsection \<open>Processing a command\<close>

text \<open>
  The command that is taken: the first one of its client that is not held back. A command that is
  held back holds back those of the same client behind it.
\<close>

definition ready :: "('n, 'f) async_api \<Rightarrow> ('n, 'f) asys \<Rightarrow> MQTTAsync_queuedCommand \<Rightarrow> bool" where
  "ready A s q \<longleftrightarrow>
     (let c = g_clients s ! qc_client q; d = qc_details q;
          uses_id = (is_publish d \<or> is_Subscribe d \<or> is_Unsubscribe d);
          flow = (is_publish d \<and> pub_qos d > 0 \<or> is_Subscribe d \<or> is_Unsubscribe d) in
      (is_connection d \<or> c_connected c \<and> c_connect_state c = NOT_IN_PROGRESS \<and>
         Socket_noPendingWrites (e_net (a_env A)) (nh_socket (c_net c)) (g_net s)) \<and>
      \<not> (uses_id \<and> int (length (c_outboundMsgs c)) \<ge> MAX_MSG_ID - 1) \<and>
      \<not> (flow \<and> int (length (c_outboundMsgs c)) \<ge> c_maxInflightMessages c))"

fun choose_command ::
    "('n, 'f) async_api \<Rightarrow> ('n, 'f) asys \<Rightarrow> nat list \<Rightarrow> MQTTAsync_queuedCommand list
      \<Rightarrow> MQTTAsync_queuedCommand option" where
  "choose_command A s ignored_clients [] = None"
| "choose_command A s ignored_clients (cmd # cmds) =
     (if qc_client cmd \<in> set ignored_clients then choose_command A s ignored_clients cmds
      else if ready A s cmd then Some cmd
      else choose_command A s (ignored_clients @ [qc_client cmd]) cmds)"

text \<open>
  Taking it off the queue, with its record. What was left in the store is read now; when that fails
  because of the store the command goes on without it, when the record cannot be parsed the command
  is NULL, which is dereferenced.
\<close>

definition complete_command ::
    "('n, 'f) async_api \<Rightarrow> MQTTAsync_queuedCommand \<Rightarrow> ('n, 'f) asys
      \<Rightarrow> ub + (int \<times> MQTTAsync_queuedCommand \<times> ('n, 'f) asys)" where
  "complete_command A q s =
     (let c = g_clients s ! qc_client q in
      case (c_persistence c, qc_not_restored q) of
        (Some per, True) \<Rightarrow>
          (case qc_key q of None \<Rightarrow> Inl NullDeref
           | Some key \<Rightarrow>
              let (rc, buffer, fs) = read_command_record c per key (g_fs s); s = s\<lparr>g_fs := fs\<rparr> in
              if rc \<noteq> 0 then Inr (rc, q, s)
              else ub_bind (MQTTAsync_restoreCommand (e_heap (a_env A)) (g_fresh s) buffer (key_version key)
                  (Some (q\<lparr>qc_key := None\<rparr>))) (\<lambda>r. case r of
                None \<Rightarrow> Inl NullDeref | Some q \<Rightarrow> Inr (0, q, s)))
      | _ \<Rightarrow> Inr (0, q, s))"

definition take_command ::
    "('n, 'f) async_api \<Rightarrow> MQTTAsync_queuedCommand \<Rightarrow> ('n, 'f) asys
      \<Rightarrow> ub + (int \<times> MQTTAsync_queuedCommand \<times> ('n, 'f) asys)" where
  "take_command A q s =
     (let h = qc_client q;
          s = (if is_publish (qc_details q)
            then upd_async h (\<lambda>m. m\<lparr>h_noBufferedMessages := h_noBufferedMessages m - 1\<rparr>) s else s);
          s = s\<lparr>as_commands := detach (l_commands A) (as_commands s) (qc_addr q)\<rparr>
      in if c_persistence (g_clients s ! h) = None then Inr (0, q, s)
         else ub_bind (complete_command A q s) (\<lambda>(rc, q, s).
           ub_bind (MQTTAsync_unpersistCommand (g_clients s ! h) q (g_fs s)) (\<lambda>(_, fs). Inr (rc, q, s\<lparr>g_fs := fs\<rparr>))))"

text \<open>Connecting: the address without its scheme, and the version that is tried.\<close>

definition skip_scheme :: "bytes \<Rightarrow> bytes \<times> bool" where
  "skip_scheme u =
     (if starts_with URI_TCP u then (drop (length URI_TCP) u, False)
      else if starts_with URI_MQTT u then (drop (length URI_MQTT) u, False)
      else if starts_with URI_WS u then (drop (length URI_WS) u, True)
      else (u, False))"

text \<open>A handle that has been used for a WebSocket stays one.\<close>

definition server_address :: "details \<Rightarrow> MQTTAsyncs \<Rightarrow> bytes option \<times> bool" where
  "server_address d m =
     (if currentURI d < length (h_serverURIs m)
      then let (u, ws) = skip_scheme (c_str (h_serverURIs m ! currentURI d)) in (Some u, h_websocket m \<or> ws)
      else (h_serverURI m, h_websocket m))"

definition version_to_try :: "int \<Rightarrow> int \<Rightarrow> int" where
  "version_to_try client_version cmd_version =
     (if client_version = MQTTVERSION_DEFAULT
      then if cmd_version = MQTTVERSION_DEFAULT then MQTTVERSION_3_1_1
        else if cmd_version = MQTTVERSION_3_1_1 then MQTTVERSION_3_1 else cmd_version
      else client_version)"

definition process_connect ::
    "('n, 'f) async_api \<Rightarrow> MQTTAsync_queuedCommand \<Rightarrow> ('n, 'f) asys
      \<Rightarrow> (int \<times> MQTTAsync_queuedCommand \<times> ('n, 'f) asys) run" where
  "process_connect A q s =
     (let h = qc_client q; c = g_clients s ! h; m = as_handles s ! h; d = qc_details q in
      if c_connect_state c \<noteq> NOT_IN_PROGRESS \<or> c_connected c then ret (0, q, s)
      else
       let (uri, ws) = server_address d m;
           version = version_to_try (c_MQTTVersion c) (conn_MQTTVersion d);
           s = upd_async h (\<lambda>m. m\<lparr>h_websocket := ws\<rparr>) s;
           q = q\<lparr>qc_command := (qc_command q)\<lparr>cm_details := put_conn (currentURI d) version d\<rparr>\<rparr>
       in case uri of None \<Rightarrow> Some (Inl NullDeref)
       | Some u \<Rightarrow>
          run_bind (MQTTProtocol_connect (a_env A) (a_connect A) (a_getenv_http_proxy A) u h ws version
              (h_connectProps m) (h_willProps m) 100 s) (\<lambda>(rc, s).
            let rc = (if c_connect_state (g_clients s ! h) = NOT_IN_PROGRESS then SOCKET_ERROR else rc);
                s = (if rc = EINPROGRESS
                  then s\<lparr>g_net := a_addPendingWrite A (socket_of h s) (g_net s)\<rparr> else s)
            in ret (rc, q, s)))"

definition process_subscribe ::
    "('n, 'f) async_api \<Rightarrow> MQTTAsync_queuedCommand \<Rightarrow> ('n, 'f) asys \<Rightarrow> ub + (int \<times> ('n, 'f) asys)" where
  "process_subscribe A q s =
     (let h = qc_client q; d = qc_details q; v5 = (c_MQTTVersion (g_clients s ! h) \<ge> MQTTVERSION_5);
          subopts = (if \<not> v5 then None
            else if length (sub_topics d) > 1 then map_option (map options_of) (sub_optlist d)
            else Some [options_of (sub_opts d)])
      in MQTTProtocol_subscribe (a_env A) h (sub_topics d) (sub_qoss d) (qc_token q) subopts
           (if v5 then Some (cm_properties (qc_command q)) else None) s)"

definition process_unsubscribe ::
    "('n, 'f) async_api \<Rightarrow> MQTTAsync_queuedCommand \<Rightarrow> ('n, 'f) asys \<Rightarrow> ub + (int \<times> ('n, 'f) asys)" where
  "process_unsubscribe A q s =
     (let h = qc_client q; v5 = (c_MQTTVersion (g_clients s ! h) \<ge> MQTTVERSION_5) in
      MQTTProtocol_unsubscribe (a_env A) h (unsub_topics (qc_details q)) (qc_token q)
        (if v5 then Some (cm_properties (qc_command q)) else None) s)"

text \<open>What a publish callback is told.\<close>

definition publish_data :: "details \<Rightarrow> success" where
  "publish_data d = PublishData (pub_destinationName d) (pub_payload d) (pub_payloadlen d) (pub_qos d) (pub_retained d)"

definition async_publish :: "('n, 'f) async_api \<Rightarrow> int \<Rightarrow> MQTTAsync_command \<Rightarrow> Publish" where
  "async_publish A version cmd =
     (let d = cm_details cmd in
      (new_publish A)\<lparr>pb_mask := [0, 0, 0, 0], pb_payload := null_bytes (pub_payload d),
        pb_payloadlen := pub_payloadlen d, pb_topic := pub_destinationName d, pb_msgId := cm_token cmd,
        pb_MQTTVersion := version,
        pb_properties := (if version \<ge> MQTTVERSION_5 then cm_properties cmd else MQTTProperties_initializer)\<rparr>)"

text \<open>
  Publishing. With QoS 0 the success callback is called when the packet has been sent; otherwise the
  command is the one whose write is pending, also when sending has failed. The result \<open>None\<close> is the
  jump to \<open>exit\<close> without memory, which loses the command.
\<close>

definition process_publish ::
    "('n, 'f) async_api \<Rightarrow> MQTTAsync_queuedCommand \<Rightarrow> ('n, 'f) asys
      \<Rightarrow> ub + ((int \<times> MQTTAsync_queuedCommand) option \<times> ('n, 'f) asys)" where
  "process_publish A q s =
     (let h = qc_client q; cmd = qc_command q; d = cm_details cmd in
      if \<not> e_heap (a_env A) (ReqStruct ''Publish'') then Inr (None, s)
      else ub_bind (MQTTProtocol_startPublish (a_env A) h (async_publish A (c_MQTTVersion (g_clients s ! h)) cmd)
          (nat (pub_qos d)) (nat (pub_retained d)) None s) (\<lambda>(rc, _, msg, s).
        let q = q\<lparr>qc_stored := Option.bind msg ms_publish\<rparr> in
        if pub_qos d \<noteq> 0 then Inr (Some (rc, q), s)
        else if rc = TCPSOCKET_COMPLETE
        then Inr (Some (rc, q), call_success h cmd (cm_token cmd) (publish_data d) (publish_data d) s)
        else Inr (Some (rc, if rc \<noteq> SOCKET_ERROR then null_publish q else q),
               upd_async h (\<lambda>m. m\<lparr>h_pending_write := Some (qc_addr q)\<rparr>) s)))"

text \<open>A connection attempt that a disconnect ends has failed.\<close>

definition process_disconnect ::
    "('n, 'f) async_api \<Rightarrow> MQTTAsync_queuedCommand \<Rightarrow> ('n, 'f) asys \<Rightarrow> ub + ('n, 'f) asys" where
  "process_disconnect A q s =
     (let h = qc_client q; c = g_clients s ! h in
      if c_connect_state c \<noteq> NOT_IN_PROGRESS \<or> c_connected c
      then
       let s = (if c_connect_state c \<noteq> NOT_IN_PROGRESS then connect_failure h MQTTASYNC_OPERATION_INCOMPLETE s else s)
       in MQTTAsync_checkDisconnect A h (qc_command q) (Inr (Some (cm_properties (qc_command q))))
            (put_connect_state h DISCONNECTING s)
      else Inr s)"

text \<open>
  After a command could not be carried out: the connection is given up, and for a connect the next
  server is tried.
\<close>

definition command_failed ::
    "('n, 'f) async_api \<Rightarrow> int \<Rightarrow> MQTTAsync_queuedCommand \<Rightarrow> ('n, 'f) asys \<Rightarrow> ub + ('n, 'f) asys" where
  "command_failed A rc q s =
     (let h = qc_client q; conn = is_Connect (qc_details q) in
      ub_bind (if conn
          then ub_bind (MQTTAsync_disconnect A (Some h) (Some MQTTAsync_disconnectOptions_initializer) s) (\<lambda>(_, s).
            Inr (upd_async h (\<lambda>m. m\<lparr>h_shouldBeConnected := True\<rparr>) s))
          else ub_bind (MQTTAsync_disconnect_internal A (Some h) 0 s) (\<lambda>(_, s). Inr s)) (\<lambda>s.
        let c = g_clients s ! h in
        if conn \<and> MQTTAsync_checkConn (qc_details q) (as_handles s ! h) c
        then let q = q\<lparr>qc_command := (qc_command q)\<lparr>cm_details := next_try (c_MQTTVersion c) (qc_details q)\<rparr>\<rparr> in
          ub_bind (MQTTAsync_addCommand A q s) (\<lambda>(_, s). Inr s)
        else
         let s = call_failure h (qc_command q) 0 0 rc s in
         ub_bind (if conn then MQTTAsync_startConnectRetry A h (upd_async h (\<lambda>m. m\<lparr>h_connect := qc_command q\<rparr>) s)
                  else Inr s) (\<lambda>s. MQTTAsync_freeCommand A q s)))"

definition await_response :: "('n, 'f) async_api \<Rightarrow> MQTTAsync_queuedCommand \<Rightarrow> ('n, 'f) asys \<Rightarrow> ('n, 'f) asys" where
  "await_response A q =
     upd_async (qc_client q) (\<lambda>m. m\<lparr>h_responses := ListAppend (l_commands A) (h_responses m) q\<rparr>)"

definition command_done ::
    "('n, 'f) async_api \<Rightarrow> int \<Rightarrow> MQTTAsync_queuedCommand \<Rightarrow> ('n, 'f) asys \<Rightarrow> ub + ('n, 'f) asys" where
  "command_done A rc q s =
     (let h = qc_client q; d = qc_details q; failed = (rc = SOCKET_ERROR \<or> rc = MQTTASYNC_PERSISTENCE_ERROR);
          released = MQTTAsync_freeCommand A q in
      if is_Connect d \<and> \<not> failed then released (upd_async h (\<lambda>m. m\<lparr>h_connect := qc_command q\<rparr>) s)
      else if is_Disconnect d then released (upd_async h (\<lambda>m. m\<lparr>h_disconnect := qc_command q\<rparr>) s)
      else if is_publish d \<and> pub_qos d = 0 \<and> \<not> failed
      then if rc = TCPSOCKET_INTERRUPTED then Inr (await_response A q s) else released s
      else if failed then command_failed A rc q s
      else Inr (await_response A q s))"

text \<open>The result says whether there was a command that could be processed.\<close>

definition MQTTAsync_processCommand :: "('n, 'f) async_api \<Rightarrow> ('n, 'f) asys \<Rightarrow> (bool \<times> ('n, 'f) asys) run" where
  "MQTTAsync_processCommand A s =
     (case choose_command A s [] (as_commands s) of
        None \<Rightarrow> ret (False, s)
      | Some q \<Rightarrow>
         run_bind (Some (take_command A q s)) (\<lambda>(rc, q, s).
         run_bind
           (case qc_details q of
              Connect _ _ \<Rightarrow> run_bind (process_connect A q s) (\<lambda>(rc, q, s). ret (Some (rc, q), s))
            | Subscribe _ _ _ _ \<Rightarrow> Some (ub_bind (process_subscribe A q s) (\<lambda>(rc, s). Inr (Some (rc, q), s)))
            | Unsubscribe _ \<Rightarrow> Some (ub_bind (process_unsubscribe A q s) (\<lambda>(rc, s). Inr (Some (rc, q), s)))
            | PublishCmd _ _ _ _ _ \<Rightarrow> Some (process_publish A q s)
            | Disconnect _ _ _ \<Rightarrow> Some (ub_bind (process_disconnect A q s) (\<lambda>s. Inr (Some (rc, q), s)))
            | NoCommand _ _ \<Rightarrow> ret (Some (rc, q), s)) (\<lambda>(r, s).
         case r of
           None \<Rightarrow> ret (True, s)
         | Some (rc, q) \<Rightarrow> Some (ub_bind (command_done A rc q s) (\<lambda>s. Inr (True, s))))))"

subsection \<open>Timeouts\<close>

text \<open>
  A deferred disconnect. The command was released when it was kept, and with it the array of its
  properties.
\<close>

definition kept_props :: "MQTTAsync_command \<Rightarrow> ub + MQTTProperties option" where
  "kept_props cmd =
     (if p_array (cm_properties cmd) = None then Inr (Some (cm_properties cmd)) else Inl UseAfterFree)"

text \<open>A time in seconds as an unsigned number of milliseconds.\<close>

definition seconds_ms :: "int \<Rightarrow> ub + nat" where
  "seconds_ms n =
     (if n * 1000 > 2147483647 \<or> n * 1000 < - 2147483648 then Inl IntOverflow
      else Inr (unat (word_of_int (n * 1000) :: 64 word)))"

text \<open>The application may replace the user name and the password of a connection that is made again.\<close>

definition update_connect_options :: "('n, 'f) async_api \<Rightarrow> nat \<Rightarrow> ('n, 'f) asys \<Rightarrow> ('n, 'f) asys" where
  "update_connect_options A h s =
     (if \<not> h_updateConnectOptions (as_handles s ! h) then s
      else
       let c = g_clients s ! h;
           (replace, username, password) =
             a_updateConnectOptions A (as_calls s) (c_username c) (c_password c, c_passwordlen c);
           s = log_async (UpdateConnectOptions h) s
       in if \<not> replace then s
          else upd_client h (\<lambda>c. c\<lparr>c_username := username,
            c_password := (case password of None \<Rightarrow> c_password c | Some (p, _) \<Rightarrow> p),
            c_passwordlen := (case password of None \<Rightarrow> c_passwordlen c | Some (None, _) \<Rightarrow> 0
              | Some (Some _, len) \<Rightarrow> len)\<rparr>) s)"

definition reconnect_command :: "int \<Rightarrow> MQTTAsync_command \<Rightarrow> MQTTAsync_command" where
  "reconnect_command MQTTVersion cmd =
     (if MQTTVersion = MQTTVERSION_DEFAULT
      then cmd\<lparr>cm_details := put_conn (currentURI (cm_details cmd)) 0 (cm_details cmd)\<rparr> else cmd)"

text \<open>The result \<open>False\<close> is the jump to \<open>exit\<close> without memory.\<close>

definition reconnect_now ::
    "('n, 'f) async_api \<Rightarrow> nat \<Rightarrow> ('n, 'f) asys \<Rightarrow> ub + (bool \<times> ('n, 'f) asys)" where
  "reconnect_now A h s =
     (if \<not> e_heap (a_env A) (ReqStruct ''MQTTAsync_queuedCommand'') then Inr (False, s)
      else
       let (a, s) = new_addr s;
           cmd = reconnect_command (c_MQTTVersion (g_clients s ! h)) (h_connect (as_handles s ! h));
           s = update_connect_options A h s
       in ub_bind (MQTTAsync_addCommand A (new_queued a h cmd) s) (\<lambda>(_, s).
            Inr (True, upd_async h (\<lambda>m. m\<lparr>h_reconnectNow := False\<rparr>) s)))"

definition check_reconnect ::
    "('n, 'f) async_api \<Rightarrow> nat \<Rightarrow> ('n, 'f) asys \<Rightarrow> ub + (bool \<times> ('n, 'f) asys)" where
  "check_reconnect A h s =
     (let m = as_handles s ! h in
      if \<not> (h_automaticReconnect m \<and> h_retrying m) then Inr (True, s)
      else if h_reconnectNow m then reconnect_now A h s
      else let (e, s) = elapsed_async A (h_lastConnectionFailedTime m) s in
        ub_bind (seconds_ms (h_currentInterval m)) (\<lambda>ms.
          if e > ms then reconnect_now A h s else Inr (True, s)))"

definition check_client ::
    "('n, 'f) async_api \<Rightarrow> nat \<Rightarrow> ('n, 'f) asys \<Rightarrow> ub + (bool \<times> ('n, 'f) asys)" where
  "check_client A h s =
     ub_bind (if c_connect_state (g_clients s ! h) = DISCONNECTING
         then let cmd = h_disconnect (as_handles s ! h) in MQTTAsync_checkDisconnect A h cmd (kept_props cmd) s
         else Inr s) (\<lambda>s.
       if c_connect_state (g_clients s ! h) = NOT_IN_PROGRESS then check_reconnect A h s
       else let m = as_handles s ! h; (e, s) = elapsed_async A (cm_start_time (h_connect m)) s in
         ub_bind (seconds_ms (h_connectTimeout m)) (\<lambda>ms.
           if e > ms then ub_bind (nextOrClose A h MQTTASYNC_FAILURE s) (\<lambda>s. Inr (True, s))
           else check_reconnect A h s))"

fun check_clients ::
    "('n, 'f) async_api \<Rightarrow> nat list \<Rightarrow> ('n, 'f) asys \<Rightarrow> ub + ('n, 'f) asys" where
  "check_clients A [] s = Inr s"
| "check_clients A (h # hs) s =
     ub_bind (check_client A h s) (\<lambda>(go_on, s). if go_on then check_clients A hs s else Inr s)"

definition MQTTAsync_checkTimeouts :: "('n, 'f) async_api \<Rightarrow> ('n, 'f) asys \<Rightarrow> ub + ('n, 'f) asys" where
  "MQTTAsync_checkTimeouts A s =
     (let (t, s) = now_async A s in
      if MQTTTime_difftime t (as_lastTimeouts s) < 3000 then Inr s
      else check_clients A [0..<length (as_handles s)] (s\<lparr>as_lastTimeouts := t\<rparr>))"

subsection \<open>The thread\<close>

text \<open>
  The loop over the commands: those that can be processed, until there is none. The thread holds no
  lock between two commands.
\<close>

partial_function (option) process_commands :: "('n, 'f) async_api \<Rightarrow> ('n, 'f) asys \<Rightarrow> ('n, 'f) asys run" where
  "process_commands A s =
     (if as_commands s = [] then ret s
      else run_bind (MQTTAsync_processCommand A s) (\<lambda>(r, s). if r then process_commands A s else ret s))"

text \<open>
  \<^verbatim>\<open>MQTTAsync_sendThread\<close>: what it does first, and one turn of its loop when no other thread comes in
  between.
\<close>

definition MQTTAsync_sendThread :: "('n, 'f) async_api \<Rightarrow> ('n, 'f) asys \<Rightarrow> ('n, 'f) asys run" where
  "MQTTAsync_sendThread A s =
     (case as_sendThread s of
        STARTING \<Rightarrow> ret (s\<lparr>as_sendThread := RUNNING\<rparr>)
      | RUNNING \<Rightarrow>
         if as_tostop s then ret (s\<lparr>as_sendThread := STOPPED\<rparr>)
         else run_bind (process_commands A s) (\<lambda>s. Some (MQTTAsync_checkTimeouts A s))
      | _ \<Rightarrow> ret s)"

end
