(* ===== verification/AsyncReceive.thy ===== *)
theory AsyncReceive
  imports AsyncSend
begin

section \<open>The receive thread: \<^verbatim>\<open>src/include/MQTTAsyncUtils.c\<close>\<close>

text \<open>
  What is done with a packet: completing a connection, the callbacks of the commands that wait for a
  response, handing messages to the application; and the writes that complete later.
\<close>

subsection \<open>Messages for the application\<close>

definition MQTTAsync_deliverMessage ::
    "('n, 'f) async_api \<Rightarrow> nat \<Rightarrow> bytes \<Rightarrow> int \<Rightarrow> MQTTPersistence_message \<Rightarrow> ('n, 'f) asys \<Rightarrow> int \<times> ('n, 'f) asys" where
  "MQTTAsync_deliverMessage A h topicName topicLen mm s =
     (a_messageArrived A (as_calls s), log_async (AsyncMessageArrived h topicName topicLen mm) s)"

definition queue_message ::
    "('n, 'f) async_api \<Rightarrow> nat \<Rightarrow> bytes \<Rightarrow> int \<Rightarrow> MQTTPersistence_message \<Rightarrow> ('n, 'f) asys \<Rightarrow> ub + ('n, 'f) asys" where
  "queue_message A h topic topiclen mm s =
     (if \<not> e_heap (a_env A) (ReqStruct ''qEntry'') then Inr s
      else
       let qe = \<lparr>qe_msg = mm, qe_topicName = topic, qe_topicLen = topiclen, qe_seqno = 0\<rparr>;
           old = c_messageQueue (g_clients s ! h);
           s = upd_client h (\<lambda>c. c\<lparr>c_messageQueue := ListAppend (l_queue (e_lists (a_env A))) (c_messageQueue c) qe\<rparr>) s
       in if c_persistence (g_clients s ! h) = None then Inr s
          else ub_bind (MQTTPersistence_persistQueueEntry (e_heap (a_env A)) (g_clients s ! h) qe (g_fs s))
            (\<lambda>(_, c, qe, fs).
              Inr (set_client h (c\<lparr>c_messageQueue := (c_messageQueue c)[length old := qe]\<rparr>) (s\<lparr>g_fs := fs\<rparr>))))"

text \<open>
  \<^verbatim>\<open>Protocol_processPublication\<close> of this client: a message goes to the application at once when no
  other is waiting, and to the queue when it is not taken.
\<close>

definition async_processPublication ::
    "('n, 'f) async_api \<Rightarrow> Publish \<Rightarrow> nat \<Rightarrow> bool \<Rightarrow> ('n, 'f) asys \<Rightarrow> ub + (Publish \<times> ('n, 'f) asys)" where
  "async_processPublication A publish h allocatePayload s =
     (let H = e_heap (a_env A); done = publish\<lparr>pb_topic := None\<rparr> in
      if \<not> H (ReqStruct ''MQTTAsync_message'') \<or>
         allocatePayload \<and> \<not> H (ReqBuffer (size_t_of (pb_payloadlen publish))) then Inr (done, s)
      else ub_bind (if allocatePayload then memcpy_src (pb_payload publish) (pb_payloadlen publish)
                    else Inr (pb_payload publish)) (\<lambda>payload.
        ub_bind (if pb_MQTTVersion publish \<ge> MQTTVERSION_5 then MQTTProperties_copy H (pb_properties publish)
                 else Inr MQTTProperties_initializer) (\<lambda>props.
        let mm = \<lparr>pm_struct_version = 1, pm_payloadlen = pb_payloadlen publish, pm_payload = payload,
              pm_qos = int (hd_qos (pb_header publish)), pm_retained = int (hd_retain (pb_header publish)),
              pm_dup = (if hd_qos (pb_header publish) = 2 then 0 else int (hd_dup (pb_header publish))),
              pm_msgid = pb_msgId publish, pm_properties = props\<rparr>;
            c = g_clients s ! h;
            (rc, s) = (if c_messageQueue c = [] \<and> c_connected c \<and> h_ma (as_handles s ! h)
              then MQTTAsync_deliverMessage A h (null_bytes (pb_topic publish)) (pb_topiclen publish) mm s
              else (0, s))
        in if rc \<noteq> 0 then Inr (done, s)
           else case pb_topic publish of
               None \<Rightarrow> if H (ReqStruct ''qEntry'') then Inl NullDeref else Inr (done, s)
             | Some t \<Rightarrow> ub_bind (queue_message A h t (pb_topiclen publish) mm s) (\<lambda>s. Inr (done, s)))))"

text \<open>The oldest message of the queue, when the application takes it.\<close>

definition deliver_queued :: "('n, 'f) async_api \<Rightarrow> nat \<Rightarrow> ('n, 'f) asys \<Rightarrow> ub + ('n, 'f) asys" where
  "deliver_queued A h s =
     (case c_messageQueue (g_clients s ! h) of
        [] \<Rightarrow> Inr s
      | qe # _ \<Rightarrow>
         if \<not> h_ma (as_handles s ! h) then Inr s
         else
          let topicLen = (if int (strlen (qe_topicName qe)) = qe_topicLen qe then 0 else qe_topicLen qe);
              (rc, s) = MQTTAsync_deliverMessage A h (qe_topicName qe) topicLen (qe_msg qe) s
          in if rc = 0 then Inr s
             else ub_bind (if c_persistence (g_clients s ! h) = None then Inr (g_fs s)
                    else ub_bind (MQTTPersistence_unpersistQueueEntry (g_clients s ! h) qe (g_fs s)) (\<lambda>(_, fs). Inr fs))
                (\<lambda>fs. Inr (upd_client h (\<lambda>c. c\<lparr>c_messageQueue :=
                   ListRemove (l_queue (e_lists (a_env A))) (c_messageQueue c) 0\<rparr>) (s\<lparr>g_fs := fs\<rparr>))))"

subsection \<open>Retrying and keeping alive\<close>

definition setRetryLoopInterval_async :: "int \<Rightarrow> ('n, 'f) asys \<Rightarrow> ub + ('n, 'f) asys" where
  "setRetryLoopInterval_async keepalive s =
     (if keepalive * 1000 > 2147483647 \<or> keepalive * 1000 < - 2147483648 then Inl IntOverflow
      else Inr (s\<lparr>as_retryLoopIntervalms := max 100 (min 5000 ((keepalive * 1000) sdiv 10))\<rparr>))"

definition MQTTAsync_retry :: "('n, 'f) async_api \<Rightarrow> ('n, 'f) asys \<Rightarrow> ub + ('n, 'f) asys" where
  "MQTTAsync_retry A s =
     (let E = a_env A; close = async_closeSession A; (now1, s) = now_async A s in
      if MQTTTime_difftime now1 (as_lastRetry s) \<ge> as_retryLoopIntervalms s
      then let (t, s) = now_async A s in
        ub_bind (MQTTProtocol_keepalive_with close E now1 (s\<lparr>as_lastRetry := t\<rparr>)) (\<lambda>s.
          MQTTProtocol_retry_with close E now1 True False s)
      else MQTTProtocol_retry_with close E now1 False False s)"

subsection \<open>Completing a connection\<close>

definition zero_touch :: "nat \<Rightarrow> ('n, 'f) asys \<Rightarrow> ('n, 'f) asys" where
  "zero_touch h =
     upd_client h (\<lambda>c. c\<lparr>c_outboundMsgs := map (ms_lastTouch_update (\<lambda>_. START_TIME_ZERO)) (c_outboundMsgs c)\<rparr>)"

definition MQTTAsync_completeConnection ::
    "('n, 'f) async_api \<Rightarrow> nat \<Rightarrow> Connack \<Rightarrow> ('n, 'f) asys \<Rightarrow> ub + (int \<times> ('n, 'f) asys)" where
  "MQTTAsync_completeConnection A h connack s =
     (if c_connect_state (g_clients s ! h) \<noteq> WAIT_FOR_CONNACK then Inr (MQTTASYNC_FAILURE, s)
      else if ca_rc connack \<noteq> 0 then Inr (int (unat (ca_rc connack)), s)
      else
       let s = upd_client h (\<lambda>c. c\<lparr>c_connected := True, c_good := True, c_connect_state := NOT_IN_PROGRESS\<rparr>)
             (upd_async h (\<lambda>m. m\<lparr>h_retrying := False\<rparr>) s);
           c = g_clients s ! h
       in ub_bind
         (if c_cleansession c \<noteq> 0 \<or> c_cleanstart c \<noteq> 0 \<or>
             c_MQTTVersion c \<ge> MQTTVERSION_3_1_1 \<and> connack_flag (ca_flags connack) = 0
          then MQTTAsync_cleanSession A h s else Inr (MQTTASYNC_SUCCESS, s)) (\<lambda>(rc, s).
         if c_outboundMsgs (g_clients s ! h) = [] then Inr (rc, s)
         else ub_bind (MQTTProtocol_retry_with (async_closeSession A) (a_env A) START_TIME_ZERO True True
             (zero_touch h s)) (\<lambda>s.
           Inr (if c_connected (g_clients s ! h) then rc else MQTTASYNC_DISCONNECTED, s))))"

definition conn_uri :: "MQTTAsyncs \<Rightarrow> bytes option" where
  "conn_uri m =
     (let d = cm_details (h_connect m) in
      if currentURI d < length (h_serverURIs m) then Some (h_serverURIs m ! currentURI d) else h_serverURI m)"

text \<open>
  The callbacks after a successful connect; in version 5 the address is taken without looking at the
  number of addresses. The limit of messages in flight is that of the server when it is lower.
\<close>

definition connect_success ::
    "nat \<Rightarrow> Connack \<Rightarrow> ('n, 'f) asys \<Rightarrow> ub + ('n, 'f) asys" where
  "connect_success h connack s =
     (let m = as_handles s ! h; cmd = h_connect m; d = cm_details cmd;
          data = ConnectData (conn_uri m) (conn_MQTTVersion d) (connack_flag (ca_flags connack)) in
      if cm_onSuccess cmd
      then Inr (upd_async h (\<lambda>m. m\<lparr>h_connect := cmd\<lparr>cm_onSuccess := False, cm_onFailure := False\<rparr>\<rparr>)
        (log_async (OnSuccess h (cm_context cmd) 0 data) s))
      else if cm_onSuccess5 cmd
      then if h_serverURIs m \<noteq> [] \<and> currentURI d \<ge> length (h_serverURIs m) then Inl OverRead
        else Inr (upd_async h (\<lambda>m. m\<lparr>h_connect := cmd\<lparr>cm_onSuccess5 := False, cm_onFailure5 := False\<rparr>\<rparr>)
          (log_async (OnSuccess5 h (cm_context cmd) 0 (int (unat (ca_rc connack))) data) s))
      else Inr s)"

definition async_receive_maximum :: "nat \<Rightarrow> Connack \<Rightarrow> ('n, 'f) asys \<Rightarrow> ub + ('n, 'f) asys" where
  "async_receive_maximum h connack s =
     (if c_MQTTVersion (g_clients s ! h) < MQTTVERSION_5 then Inr s
      else case ca_properties connack of
          None \<Rightarrow> Inl UninitRead
        | Some ps \<Rightarrow> ub_bind (MQTTProperties_hasProperty ps 33) (\<lambda>has.
            if \<not> has then Inr s
            else ub_bind (MQTTProperties_getNumericValue ps 33) (\<lambda>recv_max.
              Inr (upd_client h (\<lambda>c. c\<lparr>c_maxInflightMessages := min (c_maxInflightMessages c) recv_max\<rparr>) s))))"

definition handle_connack ::
    "('n, 'f) async_api \<Rightarrow> nat \<Rightarrow> Connack \<Rightarrow> ('n, 'f) asys \<Rightarrow> ub + ('n, 'f) asys" where
  "handle_connack A h connack s =
     ub_bind (MQTTAsync_completeConnection A h connack s) (\<lambda>(rc, s).
     ub_bind
       (if rc = MQTTASYNC_SUCCESS
        then let cmd = h_connect (as_handles s ! h); onSuccess = (cm_onSuccess cmd \<or> cm_onSuccess5 cmd) in
          ub_bind (connect_success h connack s) (\<lambda>s.
            async_receive_maximum h connack (if h_connected (as_handles s ! h) then log_async (AsyncConnected h onSuccess) s else s))
        else nextOrClose A h rc s) (\<lambda>s.
       ub_bind (MQTTPacket_freeConnack connack) (\<lambda>_. Inr s)))"

subsection \<open>Responses to commands\<close>

text \<open>The first command that waits for a response with a message id, taken out of the list.\<close>

definition find_response :: "nat \<Rightarrow> int \<Rightarrow> ('n, 'f) asys \<Rightarrow> MQTTAsync_queuedCommand option" where
  "find_response h msgid s =
     (let rs = h_responses (as_handles s ! h) in map_option (\<lambda>k. rs ! k) (find_index (cmdMessageIDCompare msgid) rs))"

definition take_response ::
    "('n, 'f) async_api \<Rightarrow> nat \<Rightarrow> MQTTAsync_queuedCommand \<Rightarrow> ('n, 'f) asys \<Rightarrow> ('n, 'f) asys" where
  "take_response A h q = upd_async h (\<lambda>m. m\<lparr>h_responses := detach (l_commands A) (h_responses m) (qc_addr q)\<rparr>)"

text \<open>The first return code is read without looking whether there is one, in version 5.\<close>

definition suback_call ::
    "nat \<Rightarrow> int \<Rightarrow> nat list \<Rightarrow> MQTTAsync_command \<Rightarrow> ('n, 'f) asys \<Rightarrow> ub + ('n, 'f) asys" where
  "suback_call h version qoss cmd s =
     (if version \<ge> MQTTVERSION_5
      then if length qoss = 1 \<and> hd qoss \<ge> 128
        then Inr (if cm_onFailure5 cmd
          then log_async (OnFailure5 h (cm_context cmd) (cm_token cmd) 0 (int (hd qoss)) 0) s else s)
        else if cm_onSuccess5 cmd
        then if qoss = [] then Inl NullDeref
          else Inr (log_async (OnSuccess5 h (cm_context cmd) (cm_token cmd) (int (hd qoss)) (SubscribeData qoss)) s)
        else Inr s
      else if qoss = [nat MQTT_BAD_SUBSCRIBE]
      then Inr (if cm_onFailure cmd
        then log_async (OnFailure h (cm_context cmd) (cm_token cmd) MQTT_BAD_SUBSCRIBE) s else s)
      else Inr (if cm_onSuccess cmd
        then log_async (OnSuccess h (cm_context cmd) (cm_token cmd) (SubscribeData qoss)) s else s))"

definition handle_suback ::
    "('n, 'f) async_api \<Rightarrow> nat \<Rightarrow> Suback \<Rightarrow> ('n, 'f) asys \<Rightarrow> ub + ('n, 'f) asys" where
  "handle_suback A h sub s =
     ub_bind
       (case find_response h (sa_msgId sub) s of
          None \<Rightarrow> Inr s
        | Some q \<Rightarrow>
           ub_bind (suback_call h (c_MQTTVersion (g_clients s ! h)) (sa_qoss sub) (qc_command q) (take_response A h q s))
             (MQTTAsync_freeCommand A q)) (\<lambda>s.
       ub_bind (MQTTProtocol_handleSubacks (a_env A) sub (socket_of h s) s) (\<lambda>(_, s). Inr s))"

definition handle_unsuback ::
    "('n, 'f) async_api \<Rightarrow> nat \<Rightarrow> Unsuback \<Rightarrow> ('n, 'f) asys \<Rightarrow> ub + ('n, 'f) asys" where
  "handle_unsuback A h unsub s =
     ub_bind
       (case find_response h (ua_msgId unsub) s of
          None \<Rightarrow> Inr s
        | Some q \<Rightarrow>
           let cmd = qc_command q; s = take_response A h q s in
           ub_bind
             (if cm_onSuccess cmd
              then Inr (log_async (OnSuccess h (cm_context cmd) (cm_token cmd) NoData) s)
              else if cm_onSuccess5 cmd
              then case ua_reasonCodes unsub of
                  Some (r # rs) \<Rightarrow>
                    Inr (log_async (OnSuccess5 h (cm_context cmd) (cm_token cmd) (int r) (UnsubscribeData (r # rs))) s)
                | _ \<Rightarrow> Inl NullDeref
              else Inr s) (MQTTAsync_freeCommand A q)) (\<lambda>s.
       ub_bind (MQTTProtocol_handleUnsubacks (a_env A) unsub (socket_of h s) s) (\<lambda>(_, s). Inr s))"

text \<open>
  The callbacks at the end of a publish. \<open>removed\<close> is the publication the handler has left to be
  released here. The callback \<open>onFailure5\<close> is told the type of the packet, which is read from the
  packet after the handler has released it.
\<close>

definition publish_call ::
    "nat \<Rightarrow> nat \<Rightarrow> MQTTAsync_command \<Rightarrow> ('n, 'f) asys \<Rightarrow> ub + ('n, 'f) asys" where
  "publish_call h ackrc cmd s =
     (if (cm_onSuccess cmd \<or> cm_onSuccess5 cmd \<and> ackrc < 128) \<and> \<not> is_publish (cm_details cmd) then Inl WrongMember
      else if cm_onSuccess cmd
      then Inr (log_async (OnSuccess h (cm_context cmd) (cm_token cmd) (publish_data (cm_details cmd))) s)
      else if cm_onSuccess5 cmd \<and> ackrc < 128
      then Inr (log_async (OnSuccess5 h (cm_context cmd) (cm_token cmd) 0 (publish_data (cm_details cmd))) s)
      else if cm_onFailure5 cmd \<and> ackrc \<ge> 128 then Inl UseAfterFree
      else Inr s)"

definition publish_done ::
    "('n, 'f) async_api \<Rightarrow> nat \<Rightarrow> int \<Rightarrow> nat \<Rightarrow> nat option \<Rightarrow> ('n, 'f) asys \<Rightarrow> ub + ('n, 'f) asys" where
  "publish_done A h msgid ackrc removed s =
     (let s = (if h_dc (as_handles s ! h) then log_async (AsyncDeliveryComplete h msgid) s else s) in
      case find_response h msgid s of
        None \<Rightarrow> MQTTProtocol_removePublication (a_env A) removed s
      | Some q \<Rightarrow>
         ub_bind (publish_call h ackrc (qc_command q) (take_response A h q s)) (\<lambda>s.
         ub_bind (MQTTProtocol_removePublication (a_env A) removed s) (\<lambda>s.
           if removed = None then MQTTAsync_freeCommand A q s
           else if is_publish (qc_details q) then MQTTAsync_freeCommand A (null_publish q) s
           else Inl WrongMember)))"

definition handle_async_ack ::
    "('n, 'f) async_api \<Rightarrow> nat \<Rightarrow> int \<Rightarrow> Ack \<Rightarrow> ('n, 'f) asys \<Rightarrow> ub + (int \<times> ('n, 'f) asys)" where
  "handle_async_ack A h sock a s =
     ub_bind (ack_id a) (\<lambda>msgid.
     ub_bind (if ak_MQTTVersion a < MQTTVERSION_5 then Inr 0
              else case (ak_rc a, ak_properties a) of
                  (Some rc, Some ps) \<Rightarrow> ub_bind (MQTTProperties_copy (e_heap (a_env A)) ps) (\<lambda>_. Inr (unat rc))
                | _ \<Rightarrow> Inl UninitRead) (\<lambda>ackrc.
       let ptype = hd_type (ak_header a) in
       ub_bind ((if ptype = PUBCOMP then MQTTProtocol_handlePubcomps
                 else if ptype = PUBREC then MQTTProtocol_handlePubrecs
                 else MQTTProtocol_handlePubacks) (a_env A) a sock True s) (\<lambda>(rc, removed, s).
         ub_bind (if ptype \<noteq> PUBREC \<or> ackrc \<ge> 128 then publish_done A h msgid ackrc removed s
                  else MQTTProtocol_removePublication (a_env A) removed s) (\<lambda>s. Inr (rc, s)))))"

text \<open>The packets that are handled while they are read; the others are left to the thread.\<close>

definition handle_async_packet ::
    "('n, 'f) async_api \<Rightarrow> nat \<Rightarrow> int \<Rightarrow> int \<Rightarrow> packet \<Rightarrow> ('n, 'f) asys \<Rightarrow> ub + (int \<times> packet option \<times> ('n, 'f) asys)" where
  "handle_async_packet A h sock rc pack s =
     (let E = a_env A; process = async_processPublication A; done = (\<lambda>r. ub_bind r (\<lambda>(rc, s). Inr (rc, None, s))) in
      case pack of
        PkPublish p \<Rightarrow> done (MQTTProtocol_handlePublishes_with process E p sock s)
      | PkAck a \<Rightarrow>
          let ptype = hd_type (ak_header a) in
          if ptype = PUBACK \<or> ptype = PUBCOMP \<or> ptype = PUBREC then done (handle_async_ack A h sock a s)
          else if ptype = PUBREL then done (MQTTProtocol_handlePubrels_with process E a sock s)
          else Inr (rc, Some pack, s)
      | PkHeader b \<Rightarrow>
          if hd_type b = PINGRESP then done (MQTTProtocol_handlePingresps E sock s) else Inr (rc, Some pack, s)
      | _ \<Rightarrow> Inr (rc, Some pack, s))"

subsection \<open>A connection that is being made\<close>

text \<open>
  The address for a proxy or a WebSocket; in a list of addresses the number is not checked.
\<close>

definition connecting_uri :: "details \<Rightarrow> MQTTAsyncs \<Rightarrow> ub + bytes option" where
  "connecting_uri d m =
     (if h_serverURIs m = [] then Inr (h_serverURI m)
      else if currentURI d < length (h_serverURIs m)
      then Inr (Some (fst (skip_scheme (c_str (h_serverURIs m ! currentURI d)))))
      else Inl OverRead)"

definition send_async_connect ::
    "('n, 'f) async_api \<Rightarrow> nat \<Rightarrow> ('n, 'f) asys \<Rightarrow> ub + (int \<times> ('n, 'f) asys)" where
  "send_async_connect A h s =
     (let m = as_handles s ! h in
      MQTTPacket_send_connect (a_env A) h (conn_MQTTVersion (cm_details (h_connect m)))
        (h_connectProps m) (h_willProps m) (put_connect_state h WAIT_FOR_CONNACK s))"

text \<open>The TCP connection is there: the proxy, then the upgrade to a WebSocket or the CONNECT packet.\<close>

definition tcp_complete ::
    "('n, 'f) async_api \<Rightarrow> nat \<Rightarrow> bytes option \<Rightarrow> ('n, 'f) asys \<Rightarrow> ub + (int \<times> ('n, 'f) asys)" where
  "tcp_complete A h serverURI s =
     (let CL = a_connect A; proxy = (nh_http_proxy (c_net (g_clients s ! h)) \<noteq> None);
          ws = h_websocket (as_handles s ! h) in
      if (proxy \<or> ws) \<and> serverURI = None then Inl NullDeref
      else
       let (rc, s) = (if proxy
             then let s = put_connect_state h PROXY_CONNECT_IN_PROGRESS s;
                      (rc, n) = Proxy_connect CL (c_net (g_clients s ! h)) (the serverURI) (g_net s)
                  in (rc, s\<lparr>g_net := n\<rparr>)
             else (0, s))
       in if rc = SOCKET_ERROR then Inr (rc, s)
          else if ws
          then let s = put_connect_state h WEBSOCKET_IN_PROGRESS s;
                   (rc, n) = WebSocket_connect CL (c_net (g_clients s ! h)) (the serverURI) (g_net s)
               in Inr (rc, s\<lparr>g_net := n\<rparr>)
          else send_async_connect A h s)"

definition connecting_step ::
    "('n, 'f) async_api \<Rightarrow> nat \<Rightarrow> bytes option \<Rightarrow> ('n, 'f) asys \<Rightarrow> ub + (int \<times> ('n, 'f) asys)" where
  "connecting_step A h serverURI s =
     (let st = c_connect_state (g_clients s ! h) in
      if st = TCP_IN_PROGRESS
      then
       let (r, error, n) = getsockopt_error A (socket_of h s) (g_net s);
           rc = (if r = 0 then error else r); s = s\<lparr>g_net := n\<rparr>
       in if rc \<noteq> 0 then Inr (rc, s)
          else tcp_complete A h serverURI (s\<lparr>g_net := a_clearPendingWrite A (socket_of h s) (g_net s)\<rparr>)
      else if st = WEBSOCKET_IN_PROGRESS
      then
       let (rc, n) = WebSocket_upgrade A (c_net (g_clients s ! h)) (g_net s); s = s\<lparr>g_net := n\<rparr> in
       if rc = SOCKET_ERROR \<or> rc = TCPSOCKET_INTERRUPTED then Inr (rc, s) else send_async_connect A h s
      else Inr (-1, s))"

definition SSL_FATAL :: int where "SSL_FATAL = -3"

text \<open>The version of a connect command that has none, which should not happen.\<close>

definition fix_version :: "nat \<Rightarrow> ('n, 'f) asys \<Rightarrow> ('n, 'f) asys" where
  "fix_version h s =
     (let cmd = h_connect (as_handles s ! h); d = cm_details cmd; version = c_MQTTVersion (g_clients s ! h) in
      if conn_MQTTVersion d = MQTTVERSION_DEFAULT
      then upd_async h (\<lambda>m. m\<lparr>h_connect := cmd\<lparr>cm_details := put_conn (currentURI d)
        (if version = MQTTVERSION_DEFAULT then MQTTVERSION_3_1_1 else version) d\<rparr>\<rparr>) s
      else s)"

definition MQTTAsync_connecting ::
    "('n, 'f) async_api \<Rightarrow> nat \<Rightarrow> ('n, 'f) asys \<Rightarrow> ub + (int \<times> ('n, 'f) asys)" where
  "MQTTAsync_connecting A h s =
     (let s = fix_version h s; m = as_handles s ! h in
      ub_bind (connecting_uri (cm_details (h_connect m)) m) (\<lambda>serverURI.
      ub_bind (connecting_step A h serverURI s) (\<lambda>(rc, s).
        let st = c_connect_state (g_clients s ! h) in
        if rc \<noteq> 0 \<and> rc \<noteq> TCPSOCKET_INTERRUPTED \<and> st \<noteq> SSL_IN_PROGRESS \<and> st \<noteq> WEBSOCKET_IN_PROGRESS \<or> rc = SSL_FATAL
        then ub_bind (nextOrClose A h MQTTASYNC_FAILURE s) (\<lambda>s. Inr (rc, s))
        else Inr (rc, s))))"

subsection \<open>One cycle\<close>

text \<open>A socket that is ready: the connection goes on, or a packet is read and handled.\<close>

definition is_connecting :: "'f Clients \<Rightarrow> bool" where
  "is_connecting c \<longleftrightarrow> c_connect_state c = TCP_IN_PROGRESS \<or> c_connect_state c = SSL_IN_PROGRESS \<or>
     c_connect_state c = WEBSOCKET_IN_PROGRESS"

definition socket_ready ::
    "('n, 'f) async_api \<Rightarrow> nat \<Rightarrow> int \<Rightarrow> ('n, 'f) asys \<Rightarrow> ub + (int \<times> packet option \<times> ('n, 'f) asys)" where
  "socket_ready A h sock s =
     ub_bind
       (if is_connecting (g_clients s ! h)
        then ub_bind (MQTTAsync_connecting A h s) (\<lambda>(rc, s). Inr (rc, None, s))
        else MQTTPacket_Factory (a_env A) (c_MQTTVersion (g_clients s ! h)) h s) (\<lambda>(rc, pack, s).
     ub_bind
       (if c_connect_state (g_clients s ! h) = WAIT_FOR_CONNACK \<and> rc = SOCKET_ERROR
        then nextOrClose A h MQTTASYNC_FAILURE s else Inr s) (\<lambda>s.
       case pack of None \<Rightarrow> Inr (rc, None, s) | Some p \<Rightarrow> handle_async_packet A h sock rc p s))"

definition MQTTAsync_cycle ::
    "('n, 'f) async_api \<Rightarrow> nat \<Rightarrow> ('n, 'f) asys \<Rightarrow> ub + (packet option \<times> int \<times> int \<times> ('n, 'f) asys)" where
  "MQTTAsync_cycle A timeout s =
     (let (sock, rc, n) = a_getReadySocket A timeout (g_net s);
          s = s\<lparr>g_net := n\<rparr>;
          s = (if \<not> as_tostop s \<and> sock = 0 \<and> timeout > 0 then sleep_async A 100 s else s)
      in ub_bind
        (if sock > 0 \<and> rc = 0
         then case find_handle A sock s of None \<Rightarrow> Inr (rc, None, s) | Some h \<Rightarrow> socket_ready A h sock s
         else Inr (rc, None, s))
        (\<lambda>(rc, pack, s). ub_bind (MQTTAsync_retry A s) (\<lambda>s. Inr (pack, sock, rc, s))))"

subsection \<open>The thread\<close>

text \<open>
  A DISCONNECT packet from the server. The reason code of the packet, which one of version 3 does not
  have, is told to the application and used for closing.
\<close>

definition handle_disconnect ::
    "('n, 'f) async_api \<Rightarrow> nat \<Rightarrow> Ack \<Rightarrow> ('n, 'f) asys \<Rightarrow> ub + ('n, 'f) asys" where
  "handle_disconnect A h disc s =
     (case ak_rc disc of None \<Rightarrow> Inl UninitRead
      | Some discrc \<Rightarrow>
         let s = (if h_disconnected (as_handles s ! h) then log_async (AsyncDisconnected h (Some discrc)) s else s) in
         ub_bind (MQTTProtocol_handleDisconnects (a_env A) disc (socket_of h s) s) (\<lambda>(_, s).
           nextOrClose A h (int (unat discrc)) (upd_client h (\<lambda>c. c\<lparr>c_connected := False\<rparr>) s)))"

definition handle_left ::
    "('n, 'f) async_api \<Rightarrow> nat \<Rightarrow> packet \<Rightarrow> ('n, 'f) asys \<Rightarrow> ub + ('n, 'f) asys" where
  "handle_left A h pack s =
     (case pack of
        PkConnack connack \<Rightarrow> handle_connack A h connack s
      | PkSuback sub \<Rightarrow> handle_suback A h sub s
      | PkUnsuback unsub \<Rightarrow> handle_unsuback A h unsub s
      | PkAck a \<Rightarrow> if hd_type (ak_header a) = DISCONNECT then handle_disconnect A h a s else Inr s
      | _ \<Rightarrow> Inr s)"

definition receive_handle ::
    "('n, 'f) async_api \<Rightarrow> packet option \<Rightarrow> int \<Rightarrow> int \<Rightarrow> ('n, 'f) asys \<Rightarrow> ub + ('n, 'f) asys" where
  "receive_handle A pack sock rc s =
     (if sock = 0 then Inr s
      else
       let s = s\<lparr>as_receiveTimeout := 1000\<rparr> in
       case find_handle A sock s of
         None \<Rightarrow> Inr s
       | Some h \<Rightarrow>
          if rc = SOCKET_ERROR then nextOrClose A h rc s
          else ub_bind (deliver_queued A h s) (\<lambda>s.
            case pack of None \<Rightarrow> Inr s | Some p \<Rightarrow> handle_left A h p s))"

text \<open>
  A step of \<^verbatim>\<open>MQTTAsync_receiveThread\<close>: its start, a cycle, or what is done with the result of one. The
  mutex is released between two of them.
\<close>

definition MQTTAsync_receiveThread :: "('n, 'f) async_api \<Rightarrow> ('n, 'f) asys \<Rightarrow> ub + ('n, 'f) asys" where
  "MQTTAsync_receiveThread A s =
     (case as_receiveThread s of
        STARTING \<Rightarrow> Inr (s\<lparr>as_receiveThread := RUNNING, as_receiveTimeout := 10, as_received := None\<rparr>)
      | RUNNING \<Rightarrow>
         (case as_received s of
            None \<Rightarrow>
              if as_tostop s then Inr (s\<lparr>as_receiveThread := STOPPED\<rparr>)
              else ub_bind (MQTTAsync_cycle A (as_receiveTimeout s) s) (\<lambda>(pack, sock, rc, s).
                Inr (s\<lparr>as_received := Some (pack, sock, rc)\<rparr>))
          | Some (pack, sock, rc) \<Rightarrow>
              let s = s\<lparr>as_received := None\<rparr> in
              if as_tostop s then Inr (s\<lparr>as_receiveThread := STOPPED\<rparr>)
              else receive_handle A pack sock rc s)
      | _ \<Rightarrow> Inr s)"

subsection \<open>Writes that complete later\<close>

text \<open>\<^verbatim>\<open>MQTTAsync_writeContinue\<close> and \<^verbatim>\<open>MQTTAsync_writeComplete\<close>, which the socket module calls.\<close>

definition put_last_sent :: "nat \<Rightarrow> timeval \<Rightarrow> ('n, 'f) asys \<Rightarrow> ('n, 'f) asys" where
  "put_last_sent h t = upd_client h (\<lambda>c. c\<lparr>c_net := (c_net c)\<lparr>nh_lastSent := t\<rparr>\<rparr>)"

definition MQTTAsync_writeContinue :: "('n, 'f) async_api \<Rightarrow> int \<Rightarrow> ('n, 'f) asys \<Rightarrow> ('n, 'f) asys" where
  "MQTTAsync_writeContinue A socket s =
     (case find_handle A socket s of None \<Rightarrow> s
      | Some h \<Rightarrow> let (t, s) = now_async A s in put_last_sent h t s)"

text \<open>
  The command whose write was pending. A publish is told its success only with QoS 0; one with a
  higher QoS stays in the list. The payload of one with QoS 0 has been released elsewhere. The reason
  code and the properties of the failure data are not set by the code; the log has 0 for them.
\<close>

definition drop_payload :: "details \<Rightarrow> details" where
  "drop_payload d =
     (case d of PublishCmd t len _ qos retained \<Rightarrow> PublishCmd t len (if qos = 0 then None else pub_payload d) qos retained
      | _ \<Rightarrow> d)"

definition write_call ::
    "nat \<Rightarrow> int \<Rightarrow> MQTTAsync_command \<Rightarrow> ('n, 'f) asys \<Rightarrow> bool \<times> ('n, 'f) asys" where
  "write_call h rc cmd s =
     (let d = cm_details cmd in
      if \<not> is_publish d then (True, s)
      else if rc = 1 \<and> pub_qos d = 0 then (True, call_success h cmd (cm_token cmd) (publish_data d) (publish_data d) s)
      else if rc = -1 then (True, call_failure h cmd (cm_token cmd) PUBLISH rc s)
      else (False, s))"

definition pending_complete ::
    "('n, 'f) async_api \<Rightarrow> nat \<Rightarrow> int \<Rightarrow> nat \<Rightarrow> ('n, 'f) asys \<Rightarrow> ub + ('n, 'f) asys" where
  "pending_complete A h rc a s =
     (case find_index (\<lambda>q. qc_addr q = a) (h_responses (as_handles s ! h)) of
        None \<Rightarrow> Inr s
      | Some k \<Rightarrow>
         let q = h_responses (as_handles s ! h) ! k;
             (remove, s) = write_call h rc (qc_command q) s;
             q' = q\<lparr>qc_command := (qc_command q)\<lparr>cm_details := drop_payload (qc_details q)\<rparr>\<rparr>
         in if remove
            then MQTTAsync_freeCommand A q'
              (upd_async h (\<lambda>m. m\<lparr>h_responses := detach (l_commands A) (h_responses m) a\<rparr>) s)
            else Inr (upd_async h (\<lambda>m. m\<lparr>h_responses := (h_responses m)[k := q']\<rparr>) s))"

definition MQTTAsync_writeComplete ::
    "('n, 'f) async_api \<Rightarrow> int \<Rightarrow> int \<Rightarrow> ('n, 'f) asys \<Rightarrow> ub + ('n, 'f) asys" where
  "MQTTAsync_writeComplete A socket rc s =
     ub_bind (MQTTProtocol_checkPendingWrites (a_env A) s) (\<lambda>s.
       case find_handle A socket s of
         None \<Rightarrow> Inr s
       | Some h \<Rightarrow>
          let (t, s) = now_async A s; s = put_last_sent h t s in
          case h_pending_write (as_handles s ! h) of
            None \<Rightarrow> Inr s
          | Some a \<Rightarrow>
             ub_bind (pending_complete A h rc a s) (\<lambda>s.
               Inr (upd_async h (\<lambda>m. m\<lparr>h_pending_write := None\<rparr>) s)))"

subsection \<open>Interleaving\<close>

text \<open>What happens while a function of the API waits, and has released the mutex.\<close>

fun run_async_events :: "('n, 'f) async_api \<Rightarrow> async_event list \<Rightarrow> ('n, 'f) asys \<Rightarrow> ('n, 'f) asys run" where
  "run_async_events A [] s = ret s"
| "run_async_events A (e # es) s =
     run_bind (case e of
         SendStep \<Rightarrow> MQTTAsync_sendThread A s
       | ReceiveStep \<Rightarrow> Some (MQTTAsync_receiveThread A s)
       | WriteContinue socket \<Rightarrow> ret (MQTTAsync_writeContinue A socket s)
       | WriteComplete socket rc \<Rightarrow> Some (MQTTAsync_writeComplete A socket rc s)) (run_async_events A es)"

definition let_run :: "('n, 'f) async_api \<Rightarrow> ('n, 'f) asys \<Rightarrow> ('n, 'f) asys run" where
  "let_run A s = (case as_sched s of [] \<Rightarrow> ret s | es # rest \<Rightarrow> run_async_events A es (s\<lparr>as_sched := rest\<rparr>))"

subsection \<open>Stopping and terminating\<close>

text \<open>Every 100 ms, at most 99 times, it is looked whether both threads have ended.\<close>

fun async_stop_wait :: "('n, 'f) async_api \<Rightarrow> nat \<Rightarrow> ('n, 'f) asys \<Rightarrow> ('n, 'f) asys run" where
  "async_stop_wait A 0 s = ret s"
| "async_stop_wait A (Suc n) s =
     (if (as_sendThread s \<noteq> STOPPED \<or> as_receiveThread s \<noteq> STOPPED) \<and> as_tostop s
      then run_bind (let_run A (sleep_async A 100 s)) (async_stop_wait A n) else ret s)"

definition handle_in_use :: "'f Clients \<Rightarrow> bool" where
  "handle_in_use c \<longleftrightarrow> c_connect_state c > NOT_IN_PROGRESS \<or> c_connected c"

definition MQTTAsync_stop :: "('n, 'f) async_api \<Rightarrow> ('n, 'f) asys \<Rightarrow> ('n, 'f) asys run" where
  "MQTTAsync_stop A s =
     (if (as_sendThread s \<noteq> STOPPED \<or> as_receiveThread s \<noteq> STOPPED) \<and> \<not> (\<exists>c\<in>set (g_clients s). handle_in_use c)
      then run_bind (async_stop_wait A 99 (s\<lparr>as_tostop := True\<rparr>)) (\<lambda>s. ret (s\<lparr>as_tostop := False\<rparr>))
      else ret s)"

definition MQTTAsync_terminate :: "('n, 'f) async_api \<Rightarrow> ('n, 'f) asys \<Rightarrow> ('n, 'f) asys run" where
  "MQTTAsync_terminate A s =
     run_bind (MQTTAsync_stop A s) (\<lambda>s.
       if as_initialized s \<and> g_clients s = [] then ret (s\<lparr>as_commands := [], as_initialized := False\<rparr>) else ret s)"

end
