(* ===== verification/AsyncApi.thy ===== *)
theory AsyncApi
  imports AsyncReceive
begin

section \<open>The asynchronous API: \<^verbatim>\<open>src/include/MQTTAsync.c\<close>\<close>

text \<open>
  The functions an application calls. A handle may be NULL, \<open>None\<close>. Of the threads only the steps they
  take while a function waits, or has released the mutex, are in an execution (see \<open>as_sched\<close>). A string
  that could not be copied, or an array of strings that could not be allocated, and that is used later
  without a test, is \<open>NullDeref\<close> where it is copied.
\<close>

subsection \<open>Creating and destroying a handle\<close>

definition async_create_check ::
    "('n, 'f) async_api \<Rightarrow> bytes option \<Rightarrow> bytes option \<Rightarrow> int \<Rightarrow> MQTTAsync_createOptions option \<Rightarrow> int" where
  "async_create_check A serverURI clientId persistence_type options =
     (case (serverURI, clientId) of
        (Some uri, Some cid) \<Rightarrow>
          let uri = c_str uri; cid = c_str cid in
          if \<not> UTF8_validateString A cid then MQTTASYNC_BAD_UTF8_STRING
          else if cid = [] \<and> persistence_type = MQTTCLIENT_PERSISTENCE_DEFAULT then MQTTASYNC_PERSISTENCE_ERROR
          else if contains uri (map (\<lambda>c. of_char c) ''://'') \<and>
            \<not> starts_with URI_TCP uri \<and> \<not> starts_with URI_MQTT uri \<and> \<not> starts_with URI_WS uri
          then MQTTASYNC_BAD_PROTOCOL
          else (case options of
              None \<Rightarrow> 0
            | Some o' \<Rightarrow>
                if ao_maxBufferedMessages o' \<le> 0 then MQTTASYNC_MAX_BUFFERED
                else if take 4 (ao_struct_id o') \<noteq> map (\<lambda>c. of_char c) ''MQCO'' \<or> ao_struct_version o' < 0 \<or>
                  ao_struct_version o' > 2 then MQTTASYNC_BAD_STRUCTURE
                else 0)
      | _ \<Rightarrow> MQTTASYNC_NULL_PARAMETER)"

text \<open>What is restored when the store has been opened.\<close>

definition async_restore ::
    "('n, 'f) async_api \<Rightarrow> nat \<Rightarrow> ('n, 'f) asys \<Rightarrow> ub + ('n, 'f) asys" where
  "async_restore A h s =
     (if (case h_createOptions (as_handles s ! h) of None \<Rightarrow> False
          | Some o' \<Rightarrow> ao_struct_version o' \<ge> 2 \<and> ao_restoreMessages o' = 0)
      then let (_, fs) = MQTTAsync_unpersistCommandsAndMessages (g_clients s ! h) (g_fs s) in Inr (s\<lparr>g_fs := fs\<rparr>)
      else ub_bind (MQTTAsync_restoreCommands A h s) (\<lambda>(_, s).
        ub_bind (MQTTPersistence_restoreMessageQueue (l_queue (e_lists (a_env A))) (e_heap (a_env A))
            (g_clients s ! h) (g_fs s)) (\<lambda>(_, c, fs). Inr (set_client h c (s\<lparr>g_fs := fs\<rparr>)))))"

text \<open>
  The new client is at its place in the list while its store is opened, as in
  \<^verbatim>\<open>MQTTClient_createWithOptions\<close>. A handle that is left behind when there is no memory for the rest
  of it is not kept.
\<close>

definition MQTTAsync_createWithOptions ::
    "('n, filesys) async_api \<Rightarrow> bytes option \<Rightarrow> bytes option \<Rightarrow> int \<Rightarrow> context_ptr \<Rightarrow> MQTTAsync_createOptions option
      \<Rightarrow> ('n, filesys) asys \<Rightarrow> ub + (int \<times> nat option \<times> ('n, filesys) asys)" where
  "MQTTAsync_createWithOptions A serverURI clientId persistence_type persistence_context options s =
     (let H = e_heap (a_env A); rc = async_create_check A serverURI clientId persistence_type options in
      if rc \<noteq> 0 then Inr (rc, None, s)
      else
       let s = (if as_initialized s then s
             else s\<lparr>g_clients := [], as_handles := [], as_commands := [], as_initialized := True\<rparr>);
           (uri, ws) = skip_scheme (c_str (the serverURI)); h = length (g_clients s)
       in if \<not> H (ReqStruct ''MQTTAsyncs'') then Inr (PAHO_MEMORY_ERROR, None, s)
       else ub_bind (MQTTStrdup H uri) (\<lambda>dup.
         if dup = None \<or> \<not> H (ReqStruct ''Clients'') then Inr (PAHO_MEMORY_ERROR, Some h, s)
         else ub_bind (MQTTStrdup H (the clientId)) (\<lambda>cid.
           if cid = None \<or> options \<noteq> None \<and> \<not> H (ReqStruct ''MQTTAsync_createOptions'')
           then Inr (PAHO_MEMORY_ERROR, Some h, s)
           else
            let (rc, per) = MQTTPersistence_create H persistence_type persistence_context;
                m = zero_async\<lparr>h_serverURI := dup, h_websocket := ws, h_createOptions := options\<rparr>;
                c = zero_client\<lparr>c_clientID := the cid,
                  c_MQTTVersion := (case options of None \<Rightarrow> MQTTVERSION_DEFAULT
                    | Some o' \<Rightarrow> if ao_struct_version o' > 0 then ao_MQTTVersion o' else MQTTVERSION_DEFAULT),
                  c_persistence := (case per of Some p \<Rightarrow> p | None \<Rightarrow> None)\<rparr>;
                s = s\<lparr>as_handles := as_handles s @ [m], g_clients := g_clients s @ [c]\<rparr>
            in if rc \<noteq> 0 then Inr (rc, Some h, s)
               else ub_bind (MQTTPersistence_initialize (a_env A) h (the dup) s) (\<lambda>(rc, s).
                 if rc \<noteq> 0 then Inr (rc, Some h, s)
                 else ub_bind (async_restore A h s) (\<lambda>s. Inr (0, Some h, s))))))"

definition MQTTAsync_create ::
    "('n, filesys) async_api \<Rightarrow> bytes option \<Rightarrow> bytes option \<Rightarrow> int \<Rightarrow> context_ptr \<Rightarrow> ('n, filesys) asys
      \<Rightarrow> ub + (int \<times> nat option \<times> ('n, filesys) asys)" where
  "MQTTAsync_create A serverURI clientId persistence_type persistence_context s =
     MQTTAsync_createWithOptions A serverURI clientId persistence_type persistence_context None s"

definition MQTTAsync_freeServerURIs :: "MQTTAsyncs \<Rightarrow> MQTTAsyncs" where
  "MQTTAsync_freeServerURIs m = m\<lparr>h_serverURIs := []\<rparr>"

text \<open>A handle and its client leave their lists; the later ones move up.\<close>

definition renumber :: "nat \<Rightarrow> MQTTAsync_queuedCommand \<Rightarrow> MQTTAsync_queuedCommand" where
  "renumber h q = (if qc_client q > h then q\<lparr>qc_client := qc_client q - 1\<rparr> else q)"

definition drop_handle :: "nat \<Rightarrow> ('n, 'f) asys \<Rightarrow> ('n, 'f) asys" where
  "drop_handle h s =
     s\<lparr>g_clients := take h (g_clients s) @ drop (Suc h) (g_clients s),
       as_handles := map (\<lambda>m. m\<lparr>h_responses := map (renumber h) (h_responses m)\<rparr>)
         (take h (as_handles s) @ drop (Suc h) (as_handles s)),
       as_commands := map (renumber h) (as_commands s)\<rparr>"

definition free_async_props :: "MQTTProperties option \<Rightarrow> ub + unit" where
  "free_async_props ps = (case ps of None \<Rightarrow> Inr () | Some p \<Rightarrow> ub_bind (MQTTProperties_free (Some p)) (\<lambda>_. Inr ()))"

text \<open>Everything the handle has, without its place in the lists.\<close>

definition free_handle :: "('n, 'f) async_api \<Rightarrow> nat \<Rightarrow> ('n, 'f) asys \<Rightarrow> ub + ('n, 'f) asys" where
  "free_handle A h s =
     ub_bind (MQTTAsync_closeSession A h 0 (Inr None) s) (\<lambda>s.
     ub_bind (MQTTAsync_freeResponses A h (MQTTAsync_NULLPublishResponses h s)) (\<lambda>s.
     ub_bind (MQTTAsync_freeCommands A h (MQTTAsync_NULLPublishCommands h s)) (\<lambda>s.
     ub_bind (MQTTStrdup (e_heap (a_env A)) (c_clientID (g_clients s ! h))) (\<lambda>_.
       let (_, c, fs) = MQTTPersistence_close (g_clients s ! h) (g_fs s);
           s = MQTTAsync_emptyMessageQueue h (set_client h c (s\<lparr>g_fs := fs\<rparr>))
       in ub_bind (MQTTProtocol_freeClient (a_env A) h s) (\<lambda>s.
          ub_bind (free_async_props (h_connectProps (as_handles s ! h))) (\<lambda>_.
          ub_bind (free_async_props (h_willProps (as_handles s ! h))) (\<lambda>_. Inr s)))))))"

definition MQTTAsync_destroy :: "('n, 'f) async_api \<Rightarrow> nat option \<Rightarrow> ('n, 'f) asys \<Rightarrow> ('n, 'f) asys run" where
  "MQTTAsync_destroy A handle s =
     (case handle of
        None \<Rightarrow> ret s
      | Some h \<Rightarrow>
         run_bind (Some (free_handle A h s)) (\<lambda>s. let s = drop_handle h s in
           if g_clients s = [] then MQTTAsync_terminate A s else ret s))"

subsection \<open>Connecting\<close>

record MQTTAsync_connectOptions =
  cn_struct_id :: bytes
  cn_struct_version :: int
  cn_keepAliveInterval :: int
  cn_cleansession :: int
  cn_maxInflight :: int
  cn_will :: "MQTTClient_willOptions option"
  cn_username :: "bytes option"
  cn_password :: "bytes option"
  cn_connectTimeout :: int
  cn_retryInterval :: int
  cn_ssl :: "(bytes \<times> int) option"      \<comment> \<open>\<open>struct_id\<close> and \<open>struct_version\<close>\<close>
  cn_onSuccess :: bool
  cn_onFailure :: bool
  cn_context :: nat
  cn_serverURIs :: "bytes list"          \<comment> \<open>as many as \<open>serverURIcount\<close>\<close>
  cn_MQTTVersion :: int
  cn_automaticReconnect :: bool
  cn_minRetryInterval :: int
  cn_maxRetryInterval :: int
  cn_binarypwd_len :: int
  cn_binarypwd_data :: "bytes option"
  cn_cleanstart :: int
  cn_connectProperties :: "MQTTProperties option"
  cn_willProperties :: "MQTTProperties option"
  cn_onSuccess5 :: bool
  cn_onFailure5 :: bool
  cn_httpHeaders :: "(bytes \<times> bytes) list option"
  cn_httpProxy :: "bytes option"
  cn_httpsProxy :: "bytes option"

text \<open>The checks. The client's version is looked at for version 5 only.\<close>

definition async_will_check :: "MQTTClient_willOptions option \<Rightarrow> int" where
  "async_will_check will =
     (case will of None \<Rightarrow> 0
      | Some w \<Rightarrow>
         if take 4 (wo_struct_id w) \<noteq> map (\<lambda>c. of_char c) ''MQTW'' \<or>
           (wo_struct_version w \<noteq> 0 \<and> wo_struct_version w \<noteq> 1) then MQTTASYNC_BAD_STRUCTURE
         else if wo_qos w < 0 \<or> wo_qos w > 2 then MQTTASYNC_BAD_QOS
         else (case wo_topicName w of None \<Rightarrow> MQTTASYNC_NULL_PARAMETER
           | Some t \<Rightarrow> if strlen t = 0 then MQTTASYNC_0_LEN_WILL_TOPIC else 0))"

definition ssl_check :: "MQTTAsync_connectOptions \<Rightarrow> bool" where
  "ssl_check o' \<longleftrightarrow>
     (case cn_ssl o' of None \<Rightarrow> True
      | Some (sid, version) \<Rightarrow> cn_struct_version o' = 0 \<or>
          take 4 sid = map (\<lambda>c. of_char c) ''MQTS'' \<and> version \<ge> 0 \<and> version \<le> 5)"

definition async_version_check :: "MQTTAsync_connectOptions \<Rightarrow> int" where
  "async_version_check o' =
     (if cn_MQTTVersion o' \<ge> MQTTVERSION_5 \<and> cn_struct_version o' < 6 then MQTTASYNC_BAD_STRUCTURE
      else if cn_MQTTVersion o' \<ge> MQTTVERSION_5 \<and> cn_cleansession o' \<noteq> 0 then MQTTASYNC_BAD_MQTT_OPTION
      else if cn_MQTTVersion o' < MQTTVERSION_5 \<and> cn_struct_version o' \<ge> 6 \<and>
        (cn_cleanstart o' \<noteq> 0 \<or> cn_onFailure5 o' \<or> cn_onSuccess5 o' \<or> cn_connectProperties o' \<noteq> None \<or>
         cn_willProperties o' \<noteq> None) then MQTTASYNC_BAD_MQTT_OPTION
      else 0)"

definition async_connect_check ::
    "('n, 'f) async_api \<Rightarrow> int option \<Rightarrow> MQTTAsync_connectOptions \<Rightarrow> ub + int" where
  "async_connect_check A version o' =
     (let valid = (\<lambda>t. case t of None \<Rightarrow> True | Some b \<Rightarrow> UTF8_validateString A (c_str b)) in
      if take 4 (cn_struct_id o') \<noteq> map (\<lambda>c. of_char c) ''MQTC'' \<or> cn_struct_version o' < 0 \<or> cn_struct_version o' > 8
      then Inr MQTTASYNC_BAD_STRUCTURE
      else if async_will_check (cn_will o') \<noteq> 0 then Inr (async_will_check (cn_will o'))
      else if \<not> ssl_check o' then Inr MQTTASYNC_BAD_STRUCTURE
      else ub_bind (if cn_MQTTVersion o' \<ge> MQTTVERSION_5
                    then (case version of None \<Rightarrow> Inl NullDeref | Some v \<Rightarrow> Inr (v < MQTTVERSION_5)) else Inr False) (\<lambda>wrong.
        if wrong then Inr MQTTASYNC_WRONG_MQTT_VERSION
        else if \<not> valid (cn_username o') \<or> \<not> valid (cn_password o') then Inr MQTTASYNC_BAD_UTF8_STRING
        else Inr (async_version_check o')))"

text \<open>The callbacks of the connection; the threads, which are started when they do not run.\<close>

definition connect_callbacks :: "MQTTAsync_connectOptions \<Rightarrow> MQTTAsyncs \<Rightarrow> MQTTAsyncs" where
  "connect_callbacks o' m =
     (let cmd = (h_connect m)\<lparr>cm_onSuccess := cn_onSuccess o', cm_onFailure := cn_onFailure o', cm_context := cn_context o'\<rparr> in
      m\<lparr>h_connect := (if cn_struct_version o' \<ge> 6
            then cmd\<lparr>cm_onSuccess5 := cn_onSuccess5 o', cm_onFailure5 := cn_onFailure5 o'\<rparr> else cmd),
        h_connectTimeout := cn_connectTimeout o'\<rparr>)"

definition started :: "thread_state \<Rightarrow> thread_state" where
  "started t = (if t = STARTING \<or> t = RUNNING then t else STARTING)"

definition start_async_threads :: "('n, 'f) asys \<Rightarrow> ('n, 'f) asys" where
  "start_async_threads s =
     s\<lparr>as_tostop := False, as_sendThread := started (as_sendThread s), as_receiveThread := started (as_receiveThread s)\<rparr>"

definition connect_session :: "MQTTAsync_connectOptions \<Rightarrow> 'f Clients \<Rightarrow> 'f Clients" where
  "connect_session o' c =
     c\<lparr>c_keepAliveInterval := cn_keepAliveInterval o', c_cleansession := cn_cleansession o',
       c_maxInflightMessages := cn_maxInflight o',
       c_MQTTVersion := (if cn_struct_version o' \<ge> 3 then cn_MQTTVersion o' else MQTTVERSION_DEFAULT),
       c_net := (c_net c)\<lparr>nh_httpHeaders :=
         (if cn_struct_version o' \<ge> 7 then cn_httpHeaders o' else nh_httpHeaders (c_net c))\<rparr>\<rparr>"

definition connect_retry :: "MQTTAsync_connectOptions \<Rightarrow> MQTTAsyncs \<Rightarrow> MQTTAsyncs" where
  "connect_retry o' m =
     (if cn_struct_version o' \<ge> 4
      then m\<lparr>h_automaticReconnect := cn_automaticReconnect o', h_minRetryInterval := cn_minRetryInterval o',
        h_maxRetryInterval := cn_maxRetryInterval o'\<rparr>
      else m)"

text \<open>
  The will. Without memory for its payload it stays in the client without a topic, and the next call
  releases a pointer that was never set.
\<close>

definition async_will_payload :: "heap \<Rightarrow> MQTTClient_willOptions \<Rightarrow> ub + (int \<times> bytes)" where
  "async_will_payload H w =
     (let binary = (if wo_struct_version w = 1 then wo_payload_data w else None) in
      case (binary, wo_message w) of
        (Some d, _) \<Rightarrow>
          if \<not> H (ReqBuffer (size_t_of (wo_payload_len w))) then Inl UninitRead
          else ub_bind (memcpy_src d (wo_payload_len w)) (\<lambda>p. Inr (wo_payload_len w, p))
      | (None, Some m) \<Rightarrow> if \<not> H (ReqBuffer (strlen m)) then Inl UninitRead else Inr (int (strlen m), c_str m)
      | (None, None) \<Rightarrow> Inr (0, []))"

definition async_new_will :: "heap \<Rightarrow> MQTTClient_willOptions option \<Rightarrow> ub + (int \<times> willMessages option)" where
  "async_new_will H will =
     (case will of
        None \<Rightarrow> Inr (0, None)
      | Some w \<Rightarrow>
         if wo_struct_version w \<noteq> 0 \<and> wo_struct_version w \<noteq> 1 then Inr (0, None)
         else if \<not> H (ReqStruct ''willMessages'') then Inr (PAHO_MEMORY_ERROR, None)
         else ub_bind (async_will_payload H w) (\<lambda>(len, data).
           case wo_topicName w of None \<Rightarrow> Inl NullDeref
           | Some t \<Rightarrow> ub_bind (MQTTStrdup H t) (\<lambda>t. case t of None \<Rightarrow> Inl NullDeref
             | Some t \<Rightarrow> Inr (0, Some \<lparr>w_topic = t, w_payloadlen = len, w_payload = data,
                 w_retained = wo_retained w, w_qos = wo_qos w\<rparr>))))"

text \<open>The user name and the password; the length stays when there is no password.\<close>

definition async_password ::
    "heap \<Rightarrow> MQTTAsync_connectOptions \<Rightarrow> int \<Rightarrow> ub + (int \<times> bytes option \<times> int)" where
  "async_password H o' old_len =
     (case (cn_password o', cn_binarypwd_data o') of
        (Some p, _) \<Rightarrow> ub_bind (MQTTStrdup H p) (\<lambda>d. Inr (0, d, int (strlen p)))
      | (None, Some d) \<Rightarrow>
          let n = cn_binarypwd_len o' in
          if cn_struct_version o' < 5 then Inr (0, None, old_len)
          else if \<not> H (ReqBuffer (size_t_of n)) then Inr (PAHO_MEMORY_ERROR, None, n)
          else ub_bind (memcpy_src d n) (\<lambda>p. Inr (0, Some p, n))
      | (None, None) \<Rightarrow> Inr (0, None, old_len))"

text \<open>The options of the client that are copied. TLS is refused only here.\<close>

definition connect_strings ::
    "heap \<Rightarrow> MQTTAsync_connectOptions \<Rightarrow> 'f Clients \<Rightarrow> ub + (int \<times> 'f Clients)" where
  "connect_strings H o' c =
     (let proxies = cn_struct_version o' \<ge> 8 in
      ub_bind (dup_option H (if proxies then cn_httpProxy o' else None) (c_httpProxy c)) (\<lambda>p.
      ub_bind (dup_option H (if proxies then cn_httpsProxy o' else None) (c_httpsProxy c)) (\<lambda>sp.
      ub_bind (async_new_will H (cn_will o')) (\<lambda>(rc, will).
        let c = c\<lparr>c_httpProxy := p, c_httpsProxy := sp, c_will := will\<rparr> in
        if rc \<noteq> 0 then Inr (rc, c)
        else if cn_struct_version o' \<noteq> 0 \<and> cn_ssl o' \<noteq> None then Inr (MQTTASYNC_SSL_NOT_SUPPORTED, c)
        else ub_bind (dup_option H (cn_username o') None) (\<lambda>user.
          ub_bind (async_password H o' (c_passwordlen c)) (\<lambda>(rc, pw, len).
            Inr (rc, c\<lparr>c_username := user, c_password := pw, c_passwordlen := len\<rparr>)))))))"

fun dup_all :: "heap \<Rightarrow> bytes list \<Rightarrow> ub + bytes list option" where
  "dup_all H [] = Inr (Some [])"
| "dup_all H (t # ts) =
     ub_bind (MQTTStrdup H t) (\<lambda>d. case d of None \<Rightarrow> Inr None
       | Some d \<Rightarrow> ub_bind (dup_all H ts) (\<lambda>r. Inr (map_option (\<lambda>ds. d # ds) r)))"

text \<open>The addresses that are tried one after the other.\<close>

definition connect_addresses ::
    "heap \<Rightarrow> MQTTAsync_connectOptions \<Rightarrow> MQTTAsyncs \<Rightarrow> ub + (int \<times> MQTTAsyncs)" where
  "connect_addresses H o' m =
     (let m = MQTTAsync_freeServerURIs m in
      if cn_struct_version o' < 2 \<or> cn_serverURIs o' = [] then Inr (0, m)
      else if \<not> H (ReqBuffer (8 * length (cn_serverURIs o'))) then Inl NullDeref
      else ub_bind (dup_all H (cn_serverURIs o')) (\<lambda>r. case r of None \<Rightarrow> Inl NullDeref
        | Some uris \<Rightarrow> Inr (0, m\<lparr>h_serverURIs := uris\<rparr>)))"

text \<open>
  The properties for the CONNECT packet. The session expiry interval is kept when the new connection
  does not name one.
\<close>

definition copy_props :: "heap \<Rightarrow> MQTTProperties option \<Rightarrow> ub + (int \<times> MQTTProperties option)" where
  "copy_props H ps =
     (case ps of None \<Rightarrow> Inr (0, None)
      | Some p \<Rightarrow>
         if \<not> H (ReqStruct ''MQTTProperties'') then Inr (PAHO_MEMORY_ERROR, None)
         else ub_bind (MQTTProperties_copy H p) (\<lambda>p. Inr (0, Some p)))"

definition expiry_of :: "MQTTProperties option \<Rightarrow> int \<Rightarrow> ub + int" where
  "expiry_of ps old =
     (case ps of None \<Rightarrow> Inr old
      | Some p \<Rightarrow> ub_bind (MQTTProperties_hasProperty p 17) (\<lambda>has.
          if has then MQTTProperties_getNumericValue p 17 else Inr old))"

definition connect_props ::
    "('n, 'f) async_api \<Rightarrow> nat \<Rightarrow> MQTTAsync_connectOptions \<Rightarrow> ('n, 'f) asys \<Rightarrow> ub + (int \<times> ('n, 'f) asys)" where
  "connect_props A h o' s =
     (let H = e_heap (a_env A); m = as_handles s ! h in
      ub_bind (free_async_props (h_connectProps m)) (\<lambda>_. ub_bind (free_async_props (h_willProps m)) (\<lambda>_.
        let s = upd_async h (\<lambda>m. m\<lparr>h_connectProps := None, h_willProps := None\<rparr>) s in
        if cn_struct_version o' < 6 then Inr (0, s)
        else ub_bind (copy_props H (cn_connectProperties o')) (\<lambda>(rc, cp).
          let s = upd_async h (\<lambda>m. m\<lparr>h_connectProps := cp\<rparr>) s in
          if rc \<noteq> 0 then Inr (rc, s)
          else ub_bind (expiry_of (cn_connectProperties o') (c_sessionExpiry (g_clients s ! h))) (\<lambda>e.
            let s = upd_client h (\<lambda>c. c\<lparr>c_sessionExpiry := e\<rparr>) s in
            ub_bind (copy_props H (cn_willProperties o')) (\<lambda>(rc, wp).
              let s = upd_async h (\<lambda>m. m\<lparr>h_willProps := wp\<rparr>) s in
              if rc \<noteq> 0 then Inr (rc, s)
              else Inr (0, upd_client h (\<lambda>c. c\<lparr>c_cleanstart := cn_cleanstart o'\<rparr>) s)))))))"

definition connect_command :: "MQTTAsync_connectOptions \<Rightarrow> MQTTAsync_command" where
  "connect_command o' =
     zero_command\<lparr>cm_onSuccess := cn_onSuccess o', cm_onFailure := cn_onFailure o', cm_onSuccess5 := cn_onSuccess5 o',
       cm_onFailure5 := cn_onFailure5 o', cm_context := cn_context o', cm_details := Connect 0 0\<rparr>"

text \<open>
  \<^verbatim>\<open>MQTTAsync_connect\<close>. An error after the checks leaves what has been changed before it.
\<close>

definition add_connect ::
    "('n, 'f) async_api \<Rightarrow> nat \<Rightarrow> MQTTAsync_command \<Rightarrow> ('n, 'f) asys \<Rightarrow> ub + (int \<times> ('n, 'f) asys)" where
  "add_connect A h cmd s =
     (if \<not> e_heap (a_env A) (ReqStruct ''MQTTAsync_queuedCommand'') then Inr (PAHO_MEMORY_ERROR, s)
      else let (a, s) = new_addr s in MQTTAsync_addCommand A (new_queued a h cmd) s)"

definition connect_with ::
    "('n, 'f) async_api \<Rightarrow> nat \<Rightarrow> MQTTAsync_connectOptions \<Rightarrow> ('n, 'f) asys \<Rightarrow> ub + (int \<times> ('n, 'f) asys)" where
  "connect_with A h o' s =
     (let H = e_heap (a_env A);
          s = start_async_threads (upd_async h (connect_callbacks o') s)
      in ub_bind (setRetryLoopInterval_async (cn_keepAliveInterval o') s) (\<lambda>s.
         ub_bind (connect_strings H o' (connect_session o' (g_clients s ! h))) (\<lambda>(rc, c).
         let s = set_client h c (upd_async h (connect_retry o') s) in
         if rc \<noteq> 0 then Inr (rc, s)
         else
          let s = upd_client h (\<lambda>c. c\<lparr>c_retryInterval := cn_retryInterval o'\<rparr>) s in
          ub_bind (connect_addresses H o' (as_handles s ! h)) (\<lambda>(rc, m).
            let s = upd_async h (\<lambda>_. m\<lparr>h_shouldBeConnected := True\<rparr>) s in
            if rc \<noteq> 0 then Inr (rc, s)
            else ub_bind (connect_props A h o' s) (\<lambda>(rc, s).
              if rc \<noteq> 0 then Inr (rc, s) else add_connect A h (connect_command o') s)))))"

definition MQTTAsync_connect ::
    "('n, 'f) async_api \<Rightarrow> nat option \<Rightarrow> MQTTAsync_connectOptions option \<Rightarrow> ('n, 'f) asys
      \<Rightarrow> ub + (int \<times> ('n, 'f) asys)" where
  "MQTTAsync_connect A handle options s =
     (case options of None \<Rightarrow> Inr (MQTTASYNC_NULL_PARAMETER, s)
      | Some o' \<Rightarrow>
         ub_bind (async_connect_check A (map_option (\<lambda>h. c_MQTTVersion (g_clients s ! h)) handle) o') (\<lambda>rc.
           if rc \<noteq> 0 then Inr (rc, s)
           else case handle of None \<Rightarrow> Inl NullDeref | Some h \<Rightarrow> connect_with A h o' s))"

definition MQTTAsync_reconnect ::
    "('n, 'f) async_api \<Rightarrow> nat option \<Rightarrow> ('n, 'f) asys \<Rightarrow> ub + (int \<times> ('n, 'f) asys)" where
  "MQTTAsync_reconnect A handle s =
     (case handle of None \<Rightarrow> Inl NullDeref
      | Some h \<Rightarrow>
         let m = as_handles s ! h in
         if h_automaticReconnect m
         then if h_shouldBeConnected m
           then Inr (MQTTASYNC_SUCCESS, upd_async h (\<lambda>m. m\<lparr>h_reconnectNow := True,
             h_currentIntervalBase := h_minRetryInterval m, h_currentInterval := h_minRetryInterval m,
             h_retrying := True\<rparr>) s)
           else Inr (MQTTASYNC_FAILURE, s)
         else add_connect A h (reconnect_command (c_MQTTVersion (g_clients s ! h)) (h_connect m)) s)"

subsection \<open>Subscribing and unsubscribing\<close>

record MQTTAsync_responseOptions =
  ro_struct_version :: int
  ro_onSuccess :: bool
  ro_onFailure :: bool
  ro_context :: nat
  ro_onSuccess5 :: bool
  ro_onFailure5 :: bool
  ro_properties :: MQTTProperties
  ro_subscribeOptions :: options_memory
  ro_subscribeOptionsCount :: int
  ro_subscribeOptionsList :: "options_memory list option"

definition connected_check :: "nat option \<Rightarrow> ('n, 'f) asys \<Rightarrow> int" where
  "connected_check handle s =
     (case handle of None \<Rightarrow> MQTTASYNC_FAILURE
      | Some h \<Rightarrow> if c_connected (g_clients s ! h) then MQTTASYNC_SUCCESS else MQTTASYNC_DISCONNECTED)"

text \<open>\<open>None\<close> is NULL for the options.\<close>

definition response_check :: "bool \<Rightarrow> MQTTAsync_responseOptions option \<Rightarrow> int" where
  "response_check v5 ropts =
     (case ropts of None \<Rightarrow> MQTTASYNC_SUCCESS
      | Some r \<Rightarrow>
         if v5
         then if ro_struct_version r = 0 \<or> ro_onFailure r \<or> ro_onSuccess r then MQTTASYNC_BAD_MQTT_OPTION else MQTTASYNC_SUCCESS
         else if ro_struct_version r \<ge> 1 \<and> (ro_onFailure5 r \<or> ro_onSuccess5 r) then MQTTASYNC_BAD_MQTT_OPTION
         else MQTTASYNC_SUCCESS)"

text \<open>The command with what the response options say. The token that is written back is that of the command.\<close>

definition response_command ::
    "heap \<Rightarrow> bool \<Rightarrow> MQTTAsync_responseOptions option \<Rightarrow> int \<Rightarrow> details \<Rightarrow> ub + MQTTAsync_command" where
  "response_command H v5 ropts msgid d =
     (let cmd = zero_command\<lparr>cm_token := msgid, cm_details := d\<rparr> in
      case ropts of None \<Rightarrow> Inr cmd
      | Some r \<Rightarrow>
         ub_bind (if v5 then MQTTProperties_copy H (ro_properties r) else Inr MQTTProperties_initializer) (\<lambda>ps.
           Inr (cmd\<lparr>cm_onSuccess := ro_onSuccess r, cm_onFailure := ro_onFailure r, cm_onSuccess5 := ro_onSuccess5 r,
             cm_onFailure5 := ro_onFailure5 r, cm_context := ro_context r, cm_properties := ps\<rparr>)))"

fun subscribe_check :: "('n, 'f) async_api \<Rightarrow> bytes list \<Rightarrow> int list \<Rightarrow> ub + int" where
  "subscribe_check A [] qoss = Inr MQTTASYNC_SUCCESS"
| "subscribe_check A (t # ts) qoss =
     (if \<not> UTF8_validateString A (c_str t) then Inr MQTTASYNC_BAD_UTF8_STRING
      else case qoss of [] \<Rightarrow> Inl OverRead
        | q # qs \<Rightarrow> if q < 0 \<or> q > 2 then Inr MQTTASYNC_BAD_QOS else subscribe_check A ts qs)"

text \<open>
  The options of the topics in version 5. The options of the response are looked at before it is
  tested for NULL.
\<close>

definition count_check :: "bool \<Rightarrow> nat \<Rightarrow> MQTTAsync_responseOptions option \<Rightarrow> ub + int" where
  "count_check v5 n ropts =
     (if v5 \<and> n > 1
      then case ropts of None \<Rightarrow> Inl NullDeref
        | Some r \<Rightarrow>
            if int n \<noteq> ro_subscribeOptionsCount r \<and> ro_subscribeOptionsCount r \<noteq> 0 then Inr MQTTASYNC_BAD_MQTT_OPTION
            else Inr (response_check v5 ropts)
      else Inr (response_check v5 ropts))"

definition option_list ::
    "heap \<Rightarrow> bool \<Rightarrow> nat \<Rightarrow> MQTTAsync_responseOptions option \<Rightarrow> ub + options_memory list option option" where
  "option_list H v5 n ropts =
     (case ropts of
        None \<Rightarrow> Inr (Some None)
      | Some r \<Rightarrow>
         if \<not> v5 \<or> n \<le> 1 then Inr (Some None)
         else if \<not> H (ReqBuffer (12 * n)) then Inr None
         else if ro_subscribeOptionsCount r = 0 then Inr (Some (Some (replicate n MQTTSubscribe_options_initializer)))
         else case ro_subscribeOptionsList r of None \<Rightarrow> Inl NullDeref
           | Some os \<Rightarrow> if length os < n then Inl OverRead else Inr (Some (Some (take n os))))"

text \<open>The result is the return code, the token when there are options to write it to, and the state.\<close>

definition add_subscribe ::
    "('n, 'f) async_api \<Rightarrow> nat \<Rightarrow> bytes list \<Rightarrow> int list \<Rightarrow> MQTTAsync_responseOptions option \<Rightarrow> int \<Rightarrow> ('n, 'f) asys
      \<Rightarrow> ub + (int \<times> int option \<times> ('n, 'f) asys)" where
  "add_subscribe A h topic qos ropts msgid s =
     (let H = e_heap (a_env A); v5 = (c_MQTTVersion (g_clients s ! h) \<ge> MQTTVERSION_5); n = length topic;
          token = map_option (\<lambda>_. msgid) ropts in
      if \<not> H (ReqStruct ''MQTTAsync_queuedCommand'') then Inr (PAHO_MEMORY_ERROR, None, s)
      else ub_bind (option_list H v5 n ropts) (\<lambda>opts. case opts of
          None \<Rightarrow> Inr (PAHO_MEMORY_ERROR, token, s)
        | Some optlist \<Rightarrow>
           if \<not> H (ReqBuffer (8 * n)) \<or> \<not> H (ReqBuffer (4 * n)) then Inr (PAHO_MEMORY_ERROR, token, s)
           else ub_bind (dup_all H topic) (\<lambda>ts. case ts of
               None \<Rightarrow> Inr (PAHO_MEMORY_ERROR, token, s)
             | Some ts \<Rightarrow>
                let o1 = (case ropts of Some r \<Rightarrow> if v5 then ro_subscribeOptions r else zero_options
                      | None \<Rightarrow> zero_options) in
                ub_bind (response_command H v5 ropts msgid (Subscribe ts (take n qos) o1 optlist)) (\<lambda>cmd.
                  let (a, s) = new_addr s in
                  ub_bind (MQTTAsync_addCommand A (new_queued a h cmd) s) (\<lambda>(rc, s). Inr (rc, token, s))))))"

definition MQTTAsync_subscribeMany ::
    "('n, 'f) async_api \<Rightarrow> nat option \<Rightarrow> bytes list \<Rightarrow> int list \<Rightarrow> MQTTAsync_responseOptions option \<Rightarrow> ('n, 'f) asys
      \<Rightarrow> (int \<times> int option \<times> ('n, 'f) asys) run" where
  "MQTTAsync_subscribeMany A handle topic qos ropts s =
     (let rc = connected_check handle s; h = the handle in
      if rc \<noteq> MQTTASYNC_SUCCESS then ret (rc, None, s)
      else run_bind (Some (subscribe_check A topic qos)) (\<lambda>rc.
        if rc \<noteq> MQTTASYNC_SUCCESS then ret (rc, None, s)
        else case MQTTAsync_assignMsgId A h s of None \<Rightarrow> None
        | Some (msgid, s) \<Rightarrow>
           if msgid = 0 then ret (MQTTASYNC_NO_MORE_MSGIDS, None, s)
           else Some (ub_bind (count_check (c_MQTTVersion (g_clients s ! h) \<ge> MQTTVERSION_5) (length topic) ropts) (\<lambda>rc.
             if rc \<noteq> MQTTASYNC_SUCCESS then Inr (rc, None, s) else add_subscribe A h topic qos ropts msgid s))))"

definition MQTTAsync_subscribe ::
    "('n, 'f) async_api \<Rightarrow> nat option \<Rightarrow> bytes \<Rightarrow> int \<Rightarrow> MQTTAsync_responseOptions option \<Rightarrow> ('n, 'f) asys
      \<Rightarrow> (int \<times> int option \<times> ('n, 'f) asys) run" where
  "MQTTAsync_subscribe A handle topic qos ropts s = MQTTAsync_subscribeMany A handle [topic] [qos] ropts s"

definition add_unsubscribe ::
    "('n, 'f) async_api \<Rightarrow> nat \<Rightarrow> bytes list \<Rightarrow> MQTTAsync_responseOptions option \<Rightarrow> int \<Rightarrow> ('n, 'f) asys
      \<Rightarrow> ub + (int \<times> int option \<times> ('n, 'f) asys)" where
  "add_unsubscribe A h topic ropts msgid s =
     (let H = e_heap (a_env A); v5 = (c_MQTTVersion (g_clients s ! h) \<ge> MQTTVERSION_5);
          token = map_option (\<lambda>_. msgid) ropts in
      if \<not> H (ReqStruct ''MQTTAsync_queuedCommand'') then Inr (PAHO_MEMORY_ERROR, None, s)
      else if \<not> H (ReqBuffer (8 * length topic)) then Inr (PAHO_MEMORY_ERROR, token, s)
      else ub_bind (dup_all H topic) (\<lambda>ts. case ts of None \<Rightarrow> Inl NullDeref
        | Some ts \<Rightarrow>
           ub_bind (response_command H v5 ropts msgid (Unsubscribe ts)) (\<lambda>cmd.
             let (a, s) = new_addr s in
             ub_bind (MQTTAsync_addCommand A (new_queued a h cmd) s) (\<lambda>(rc, s). Inr (rc, token, s)))))"

definition MQTTAsync_unsubscribeMany ::
    "('n, 'f) async_api \<Rightarrow> nat option \<Rightarrow> bytes list \<Rightarrow> MQTTAsync_responseOptions option \<Rightarrow> ('n, 'f) asys
      \<Rightarrow> (int \<times> int option \<times> ('n, 'f) asys) run" where
  "MQTTAsync_unsubscribeMany A handle topic ropts s =
     (let rc = connected_check handle s; h = the handle in
      if rc \<noteq> MQTTASYNC_SUCCESS then ret (rc, None, s)
      else if list_ex (\<lambda>t. \<not> UTF8_validateString A (c_str t)) topic then ret (MQTTASYNC_BAD_UTF8_STRING, None, s)
      else case MQTTAsync_assignMsgId A h s of None \<Rightarrow> None
      | Some (msgid, s) \<Rightarrow>
         let rc = response_check (c_MQTTVersion (g_clients s ! h) \<ge> MQTTVERSION_5) ropts in
         if msgid = 0 then ret (MQTTASYNC_NO_MORE_MSGIDS, None, s)
         else if rc \<noteq> MQTTASYNC_SUCCESS then ret (rc, None, s)
         else Some (add_unsubscribe A h topic ropts msgid s))"

definition MQTTAsync_unsubscribe ::
    "('n, 'f) async_api \<Rightarrow> nat option \<Rightarrow> bytes \<Rightarrow> MQTTAsync_responseOptions option \<Rightarrow> ('n, 'f) asys
      \<Rightarrow> (int \<times> int option \<times> ('n, 'f) asys) run" where
  "MQTTAsync_unsubscribe A handle topic ropts s = MQTTAsync_unsubscribeMany A handle [topic] ropts s"

subsection \<open>Publishing\<close>

text \<open>Whether a message may be sent now, or be buffered while there is no connection.\<close>

definition send_check :: "nat option \<Rightarrow> ('n, 'f) asys \<Rightarrow> int" where
  "send_check handle s =
     (case handle of None \<Rightarrow> MQTTASYNC_FAILURE
      | Some h \<Rightarrow>
         let m = as_handles s ! h in
         if c_connected (g_clients s ! h) then MQTTASYNC_SUCCESS
         else case h_createOptions m of None \<Rightarrow> MQTTASYNC_DISCONNECTED
         | Some o' \<Rightarrow>
            if ao_sendWhileDisconnected o' = 0 then MQTTASYNC_DISCONNECTED
            else if \<not> h_shouldBeConnected m \<and> (ao_struct_version o' < 2 \<or> ao_allowDisconnectedSendAtAnyTime o' = 0)
            then MQTTASYNC_DISCONNECTED
            else MQTTASYNC_SUCCESS)"

definition buffer_check :: "MQTTAsyncs \<Rightarrow> bool" where
  "buffer_check m \<longleftrightarrow> (case h_createOptions m of None \<Rightarrow> True
     | Some o' \<Rightarrow> \<not> ((ao_struct_version o' < 2 \<or> ao_deleteOldestMessages o' = 0) \<and>
         h_noBufferedMessages m \<ge> ao_maxBufferedMessages o'))"

definition add_publish ::
    "('n, 'f) async_api \<Rightarrow> nat \<Rightarrow> bytes \<Rightarrow> int \<Rightarrow> bytes option \<Rightarrow> int \<Rightarrow> int \<Rightarrow> MQTTAsync_responseOptions option
      \<Rightarrow> int \<Rightarrow> ('n, 'f) asys \<Rightarrow> ub + (int \<times> int option \<times> ('n, 'f) asys)" where
  "add_publish A h destinationName payloadlen payload qos retained ropts msgid s =
     (let H = e_heap (a_env A); v5 = (c_MQTTVersion (g_clients s ! h) \<ge> MQTTVERSION_5);
          token = map_option (\<lambda>_. msgid) ropts in
      if \<not> H (ReqStruct ''MQTTAsync_queuedCommand'') then Inr (PAHO_MEMORY_ERROR, None, s)
      else ub_bind (MQTTStrdup H destinationName) (\<lambda>t.
        if t = None \<or> \<not> H (ReqBuffer (size_t_of payloadlen)) then Inr (PAHO_MEMORY_ERROR, token, s)
        else ub_bind (memcpy_src (null_bytes payload) payloadlen) (\<lambda>p.
          ub_bind (response_command H v5 ropts msgid (PublishCmd t payloadlen (Some p) qos retained)) (\<lambda>cmd.
            let (a, s) = new_addr s in
            ub_bind (MQTTAsync_addCommand A (new_queued a h cmd) s) (\<lambda>(rc, s). Inr (rc, token, s))))))"

definition MQTTAsync_send ::
    "('n, 'f) async_api \<Rightarrow> nat option \<Rightarrow> bytes \<Rightarrow> int \<Rightarrow> bytes option \<Rightarrow> int \<Rightarrow> int \<Rightarrow> MQTTAsync_responseOptions option
      \<Rightarrow> ('n, 'f) asys \<Rightarrow> (int \<times> int option \<times> ('n, 'f) asys) run" where
  "MQTTAsync_send A handle destinationName payloadlen payload qos retained ropts s =
     (let rc = send_check handle s; h = the handle in
      if rc \<noteq> MQTTASYNC_SUCCESS then ret (rc, None, s)
      else if \<not> UTF8_validateString A (c_str destinationName) then ret (MQTTASYNC_BAD_UTF8_STRING, None, s)
      else if qos < 0 \<or> qos > 2 then ret (MQTTASYNC_BAD_QOS, None, s)
      else case (if qos > 0 then MQTTAsync_assignMsgId A h s else Some (0, s)) of None \<Rightarrow> None
      | Some (msgid, s) \<Rightarrow>
         let rc = response_check (c_MQTTVersion (g_clients s ! h) \<ge> MQTTVERSION_5) ropts in
         if qos > 0 \<and> msgid = 0 then ret (MQTTASYNC_NO_MORE_MSGIDS, None, s)
         else if \<not> buffer_check (as_handles s ! h) then ret (MQTTASYNC_MAX_BUFFERED_MESSAGES, None, s)
         else if rc \<noteq> MQTTASYNC_SUCCESS then ret (rc, None, s)
         else Some (add_publish A h destinationName payloadlen payload qos retained ropts msgid s))"

text \<open>A message of the application is the structure of the synchronous API.\<close>

definition MQTTAsync_sendMessage ::
    "('n, 'f) async_api \<Rightarrow> nat option \<Rightarrow> bytes \<Rightarrow> MQTTClient_message option \<Rightarrow> MQTTAsync_responseOptions option
      \<Rightarrow> ('n, 'f) asys \<Rightarrow> (int \<times> int option \<times> ('n, 'f) asys) run" where
  "MQTTAsync_sendMessage A handle destinationName message ropts s =
     (case message of None \<Rightarrow> ret (MQTTASYNC_NULL_PARAMETER, None, s)
      | Some m \<Rightarrow>
         let p = cm_message m in
         if take 4 (cm_struct_id m) \<noteq> map (\<lambda>c. of_char c) ''MQTM'' \<or>
           (pm_struct_version p \<noteq> 0 \<and> pm_struct_version p \<noteq> 1) then ret (MQTTASYNC_BAD_STRUCTURE, None, s)
         else case handle of None \<Rightarrow> Some (Inl NullDeref)
         | Some h \<Rightarrow>
            let ropts = (if c_MQTTVersion (g_clients s ! h) \<ge> MQTTVERSION_5
                  then map_option (\<lambda>r. r\<lparr>ro_properties := pm_properties p\<rparr>) ropts else ropts)
            in MQTTAsync_send A handle destinationName (pm_payloadlen p) (Some (pm_payload p)) (pm_qos p)
                 (pm_retained p) ropts s)"

subsection \<open>Tokens\<close>

definition MQTTAsync_isConnected :: "nat option \<Rightarrow> ('n, 'f) asys \<Rightarrow> bool" where
  "MQTTAsync_isConnected handle s = (case handle of None \<Rightarrow> False | Some h \<Rightarrow> c_connected (g_clients s ! h))"

definition MQTTAsync_isComplete :: "nat option \<Rightarrow> int \<Rightarrow> ('n, 'f) asys \<Rightarrow> int" where
  "MQTTAsync_isComplete handle dt s =
     (case handle of None \<Rightarrow> MQTTASYNC_FAILURE
      | Some h \<Rightarrow>
         if list_ex (\<lambda>q. qc_client q = h \<and> qc_token q = dt) (as_commands s) \<or>
           list_ex (\<lambda>m. ms_msgid m = dt) (c_outboundMsgs (g_clients s ! h)) then MQTTASYNC_SUCCESS
         else MQTTASYNC_TRUE)"

text \<open>
  Waiting. The mutex is free while the function sleeps; the loop need not end when time stands still.
\<close>

partial_function (option) wait_completion ::
    "('n, 'f) async_api \<Rightarrow> nat \<Rightarrow> int \<Rightarrow> timeval \<Rightarrow> nat \<Rightarrow> nat \<Rightarrow> ('n, 'f) asys \<Rightarrow> (int \<times> ('n, 'f) asys) run" where
  "wait_completion A h dt start timeout e s =
     (if \<not> e < timeout then ret (MQTTASYNC_FAILURE, s)
      else run_bind (let_run A (sleep_async A 100 s)) (\<lambda>s.
        let rc = (if \<not> c_connected (g_clients s ! h) then MQTTASYNC_DISCONNECTED
              else if MQTTAsync_isComplete (Some h) dt s = 1 then MQTTASYNC_SUCCESS else MQTTASYNC_FAILURE) in
        case elapsed_async A start s of (e, s) \<Rightarrow>
          if rc \<noteq> MQTTASYNC_FAILURE then ret (rc, s) else wait_completion A h dt start timeout e s))"

definition MQTTAsync_waitForCompletion ::
    "('n, 'f) async_api \<Rightarrow> nat option \<Rightarrow> int \<Rightarrow> nat \<Rightarrow> ('n, 'f) asys \<Rightarrow> (int \<times> ('n, 'f) asys) run" where
  "MQTTAsync_waitForCompletion A handle dt timeout s =
     (let (start, s) = start_clock A s in
      case handle of None \<Rightarrow> ret (MQTTASYNC_FAILURE, s)
      | Some h \<Rightarrow>
         if \<not> c_connected (g_clients s ! h) then ret (MQTTASYNC_DISCONNECTED, s)
         else if MQTTAsync_isComplete handle dt s = 1 then ret (MQTTASYNC_SUCCESS, s)
         else let (e, s) = elapsed_async A start s in wait_completion A h dt start timeout e s)"

text \<open>The tokens of the publishes in the queue and of the messages in flight, ended by -1.\<close>

definition pending_tokens :: "nat \<Rightarrow> ('n, 'f) asys \<Rightarrow> int list" where
  "pending_tokens h s =
     map qc_token (filter (\<lambda>q. qc_client q = h \<and> is_publish (qc_details q)) (as_commands s)) @
     map ms_msgid (c_outboundMsgs (g_clients s ! h))"

definition MQTTAsync_getPendingTokens ::
    "('n, 'f) async_api \<Rightarrow> nat option \<Rightarrow> ('n, 'f) asys \<Rightarrow> int \<times> int list option" where
  "MQTTAsync_getPendingTokens A handle s =
     (case handle of None \<Rightarrow> (MQTTASYNC_FAILURE, None)
      | Some h \<Rightarrow>
         let tokens = pending_tokens h s in
         if tokens = [] then (MQTTASYNC_SUCCESS, None)
         else if \<not> e_heap (a_env A) (ReqBuffer (4 * (length tokens + 1))) then (PAHO_MEMORY_ERROR, None)
         else (MQTTASYNC_SUCCESS, Some (tokens @ [-1])))"

subsection \<open>Callbacks\<close>

definition set_when_idle ::
    "nat option \<Rightarrow> (MQTTAsyncs \<Rightarrow> MQTTAsyncs) \<Rightarrow> ('n, 'f) asys \<Rightarrow> int \<times> ('n, 'f) asys" where
  "set_when_idle handle f s =
     (case handle of None \<Rightarrow> (MQTTASYNC_FAILURE, s)
      | Some h \<Rightarrow> if c_connect_state (g_clients s ! h) \<noteq> NOT_IN_PROGRESS then (MQTTASYNC_FAILURE, s)
          else (MQTTASYNC_SUCCESS, upd_async h f s))"

definition MQTTAsync_setCallbacks ::
    "nat option \<Rightarrow> nat \<Rightarrow> bool \<Rightarrow> bool \<Rightarrow> bool \<Rightarrow> ('n, 'f) asys \<Rightarrow> int \<times> ('n, 'f) asys" where
  "MQTTAsync_setCallbacks handle context cl ma dc s =
     (if \<not> ma then (MQTTASYNC_FAILURE, s)
      else set_when_idle handle (\<lambda>m. m\<lparr>h_clContext := context, h_maContext := context, h_dcContext := context,
        h_cl := cl, h_ma := ma, h_dc := dc\<rparr>) s)"

definition MQTTAsync_setConnectionLostCallback ::
    "nat option \<Rightarrow> nat \<Rightarrow> bool \<Rightarrow> ('n, 'f) asys \<Rightarrow> int \<times> ('n, 'f) asys" where
  "MQTTAsync_setConnectionLostCallback handle context cl =
     set_when_idle handle (\<lambda>m. m\<lparr>h_clContext := context, h_cl := cl\<rparr>)"

definition MQTTAsync_setMessageArrivedCallback ::
    "nat option \<Rightarrow> nat \<Rightarrow> bool \<Rightarrow> ('n, 'f) asys \<Rightarrow> int \<times> ('n, 'f) asys" where
  "MQTTAsync_setMessageArrivedCallback handle context ma s =
     (if \<not> ma then (MQTTASYNC_FAILURE, s) else set_when_idle handle (\<lambda>m. m\<lparr>h_maContext := context, h_ma := ma\<rparr>) s)"

definition MQTTAsync_setDeliveryCompleteCallback ::
    "nat option \<Rightarrow> nat \<Rightarrow> bool \<Rightarrow> ('n, 'f) asys \<Rightarrow> int \<times> ('n, 'f) asys" where
  "MQTTAsync_setDeliveryCompleteCallback handle context dc =
     set_when_idle handle (\<lambda>m. m\<lparr>h_dcContext := context, h_dc := dc\<rparr>)"

definition MQTTAsync_setDisconnected ::
    "nat option \<Rightarrow> nat \<Rightarrow> bool \<Rightarrow> ('n, 'f) asys \<Rightarrow> int \<times> ('n, 'f) asys" where
  "MQTTAsync_setDisconnected handle context disconnected =
     set_when_idle handle (\<lambda>m. m\<lparr>h_disconnected_context := context, h_disconnected := disconnected\<rparr>)"

definition MQTTAsync_setConnected ::
    "nat option \<Rightarrow> nat \<Rightarrow> bool \<Rightarrow> ('n, 'f) asys \<Rightarrow> int \<times> ('n, 'f) asys" where
  "MQTTAsync_setConnected handle context connected =
     set_when_idle handle (\<lambda>m. m\<lparr>h_connected_context := context, h_connected := connected\<rparr>)"

definition MQTTAsync_setUpdateConnectOptions ::
    "nat option \<Rightarrow> nat \<Rightarrow> bool \<Rightarrow> ('n, 'f) asys \<Rightarrow> int \<times> ('n, 'f) asys" where
  "MQTTAsync_setUpdateConnectOptions handle context updateOptions s =
     (case handle of None \<Rightarrow> (MQTTASYNC_FAILURE, s)
      | Some h \<Rightarrow> (MQTTASYNC_SUCCESS, upd_async h (\<lambda>m. m\<lparr>h_updateConnectOptions_context := context,
          h_updateConnectOptions := updateOptions\<rparr>) s))"

definition MQTTAsync_setBeforePersistenceWrite ::
    "nat option \<Rightarrow> (bytes list \<Rightarrow> 'f \<Rightarrow> int \<times> bytes list \<times> 'f) option \<Rightarrow> ('n, 'f) asys \<Rightarrow> int \<times> ('n, 'f) asys" where
  "MQTTAsync_setBeforePersistenceWrite handle co s =
     (case handle of None \<Rightarrow> (MQTTASYNC_FAILURE, s)
      | Some h \<Rightarrow> (MQTTASYNC_SUCCESS, upd_client h (\<lambda>c. c\<lparr>c_beforeWrite := co\<rparr>) s))"

definition MQTTAsync_setAfterPersistenceRead ::
    "nat option \<Rightarrow> (bytes \<Rightarrow> 'f \<Rightarrow> int \<times> bytes \<times> 'f) option \<Rightarrow> ('n, 'f) asys \<Rightarrow> int \<times> ('n, 'f) asys" where
  "MQTTAsync_setAfterPersistenceRead handle co s =
     (case handle of None \<Rightarrow> (MQTTASYNC_FAILURE, s)
      | Some h \<Rightarrow> (MQTTASYNC_SUCCESS, upd_client h (\<lambda>c. c\<lparr>c_afterRead := co\<rparr>) s))"

definition MQTTAsync_freeMessage :: "MQTTPersistence_message \<Rightarrow> ub + bytes list" where
  "MQTTAsync_freeMessage message = ub_bind (MQTTProperties_free (Some (pm_properties message))) (\<lambda>(fs, _). Inr fs)"

end
