(* ===== verification/AsyncStore.thy ===== *)
theory AsyncStore
  imports AsyncApi
begin

section \<open>Commands in the store\<close>

text \<open>
  What is read back of a command that was written to the store: everything that is sent later, except
  for an UNSUBSCRIBE before version 5, whose record is taken for a broken one.
\<close>

lemma upd_async_simps [simp]:
  "g_clients (upd_async h f s) = g_clients s" "g_fs (upd_async h f s) = g_fs s" "g_net (upd_async h f s) = g_net s"
  "as_commands (upd_async h f s) = as_commands s" "g_fresh (upd_async h f s) = g_fresh s"
  "as_calls (upd_async h f s) = as_calls s" "length (as_handles (upd_async h f s)) = length (as_handles s)"
  by (simp_all add: upd_async_def)

lemma upd_async_handle:
  "h < length (as_handles s) \<Longrightarrow> as_handles (upd_async h f s) ! k = (if k = h then f (as_handles s ! h) else as_handles s ! k)"
  by (simp add: upd_async_def)

subsection \<open>Reading one field\<close>

definition is_int :: "int \<Rightarrow> bool" where
  "is_int v \<longleftrightarrow> - 2147483648 \<le> v \<and> v < 2147483648"

lemma restore_int_at:
  "is_int v \<Longrightarrow> restore_int (pre @ int_bytes v @ post) (length pre) = Inr (Some (v, length pre + 4))"
  using read_int_bytes [of v pre post] by (simp add: restore_int_def is_int_def)

lemma restore_string_at:
  assumes "heap_total H" "0 \<notin> set t" "post \<noteq> []"
  shows "restore_string H (pre @ t @ 0 # post) (length pre) copy =
    Inr (Some (if copy then t else [], length pre + length t + 1))"
  using assms read_c_string_at [OF assms(2), of pre post] by (simp add: restore_string_def strlen_def)

lemma restore_string_end: "0 \<notin> set t \<Longrightarrow> restore_string H (pre @ t @ [0]) (length pre) copy = Inr None"
  by (simp add: restore_string_def strlen_def)

subsection \<open>Reading the topics\<close>

definition sub_record :: "bool \<Rightarrow> bytes \<times> int \<times> options_memory \<Rightarrow> bytes" where
  "sub_record v5 s = (case s of (t, q, o') \<Rightarrow> c_str t @ 0 # int_bytes q @ (if v5 then o' else []))"

definition sub_kept :: "bool \<Rightarrow> bytes \<times> int \<times> options_memory \<Rightarrow> bytes \<times> int \<times> options_memory" where
  "sub_kept v5 s = (case s of (t, q, o') \<Rightarrow> (c_str t, q, if v5 then o' else []))"

lemma sub_record_simp: "sub_record v5 (t, q, o') = c_str t @ 0 # int_bytes q @ (if v5 then o' else [])"
  by (simp add: sub_record_def)

lemma restore_subs_step:
  assumes "heap_total H" "is_int q" "v5 \<Longrightarrow> length o' = 12"
    "buf = pre @ sub_record v5 (t, q, o') @ rest"
  shows "restore_subs H v5 n buf (Suc i) (length pre) =
    bind_some (restore_subs H v5 n buf i (length pre + length (sub_record v5 (t, q, o')))) (\<lambda>(r, p).
      Inr (Some (sub_kept v5 (t, q, o') # r, p)))"
proof -
  let ?o = "if v5 then o' else []"
  let ?p1 = "length pre + length (c_str t) + 1"
  have b1: "buf = pre @ c_str t @ 0 # (int_bytes q @ ?o @ rest)" using assms(4) by (simp add: sub_record_def)
  have b2: "buf = (pre @ c_str t @ [0]) @ int_bytes q @ ?o @ rest" using assms(4) by (simp add: sub_record_def)
  have r1: "restore_string H buf (length pre) True = Inr (Some (c_str t, ?p1))"
    unfolding b1 using restore_string_at [OF assms(1), of "c_str t" "int_bytes q @ ?o @ rest" pre True]
    by (simp add: int_bytes_def)
  have r2: "restore_int buf ?p1 = Inr (Some (q, ?p1 + 4))"
    unfolding b2 using restore_int_at [OF assms(2), of "pre @ c_str t @ [0]" "?o @ rest"] by (simp add: add.assoc)
  have r3: "v5 \<Longrightarrow> \<not> ?p1 + 4 + 12 > length buf \<and> take 12 (drop (?p1 + 4) buf) = o'"
    unfolding b2 using assms(3) by simp
  show ?thesis
    unfolding restore_subs.simps(2) r1 bind_some_simps prod.case r2 using r3
    by (cases v5) (simp_all add: sub_record_def assms(3) sub_kept_def ac_simps)
qed

lemma restore_subs_at:
  assumes "heap_total H" "\<forall>(t, q, o') \<in> set subs. is_int q \<and> length o' = 12"
  shows "restore_subs H v5 n (pre @ concat (map (sub_record v5) subs) @ post) (length subs) (length pre) =
    Inr (Some (map (sub_kept v5) subs, length pre + length (concat (map (sub_record v5) subs))))"
  using assms(2)
proof (induction subs arbitrary: pre)
  case Nil
  then show ?case by simp
next
  case (Cons s subs)
  obtain t q o' where s: "s = (t, q, o')" by (cases s) auto
  have ok: "is_int q" "length o' = 12" using Cons.prems by (simp_all add: s)
  have "restore_subs H v5 n (pre @ sub_record v5 s @ concat (map (sub_record v5) subs) @ post) (length subs)
      (length pre + length (sub_record v5 s)) =
    Inr (Some (map (sub_kept v5) subs, length pre + length (sub_record v5 s) + length (concat (map (sub_record v5) subs))))"
    using Cons.IH [of "pre @ sub_record v5 s"] Cons.prems by simp
  then show ?case
    using restore_subs_step [OF assms(1) ok(1) ok(2) refl, of v5 n pre t "concat (map (sub_record v5) subs) @ post" "length subs"]
    by (simp add: s del: restore_subs.simps)
qed

lemma restore_unsubs_step:
  assumes "heap_total H" "rest \<noteq> []"
  shows "restore_unsubs H (pre @ (c_str t @ [0]) @ rest) (Suc i) (length pre) =
    bind_some (restore_unsubs H (pre @ (c_str t @ [0]) @ rest) i (length pre + (length (c_str t) + 1))) (\<lambda>(r, p).
      Inr (Some (c_str t # r, p)))"
  using restore_string_at [OF assms(1), of "c_str t" rest pre True] assms(2) by (simp add: add.assoc)

lemma restore_unsubs_at:
  assumes "heap_total H" "post \<noteq> []"
  shows "restore_unsubs H (pre @ concat (map (\<lambda>t. c_str t @ [0]) ts) @ post) (length ts) (length pre) =
    Inr (Some (map c_str ts, length pre + length (concat (map (\<lambda>t. c_str t @ [0]) ts))))"
proof (induction ts arbitrary: pre)
  case Nil
  then show ?case by simp
next
  case (Cons t ts)
  let ?rest = "concat (map (\<lambda>t. c_str t @ [0]) ts) @ post"
  show ?case using Cons.IH [of "pre @ c_str t @ [0]"] restore_unsubs_step [OF assms(1), of ?rest pre t "length ts"] assms(2)
    by (simp del: restore_unsubs.simps)
qed

text \<open>A list of topics that the record ends with is not read.\<close>

lemma restore_unsubs_end:
  assumes "heap_total H" "ts \<noteq> []"
  shows "restore_unsubs H (pre @ concat (map (\<lambda>t. c_str t @ [0]) ts)) (length ts) (length pre) = Inr None"
  using assms(2)
proof (induction ts arbitrary: pre)
  case (Cons t ts)
  let ?rest = "concat (map (\<lambda>t. c_str t @ [0]) ts)"
  show ?case
  proof (cases "ts = []")
    case True
    then show ?thesis using restore_string_end [of "c_str t" H pre True] by simp
  next
    case False
    have "?rest \<noteq> []" using False by (cases ts) auto
    from restore_unsubs_step [OF assms(1) this, of pre t "length ts"] show ?thesis
      using Cons.IH [of "pre @ c_str t @ [0]"] False by (simp del: restore_unsubs.simps)
  qed
qed simp


subsection \<open>The record of a command\<close>

text \<open>The topics of a SUBSCRIBE with the options that are written for them.\<close>

definition sub_options :: "bool \<Rightarrow> nat \<Rightarrow> options_memory \<Rightarrow> options_memory list option \<Rightarrow> options_memory list" where
  "sub_options v5 n opts optlist =
     (if \<not> v5 then replicate n zero_options else if n = 1 then [opts]
      else case optlist of None \<Rightarrow> [] | Some os \<Rightarrow> os)"

definition details_ok :: "bool \<Rightarrow> details \<Rightarrow> bool" where
  "details_ok v5 d \<longleftrightarrow> (case d of
      Subscribe topics qoss opts optlist \<Rightarrow> topics \<noteq> [] \<and> length topics < 2147483648 \<and>
        length qoss = length topics \<and> (\<forall>q\<in>set qoss. is_int q) \<and>
        (v5 \<longrightarrow> (if length topics = 1 then length opts = 12 else
          (case optlist of None \<Rightarrow> False | Some os \<Rightarrow> length os = length topics \<and> (\<forall>o'\<in>set os. length o' = 12))))
    | Unsubscribe topics \<Rightarrow> length topics < 2147483648
    | PublishCmd topic len payload qos retained \<Rightarrow> topic \<noteq> None \<and> 0 \<le> len \<and> is_int len \<and>
        nat len \<le> length (null_bytes payload) \<and> is_int qos \<and> is_int retained
    | _ \<Rightarrow> False)"

definition details_record :: "bool \<Rightarrow> details \<Rightarrow> bytes" where
  "details_record v5 d = (case d of
      Subscribe topics qoss opts optlist \<Rightarrow> int_bytes (int (length topics)) @
        concat (map (sub_record v5) (zip topics (zip qoss (sub_options v5 (length topics) opts optlist))))
    | Unsubscribe topics \<Rightarrow> int_bytes (int (length topics)) @ concat (map (\<lambda>t. c_str t @ [0]) topics)
    | PublishCmd topic len payload qos retained \<Rightarrow> c_str (the topic) @ 0 # int_bytes len @
        take (nat len) (null_bytes payload) @ int_bytes qos @ int_bytes retained
    | _ \<Rightarrow> [])"

definition props_record :: "bool \<Rightarrow> MQTTProperties \<Rightarrow> bytes" where
  "props_record v5 props = (if v5 then vbi (nat (p_length props)) @ list_bytes (prop_list props) else [])"

definition command_record :: "bool \<Rightarrow> MQTTAsync_command \<Rightarrow> bytes" where
  "command_record v5 cmd = int_bytes (int (details_type (cm_details cmd))) @ int_bytes (cm_token cmd) @
     details_record v5 (cm_details cmd) @ props_record v5 (cm_properties cmd)"

definition command_ok :: "bool \<Rightarrow> MQTTAsync_command \<Rightarrow> bool" where
  "command_ok v5 cmd \<longleftrightarrow> is_int (cm_token cmd) \<and> details_ok v5 (cm_details cmd) \<and>
     props_ok (cm_properties cmd) \<and> p_length (cm_properties cmd) < 268435456"

text \<open>What a command that is read back has of its details.\<close>

definition kept_details :: "bool \<Rightarrow> details \<Rightarrow> details" where
  "kept_details v5 d = (case d of
      Subscribe topics qoss opts optlist \<Rightarrow> Subscribe (map c_str topics) qoss
        (if v5 \<and> length topics = 1 then opts else zero_options) (if v5 \<and> length topics > 1 then optlist else None)
    | Unsubscribe topics \<Rightarrow> Unsubscribe (map c_str topics)
    | PublishCmd topic len payload qos retained \<Rightarrow>
        PublishCmd (map_option c_str topic) len (Some (take (nat len) (null_bytes payload))) qos retained
    | d \<Rightarrow> d)"

lemma sub_options_ok:
  assumes "details_ok v5 (Subscribe topics qoss opts optlist)"
  shows "length (sub_options v5 (length topics) opts optlist) = length topics \<and>
    (\<forall>o' \<in> set (sub_options v5 (length topics) opts optlist). length o' = 12)"
  using assms by (auto simp: details_ok_def sub_options_def zero_options_def split: if_splits option.splits)

lemma topic_buffers_ok:
  assumes "i + length ts \<le> length qoss" "length os = length qoss" "n = length qoss"
    "v5 \<Longrightarrow> if n = 1 then os = [opts] else optlist = Some os"
  shows "\<exists>b. topic_buffers v5 n opts optlist i ts qoss = Inr b \<and>
    concat b = concat (map (sub_record v5) (zip ts (zip (drop i qoss) (drop i os))))"
  using assms(1)
proof (induction ts arbitrary: i)
  case Nil
  then show ?case by simp
next
  case (Cons t ts)
  have "i + 1 + length ts \<le> length qoss" using Cons.prems by simp
  from Cons.IH [OF this] obtain b where b: "topic_buffers v5 n opts optlist (i + 1) ts qoss = Inr b"
    "concat b = concat (map (sub_record v5) (zip ts (zip (drop (i + 1) qoss) (drop (i + 1) os))))" by blast
  have i: "i < length qoss" "i < length os" using Cons.prems assms(2) by auto
  have o: "(if \<not> v5 then Inr [] else if n = 1 then Inr [opts]
      else case optlist of None \<Rightarrow> Inl NullDeref
        | Some os \<Rightarrow> if i < length os then Inr [os ! i] else Inl OverRead) = Inr (if v5 then [os ! i] else [])"
    using assms(2-4) i by (auto split: if_splits)
  show ?case
    using b i by (simp add: o Cons_nth_drop_Suc [symmetric] sub_record_simp)
qed

lemma command_buffers_ok:
  assumes "details_ok v5 (cm_details cmd)"
  shows "\<exists>bufs. command_buffers v5 cmd = Inr (Some bufs) \<and> concat bufs =
    int_bytes (int (details_type (cm_details cmd))) @ int_bytes (cm_token cmd) @ details_record v5 (cm_details cmd)"
proof (cases "cm_details cmd")
  case (Subscribe topics qoss opts optlist)
  define os where "os = sub_options v5 (length topics) opts optlist"
  have d: "details_ok v5 (Subscribe topics qoss opts optlist)" using assms Subscribe by simp
  have l: "length qoss = length topics" using d by (simp add: details_ok_def)
  have o: "length os = length topics" using sub_options_ok [OF d] by (simp add: os_def)
  have s: "v5 \<Longrightarrow> if length topics = 1 then os = [opts] else optlist = Some os"
    using d by (auto simp: os_def sub_options_def details_ok_def split: option.splits if_splits)
  have "\<exists>b. topic_buffers v5 (length topics) opts optlist 0 topics qoss = Inr b \<and>
      concat b = concat (map (sub_record v5) (zip topics (zip (drop 0 qoss) (drop 0 os))))"
    by (rule topic_buffers_ok [OF _ _ _ s]) (simp_all add: l o)
  then obtain b where "topic_buffers v5 (length topics) opts optlist 0 topics qoss = Inr b"
    "concat b = concat (map (sub_record v5) (zip topics (zip qoss os)))" unfolding drop_0 by blast
  then show ?thesis by (simp add: command_buffers_def Subscribe details_record_def os_def)
next
  case (PublishCmd topic len payload qos retained)
  then show ?thesis using assms by (auto simp: command_buffers_def details_ok_def details_record_def memcpy_src_def)
qed (use assms in \<open>simp_all add: command_buffers_def details_ok_def details_record_def\<close>)

lemma props_buffer_ok:
  assumes "props_ok props" "p_length props < 268435456" "heap_total H"
  shows "props_buffer H props = Inr (Some (props_record True props))"
proof -
  let ?b = "vbi (nat (p_length props)) @ list_bytes (prop_list props)"
  have "length (vbi (nat (p_length props))) \<le> 4" using assms(2) by (intro length_vbi_4) simp
  then have "int (length ?b) < 2 ^ 64" using assms(1,2) by (simp add: props_ok_def)
  then have "size_t_of (MQTTProperties_len (Some props)) = length ?b"
    unfolding MQTTProperties_len_ok [OF assms(1,2)] size_t_of_def by simp
  then show ?thesis
    using assms(3) by (simp add: props_buffer_def MQTTProperties_write_ok [OF assms(1,2)] Let_def props_record_def)
qed

subsection \<open>Reading a command\<close>

lemma int_range_length: "n < 2147483648 \<Longrightarrow> is_int (int n)"
  by (simp add: is_int_def)

lemma map_sub_kept:
  "length qoss = length ts \<Longrightarrow> length os = length ts \<Longrightarrow>
    map (sub_kept v5) (zip ts (zip qoss os)) = zip (map c_str ts) (zip qoss (map (\<lambda>o'. if v5 then o' else []) os))"
proof (induction ts arbitrary: qoss os)
  case (Cons t ts)
  then show ?case by (cases qoss; cases os) (simp_all add: sub_kept_def)
qed simp

lemma map_zip3:
  assumes "length ys = length xs" "length zs = length xs"
  shows "map fst (zip xs (zip ys zs)) = xs" "map (fst \<circ> snd) (zip xs (zip ys zs)) = ys"
    "map (snd \<circ> snd) (zip xs (zip ys zs)) = zs"
  using assms by (simp_all add: map_map [symmetric] del: map_map)

lemma restore_subscribe_ok:
  assumes "heap_total H" "details_ok v5 (Subscribe topics qoss opts optlist)"
  defines "r \<equiv> details_record v5 (Subscribe topics qoss opts optlist)"
  shows "restore_subscribe H v5 False (pre @ r @ post) (length pre) =
    Inr (Some (kept_details v5 (Subscribe topics qoss opts optlist), length pre + length r))"
proof -
  let ?os = "sub_options v5 (length topics) opts optlist"
  define subs where "subs = zip topics (zip qoss ?os)"
  have o: "length ?os = length topics" "\<forall>o'\<in>set ?os. length o' = 12" using sub_options_ok [OF assms(2)] by auto
  have q: "length qoss = length topics" "\<forall>q\<in>set qoss. is_int q" "topics \<noteq> []" "is_int (int (length topics))"
    using assms(2) by (auto simp: details_ok_def int_range_length)
  have l: "length subs = length topics" using o q by (simp add: subs_def)
  have ok: "\<forall>(t, q, o') \<in> set subs. is_int q \<and> length o' = 12"
    using o(2) q(2) by (auto simp: subs_def dest: set_zip_leftD set_zip_rightD)
  have r: "r = int_bytes (int (length topics)) @ concat (map (sub_record v5) subs)"
    by (simp add: r_def details_record_def subs_def)
  have n: "restore_int (pre @ r @ post) (length pre) = Inr (Some (int (length topics), length pre + 4))"
    unfolding r using restore_int_at [OF q(4), of pre "concat (map (sub_record v5) subs) @ post"] by simp
  have s: "restore_subs H v5 (length topics) (pre @ r @ post) (length topics) (length pre + 4) =
      Inr (Some (map (sub_kept v5) subs, length pre + length r))"
    unfolding r using restore_subs_at [OF assms(1) ok, of v5 "length topics" "pre @ int_bytes (int (length topics))" post]
    by (simp add: l)
  have k: "map (sub_kept v5) subs = zip (map c_str topics) (zip qoss (map (\<lambda>o'. if v5 then o' else []) ?os))"
    unfolding subs_def by (rule map_sub_kept) (simp_all add: o(1) q(1))
  have m: "map fst (map (sub_kept v5) subs) = map c_str topics" "map (fst \<circ> snd) (map (sub_kept v5) subs) = qoss"
    "map (snd \<circ> snd) (map (sub_kept v5) subs) = map (\<lambda>o'. if v5 then o' else []) ?os"
    unfolding k using o(1) q(1) by (intro map_zip3; simp)+
  have ne: "map (sub_kept v5) subs \<noteq> []" using l q(3) by auto
  have c: "v5 \<Longrightarrow> length topics = 1 \<Longrightarrow> snd (snd (hd (map (sub_kept v5) subs))) = opts"
    using arg_cong [OF m(3), of hd] ne by (simp add: hd_map sub_options_def del: list.map)
  have d: "v5 \<Longrightarrow> length topics > 1 \<Longrightarrow> Some ?os = optlist"
    using assms(2) by (auto simp: sub_options_def details_ok_def split: option.splits if_splits)
  have r': "restore_subscribe H v5 False (pre @ r @ post) (length pre) =
      Inr (Some (Subscribe (map c_str topics) qoss
        (if v5 \<and> length topics = 1 then snd (snd (hd (map (sub_kept v5) subs))) else zero_options)
        (if v5 \<and> length topics > 1 then Some (map (\<lambda>o'. if v5 then o' else []) ?os) else None), length pre + length r))"
    unfolding m [symmetric] using assms(1) by (simp add: restore_subscribe_def n s del: map_map list.map)
  show ?thesis unfolding r' using c d by (simp add: kept_details_def)
qed

lemma restore_unsubscribe_ok:
  fixes v5 :: bool
  assumes "heap_total H" "length topics < 2147483648" "post \<noteq> []"
  defines "r \<equiv> details_record v5 (Unsubscribe topics)"
  shows "restore_unsubscribe H False (pre @ r @ post) (length pre) =
    Inr (Some (kept_details v5 (Unsubscribe topics), length pre + length r))"
proof -
  have r: "r = int_bytes (int (length topics)) @ concat (map (\<lambda>t. c_str t @ [0]) topics)"
    by (simp add: r_def details_record_def)
  have n: "restore_int (pre @ r @ post) (length pre) = Inr (Some (int (length topics), length pre + 4))"
    unfolding r using restore_int_at [OF int_range_length [OF assms(2)], of pre] by simp
  have s: "restore_unsubs H (pre @ r @ post) (length topics) (length pre + 4) =
      Inr (Some (map c_str topics, length pre + length r))"
    unfolding r using restore_unsubs_at [OF assms(1,3), of "pre @ int_bytes (int (length topics))" topics] by simp
  show ?thesis using assms(1) by (simp add: restore_unsubscribe_def n s kept_details_def)
qed

lemma restore_publish_ok:
  assumes "heap_total H" "details_ok v5 (PublishCmd topic len payload qos retained)"
  defines "r \<equiv> details_record v5 (PublishCmd topic len payload qos retained)"
  shows "restore_publish H False (pre @ r @ post) (length pre) =
    Inr (Some (kept_details v5 (PublishCmd topic len payload qos retained), length pre + length r))"
proof -
  obtain t where t: "topic = Some t" using assms(2) by (auto simp: details_ok_def)
  define p where "p = take (nat len) (null_bytes payload)"
  have ok: "is_int len" "is_int qos" "is_int retained" "0 \<le> len" "nat len \<le> length (null_bytes payload)"
    using assms(2) by (simp_all add: details_ok_def)
  define buf where "buf = pre @ r @ post"
  let ?e = "int_bytes qos @ int_bytes retained @ post"
  let ?p1 = "length pre + length (c_str t) + 1"
  have r: "r = c_str t @ 0 # int_bytes len @ p @ int_bytes qos @ int_bytes retained"
    by (simp add: r_def details_record_def t p_def)
  have sz: "size_t_of len = length p" "size_t_of len = nat len" using ok by (simp_all add: size_t_of_def is_int_def p_def)
  have r1: "restore_string H buf (length pre) True = Inr (Some (c_str t, ?p1))"
    unfolding buf_def r using restore_string_at [OF assms(1), of "c_str t" "int_bytes len @ p @ ?e" pre True]
    by (simp add: int_bytes_def)
  have r2: "restore_int buf ?p1 = Inr (Some (len, ?p1 + 4))"
    unfolding buf_def r using restore_int_at [OF ok(1), of "pre @ c_str t @ [0]" "p @ ?e"] by (simp add: ac_simps)
  have r3: "take (length p) (drop (?p1 + 4) buf) = p" "?p1 + 4 + length p + 8 \<le> length buf"
    unfolding buf_def r by simp_all
  have r4: "restore_int buf (?p1 + 4 + length p) = Inr (Some (qos, ?p1 + 4 + length p + 4))"
    unfolding buf_def r using restore_int_at [OF ok(2), of "pre @ c_str t @ 0 # int_bytes len @ p" "int_bytes retained @ post"]
    by (simp add: ac_simps)
  have r5: "restore_int buf (?p1 + 4 + length p + 4) = Inr (Some (retained, ?p1 + 4 + length p + 8))"
    unfolding buf_def r
    using restore_int_at [OF ok(3), of "pre @ c_str t @ 0 # int_bytes len @ p @ int_bytes qos" post]
    by (simp add: ac_simps)
  define p1 where "p1 = ?p1"
  note rs = r1 [folded p1_def] r2 [folded p1_def] r4 [folded p1_def] r5 [folded p1_def]
  note r3 = r3 [folded p1_def]
  have e: "restore_int buf (8 + (p1 + length p)) = Inr (Some (retained, 12 + (p1 + length p)))"
    using rs(4) by (simp add: ac_simps)
  have l: "length pre + length r = p1 + 4 + length p + 8" by (simp add: r p1_def)
  have k: "kept_details v5 (PublishCmd topic len payload qos retained) = PublishCmd (Some (c_str t)) len (Some p) qos retained"
    by (simp add: kept_details_def t p_def)
  show ?thesis
    unfolding buf_def [symmetric] restore_publish_def l k using assms(1) r3 by (simp add: rs e sz(1) Let_def)
qed


text \<open>
  The record is read back, except that of an UNSUBSCRIBE which ends with its last topic: there it is
  taken for broken.
\<close>

definition not_read :: "bool \<Rightarrow> details \<Rightarrow> bool" where
  "not_read v5 d \<longleftrightarrow> \<not> v5 \<and> is_Unsubscribe d"

lemma restore_details_ok:
  assumes "heap_total H" "details_ok v5 d" "is_Unsubscribe d \<Longrightarrow> post \<noteq> []"
  shows "(if int (details_type d) = int SUBSCRIBE then restore_subscribe H v5 False (pre @ details_record v5 d @ post) (length pre)
     else if int (details_type d) = int UNSUBSCRIBE then restore_unsubscribe H False (pre @ details_record v5 d @ post) (length pre)
     else if int (details_type d) = int PUBLISH then restore_publish H False (pre @ details_record v5 d @ post) (length pre)
     else Inr None) = Inr (Some (kept_details v5 d, length pre + length (details_record v5 d)))"
proof (cases d)
  case (Subscribe topics qoss opts optlist)
  then show ?thesis using restore_subscribe_ok [OF assms(1)] assms(2) by (simp add: details_type_def msgTypes_defs)
next
  case (Unsubscribe topics)
  then show ?thesis using restore_unsubscribe_ok [OF assms(1)] assms(2,3)
    by (simp add: details_type_def msgTypes_defs details_ok_def)
next
  case (PublishCmd topic len payload qos retained)
  then show ?thesis using restore_publish_ok [OF assms(1)] assms(2) by (simp add: details_type_def msgTypes_defs)
qed (use assms(2) in \<open>simp_all add: details_ok_def\<close>)

lemma details_type_int: "is_int (int (details_type d))"
  by (simp add: details_type_def is_int_def msgTypes_defs split: details.splits)

lemma restoreCommand_ok:
  assumes "heap_total H" "command_ok v5 cmd" "\<not> not_read v5 (cm_details cmd)" "v5 \<longleftrightarrow> version \<ge> MQTTVERSION_5"
    "cm_properties (qc_command q) = MQTTProperties_initializer"
  shows "\<exists>props. MQTTAsync_restoreCommand H a (command_record v5 cmd) version (Some q) =
      Inr (Some (q\<lparr>qc_not_restored := False, qc_command := (qc_command q)\<lparr>cm_token := cm_token cmd,
        cm_details := kept_details v5 (cm_details cmd), cm_properties := props\<rparr>\<rparr>)) \<and>
    prop_list props = (if v5 then prop_list (cm_properties cmd) else [])"
proof -
  let ?d = "cm_details cmd" and ?ps = "props_record v5 (cm_properties cmd)"
  let ?pre = "int_bytes (int (details_type ?d)) @ int_bytes (cm_token cmd)"
  define buf where "buf = command_record v5 cmd"
  have ok: "is_int (cm_token cmd)" "details_ok v5 ?d" using assms(2) by (simp_all add: command_ok_def)
  have r1: "restore_int buf 0 = Inr (Some (int (details_type ?d), 4))"
    unfolding buf_def command_record_def
    using restore_int_at [OF details_type_int, of "[]" ?d "int_bytes (cm_token cmd) @ details_record v5 ?d @ ?ps"] by simp
  have r2: "restore_int buf 4 = Inr (Some (cm_token cmd, 8))"
    unfolding buf_def command_record_def
    using restore_int_at [OF ok(1), of "int_bytes (int (details_type ?d))" "details_record v5 ?d @ ?ps"] by simp
  have post: "is_Unsubscribe ?d \<Longrightarrow> ?ps \<noteq> []" using assms(3) by (auto simp: not_read_def props_record_def)
  have l8: "length ?pre = 8" by simp
  define p where "p = 8 + length (details_record v5 ?d)"
  have r3: "(if int (details_type ?d) = int SUBSCRIBE then restore_subscribe H v5 False buf 8
     else if int (details_type ?d) = int UNSUBSCRIBE then restore_unsubscribe H False buf 8
     else if int (details_type ?d) = int PUBLISH then restore_publish H False buf 8
     else Inr None) = Inr (Some (kept_details v5 ?d, p))"
    unfolding buf_def command_record_def p_def
    using restore_details_ok [OF assms(1) ok(2) post, of ?pre] unfolding l8 append_assoc .
  have l: "\<not> 8 > length buf" "buf \<noteq> []" by (simp_all add: buf_def command_record_def int_bytes_def)
  show ?thesis
  proof (cases v5)
    case True
    have "\<exists>props'. MQTTProperties_read H MQTTProperties_initializer buf p (length buf) = Inr (1, props', length buf) \<and>
        props_ok props' \<and> prop_list props' = prop_list (cm_properties cmd)"
      using MQTTProperties_read_ok [of H "cm_properties cmd" "?pre @ details_record v5 ?d" "[]"] True assms(1,2)
      by (simp add: buf_def command_record_def p_def props_record_def command_ok_def add.assoc)
    then obtain props where "MQTTProperties_read H MQTTProperties_initializer buf p (length buf) = Inr (1, props, length buf)"
      "prop_list props = prop_list (cm_properties cmd)" by blast
    moreover have "MQTTVERSION_5 \<le> version" "v5 = True" using True assms(4) by simp_all
    ultimately show ?thesis
      using l assms(5) unfolding buf_def [symmetric]
      by (intro exI [of _ props]) (simp add: MQTTAsync_restoreCommand_def r1 r2 r3 [unfolded \<open>v5 = True\<close>] del: of_nat_eq_iff)
  next
    case False
    then have "\<not> MQTTVERSION_5 \<le> version" "v5 = False" using assms(4) by simp_all
    then show ?thesis
      using l assms(5) unfolding buf_def [symmetric]
      by (intro exI [of _ MQTTProperties_initializer])
        (simp add: MQTTAsync_restoreCommand_def r1 r2 r3 [unfolded \<open>v5 = False\<close>] prop_list_init del: of_nat_eq_iff)
  qed
qed


subsection \<open>Writing a command\<close>

lemma owned_ok: "prop_ok p \<Longrightarrow> \<exists>f. owned p = Inr f"
  by (auto simp: prop_ok_def owned_def member_defs split: option.splits elim!: value_okE)

lemma properties_freed:
  assumes "props_ok props"
  shows "\<exists>fs. MQTTProperties_free (Some props) = Inr (fs, Some MQTTProperties_initializer)"
proof -
  have l: "\<forall>p\<in>set ps. prop_ok p \<Longrightarrow> \<exists>f. free_loop ps = Inr f" for ps
  proof (induction ps)
    case (Cons p ps)
    then show ?case using owned_ok [of p] by auto
  qed simp
  from l [of "prop_list props"] assms show ?thesis by (auto simp: MQTTProperties_free_def props_ok_def entries_inv)
qed

definition stem_of :: "bool \<Rightarrow> string" where
  "stem_of v5 = (if v5 then PERSISTENCE_V5_COMMAND_KEY else PERSISTENCE_COMMAND_KEY)"

definition ckey :: "bool \<Rightarrow> nat \<Rightarrow> key" where
  "ckey v5 n = stem_of v5 @ show_nat n"

lemma stem_of_stems: "stem_of v5 \<in> set stems" "length (stem_of v5) \<le> 3"
  by (simp_all add: stem_of_def stems_def stem_defs)

lemma command_key_fits:
  assumes "n < PERSISTENCE_SEQNO_LIMIT" "v5 \<longleftrightarrow> version \<ge> MQTTVERSION_5"
  shows "command_key version n = (ckey v5 n, length (ckey v5 n))" "length (ckey v5 n) < keysize" "good_key (ckey v5 n)"
    "key_version (ckey v5 n) \<ge> MQTTVERSION_5 \<longleftrightarrow> v5"
proof -
  note k = queue_key_fits [OF assms(1) stem_of_stems, of v5]
  show "length (ckey v5 n) < keysize" "good_key (ckey v5 n)" using k(2,3) by (simp_all add: ckey_def)
  show "command_key version n = (ckey v5 n, length (ckey v5 n))"
    using k(1) assms(2) by (cases v5) (simp_all add: command_key_def stem_of_def ckey_def)
  show "key_version (ckey v5 n) \<ge> MQTTVERSION_5 \<longleftrightarrow> v5"
    by (simp add: key_version_def ckey_def stem_of_def has_stem_def stem_defs version_defs)
qed

lemma next_command_seqno_less:
  "n < PERSISTENCE_SEQNO_LIMIT \<Longrightarrow> next_command_seqno n < PERSISTENCE_SEQNO_LIMIT"
  by (simp add: next_command_seqno_def PERSISTENCE_SEQNO_LIMIT_def Let_def)

text \<open>A client whose commands are in the files of a directory, in the format of version 5 or of the earlier ones.\<close>

definition stores_in :: "key \<Rightarrow> bool \<Rightarrow> filesys Clients \<Rightarrow> bool" where
  "stores_in dir v5 c \<longleftrightarrow> (\<exists>ctx. c_persistence c = Some (default_persistence (\<lambda>_. True) ctx)) \<and>
     c_phandle c = Some dir \<and> c_beforeWrite c = None \<and> c_afterRead c = None \<and> (v5 \<longleftrightarrow> c_MQTTVersion c \<ge> MQTTVERSION_5)"

lemma persistCommand_ok:
  assumes "heap_total H" "stores_in dir v5 c" "command_ok v5 (qc_command q)" "seqno < PERSISTENCE_SEQNO_LIMIT"
    "store_ok dir fs" "length (command_record v5 (qc_command q)) \<le> fs_quota fs"
  defines "n \<equiv> next_command_seqno seqno"
  shows "\<exists>fs'. MQTTAsync_persistCommand H c seqno q fs = Inr (0, n, q\<lparr>qc_seqno := n\<rparr>, fs') \<and> store_ok dir fs' \<and>
    (\<forall>k. stored dir fs' k = (if k = ckey v5 n then Some (command_record v5 (qc_command q)) else stored dir fs k))"
proof -
  have n: "n < PERSISTENCE_SEQNO_LIMIT" unfolding n_def by (rule next_command_seqno_less [OF assms(4)])
  have v: "v5 \<longleftrightarrow> c_MQTTVersion c \<ge> MQTTVERSION_5" using assms(2) by (simp add: stores_in_def)
  note k = command_key_fits [OF n v]
  have cok: "details_ok v5 (cm_details (qc_command q))" "props_ok (cm_properties (qc_command q))"
    "p_length (cm_properties (qc_command q)) < 268435456" using assms(3) by (simp_all add: command_ok_def)
  obtain bufs where b: "command_buffers v5 (qc_command q) = Inr (Some bufs)" "concat bufs =
    int_bytes (int (details_type (qc_details q))) @ int_bytes (qc_token q) @ details_record v5 (qc_details q)"
    using command_buffers_ok [OF cok(1)] by blast
  define bs where "bs = (if v5 then bufs @ [props_record True (cm_properties (qc_command q))] else bufs)"
  have c: "concat bs = command_record v5 (qc_command q)"
    using b(2) by (auto simp: bs_def command_record_def props_record_def)
  from pst.put_law [OF assms(5) k(3), of bs] assms(6) c obtain fs' where
    p: "pstput (\<lambda>_. True) (Some dir) (ckey v5 n) bs fs = (0, fs')" "store_ok dir fs'"
    "\<forall>k. stored dir fs' k = (if k = ckey v5 n then Some (command_record v5 (qc_command q)) else stored dir fs k)"
    by auto
  have "MQTTAsync_persistCommand H c seqno q fs = Inr (0, n, q\<lparr>qc_seqno := n\<rparr>, fs')"
    using assms(1,2) b(1) k(1,2) p(1) v props_buffer_ok [OF cok(2,3) assms(1)]
    by (cases v5) (auto simp: MQTTAsync_persistCommand_def Let_def stores_in_def default_persistence_def bs_def n_def [symmetric])
  with p show ?thesis by blast
qed

subsection \<open>A publish in the queue\<close>

lemma restored_from_store:
  assumes "heap_total (e_heap (a_env A))" "stores_in dir v5 (g_clients s ! qc_client q)" "store_ok dir (g_fs s)"
    "command_ok v5 cmd" "\<not> not_read v5 (cm_details cmd)" "n < PERSISTENCE_SEQNO_LIMIT"
    "stored dir (g_fs s) (ckey v5 n) = Some (command_record v5 cmd)"
    "qc_not_restored q" "qc_key q = Some (ckey v5 n)" "cm_properties (qc_command q) = MQTTProperties_initializer"
  shows "\<exists>props. complete_command A q s = Inr (0, q\<lparr>qc_key := None, qc_not_restored := False,
      qc_command := (qc_command q)\<lparr>cm_token := cm_token cmd, cm_details := kept_details v5 (cm_details cmd),
        cm_properties := props\<rparr>\<rparr>, s) \<and>
    prop_list props = (if v5 then prop_list (cm_properties cmd) else [])"
proof -
  have v: "v5 \<longleftrightarrow> c_MQTTVersion (g_clients s ! qc_client q) \<ge> MQTTVERSION_5" using assms(2) by (simp add: stores_in_def)
  note k = command_key_fits [OF assms(6) v]
  have g: "pstget (\<lambda>_. True) (Some dir) (ckey v5 n) (g_fs s) = (0, command_record v5 cmd, g_fs s)"
    using pst.get_law [OF assms(3) k(3)] assms(7) by simp
  have r: "read_command_record (g_clients s ! qc_client q) per (ckey v5 n) (g_fs s) = (0, command_record v5 cmd, g_fs s)"
    if "c_persistence (g_clients s ! qc_client q) = Some per" for per
    using that assms(2) g by (auto simp: read_command_record_def stores_in_def default_persistence_def)
  obtain per where per: "c_persistence (g_clients s ! qc_client q) = Some per" using assms(2) by (auto simp: stores_in_def)
  let ?q = "q\<lparr>qc_key := None\<rparr>"
  from restoreCommand_ok [OF assms(1,4,5) k(4) [symmetric], of ?q "g_fresh s"] assms(10) obtain props where
    p: "MQTTAsync_restoreCommand (e_heap (a_env A)) (g_fresh s) (command_record v5 cmd) (key_version (ckey v5 n)) (Some ?q) =
      Inr (Some (?q\<lparr>qc_not_restored := False, qc_command := (qc_command ?q)\<lparr>cm_token := cm_token cmd,
        cm_details := kept_details v5 (cm_details cmd), cm_properties := props\<rparr>\<rparr>))"
      "prop_list props = (if v5 then prop_list (cm_properties cmd) else [])" by auto
  then show ?thesis
    using assms(8,9) by (intro exI [of _ props]) (simp add: complete_command_def per r [OF per] Let_def)
qed


text \<open>What stays in memory of a publish whose record is in the store.\<close>

definition only_stored :: "key \<Rightarrow> nat \<Rightarrow> MQTTAsync_queuedCommand \<Rightarrow> MQTTAsync_queuedCommand \<Rightarrow> bool" where
  "only_stored k n q q1 \<longleftrightarrow> qc_client q1 = qc_client q \<and> qc_seqno q1 = n \<and> qc_not_restored q1 \<and> qc_key q1 = Some k \<and>
     qc_token q1 = qc_token q \<and> cm_properties (qc_command q1) = MQTTProperties_initializer \<and>
     qc_details q1 = PublishCmd None (pub_payloadlen (qc_details q)) None (pub_qos (qc_details q)) (pub_retained (qc_details q))"

lemma add_persisted_publish:
  assumes "heap_total (e_heap (a_env A))" "list_lib_ok (l_commands A)" "qc_client q < length (as_handles s)"
    "stores_in dir v5 (g_clients s ! qc_client q)" "store_ok dir (g_fs s)"
    "is_publish (qc_details q)" "command_ok v5 (qc_command q)" "\<not> skip_persist (as_handles s ! qc_client q) (qc_details q)"
    "\<not> buffer_full (as_handles s ! qc_client q)" "h_command_seqno (as_handles s ! qc_client q) < PERSISTENCE_SEQNO_LIMIT"
    "length (command_record v5 (qc_command q)) \<le> fs_quota (g_fs s)"
  defines "n \<equiv> next_command_seqno (h_command_seqno (as_handles s ! qc_client q))"
  shows "\<exists>s1 q1. add_to_end A q s = Inr (MQTTASYNC_SUCCESS, s1) \<and> as_commands s1 = as_commands s @ [q1] \<and>
    only_stored (ckey v5 n) n q q1 \<and> store_ok dir (g_fs s1) \<and>
    stored dir (g_fs s1) (ckey v5 n) = Some (command_record v5 (qc_command q))"
proof -
  let ?h = "qc_client q"
  obtain topic len payload qos retained where d: "qc_details q = PublishCmd topic len payload qos retained"
    using assms(6) by (cases "qc_details q") auto
  have n: "n < PERSISTENCE_SEQNO_LIMIT" unfolding n_def by (rule next_command_seqno_less [OF assms(10)])
  have v: "v5 \<longleftrightarrow> c_MQTTVersion (g_clients s ! ?h) \<ge> MQTTVERSION_5"
    using assms(4) by (auto simp: stores_in_def)
  obtain per where pn: "c_persistence (g_clients s ! ?h) = Some per" using assms(4) by (auto simp: stores_in_def)
  note k = command_key_fits [OF n v]
  obtain fs where free: "MQTTProperties_free (Some (cm_properties (qc_command q))) = Inr (fs, Some MQTTProperties_initializer)"
    using properties_freed assms(7) by (auto simp: command_ok_def)
  from persistCommand_ok [OF assms(1,4,7,10,5,11)] obtain fs' where
    p: "MQTTAsync_persistCommand (e_heap (a_env A)) (g_clients s ! ?h) (h_command_seqno (as_handles s ! ?h)) q (g_fs s) =
      Inr (0, n, q\<lparr>qc_seqno := n\<rparr>, fs')" "store_ok dir fs'"
    "stored dir fs' (ckey v5 n) = Some (command_record v5 (qc_command q))" by (auto simp: n_def)
  let ?q1 = "q\<lparr>qc_seqno := n, qc_not_restored := True, qc_key := Some (ckey v5 n),
    qc_command := (qc_command q)\<lparr>cm_properties := MQTTProperties_initializer,
      cm_details := PublishCmd None len None qos retained\<rparr>\<rparr>"
  let ?s = "upd_async ?h (\<lambda>m. m\<lparr>h_command_seqno := n\<rparr>) (s\<lparr>g_fs := fs'\<rparr>)"
  have a: "persist_added A q s = Inr (True, ?q1, ?s)"
    using p(1) pn assms(1,8) k(1,2) free
    by (simp add: persist_added_def Let_def d release_publish_def)
  have f: "\<not> buffer_full ((as_handles s ! ?h)\<lparr>h_command_seqno := n\<rparr>)" using assms(9) by (simp add: buffer_full_def split: option.splits)
  show ?thesis
    using p(2,3) assms(3) f list_libD(1) [OF assms(2)]
    by (intro exI [of _ "upd_async ?h (\<lambda>m. m\<lparr>h_noBufferedMessages := h_noBufferedMessages m + 1\<rparr>)
          (?s\<lparr>as_commands := as_commands s @ [?q1]\<rparr>)"] exI [of _ ?q1])
      (simp add: add_to_end_def a d Let_def count_buffered_def upd_async_def only_stored_def)
qed

lemma take_persisted_publish:
  assumes "heap_total (e_heap (a_env A))" "stores_in dir v5 (g_clients s ! qc_client q)" "store_ok dir (g_fs s)"
    "command_ok v5 (qc_command q)" "is_publish (qc_details q)" "n < PERSISTENCE_SEQNO_LIMIT"
    "only_stored (ckey v5 n) n q q1"
    "stored dir (g_fs s) (ckey v5 n) = Some (command_record v5 (qc_command q))"
  shows "\<exists>q2 s3. take_command A q1 s = Inr (0, q2, s3) \<and> qc_details q2 = kept_details v5 (qc_details q) \<and>
    qc_token q2 = qc_token q \<and> prop_list (cm_properties (qc_command q2)) =
      (if v5 then prop_list (cm_properties (qc_command q)) else []) \<and>
    stored dir (g_fs s3) = (stored dir (g_fs s))(ckey v5 n := None)"
proof -
  let ?h = "qc_client q"
  let ?s = "(upd_async ?h (\<lambda>m. m\<lparr>h_noBufferedMessages := h_noBufferedMessages m - 1\<rparr>) s)
    \<lparr>as_commands := detach (l_commands A) (as_commands s) (qc_addr q1)\<rparr>"
  have q1: "qc_client q1 = ?h" "qc_seqno q1 = n" "qc_not_restored q1" "qc_key q1 = Some (ckey v5 n)"
    "cm_properties (qc_command q1) = MQTTProperties_initializer" "is_publish (qc_details q1)"
    using assms(7) by (simp_all add: only_stored_def)
  have s: "g_clients ?s = g_clients s" "g_fs ?s = g_fs s" by (simp_all add: upd_async_def)
  have v: "v5 \<longleftrightarrow> c_MQTTVersion (g_clients s ! ?h) \<ge> MQTTVERSION_5" using assms(2) by (simp add: stores_in_def)
  note k = command_key_fits [OF assms(6) v]
  have nr: "\<not> not_read v5 (qc_details q)" using assms(5) by (auto simp: not_read_def)
  from restored_from_store [OF assms(1) _ _ assms(4) nr assms(6) _ q1(3-5), where s = ?s] assms(2,3,8) obtain props where
    c: "complete_command A q1 ?s = Inr (0, q1\<lparr>qc_key := None, qc_not_restored := False,
      qc_command := (qc_command q1)\<lparr>cm_token := qc_token q, cm_details := kept_details v5 (qc_details q),
        cm_properties := props\<rparr>\<rparr>, ?s)"
    "prop_list props = (if v5 then prop_list (cm_properties (qc_command q)) else [])"
    unfolding s q1(1) by blast
  from pst.remove_law [OF assms(3) k(3)] obtain fs' where
    r: "pstremove (\<lambda>_. True) (Some dir) (ckey v5 n) (g_fs s) = (0, fs')"
    "\<forall>k'. stored dir fs' k' = (if k' = ckey v5 n then None else stored dir (g_fs s) k')" by blast
  let ?q2 = "q1\<lparr>qc_key := None, qc_not_restored := False,
      qc_command := (qc_command q1)\<lparr>cm_token := qc_token q, cm_details := kept_details v5 (qc_details q),
        cm_properties := props\<rparr>\<rparr>"
  have u: "MQTTAsync_unpersistCommand (g_clients s ! ?h) ?q2 (g_fs s) = Inr (0, fs')"
    using assms(2) k(1,2) r(1) q1(2) by (auto simp: MQTTAsync_unpersistCommand_def stores_in_def default_persistence_def)
  obtain per where pn: "c_persistence (g_clients s ! ?h) = Some per" using assms(2) by (auto simp: stores_in_def)
  have "take_command A q1 s = Inr (0, ?q2, ?s\<lparr>g_fs := fs'\<rparr>)"
    using c(1) u pn q1(1,6) s by (simp add: take_command_def Let_def)
  then show ?thesis using c(2) r(2) by (intro exI [of _ ?q2] exI [of _ "?s\<lparr>g_fs := fs'\<rparr>"]) auto
qed

text \<open>
  C13: A publish that is added to the queue of a client with the file store leaves its topic and payload
  only in the store; whenever it is taken from the queue with its record still there, it has its
  topic, payload, QoS, flags, token and properties again, and the record is gone.
\<close>

theorem queued_publish_restored:
  assumes "heap_total (e_heap (a_env A))" "list_lib_ok (l_commands A)" "qc_client q < length (as_handles s)"
    "stores_in dir v5 (g_clients s ! qc_client q)" "store_ok dir (g_fs s)"
    "is_publish (qc_details q)" "command_ok v5 (qc_command q)" "\<not> skip_persist (as_handles s ! qc_client q) (qc_details q)"
    "\<not> buffer_full (as_handles s ! qc_client q)" "h_command_seqno (as_handles s ! qc_client q) < PERSISTENCE_SEQNO_LIMIT"
    "length (command_record v5 (qc_command q)) \<le> fs_quota (g_fs s)"
  shows "\<exists>s1 q1 k. MQTTAsync_addCommand A q s = Inr (MQTTASYNC_SUCCESS, s1) \<and> as_commands s1 = as_commands s @ [q1] \<and>
    pub_destinationName (qc_details q1) = None \<and> pub_payload (qc_details q1) = None \<and> store_ok dir (g_fs s1) \<and>
    (\<forall>s2. stores_in dir v5 (g_clients s2 ! qc_client q) \<longrightarrow> store_ok dir (g_fs s2) \<longrightarrow>
        stored dir (g_fs s2) k = stored dir (g_fs s1) k \<longrightarrow>
      (\<exists>q2 s3. take_command A q1 s2 = Inr (0, q2, s3) \<and> qc_details q2 = kept_details v5 (qc_details q) \<and>
        qc_token q2 = qc_token q \<and> prop_list (cm_properties (qc_command q2)) =
          (if v5 then prop_list (cm_properties (qc_command q)) else []) \<and>
        stored dir (g_fs s3) = (stored dir (g_fs s2))(k := None)))"
proof -
  define n where "n = next_command_seqno (h_command_seqno (as_handles s ! qc_client q))"
  obtain t s0 where t: "start_clock A s = (t, s0)" by (cases "start_clock A s") auto
  have s0: "g_clients s0 = g_clients s" "g_fs s0 = g_fs s" "as_handles s0 = as_handles s" "as_commands s0 = as_commands s"
    using t by (auto simp: start_clock_def split: prod.splits)
  let ?q = "q\<lparr>qc_command := (qc_command q)\<lparr>cm_start_time := t\<rparr>\<rparr>"
  have r: "command_record v5 (qc_command ?q) = command_record v5 (qc_command q)" "command_ok v5 (qc_command ?q)"
    using assms(7) by (simp_all add: command_record_def command_ok_def)
  have a: "MQTTAsync_addCommand A q s = add_to_end A ?q s0"
    using assms(6) by (auto simp: MQTTAsync_addCommand_def t Let_def is_PublishCmd_def)
  from add_persisted_publish [OF assms(1,2), of ?q s0 dir v5] assms(3-11) r s0 obtain s1 q1 where
    s1: "add_to_end A ?q s0 = Inr (MQTTASYNC_SUCCESS, s1)" "as_commands s1 = as_commands s @ [q1]"
    "only_stored (ckey v5 n) n ?q q1" "store_ok dir (g_fs s1)" "stored dir (g_fs s1) (ckey v5 n) = Some (command_record v5 (qc_command q))"
    by (auto simp: n_def)
  have n: "n < PERSISTENCE_SEQNO_LIMIT" unfolding n_def by (rule next_command_seqno_less [OF assms(10)])
  from s1(3) have o: "only_stored (ckey v5 n) n q q1" by (simp add: only_stored_def)
  have "\<forall>s2. stores_in dir v5 (g_clients s2 ! qc_client q) \<longrightarrow> store_ok dir (g_fs s2) \<longrightarrow>
        stored dir (g_fs s2) (ckey v5 n) = stored dir (g_fs s1) (ckey v5 n) \<longrightarrow>
      (\<exists>q2 s3. take_command A q1 s2 = Inr (0, q2, s3) \<and> qc_details q2 = kept_details v5 (qc_details q) \<and>
        qc_token q2 = qc_token q \<and> prop_list (cm_properties (qc_command q2)) =
          (if v5 then prop_list (cm_properties (qc_command q)) else []) \<and>
        stored dir (g_fs s3) = (stored dir (g_fs s2))(ckey v5 n := None))"
    using take_persisted_publish [OF assms(1) _ _ assms(7,6) n o] s1(5) by simp
  moreover have "pub_destinationName (qc_details q1) = None" "pub_payload (qc_details q1) = None"
    using o by (simp_all add: only_stored_def)
  ultimately show ?thesis using a s1(1,2,4) by (intro exI [of _ s1] exI [of _ q1] exI [of _ "ckey v5 n"]) simp
qed


definition std_async :: "(unit, 'f) async_api" where
  "std_async = \<lparr>a_env = std_env, a_connect = \<lparr>Base64_encodeLength = length, Base64_encode = \<lambda>_ b. b,
       Socket_new = \<lambda>_ _ _ _ n. (0, 5, n), Proxy_connect = \<lambda>_ _ n. (0, n), WebSocket_connect = \<lambda>_ _ n. (0, n)\<rparr>,
     a_getenv_http_proxy = None,
     Socket_getReadySocket = \<lambda>_ n. (0, n), WebSocket_upgrade = \<lambda>_ n. (0, n), getsockopt_error = \<lambda>_ n. (0, 0, n),
     SocketBuffer_getWrite = \<lambda>_ _. False, sleep = \<lambda>_ n. n, UTF8_validateString = \<lambda>_. True, sem_timeout = 110,
     message_arrived = \<lambda>_. 1, 
     new_publish = \<lparr>pb_header = 0, pb_topic = None, pb_topiclen = 0, pb_msgId = 0, pb_payload = [], pb_payloadlen = 0,
       pb_MQTTVersion = 0, pb_properties = MQTTProperties_initializer, pb_mask = []\<rparr>,
     a_getReadySocket = \<lambda>_ n. (0, 0, n), a_addPendingWrite = \<lambda>_ n. n, a_clearPendingWrite = \<lambda>_ n. n,
     a_rand_below = \<lambda>_ n. (0, n), a_messageArrived = \<lambda>_. 1, a_updateConnectOptions = \<lambda>_ u p. (False, u, None),
     a_qsort = \<lambda>_ ks. ks, l_commands = std_lists\<rparr>"

definition one_async :: "'f Clients \<Rightarrow> 'f \<Rightarrow> (unit, 'f) asys" where
  "one_async c fs = \<lparr>g_net = (), g_fs = fs, g_clients = [c], g_publications = [], g_fresh = 0,
     g_pending_writes = [], g_msgs_received = 0, g_msgs_sent = 0, as_handles = [zero_async], as_commands = [],
     as_initialized = True, as_tostop = False, as_sendThread = RUNNING, as_receiveThread = RUNNING,
     as_lastTimeouts = START_TIME_ZERO, as_lastRetry = START_TIME_ZERO, as_retryLoopIntervalms = 5000,
     as_receiveTimeout = 10, as_received = None, as_calls = [], as_sched = []\<rparr>"

definition sample_publish_command :: MQTTAsync_queuedCommand where
  "sample_publish_command = new_queued 7 0 (zero_command\<lparr>cm_token := 3,
     cm_details := PublishCmd (Some [97, 0]) 2 (Some [104, 105]) 1 0\<rparr>)"

lemma sample_publish_command_ok: "command_ok False (qc_command sample_publish_command)"
  by (simp add: sample_publish_command_def new_queued_def zero_command_def command_ok_def details_ok_def is_int_def
      null_bytes_def props_ok_init) (simp add: MQTTProperties_initializer_def)

lemma stored_client_stores: "stores_in ''./c-h'' False stored_client"
  by (auto simp: stores_in_def stored_client_def blank_client_def version_defs)

theorem queued_publish_restored_witness:
  "\<exists>s1 q1 q2 s3. MQTTAsync_addCommand std_async sample_publish_command (one_async stored_client sample_fs) =
      Inr (MQTTASYNC_SUCCESS, s1) \<and> as_commands s1 = [q1] \<and> pub_payload (qc_details q1) = None \<and>
    take_command std_async q1 ((one_async stored_client sample_fs)\<lparr>g_fs := g_fs s1\<rparr>) = Inr (0, q2, s3) \<and>
    qc_details q2 = PublishCmd (Some [97]) 2 (Some [104, 105]) 1 0"
proof -
  let ?s = "one_async stored_client sample_fs" and ?q = sample_publish_command
  have e: "heap_total (e_heap (a_env (std_async :: (unit, filesys) async_api)))"
    "list_lib_ok (l_commands (std_async :: (unit, filesys) async_api))"
    by (simp_all add: std_async_def std_env_def heap_total_def)
  have h: "qc_client ?q < length (as_handles ?s)" "stores_in ''./c-h'' False (g_clients ?s ! qc_client ?q)"
    "store_ok ''./c-h'' (g_fs ?s)"
    using stored_client_stores sample_fs_ok by (simp_all add: sample_publish_command_def new_queued_def one_async_def)
  have d: "is_publish (qc_details ?q)" "\<not> skip_persist (as_handles ?s ! qc_client ?q) (qc_details ?q)"
    "\<not> buffer_full (as_handles ?s ! qc_client ?q)" "h_command_seqno (as_handles ?s ! qc_client ?q) < PERSISTENCE_SEQNO_LIMIT"
    by (simp_all add: sample_publish_command_def new_queued_def one_async_def zero_async_def skip_persist_def buffer_full_def
        PERSISTENCE_SEQNO_LIMIT_def)
  have l: "length (command_record False (qc_command ?q)) \<le> fs_quota (g_fs ?s)"
    by (simp add: sample_publish_command_def new_queued_def zero_command_def command_record_def details_record_def
        props_record_def one_async_def sample_fs_def null_bytes_def c_str_def)
  have k: "kept_details False (qc_details ?q) = PublishCmd (Some [97]) 2 (Some [104, 105]) 1 0"
    by (simp add: sample_publish_command_def new_queued_def zero_command_def kept_details_def null_bytes_def c_str_def)
  from queued_publish_restored [OF e h d(1) sample_publish_command_ok d(2-4) l] obtain s1 q1 k where
    s1: "MQTTAsync_addCommand std_async ?q ?s = Inr (MQTTASYNC_SUCCESS, s1)" "as_commands s1 = as_commands ?s @ [q1]"
      "pub_payload (qc_details q1) = None" "store_ok ''./c-h'' (g_fs s1)" and
    t: "\<forall>s2. stores_in ''./c-h'' False (g_clients s2 ! qc_client ?q) \<longrightarrow> store_ok ''./c-h'' (g_fs s2) \<longrightarrow>
        stored ''./c-h'' (g_fs s2) k = stored ''./c-h'' (g_fs s1) k \<longrightarrow>
      (\<exists>q2 s3. take_command std_async q1 s2 = Inr (0, q2, s3) \<and> qc_details q2 = kept_details False (qc_details ?q) \<and>
        qc_token q2 = qc_token ?q \<and> prop_list (cm_properties (qc_command q2)) =
          (if False then prop_list (cm_properties (qc_command ?q)) else []) \<and>
        stored ''./c-h'' (g_fs s3) = (stored ''./c-h'' (g_fs s2))(k := None))" by blast
  from spec [OF t, of "?s\<lparr>g_fs := g_fs s1\<rparr>"] h(2) s1(4) obtain q2 s3 where
    "take_command std_async q1 (?s\<lparr>g_fs := g_fs s1\<rparr>) = Inr (0, q2, s3)"
    "qc_details q2 = PublishCmd (Some [97]) 2 (Some [104, 105]) 1 0" unfolding k by auto
  moreover have "as_commands s1 = [q1]" using s1(2) by (simp add: one_async_def)
  ultimately show ?thesis using s1(1,3) by blast
qed

text \<open>
  C39: Before version 5 the record of an UNSUBSCRIBE is taken for broken, since it ends with its last
  topic: when such a command is completed from the store, the NULL pointer that
  \<^verbatim>\<open>MQTTAsync_restoreCommand\<close> returns is dereferenced.
\<close>

theorem unsubscribe_lost:
  assumes "heap_total (e_heap (a_env A))" "stores_in dir False (g_clients s ! qc_client q)" "store_ok dir (g_fs s)"
    "command_ok False cmd" "cm_details cmd = Unsubscribe topics" "topics \<noteq> []" "n < PERSISTENCE_SEQNO_LIMIT"
    "stored dir (g_fs s) (ckey False n) = Some (command_record False cmd)"
    "qc_not_restored q" "qc_key q = Some (ckey False n)"
  shows "take_command A q s = Inl NullDeref"
proof -
  have v: "False \<longleftrightarrow> c_MQTTVersion (g_clients s ! qc_client q) \<ge> MQTTVERSION_5" using assms(2) by (simp add: stores_in_def)
  note k = command_key_fits [OF assms(7) v]
  have nv: "\<not> key_version (ckey False n) \<ge> MQTTVERSION_5" using k(4) by simp
  let ?buf = "command_record False cmd"
  let ?pre = "int_bytes (int UNSUBSCRIBE) @ int_bytes (cm_token cmd)"
  have ok: "is_int (cm_token cmd)" "length topics < 2147483648" using assms(4,5) by (simp_all add: command_ok_def details_ok_def)
  have b: "?buf = ?pre @ int_bytes (int (length topics)) @ concat (map (\<lambda>t. c_str t @ [0]) topics)"
    by (simp add: command_record_def assms(5) details_record_def details_type_def props_record_def)
  have r1: "restore_int ?buf 0 = Inr (Some (int UNSUBSCRIBE, 4))"
    using restore_int_at [of "int UNSUBSCRIBE" "[]"] unfolding b by (simp add: is_int_def msgTypes_defs)
  have r2: "restore_int ?buf 4 = Inr (Some (cm_token cmd, 8))"
    using restore_int_at [OF ok(1), of "int_bytes (int UNSUBSCRIBE)"] unfolding b by simp
  have r3: "restore_int ?buf 8 = Inr (Some (int (length topics), 12))"
    using restore_int_at [OF int_range_length [OF ok(2)], of ?pre] unfolding b by simp
  have r4: "restore_unsubs H ?buf (length topics) 12 = Inr None" if "heap_total H" for H
    using restore_unsubs_end [OF that assms(6), of "?pre @ int_bytes (int (length topics))"] unfolding b by simp
  have l: "\<not> 8 > length ?buf" "?buf \<noteq> []" by (simp_all add: b) (simp add: int_bytes_def)
  have u: "restore_unsubscribe H False ?buf 8 = Inr None" if "heap_total H" for H
    by (simp add: restore_unsubscribe_def r3 r4 [OF that])
  have t: "UNSUBSCRIBE \<noteq> SUBSCRIBE" by (simp add: msgTypes_defs)
  have n: "MQTTAsync_restoreCommand H a ?buf (key_version (ckey False n)) (Some q') = Inr None" if "heap_total H" for H a q'
    using l t by (simp add: MQTTAsync_restoreCommand_def r1 r2 u [OF that])
  have g: "pstget (\<lambda>_. True) (Some dir) (ckey False n) (g_fs s) = (0, ?buf, g_fs s)"
    using pst.get_law [OF assms(3) k(3)] assms(8) by simp
  obtain ctx where c: "c_persistence (g_clients s ! qc_client q) = Some (default_persistence (\<lambda>_. True) ctx)"
    "c_phandle (g_clients s ! qc_client q) = Some dir" "c_afterRead (g_clients s ! qc_client q) = None"
    using assms(2) by (auto simp: stores_in_def)
  have r: "read_command_record (g_clients s ! qc_client q) (default_persistence (\<lambda>_. True) ctx) (ckey False n) (g_fs s) =
      (0, ?buf, g_fs s)" using c g by (simp add: read_command_record_def default_persistence_def)
  show ?thesis
    using c(1) assms(9,10) by (simp add: take_command_def complete_command_def r n [OF assms(1)] Let_def)
qed


definition sample_unsubscribe :: MQTTAsync_queuedCommand where
  "sample_unsubscribe = new_queued 7 0 (zero_command\<lparr>cm_token := 3, cm_details := Unsubscribe [[97]]\<rparr>)"

theorem unsubscribe_lost_witness:
  "\<exists>fs'. MQTTAsync_persistCommand (\<lambda>_. True) stored_client 0 sample_unsubscribe sample_fs =
      Inr (0, 1, sample_unsubscribe\<lparr>qc_seqno := 1\<rparr>, fs') \<and>
    take_command std_async (sample_unsubscribe\<lparr>qc_seqno := 1, qc_not_restored := True, qc_key := Some ''c-1''\<rparr>)
      (one_async stored_client fs') = Inl NullDeref"
proof -
  let ?c = "qc_command sample_unsubscribe"
  have o: "command_ok False ?c"
    by (simp add: sample_unsubscribe_def new_queued_def zero_command_def command_ok_def details_ok_def is_int_def
        props_ok_init) (simp add: MQTTProperties_initializer_def)
  have q: "length (command_record False ?c) \<le> fs_quota sample_fs"
    by (simp add: sample_unsubscribe_def new_queued_def zero_command_def command_record_def details_record_def
        props_record_def sample_fs_def)
  have n: "next_command_seqno 0 = 1" by (simp add: next_command_seqno_def PERSISTENCE_SEQNO_LIMIT_def)
  have z: "0 < PERSISTENCE_SEQNO_LIMIT" "1 < PERSISTENCE_SEQNO_LIMIT" by (simp_all add: PERSISTENCE_SEQNO_LIMIT_def)
  have k: "ckey False 1 = ''c-1''" by code_simp
  from persistCommand_ok [OF heap_total_top stored_client_stores o z(1) sample_fs_ok q] obtain fs' where
    p: "MQTTAsync_persistCommand (\<lambda>_. True) stored_client 0 sample_unsubscribe sample_fs =
      Inr (0, 1, sample_unsubscribe\<lparr>qc_seqno := 1\<rparr>, fs')" "store_ok ''./c-h'' fs'"
      "stored ''./c-h'' fs' (ckey False 1) = Some (command_record False ?c)" unfolding n by auto
  let ?s = "one_async stored_client fs'"
  let ?q = "sample_unsubscribe\<lparr>qc_seqno := 1, qc_not_restored := True, qc_key := Some ''c-1''\<rparr>"
  have e: "heap_total (e_heap (a_env (std_async :: (unit, filesys) async_api)))"
    by (simp add: std_async_def std_env_def heap_total_def)
  have h: "stores_in ''./c-h'' False (g_clients ?s ! qc_client ?q)" "store_ok ''./c-h'' (g_fs ?s)"
    "stored ''./c-h'' (g_fs ?s) (ckey False 1) = Some (command_record False ?c)"
    using stored_client_stores p by (simp_all add: sample_unsubscribe_def new_queued_def one_async_def)
  have "take_command std_async ?q ?s = Inl NullDeref"
    by (rule unsubscribe_lost [OF e h(1,2) o _ _ z(2) h(3), where topics = "[[97]]"])
      (simp_all add: k [simplified] sample_unsubscribe_def new_queued_def)
  with p(1) show ?thesis by blast
qed

end
