(* ===== verification/AsyncQueue.thy ===== *)
theory AsyncQueue
  imports AsyncStore
begin

section \<open>The queue of commands\<close>

text \<open>
  Which command the send thread takes, the order of the commands of a client, what holds of the queue
  after any steps, and the message ids of commands.
\<close>

subsection \<open>The command that is taken\<close>

text \<open>The first command of each client, in the order of the queue.\<close>

fun client_heads :: "MQTTAsync_queuedCommand list \<Rightarrow> MQTTAsync_queuedCommand list" where
  "client_heads [] = []"
| "client_heads (q # qs) = q # client_heads (filter (\<lambda>q'. qc_client q' \<noteq> qc_client q) qs)"

lemma choose_command_filter:
  "choose_command A s ig qs = List.find (ready A s) (client_heads (filter (\<lambda>q. qc_client q \<notin> set ig) qs))"
proof (induction A s ig qs rule: choose_command.induct)
  case (2 A s ig cmd cmds)
  have e: "filter (\<lambda>q. qc_client q \<noteq> qc_client cmd) (filter (\<lambda>q. qc_client q \<notin> set ig) cmds) =
      filter (\<lambda>q. qc_client q \<notin> set (ig @ [qc_client cmd])) cmds"
    by (simp add: conj_commute)
  show ?case using 2 by (simp add: e del: filter_filter set_append)
qed simp

lemma client_heads_head:
  assumes "q \<in> set (client_heads qs)"
  shows "\<exists>rest. filter (\<lambda>q'. qc_client q' = qc_client q) qs = q # rest"
  using assms
proof (induction qs rule: client_heads.induct)
  case (2 p qs)
  show ?case
  proof (cases "q = p")
    case False
    with 2 obtain rest where r: "filter (\<lambda>q'. qc_client q' = qc_client q)
        (filter (\<lambda>q'. qc_client q' \<noteq> qc_client p) qs) = q # rest" by auto
    then have "q \<in> set (filter (\<lambda>q'. qc_client q' \<noteq> qc_client p) qs)"
      using filter_is_subset [of "\<lambda>q'. qc_client q' = qc_client q" "filter (\<lambda>q'. qc_client q' \<noteq> qc_client p) qs"]
      unfolding r by simp
    then have n: "qc_client q \<noteq> qc_client p" by simp
    have "filter (\<lambda>q'. qc_client q' = qc_client q) qs = filter (\<lambda>q'. qc_client q' = qc_client q) (filter (\<lambda>q'. qc_client q' \<noteq> qc_client p) qs)"
      using n by (auto intro: filter_cong)
    with r n show ?thesis by (simp del: filter_filter)
  qed simp
qed simp

text \<open>
  C30: The send thread takes the first command in the queue order among the first commands of each client
  that is ready: a command that is held back holds back the later ones of its client, and only those.
\<close>

theorem choose_first_ready:
  "choose_command A s [] (as_commands s) = List.find (ready A s) (client_heads (as_commands s))"
  by (simp add: choose_command_filter)

lemma chosen_head:
  assumes "choose_command A s [] (as_commands s) = Some q"
  shows "ready A s q \<and> (\<exists>rest. filter (\<lambda>q'. qc_client q' = qc_client q) (as_commands s) = q # rest)"
proof -
  have "ready A s q \<and> q \<in> set (client_heads (as_commands s))"
    using assms unfolding choose_command_filter find_Some_iff by auto
  with client_heads_head show ?thesis by blast
qed

subsection \<open>The abstract queue\<close>

text \<open>
  What the queue is about: for each command its handle, its address, and whether it is a publish, a command
  for connecting or disconnecting, or another one. The abstract machine keeps the entries in the order of
  the queue and, behind, the entries that were given up.
\<close>

datatype command_kind = PublishKind | ConnectionKind | OtherKind

datatype entry = Entry (en_client: nat) (en_addr: nat) (en_kind: command_kind)

definition kind_of :: "details \<Rightarrow> command_kind" where
  "kind_of d = (if is_publish d then PublishKind else if is_connection d then ConnectionKind else OtherKind)"

definition queue_entry :: "MQTTAsync_queuedCommand \<Rightarrow> entry" where
  "queue_entry q = Entry (qc_client q) (qc_addr q) (kind_of (qc_details q))"

fun remove_first :: "('a \<Rightarrow> bool) \<Rightarrow> 'a list \<Rightarrow> 'a list" where
  "remove_first P [] = []"
| "remove_first P (x # xs) = (if P x then xs else x # remove_first P xs)"

definition publish_of_client :: "nat \<Rightarrow> entry \<Rightarrow> bool" where
  "publish_of_client h e \<longleftrightarrow> en_client e = h \<and> en_kind e = PublishKind"

definition connection_first :: "nat \<Rightarrow> entry list \<Rightarrow> bool" where
  "connection_first h Q \<longleftrightarrow> (case Q of [] \<Rightarrow> False | x # _ \<Rightarrow> en_kind x = ConnectionKind \<and> en_client x = h)"

text \<open>The number of publishes of a client that may wait, when it is limited, is reached.\<close>

definition full :: "int option \<Rightarrow> nat \<Rightarrow> bool" where
  "full limit n \<longleftrightarrow> (case limit of None \<Rightarrow> False | Some m \<Rightarrow> int n \<ge> m)"

text \<open>
  What happens: a command is given to the end of the queue, or to its head, with what the caller is told,
  or the first command of a client is taken. The event names the command and the result and nothing of
  what becomes of the queue: that the machine decides. At the end a publish takes the place of
  the oldest one of its client when the limit is reached; at the head a command is ignored
  when a connection command of its client is first.
\<close>

datatype queue_event =
    ToEnd entry int
  | ToHead entry int
  | Taken nat nat

fun spec_event :: "(nat \<Rightarrow> int option) \<Rightarrow> queue_event \<Rightarrow> entry list \<times> entry list \<Rightarrow> (entry list \<times> entry list) option" where
  "spec_event limit (ToEnd e rc) (Q, D) =
     (let P = publish_of_client (en_client e) in
      if rc \<noteq> MQTTASYNC_SUCCESS then None
      else if en_kind e = PublishKind \<and> full (limit (en_client e)) (length (filter P Q))
      then Some (remove_first P (Q @ [e]), D @ take 1 (filter P (Q @ [e])))
      else Some (Q @ [e], D))"
| "spec_event limit (ToHead e rc) (Q, D) =
     (if connection_first (en_client e) Q
      then (if rc = MQTTASYNC_COMMAND_IGNORED then Some (Q, D) else None)
      else (if rc = MQTTASYNC_SUCCESS then Some (e # Q, D) else None))"
| "spec_event limit (Taken h a) (Q, D) =
     (case filter (\<lambda>x. en_client x = h) Q of [] \<Rightarrow> None
      | x # _ \<Rightarrow> if en_addr x = a then Some (remove_first (\<lambda>x. en_client x = h) Q, D) else None)"

fun spec_events :: "(nat \<Rightarrow> int option) \<Rightarrow> queue_event list \<Rightarrow> entry list \<times> entry list \<Rightarrow> (entry list \<times> entry list) option" where
  "spec_events limit [] Q = Some Q"
| "spec_events limit (e # es) Q = Option.bind (spec_event limit e Q) (spec_events limit es)"

lemma spec_events_append:
  "spec_events limit (es @ fs) Q = Option.bind (spec_events limit es Q) (spec_events limit fs)"
  by (induction es arbitrary: Q) (auto split: Option.bind_split)

lemma remove_first_map: "map f (remove_first (\<lambda>x. P (f x)) xs) = remove_first P (map f xs)"
  by (induction xs) auto

lemma remove_first_other: "(\<And>x. P x \<Longrightarrow> \<not> R x) \<Longrightarrow> filter R (remove_first P xs) = filter R xs"
  by (induction xs) auto

lemma remove_first_filter:
  "distinct (map f xs) \<Longrightarrow> filter P xs = x # rest \<Longrightarrow> remove_first P xs = filter (\<lambda>y. f y \<noteq> f x) xs"
proof (induction xs)
  case (Cons y ys)
  show ?case
  proof (cases "P y")
    case True
    then have "y = x" using Cons.prems(2) by simp
    moreover from this have "filter (\<lambda>z. f z \<noteq> f x) ys = ys" using Cons.prems(1) by (auto simp: filter_id_conv image_iff)
    ultimately show ?thesis using True by simp
  next
    case False
    then have "filter P ys = x # rest" using Cons.prems(2) by simp
    then have "x \<in> set (filter P ys)" by simp
    then have "f y \<noteq> f x" using Cons.prems(1) by (auto simp: image_iff)
    then show ?thesis using Cons False by simp
  qed
qed simp

lemma find_index_filter: "find_index P xs = Some k \<Longrightarrow> \<exists>rest. filter P xs = xs ! k # rest"
proof (induction xs arbitrary: k)
  case (Cons x xs)
  show ?case
  proof (cases "P x")
    case False
    with Cons.prems obtain j where "find_index P xs = Some j" "k = Suc j" by auto
    with Cons.IH [OF this(1)] False show ?thesis by simp
  qed (use Cons.prems in auto)
qed simp

lemma queue_entry_sel [simp]:
  "en_client (queue_entry q) = qc_client q" "en_addr (queue_entry q) = qc_addr q"
  "en_kind (queue_entry q) = kind_of (qc_details q)"
  by (simp_all add: queue_entry_def)

lemma kind_of_eq [simp]: "kind_of d = PublishKind \<longleftrightarrow> is_publish d" "kind_of d = ConnectionKind \<longleftrightarrow> is_connection d"
  by (auto simp: kind_of_def is_connection_def is_Connect_def is_Disconnect_def is_PublishCmd_def)

lemma publish_of_client_entry [simp]:
  "publish_of_client h (queue_entry q) \<longleftrightarrow> qc_client q = h \<and> is_publish (qc_details q)"
  by (simp add: publish_of_client_def)

subsection \<open>What the operations change\<close>

definition queue_view :: "('n, 'f) asys \<Rightarrow> MQTTAsync_queuedCommand list \<times> nat \<times> (int \<times> MQTTAsync_createOptions option) list" where
  "queue_view s = (as_commands s, g_fresh s, map (\<lambda>m. (h_noBufferedMessages m, h_createOptions m)) (as_handles s))"

text \<open>The limits the handles have, as options of their creation.\<close>

definition limit_of :: "MQTTAsync_createOptions option list \<Rightarrow> nat \<Rightarrow> int option" where
  "limit_of os h = (if h < length os then map_option ao_maxBufferedMessages (os ! h) else None)"

definition create_options :: "('n, 'f) asys \<Rightarrow> MQTTAsync_createOptions option list" where
  "create_options s = map h_createOptions (as_handles s)"

lemma limit_full:
  assumes "h < length (as_handles s)" "h_noBufferedMessages (as_handles s ! h) = int n"
  shows "buffer_full (as_handles s ! h) \<longleftrightarrow> full (limit_of (create_options s) h) n"
  using assms by (simp add: buffer_full_def full_def limit_of_def create_options_def split: option.splits)

lemma queue_view_options: "queue_view s' = queue_view s \<Longrightarrow> create_options s' = create_options s"
  by (drule arg_cong [of _ _ "\<lambda>(_, _, ms). map snd ms"]) (simp add: queue_view_def create_options_def comp_def)

definition buffered :: "nat \<Rightarrow> MQTTAsync_queuedCommand list \<Rightarrow> nat" where
  "buffered h qs = length (filter (\<lambda>q. qc_client q = h \<and> is_publish (qc_details q)) qs)"

text \<open>
  Addresses are given once; every command belongs to a handle; every handle counts its publishes; the
  sequence numbers stay below the limit that the keys of the store are made for.
\<close>

definition queue_ok :: "('n, 'f) asys \<Rightarrow> bool" where
  "queue_ok s \<longleftrightarrow> distinct (map qc_addr (as_commands s)) \<and>
     (\<forall>q\<in>set (as_commands s). qc_addr q < g_fresh s \<and> qc_client q < length (as_handles s)) \<and>
     (\<forall>h<length (as_handles s). h_noBufferedMessages (as_handles s ! h) = int (buffered h (as_commands s)) \<and>
        h_command_seqno (as_handles s ! h) < PERSISTENCE_SEQNO_LIMIT)"

lemma detach_filter:
  assumes "list_lib_ok L" "distinct (map qc_addr qs)"
  shows "detach L qs a = filter (\<lambda>q. qc_addr q \<noteq> a) qs"
proof (cases "ListFindItem L qs (\<lambda>q. qc_addr q = a)")
  case None
  then have "\<forall>q\<in>set qs. qc_addr q \<noteq> a" by (simp add: list_libD(4) [OF assms(1)])
  then show ?thesis using None by (simp add: detach_def)
next
  case (Some k)
  note k = list_lib_find [OF assms(1) Some]
  have s: "qs = take k qs @ qs ! k # drop (Suc k) qs" using k(1) by (rule id_take_nth_drop)
  have d: "distinct (map qc_addr (take k qs @ qs ! k # drop (Suc k) qs))" using assms(2) s by metis
  have "a \<notin> qc_addr ` set (take k qs)" "a \<notin> qc_addr ` set (drop (Suc k) qs)" using d k(2) by auto
  then have "\<forall>q\<in>set (take k qs). qc_addr q \<noteq> a" "\<forall>q\<in>set (drop (Suc k) qs). qc_addr q \<noteq> a"
    by (auto simp: image_iff)
  moreover have "filter (\<lambda>q. qc_addr q \<noteq> a) qs =
      filter (\<lambda>q. qc_addr q \<noteq> a) (take k qs @ qs ! k # drop (Suc k) qs)" using s by metis
  ultimately show ?thesis using Some k by (simp add: detach_def list_libD(5) [OF assms(1)] filter_id_conv)
qed

lemma freeCommand_view:
  assumes "MQTTAsync_freeCommand A q s = Inr s'"
  shows "queue_view s' = queue_view s \<and> as_handles s' = as_handles s \<and> g_clients s' = g_clients s"
  using assms
  by (auto simp: MQTTAsync_freeCommand_def queue_view_def drop_pub_def ub_bind_Inr_iff split: if_splits details.splits option.splits)

lemma seqno_same [simp]: "\<exists>k. q = q\<lparr>qc_seqno := k\<rparr>"
  by (rule exI [of _ "qc_seqno q"]) simp

lemma seqno_any [simp]: "\<exists>k. q\<lparr>qc_seqno := n\<rparr> = q\<lparr>qc_seqno := k\<rparr>"
  by blast

lemma persistCommand_effect:
  assumes "MQTTAsync_persistCommand H c seqno q fs = Inr (rc, seqno', q', fs')" "seqno < PERSISTENCE_SEQNO_LIMIT"
  shows "seqno' < PERSISTENCE_SEQNO_LIMIT \<and> (\<exists>k. q' = q\<lparr>qc_seqno := k\<rparr>) \<and>
    (rc = 0 \<longrightarrow> is_publish (qc_details q) \<longrightarrow> qc_seqno q' = seqno')"
proof -
  note n = next_command_seqno_less [OF assms(2)]
  have k: "snd (command_key v (next_command_seqno seqno)) < keysize" for v
    using command_key_fits(1,2) [OF n, of "v \<ge> MQTTVERSION_5" v] by simp
  have p: "command_buffers v (qc_command q) \<noteq> Inr None" if "is_publish (qc_details q)" for v
    using that by (auto simp: command_buffers_def is_PublishCmd_def Let_def ub_bind_def split: option.splits sum.splits)
  let ?v5 = "c_MQTTVersion c \<ge> MQTTVERSION_5" and ?n = "next_command_seqno seqno"
  obtain key chars where kc: "command_key (c_MQTTVersion c) ?n = (key, chars)" "chars < keysize"
    using k [of "c_MQTTVersion c"] by (cases "command_key (c_MQTTVersion c) ?n") auto
  from assms(1) obtain r where r: "command_buffers ?v5 (qc_command q) = Inr r"
    by (auto simp: MQTTAsync_persistCommand_def Let_def ub_bind_Inr_iff)
  show ?thesis
  proof (cases r)
    case None
    then show ?thesis using assms r n p [of ?v5] by (auto simp: MQTTAsync_persistCommand_def Let_def)
  next
    case (Some bufs)
    show ?thesis
    proof (cases "H (ReqStruct ''lens'') \<and> H (ReqStruct ''bufs'')")
      case False
      then show ?thesis using assms r Some by (auto simp: MQTTAsync_persistCommand_def Let_def PAHO_MEMORY_ERROR_def)
    next
      case True
      with assms(1) r Some obtain pr where
        pr: "(if ?v5 then props_buffer H (cm_properties (qc_command q)) else Inr (Some [])) = Inr pr"
        by (auto simp: MQTTAsync_persistCommand_def Let_def ub_bind_Inr_iff simp del: not_le)
      show ?thesis
      proof (cases pr)
        case None
        then show ?thesis using assms r Some True pr n
          by (simp add: MQTTAsync_persistCommand_def Let_def PAHO_MEMORY_ERROR_def del: not_le)
      next
        case (Some props)
        then show ?thesis using assms(1) r \<open>r = Some bufs\<close> True pr n kc
          by (auto simp: MQTTAsync_persistCommand_def Let_def simp del: not_le split: option.splits prod.splits)
      qed
    qed
  qed
qed


lemma buffered_simps [simp]:
  "buffered h (xs @ ys) = buffered h xs + buffered h ys" "buffered h [] = 0"
  "buffered h (q # qs) = (if qc_client q = h \<and> is_publish (qc_details q) then 1 else 0) + buffered h qs"
  by (simp_all add: buffered_def)

lemma buffered_remove:
  assumes "distinct (map qc_addr qs)" "x \<in> set qs"
  shows "buffered h qs = buffered h (filter (\<lambda>q. qc_addr q \<noteq> qc_addr x) qs) +
    (if qc_client x = h \<and> is_publish (qc_details x) then 1 else 0)"
  using assms
proof (induction qs)
  case (Cons q qs)
  show ?case
  proof (cases "q = x")
    case True
    then have "filter (\<lambda>q. qc_addr q \<noteq> qc_addr x) qs = qs"
      using Cons.prems(1) by (auto simp: filter_id_conv image_iff)
    then show ?thesis using True by simp
  next
    case False
    then have "x \<in> set qs" using Cons.prems(2) by simp
    then have "qc_addr q \<noteq> qc_addr x" using Cons.prems(1) by (auto simp: image_iff)
    then show ?thesis using Cons False by simp
  qed
qed simp

lemma map_fst_update:
  "(\<And>m. g (f m) = g m) \<Longrightarrow> map g (xs[h := f (xs ! h)]) = map g xs"
  by (cases "h < length xs") (simp_all add: map_update list_update_same_conv list_update_beyond not_less)

lemma queue_view_upd:
  "(\<And>m. h_noBufferedMessages (f m) = h_noBufferedMessages m \<and> h_createOptions (f m) = h_createOptions m) \<Longrightarrow>
    queue_view (upd_async h f s) = queue_view s"
  by (simp add: queue_view_def upd_async_def map_fst_update)

lemma queue_view_fs [simp]:
  "queue_view (s\<lparr>g_fs := fs\<rparr>) = queue_view s" "queue_view (s\<lparr>g_net := n\<rparr>) = queue_view s"
  by (simp_all add: queue_view_def)

definition same_entry :: "MQTTAsync_queuedCommand \<Rightarrow> MQTTAsync_queuedCommand \<Rightarrow> bool" where
  "same_entry q q' \<longleftrightarrow> queue_entry q' = queue_entry q"

lemma same_entryD:
  assumes "same_entry q q'"
  shows "qc_addr q' = qc_addr q" "qc_client q' = qc_client q" "is_publish (qc_details q') = is_publish (qc_details q)"
proof -
  have "kind_of (qc_details q') = kind_of (qc_details q)" using assms by (simp add: same_entry_def queue_entry_def)
  then show "is_publish (qc_details q') = is_publish (qc_details q)" by (metis kind_of_eq(1))
qed (use assms in \<open>simp_all add: same_entry_def queue_entry_def\<close>)

definition seqnos_ok :: "('n, 'f) asys \<Rightarrow> bool" where
  "seqnos_ok s \<longleftrightarrow> (\<forall>h<length (as_handles s). h_command_seqno (as_handles s ! h) < PERSISTENCE_SEQNO_LIMIT)"

lemma release_publish_effect:
  "release_publish key q = Inr q' \<Longrightarrow> same_entry q q' \<and> qc_seqno q' = qc_seqno q"
  by (auto simp: release_publish_def Let_def ub_bind_Inr_iff same_entry_def queue_entry_def kind_of_def split: details.splits)

lemma persist_added_effect:
  assumes "persist_added A q s = Inr (go, q', s')" "seqnos_ok s" "qc_client q < length (as_handles s)"
  shows "go \<and> same_entry q q' \<and> queue_view s' = queue_view s \<and> seqnos_ok s' \<and> length (as_handles s') = length (as_handles s)"
proof (cases "c_persistence (g_clients s ! qc_client q) = None \<or> skip_persist (as_handles s ! qc_client q) (qc_details q)")
  case True
  then show ?thesis using assms by (auto simp: persist_added_def Let_def same_entry_def)
next
  case False
  let ?h = "qc_client q"
  let ?c = "g_clients s ! ?h"
  have l: "h_command_seqno (as_handles s ! ?h) < PERSISTENCE_SEQNO_LIMIT" using assms(2,3) by (simp add: seqnos_ok_def)
  from assms(1) False obtain rc n q1 fs where
    p: "MQTTAsync_persistCommand (e_heap (a_env A)) ?c (h_command_seqno (as_handles s ! ?h)) q (g_fs s) = Inr (rc, n, q1, fs)"
    by (auto simp: persist_added_def Let_def ub_bind_Inr_iff)
  from persistCommand_effect [OF p l] obtain k where e: "n < PERSISTENCE_SEQNO_LIMIT" "q1 = q\<lparr>qc_seqno := k\<rparr>"
    "rc = 0 \<longrightarrow> is_publish (qc_details q) \<longrightarrow> qc_seqno q1 = n" by blast
  define s1 where "s1 = upd_async ?h (\<lambda>m. m\<lparr>h_command_seqno := n\<rparr>) (s\<lparr>g_fs := fs\<rparr>)"
  have v: "queue_view s1 = queue_view s" "length (as_handles s1) = length (as_handles s)"
    unfolding s1_def by (simp_all add: queue_view_upd)
  have k: "seqnos_ok s1" using assms(2,3) e(1) by (auto simp: s1_def seqnos_ok_def upd_async_def nth_list_update)
  show ?thesis
  proof (cases "is_publish (qc_details q) \<and> rc = 0")
    case False
    then have "go \<and> q' = q1 \<and> s' = s1"
      using assms(1) \<open>\<not> (_ \<or> _)\<close> p by (auto simp: persist_added_def Let_def s1_def e(2))
    then show ?thesis using v k e(2) by (simp add: same_entry_def queue_entry_def)
  next
    case True
    then have k1: "k = n" using e by simp
    note key = command_key_fits(1,2) [OF e(1), of "c_MQTTVersion ?c \<ge> MQTTVERSION_5" "c_MQTTVersion ?c", OF refl]
    have "go \<and> release_publish (ckey (c_MQTTVersion ?c \<ge> MQTTVERSION_5) n) q1 = Inr q' \<and> s' = s1"
      using assms(1) \<open>\<not> (_ \<or> _)\<close> p True key
      by (auto simp: persist_added_def Let_def s1_def e(2) k1 ub_bind_Inr_iff split: if_splits)
    then show ?thesis using v k release_publish_effect [of _ q1 q'] e(2) by (auto simp: same_entry_def queue_entry_def)
  qed
qed


lemma count_buffered_effect:
  assumes "count_buffered A h s = Inr s'" "list_lib_ok (l_commands A)" "distinct (map qc_addr (as_commands s))"
    "h < length (as_handles s)" "\<exists>x\<in>set (as_commands s). qc_client x = h \<and> is_publish (qc_details x)"
  shows "g_fresh s' = g_fresh s \<and> length (as_handles s') = length (as_handles s) \<and> (seqnos_ok s \<longrightarrow> seqnos_ok s') \<and>
    (\<not> buffer_full (as_handles s ! h) \<and> as_commands s' = as_commands s \<and> create_options s' = create_options s \<and>
       (\<forall>k. h_noBufferedMessages (as_handles s' ! k) =
        h_noBufferedMessages (as_handles s ! k) + (if k = h then 1 else 0)) \<or>
     buffer_full (as_handles s ! h) \<and> as_handles s' = as_handles s \<and>
       as_commands s' = remove_first (\<lambda>q. publish_of_client h (queue_entry q)) (as_commands s) \<and>
       (\<exists>x\<in>set (as_commands s). qc_client x = h \<and>
       is_publish (qc_details x) \<and> as_commands s' = filter (\<lambda>q. qc_addr q \<noteq> qc_addr x) (as_commands s)))"
proof (cases "buffer_full (as_handles s ! h)")
  case False
  then have "s' = upd_async h (\<lambda>m. m\<lparr>h_noBufferedMessages := h_noBufferedMessages m + 1\<rparr>) s"
    using assms(1) by (simp add: count_buffered_def)
  then show ?thesis using False assms(4)
    by (auto simp: seqnos_ok_def upd_async_def nth_list_update create_options_def map_fst_update)
next
  case True
  let ?P = "\<lambda>q. qc_client q = h \<and> is_publish (qc_details q)"
  obtain k where k: "find_index ?P (as_commands s) = Some k"
    using assms(5) by (cases "find_index ?P (as_commands s)") (auto simp: find_index_None)
  define x where "x = as_commands s ! k"
  have x: "x \<in> set (as_commands s)" "?P x" using find_index_Some [OF k] by (auto simp: x_def)
  have r: "remove_first ?P (as_commands s) = filter (\<lambda>q. qc_addr q \<noteq> qc_addr x) (as_commands s)"
    using find_index_filter [OF k] remove_first_filter [OF assms(3), of ?P] by (auto simp: x_def)
  define s1 where "s1 = s\<lparr>as_commands := filter (\<lambda>q. qc_addr q \<noteq> qc_addr x) (as_commands s)\<rparr>"
  have d: "drop_oldest A h s = ub_bind (if c_persistence (g_clients s ! h) = None then Inr s1
      else ub_bind (MQTTAsync_unpersistCommand (g_clients s ! h) x (g_fs s1)) (\<lambda>(_, fs). Inr (s1\<lparr>g_fs := fs\<rparr>)))
      (MQTTAsync_freeCommand A x)"
    by (simp add: drop_oldest_def k Let_def x_def [symmetric] s1_def detach_filter [OF assms(2,3)] cong: if_cong)
  have "\<exists>s2. MQTTAsync_freeCommand A x s2 = Inr s' \<and> queue_view s2 = queue_view s1 \<and> as_handles s2 = as_handles s"
  proof (cases "c_persistence (g_clients s ! h) = None")
    case True
    then show ?thesis using assms(1) \<open>buffer_full _\<close> d by (intro exI [of _ s1]) (simp add: count_buffered_def s1_def)
  next
    case False
    then obtain fs where "MQTTAsync_freeCommand A x (s1\<lparr>g_fs := fs\<rparr>) = Inr s'"
      using assms(1) \<open>buffer_full _\<close> d by (auto simp: count_buffered_def ub_bind_Inr_iff)
    then show ?thesis by (intro exI [of _ "s1\<lparr>g_fs := fs\<rparr>"]) (simp add: s1_def)
  qed
  then obtain s2 where s2: "MQTTAsync_freeCommand A x s2 = Inr s'" "queue_view s2 = queue_view s1" "as_handles s2 = as_handles s"
    by blast
  from freeCommand_view [OF s2(1)] s2 have "queue_view s' = queue_view s1" "as_handles s' = as_handles s" by simp_all
  then show ?thesis using True x r by (auto simp: queue_view_def s1_def seqnos_ok_def)
qed

lemma queue_okD:
  assumes "queue_ok s"
  shows "distinct (map qc_addr (as_commands s))" "q \<in> set (as_commands s) \<Longrightarrow> qc_addr q < g_fresh s"
    "q \<in> set (as_commands s) \<Longrightarrow> qc_client q < length (as_handles s)"
    "h < length (as_handles s) \<Longrightarrow> h_noBufferedMessages (as_handles s ! h) = int (buffered h (as_commands s))"
    "seqnos_ok s"
  using assms by (auto simp: queue_ok_def seqnos_ok_def)

text \<open>A command at the end of the queue, and the oldest publish that goes for it.\<close>

lemma add_to_end_effect:
  assumes "add_to_end A q s = Inr (rc, s')" "list_lib_ok (l_commands A)" "queue_ok s" "qc_client q < length (as_handles s)"
    "qc_addr q < g_fresh s" "qc_addr q \<notin> qc_addr ` set (as_commands s)"
  shows "rc = MQTTASYNC_SUCCESS \<and> queue_ok s' \<and> g_fresh s' = g_fresh s \<and> create_options s' = create_options s \<and>
    (\<exists>q'. same_entry q q' \<and> as_commands s' =
      (if is_publish (qc_details q) \<and> full (limit_of (create_options s) (qc_client q)) (buffered (qc_client q) (as_commands s))
       then remove_first (\<lambda>x. publish_of_client (qc_client q) (queue_entry x)) (as_commands s @ [q'])
       else as_commands s @ [q']))"
proof -
  note ok = queue_okD [OF assms(3)]
  from assms(1) obtain go q' s1 where p: "persist_added A q s = Inr (go, q', s1)" by (auto simp: add_to_end_def ub_bind_Inr_iff)
  from persist_added_effect [OF p ok(5) assms(4)] have e: "go" "same_entry q q'" "queue_view s1 = queue_view s" "seqnos_ok s1"
    "length (as_handles s1) = length (as_handles s)" by simp_all
  have v: "as_commands s1 = as_commands s" "g_fresh s1 = g_fresh s" "\<And>k. k < length (as_handles s) \<Longrightarrow>
      h_noBufferedMessages (as_handles s1 ! k) = h_noBufferedMessages (as_handles s ! k)"
    using e(3,5) by (auto simp: queue_view_def list_eq_iff_nth_eq)
  define s2 where "s2 = s1\<lparr>as_commands := as_commands s @ [q']\<rparr>"
  have a: "distinct (map qc_addr (as_commands s2))" "qc_client q < length (as_handles s2)" "seqnos_ok s2"
    "\<forall>x\<in>set (as_commands s2). qc_addr x < g_fresh s2 \<and> qc_client x < length (as_handles s2)"
    "qc_client q' = qc_client q" "is_publish (qc_details q') = is_publish (qc_details q)"
    using ok(1-3,5) assms(4-6) e v same_entryD [OF e(2)] by (auto simp: s2_def seqnos_ok_def)
  have o: "create_options s1 = create_options s" using queue_view_options [OF e(3)] .
  have full: "buffer_full (as_handles s2 ! qc_client q) \<longleftrightarrow>
      full (limit_of (create_options s) (qc_client q)) (buffered (qc_client q) (as_commands s))"
    using limit_full [of "qc_client q" s1 "buffered (qc_client q) (as_commands s)"] v(3) [OF assms(4)] ok(4) [OF assms(4)]
      assms(4) e(5) o by (simp add: s2_def)
  have os2: "create_options s2 = create_options s" using o by (simp add: s2_def create_options_def)
  show ?thesis
  proof (cases "is_publish (qc_details q)")
    case False
    then have "rc = MQTTASYNC_SUCCESS" "s' = s2"
      using assms(1) p e(1) a(6) by (simp_all add: add_to_end_def Let_def list_libD(1) [OF assms(2)] v(1) s2_def)
    moreover have "queue_ok s2" using a False v ok(4) e(5) by (simp add: queue_ok_def seqnos_ok_def s2_def)
    ultimately show ?thesis using False e(2,5) v os2 by (auto simp: s2_def)
  next
    case True
    then have c: "rc = MQTTASYNC_SUCCESS" "count_buffered A (qc_client q) s2 = Inr s'"
      using assms(1) p e(1) a(5,6)
      by (auto simp: add_to_end_def Let_def list_libD(1) [OF assms(2)] v(1) s2_def ub_bind_Inr_iff)
    have "\<exists>x\<in>set (as_commands s2). qc_client x = qc_client q \<and> is_publish (qc_details x)"
      using a(5,6) True by (auto simp: s2_def)
    note f = count_buffered_effect [OF c(2) assms(2) a(1,2) this]
    have b: "h_noBufferedMessages (as_handles s2 ! k) + (if k = qc_client q then 1 else 0) = int (buffered k (as_commands s2))"
      if "k < length (as_handles s)" for k using that v(3) ok(4) a(5,6) True by (simp add: s2_def)
    show ?thesis
    proof (cases "buffer_full (as_handles s2 ! qc_client q)")
      case False
      with f have "as_commands s' = as_commands s2" "seqnos_ok s'" "g_fresh s' = g_fresh s2"
        "length (as_handles s') = length (as_handles s2)" "create_options s' = create_options s2" "\<forall>k. h_noBufferedMessages (as_handles s' ! k) =
          h_noBufferedMessages (as_handles s2 ! k) + (if k = qc_client q then 1 else 0)" using a(3) by auto
      moreover from this have "queue_ok s'" using a b e(5) by (simp add: queue_ok_def seqnos_ok_def s2_def)
      ultimately show ?thesis using False full c(1) e(2,5) v os2 by (auto simp: s2_def)
    next
      case isfull: True
      with f a(3) have r: "as_commands s' = remove_first (\<lambda>x. publish_of_client (qc_client q) (queue_entry x)) (as_commands s2)"
        by auto
      from isfull f a(3) obtain x where x: "x \<in> set (as_commands s2)" "qc_client x = qc_client q" "is_publish (qc_details x)"
        "as_commands s' = filter (\<lambda>q. qc_addr q \<noteq> qc_addr x) (as_commands s2)" "as_handles s' = as_handles s2"
        "seqnos_ok s'" "g_fresh s' = g_fresh s2" by auto
      have n: "int (buffered k (as_commands s')) = h_noBufferedMessages (as_handles s2 ! k)" if "k < length (as_handles s)" for k
        using b [OF that] buffered_remove [OF a(1) x(1), of k] x(2-4) by (cases "k = qc_client q") auto
      have "distinct (map qc_addr (as_commands s'))" unfolding x(4) using a(1) by (simp add: distinct_map_filter)
      then have "queue_ok s'" using x a(4) n e(5) by (simp add: queue_ok_def seqnos_ok_def s2_def)
      moreover have "create_options s' = create_options s" using x(5) os2 by (simp add: create_options_def)
      ultimately show ?thesis using isfull full True r x(7) c(1) e(2) v by (auto simp: s2_def)
    qed
  qed
qed


lemma queue_ok_cong:
  assumes "queue_view s' = queue_view s" "seqnos_ok s'" "queue_ok s"
  shows "queue_ok s'"
proof -
  have l: "length (as_handles s') = length (as_handles s)" using arg_cong [OF assms(1), of "\<lambda>v. length (snd (snd v))"]
    by (simp add: queue_view_def)
  have n: "h_noBufferedMessages (as_handles s' ! k) = h_noBufferedMessages (as_handles s ! k)" if "k < length (as_handles s)" for k
    using assms(1) that l by (auto simp: queue_view_def list_eq_iff_nth_eq)
  show ?thesis using assms l n by (auto simp: queue_ok_def seqnos_ok_def queue_view_def)
qed

text \<open>At the head of the queue only one command for connecting or disconnecting of a client may wait.\<close>

lemma add_to_head_effect:
  assumes "add_to_head A q s = Inr (rc, s')" "list_lib_ok (l_commands A)" "queue_ok s" "qc_client q < length (as_handles s)"
    "qc_addr q < g_fresh s" "qc_addr q \<notin> qc_addr ` set (as_commands s)" "\<not> is_publish (qc_details q)"
  shows "queue_ok s' \<and> g_fresh s' = g_fresh s \<and> create_options s' = create_options s \<and>
    (if \<exists>cur rest. as_commands s = cur # rest \<and> is_connection (qc_details cur) \<and> qc_client cur = qc_client q
     then rc = MQTTASYNC_COMMAND_IGNORED \<and> as_commands s' = as_commands s
     else rc = MQTTASYNC_SUCCESS \<and> as_commands s' = q # as_commands s)" (is "_ \<and> _ \<and> _ \<and> (if ?other then _ else _)")
proof (cases ?other)
  case True
  then have r: "MQTTAsync_freeCommand A q s = Inr s'" "rc = MQTTASYNC_COMMAND_IGNORED"
    using assms(1) by (auto simp: add_to_head_def Let_def ub_bind_Inr_iff)
  from freeCommand_view [OF r(1)] have v: "queue_view s' = queue_view s" "as_handles s' = as_handles s" by simp_all
  have "seqnos_ok s'" using queue_okD(5) [OF assms(3)] v(2) by (simp add: seqnos_ok_def)
  from queue_ok_cong [OF v(1) this assms(3)] v r(2) True show ?thesis
    by (simp add: queue_view_def create_options_def)
next
  case False
  have i: "ListInsert (l_commands A) (as_commands s) q (if as_commands s = [] then None else Some 0) = q # as_commands s"
    using list_libD(2,3) [OF assms(2)] by (cases "as_commands s") auto
  have r: "rc = MQTTASYNC_SUCCESS" "s' = s\<lparr>as_commands := q # as_commands s\<rparr>"
    using assms(1) False i by (auto simp: add_to_head_def Let_def split: list.splits if_splits)
  have "queue_ok s'" using assms(3-7) by (auto simp: r(2) queue_ok_def)
  with r False show ?thesis by (simp add: create_options_def)
qed

lemma start_clock_view: "start_clock A s = (t, s') \<Longrightarrow> queue_view s' = queue_view s \<and> as_handles s' = as_handles s"
  by (auto simp: start_clock_def queue_view_def split: prod.splits)

definition to_head :: "details \<Rightarrow> bool" where
  "to_head d \<longleftrightarrow> is_Connect d \<or> is_Disconnect d \<and> dis_internal d"

lemma addCommand_effect:
  assumes "MQTTAsync_addCommand A q s = Inr (rc, s')" "list_lib_ok (l_commands A)" "queue_ok s"
    "qc_client q < length (as_handles s)" "qc_addr q < g_fresh s" "qc_addr q \<notin> qc_addr ` set (as_commands s)"
  shows "queue_ok s' \<and> g_fresh s' = g_fresh s \<and> create_options s' = create_options s \<and>
    (\<exists>q'. same_entry q q' \<and>
    (if to_head (qc_details q)
     then if \<exists>cur rest. as_commands s = cur # rest \<and> is_connection (qc_details cur) \<and> qc_client cur = qc_client q
       then rc = MQTTASYNC_COMMAND_IGNORED \<and> as_commands s' = as_commands s
       else rc = MQTTASYNC_SUCCESS \<and> as_commands s' = q' # as_commands s
     else rc = MQTTASYNC_SUCCESS \<and> as_commands s' =
      (if is_publish (qc_details q) \<and> full (limit_of (create_options s) (qc_client q)) (buffered (qc_client q) (as_commands s))
       then remove_first (\<lambda>x. publish_of_client (qc_client q) (queue_entry x)) (as_commands s @ [q'])
       else as_commands s @ [q'])))"
proof -
  obtain t s0 where t: "start_clock A s = (t, s0)" by (cases "start_clock A s") auto
  note v = start_clock_view [OF t]
  have ok0: "queue_ok s0" using queue_ok_cong [of s0 s] v queue_okD(5) [OF assms(3)] assms(3) by (simp add: seqnos_ok_def)
  have c: "as_commands s0 = as_commands s" "g_fresh s0 = g_fresh s" using v by (simp_all add: queue_view_def)
  let ?q = "q\<lparr>qc_command := (qc_command q)\<lparr>cm_start_time := t\<rparr>\<rparr>"
  define timed where "timed \<longleftrightarrow> \<not> is_Connect (qc_details q) \<or> c_connect_state (g_clients s ! qc_client q) = NOT_IN_PROGRESS"
  define q1 where "q1 = (if timed then ?q else q)"
  define s1 where "s1 = (if timed then s0 else s)"
  have q1: "(q1, s1) = (?q, s0) \<or> (q1, s1) = (q, s)"
    "Inr (rc, s') = (if to_head (qc_details q) then add_to_head A q1 s1 else add_to_end A q1 s1)"
    using assms(1) by (auto simp: q1_def s1_def MQTTAsync_addCommand_def t Let_def to_head_def timed_def split: if_splits)
  have e: "queue_ok s1" "qc_client q1 < length (as_handles s1)" "qc_addr q1 < g_fresh s1"
    "qc_addr q1 \<notin> qc_addr ` set (as_commands s1)" "as_commands s1 = as_commands s" "g_fresh s1 = g_fresh s"
    "create_options s1 = create_options s" "qc_client q1 = qc_client q" "\<And>q'. same_entry q1 q' = same_entry q q'"
    "qc_details q1 = qc_details q"
    using q1(1) ok0 assms(3-6) c v by (auto simp: same_entry_def queue_entry_def create_options_def)
  show ?thesis
  proof (cases "to_head (qc_details q)")
    case True
    then have np: "\<not> is_publish (qc_details q1)" using e(10) by (auto simp: to_head_def is_Connect_def is_Disconnect_def)
    have "same_entry q q1" using q1(1) by (auto simp: same_entry_def queue_entry_def)
    moreover have "add_to_head A q1 s1 = Inr (rc, s')" using q1(2) True by simp
    note add_to_head_effect [OF this assms(2) e(1-4) np]
    ultimately show ?thesis using True unfolding e(5-8) by (intro conjI exI [of _ q1]) auto
  next
    case False
    with q1(2) have "add_to_end A q1 s1 = Inr (rc, s')" by simp
    from add_to_end_effect [OF this assms(2) e(1-4)] show ?thesis using False unfolding e(5-10) by simp
  qed
qed

lemma complete_command_effect:
  "complete_command A q s = Inr (rc, q', s') \<Longrightarrow> \<exists>fs. s' = s\<lparr>g_fs := fs\<rparr>"
proof -
  have i: "\<exists>fs. s = s\<lparr>g_fs := fs\<rparr>" by (rule exI [of _ "g_fs s"]) simp
  show "complete_command A q s = Inr (rc, q', s') \<Longrightarrow> ?thesis"
    using i by (auto simp: complete_command_def Let_def ub_bind_Inr_iff split: option.splits bool.splits prod.splits if_splits)
qed

text \<open>Taking a command removes it, and counts a publish no longer.\<close>

lemma take_command_effect:
  assumes "take_command A q s = Inr (rc, q', s')" "list_lib_ok (l_commands A)" "queue_ok s" "q \<in> set (as_commands s)"
  shows "queue_ok s' \<and> g_fresh s' = g_fresh s \<and> create_options s' = create_options s \<and>
    as_commands s' = filter (\<lambda>x. qc_addr x \<noteq> qc_addr q) (as_commands s)"
proof -
  note ok = queue_okD [OF assms(3)]
  let ?h = "qc_client q" and ?p = "is_publish (qc_details q)"
  define s1 where "s1 = (if ?p then upd_async ?h (\<lambda>m. m\<lparr>h_noBufferedMessages := h_noBufferedMessages m - 1\<rparr>) s else s)
    \<lparr>as_commands := filter (\<lambda>x. qc_addr x \<noteq> qc_addr q) (as_commands s)\<rparr>"
  have d: "detach (l_commands A) (as_commands (if ?p then upd_async ?h f s else s)) (qc_addr q) =
      filter (\<lambda>x. qc_addr x \<noteq> qc_addr q) (as_commands s)" for f
    using detach_filter [OF assms(2) ok(1)] by simp
  have t: "take_command A q s = (if c_persistence (g_clients s1 ! ?h) = None then Inr (0, q, s1)
      else ub_bind (complete_command A q s1) (\<lambda>(rc, q, s).
        ub_bind (MQTTAsync_unpersistCommand (g_clients s ! ?h) q (g_fs s)) (\<lambda>(_, fs). Inr (rc, q, s\<lparr>g_fs := fs\<rparr>))))"
    by (simp add: take_command_def Let_def d s1_def cong: if_cong)
  have "\<exists>fs. s' = s1\<lparr>g_fs := fs\<rparr>"
  proof (cases "c_persistence (g_clients s1 ! ?h) = None")
    case True
    then show ?thesis using assms(1) t by (intro exI [of _ "g_fs s1"]) simp
  next
    case False
    with assms(1) t obtain rc1 q1 s2 fs where "complete_command A q s1 = Inr (rc1, q1, s2)" "s' = s2\<lparr>g_fs := fs\<rparr>"
      by (auto simp: ub_bind_Inr_iff)
    with complete_command_effect [OF this(1)] show ?thesis by auto
  qed
  then have v: "queue_view s' = queue_view s1" "as_handles s' = as_handles s1" by (auto simp: queue_view_def)
  have h: "?h < length (as_handles s)" using ok(3) [OF assms(4)] .
  have n: "h_noBufferedMessages (as_handles s1 ! k) = int (buffered k (as_commands s1))" if "k < length (as_handles s)" for k
    using ok(4) [OF that] buffered_remove [OF ok(1) assms(4), of k] h that
    by (cases "k = ?h") (auto simp: s1_def upd_async_def nth_list_update)
  have k: "seqnos_ok s1" using ok(5) h by (auto simp: s1_def seqnos_ok_def upd_async_def nth_list_update)
  have l: "length (as_handles s1) = length (as_handles s)" "create_options s1 = create_options s" "g_fresh s1 = g_fresh s"
    "as_commands s1 = filter (\<lambda>x. qc_addr x \<noteq> qc_addr q) (as_commands s)"
    by (simp_all add: s1_def create_options_def upd_async_def map_fst_update)
  have "queue_ok s1" using n k ok(1-3) l by (simp add: queue_ok_def seqnos_ok_def distinct_map_filter)
  from queue_ok_cong [OF v(1) _ this] k v l show ?thesis by (simp add: queue_view_def seqnos_ok_def create_options_def)
qed


subsection \<open>Runs of the queue\<close>

definition queue_entries :: "('n, 'f) asys \<Rightarrow> entry list" where
  "queue_entries s = map queue_entry (as_commands s)"

definition client_queue :: "('n, 'f) asys \<Rightarrow> nat \<Rightarrow> nat list" where
  "client_queue s h = map qc_addr (filter (\<lambda>q. qc_client q = h) (as_commands s))"

definition add_event :: "nat \<Rightarrow> nat \<Rightarrow> details \<Rightarrow> int \<Rightarrow> queue_event" where
  "add_event h a d rc = (if to_head d then ToHead else ToEnd) (Entry h a (kind_of d)) rc"

text \<open>
  A run of the queue: commands are added by any function of the library, with a new address, and taken
  by the send thread.
\<close>

inductive queue_run :: "('n, 'f) async_api \<Rightarrow> ('n, 'f) asys \<Rightarrow> queue_event list \<Rightarrow> ('n, 'f) asys \<Rightarrow> bool"
  for A :: "('n, 'f) async_api" and s0 :: "('n, 'f) asys" where
  start: "queue_run A s0 [] s0"
| add: "queue_run A s0 es s \<Longrightarrow> h < length (as_handles s) \<Longrightarrow>
    MQTTAsync_addCommand A (new_queued (fst (new_addr s)) h cmd) (snd (new_addr s)) = Inr (rc, s') \<Longrightarrow>
    queue_run A s0 (es @ [add_event h (fst (new_addr s)) (cm_details cmd) rc]) s'"
| take: "queue_run A s0 es s \<Longrightarrow> choose_command A s [] (as_commands s) = Some q \<Longrightarrow>
    take_command A q s = Inr (rc, q', s') \<Longrightarrow>
    queue_run A s0 (es @ [Taken (qc_client q) (qc_addr q)]) s'"

lemma buffered_entries: "length (filter (publish_of_client h) (queue_entries s)) = buffered h (as_commands s)"
  by (simp add: queue_entries_def buffered_def filter_map comp_def)

lemma add_step:
  assumes "MQTTAsync_addCommand A (new_queued (fst (new_addr s)) h cmd) (snd (new_addr s)) = Inr (rc, s')"
    "list_lib_ok (l_commands A)" "queue_ok s" "h < length (as_handles s)"
  shows "queue_ok s' \<and> g_fresh s' = g_fresh s + 1 \<and> create_options s' = create_options s \<and>
    (\<exists>D'. spec_event (limit_of (create_options s)) (add_event h (g_fresh s) (cm_details cmd) rc) (queue_entries s, D) =
      Some (queue_entries s', D'))"
proof -
  let ?q = "new_queued (g_fresh s) h cmd" and ?s = "s\<lparr>g_fresh := g_fresh s + 1\<rparr>"
  let ?e = "queue_entry ?q" and ?L = "limit_of (create_options s)"
  have q: "qc_client ?q = h" "qc_addr ?q = g_fresh s" "qc_details ?q = cm_details cmd" by (simp_all add: new_queued_def)
  have en: "?e = Entry h (g_fresh s) (kind_of (cm_details cmd))" by (simp add: queue_entry_def q)
  have ok: "queue_ok ?s" using assms(3) by (auto simp: queue_ok_def)
  have f: "g_fresh s \<notin> qc_addr ` set (as_commands s)" using queue_okD(2) [OF assms(3)] by fastforce
  have add: "MQTTAsync_addCommand A ?q ?s = Inr (rc, s')" using assms(1) by (simp add: new_addr_def)
  have sv: "as_commands ?s = as_commands s" "g_fresh ?s = g_fresh s + 1" "as_handles ?s = as_handles s"
    "create_options ?s = create_options s" by (simp_all add: create_options_def)
  have "g_fresh s < g_fresh s + 1" by simp
  note E = addCommand_effect [OF add assms(2) ok, unfolded sv q, OF assms(4) this f]
  then obtain q' where q': "same_entry ?q q'" and cmds: "if to_head (cm_details cmd)
     then if \<exists>cur rest. as_commands s = cur # rest \<and> is_connection (qc_details cur) \<and> qc_client cur = h
       then rc = MQTTASYNC_COMMAND_IGNORED \<and> as_commands s' = as_commands s
       else rc = MQTTASYNC_SUCCESS \<and> as_commands s' = q' # as_commands s
     else rc = MQTTASYNC_SUCCESS \<and> as_commands s' =
      (if is_publish (cm_details cmd) \<and> full (?L h) (buffered h (as_commands s))
       then remove_first (\<lambda>x. publish_of_client h (queue_entry x)) (as_commands s @ [q'])
       else as_commands s @ [q'])" by blast
  have qe: "queue_entry q' = Entry h (g_fresh s) (kind_of (cm_details cmd))" using q' en by (simp add: same_entry_def)
  have "\<exists>D'. spec_event ?L (add_event h (g_fresh s) (cm_details cmd) rc) (queue_entries s, D) = Some (queue_entries s', D')"
  proof (cases "to_head (cm_details cmd)")
    case True
    have o: "connection_first h (queue_entries s) \<longleftrightarrow>
        (\<exists>cur rest. as_commands s = cur # rest \<and> is_connection (qc_details cur) \<and> qc_client cur = h)"
      by (auto simp: connection_first_def queue_entries_def split: list.splits)
    show ?thesis using cmds True qe o
      by (auto simp: add_event_def queue_entries_def split: if_splits)
  next
    case False
    with cmds have r: "rc = MQTTASYNC_SUCCESS" and c: "as_commands s' =
      (if is_publish (cm_details cmd) \<and> full (?L h) (buffered h (as_commands s))
       then remove_first (\<lambda>x. publish_of_client h (queue_entry x)) (as_commands s @ [q'])
       else as_commands s @ [q'])" by simp_all
    have "queue_entries s' = (if is_publish (cm_details cmd) \<and> full (?L h) (buffered h (as_commands s))
       then remove_first (publish_of_client h) (queue_entries s @ [Entry h (g_fresh s) (kind_of (cm_details cmd))])
       else queue_entries s @ [Entry h (g_fresh s) (kind_of (cm_details cmd))])"
      by (simp add: queue_entries_def c remove_first_map qe del: publish_of_client_entry)
    then show ?thesis using False r by (simp add: add_event_def Let_def buffered_entries)
  qed
  then show ?thesis using E by simp
qed

lemma take_step:
  assumes "choose_command A s [] (as_commands s) = Some q" "take_command A q s = Inr (rc, q', s')"
    "list_lib_ok (l_commands A)" "queue_ok s"
  shows "queue_ok s' \<and> g_fresh s' = g_fresh s \<and> create_options s' = create_options s \<and>
    spec_event L (Taken (qc_client q) (qc_addr q)) (queue_entries s, D) = Some (queue_entries s', D)"
proof -
  from chosen_head [OF assms(1)] obtain rest where r: "filter (\<lambda>x. qc_client x = qc_client q) (as_commands s) = q # rest" by blast
  then have "q \<in> set (filter (\<lambda>x. qc_client x = qc_client q) (as_commands s))" by simp
  then have m: "q \<in> set (as_commands s)" by simp
  note e = take_command_effect [OF assms(2-4) m]
  have "as_commands s' = remove_first (\<lambda>x. qc_client x = qc_client q) (as_commands s)"
    using e remove_first_filter [OF queue_okD(1) [OF assms(4)] r] by simp
  then have "queue_entries s' = remove_first (\<lambda>x. en_client x = qc_client q) (queue_entries s)"
    by (simp add: queue_entries_def remove_first_map [of queue_entry "\<lambda>x. en_client x = qc_client q", symmetric])
  moreover have "filter (\<lambda>x. en_client x = qc_client q) (queue_entries s) = queue_entry q # map queue_entry rest"
    by (simp add: queue_entries_def filter_map comp_def r)
  ultimately show ?thesis using e by simp
qed

lemma queue_run_inv:
  assumes "queue_run A s0 es s" "list_lib_ok (l_commands A)" "queue_ok s0"
  shows "queue_ok s \<and> create_options s = create_options s0 \<and>
    (\<exists>D. spec_events (limit_of (create_options s0)) es (queue_entries s0, []) = Some (queue_entries s, D))"
  using assms
proof (induction rule: queue_run.induct)
  case (add es s h cmd rc s')
  then obtain D where i: "queue_ok s" "create_options s = create_options s0"
    "spec_events (limit_of (create_options s0)) es (queue_entries s0, []) = Some (queue_entries s, D)" by blast
  from add_step [OF add.hyps(3) add.prems(1) i(1) add.hyps(2), of D] show ?case
    using i(2,3) by (auto simp: spec_events_append new_addr_def simp del: spec_event.simps)
next
  case (take es s q rc q' s')
  then obtain D where i: "queue_ok s" "create_options s = create_options s0"
    "spec_events (limit_of (create_options s0)) es (queue_entries s0, []) = Some (queue_entries s, D)" by blast
  from take_step [OF take.hyps(2,3) take.prems(1) i(1), of _ D] show ?case
    using i(2,3) by (auto simp: spec_events_append simp del: spec_event.simps)
qed simp

text \<open>The addresses of the events of a client, by kind and in order.\<close>

definition appended :: "nat \<Rightarrow> queue_event list \<Rightarrow> nat list" where
  "appended h es = concat (map (\<lambda>e. case e of ToEnd x rc \<Rightarrow> if en_client x = h then [en_addr x] else [] | _ \<Rightarrow> []) es)"

definition fronted :: "nat \<Rightarrow> queue_event list \<Rightarrow> nat list" where
  "fronted h es = concat (map (\<lambda>e. case e of ToHead x rc \<Rightarrow>
     if en_client x = h \<and> rc = MQTTASYNC_SUCCESS then [en_addr x] else [] | _ \<Rightarrow> []) es)"

definition taken :: "nat \<Rightarrow> queue_event list \<Rightarrow> nat list" where
  "taken h es = concat (map (\<lambda>e. case e of Taken k a \<Rightarrow> if k = h then [a] else [] | _ \<Rightarrow> []) es)"

definition addresses :: "nat \<Rightarrow> entry list \<Rightarrow> nat list" where
  "addresses h Q = map en_addr (filter (\<lambda>x. en_client x = h) Q)"

lemmas events_of = appended_def fronted_def taken_def

lemma events_snoc [simp]:
  "appended h (es @ [ToEnd x rc]) = appended h es @ (if en_client x = h then [en_addr x] else [])"
  "appended h (es @ [ToHead x rc]) = appended h es" "appended h (es @ [Taken k a]) = appended h es"
  "fronted h (es @ [ToHead x rc]) = fronted h es @ (if en_client x = h \<and> rc = MQTTASYNC_SUCCESS then [en_addr x] else [])"
  "fronted h (es @ [ToEnd x rc]) = fronted h es" "fronted h (es @ [Taken k a]) = fronted h es"
  "taken h (es @ [Taken k a]) = taken h es @ (if k = h then [a] else [])"
  "taken h (es @ [ToEnd x rc]) = taken h es" "taken h (es @ [ToHead x rc]) = taken h es"
  by (simp_all add: events_of)

lemma addresses_simps [simp]:
  "addresses h [] = []" "addresses h (Q @ R) = addresses h Q @ addresses h R"
  "addresses h (e # Q) = (if en_client e = h then [en_addr e] else []) @ addresses h Q"
  by (simp_all add: addresses_def)

lemma client_queue_addresses: "client_queue s h = addresses h (queue_entries s)"
  by (simp add: client_queue_def addresses_def queue_entries_def filter_map comp_def)

lemma addresses_other: "(\<And>x. P x \<Longrightarrow> en_client x = k) \<Longrightarrow> k \<noteq> h \<Longrightarrow> addresses h (remove_first P Q) = addresses h Q"
  by (simp add: addresses_def remove_first_other)

lemma addresses_removed:
  assumes "distinct (map en_addr Q)" "filter P Q = x # rest"
  shows "addresses h (remove_first P Q) = filter (\<lambda>a. a \<noteq> en_addr x) (addresses h Q)"
  unfolding remove_first_filter [OF assms] by (simp add: addresses_def filter_map comp_def conj_commute)

text \<open>Only publishes are given up, and only for a client with a limit.\<close>

lemma spec_event_given_up:
  assumes "spec_event limit e (Q, D) = Some (Q', D')"
  shows "\<exists>R. D' = D @ R \<and> (\<forall>x\<in>set R. en_kind x = PublishKind \<and> limit (en_client x) \<noteq> None)"
proof (cases e)
  case (ToEnd x rc)
  let ?P = "publish_of_client (en_client x)"
  have "y \<in> set (take 1 (filter ?P (Q @ [x]))) \<Longrightarrow> en_kind y = PublishKind \<and> en_client y = en_client x" for y
    by (drule in_set_takeD, unfold set_filter) (simp add: publish_of_client_def)
  note g = this
  show ?thesis
  proof (cases "en_kind x = PublishKind \<and> full (limit (en_client x)) (length (filter ?P Q))")
    case True
    define R where "R = take 1 (filter ?P (Q @ [x]))"
    have "D' = D @ R" using assms True unfolding ToEnd spec_event.simps Let_def R_def [symmetric] by (simp split: if_splits)
    moreover have "limit (en_client x) \<noteq> None" using True by (auto simp: full_def split: option.splits)
    ultimately show ?thesis using g unfolding R_def [symmetric] by auto
  next
    case False
    then have "D' = D" using assms unfolding ToEnd spec_event.simps Let_def by (simp split: if_splits)
    then show ?thesis by simp
  qed
qed (use assms in \<open>auto split: if_splits list.splits\<close>)

lemma spec_events_given_up_from:
  "spec_events limit es (Q, D) = Some (Q', D') \<Longrightarrow> \<forall>x\<in>set D. en_kind x = PublishKind \<and> limit (en_client x) \<noteq> None \<Longrightarrow>
    \<forall>x\<in>set D'. en_kind x = PublishKind \<and> limit (en_client x) \<noteq> None"
proof (induction es arbitrary: Q D)
  case (Cons e es)
  then obtain Q1 D1 where s: "spec_event limit e (Q, D) = Some (Q1, D1)" "spec_events limit es (Q1, D1) = Some (Q', D')"
    by (auto simp: bind_eq_Some_conv)
  from spec_event_given_up [OF s(1)] Cons.prems(2) have "\<forall>x\<in>set D1. en_kind x = PublishKind \<and> limit (en_client x) \<noteq> None" by auto
  from Cons.IH [OF s(2) this] show ?case .
qed simp

lemma spec_events_given_up:
  assumes "spec_events limit es ([], []) = Some (Q, D)"
  shows "\<forall>x\<in>set D. en_kind x = PublishKind" "limit h = None \<Longrightarrow> addresses h D = []"
  using spec_events_given_up_from [OF assms] by (auto simp: addresses_def filter_empty_conv)

text \<open>What the order of a client's commands rests on.\<close>

definition order_inv :: "nat \<Rightarrow> queue_event list \<Rightarrow> nat list \<Rightarrow> nat list \<Rightarrow> nat \<Rightarrow> bool" where
  "order_inv h es Q G n \<longleftrightarrow> (\<forall>x \<in> set (appended h es) \<union> set (fronted h es). x < n) \<and>
     distinct (taken h es @ Q @ G) \<and> set (taken h es @ Q @ G) = set (appended h es) \<union> set (fronted h es) \<and>
     filter (\<lambda>x. x \<in> set (appended h es)) (taken h es @ Q) = filter (\<lambda>x. x \<notin> set G) (appended h es)"

lemma order_inv_append:
  assumes "order_inv h es Q G n"
  shows "order_inv h (es @ [ToEnd (Entry h n k) rc]) (Q @ [n]) G (n + 1)"
proof -
  let ?B = "appended h es" and ?T = "taken h es"
  have lt: "n \<notin> set ?B" "n \<notin> set (fronted h es)" using assms by (auto simp: order_inv_def)
  then have lt2: "n \<notin> set (?T @ Q @ G)" using assms unfolding order_inv_def by blast
  have f: "filter (\<lambda>x. x = n \<or> x \<in> set ?B) (?T @ Q) = filter (\<lambda>x. x \<in> set ?B) (?T @ Q)"
    using lt2 by (intro filter_cong) auto
  show ?thesis using assms lt lt2 f by (auto simp: order_inv_def intro: less_SucI)
qed

lemma order_inv_front:
  assumes "order_inv h es Q G n"
  shows "order_inv h (es @ [ToHead (Entry h n k) MQTTASYNC_SUCCESS]) (n # Q) G (n + 1)"
proof -
  have lt: "n \<notin> set (appended h es)" "n \<notin> set (fronted h es)" using assms by (auto simp: order_inv_def)
  then have "n \<notin> set (taken h es @ Q @ G)" using assms unfolding order_inv_def by blast
  then show ?thesis using assms lt by (auto simp: order_inv_def intro: less_SucI)
qed

lemma order_inv_drop:
  assumes "order_inv h es Q G n" "x \<in> set Q"
  shows "order_inv h es (filter (\<lambda>y. y \<noteq> x) Q) (G @ [x]) n"
proof -
  let ?B = "appended h es" and ?T = "taken h es"
  have n: "x \<notin> set ?T" using assms by (auto simp: order_inv_def)
  have "filter (\<lambda>y. y \<in> set ?B) (?T @ filter (\<lambda>y. y \<noteq> x) Q) = filter (\<lambda>y. y \<noteq> x) (filter (\<lambda>y. y \<in> set ?B) (?T @ Q))"
    using n by (auto simp: conj_commute intro: filter_cong)
  also have "\<dots> = filter (\<lambda>y. y \<noteq> x) (filter (\<lambda>y. y \<notin> set G) ?B)" using assms(1) by (simp add: order_inv_def)
  finally show ?thesis using assms by (auto simp: order_inv_def conj_commute)
qed

lemma order_inv_other:
  assumes "order_inv h es Q G n" "appended h (es @ [e]) = appended h es" "fronted h (es @ [e]) = fronted h es"
    "taken h (es @ [e]) = taken h es" "n \<le> n'"
  shows "order_inv h (es @ [e]) Q G n'"
  using assms by (auto simp: order_inv_def intro: less_le_trans)

lemma order_inv_add:
  assumes "spec_event L (add_event k n d rc) (Q, D) = Some (Q', D')" "order_inv h es (addresses h Q) (addresses h D) n"
    "distinct (map en_addr Q)" "\<forall>x\<in>set Q. en_addr x < n"
  shows "order_inv h (es @ [add_event k n d rc]) (addresses h Q') (addresses h D') (n + 1)"
proof (cases "to_head d")
  case True
  show ?thesis
  proof (cases "rc = MQTTASYNC_COMMAND_IGNORED")
    case ign: True
    then have "Q' = Q" "D' = D" using assms(1) True by (auto simp: add_event_def async_codes split: if_splits)
    then show ?thesis using ign True assms(2)
      by (auto intro!: order_inv_other simp: add_event_def async_codes)
  next
    case False
    then have r: "Q' = Entry k n (kind_of d) # Q" "D' = D" "rc = MQTTASYNC_SUCCESS"
      using assms(1) True by (auto simp: add_event_def split: if_splits)
    show ?thesis
    proof (cases "k = h")
      case same: True
      then show ?thesis using order_inv_front [OF assms(2), of "kind_of d"] True r by (simp add: add_event_def)
    next
      case other: False
      then show ?thesis using assms(2) True r by (auto intro!: order_inv_other simp: add_event_def)
    qed
  qed
next
  case False
  let ?e = "Entry k n (kind_of d)" and ?P = "publish_of_client k"
  have d: "distinct (map en_addr (Q @ [?e]))" using assms(3,4) by auto
  have app: "order_inv h (es @ [add_event k n d rc]) (addresses h (Q @ [?e])) (addresses h D) (n + 1)"
  proof (cases "k = h")
    case same: True
    then show ?thesis using order_inv_append [OF assms(2), of "kind_of d" rc] False by (simp add: add_event_def)
  next
    case other: False
    then show ?thesis using assms(2) False by (auto intro!: order_inv_other simp: add_event_def)
  qed
  show ?thesis
  proof (cases "kind_of d = PublishKind \<and> full (L k) (length (filter ?P Q))")
    case drop: True
    then have q: "Q' = remove_first ?P (Q @ [?e])" "D' = D @ take 1 (filter ?P (Q @ [?e]))"
      using assms(1) False by (auto simp: add_event_def Let_def split: if_splits)
    have "filter ?P (Q @ [?e]) \<noteq> []" using drop by (simp add: publish_of_client_def)
    then obtain x rest where x: "filter ?P (Q @ [?e]) = x # rest" by (cases "filter ?P (Q @ [?e])") auto
    then have "x \<in> set (filter ?P (Q @ [?e]))" by simp
    then have xk: "x \<in> set (Q @ [?e])" "en_client x = k" unfolding set_filter by (auto simp: publish_of_client_def)
    have D': "D' = D @ [x]" unfolding q(2) x by simp
    show ?thesis
    proof (cases "k = h")
      case same: True
      then have "en_addr x \<in> set (addresses h (Q @ [?e]))"
        using xk unfolding addresses_def set_map set_filter by blast
      from order_inv_drop [OF app this] show ?thesis
        unfolding q(1) D' addresses_removed [OF d x] using xk(2) same by simp
    next
      case other: False
      have "addresses h Q' = addresses h (Q @ [?e])"
        unfolding q(1) by (rule addresses_other [OF _ other]) (simp add: publish_of_client_def)
      then show ?thesis using app xk(2) other by (simp add: D')
    qed
  next
    case False': False
    then have "Q' = Q @ [?e]" "D' = D"
      using assms(1) False by (auto simp: add_event_def Let_def split: if_splits)
    then show ?thesis using app by simp
  qed
qed

lemma order_inv_take:
  assumes "spec_event L (Taken k a) (Q, D) = Some (Q', D')" "order_inv h es (addresses h Q) (addresses h D) n"
    "distinct (map en_addr Q)"
  shows "order_inv h (es @ [Taken k a]) (addresses h Q') (addresses h D') n"
proof -
  from assms(1) obtain x rest where x: "filter (\<lambda>x. en_client x = k) Q = x # rest" "en_addr x = a"
    "Q' = remove_first (\<lambda>x. en_client x = k) Q" "D' = D"
    by (auto split: list.splits if_splits)
  show ?thesis
  proof (cases "k = h")
    case True
    then have q: "addresses h Q = a # map en_addr rest" using x by (simp add: addresses_def)
    have "a \<notin> set (map en_addr rest)" using assms(2) unfolding q by (auto simp: order_inv_def)
    then have "addresses h Q' = map en_addr rest"
      unfolding x(3) addresses_removed [OF assms(3) x(1)] q x(2) by (auto simp: filter_id_conv)
    then show ?thesis using assms(2) True unfolding q x(4) by (auto simp: order_inv_def)
  next
    case False
    then have "addresses h Q' = addresses h Q" unfolding x(3) by (intro addresses_other) auto
    then show ?thesis using assms(2) False x(4) by (auto intro!: order_inv_other)
  qed
qed

lemma queue_run_order:
  assumes "queue_run A s0 es s" "list_lib_ok (l_commands A)" "queue_ok s0" "as_commands s0 = []"
  shows "\<exists>D. spec_events (limit_of (create_options s0)) es ([], []) = Some (queue_entries s, D) \<and>
    order_inv h es (client_queue s h) (addresses h D) (g_fresh s)"
  using assms
proof (induction rule: queue_run.induct)
  case start
  then show ?case by (simp add: order_inv_def events_of client_queue_def queue_entries_def)
next
  case (add es s k cmd rc s')
  then obtain D where i: "queue_ok s" "create_options s = create_options s0"
    "spec_events (limit_of (create_options s0)) es ([], []) = Some (queue_entries s, D)"
    "order_inv h es (client_queue s h) (addresses h D) (g_fresh s)"
    using queue_run_inv [OF add.hyps(1)] by auto
  from add_step [OF add.hyps(3) add.prems(1) i(1) add.hyps(2), of D] obtain D' where
    st: "spec_event (limit_of (create_options s)) (add_event k (g_fresh s) (cm_details cmd) rc) (queue_entries s, D) =
      Some (queue_entries s', D')" "g_fresh s' = g_fresh s + 1" by blast
  have d: "distinct (map en_addr (queue_entries s))" "\<forall>x\<in>set (queue_entries s). en_addr x < g_fresh s"
    using queue_okD(1,2) [OF i(1)] by (auto simp: queue_entries_def comp_def)
  from order_inv_add [OF st(1) i(4) [unfolded client_queue_addresses] d] st i(2,3) show ?case
    by (intro exI [of _ D']) (simp add: spec_events_append new_addr_def client_queue_addresses del: spec_event.simps)
next
  case (take es s q rc q' s')
  then obtain D where i: "queue_ok s"
    "spec_events (limit_of (create_options s0)) es ([], []) = Some (queue_entries s, D)"
    "order_inv h es (client_queue s h) (addresses h D) (g_fresh s)"
    using queue_run_inv [OF take.hyps(1)] by auto
  note st = take_step [OF take.hyps(2,3) take.prems(1) i(1), of "limit_of (create_options s0)" D]
  have "distinct (map en_addr (queue_entries s))" using queue_okD(1) [OF i(1)] by (simp add: queue_entries_def comp_def)
  from order_inv_take [OF conjunct2 [OF conjunct2 [OF conjunct2 [OF st]]] i(3) [unfolded client_queue_addresses] this] st i(2)
  show ?case
    by (intro exI [of _ D]) (simp add: spec_events_append client_queue_addresses del: spec_event.simps)
qed


subsection \<open>Claims\<close>

text \<open>
  C6: Every run of the queue, whatever is added and taken, is the run of the abstract queue on the same
  commands. The machine says all of it: a command enters at the end; a publish that finds the limit of
  its client reached takes the place of the oldest publish of this client, and nothing else is ever given
  up; a connection command enters in front, unless one of its client is first, and then the caller is
  told so; what is taken is the first command of its client.
\<close>

theorem queue_refines:
  assumes "queue_run A s0 es s" "list_lib_ok (l_commands A)" "queue_ok s0"
  shows "\<exists>D. spec_events (limit_of (create_options s0)) es (queue_entries s0, []) = Some (queue_entries s, D)"
  using queue_run_inv [OF assms] by blast

text \<open>
  C7: In every run from an empty queue, no command of a client is lost and none is taken twice: those
  taken, those that wait and those the abstract queue gave up (publishes, each the oldest when the limit
  was reached) are, each once, those that were appended or put in front. The appended ones are
  taken in the order in which they were added. A client whose handle sets no limit loses nothing.
\<close>

theorem commands_in_order:
  assumes "queue_run A s0 es s" "list_lib_ok (l_commands A)" "queue_ok s0" "as_commands s0 = []"
  shows "\<exists>D. spec_events (limit_of (create_options s0)) es ([], []) = Some (queue_entries s, D) \<and>
    distinct (taken h es @ client_queue s h @ addresses h D) \<and>
    set (taken h es @ client_queue s h @ addresses h D) = set (appended h es) \<union> set (fronted h es) \<and>
    filter (\<lambda>x. x \<in> set (appended h es)) (taken h es @ client_queue s h) =
      filter (\<lambda>x. x \<notin> set (addresses h D)) (appended h es) \<and>
    (\<forall>x\<in>set D. en_kind x = PublishKind) \<and> (limit_of (create_options s0) h = None \<longrightarrow> addresses h D = [])"
proof -
  from queue_run_order [OF assms, of h] obtain D where
    D: "spec_events (limit_of (create_options s0)) es ([], []) = Some (queue_entries s, D)"
    "order_inv h es (client_queue s h) (addresses h D) (g_fresh s)" by blast
  with spec_events_given_up [OF D(1)] show ?thesis unfolding order_inv_def by auto
qed

text \<open>
  C18: The queue keeps its type in every run: no two commands have the same address and none has an
  address that is still to be given, every command belongs to a handle of the library, and every
  handle counts exactly the publishes that wait in the queue for it.
\<close>

theorem queue_typed:
  assumes "queue_run A s0 es s" "list_lib_ok (l_commands A)" "queue_ok s0"
  shows "distinct (map qc_addr (as_commands s)) \<and>
    (\<forall>q\<in>set (as_commands s). qc_addr q < g_fresh s \<and> qc_client q < length (as_handles s)) \<and>
    (\<forall>h<length (as_handles s). MQTTAsync_getNoBufferedMessages h s = int (buffered h (as_commands s)))"
  using queue_run_inv [OF assms] by (auto simp: queue_ok_def MQTTAsync_getNoBufferedMessages_def)


subsection \<open>An example\<close>

definition sample_cmd :: MQTTAsync_command where
  "sample_cmd = zero_command\<lparr>cm_token := 1, cm_details := PublishCmd (Some [97]) 0 None 1 0\<rparr>"

definition sample_queued :: "nat \<Rightarrow> MQTTAsync_queuedCommand" where
  "sample_queued a = new_queued a 0 (sample_cmd\<lparr>cm_start_time := MQTTTime_start_clock \<lparr>ts_sec = 0, ts_nsec = 0\<rparr>\<rparr>)"

definition bounded_queue :: "MQTTAsync_createOptions option \<Rightarrow> nat list \<Rightarrow> nat \<Rightarrow> (unit, unit) asys" where
  "bounded_queue opts as n = (one_async blank_client ())\<lparr>g_fresh := n, as_commands := map sample_queued as,
     as_handles := [zero_async\<lparr>h_noBufferedMessages := int (length as), h_createOptions := opts\<rparr>]\<rparr>"

definition sample_queue :: "nat list \<Rightarrow> nat \<Rightarrow> (unit, unit) asys" where
  "sample_queue = bounded_queue None"

definition two_buffered :: MQTTAsync_createOptions where
  "two_buffered = \<lparr>ao_struct_id = map (\<lambda>c. of_char c) ''MQCO'', ao_struct_version = 2, ao_sendWhileDisconnected = 1,
     ao_maxBufferedMessages = 2, ao_MQTTVersion = 4, ao_allowDisconnectedSendAtAnyTime = 1, ao_deleteOldestMessages = 1,
     ao_restoreMessages = 1, ao_persistQoS0 = 1\<rparr>"

lemmas sample_defs = sample_queue_def bounded_queue_def sample_queued_def sample_cmd_def new_queued_def zero_command_def
  one_async_def blank_client_def zero_async_def std_async_def std_env_def null_net_def std_lists_def upd_async_def

lemma sample_add:
  assumes "\<not> full (map_option ao_maxBufferedMessages opts) (length as)"
  shows "MQTTAsync_addCommand std_async (new_queued (fst (new_addr (bounded_queue opts as n))) 0 sample_cmd)
      (snd (new_addr (bounded_queue opts as n))) = Inr (MQTTASYNC_SUCCESS, bounded_queue opts (as @ [n]) (n + 1))"
  using assms
  by (simp add: MQTTAsync_addCommand_def start_clock_def new_addr_def add_to_end_def persist_added_def count_buffered_def
      buffer_full_def full_def sample_defs split: option.splits)

lemma sample_add_full:
  "MQTTAsync_addCommand std_async (new_queued (fst (new_addr (bounded_queue (Some two_buffered) [0, 1] 2))) 0 sample_cmd)
      (snd (new_addr (bounded_queue (Some two_buffered) [0, 1] 2))) =
    Inr (MQTTASYNC_SUCCESS, bounded_queue (Some two_buffered) [1, 2] 3)"
  by (simp add: MQTTAsync_addCommand_def start_clock_def new_addr_def add_to_end_def persist_added_def count_buffered_def
      buffer_full_def drop_oldest_def detach_def MQTTAsync_freeCommand_def MQTTProperties_free_def entries_def
      MQTTProperties_initializer_def two_buffered_def Let_def sample_defs)

lemma sample_choose:
  "choose_command std_async (bounded_queue opts (a # as) n) [] (as_commands (bounded_queue opts (a # as) n)) = Some (sample_queued a)"
  by (simp add: ready_def is_connection_def NOT_IN_PROGRESS_def MAX_MSG_ID_def sample_defs)

lemma sample_take:
  "a \<notin> set as \<Longrightarrow> take_command std_async (sample_queued a) (bounded_queue opts (a # as) n) =
    Inr (0, sample_queued a, bounded_queue opts as n)"
  by (simp add: take_command_def detach_def sample_defs)

lemma sample_queue_ok: "queue_ok (bounded_queue opts [] n)"
  by (simp add: queue_ok_def sample_defs PERSISTENCE_SEQNO_LIMIT_def)

lemma sample_view [simp]:
  "length (as_handles (bounded_queue opts as n)) = 1" "client_queue (bounded_queue opts as n) 0 = as"
  "as_commands (bounded_queue opts [] n) = []" "g_fresh (bounded_queue opts as n) = n"
  "create_options (bounded_queue opts as n) = [opts]"
  by (simp_all add: client_queue_def sample_defs comp_def create_options_def)

lemma sample_event: "add_event 0 n (cm_details sample_cmd) MQTTASYNC_SUCCESS = ToEnd (Entry 0 n PublishKind) MQTTASYNC_SUCCESS"
  by (simp add: add_event_def to_head_def kind_of_def sample_defs)

lemma sample_queued_entry: "qc_client (sample_queued a) = 0" "qc_addr (sample_queued a) = a"
  by (simp_all add: sample_queued_def new_queued_def)

lemma sample_run_add:
  assumes "queue_run std_async s0 es (bounded_queue opts as n)"
    "\<not> full (map_option ao_maxBufferedMessages opts) (length as)"
  shows "queue_run std_async s0 (es @ [ToEnd (Entry 0 n PublishKind) MQTTASYNC_SUCCESS]) (bounded_queue opts (as @ [n]) (n + 1))"
  using queue_run.add [OF assms(1) _ sample_add [OF assms(2)]] by (simp add: new_addr_def sample_event)

lemma sample_run_take:
  assumes "queue_run std_async s0 es (bounded_queue opts (a # as) n)" "a \<notin> set as"
  shows "queue_run std_async s0 (es @ [Taken 0 a]) (bounded_queue opts as n)"
  using queue_run.take [OF assms(1) sample_choose sample_take [OF assms(2)]] by (simp add: sample_queued_entry)

lemma sample_run:
  "queue_run std_async (sample_queue [] 0)
    [ToEnd (Entry 0 0 PublishKind) MQTTASYNC_SUCCESS, ToEnd (Entry 0 1 PublishKind) MQTTASYNC_SUCCESS, Taken 0 0] (sample_queue [1] 2)"
proof -
  have f: "\<not> full (map_option ao_maxBufferedMessages None) k" for k by (simp add: full_def)
  from sample_run_add [OF sample_run_add [OF queue_run.start f, of "[]" 0] f]
  have "queue_run std_async (bounded_queue None [] 0) [ToEnd (Entry 0 0 PublishKind) MQTTASYNC_SUCCESS,
      ToEnd (Entry 0 1 PublishKind) MQTTASYNC_SUCCESS] (bounded_queue None [0, 1] 2)" by (simp add: numeral_2_eq_2)
  from sample_run_take [OF this] show ?thesis by (simp add: sample_queue_def)
qed

text \<open>With room for two messages the third takes the place of the first; then the second is taken.\<close>

definition full_run :: "queue_event list" where
  "full_run = [ToEnd (Entry 0 0 PublishKind) MQTTASYNC_SUCCESS, ToEnd (Entry 0 1 PublishKind) MQTTASYNC_SUCCESS,
     ToEnd (Entry 0 2 PublishKind) MQTTASYNC_SUCCESS, Taken 0 1]"

lemma sample_full_run: "queue_run std_async (bounded_queue (Some two_buffered) [] 0) full_run (bounded_queue (Some two_buffered) [2] 3)"
proof -
  let ?o = "Some two_buffered"
  have f: "\<not> full (map_option ao_maxBufferedMessages ?o) 0" "\<not> full (map_option ao_maxBufferedMessages ?o) 1"
    by (simp_all add: full_def two_buffered_def)
  from sample_run_add [OF queue_run.start, of ?o "[]" 0] f(1)
  have "queue_run std_async (bounded_queue ?o [] 0) [ToEnd (Entry 0 0 PublishKind) MQTTASYNC_SUCCESS] (bounded_queue ?o [0] 1)"
    by simp
  from sample_run_add [OF this] f(2)
  have r: "queue_run std_async (bounded_queue ?o [] 0) [ToEnd (Entry 0 0 PublishKind) MQTTASYNC_SUCCESS,
      ToEnd (Entry 0 1 PublishKind) MQTTASYNC_SUCCESS] (bounded_queue ?o [0, 1] 2)" by (simp add: numeral_2_eq_2)
  from queue_run.add [OF r _ sample_add_full]
  have "queue_run std_async (bounded_queue ?o [] 0) [ToEnd (Entry 0 0 PublishKind) MQTTASYNC_SUCCESS,
      ToEnd (Entry 0 1 PublishKind) MQTTASYNC_SUCCESS, ToEnd (Entry 0 2 PublishKind) MQTTASYNC_SUCCESS] (bounded_queue ?o [1, 2] 3)"
    by (simp add: new_addr_def sample_event)
  from sample_run_take [OF this] show ?thesis by (simp add: full_run_def)
qed

lemma std_async_lists: "list_lib_ok (l_commands std_async)"
  by (simp add: std_async_def)

lemma sample_spec:
  "spec_events (limit_of [Some two_buffered]) full_run ([], []) = Some ([Entry 0 2 PublishKind], [Entry 0 0 PublishKind])"
  by (simp add: full_run_def Let_def publish_of_client_def full_def limit_of_def two_buffered_def)

theorem queue_refines_witness:
  "queue_entries (bounded_queue (Some two_buffered) [2] 3) = [Entry 0 2 PublishKind] \<and>
    (\<exists>D. spec_events (limit_of [Some two_buffered]) full_run ([], []) = Some ([Entry 0 2 PublishKind], D))"
proof -
  have e: "queue_entries (bounded_queue (Some two_buffered) [] 0) = []" by (simp add: queue_entries_def)
  from queue_refines [OF sample_full_run std_async_lists sample_queue_ok] show ?thesis
    by (simp add: e sample_spec)
qed

theorem commands_in_order_witness:
  "taken 0 full_run = [1] \<and> appended 0 full_run = [0, 1, 2] \<and>
    filter (\<lambda>x. x \<in> {0, 1, 2}) [1, 2] = filter (\<lambda>x. x \<notin> {0}) [0, 1, 2 :: nat]"
proof -
  have t: "taken 0 full_run = [1]" "appended 0 full_run = [0, 1, 2]" by (simp_all add: full_run_def events_of)
  from commands_in_order [OF sample_full_run std_async_lists sample_queue_ok, of 0] show ?thesis
    by (auto simp: t sample_spec)
qed

theorem queue_typed_witness:
  "distinct (map qc_addr (as_commands (sample_queue [1] 2))) \<and> MQTTAsync_getNoBufferedMessages 0 (sample_queue [1] 2) = 1"
proof -
  have "queue_ok (sample_queue [] 0)" by (simp add: sample_queue_def sample_queue_ok)
  from queue_typed [OF sample_run std_async_lists this] have
    q: "distinct (map qc_addr (as_commands (sample_queue [1] 2)))" "\<forall>h<length (as_handles (sample_queue [1] 2)).
      MQTTAsync_getNoBufferedMessages h (sample_queue [1] 2) = int (buffered h (as_commands (sample_queue [1] 2)))" by blast+
  have "buffered 0 (as_commands (sample_queue [1] 2)) = 1" by (simp add: sample_defs)
  moreover have "length (as_handles (sample_queue [1] 2)) = 1" by (simp add: sample_queue_def)
  ultimately show ?thesis using q by simp
qed

end
