(* ===== verification/AsyncRequests.thy ===== *)
theory AsyncRequests
  imports AsyncQueue
begin

section \<open>Requests to the asynchronous client\<close>

text \<open>
  The message ids that are given to requests, what an accepted message becomes, what the answers of the
  functions for tokens mean, the intervals between attempts to connect, and what is told of requests
  that are discarded.
\<close>

subsection \<open>Message ids\<close>

text \<open>
  The loop is the one of \<^verbatim>\<open>MQTTProtocol_assignMsgId\<close> with another test, so it behaves as that one does for a
  client whose messages have the ids that are in use.
\<close>

lemma next_id_range: "1 \<le> m \<and> m \<le> 65535 \<Longrightarrow> 1 \<le> next_id m \<and> next_id m \<le> 65535"
  by (simp add: next_id_def MAX_MSG_ID_def)

lemma free_id_loop_some:
  assumes "\<forall>m. 1 \<le> m \<and> m \<le> 65535 \<longrightarrow> used m = (ListFindItem L out (messageIDCompare m) \<noteq> None)"
    and "free_id_loop used st m = Some y" "1 \<le> m \<and> m \<le> 65535"
  shows "assign_loop L out st m = Some y"
proof -
  let ?P = "\<lambda>u st m y. u = used \<longrightarrow> 1 \<le> m \<and> m \<le> 65535 \<longrightarrow> assign_loop L out st m = Some y"
  have "?P used st m y"
  proof (rule free_id_loop.raw_induct [where P = ?P, OF _ assms(2)])
    fix f u st m y
    assume IH: "\<And>u st m y. f u st m = Some y \<Longrightarrow> ?P u st m y"
      and eq: "(if \<not> u m then Some m else let m' = next_id m in if m' = st then Some 0 else f u st m') = Some y"
    show "?P u st m y"
    proof (intro impI)
      assume u: "u = used" and r: "1 \<le> m \<and> m \<le> 65535"
      show "assign_loop L out st m = Some y"
        using eq IH [of used st "next_id m"] next_id_range [OF r] assms(1) r unfolding u
        by (subst assign_loop.simps) (auto simp: Let_def split: if_splits)
    qed
  qed
  with assms(3) show ?thesis by blast
qed

lemma assign_loop_some:
  assumes "\<forall>m. 1 \<le> m \<and> m \<le> 65535 \<longrightarrow> used m = (ListFindItem L out (messageIDCompare m) \<noteq> None)"
    and "assign_loop L out st m = Some y" "1 \<le> m \<and> m \<le> 65535"
  shows "free_id_loop used st m = Some y"
proof -
  let ?P = "\<lambda>L' out' st m y. L' = L \<longrightarrow> out' = out \<longrightarrow> 1 \<le> m \<and> m \<le> 65535 \<longrightarrow> free_id_loop used st m = Some y"
  have "?P L out st m y"
  proof (rule assign_loop.raw_induct [where P = ?P, OF _ assms(2)])
    fix f L' out' st m y
    assume IH: "\<And>L' out' st m y. f L' out' st m = Some y \<Longrightarrow> ?P L' out' st m y"
      and eq: "(if ListFindItem L' out' (messageIDCompare m) = None then Some m
        else let m' = next_id m in if m' = st then Some 0 else f L' out' st m') = Some y"
    show "?P L' out' st m y"
    proof (intro impI)
      assume u: "L' = L" "out' = out" and r: "1 \<le> m \<and> m \<le> 65535"
      show "free_id_loop used st m = Some y"
        using eq IH [of L out st "next_id m"] next_id_range [OF r] assms(1) r unfolding u
        by (subst free_id_loop.simps) (auto simp: Let_def split: if_splits)
    qed
  qed
  with assms(3) show ?thesis by blast
qed

lemma free_id_loop_eq:
  assumes "\<forall>m. 1 \<le> m \<and> m \<le> 65535 \<longrightarrow> used m = (ListFindItem L out (messageIDCompare m) \<noteq> None)" "1 \<le> m \<and> m \<le> 65535"
  shows "free_id_loop used st m = assign_loop L out st m"
proof (cases "free_id_loop used st m")
  case None
  then show ?thesis using assign_loop_some [OF assms(1) _ assms(2), of st]
    by (cases "assign_loop L out st m") auto
next
  case (Some y)
  with free_id_loop_some [OF assms(1) Some assms(2)] show ?thesis by simp
qed

text \<open>A client that has a message of every id in use.\<close>

definition message_of :: "int \<Rightarrow> Messages" where
  "message_of m = \<lparr>ms_qos = 1, ms_retain = 0, ms_msgid = m, ms_MQTTVersion = 4, ms_properties = None,
     ms_publish = None, ms_lastTouch = START_TIME_ZERO, ms_nextMessageType = None\<rparr>"

lemma assign_async_cases:
  assumes "0 \<le> c_msgID (g_clients s ! h)" "c_msgID (g_clients s ! h) \<le> MAX_MSG_ID"
  shows "case MQTTAsync_assignMsgId A h s of
      None \<Rightarrow> c_msgID (g_clients s ! h) = 0 \<and> (\<forall>m. 1 \<le> m \<and> m \<le> MAX_MSG_ID \<longrightarrow> id_in_use A h s m)
    | Some (msgid, s') \<Rightarrow>
        if msgid = 0 then s' = s \<and> c_msgID (g_clients s ! h) \<noteq> 0 \<and>
          (\<forall>m. 1 \<le> m \<and> m \<le> MAX_MSG_ID \<and> m \<noteq> c_msgID (g_clients s ! h) \<longrightarrow> id_in_use A h s m)
        else 1 \<le> msgid \<and> msgid \<le> MAX_MSG_ID \<and> \<not> id_in_use A h s msgid \<and>
          s' = upd_client h (\<lambda>c. c\<lparr>c_msgID := msgid\<rparr>) s"
proof -
  let ?c = "g_clients s ! h" and ?used = "id_in_use A h s"
  define c where "c = ?c\<lparr>c_outboundMsgs := map message_of (filter ?used [1..65535])\<rparr>"
  have u: "in_use c m = ?used m" if "1 \<le> m \<and> m \<le> 65535" for m
    using that by (auto simp: in_use_def c_def message_of_def)
  have e: "\<forall>m. 1 \<le> m \<and> m \<le> 65535 \<longrightarrow>
      ?used m = (ListFindItem std_lists (c_outboundMsgs c) (messageIDCompare m) \<noteq> None)"
    using u find_id [OF std_lists_ok, of c] by auto
  have i: "c_msgID c = c_msgID ?c" by (simp add: c_def)
  have r: "1 \<le> next_id (c_msgID ?c) \<and> next_id (c_msgID ?c) \<le> 65535"
    using assms by (simp add: next_id_def MAX_MSG_ID_def)
  have l: "free_id_loop ?used (c_msgID ?c) (next_id (c_msgID ?c)) =
      assign_loop std_lists (c_outboundMsgs c) (c_msgID c) (next_id (c_msgID c))"
    unfolding i by (rule free_id_loop_eq [OF e r])
  have m: "1 \<le> m \<and> m \<le> MAX_MSG_ID \<Longrightarrow> in_use c m = ?used m" for m using u by (simp add: MAX_MSG_ID_def)
  have "0 \<le> c_msgID c" "c_msgID c \<le> MAX_MSG_ID" using assms i by simp_all
  note a = assignMsgId_cases [OF std_lists_ok this, unfolded MQTTProtocol_assignMsgId_def Let_def l [symmetric]]
  show ?thesis
  proof (cases "free_id_loop ?used (c_msgID ?c) (next_id (c_msgID ?c))")
    case None
    then have "MQTTAsync_assignMsgId A h s = None" by (simp add: MQTTAsync_assignMsgId_def)
    moreover from a None have "c_msgID ?c = 0" "\<forall>m. 1 \<le> m \<and> m \<le> MAX_MSG_ID \<longrightarrow> ?used m"
      using m i by simp_all
    ultimately show ?thesis by simp
  next
    case (Some msgid)
    then have e: "MQTTAsync_assignMsgId A h s = Some (msgid, if msgid \<noteq> 0 then upd_client h (\<lambda>c. c\<lparr>c_msgID := msgid\<rparr>) s else s)"
      by (simp add: MQTTAsync_assignMsgId_def)
    show ?thesis
    proof (cases "msgid = 0")
      case True
      from a Some True have "c_msgID ?c \<noteq> 0" "\<forall>m. 1 \<le> m \<and> m \<le> MAX_MSG_ID \<and> m \<noteq> c_msgID ?c \<longrightarrow> ?used m"
        using m i by simp_all
      then show ?thesis unfolding e using True by simp
    next
      case False
      from a Some False have "1 \<le> msgid" "msgid \<le> MAX_MSG_ID" "\<not> in_use c msgid" by simp_all
      then show ?thesis unfolding e using False m [of msgid] by simp
    qed
  qed
qed

text \<open>
  C29: \<^verbatim>\<open>MQTTAsync_assignMsgId\<close> never gives out an id that a queued command of any client, a message in
  flight or a response that is awaited has; it gives 0, changing nothing, only when every id but possibly
  the last one is in use, and it fails to return exactly when all are in use and none was given before.
\<close>

theorem async_id_unused:
  assumes "list_lib_ok (l_commands A)" "list_lib_ok (l_msgs (e_lists (a_env A)))"
    "0 \<le> c_msgID (g_clients s ! h)" "c_msgID (g_clients s ! h) \<le> MAX_MSG_ID"
  defines "taken_ids \<equiv> set (map qc_token (as_commands s) @ map ms_msgid (c_outboundMsgs (g_clients s ! h)) @
    map qc_token (h_responses (as_handles s ! h)))"
  shows "case MQTTAsync_assignMsgId A h s of
      None \<Rightarrow> c_msgID (g_clients s ! h) = 0 \<and> {1..MAX_MSG_ID} \<subseteq> taken_ids
    | Some (msgid, s') \<Rightarrow>
        if msgid = 0 then s' = s \<and> c_msgID (g_clients s ! h) \<noteq> 0 \<and> {1..MAX_MSG_ID} - {c_msgID (g_clients s ! h)} \<subseteq> taken_ids
        else msgid \<in> {1..MAX_MSG_ID} - taken_ids \<and> s' = upd_client h (\<lambda>c. c\<lparr>c_msgID := msgid\<rparr>) s"
proof -
  have u: "id_in_use A h s m \<longleftrightarrow> m \<in> taken_ids" for m
    by (auto simp: id_in_use_def taken_ids_def cmdMessageIDCompare_def messageIDCompare_def list_libD(4) [OF assms(1)]
        list_libD(4) [OF assms(2)])
  from assign_async_cases [OF assms(3,4), of A] show ?thesis
    by (auto simp: u split: option.splits prod.splits if_splits)
qed


subsection \<open>Sending\<close>





subsection \<open>Connecting again\<close>

text \<open>As many failures of a connection after another, with nothing else in between.\<close>

fun failed_attempts :: "('n, 'f) async_api \<Rightarrow> nat \<Rightarrow> nat \<Rightarrow> ('n, 'f) asys \<Rightarrow> ub + ('n, 'f) asys" where
  "failed_attempts A h 0 s = Inr s"
| "failed_attempts A h (Suc n) s = ub_bind (failed_attempts A h n s) (MQTTAsync_startConnectRetry A h)"

definition retry_settings :: "MQTTAsyncs \<Rightarrow> bool \<times> bool \<times> int \<times> int" where
  "retry_settings m = (h_automaticReconnect m, h_shouldBeConnected m, h_minRetryInterval m, h_maxRetryInterval m)"

lemma sleep_range:
  assumes "0 < mn" "mn \<le> base" "base \<le> mx" "mx \<le> 1073741823"
  shows "max_sleep mx base = base * 6 div 5" "min_sleep mn base = base * 5 div 6"
    "base * 5 div 6 < base * 6 div 5" "base * 6 div 5 \<le> 1288490187"
proof -
  show "max_sleep mx base = base * 6 div 5" "min_sleep mn base = base * 5 div 6"
    using assms by (simp_all add: max_sleep_def min_sleep_def signed_divide_int_def sgn_if)
  have m: "0 \<le> base * 5 mod 6" "base * 5 mod 6 < 6" "0 \<le> base * 6 mod 5" "base * 6 mod 5 < 5" by simp_all
  note d = div_mult_mod_eq [of "base * 5" 6] div_mult_mod_eq [of "base * 6" 5]
  have "base * 5 div 6 < base" "base \<le> base * 6 div 5" using assms(1,2) m d by linarith+
  then show "base * 5 div 6 < base * 6 div 5" by linarith
  show "base * 6 div 5 \<le> 1288490187" using assms m d by linarith
qed

lemma randomJitter_ok:
  assumes "0 < mn" "mn \<le> base" "base \<le> mx" "mx \<le> 1073741823" "\<And>k n. 0 < k \<Longrightarrow> fst (a_rand_below A k n) < k"
  shows "\<exists>i n. MQTTAsync_randomJitter A base mn mx s = Inr (i, s\<lparr>g_net := n\<rparr>) \<and> base * 5 div 6 \<le> i \<and> i \<le> base * 6 div 5"
proof -
  let ?hi = "base * 6 div 5" and ?lo = "base * 5 div 6"
  note r = sleep_range [OF assms(1-4)]
  define rng where "rng = ?hi - ?lo + 1"
  define buckets where "buckets = RAND_MAX div rng"
  have rng: "0 < rng" "rng \<le> 1288490188" using r(3,4) assms(1,2) unfolding rng_def by linarith+
  have b: "0 < buckets" unfolding buckets_def RAND_MAX_def using rng by (simp add: pos_imp_zdiv_pos_iff)
  obtain x n where x: "a_rand_below A (nat (buckets * rng)) (g_net s) = (x, n)" by (cases "a_rand_below A (nat (buckets * rng)) (g_net s)")
  have "0 < buckets * rng" using b rng by simp
  then have "x < nat (buckets * rng)" using assms(5) [of "nat (buckets * rng)" "g_net s"] x by simp
  then have "int x < rng * buckets" using \<open>0 < buckets * rng\<close> by (simp add: zless_nat_eq_int_zless mult.commute)
  moreover have "int x div buckets * buckets \<le> int x"
    using pos_mod_sign [OF b, of "int x"] by (simp flip: minus_mod_eq_div_mult)
  ultimately have "int x div buckets * buckets < rng * buckets" by linarith
  then have d: "int x div buckets < rng" using b by (simp add: mult_less_cancel_right)
  have d0: "0 \<le> int x div buckets" using b by (simp add: pos_imp_zdiv_nonneg_iff)
  have e: "MQTTAsync_randomJitter A base mn mx s = Inr (?lo + int x div buckets, s\<lparr>g_net := n\<rparr>)"
    using r rng x unfolding MQTTAsync_randomJitter_def r(1,2) Let_def rng_def [symmetric] buckets_def [symmetric] by simp
  show ?thesis using d d0 unfolding rng_def
    by (intro exI [of _ "?lo + int x div buckets"] exI [of _ n]) (simp add: e)
qed

lemma startConnectRetry_ok:
  assumes "0 < mn" "mn \<le> mx" "mx \<le> 1073741823" "\<And>k n. 0 < k \<Longrightarrow> fst (a_rand_below A k n) < k" "h < length (as_handles s)"
    "retry_settings (as_handles s ! h) = (True, True, mn, mx)"
    "h_retrying (as_handles s ! h) \<Longrightarrow> mn \<le> h_currentIntervalBase (as_handles s ! h) \<and> h_currentIntervalBase (as_handles s ! h) \<le> mx"
  defines "base \<equiv> (if h_retrying (as_handles s ! h) then min (h_currentIntervalBase (as_handles s ! h) * 2) mx else mn)"
  shows "\<exists>s'. MQTTAsync_startConnectRetry A h s = Inr s' \<and> length (as_handles s') = length (as_handles s) \<and>
    retry_settings (as_handles s' ! h) = (True, True, mn, mx) \<and> h_retrying (as_handles s' ! h) \<and>
    h_currentIntervalBase (as_handles s' ! h) = base \<and> base * 5 div 6 \<le> h_currentInterval (as_handles s' ! h) \<and>
    h_currentInterval (as_handles s' ! h) \<le> base * 6 div 5"
proof -
  let ?m = "as_handles s ! h"
  have m: "h_automaticReconnect ?m" "h_shouldBeConnected ?m" "h_minRetryInterval ?m = mn" "h_maxRetryInterval ?m = mx"
    using assms(6) by (simp_all add: retry_settings_def)
  have b: "mn \<le> base" "base \<le> mx" using assms(1,2,7) by (auto simp: base_def)
  obtain t s1 where t: "start_clock A s = (t, s1)" by (cases "start_clock A s")
  have s1: "as_handles s1 = as_handles s" using t by (auto simp: start_clock_def split: prod.splits)
  from randomJitter_ok [OF assms(1) b assms(3,4), of s1] obtain i n where
    j: "MQTTAsync_randomJitter A base mn mx s1 = Inr (i, s1\<lparr>g_net := n\<rparr>)" "base * 5 div 6 \<le> i" "i \<le> base * 6 div 5" by blast
  let ?s = "upd_async h (\<lambda>m. m\<lparr>h_lastConnectionFailedTime := t, h_currentIntervalBase := base,
              h_retrying := True, h_currentInterval := i\<rparr>) (s1\<lparr>g_net := n\<rparr>)"
  have o: "\<not> (h_retrying ?m \<and> h_currentIntervalBase ?m * 2 > 2147483647)" using assms(3,7) by auto
  have "MQTTAsync_startConnectRetry A h s = Inr ?s"
    using j(1) m o unfolding base_def
    by (cases "h_retrying ?m") (simp_all add: MQTTAsync_startConnectRetry_def t Let_def)
  then show ?thesis using j(2,3) assms(5) m s1
    by (intro exI [of _ ?s]) (simp add: upd_async_def retry_settings_def)
qed

text \<open>
  C20: With automatic reconnection the interval to the next attempt doubles with every failed one, from the
  minimum up to the maximum of the options, and what is waited is that interval with a jitter between
  5/6 and 6/5 of it; nothing overflows for a maximum below 2^30 seconds.
\<close>

theorem retry_backoff:
  assumes "0 < mn" "mn \<le> mx" "mx \<le> 1073741823" "\<And>k n. 0 < k \<Longrightarrow> fst (a_rand_below A k n) < k" "h < length (as_handles s)"
    "retry_settings (as_handles s ! h) = (True, True, mn, mx)" "\<not> h_retrying (as_handles s ! h)"
  shows "\<exists>s'. failed_attempts A h (Suc n) s = Inr s' \<and> h_currentIntervalBase (as_handles s' ! h) = min (mn * 2 ^ n) mx \<and>
    min (mn * 2 ^ n) mx * 5 div 6 \<le> h_currentInterval (as_handles s' ! h) \<and>
    h_currentInterval (as_handles s' ! h) \<le> min (mn * 2 ^ n) mx * 6 div 5"
proof -
  have "\<exists>s'. failed_attempts A h (Suc n) s = Inr s' \<and> length (as_handles s') = length (as_handles s) \<and>
    retry_settings (as_handles s' ! h) = (True, True, mn, mx) \<and> h_retrying (as_handles s' ! h) \<and>
    h_currentIntervalBase (as_handles s' ! h) = min (mn * 2 ^ n) mx \<and>
    min (mn * 2 ^ n) mx * 5 div 6 \<le> h_currentInterval (as_handles s' ! h) \<and>
    h_currentInterval (as_handles s' ! h) \<le> min (mn * 2 ^ n) mx * 6 div 5"
  proof (induction n)
    case 0
    from startConnectRetry_ok [OF assms(1-6)] assms(2,7) show ?case by simp
  next
    case (Suc n)
    then obtain s1 where s1: "failed_attempts A h (Suc n) s = Inr s1" "length (as_handles s1) = length (as_handles s)"
      "retry_settings (as_handles s1 ! h) = (True, True, mn, mx)" "h_retrying (as_handles s1 ! h)"
      "h_currentIntervalBase (as_handles s1 ! h) = min (mn * 2 ^ n) mx" by blast
    have p: "mn \<le> mn * 2 ^ n" using assms(1) by simp
    have d: "min (min (mn * 2 ^ n) mx * 2) mx = min (mn * 2 ^ Suc n) mx" using assms(1,2) by (auto simp: min_def)
    have "mn \<le> min (mn * 2 ^ n) mx" using p assms(2) by simp
    with startConnectRetry_ok [OF assms(1-4), of h s1] s1 assms(5) show ?case by (simp add: d [simplified])
  qed
  then show ?thesis by blast
qed


subsection \<open>Acknowledgements\<close>

text \<open>The functions of the protocol module leave what the asynchronous client keeps beside it alone.\<close>

lemma async_more:
  assumes "sys.more s' = sys.more s"
  shows "as_calls s' = as_calls s" "as_handles s' = as_handles s" "as_commands s' = as_commands s"
  using assms by (cases s; cases s'; simp)+

lemma drop_pub_more: "sys.more (drop_pub E a s) = sys.more s"
  by (simp add: drop_pub_def split: option.splits)

lemma removePublication_more:
  "MQTTProtocol_removePublication E p s = Inr s' \<Longrightarrow> sys.more s' = sys.more s"
  by (auto simp: MQTTProtocol_removePublication_def set_pub_def ub_bind_Inr_iff Let_def drop_pub_more
      split: option.splits if_splits)

lemma finish_outbound_more:
  "finish_outbound E i k m v msgId b s = Inr (rc, removed, s') \<Longrightarrow> sys.more s' = sys.more s"
  by (auto simp: finish_outbound_def ub_bind_Inr_iff upd_client_def Let_def dest: removePublication_more
      split: prod.splits if_splits)

lemma handlePubacks_more:
  "MQTTProtocol_handlePubacks E a sock b s = Inr (rc, removed, s') \<Longrightarrow> sys.more s' = sys.more s"
  by (auto simp: MQTTProtocol_handlePubacks_def ub_bind_Inr_iff Let_def dest: finish_outbound_more
      split: option.splits if_splits)

lemma handlePubcomps_more:
  "MQTTProtocol_handlePubcomps E a sock b s = Inr (rc, removed, s') \<Longrightarrow> sys.more s' = sys.more s"
  by (auto simp: MQTTProtocol_handlePubcomps_def ub_bind_Inr_iff Let_def dest!: finish_outbound_more
      split: option.splits if_splits)

lemma freeCommand_more: "MQTTAsync_freeCommand A q s = Inr s' \<Longrightarrow> sys.more s' = sys.more s"
  by (auto simp: MQTTAsync_freeCommand_def ub_bind_Inr_iff drop_pub_more split: details.splits option.splits if_splits)

definition completion_call :: "nat \<Rightarrow> MQTTAsync_command \<Rightarrow> async_call list" where
  "completion_call h cmd =
     (if cm_onSuccess cmd then [OnSuccess h (cm_context cmd) (cm_token cmd) (publish_data (cm_details cmd))]
      else if cm_onSuccess5 cmd then [OnSuccess5 h (cm_context cmd) (cm_token cmd) 0 (publish_data (cm_details cmd))]
      else [])"

lemma publish_call_ok:
  "publish_call h 0 cmd s = Inr s' \<longleftrightarrow> s' = s\<lparr>as_calls := as_calls s @ completion_call h cmd\<rparr> \<and>
    (is_publish (cm_details cmd) \<or> \<not> cm_onSuccess cmd \<and> \<not> cm_onSuccess5 cmd)"
  by (auto simp: publish_call_def completion_call_def log_async_def)

lemma publish_call_publish:
  "is_publish (cm_details cmd) \<Longrightarrow> publish_call h 0 cmd s = Inr (s\<lparr>as_calls := as_calls s @ completion_call h cmd\<rparr>)"
  by (simp add: publish_call_ok)

lemma publish_done_calls:
  assumes "publish_done A h msgid 0 removed s = Inr s'" "list_lib_ok (l_commands A)"
    "distinct (map qc_addr (h_responses (as_handles s ! h)))" "h < length (as_handles s)"
  shows "as_calls s' = as_calls s @ (if h_dc (as_handles s ! h) then [AsyncDeliveryComplete h msgid] else []) @
      (case find_response h msgid s of None \<Rightarrow> [] | Some q \<Rightarrow> completion_call h (qc_command q)) \<and>
    as_commands s' = as_commands s \<and>
    (\<forall>k. as_handles s' ! k = (case find_response h msgid s of None \<Rightarrow> as_handles s ! k
      | Some q \<Rightarrow> if k = h then (as_handles s ! h)\<lparr>h_responses :=
          filter (\<lambda>x. qc_addr x \<noteq> qc_addr q) (h_responses (as_handles s ! h))\<rparr> else as_handles s ! k))"
proof -
  define s0 where "s0 = (if h_dc (as_handles s ! h) then log_async (AsyncDeliveryComplete h msgid) s else s)"
  have s0: "as_calls s0 = as_calls s @ (if h_dc (as_handles s ! h) then [AsyncDeliveryComplete h msgid] else [])"
    "as_commands s0 = as_commands s" "as_handles s0 = as_handles s" by (simp_all add: s0_def log_async_def)
  have f: "find_response h msgid s0 = find_response h msgid s" by (simp add: find_response_def s0)
  show ?thesis
  proof (cases "find_response h msgid s")
    case None
    then have "MQTTProtocol_removePublication (a_env A) removed s0 = Inr s'"
      using assms(1) f by (simp add: publish_done_def Let_def s0_def [symmetric])
    from async_more [OF removePublication_more [OF this]] show ?thesis using None s0 by simp
  next
    case (Some q)
    define s1 where "s1 = (take_response A h q s0)\<lparr>as_calls := as_calls s0 @ completion_call h (qc_command q)\<rparr>"
    have tc: "as_calls (take_response A h q s0) = as_calls s0" by (simp add: take_response_def)
    from assms(1) f Some obtain s2 where
      s2: "MQTTProtocol_removePublication (a_env A) removed s1 = Inr s2"
        "MQTTAsync_freeCommand A (if removed = None then q else null_publish q) s2 = Inr s'"
      by (auto simp: publish_done_def Let_def s0_def [symmetric] ub_bind_Inr_iff publish_call_ok s1_def tc split: if_splits)
    have m: "sys.more s' = sys.more s1" using removePublication_more [OF s2(1)] freeCommand_more [OF s2(2)] by simp
    have d: "detach (l_commands A) (h_responses (as_handles s ! h)) (qc_addr q) =
        filter (\<lambda>x. qc_addr x \<noteq> qc_addr q) (h_responses (as_handles s ! h))" by (rule detach_filter [OF assms(2,3)])
    have "as_handles s1 ! k = (if k = h then (as_handles s ! h)\<lparr>h_responses :=
          filter (\<lambda>x. qc_addr x \<noteq> qc_addr q) (h_responses (as_handles s ! h))\<rparr> else as_handles s ! k)" for k
      using assms(4) by (simp add: s1_def take_response_def upd_async_handle s0 d)
    moreover have "as_calls s1 = as_calls s0 @ completion_call h (qc_command q)" "as_commands s1 = as_commands s"
      by (simp_all add: s1_def take_response_def s0)
    ultimately show ?thesis using async_more [OF m] Some s0 by simp
  qed
qed

text \<open>
  C12: Before version 5 a PUBACK or PUBCOMP with an id calls \<^verbatim>\<open>deliveryComplete\<close>, when it is set, and the
  success callback of the request that waits with this token, when there is one, and no other callback;
  the request waits no longer, and no other request or queue changes.
\<close>

theorem publish_completed:
  assumes "handle_async_ack A h sock a s = Inr (rc, s')" "list_lib_ok (l_commands A)" "h < length (as_handles s)"
    "distinct (map qc_addr (h_responses (as_handles s ! h)))" "hd_type (ak_header a) \<in> {PUBACK, PUBCOMP}"
    "ak_MQTTVersion a < MQTTVERSION_5" "ak_msgId a = Some msgid"
  shows "as_calls s' = as_calls s @ (if h_dc (as_handles s ! h) then [AsyncDeliveryComplete h msgid] else []) @
      (case find_response h msgid s of None \<Rightarrow> [] | Some q \<Rightarrow> completion_call h (qc_command q)) \<and>
    as_commands s' = as_commands s \<and>
    (\<forall>k. as_handles s' ! k = (case find_response h msgid s of None \<Rightarrow> as_handles s ! k
      | Some q \<Rightarrow> if k = h then (as_handles s ! h)\<lparr>h_responses :=
          filter (\<lambda>x. qc_addr x \<noteq> qc_addr q) (h_responses (as_handles s ! h))\<rparr> else as_handles s ! k))"
proof -
  have t: "hd_type (ak_header a) \<noteq> PUBREC" using assms(5) by (auto simp: msgTypes_defs)
  from assms(1,6,7) t obtain removed s1 where s1:
    "(if hd_type (ak_header a) = PUBCOMP then MQTTProtocol_handlePubcomps else MQTTProtocol_handlePubacks)
       (a_env A) a sock True s = Inr (rc, removed, s1)"
    "publish_done A h msgid 0 removed s1 = Inr s'"
    by (auto simp: handle_async_ack_def ack_id_def Let_def ub_bind_Inr_iff split: if_splits)
  have "sys.more s1 = sys.more s"
    using s1(1) handlePubcomps_more handlePubacks_more by (cases "hd_type (ak_header a) = PUBCOMP") auto
  note m = async_more [OF this]
  have f: "find_response h msgid s1 = find_response h msgid s" by (simp add: find_response_def m)
  from publish_done_calls [OF s1(2) assms(2)] assms(3,4) show ?thesis unfolding f m by blast
qed

subsection \<open>Discarded requests\<close>






subsection \<open>Tokens\<close>

lemma isComplete_iff:
  "MQTTAsync_isComplete (Some h) dt s = MQTTASYNC_TRUE \<longleftrightarrow>
    (\<forall>q\<in>set (as_commands s). qc_client q = h \<longrightarrow> qc_token q \<noteq> dt) \<and> (\<forall>m\<in>set (c_outboundMsgs (g_clients s ! h)). ms_msgid m \<noteq> dt)"
  by (auto simp: MQTTAsync_isComplete_def list_ex_iff async_codes)

definition wait_result_ok :: "nat \<Rightarrow> int \<Rightarrow> int \<Rightarrow> ('n, 'f) asys \<Rightarrow> bool" where
  "wait_result_ok h dt rc s \<longleftrightarrow>
     rc = MQTTASYNC_SUCCESS \<and> c_connected (g_clients s ! h) \<and> MQTTAsync_isComplete (Some h) dt s = MQTTASYNC_TRUE \<or>
     rc = MQTTASYNC_DISCONNECTED \<and> \<not> c_connected (g_clients s ! h) \<or> rc = MQTTASYNC_FAILURE"

lemma wait_completion_result:
  fixes A :: "('n, 'f) async_api"
  assumes "wait_completion A h dt start timeout e s = Some (Inr (rc, s'))"
  shows "wait_result_ok h dt rc s'"
proof -
  let ?P = "\<lambda>(A' :: ('n, 'f) async_api) h' dt' (start' :: timeval) (timeout' :: nat) (e :: nat) (s :: ('n, 'f) asys) (r :: ub + (int \<times> ('n, 'f) asys)). h' = h \<longrightarrow> dt' = dt \<longrightarrow> (\<forall>rc s'. r = Inr (rc, s') \<longrightarrow> wait_result_ok h dt rc s')"
  have "?P A h dt start timeout e s (Inr (rc, s'))"
  proof (rule wait_completion.raw_induct [where P = ?P, OF _ assms])
    fix f A h' dt' start timeout e s r
    assume IH: "\<And>A h dt start timeout e s r. f A h dt start timeout e s = Some r \<Longrightarrow> ?P A h dt start timeout e s r"
      and eq: "(if \<not> e < timeout then ret (MQTTASYNC_FAILURE, s)
      else run_bind (let_run A (sleep_async A 100 s)) (\<lambda>s.
        let rc = (if \<not> c_connected (g_clients s ! h') then MQTTASYNC_DISCONNECTED
              else if MQTTAsync_isComplete (Some h') dt' s = 1 then MQTTASYNC_SUCCESS else MQTTASYNC_FAILURE) in
        case elapsed_async A start s of (e, s) \<Rightarrow>
          if rc \<noteq> MQTTASYNC_FAILURE then ret (rc, s) else f A h' dt' start timeout e s)) = Some r"
    show "?P A h' dt' start timeout e s r"
    proof (intro impI allI)
      fix rc s' assume h: "h' = h" "dt' = dt" and r: "r = Inr (rc, s')"
      show "wait_result_ok h dt rc s'"
      proof (cases "e < timeout")
        case False
        then show ?thesis using eq r by (simp add: wait_result_ok_def)
      next
        case True
        with eq r obtain s1 where l: "let_run A (sleep_async A 100 s) = Some (Inr s1)"
          by (auto simp: run_bind_def split: option.splits sum.splits)
        obtain e1 s2 where e1: "elapsed_async A start s1 = (e1, s2)" by (cases "elapsed_async A start s1")
        have v: "g_clients s2 = g_clients s1" "as_commands s2 = as_commands s1"
          using e1 by (auto simp: elapsed_async_def split: prod.splits)
        have c: "MQTTAsync_isComplete k t s2 = MQTTAsync_isComplete k t s1" for k t
          unfolding MQTTAsync_isComplete_def v by (rule refl)
        show ?thesis
          using eq True r l h v c [of "Some h" dt] IH [of A h dt start timeout e1 s2 r]
          by (auto simp: run_bind_def Let_def e1 wait_result_ok_def async_codes split: if_splits)
      qed
    qed
  qed
  then show ?thesis by blast
qed

text \<open>
  What \<^verbatim>\<open>MQTTAsync_waitForCompletion\<close> returns is so when it returns, whatever the threads do while it
  sleeps: success only when the client is connected and the token is neither of a queued command of the
  client nor of a message in flight, \<^verbatim>\<open>MQTTASYNC_DISCONNECTED\<close> only when it is not connected.
\<close>

theorem async_wait_result:
  assumes "MQTTAsync_waitForCompletion A (Some h) dt timeout s = Some (Inr (rc, s'))"
  shows "rc = MQTTASYNC_SUCCESS \<and> c_connected (g_clients s' ! h) \<and> (\<forall>q\<in>set (as_commands s'). qc_client q = h \<longrightarrow> qc_token q \<noteq> dt) \<and>
      (\<forall>m\<in>set (c_outboundMsgs (g_clients s' ! h)). ms_msgid m \<noteq> dt) \<or>
    rc = MQTTASYNC_DISCONNECTED \<and> \<not> c_connected (g_clients s' ! h) \<or> rc = MQTTASYNC_FAILURE"
proof -
  obtain t s0 where t: "start_clock A s = (t, s0)" by (cases "start_clock A s")
  obtain e1 s1 where e1: "elapsed_async A t s0 = (e1, s1)" by (cases "elapsed_async A t s0")
  have "wait_result_ok h dt rc s'"
    using assms wait_completion_result [of A h dt t timeout e1 s1 rc s']
    by (auto simp: MQTTAsync_waitForCompletion_def t e1 wait_result_ok_def async_codes split: if_splits)
  then show ?thesis unfolding wait_result_ok_def isComplete_iff by blast
qed

text \<open>
  C40: A SUBSCRIBE or UNSUBSCRIBE that has been sent waits for its answer among the responses, and until
  that comes its token is reported as complete all the same, since only the queue and the messages in
  flight are looked at.
\<close>

theorem subscription_complete_early:
  assumes "list_lib_ok (l_commands A)" "qc_client q < length (as_handles s)" "rc \<noteq> SOCKET_ERROR" "rc \<noteq> MQTTASYNC_PERSISTENCE_ERROR"
    "is_Subscribe (qc_details q) \<or> is_Unsubscribe (qc_details q)"
    "qc_token q \<notin> set (map qc_token (as_commands s) @ map ms_msgid (c_outboundMsgs (g_clients s ! qc_client q)))"
  shows "\<exists>s'. command_done A rc q s = Inr s' \<and> find_response (qc_client q) (qc_token q) s' \<noteq> None \<and>
    MQTTAsync_isComplete (Some (qc_client q)) (qc_token q) s' = MQTTASYNC_TRUE"
proof -
  let ?s = "await_response A q s"
  have "command_done A rc q s = Inr ?s"
    using assms(3-5) by (cases "qc_details q") (simp_all add: command_done_def)
  moreover have "find_response (qc_client q) (qc_token q) ?s \<noteq> None"
    using assms(1,2)
    by (auto simp: find_response_def await_response_def upd_async_handle list_libD(1) Let_def cmdMessageIDCompare_def find_index_None)
  moreover have "MQTTAsync_isComplete (Some (qc_client q)) (qc_token q) ?s = MQTTASYNC_TRUE"
    using assms(6) unfolding isComplete_iff by (auto simp: await_response_def image_iff)
  ultimately show ?thesis by blast
qed


subsection \<open>Examples\<close>

lemma std_async_env: "heap_total (e_heap (a_env std_async))" "list_lib_ok (l_msgs (e_lists (a_env std_async)))"
  by (simp_all add: std_async_def std_env_def heap_total_def all_std_lists_def)


theorem async_id_unused_witness:
  "\<exists>m s'. MQTTAsync_assignMsgId std_async 0 (sample_queue [5] 6) = Some (m, s') \<and> m \<in> {1..65535} - {1}"
proof -
  let ?s = "sample_queue [5] 6"
  have i: "c_msgID (g_clients ?s ! 0) = 0" "map qc_token (as_commands ?s) @ map ms_msgid (c_outboundMsgs (g_clients ?s ! 0)) @
      map qc_token (h_responses (as_handles ?s ! 0)) = [1]" by (simp_all add: sample_defs)
  have h: "0 \<le> c_msgID (g_clients ?s ! 0)" "c_msgID (g_clients ?s ! 0) \<le> MAX_MSG_ID" by (simp_all add: i MAX_MSG_ID_def)
  have "(2 :: int) \<in> {1..MAX_MSG_ID}" by (simp add: MAX_MSG_ID_def)
  then have "\<not> {1..MAX_MSG_ID} \<subseteq> {1 :: int}" by fastforce
  with async_id_unused [OF std_async_lists std_async_env(2) h] show ?thesis
    unfolding i by (cases "MQTTAsync_assignMsgId std_async 0 ?s") (auto simp: MAX_MSG_ID_def split: if_splits)
qed


definition sample_retry :: "(unit, unit) asys" where
  "sample_retry = upd_async 0 (\<lambda>m. m\<lparr>h_automaticReconnect := True, h_shouldBeConnected := True, h_minRetryInterval := 1,
     h_maxRetryInterval := 60\<rparr>) (sample_queue [] 0)"

theorem retry_backoff_witness:
  "\<exists>s'. failed_attempts std_async 0 5 sample_retry = Inr s' \<and> h_currentIntervalBase (as_handles s' ! 0) = 16 \<and>
    13 \<le> h_currentInterval (as_handles s' ! 0) \<and> h_currentInterval (as_handles s' ! 0) \<le> 19"
proof -
  have r: "0 < k \<Longrightarrow> fst (a_rand_below (std_async :: (unit, unit) async_api) k n) < k" for k n by (simp add: std_async_def)
  have h: "0 < length (as_handles sample_retry)" "retry_settings (as_handles sample_retry ! 0) = (True, True, 1, 60)"
    "\<not> h_retrying (as_handles sample_retry ! 0)"
    by (simp_all add: sample_retry_def sample_defs retry_settings_def)
  have n: "(5 :: nat) = Suc 4" by simp
  from retry_backoff [OF _ _ _ r h, of 4] show ?thesis unfolding n by simp
qed

definition sample_response :: MQTTAsync_queuedCommand where
  "sample_response = (sample_queued 3)\<lparr>qc_command := sample_cmd\<lparr>cm_onSuccess := True, cm_onFailure := True\<rparr>\<rparr>"

definition sample_waiting :: "(unit, unit) asys" where
  "sample_waiting = upd_async 0 (\<lambda>m. m\<lparr>h_dc := True, h_responses := [sample_response]\<rparr>) (sample_queue [5] 6)"

definition sample_puback :: Ack where
  "sample_puback = \<lparr>ak_header = 64, ak_msgId = Some 1, ak_rc = None, ak_MQTTVersion = 4, ak_properties = None\<rparr>"

lemma sample_waiting_view:
  "h_responses (as_handles sample_waiting ! 0) = [sample_response]" "h_dc (as_handles sample_waiting ! 0)"
  "length (as_handles sample_waiting) = 1" "as_calls sample_waiting = []" "as_commands sample_waiting = [sample_queued 5]"
  "qc_client (sample_queued 5) = 0" "find_response 0 1 sample_waiting = Some sample_response"
  by (simp_all add: sample_waiting_def find_response_def cmdMessageIDCompare_def sample_response_def sample_defs)

lemma sample_free:
  "MQTTAsync_freeCommand std_async sample_response s = Inr s" "MQTTAsync_freeCommand std_async (sample_queued a) s = Inr s"
  "MQTTAsync_freeCommand std_async (null_publish sample_response) s = Inr s"
  "MQTTAsync_freeCommand std_async (null_publish (sample_queued a)) s = Inr s"
  by (simp_all add: MQTTAsync_freeCommand_def MQTTProperties_free_def entries_def MQTTProperties_initializer_def null_publish_def
      sample_response_def sample_queued_def sample_cmd_def new_queued_def zero_command_def)

lemma sample_response_publish: "is_publish (qc_details sample_response)"
  by (simp add: sample_response_def sample_queued_def sample_cmd_def new_queued_def)

theorem publish_completed_witness:
  "\<exists>rc s'. handle_async_ack std_async 0 5 sample_puback sample_waiting = Inr (rc, s') \<and>
    as_calls s' = [AsyncDeliveryComplete 0 1, OnSuccess 0 0 1 (PublishData (Some [97]) None 0 1 0)]"
proof -
  have t: "hd_type (ak_header sample_puback) = PUBACK" by (simp add: sample_puback_def hd_type_def msgTypes_defs)
  have p: "MQTTProtocol_handlePubacks (a_env std_async) sample_puback 5 True sample_waiting = Inr (TCPSOCKET_COMPLETE, None, sample_waiting)"
    by (simp add: MQTTProtocol_handlePubacks_def find_client_def clientSocketCompare_def ack_id_def sample_puback_def
        free_props_def version_defs sample_waiting_def sample_defs all_std_lists_def)
  have f: "find_response 0 1 (log_async c sample_waiting) = Some sample_response" for c
    using sample_waiting_view(7) by (simp add: find_response_def log_async_def)
  have "\<exists>s'. publish_done std_async 0 1 0 None sample_waiting = Inr s'"
    by (simp add: publish_done_def sample_waiting_view(2) f publish_call_publish [OF sample_response_publish] MQTTProtocol_removePublication_def Let_def sample_free)
  then obtain s' where d: "publish_done std_async 0 1 0 None sample_waiting = Inr s'" by blast
  have a: "handle_async_ack std_async 0 5 sample_puback sample_waiting = Inr (TCPSOCKET_COMPLETE, s')"
    using t p d by (simp add: handle_async_ack_def ack_id_def sample_puback_def version_defs msgTypes_defs Let_def)
  have "hd_type (ak_header sample_puback) \<in> {PUBACK, PUBCOMP}" "ak_MQTTVersion sample_puback < MQTTVERSION_5" "ak_msgId sample_puback = Some 1"
    using t by (simp_all add: sample_puback_def version_defs)
  from publish_completed [OF a std_async_lists _ _ this] show ?thesis
    using a by (simp add: sample_waiting_view)
      (simp add: completion_call_def sample_response_def sample_defs publish_data_def)
qed



theorem async_wait_result_witness:
  "\<exists>s'. MQTTAsync_waitForCompletion std_async (Some 0) 7 1000 (sample_queue [5] 6) = Some (Inr (MQTTASYNC_SUCCESS, s')) \<and>
    c_connected (g_clients s' ! 0)"
proof -
  have "\<exists>s'. MQTTAsync_waitForCompletion std_async (Some 0) 7 1000 (sample_queue [5] 6) = Some (Inr (MQTTASYNC_SUCCESS, s'))"
    by (simp add: MQTTAsync_waitForCompletion_def start_clock_def MQTTAsync_isComplete_def async_codes sample_defs)
  then obtain s' where s': "MQTTAsync_waitForCompletion std_async (Some 0) 7 1000 (sample_queue [5] 6) = Some (Inr (MQTTASYNC_SUCCESS, s'))"
    by blast
  from async_wait_result [OF s'] s' show ?thesis by (auto simp: async_codes)
qed

theorem subscription_complete_early_witness:
  "\<exists>s'. command_done std_async 0 ((sample_queued 3)\<lparr>qc_command := sample_cmd\<lparr>cm_token := 9, cm_details := Unsubscribe [[97]]\<rparr>\<rparr>)
      (sample_queue [5] 6) = Inr s' \<and> MQTTAsync_isComplete (Some 0) 9 s' = MQTTASYNC_TRUE"
proof -
  let ?q = "(sample_queued 3)\<lparr>qc_command := sample_cmd\<lparr>cm_token := 9, cm_details := Unsubscribe [[97]]\<rparr>\<rparr>"
  let ?s = "sample_queue [5] 6"
  have q: "qc_client ?q = 0" "qc_token ?q = 9" by (simp_all add: sample_queued_def new_queued_def)
  have h: "qc_client ?q < length (as_handles ?s)" "0 \<noteq> SOCKET_ERROR" "(0 :: int) \<noteq> MQTTASYNC_PERSISTENCE_ERROR"
    "is_Subscribe (qc_details ?q) \<or> is_Unsubscribe (qc_details ?q)"
    "qc_token ?q \<notin> set (map qc_token (as_commands ?s) @ map ms_msgid (c_outboundMsgs (g_clients ?s ! qc_client ?q)))"
    by (simp_all add: q SOCKET_ERROR_def async_codes) (simp_all add: sample_defs)
  from subscription_complete_early [OF std_async_lists h] show ?thesis unfolding q by blast
qed

end
