(* ===== verification/Version.thy ===== *)
theory Version
  imports State
begin

section \<open>The version tool: \<^verbatim>\<open>src/include/MQTTVersion.c\<close>\<close>

text \<open>
  The program prints the version of a library: it calls the function of the library for it, or, when
  the library cannot be loaded, looks for marks in its file. The build for Linux is modelled. What is
  printed is a list of lines. The loader, the files and what \<^verbatim>\<open>malloc\<close> leaves in the memory it returns are
  parameters; the C library's \<^verbatim>\<open>isprint\<close> is that of the C locale.
\<close>

definition libraries :: "string list" where
  "libraries = [''paho-mqtt3c'', ''paho-mqtt3cs'', ''paho-mqtt3a'', ''paho-mqtt3as'']"

definition eyecatchers :: "string list" where
  "eyecatchers = [''MQTTAsyncV3_Version'', ''MQTTAsyncV3_Timestamp'', ''MQTTClientV3_Version'', ''MQTTClientV3_Timestamp'']"

text \<open>
  A library that can be loaded: what \<^verbatim>\<open>MQTTAsync_getVersionInfo\<close> and \<^verbatim>\<open>MQTTClient_getVersionInfo\<close> return, where it
  has them, up to the entry without a name.
\<close>

record library =
  async_getVersionInfo :: "(string \<times> string) list option"
  client_getVersionInfo :: "(string \<times> string) list option"

record tool_env =
  t_dlopen :: "string \<Rightarrow> string + library"      \<comment> \<open>the text of \<^verbatim>\<open>dlerror\<close>, or the library\<close>
  t_file :: "string \<Rightarrow> bytes option"
  t_malloc :: "nat \<Rightarrow> bytes option"           \<comment> \<open>the contents of the memory, of this length\<close>

definition isprint :: "byte \<Rightarrow> bool" where
  "isprint c \<longleftrightarrow> 32 \<le> c \<and> c \<le> 126"

subsection \<open>Finding a mark\<close>

text \<open>
  The text after the mark is written into an array of 100 bytes. The end of the file is not a printing
  character.
\<close>

definition value_size :: nat where "value_size = 100"

definition read_mark :: "bytes \<Rightarrow> ub + bytes" where
  "read_mark rest =
     (let v = takeWhile isprint (drop 1 rest) in if length v \<le> value_size then Inr v else Inl OverWrite)"

text \<open>
  The loop over the characters of the file. The number of characters in the buffer is set to 0 in every
  turn, so each goes to the first place; the buffer is moved only when its length is 1.
\<close>

fun find_loop :: "bytes \<Rightarrow> bytes \<Rightarrow> bytes \<Rightarrow> ub + bytes" where
  "find_loop eyecatcher buffer [] = Inr []"
| "find_loop eyecatcher buffer (c # rest) =
     (let buffer = buffer[0 := c] in
      if take (length eyecatcher) buffer = eyecatcher then read_mark rest
      else find_loop eyecatcher buffer rest)"

definition FindString :: "tool_env \<Rightarrow> string \<Rightarrow> string \<Rightarrow> ub + bytes" where
  "FindString T filename eyecatcher_input =
     (case t_file T filename of None \<Rightarrow> Inr []
      | Some infile \<Rightarrow>
         let eyecatcher = map of_char eyecatcher_input in
         (case t_malloc T (length eyecatcher + 1) of None \<Rightarrow> Inr []
          | Some buffer \<Rightarrow> find_loop eyecatcher buffer infile))"

subsection \<open>Printing\<close>

definition printVersionInfo :: "(string \<times> string) list \<Rightarrow> int \<times> string list" where
  "printVersionInfo info =
     (if info = [] then 0 else 1, map (\<lambda>(name, val). name @ '': '' @ val) info)"

definition loadandcall :: "tool_env \<Rightarrow> string \<Rightarrow> int \<times> string list" where
  "loadandcall T libname =
     (case t_dlopen T libname of
        Inl err \<Rightarrow> (0, [''Error loading library '' @ libname @ '', error '' @ err])
      | Inr lib \<Rightarrow>
         (case (case async_getVersionInfo lib of None \<Rightarrow> client_getVersionInfo lib | f \<Rightarrow> f) of
            None \<Rightarrow> (0, [])
          | Some info \<Rightarrow> printVersionInfo info))"

text \<open>A value that fills the array has no end, and is printed with what is behind it.\<close>

definition print_value :: "string \<Rightarrow> bytes \<Rightarrow> ub + string list" where
  "print_value eyecatcher v =
     (if v = [] then Inr []
      else if length v = value_size then Inl OverRead
      else Inr [eyecatcher @ '': '' @ map (\<lambda>c. char_of (unat c)) v])"

fun print_marks :: "tool_env \<Rightarrow> string \<Rightarrow> string list \<Rightarrow> ub + string list" where
  "print_marks T filename [] = Inr []"
| "print_marks T filename (e # es) =
     ub_bind (FindString T filename e) (\<lambda>v.
     ub_bind (print_value e v) (\<lambda>ls.
     ub_bind (print_marks T filename es) (\<lambda>rest. Inr (ls @ rest))))"

definition printEyecatchers :: "tool_env \<Rightarrow> string \<Rightarrow> ub + string list" where
  "printEyecatchers T filename = print_marks T filename eyecatchers"

definition show_library :: "tool_env \<Rightarrow> string \<Rightarrow> ub + string list" where
  "show_library T name =
     (let (rc, ls) = loadandcall T name in
      if rc = 0 then ub_bind (printEyecatchers T name) (\<lambda>es. Inr (ls @ es)) else Inr ls)"

fun try_libraries :: "tool_env \<Rightarrow> string list \<Rightarrow> ub + string list" where
  "try_libraries T [] = Inr []"
| "try_libraries T (l # ls) =
     (let namebuf = fst (snprintf 60 (''lib'' @ l @ ''.so.1'')) in
      ub_bind (show_library T namebuf) (\<lambda>out.
      ub_bind (try_libraries T ls) (\<lambda>rest.
        Inr ((''--- Trying library '' @ l @ '' ---'') # out @ rest))))"

definition version_main :: "tool_env \<Rightarrow> string list \<Rightarrow> ub + string list" where
  "version_main T argv =
     (let out = [''MQTTVersion: print the version strings of an MQTT client library'',
            ''Copyright (c) 2012, 2018 IBM Corp.''] in
      if length argv = 1
      then ub_bind (try_libraries T libraries) (\<lambda>ls. Inr (out @
        ''Specify a particular library name if it is not in the current directory, or not executable on this platform''
          # ls))
      else if argv = [] then Inl OverRead
      else ub_bind (show_library T (argv ! 1)) (\<lambda>ls. Inr (out @ ls)))"

subsection \<open>What the libraries answer\<close>

text \<open>
  The functions of the two libraries that are called here, without OpenSSL. The version and the time
  of the build are made by the build: parameters.
\<close>

definition MQTTClient_getVersionInfo :: "string \<Rightarrow> string \<Rightarrow> (string \<times> string) list" where
  "MQTTClient_getVersionInfo CLIENT_VERSION BUILD_TIMESTAMP =
     [(''Product name'', ''Eclipse Paho Synchronous MQTT C Client Library''), (''Version'', CLIENT_VERSION),
      (''Build level'', BUILD_TIMESTAMP)]"

definition MQTTAsync_getVersionInfo :: "string \<Rightarrow> string \<Rightarrow> (string \<times> string) list" where
  "MQTTAsync_getVersionInfo CLIENT_VERSION BUILD_TIMESTAMP =
     [(''Product name'', ''Eclipse Paho Asynchronous MQTT C Client Library''), (''Version'', CLIENT_VERSION),
      (''Build level'', BUILD_TIMESTAMP)]"

text \<open>
  The asynchronous library is asked first; the synchronous one, which lacks that function, is found by the
  second name. The file is looked through only when nothing was printed.
\<close>

lemma show_library_loaded:
  assumes "t_dlopen T name = Inr lib"
    "lib = \<lparr>async_getVersionInfo = Some (MQTTAsync_getVersionInfo v b), client_getVersionInfo = c\<rparr> \<and> product = ''Asynchronous'' \<or>
     lib = \<lparr>async_getVersionInfo = None, client_getVersionInfo = Some (MQTTClient_getVersionInfo v b)\<rparr> \<and> product = ''Synchronous''"
  shows "show_library T name = Inr [''Product name: Eclipse Paho '' @ product @ '' MQTT C Client Library'',
    ''Version: '' @ v, ''Build level: '' @ b]"
  using assms(2)
  by (elim disjE) (simp_all add: show_library_def loadandcall_def assms(1) printVersionInfo_def
    MQTTAsync_getVersionInfo_def MQTTClient_getVersionInfo_def)

subsection \<open>Nothing is found\<close>

text \<open>Memory in which no mark but for its first character lies already.\<close>

definition no_mark_left :: "(nat \<Rightarrow> bytes option) \<Rightarrow> bool" where
  "no_mark_left malloc \<longleftrightarrow> (\<forall>e\<in>set eyecatchers. case malloc (length e + 1) of None \<Rightarrow> True
     | Some b \<Rightarrow> length b = length e + 1 \<and> take (length e - 1) (tl b) \<noteq> map of_char (tl e))"

lemma find_loop_blind:
  assumes "length b = length e + 1" "e \<noteq> []" "take (length e - 1) (tl b) \<noteq> tl e"
  shows "find_loop e b cs = Inr []"
  using assms
proof (induction cs arbitrary: b)
  case (Cons c cs)
  obtain x b' where b: "b = x # b'" using Cons.prems(1) by (cases b) auto
  obtain y e' where e: "e = y # e'" using Cons.prems(2) by (cases e) auto
  have "take (length e) (b[0 := c]) \<noteq> e" using Cons.prems(3) by (auto simp: b e)
  moreover have "find_loop e (b[0 := c]) cs = Inr []" using Cons.prems by (intro Cons.IH) (simp_all add: b)
  ultimately show ?case by (simp add: Let_def)
qed simp

lemma FindString_blind:
  assumes "no_mark_left (t_malloc T)" "e \<in> set eyecatchers"
  shows "FindString T name e = Inr []"
proof -
  have n: "e \<noteq> []" using assms(2) by (auto simp: eyecatchers_def)
  show ?thesis
    using assms n find_loop_blind [of _ "map of_char e"]
    by (auto simp: FindString_def no_mark_left_def Let_def map_tl split: option.splits)
qed

text \<open>
  The tool never finds a mark in a file, whatever the file holds, unless the memory it gets happens
  to hold the mark already: for a library that cannot be loaded it prints the error only.
\<close>

theorem version_tool_blind:
  assumes "no_mark_left (t_malloc T)" "t_dlopen T name = Inl err"
  shows "version_main T [prog, name] = Inr [''MQTTVersion: print the version strings of an MQTT client library'',
    ''Copyright (c) 2012, 2018 IBM Corp.'', ''Error loading library '' @ name @ '', error '' @ err]"
proof -
  have "print_marks T name es = Inr []" if "set es \<subseteq> set eyecatchers" for es
    using that by (induction es) (simp_all add: FindString_blind [OF assms(1)] print_value_def)
  then have "printEyecatchers T name = Inr []" by (simp add: printEyecatchers_def)
  then show ?thesis using assms(2) by (simp add: version_main_def show_library_def loadandcall_def)
qed

definition library_file :: bytes where
  "library_file = map of_char ''..MQTTClientV3_Version 1.3.9''"

definition zero_memory :: tool_env where
  "zero_memory = \<lparr>t_dlopen = \<lambda>_. Inl ''not found'', t_file = \<lambda>_. Some library_file, t_malloc = \<lambda>n. Some (replicate n 0)\<rparr>"

theorem version_tool_blind_witness:
  "version_main zero_memory [''MQTTVersion'', ''lib.so''] = Inr [''MQTTVersion: print the version strings of an MQTT client library'',
    ''Copyright (c) 2012, 2018 IBM Corp.'', ''Error loading library lib.so, error not found'']"
proof -
  have "no_mark_left (t_malloc zero_memory)" by (simp add: no_mark_left_def eyecatchers_def zero_memory_def)
  from version_tool_blind [OF this, of "''lib.so''" "''not found''"] show ?thesis by (simp add: zero_memory_def)
qed

end
